(* ===== verification/Prelude.thy ===== *)
theory Prelude
  imports Main "HOL-Library.Word" "HOL-Library.Multiset"
begin

text \<open>
  What every component shares: the results of Go calls (errors and run-time panics as values),
  64-bit unsigned integers and the counting loop over them, instants of time, and the
  functions of the \<open>strings\<close> and \<open>fmt\<close> packages that the code uses, with the lemmas about them.
\<close>

named_theorems go_simps \<open>evaluation of the Go library functions on concrete arguments\<close>
named_theorems key_simps \<open>facts about the string keys built by the code\<close>

section \<open>Results\<close>

text \<open>
  A Go call returns an error value or panics (nil dereference, failed type assertion). Both are
  values here: \<open>Err\<close> carries the text of the error, \<open>Panic\<close> the kind of the panic.
\<close>

datatype go_error = Err string | Panic string

type_synonym 'a res = "go_error + 'a"

abbreviation NilDereference :: go_error where
  "NilDereference \<equiv> Panic ''nil pointer dereference''"

abbreviation BadAssertion :: go_error where
  "BadAssertion \<equiv> Panic ''interface conversion''"

definition returns :: "'a res \<times> 'w \<Rightarrow> bool" where
  "returns r = (case fst r of Inl _ \<Rightarrow> False | Inr _ \<Rightarrow> True)"

lemma returns_simps [simp]:
  "returns (Inl e, w) = False" "returns (Inr x, w) = True"
  by (simp_all add: returns_def)

text \<open>\<open>x, err := m(); if err != nil { return err }; f(x)\<close>, threading the state.\<close>

definition and_then :: "'a res \<times> 'w \<Rightarrow> ('a \<Rightarrow> 'w \<Rightarrow> 'b res \<times> 'w) \<Rightarrow> 'b res \<times> 'w" where
  "and_then m f = (case m of (Inl e, w) \<Rightarrow> (Inl e, w) | (Inr x, w) \<Rightarrow> f x w)"

lemma and_then_simps [simp]:
  "and_then (Inl e, w) f = (Inl e, w)"
  "and_then (Inr x, w) f = f x w"
  by (simp_all add: and_then_def)

lemma and_then_Inr: "and_then m f = (Inr y, w') \<longleftrightarrow> (\<exists>x w. m = (Inr x, w) \<and> f x w = (Inr y, w'))"
  by (auto simp: and_then_def split: prod.splits sum.splits)

lemma and_then_Inl:
  "and_then m f = (Inl e, w') \<longleftrightarrow> m = (Inl e, w') \<or> (\<exists>x w. m = (Inr x, w) \<and> f x w = (Inl e, w'))"
  by (auto simp: and_then_def split: prod.splits sum.splits)

text \<open>A pure step that may fail.\<close>

definition lift_res :: "'a res \<Rightarrow> 'w \<Rightarrow> 'a res \<times> 'w" where
  "lift_res r w = (r, w)"

lemma lift_res_simps [simp]: "lift_res r w = (r, w)"
  by (simp add: lift_res_def)

section \<open>Integers\<close>

type_synonym uint64 = "64 word"

text \<open>
  The loop \<^verbatim>\<open>for i := a; i <= n; i++ { if err := f(i); err != nil { return err } }\<close> over
  \<open>uint64\<close>. The counter wraps, so for \<open>n = 2^64 - 1\<close> the guard never fails: the loop returns
  only when the body does. \<open>None\<close> is a loop that does not return.
\<close>

partial_function (option) for_upto ::
  "(uint64 \<Rightarrow> 'w \<Rightarrow> unit res \<times> 'w) \<Rightarrow> uint64 \<Rightarrow> uint64 \<Rightarrow> 'w \<Rightarrow> (unit res \<times> 'w) option" where
  "for_upto f i n w =
     (if i \<le> n then
        (case f i w of
           (Inl e, w') \<Rightarrow> Some (Inl e, w')
         | (Inr _, w') \<Rightarrow> for_upto f (i + 1) n w')
      else Some (Inr (), w))"

text \<open>The same loop as a recursion on the list of the indices it visits.\<close>

fun each :: "('i \<Rightarrow> 'w \<Rightarrow> unit res \<times> 'w) \<Rightarrow> 'i list \<Rightarrow> 'w \<Rightarrow> unit res \<times> 'w" where
  "each f [] w = (Inr (), w)"
| "each f (i # is) w =
     (case f i w of
        (Inl e, w') \<Rightarrow> (Inl e, w')
      | (Inr _, w') \<Rightarrow> each f is w')"

definition word_range :: "uint64 \<Rightarrow> uint64 \<Rightarrow> uint64 list" where
  "word_range i n = map of_nat [unat i ..< Suc (unat n)]"

lemma unat_add_1: "i \<le> n \<Longrightarrow> n \<noteq> - 1 \<Longrightarrow> unat (i + 1) = Suc (unat i)" for i n :: uint64
  by (metis add.commute max_word_wrap unatSuc word_order.extremum_uniqueI)

lemma word_range_Nil: "\<not> i \<le> n \<Longrightarrow> word_range i n = []"
  by (simp add: word_range_def word_le_nat_alt)

lemma word_range_Cons:
  assumes "i \<le> n" and "n \<noteq> (- 1)"
  shows "word_range i n = i # word_range (i + 1) n"
proof -
  have "unat i \<le> unat n" using assms(1) by (simp add: word_le_nat_alt)
  have "unat (i + 1) = Suc (unat i)" using assms by (rule unat_add_1)
  with \<open>unat i \<le> unat n\<close> show ?thesis
    by (simp add: word_range_def upt_conv_Cons del: upt_Suc)
qed

lemma for_upto_each:
  assumes "n \<noteq> (- 1)"
  shows "for_upto f i n w = Some (each f (word_range i n) w)"
proof (induction "unat n + 1 - unat i" arbitrary: i w rule: less_induct)
  case less
  show ?case
  proof (cases "i \<le> n")
    case False
    then show ?thesis by (simp add: for_upto.simps word_range_Nil)
  next
    case True
    then have "unat i \<le> unat n" by (simp add: word_le_nat_alt)
    moreover have "unat (i + 1) = Suc (unat i)" using True assms by (rule unat_add_1)
    ultimately have "unat n + 1 - unat (i + 1) < unat n + 1 - unat i" by simp
    then have "for_upto f (i + 1) n w' = Some (each f (word_range (i + 1) n) w')" for w'
      by (rule less)
    with True assms show ?thesis
      by (simp add: for_upto.simps [of f i] word_range_Cons split: prod.splits sum.splits)
  qed
qed

text \<open>
  A loop that does not return leaves its caller in the state of a goroutine that runs for ever: the
  outcome \<open>NoReturn\<close>, which like a panic nobody catches.
\<close>

abbreviation NoReturn :: go_error where
  "NoReturn \<equiv> Panic ''no return''"

definition loop_upto ::
  "(uint64 \<Rightarrow> 'w \<Rightarrow> unit res \<times> 'w) \<Rightarrow> uint64 \<Rightarrow> uint64 \<Rightarrow> 'w \<Rightarrow> unit res \<times> 'w" where
  "loop_upto f i n w = (case for_upto f i n w of Some r \<Rightarrow> r | None \<Rightarrow> (Inl NoReturn, w))"

lemma for_upto_Some:
  assumes "for_upto f i n w = Some r"
  shows "\<not> (n = - 1 \<and> (\<forall>i w. fst (f i w) = Inr ()))"
  using assms
proof (rule for_upto.raw_induct [where P = "\<lambda>f i n w r. \<not> (n = - 1 \<and> (\<forall>i w. fst (f i w) = Inr ()))", rotated])
  fix loop :: "(uint64 \<Rightarrow> 'w \<Rightarrow> unit res \<times> 'w) \<Rightarrow> uint64 \<Rightarrow> uint64 \<Rightarrow> 'w \<Rightarrow> (unit res \<times> 'w) option"
  fix f :: "uint64 \<Rightarrow> 'w \<Rightarrow> unit res \<times> 'w"
  fix i n :: uint64
  fix w :: 'w
  fix r :: "unit res \<times> 'w"
  assume IH: "\<And>f i n w r. loop f i n w = Some r \<Longrightarrow> \<not> (n = - 1 \<and> (\<forall>i w. fst (f i w) = Inr ()))"
    and step: "(if i \<le> n then case f i w of (Inl e, w') \<Rightarrow> Some (Inl e, w') | (Inr _, w') \<Rightarrow> loop f (i + 1) n w'
      else Some (Inr (), w)) = Some r"
  show "\<not> (n = - 1 \<and> (\<forall>i w. fst (f i w) = Inr ()))"
  proof (rule notI, elim conjE)
    assume n: "n = - 1" and ok: "\<forall>i w. fst (f i w) = Inr ()"
    then obtain w' where "f i w = (Inr (), w')" by (metis prod.collapse)
    with n step have "loop f (i + 1) n w' = Some r" by simp
    then show False using IH n ok by blast
  qed
qed

lemma loop_upto_max: "(\<And>i w. fst (f i w) = Inr ()) \<Longrightarrow> loop_upto f i (- 1) w = (Inl NoReturn, w)"
  using for_upto_Some [of f i "- 1" w] by (auto simp: loop_upto_def split: option.splits)

lemma each_ok: "(\<And>i w. i \<in> set is \<Longrightarrow> fst (f i w) = Inr ()) \<Longrightarrow> fst (each f is w) = Inr ()"
proof (induction "is" arbitrary: w)
  case (Cons i "is")
  then have "fst (f i w) = Inr ()" by simp
  then obtain w' where "f i w = (Inr (), w')" by (cases "f i w") simp
  with Cons show ?case by simp
qed simp

lemma loop_upto_each: "n \<noteq> (- 1) \<Longrightarrow> loop_upto f i n w = each f (word_range i n) w"
  by (simp add: loop_upto_def for_upto_each)

lemma each_preserves:
  assumes "\<And>i w. i \<in> set is \<Longrightarrow> P w \<Longrightarrow> P (snd (f i w))" and "P w"
  shows "P (snd (each f is w))"
  using assms
proof (induction "is" arbitrary: w)
  case (Cons i "is")
  obtain r w' where f: "f i w = (r, w')" by fastforce
  have "P w'" using Cons.prems(1) [of i w] Cons.prems(2) f by simp
  then have "P (snd (each f is w'))" using Cons by simp
  with f \<open>P w'\<close> show ?case by (simp split: sum.splits)
qed simp

section \<open>Instants of time\<close>

text \<open>\<open>time.Time\<close>: instants, ordered by \<open>Before\<close>. A \<open>*time.Time\<close> is an option.\<close>

datatype go_time = Instant (nanos: int)

instantiation go_time :: linorder
begin

definition less_eq_go_time :: "go_time \<Rightarrow> go_time \<Rightarrow> bool" where
  "less_eq_go_time a b = (nanos a \<le> nanos b)"

definition less_go_time :: "go_time \<Rightarrow> go_time \<Rightarrow> bool" where
  "less_go_time a b = (nanos a < nanos b)"

instance
  by standard (auto simp: less_eq_go_time_def less_go_time_def intro: go_time.expand)

end

lemma Instant_less [simp]: "Instant a < Instant b \<longleftrightarrow> a < b"
  by (simp add: less_go_time_def)

lemma Instant_le [simp]: "Instant a \<le> Instant b \<longleftrightarrow> a \<le> b"
  by (simp add: less_eq_go_time_def)

section \<open>Strings\<close>

text \<open>\<open>strings.HasPrefix\<close> and \<open>strings.Contains\<close>.\<close>

fun has_prefix :: "string \<Rightarrow> string \<Rightarrow> bool" where
  "has_prefix s [] = True"
| "has_prefix [] (p # ps) = False"
| "has_prefix (c # s) (p # ps) = (c = p \<and> has_prefix s ps)"

fun contains :: "string \<Rightarrow> string \<Rightarrow> bool" where
  "contains [] sub = has_prefix [] sub"
| "contains (c # s) sub = (has_prefix (c # s) sub \<or> contains s sub)"

lemma has_prefix_append [simp]: "has_prefix (p @ s) p"
  by (induction p) auto

lemma has_prefix_refl [simp]: "has_prefix p p"
  using has_prefix_append [of p "[]"] by simp

lemma contains_refl [simp]: "contains s s"
  by (cases s) auto

lemma contains_Nil [simp]: "contains s []"
  by (cases s) auto

lemma has_prefix_iff: "has_prefix s p \<longleftrightarrow> (\<exists>t. s = p @ t)"
  by (induction s p rule: has_prefix.induct) auto

lemma contains_iff: "contains s sub \<longleftrightarrow> (\<exists>xs ys. s = xs @ sub @ ys)"
proof (induction s)
  case (Cons c s)
  have "(\<exists>xs ys. c # s = xs @ sub @ ys) \<longleftrightarrow> (\<exists>ys. c # s = sub @ ys) \<or> (\<exists>xs ys. s = xs @ sub @ ys)" (is "?l \<longleftrightarrow> ?r")
  proof
    assume ?l
    then obtain xs ys where "c # s = xs @ sub @ ys" by blast
    then show ?r by (cases xs) auto
  next
    assume ?r
    then show ?l by (metis append_Cons append_Nil)
  qed
  with Cons.IH show ?case by (simp add: has_prefix_iff)
qed (auto simp: has_prefix_iff)

text \<open>
  \<open>strings.Split\<close> with a separator of one byte: the result is never empty, and the empty
  string splits into one empty piece. \<open>strings.Join\<close>.
\<close>

fun split_on :: "char \<Rightarrow> string \<Rightarrow> string list" where
  "split_on c [] = [[]]"
| "split_on c (x # xs) =
     (if x = c then [] # split_on c xs
      else (case split_on c xs of [] \<Rightarrow> [[x]] | w # ws \<Rightarrow> (x # w) # ws))"

fun join_with :: "string \<Rightarrow> string list \<Rightarrow> string" where
  "join_with sep [] = []"
| "join_with sep [w] = w"
| "join_with sep (w # ws) = w @ sep @ join_with sep ws"

lemma split_on_nonempty [simp]: "split_on c s \<noteq> []"
  by (cases s) (auto split: list.splits)

lemma split_on_no_sep: "c \<notin> set s \<Longrightarrow> split_on c s = [s]"
  by (induction s) auto

lemma split_on_append_sep:
  "c \<notin> set w \<Longrightarrow> split_on c (w @ c # s) = w # split_on c s"
  by (induction w) auto

lemma split_on_pieces: "w \<in> set (split_on c s) \<Longrightarrow> c \<notin> set w"
  by (induction s arbitrary: w) (force split: if_splits list.splits)+

theorem split_on_join_with:
  assumes "ws \<noteq> []" and "\<forall>w \<in> set ws. c \<notin> set w"
  shows "split_on c (join_with [c] ws) = ws"
  using assms
  by (induction "[c]" ws rule: join_with.induct) (auto simp: split_on_no_sep split_on_append_sep)

text \<open>\<open>strings.Split\<close> with a separator of several bytes; \<open>k\<close> bytes of a separator are left to skip.\<close>

fun split_skip :: "nat \<Rightarrow> string \<Rightarrow> string \<Rightarrow> string list" where
  "split_skip k sep [] = [[]]"
| "split_skip (Suc k) sep (c # cs) = split_skip k sep cs"
| "split_skip 0 sep (c # cs) =
     (if has_prefix (c # cs) sep then [] # split_skip (length sep - 1) sep cs
      else (case split_skip 0 sep cs of [] \<Rightarrow> [[c]] | w # ws \<Rightarrow> (c # w) # ws))"

definition split_str :: "string \<Rightarrow> string \<Rightarrow> string list" where
  "split_str sep s = split_skip 0 sep s"

lemma split_skip_none: "\<not> contains s sep \<Longrightarrow> split_skip 0 sep s = [s]"
  by (induction s) auto

lemma split_skip_drop: "split_skip (length p) sep (p @ s) = split_skip 0 sep s"
  by (induction p) auto

lemma split_str_leading:
  assumes "sep \<noteq> []" and "\<not> contains s sep"
  shows "split_str sep (sep @ s) = [[], s]"
proof (cases sep)
  case (Cons c cs)
  have "has_prefix (c # cs @ s) (c # cs)" using has_prefix_append [of "c # cs" s] by simp
  with Cons assms(2) show ?thesis
    by (simp add: split_str_def split_skip_drop split_skip_none)
qed (use assms in simp)

text \<open>\<open>strings.TrimPrefix\<close>.\<close>

definition trim_prefix :: "string \<Rightarrow> string \<Rightarrow> string" where
  "trim_prefix s p = (if has_prefix s p then drop (length p) s else s)"

section \<open>Decimal numerals\<close>

text \<open>\<open>fmt.Sprintf("%v", n)\<close> and \<open>strconv.FormatInt(n, 10)\<close> of an integer.\<close>

fun show_nat :: "nat \<Rightarrow> string" where
  "show_nat n =
     (if n < 10 then [''0123456789'' ! n]
      else show_nat (n div 10) @ [''0123456789'' ! (n mod 10)])"

declare show_nat.simps [simp del]

definition show_int :: "int \<Rightarrow> string" where
  "show_int k = (if k < 0 then ''-'' @ show_nat (nat (- k)) else show_nat (nat k))"

definition show_u64 :: "uint64 \<Rightarrow> string" where
  "show_u64 n = show_nat (unat n)"

definition digit_value :: "char \<Rightarrow> nat" where
  "digit_value c = of_char c - 48"

definition read_nat :: "string \<Rightarrow> nat" where
  "read_nat s = foldl (\<lambda>n c. n * 10 + digit_value c) 0 s"

lemma less_10_cases: "(d::nat) < 10 \<Longrightarrow> d \<in> {0,1,2,3,4,5,6,7,8,9}"
  by auto

lemma digit_value_digit: "d < 10 \<Longrightarrow> digit_value (''0123456789'' ! d) = d"
  by (drule less_10_cases) (auto simp: digit_value_def)

definition digit_chars :: "char set" where
  "digit_chars = set ''0123456789''"

lemma not_digit [key_simps]:
  "CHR '':'' \<notin> digit_chars" "CHR ''-'' \<notin> digit_chars" "CHR ''/'' \<notin> digit_chars"
  by (simp_all add: digit_chars_def)

lemma digit_in: "d < 10 \<Longrightarrow> ''0123456789'' ! d \<in> digit_chars"
  unfolding digit_chars_def by (rule nth_mem) simp

lemma read_show_nat: "read_nat (show_nat n) = n"
proof (induction n rule: show_nat.induct)
  case (1 n)
  show ?case
  proof (cases "n < 10")
    case True
    then show ?thesis by (simp add: show_nat.simps [of n] read_nat_def digit_value_digit)
  next
    case False
    with 1 have "read_nat (show_nat (n div 10)) = n div 10" by simp
    with False show ?thesis
      by (simp add: show_nat.simps [of n] read_nat_def digit_value_digit)
  qed
qed

lemma show_nat_inject [simp]: "show_nat m = show_nat n \<longleftrightarrow> m = n"
  by (metis read_show_nat)

lemma show_u64_inject [simp]: "show_u64 m = show_u64 n \<longleftrightarrow> m = n"
  by (simp add: show_u64_def unsigned_word_eqI) (metis unsigned_word_eqI)

lemma set_show_nat: "set (show_nat n) \<subseteq> digit_chars"
proof (induction n rule: show_nat.induct)
  case (1 n)
  show ?case
  proof (cases "n < 10")
    case True
    then show ?thesis
      using digit_in [OF True] by (simp add: show_nat.simps [of n] del: nth_Cons_numeral)
  next
    case False
    have "''0123456789'' ! (n mod 10) \<in> digit_chars" by (rule digit_in) simp
    moreover have "set (show_nat (n div 10)) \<subseteq> digit_chars" using 1 False by blast
    ultimately show ?thesis
      using False by (simp add: show_nat.simps [of n])
  qed
qed

lemma show_u64_no [key_simps]: "c \<notin> digit_chars \<Longrightarrow> c \<notin> set (show_u64 n)"
  using set_show_nat [of "unat n"] by (auto simp: show_u64_def)

lemma append_sep_inject:
  "c \<notin> set a \<Longrightarrow> c \<notin> set b \<Longrightarrow> a @ c # s = b @ c # t \<longleftrightarrow> a = b \<and> s = t"
proof (induction a arbitrary: b)
  case Nil
  then show ?case by (cases b) auto
next
  case (Cons x a)
  then show ?case by (cases b) auto
qed

section \<open>Lists\<close>

text \<open>\<open>find_first\<close> is the \<open>for ... { if p(x) { return x } }\<close> of the lookup functions.\<close>

fun find_first :: "('a \<Rightarrow> bool) \<Rightarrow> 'a list \<Rightarrow> 'a option" where
  "find_first p [] = None"
| "find_first p (x # xs) = (if p x then Some x else find_first p xs)"

lemma find_first_None [simp]: "find_first p xs = None \<longleftrightarrow> (\<forall>x \<in> set xs. \<not> p x)"
  by (induction xs) auto

lemma find_first_Some: "find_first p xs = Some x \<Longrightarrow> x \<in> set xs \<and> p x"
  by (induction xs) (auto split: if_splits)

end
