(* ===== verification/Entity.thy ===== *)
theory Entity
  imports Prelude Complex_Main
begin

text \<open>
  The data of the node: the entities of \<^verbatim>\<open>p2p/chain/entity\<close>, \<^verbatim>\<open>p2p/dht/entity\<close> and
  \<^verbatim>\<open>p2p/msg/entity\<close> as records, field by field (the field names carry a prefix, since two
  records share many of them), their zero values (\<open>DataBlock{}\<close> is \<open>data_block0\<close>), the message
  types and the other string constants. The fields \<open>Id\<close>, \<open>CreateDate\<close>, \<open>UpdateDate\<close>, \<open>Status\<close>
  and \<open>StatusDate\<close> of the records whose structs embed an entity of \<^verbatim>\<open>go-colla-core\<close> are the
  columns that the code names. A \<open>*time.Time\<close> is an option, a \<open>float64\<close> a rational, an
  \<open>interface{}\<close> payload a sum of the types that the code stores there, where a typed pointer
  may itself be nil.
\<close>

section \<open>Records of the ledger\<close>

record transaction_key =
  tk_Id :: "uint64"
  tk_CreateDate :: "go_time option"
  tk_UpdateDate :: "go_time option"
  tk_BlockId :: "string"
  tk_PeerId :: "string"
  tk_PayloadKey :: "string"
  tk_PublicKey :: "string"
  tk_Address :: "string"
  tk_PeerType :: "string"
  tk_Key :: "string"

definition transaction_key0 :: transaction_key where
  "transaction_key0 = \<lparr>
     tk_Id = 0,
     tk_CreateDate = None,
     tk_UpdateDate = None,
     tk_BlockId = [],
     tk_PeerId = [],
     tk_PayloadKey = [],
     tk_PublicKey = [],
     tk_Address = [],
     tk_PeerType = [],
     tk_Key = []\<rparr>"

text \<open>\<open>TransactionKeys\<close> is a slice that may be nil (\<open>None\<close>), which the code tells from an empty one.\<close>

record data_block =
  db_Id :: "uint64"
  db_CreateDate :: "go_time option"
  db_UpdateDate :: "go_time option"
  db_EntityId :: "string"
  db_State :: "string"
  db_Status :: "string"
  db_StatusReason :: "string"
  db_StatusDate :: "go_time option"
  db_BlockId :: "string"
  db_ParentBusinessNumber :: "string"
  db_BusinessNumber :: "string"
  db_BlockType :: "string"
  db_PeerId :: "string"
  db_PublicKey :: "string"
  db_Address :: "string"
  db_SecurityContext :: "string"
  db_PayloadKey :: "string"
  db_TransportPayload :: "string"
  db_PayloadHash :: "string"
  db_Signature :: "string"
  db_TransportKey :: "string"
  db_TransactionKeySignature :: "string"
  db_SliceSize :: "uint64"
  db_SliceNumber :: "uint64"
  db_StateHash :: "string"
  db_TransactionKeys :: "transaction_key list option"
  db_Metadata :: "string"
  db_Thumbnail :: "string"
  db_Name :: "string"
  db_Description :: "string"
  db_MimeType :: "string"
  db_CreateTimestamp :: "uint64"
  db_ExpireDate :: "int"
  db_TransactionAmount :: "rat"
  db_PrimarySequenceId :: "uint64"
  db_PreviousBlockId :: "string"
  db_PreviousBlockHash :: "string"
  db_ChainAppPeerId :: "string"
  db_ChainAppPublicKey :: "string"
  db_ChainAppAddress :: "string"
  db_PrimaryPeerId :: "string"
  db_PrimaryPublicKey :: "string"
  db_PrimaryAddress :: "string"
  db_PeerIds :: "string"

definition data_block0 :: data_block where
  "data_block0 = \<lparr>
     db_Id = 0,
     db_CreateDate = None,
     db_UpdateDate = None,
     db_EntityId = [],
     db_State = [],
     db_Status = [],
     db_StatusReason = [],
     db_StatusDate = None,
     db_BlockId = [],
     db_ParentBusinessNumber = [],
     db_BusinessNumber = [],
     db_BlockType = [],
     db_PeerId = [],
     db_PublicKey = [],
     db_Address = [],
     db_SecurityContext = [],
     db_PayloadKey = [],
     db_TransportPayload = [],
     db_PayloadHash = [],
     db_Signature = [],
     db_TransportKey = [],
     db_TransactionKeySignature = [],
     db_SliceSize = 0,
     db_SliceNumber = 0,
     db_StateHash = [],
     db_TransactionKeys = None,
     db_Metadata = [],
     db_Thumbnail = [],
     db_Name = [],
     db_Description = [],
     db_MimeType = [],
     db_CreateTimestamp = 0,
     db_ExpireDate = 0,
     db_TransactionAmount = 0,
     db_PrimarySequenceId = 0,
     db_PreviousBlockId = [],
     db_PreviousBlockHash = [],
     db_ChainAppPeerId = [],
     db_ChainAppPublicKey = [],
     db_ChainAppAddress = [],
     db_PrimaryPeerId = [],
     db_PrimaryPublicKey = [],
     db_PrimaryAddress = [],
     db_PeerIds = []\<rparr>"

record consensus_log =
  cl_Id :: "uint64"
  cl_CreateDate :: "go_time option"
  cl_UpdateDate :: "go_time option"
  cl_Status :: "string"
  cl_StatusDate :: "go_time option"
  cl_PrimaryPeerId :: "string"
  cl_PrimarySequenceId :: "uint64"
  cl_PrimaryAddress :: "string"
  cl_PrimaryPublicKey :: "string"
  cl_ClientPeerId :: "string"
  cl_ClientPublicKey :: "string"
  cl_ClientAddress :: "string"
  cl_PeerId :: "string"
  cl_Address :: "string"
  cl_PublicKey :: "string"
  cl_BlockId :: "string"
  cl_BlockType :: "string"
  cl_SliceNumber :: "uint64"
  cl_PayloadHash :: "string"
  cl_ResponseStatus :: "string"
  cl_TransactionAmount :: "rat"
  cl_PeerIds :: "string"

definition consensus_log0 :: consensus_log where
  "consensus_log0 = \<lparr>
     cl_Id = 0,
     cl_CreateDate = None,
     cl_UpdateDate = None,
     cl_Status = [],
     cl_StatusDate = None,
     cl_PrimaryPeerId = [],
     cl_PrimarySequenceId = 0,
     cl_PrimaryAddress = [],
     cl_PrimaryPublicKey = [],
     cl_ClientPeerId = [],
     cl_ClientPublicKey = [],
     cl_ClientAddress = [],
     cl_PeerId = [],
     cl_Address = [],
     cl_PublicKey = [],
     cl_BlockId = [],
     cl_BlockType = [],
     cl_SliceNumber = 0,
     cl_PayloadHash = [],
     cl_ResponseStatus = [],
     cl_TransactionAmount = 0,
     cl_PeerIds = []\<rparr>"

record peer_transaction =
  pt_Id :: "uint64"
  pt_CreateDate :: "go_time option"
  pt_UpdateDate :: "go_time option"
  pt_Status :: "string"
  pt_StatusDate :: "go_time option"
  pt_TransactionType :: "string"
  pt_SrcPeerId :: "string"
  pt_SrcPeerType :: "string"
  pt_PrimaryPeerId :: "string"
  pt_TargetPeerId :: "string"
  pt_TargetPeerType :: "string"
  pt_BlockId :: "string"
  pt_Amount :: "rat"
  pt_Currency :: "string"
  pt_TransactionTime :: "go_time option"
  pt_SrcPeerBeginBalance :: "rat"
  pt_SrcPeerEndBalance :: "rat"
  pt_TargetPeerBeginBalance :: "rat"
  pt_TargetPeerEndBalance :: "rat"
  pt_ParentBusinessNumber :: "string"
  pt_BusinessNumber :: "string"
  pt_SliceNumber :: "uint64"
  pt_CreateTimestamp :: "uint64"
  pt_Metadata :: "string"
  pt_Thumbnail :: "string"
  pt_Name :: "string"
  pt_Description :: "string"

definition peer_transaction0 :: peer_transaction where
  "peer_transaction0 = \<lparr>
     pt_Id = 0,
     pt_CreateDate = None,
     pt_UpdateDate = None,
     pt_Status = [],
     pt_StatusDate = None,
     pt_TransactionType = [],
     pt_SrcPeerId = [],
     pt_SrcPeerType = [],
     pt_PrimaryPeerId = [],
     pt_TargetPeerId = [],
     pt_TargetPeerType = [],
     pt_BlockId = [],
     pt_Amount = 0,
     pt_Currency = [],
     pt_TransactionTime = None,
     pt_SrcPeerBeginBalance = 0,
     pt_SrcPeerEndBalance = 0,
     pt_TargetPeerBeginBalance = 0,
     pt_TargetPeerEndBalance = 0,
     pt_ParentBusinessNumber = [],
     pt_BusinessNumber = [],
     pt_SliceNumber = 0,
     pt_CreateTimestamp = 0,
     pt_Metadata = [],
     pt_Thumbnail = [],
     pt_Name = [],
     pt_Description = []\<rparr>"

section \<open>Records of the peers\<close>

text \<open>\<open>PeerEndpoint\<close> and \<open>MyselfPeer\<close> embed \<open>PeerEntity\<close>, which embeds \<open>PeerLocation\<close>.\<close>

record peer_client =
  pc_Id :: "uint64"
  pc_CreateDate :: "go_time option"
  pc_UpdateDate :: "go_time option"
  pc_EntityId :: "string"
  pc_State :: "string"
  pc_Status :: "string"
  pc_StatusReason :: "string"
  pc_StatusDate :: "go_time option"
  pc_PeerId :: "string"
  pc_ConnectPeerId :: "string"
  pc_ConnectAddress :: "string"
  pc_ConnectPublicKey :: "string"
  pc_UserId :: "string"
  pc_Name :: "string"
  pc_Avatar :: "string"
  pc_ConnectSessionId :: "string"
  pc_ClientId :: "string"
  pc_ClientDevice :: "string"
  pc_ClientType :: "string"
  pc_DeviceToken :: "string"
  pc_Language :: "string"
  pc_MobileVerified :: "string"
  pc_VisibilitySetting :: "string"
  pc_LastUpdateTime :: "go_time option"
  pc_LastAccessTime :: "go_time option"
  pc_StartDate :: "go_time option"
  pc_EndDate :: "go_time option"
  pc_Mobile :: "string"
  pc_Email :: "string"
  pc_Address :: "string"
  pc_PeerPublicKey :: "string"
  pc_PublicKey :: "string"
  pc_PreviousPublicKeySignature :: "string"
  pc_Signature :: "string"
  pc_SignatureData :: "string"
  pc_ExpireDate :: "int"
  pc_ActiveStatus :: "string"
  pc_BlockId :: "string"
  pc_Balance :: "rat"
  pc_Currency :: "string"
  pc_LastTransactionTime :: "go_time option"

definition peer_client0 :: peer_client where
  "peer_client0 = \<lparr>
     pc_Id = 0,
     pc_CreateDate = None,
     pc_UpdateDate = None,
     pc_EntityId = [],
     pc_State = [],
     pc_Status = [],
     pc_StatusReason = [],
     pc_StatusDate = None,
     pc_PeerId = [],
     pc_ConnectPeerId = [],
     pc_ConnectAddress = [],
     pc_ConnectPublicKey = [],
     pc_UserId = [],
     pc_Name = [],
     pc_Avatar = [],
     pc_ConnectSessionId = [],
     pc_ClientId = [],
     pc_ClientDevice = [],
     pc_ClientType = [],
     pc_DeviceToken = [],
     pc_Language = [],
     pc_MobileVerified = [],
     pc_VisibilitySetting = [],
     pc_LastUpdateTime = None,
     pc_LastAccessTime = None,
     pc_StartDate = None,
     pc_EndDate = None,
     pc_Mobile = [],
     pc_Email = [],
     pc_Address = [],
     pc_PeerPublicKey = [],
     pc_PublicKey = [],
     pc_PreviousPublicKeySignature = [],
     pc_Signature = [],
     pc_SignatureData = [],
     pc_ExpireDate = 0,
     pc_ActiveStatus = [],
     pc_BlockId = [],
     pc_Balance = 0,
     pc_Currency = [],
     pc_LastTransactionTime = None\<rparr>"

record peer_endpoint =
  pe_Id :: "uint64"
  pe_CreateDate :: "go_time option"
  pe_UpdateDate :: "go_time option"
  pe_Status :: "string"
  pe_StatusDate :: "go_time option"
  pe_PeerId :: "string"
  pe_Kind :: "string"
  pe_Name :: "string"
  pe_SecurityContext :: "string"
  pe_PeerPublicKey :: "string"
  pe_PublicKey :: "string"
  pe_Address :: "string"
  pe_LastUpdateTime :: "go_time option"
  pe_Mobile :: "string"
  pe_Email :: "string"
  pe_StartDate :: "go_time option"
  pe_EndDate :: "go_time option"
  pe_ConnectSessionId :: "string"
  pe_CreditScore :: "uint64"
  pe_PreferenceScore :: "uint64"
  pe_BadCount :: "uint64"
  pe_StaleCount :: "uint64"
  pe_LastAccessMillis :: "int"
  pe_LastAccessTime :: "go_time option"
  pe_ActiveStatus :: "string"
  pe_BlockId :: "string"
  pe_Balance :: "rat"
  pe_Currency :: "string"
  pe_LastTransactionTime :: "go_time option"
  pe_PreviousPublicKeySignature :: "string"
  pe_Signature :: "string"
  pe_SignatureData :: "string"
  pe_ExpireDate :: "int"
  pe_EndpointType :: "string"
  pe_DiscoveryAddress :: "string"
  pe_Sdp :: "string"

definition peer_endpoint0 :: peer_endpoint where
  "peer_endpoint0 = \<lparr>
     pe_Id = 0,
     pe_CreateDate = None,
     pe_UpdateDate = None,
     pe_Status = [],
     pe_StatusDate = None,
     pe_PeerId = [],
     pe_Kind = [],
     pe_Name = [],
     pe_SecurityContext = [],
     pe_PeerPublicKey = [],
     pe_PublicKey = [],
     pe_Address = [],
     pe_LastUpdateTime = None,
     pe_Mobile = [],
     pe_Email = [],
     pe_StartDate = None,
     pe_EndDate = None,
     pe_ConnectSessionId = [],
     pe_CreditScore = 0,
     pe_PreferenceScore = 0,
     pe_BadCount = 0,
     pe_StaleCount = 0,
     pe_LastAccessMillis = 0,
     pe_LastAccessTime = None,
     pe_ActiveStatus = [],
     pe_BlockId = [],
     pe_Balance = 0,
     pe_Currency = [],
     pe_LastTransactionTime = None,
     pe_PreviousPublicKeySignature = [],
     pe_Signature = [],
     pe_SignatureData = [],
     pe_ExpireDate = 0,
     pe_EndpointType = [],
     pe_DiscoveryAddress = [],
     pe_Sdp = []\<rparr>"

record myself_peer =
  my_Id :: "uint64"
  my_CreateDate :: "go_time option"
  my_UpdateDate :: "go_time option"
  my_Status :: "string"
  my_StatusDate :: "go_time option"
  my_PeerId :: "string"
  my_Kind :: "string"
  my_Name :: "string"
  my_SecurityContext :: "string"
  my_PeerPublicKey :: "string"
  my_PublicKey :: "string"
  my_Address :: "string"
  my_LastUpdateTime :: "go_time option"
  my_Mobile :: "string"
  my_Email :: "string"
  my_StartDate :: "go_time option"
  my_EndDate :: "go_time option"
  my_ConnectSessionId :: "string"
  my_CreditScore :: "uint64"
  my_PreferenceScore :: "uint64"
  my_BadCount :: "uint64"
  my_StaleCount :: "uint64"
  my_LastAccessMillis :: "int"
  my_LastAccessTime :: "go_time option"
  my_ActiveStatus :: "string"
  my_BlockId :: "string"
  my_Balance :: "rat"
  my_Currency :: "string"
  my_LastTransactionTime :: "go_time option"
  my_PreviousPublicKeySignature :: "string"
  my_Signature :: "string"
  my_SignatureData :: "string"
  my_ExpireDate :: "int"
  my_PeerPrivateKey :: "string"
  my_PrivateKey :: "string"
  my_CertType :: "string"
  my_CertFormat :: "string"
  my_OldPassword :: "string"
  my_OldCertPassword :: "string"
  my_NewCertPassword :: "string"
  my_CertContent :: "string"
  my_DiscoveryAddress :: "string"
  my_LastFindNodeTime :: "go_time option"

definition myself_peer0 :: myself_peer where
  "myself_peer0 = \<lparr>
     my_Id = 0,
     my_CreateDate = None,
     my_UpdateDate = None,
     my_Status = [],
     my_StatusDate = None,
     my_PeerId = [],
     my_Kind = [],
     my_Name = [],
     my_SecurityContext = [],
     my_PeerPublicKey = [],
     my_PublicKey = [],
     my_Address = [],
     my_LastUpdateTime = None,
     my_Mobile = [],
     my_Email = [],
     my_StartDate = None,
     my_EndDate = None,
     my_ConnectSessionId = [],
     my_CreditScore = 0,
     my_PreferenceScore = 0,
     my_BadCount = 0,
     my_StaleCount = 0,
     my_LastAccessMillis = 0,
     my_LastAccessTime = None,
     my_ActiveStatus = [],
     my_BlockId = [],
     my_Balance = 0,
     my_Currency = [],
     my_LastTransactionTime = None,
     my_PreviousPublicKeySignature = [],
     my_Signature = [],
     my_SignatureData = [],
     my_ExpireDate = 0,
     my_PeerPrivateKey = [],
     my_PrivateKey = [],
     my_CertType = [],
     my_CertFormat = [],
     my_OldPassword = [],
     my_OldCertPassword = [],
     my_NewCertPassword = [],
     my_CertContent = [],
     my_DiscoveryAddress = [],
     my_LastFindNodeTime = None\<rparr>"

record chain_app =
  ca_Id :: "uint64"
  ca_CreateDate :: "go_time option"
  ca_UpdateDate :: "go_time option"
  ca_Status :: "string"
  ca_StatusDate :: "go_time option"
  ca_PeerId :: "string"
  ca_AppType :: "string"
  ca_RegistPeerId :: "string"
  ca_Path :: "string"
  ca_MainClass :: "string"
  ca_CodePackage :: "string"
  ca_AppHash :: "string"
  ca_AppSignature :: "string"
  ca_ConnectSessionId :: "string"
  ca_ActiveStatus :: "string"

definition chain_app0 :: chain_app where
  "chain_app0 = \<lparr>
     ca_Id = 0,
     ca_CreateDate = None,
     ca_UpdateDate = None,
     ca_Status = [],
     ca_StatusDate = None,
     ca_PeerId = [],
     ca_AppType = [],
     ca_RegistPeerId = [],
     ca_Path = [],
     ca_MainClass = [],
     ca_CodePackage = [],
     ca_AppHash = [],
     ca_AppSignature = [],
     ca_ConnectSessionId = [],
     ca_ActiveStatus = []\<rparr>"

section \<open>Messages\<close>

text \<open>
  The decoded JSON value that a handler sees behind an \<open>interface{}\<close>, and the payloads. A type
  assertion on a payload of another type panics.
\<close>

datatype json =
    JNull
  | JBool bool
  | JNum rat
  | JStr string
  | JArr "json list"
  | JObj "(string \<times> json) list"

text \<open>
  The request and the answer of the room manager, \<^verbatim>\<open>manageroom.go\<close>; a room and a participant of the
  LiveKit server are their texts.
\<close>

record livekit_room =
  lr_ManageType :: string
  lr_EmptyTimeout :: int
  lr_Host :: string
  lr_RoomName :: string
  lr_Identities :: "string list"
  lr_Names :: "string list"
  lr_Tokens :: "string list"
  lr_MaxParticipants :: "32 word"
  lr_Participants :: "string list"
  lr_Rooms :: "string list"

definition livekit_room0 :: livekit_room where
  "livekit_room0 = \<lparr>lr_ManageType = [], lr_EmptyTimeout = 0, lr_Host = [], lr_RoomName = [], lr_Identities = [], lr_Names = [],
     lr_Tokens = [], lr_MaxParticipants = 0, lr_Participants = [], lr_Rooms = []\<rparr>"

datatype payload =
    PNil
  | PString string
  | PJson json
  | PDataBlock "data_block option"
  | PConsensusLog "consensus_log option"
  | PPeerClient "peer_client option"
  | PPeerEndpoint "peer_endpoint option"
  | PChainApp "chain_app option"
  | PMyselfPeer "myself_peer option"
  | PDataBlocks "data_block option list"
  | PPeerClients "peer_client option list"
  | PPeerEndpoints "peer_endpoint option list"
  | PPeerTransaction "peer_transaction option"
  | PPeerTransactions "peer_transaction option list"
  | PAddrInfo string
  | PTime go_time
  | PLiveKitRoom livekit_room

record chain_message =
  cm_Id :: "uint64"
  cm_CreateDate :: "go_time option"
  cm_UpdateDate :: "go_time option"
  cm_UUID :: "string"
  cm_Topic :: "string"
  cm_TargetPeerId :: "string"
  cm_TargetClientId :: "string"
  cm_TargetConnectSessionId :: "string"
  cm_TargetConnectPeerId :: "string"
  cm_TargetConnectAddress :: "string"
  cm_SrcConnectSessionId :: "string"
  cm_SrcConnectPeerId :: "string"
  cm_SrcPeerId :: "string"
  cm_SrcClientId :: "string"
  cm_SrcConnectAddress :: "string"
  cm_ConnectSessionId :: "string"
  cm_ConnectPeerId :: "string"
  cm_ConnectAddress :: "string"
  cm_MessageType :: "string"
  cm_MessageDirect :: "string"
  cm_PayloadKey :: "string"
  cm_NeedCompress :: "bool"
  cm_NeedEncrypt :: "bool"
  cm_SecurityContext :: "string option"
  cm_TransportPayload :: "string"
  cm_Payload :: "payload"
  cm_Tip :: "string"
  cm_PayloadSignature :: "string"
  cm_PreviousPublicKeyPayloadSignature :: "string"
  cm_PayloadType :: "string"
  cm_CreateTimestamp :: "go_time option"
  cm_StatusCode :: "int"

definition chain_message0 :: chain_message where
  "chain_message0 = \<lparr>
     cm_Id = 0,
     cm_CreateDate = None,
     cm_UpdateDate = None,
     cm_UUID = [],
     cm_Topic = [],
     cm_TargetPeerId = [],
     cm_TargetClientId = [],
     cm_TargetConnectSessionId = [],
     cm_TargetConnectPeerId = [],
     cm_TargetConnectAddress = [],
     cm_SrcConnectSessionId = [],
     cm_SrcConnectPeerId = [],
     cm_SrcPeerId = [],
     cm_SrcClientId = [],
     cm_SrcConnectAddress = [],
     cm_ConnectSessionId = [],
     cm_ConnectPeerId = [],
     cm_ConnectAddress = [],
     cm_MessageType = [],
     cm_MessageDirect = [],
     cm_PayloadKey = [],
     cm_NeedCompress = False,
     cm_NeedEncrypt = False,
     cm_SecurityContext = None,
     cm_TransportPayload = [],
     cm_Payload = PNil,
     cm_Tip = [],
     cm_PayloadSignature = [],
     cm_PreviousPublicKeyPayloadSignature = [],
     cm_PayloadType = [],
     cm_CreateTimestamp = None,
     cm_StatusCode = 0\<rparr>"

section \<open>Constants\<close>

text \<open>\<^verbatim>\<open>p2p/msgtype/default.go\<close>.\<close>

abbreviation MT_UNDEFINED :: string where "MT_UNDEFINED \<equiv> ''UNDEFINED''"
abbreviation MT_OK :: string where "MT_OK \<equiv> ''OK''"
abbreviation MT_ERROR :: string where "MT_ERROR \<equiv> ''ERROR''"
abbreviation MT_UNTRUST :: string where "MT_UNTRUST \<equiv> ''UNTRUST''"
abbreviation MT_NO_RESPONSE :: string where "MT_NO_RESPONSE \<equiv> ''NO_RESPONSE''"
abbreviation MT_RESPONSE :: string where "MT_RESPONSE \<equiv> ''RESPONSE''"
abbreviation MT_REJECT :: string where "MT_REJECT \<equiv> ''REJECT''"
abbreviation MT_ManageRoom :: string where "MT_ManageRoom \<equiv> ''MANAGEROOM''"
abbreviation MT_PING :: string where "MT_PING \<equiv> ''PING''"
abbreviation MT_CHAT :: string where "MT_CHAT \<equiv> ''CHAT''"
abbreviation MT_P2PCHAT :: string where "MT_P2PCHAT \<equiv> ''P2PCHAT''"
abbreviation MT_FINDPEER :: string where "MT_FINDPEER \<equiv> ''FINDPEER''"
abbreviation MT_GETVALUE :: string where "MT_GETVALUE \<equiv> ''GETVALUE''"
abbreviation MT_PUTVALUE :: string where "MT_PUTVALUE \<equiv> ''PUTVALUE''"
abbreviation MT_SIGNAL :: string where "MT_SIGNAL \<equiv> ''SIGNAL''"
abbreviation MT_IONSIGNAL :: string where "MT_IONSIGNAL \<equiv> ''IONSIGNAL''"
abbreviation MT_PEERENDPOINT :: string where "MT_PEERENDPOINT \<equiv> ''PEERENDPOINT''"
abbreviation MT_CONNECT :: string where "MT_CONNECT \<equiv> ''CONNECT''"
abbreviation MT_FINDCLIENT :: string where "MT_FINDCLIENT \<equiv> ''FINDCLIENT''"
abbreviation MT_QUERYVALUE :: string where "MT_QUERYVALUE \<equiv> ''QUERYVALUE''"
abbreviation MT_QUERYPEERTRANS :: string where "MT_QUERYPEERTRANS \<equiv> ''QUERYPEERTRANS''"
abbreviation MT_CONSENSUS :: string where "MT_CONSENSUS \<equiv> ''CONSENSUS''"
abbreviation MT_CONSENSUS_REPLY :: string where "MT_CONSENSUS_REPLY \<equiv> ''CONSENSUS_REPLY''"
abbreviation MT_CONSENSUS_PREPREPARED :: string where "MT_CONSENSUS_PREPREPARED \<equiv> ''CONSENSUS_PREPREPARED''"
abbreviation MT_CONSENSUS_PREPARED :: string where "MT_CONSENSUS_PREPARED \<equiv> ''CONSENSUS_PREPARED''"
abbreviation MT_CONSENSUS_COMMITED :: string where "MT_CONSENSUS_COMMITED \<equiv> ''CONSENSUS_COMMITED''"
abbreviation MT_CONSENSUS_RAFT :: string where "MT_CONSENSUS_RAFT \<equiv> ''CONSENSUS_RAFT''"
abbreviation MT_CONSENSUS_RAFT_REPLY :: string where "MT_CONSENSUS_RAFT_REPLY \<equiv> ''CONSENSUS_RAFT_REPLY''"
abbreviation MT_CONSENSUS_RAFT_PREPREPARED :: string where "MT_CONSENSUS_RAFT_PREPREPARED \<equiv> ''CONSENSUS_RAFT_PREPREPARED''"
abbreviation MT_CONSENSUS_RAFT_PREPARED :: string where "MT_CONSENSUS_RAFT_PREPARED \<equiv> ''CONSENSUS_RAFT_PREPARED''"
abbreviation MT_CONSENSUS_RAFT_COMMITED :: string where "MT_CONSENSUS_RAFT_COMMITED \<equiv> ''CONSENSUS_RAFT_COMMITED''"
abbreviation MT_CONSENSUS_PBFT :: string where "MT_CONSENSUS_PBFT \<equiv> ''CONSENSUS_PBFT''"
abbreviation MT_CONSENSUS_PBFT_REPLY :: string where "MT_CONSENSUS_PBFT_REPLY \<equiv> ''CONSENSUS_PBFT_REPLY''"
abbreviation MT_CONSENSUS_PBFT_PREPREPARED :: string where "MT_CONSENSUS_PBFT_PREPREPARED \<equiv> ''CONSENSUS_PBFT_PREPREPARED''"
abbreviation MT_CONSENSUS_PBFT_PREPARED :: string where "MT_CONSENSUS_PBFT_PREPARED \<equiv> ''CONSENSUS_PBFT_PREPARED''"
abbreviation MT_CONSENSUS_PBFT_COMMITED :: string where "MT_CONSENSUS_PBFT_COMMITED \<equiv> ''CONSENSUS_PBFT_COMMITED''"
abbreviation MsgDirect_Request :: string where "MsgDirect_Request \<equiv> ''Request''"
abbreviation MsgDirect_Response :: string where "MsgDirect_Response \<equiv> ''Response''"
abbreviation CHAT_LOGOUT :: string where "CHAT_LOGOUT \<equiv> ''LOGOUT''"
abbreviation CHAT_ADD_LINKMAN_INDIVIDUAL :: string where "CHAT_ADD_LINKMAN_INDIVIDUAL \<equiv> ''ADD_LINKMAN_INDIVIDUAL''"
abbreviation CHAT_ADD_LINKMAN_INDIVIDUAL_RECEIPT :: string where "CHAT_ADD_LINKMAN_INDIVIDUAL_RECEIPT \<equiv> ''ADD_LINKMAN_INDIVIDUAL_RECEIPT''"

text \<open>The kinds of blocks, of peers, of transactions and the states of a peer.\<close>

abbreviation BlockType_ChatAttach :: string where "BlockType_ChatAttach \<equiv> ''ChatAttach''"
abbreviation BlockType_Collection :: string where "BlockType_Collection \<equiv> ''Collection''"
abbreviation BlockType_P2pChat :: string where "BlockType_P2pChat \<equiv> ''P2pChat''"
abbreviation BlockType_GroupFile :: string where "BlockType_GroupFile \<equiv> ''GroupFile''"
abbreviation BlockType_Channel :: string where "BlockType_Channel \<equiv> ''Channel''"
abbreviation BlockType_ChannelArticle :: string where "BlockType_ChannelArticle \<equiv> ''ChannelArticle''"
abbreviation PeerType_MyselfPeer :: string where "PeerType_MyselfPeer \<equiv> ''MyselfPeer''"
abbreviation PeerType_PeerEndpoint :: string where "PeerType_PeerEndpoint \<equiv> ''PeerEndpoint''"
abbreviation PeerType_PeerClient :: string where "PeerType_PeerClient \<equiv> ''PeerClient''"
abbreviation PeerType_ChainApp :: string where "PeerType_ChainApp \<equiv> ''ChainApp''"
abbreviation ActiveStatus_Up :: string where "ActiveStatus_Up \<equiv> ''Up''"
abbreviation ActiveStatus_Down :: string where "ActiveStatus_Down \<equiv> ''Down''"
abbreviation TransactionType_DataBlock :: string where "TransactionType_DataBlock \<equiv> ''DataBlock''"

end
