(* ===== verification/External.thy ===== *)
theory External
  imports Entity
begin

text \<open>
  The code that is not under \<^verbatim>\<open>src/\<close>, as parameters. \<open>library\<close> holds the functions that compute a
  value (hashing, base64, JSON and protobuf coding, OpenPGP, the namespaced validator of the DHT)
  and the configuration and globals that are set once at start-up; \<open>env\<close> adds the operations that read
  or change the world outside (the Kademlia DHT, the database behind the ORM, the file store, pipes
  and sockets, the clock), as functions on a state of any type \<open>'w\<close>. Nothing is assumed of them
  here: a theorem that relies on one of them says so in a hypothesis.

  A list \<^verbatim>\<open>[]*T\<close> that was decoded from JSON may hold nil pointers: it is a list of options.
  Keys of the OpenPGP library are handles of type \<^typ>\<open>string\<close>.
\<close>

type_synonym pgp_key = string

text \<open>\<open>recpb.Record\<close>, the record of the DHT protocol.\<close>

record dht_record =
  rec_Key :: string
  rec_Value :: string
  rec_TimeReceived :: string

text \<open>What the DHT returns as an error: \<open>kb.ErrLookupFailure\<close> is told from the others.\<close>

datatype dht_error = LookupFailure | DhtErr string

fun dht_go_error :: "dht_error \<Rightarrow> go_error" where
  "dht_go_error LookupFailure = Err ''failed to find any peer in table''"
| "dht_go_error (DhtErr e) = Err e"

text \<open>The result of a datastore's \<open>Get\<close>: \<open>datastore.ErrNotFound\<close> is told from the other errors.\<close>

datatype ds_result = DsFound string | DsNotFound | DsError go_error

record library =
  lib_Hash :: "string \<Rightarrow> string \<Rightarrow> string"
  lib_EncodeBase64 :: "string \<Rightarrow> string"
  lib_DecodeBase64 :: "string \<Rightarrow> string"
  lib_EncodeHex :: "string \<Rightarrow> string"
  lib_EncodeBase32 :: "string \<Rightarrow> string"
  lib_DecodeBase32 :: "string \<Rightarrow> string res"
  lib_GzipCompress :: "string \<Rightarrow> string"
  lib_GzipUncompress :: "string \<Rightarrow> string"
  lib_SplitKey :: "string \<Rightarrow> (string \<times> string) res"
  lib_Validate :: "string \<Rightarrow> string \<Rightarrow> go_error option"
  lib_Select :: "string \<Rightarrow> string list \<Rightarrow> int \<times> go_error option"
  lib_MarshalRecord :: "dht_record \<Rightarrow> string res"
  lib_UnmarshalRecord :: "string \<Rightarrow> dht_record res"
  lib_FormatTime :: "go_time \<Rightarrow> string"
  lib_Marshal :: "payload \<Rightarrow> string res"
  lib_MarshalMessage :: "chain_message \<Rightarrow> string res"
  lib_UnmarshalMessage :: "string \<Rightarrow> chain_message \<times> go_error option"
  lib_UnmarshalInto :: "payload \<Rightarrow> string \<Rightarrow> payload \<times> go_error option"
  lib_UnmarshalPeerClients :: "string \<Rightarrow> peer_client option list res"
  lib_TextUnmarshalPeerClients :: "string \<Rightarrow> peer_client option list res"
  lib_UnmarshalPeerEndpoint :: "string \<Rightarrow> peer_endpoint res"
  lib_UnmarshalPeerEndpoints :: "string \<Rightarrow> peer_endpoint option list res"
  lib_UnmarshalChainApp :: "string \<Rightarrow> chain_app res"
  lib_UnmarshalDataBlock :: "string \<Rightarrow> data_block res"
  lib_UnmarshalDataBlocks :: "string \<Rightarrow> data_block option list res"
  lib_UnmarshalPeerTransactions :: "string \<Rightarrow> peer_transaction option list res"
  lib_TextUnmarshalTransactionKeys :: "string \<Rightarrow> transaction_key list option res"
  lib_TextUnmarshalMap :: "string \<Rightarrow> (string \<times> string) list \<times> go_error option"
  lib_TextUnmarshalDataBlocks :: "string \<Rightarrow> data_block option list res"
  lib_TextUnmarshalPeerTransactions :: "string \<Rightarrow> peer_transaction option list res"
  lib_UnmarshalLiveKitRoom :: "string \<Rightarrow> livekit_room res"
  lib_FloatToUint64 :: "rat \<Rightarrow> uint64"
  lib_NewKey :: "string \<Rightarrow> string"
  lib_PeerDecode :: "string \<Rightarrow> string res"
  lib_P2pAddr :: "string \<Rightarrow> (string \<times> string list) res"
  lib_Verify :: "pgp_key \<Rightarrow> string \<Rightarrow> string \<Rightarrow> bool \<times> go_error option"
  lib_Sign :: "pgp_key \<Rightarrow> string \<Rightarrow> string"
  lib_LoadPublicKey :: "string \<Rightarrow> pgp_key res"
  lib_DecryptKey :: "string \<Rightarrow> pgp_key \<Rightarrow> string res"
  lib_DecryptSymmetrical :: "string \<Rightarrow> string \<Rightarrow> string res"
  cfg_FaultTolerantLevel :: int
  cfg_PeerNum :: int
  cfg_StdMinPeerNum :: int
  cfg_BucketSize :: int
  cfg_P2pProtocol :: string
  cfg_ChainProtocolID :: string
  cfg_LivekitHost :: string
  cfg_LivekitApiKey :: string
  cfg_LivekitApiSecret :: string
  cst_Effective :: string
  cst_Deleted :: string
  glb_PeerId :: string
  glb_PrivateKey :: pgp_key
  glb_MyselfPeer :: "myself_peer option"

text \<open>
  The operations on the world. \<open>Get\<close> of the ORM fills the bean it is given and says whether a row
  was found: \<open>Some\<close> of the bean as filled. \<open>Upsert\<close> and \<open>Insert\<close> return the number of rows affected;
  where the code drops the error of a call, only the value it keeps is returned. A search of the DHT
  delivers its values on a channel that is closed at the end: the list of those values. The order in
  which \<open>range\<close> visits the keys of a map is chosen by \<open>env_RangeKeys\<close>, the conversion of a \<open>float64\<close>
  outside the range of \<open>uint64\<close>, which depends on the platform, by \<open>lib_FloatToUint64\<close>. A pipe and a
  connection of a client is a number, the place at which the object is kept.
\<close>

record 'w env = library +
  env_now :: "'w \<Rightarrow> go_time \<times> 'w"
  env_UUID :: "'w \<Rightarrow> string \<times> 'w"
  env_GenerateSecretKey :: "int \<Rightarrow> 'w \<Rightarrow> string \<times> 'w"
  env_EncryptSymmetrical :: "string \<Rightarrow> string \<Rightarrow> 'w \<Rightarrow> string res \<times> 'w"
  env_EncryptKey :: "string \<Rightarrow> pgp_key \<Rightarrow> 'w \<Rightarrow> string res \<times> 'w"
  kad_PutValue :: "string \<Rightarrow> string \<Rightarrow> 'w \<Rightarrow> dht_error option \<times> 'w"
  kad_GetValue :: "string \<Rightarrow> 'w \<Rightarrow> (string \<times> dht_error option) \<times> 'w"
  kad_SearchValue :: "string \<Rightarrow> 'w \<Rightarrow> (string list \<times> dht_error option) \<times> 'w"
  kad_FindPeer :: "string \<Rightarrow> 'w \<Rightarrow> string res \<times> 'w"
  kad_NearestPeers :: "string \<Rightarrow> int \<Rightarrow> 'w \<Rightarrow> string list \<times> 'w"
  env_Shuffle :: "int \<Rightarrow> string list \<Rightarrow> 'w \<Rightarrow> string list \<times> 'w"
  env_Intn :: "int \<Rightarrow> int \<Rightarrow> 'w \<Rightarrow> int \<times> 'w"
  mem_PeerClient :: "string \<Rightarrow> 'w \<Rightarrow> peer_client option"
  mem_SetPeerClient :: "string \<Rightarrow> peer_client \<Rightarrow> 'w \<Rightarrow> 'w"
  mem_PeerEndpoint :: "string \<Rightarrow> 'w \<Rightarrow> peer_endpoint option"
  mem_SetPeerEndpoint :: "string \<Rightarrow> peer_endpoint \<Rightarrow> 'w \<Rightarrow> 'w"
  mem_ChainApp :: "string \<Rightarrow> 'w \<Rightarrow> chain_app option"
  mem_SetChainApp :: "string \<Rightarrow> chain_app \<Rightarrow> 'w \<Rightarrow> 'w"
  mem_MyselfPeer :: "string \<Rightarrow> 'w \<Rightarrow> myself_peer option"
  mem_SetMyselfPeer :: "string \<Rightarrow> myself_peer \<Rightarrow> 'w \<Rightarrow> 'w"
  orm_GetPeerClient :: "peer_client \<Rightarrow> 'w \<Rightarrow> peer_client option \<times> 'w"
  orm_DeletePeerClients :: "peer_client option list \<Rightarrow> 'w \<Rightarrow> 'w"
  orm_GetPeerEndpoint :: "peer_endpoint \<Rightarrow> 'w \<Rightarrow> peer_endpoint option \<times> 'w"
  orm_CountPeerEndpoint :: "peer_endpoint \<Rightarrow> 'w \<Rightarrow> int \<times> 'w"
  orm_FindPeerEndpoint :: "peer_endpoint \<Rightarrow> int \<Rightarrow> int \<Rightarrow> 'w \<Rightarrow> peer_endpoint list res \<times> 'w"
  orm_GetChainApp :: "chain_app \<Rightarrow> 'w \<Rightarrow> chain_app option \<times> 'w"
  orm_GetMyselfPeer :: "myself_peer \<Rightarrow> 'w \<Rightarrow> myself_peer option \<times> 'w"
  orm_GetDataBlock :: "data_block \<Rightarrow> 'w \<Rightarrow> data_block option \<times> 'w"
  orm_UpsertDataBlock :: "data_block \<Rightarrow> 'w \<Rightarrow> int \<times> 'w"
  orm_DeleteDataBlock :: "data_block \<Rightarrow> string \<Rightarrow> uint64 list \<Rightarrow> 'w \<Rightarrow> 'w"
  orm_FindDataBlock :: "data_block \<Rightarrow> string \<Rightarrow> int list \<Rightarrow> 'w \<Rightarrow> (data_block list \<times> go_error option) \<times> 'w"
  orm_GetTransactionKey :: "transaction_key \<Rightarrow> 'w \<Rightarrow> transaction_key option \<times> 'w"
  orm_UpsertTransactionKey :: "transaction_key \<Rightarrow> 'w \<Rightarrow> int \<times> 'w"
  orm_DeleteTransactionKey :: "transaction_key \<Rightarrow> 'w \<Rightarrow> 'w"
  orm_FindTransactionKey :: "transaction_key \<Rightarrow> 'w \<Rightarrow> transaction_key list \<times> 'w"
  orm_InsertConsensusLog :: "consensus_log \<Rightarrow> 'w \<Rightarrow> consensus_log \<times> 'w"
  orm_InsertChainMessage :: "chain_message \<Rightarrow> 'w \<Rightarrow> chain_message \<times> 'w"
  orm_DeleteDataBlocks :: "data_block option list \<Rightarrow> 'w \<Rightarrow> 'w"
  orm_DeletePeerTransactions :: "peer_transaction option list \<Rightarrow> 'w \<Rightarrow> 'w"
  orm_FindChainMessage :: "string \<Rightarrow> 'w \<Rightarrow> chain_message list res \<times> 'w"
  orm_DeleteChainMessage :: "string \<Rightarrow> 'w \<Rightarrow> unit res \<times> 'w"
  orm_DeleteChainMessageUntil :: "go_time \<Rightarrow> 'w \<Rightarrow> 'w"
  env_RangeKeys :: "string list \<Rightarrow> 'w \<Rightarrow> string list \<times> 'w"
  file_Write :: "string \<Rightarrow> string \<Rightarrow> 'w \<Rightarrow> go_error option \<times> 'w"
  file_Read :: "string \<Rightarrow> 'w \<Rightarrow> string \<times> 'w"
  net_RequestPipe :: "string \<Rightarrow> string \<Rightarrow> 'w \<Rightarrow> nat option \<times> 'w"
  net_ResponsePipe :: "string \<Rightarrow> 'w \<Rightarrow> nat option \<times> 'w"
  net_PipeWrite :: "nat \<Rightarrow> string \<Rightarrow> 'w \<Rightarrow> go_error option \<times> 'w"
  net_Websocket :: "string \<Rightarrow> 'w \<Rightarrow> nat option"
  net_WebsocketWrite :: "nat \<Rightarrow> string \<Rightarrow> 'w \<Rightarrow> go_error option \<times> 'w"
  lk_HasClient :: "'w \<Rightarrow> bool"
  lk_NewClient :: "string \<Rightarrow> string \<Rightarrow> string \<Rightarrow> 'w \<Rightarrow> 'w"
  lk_CreateRoom :: "string \<Rightarrow> 32 word \<Rightarrow> 32 word \<Rightarrow> string \<Rightarrow> 'w \<Rightarrow> string option \<times> 'w"
  lk_ToJWT :: "string \<Rightarrow> string option \<Rightarrow> string option \<Rightarrow> int \<Rightarrow> string \<Rightarrow> 'w \<Rightarrow> string res \<times> 'w"
  lk_DeleteRoom :: "string \<Rightarrow> 'w \<Rightarrow> bool \<times> 'w"
  lk_ListRooms :: "string list \<Rightarrow> 'w \<Rightarrow> string list res \<times> 'w"
  lk_ListParticipants :: "string \<Rightarrow> 'w \<Rightarrow> string list res \<times> 'w"

text \<open>\<open>global.IsMyself\<close>: a substring test, so that a multiaddress of the node is accepted too.\<close>

definition IsMyself :: "'a library_scheme \<Rightarrow> string \<Rightarrow> bool" where
  "IsMyself E peerId = contains peerId (glb_PeerId E)"

lemma IsMyself_self [simp]: "IsMyself E (glb_PeerId E)"
  by (simp add: IsMyself_def)

section \<open>A sample environment\<close>

text \<open>
  A concrete instance of the parameters, for the evaluations of the theorems on concrete inputs: the
  codings are identities, \<open>SplitKey\<close> splits \<open>/namespace/id\<close>, the decoders fail, the stores are empty.
\<close>

fun split_key :: "string \<Rightarrow> (string \<times> string) res" where
  "split_key [] = Inl (Err ''invalid record keytype'')"
| "split_key (c # s) =
     (if c = CHR ''/'' \<and> CHR ''/'' \<in> set s \<and> hd s \<noteq> CHR ''/''
      then Inr (takeWhile (\<lambda>x. x \<noteq> CHR ''/'') s, tl (dropWhile (\<lambda>x. x \<noteq> CHR ''/'') s))
      else Inl (Err ''invalid record keytype''))"

definition sample_env :: "'w env" where
  "sample_env = \<lparr>
     lib_Hash = (\<lambda>s _. s),
     lib_EncodeBase64 = (\<lambda>s. s),
     lib_DecodeBase64 = (\<lambda>s. s),
     lib_EncodeHex = (\<lambda>s. s),
     lib_EncodeBase32 = (\<lambda>s. s),
     lib_DecodeBase32 = Inr,
     lib_GzipCompress = (\<lambda>s. s),
     lib_GzipUncompress = (\<lambda>s. s),
     lib_SplitKey = split_key,
     lib_Validate = (\<lambda>_ _. None),
     lib_Select = (\<lambda>_ _. (0, None)),
     lib_MarshalRecord = (\<lambda>_. Inl (Err ''unknown'')),
     lib_UnmarshalRecord = (\<lambda>_. Inl (Err ''unknown'')),
     lib_FormatTime = (\<lambda>_. []),
     lib_Marshal = (\<lambda>_. Inl (Err ''unknown'')),
     lib_MarshalMessage = (\<lambda>_. Inl (Err ''unknown'')),
     lib_UnmarshalMessage = (\<lambda>_. (chain_message0, None)),
     lib_UnmarshalInto = (\<lambda>_ _. (PNil, None)),
     lib_UnmarshalPeerClients = (\<lambda>_. Inl (Err ''unknown'')),
     lib_TextUnmarshalPeerClients = (\<lambda>_. Inl (Err ''unknown'')),
     lib_UnmarshalPeerEndpoint = (\<lambda>_. Inl (Err ''unknown'')),
     lib_UnmarshalPeerEndpoints = (\<lambda>_. Inl (Err ''unknown'')),
     lib_UnmarshalChainApp = (\<lambda>_. Inl (Err ''unknown'')),
     lib_UnmarshalDataBlock = (\<lambda>_. Inl (Err ''unknown'')),
     lib_UnmarshalDataBlocks = (\<lambda>_. Inl (Err ''unknown'')),
     lib_UnmarshalPeerTransactions = (\<lambda>_. Inl (Err ''unknown'')),
     lib_TextUnmarshalTransactionKeys = (\<lambda>_. Inl (Err ''unknown'')),
     lib_TextUnmarshalMap = (\<lambda>_. ([], Some (Err ''not a map''))),
     lib_TextUnmarshalDataBlocks = (\<lambda>_. Inl (Err ''unknown'')),
     lib_TextUnmarshalPeerTransactions = (\<lambda>_. Inl (Err ''unknown'')),
     lib_UnmarshalLiveKitRoom = (\<lambda>_. Inl (Err ''unknown'')),
     lib_FloatToUint64 = (\<lambda>r. word_of_int \<lfloor>r\<rfloor>),
     lib_NewKey = (\<lambda>s. CHR ''/'' # s),
     lib_PeerDecode = Inr,
     lib_P2pAddr = (\<lambda>_. Inl (Err ''unknown'')),
     lib_Verify = (\<lambda>_ _ _. (False, None)),
     lib_Sign = (\<lambda>_ _. []),
     lib_LoadPublicKey = (\<lambda>_. Inl (Err ''unknown'')),
     lib_DecryptKey = (\<lambda>_ _. Inl (Err ''unknown'')),
     lib_DecryptSymmetrical = (\<lambda>_ _. Inl (Err ''unknown'')),
     cfg_FaultTolerantLevel = 0,
     cfg_PeerNum = 4,
     cfg_StdMinPeerNum = 0,
     cfg_BucketSize = 0,
     cfg_P2pProtocol = [],
     cfg_ChainProtocolID = [],
     cfg_LivekitHost = [],
     cfg_LivekitApiKey = [],
     cfg_LivekitApiSecret = [],
     cst_Effective = ''Effective'',
     cst_Deleted = ''Deleted'',
     glb_PeerId = ''me'',
     glb_PrivateKey = [],
     glb_MyselfPeer = Some (myself_peer0\<lparr>my_PeerId := ''me''\<rparr>),
     env_now = (\<lambda>w. (Instant 0, w)),
     env_UUID = (\<lambda>w. ([], w)),
     env_GenerateSecretKey = (\<lambda>_ w. ([], w)),
     env_EncryptSymmetrical = (\<lambda>_ _ w. (Inl (Err ''unknown''), w)),
     env_EncryptKey = (\<lambda>_ _ w. (Inl (Err ''unknown''), w)),
     kad_PutValue = (\<lambda>_ _ w. (None, w)),
     kad_GetValue = (\<lambda>_ w. (([], None), w)),
     kad_SearchValue = (\<lambda>_ w. (([], None), w)),
     kad_FindPeer = (\<lambda>_ w. (Inl (Err ''unknown''), w)),
     kad_NearestPeers = (\<lambda>_ _ w. ([], w)),
     env_Shuffle = (\<lambda>_. Pair),
     env_Intn = (\<lambda>_ _ w. (0, w)),
     mem_PeerClient = (\<lambda>_ w. None),
     mem_SetPeerClient = (\<lambda>_ _ w. w),
     mem_PeerEndpoint = (\<lambda>_ w. None),
     mem_SetPeerEndpoint = (\<lambda>_ _ w. w),
     mem_ChainApp = (\<lambda>_ w. None),
     mem_SetChainApp = (\<lambda>_ _ w. w),
     mem_MyselfPeer = (\<lambda>_ w. None),
     mem_SetMyselfPeer = (\<lambda>_ _ w. w),
     orm_GetPeerClient = (\<lambda>_ w. (None, w)),
     orm_DeletePeerClients = (\<lambda>_ w. w),
     orm_GetPeerEndpoint = (\<lambda>_ w. (None, w)),
     orm_CountPeerEndpoint = (\<lambda>_ w. (0, w)),
     orm_FindPeerEndpoint = (\<lambda>_ _ _ w. (Inl (Err ''unknown''), w)),
     orm_GetChainApp = (\<lambda>_ w. (None, w)),
     orm_GetMyselfPeer = (\<lambda>_ w. (None, w)),
     orm_GetDataBlock = (\<lambda>_ w. (None, w)),
     orm_UpsertDataBlock = (\<lambda>_ w. (0, w)),
     orm_DeleteDataBlock = (\<lambda>_ _ _ w. w),
     orm_FindDataBlock = (\<lambda>_ _ _ w. (([], None), w)),
     orm_GetTransactionKey = (\<lambda>_ w. (None, w)),
     orm_UpsertTransactionKey = (\<lambda>_ w. (0, w)),
     orm_DeleteTransactionKey = (\<lambda>_ w. w),
     orm_FindTransactionKey = (\<lambda>_ w. ([], w)),
     orm_InsertConsensusLog = Pair,
     orm_InsertChainMessage = Pair,
     orm_DeleteDataBlocks = (\<lambda>_ w. w),
     orm_DeletePeerTransactions = (\<lambda>_ w. w),
     orm_FindChainMessage = (\<lambda>_ w. (Inl (Err ''unknown''), w)),
     orm_DeleteChainMessage = (\<lambda>_ w. (Inl (Err ''unknown''), w)),
     orm_DeleteChainMessageUntil = (\<lambda>_ w. w),
     env_RangeKeys = Pair,
     file_Write = (\<lambda>_ _ w. (None, w)),
     file_Read = (\<lambda>_ w. ([], w)),
     net_RequestPipe = (\<lambda>_ _ w. (None, w)),
     net_ResponsePipe = (\<lambda>_ w. (None, w)),
     net_PipeWrite = (\<lambda>_ _ w. (None, w)),
     net_Websocket = (\<lambda>_ w. None),
     net_WebsocketWrite = (\<lambda>_ _ w. (None, w)),
     lk_HasClient = (\<lambda>w. True),
     lk_NewClient = (\<lambda>_ _ _ w. w),
     lk_CreateRoom = (\<lambda>_ _ _ _ w. (None, w)),
     lk_ToJWT = (\<lambda>_ _ _ _ _ w. (Inl (Err ''unknown''), w)),
     lk_DeleteRoom = (\<lambda>_ w. (False, w)),
     lk_ListRooms = (\<lambda>_ w. (Inl (Err ''unknown''), w)),
     lk_ListParticipants = (\<lambda>_ w. (Inl (Err ''unknown''), w))\<rparr>"

lemma sample_env_simps [simp]:
  "lib_Hash sample_env = (\<lambda>s _. s)"
  "lib_EncodeBase64 sample_env = (\<lambda>s. s)"
  "lib_DecodeBase64 sample_env = (\<lambda>s. s)"
  "lib_EncodeHex sample_env = (\<lambda>s. s)"
  "lib_EncodeBase32 sample_env = (\<lambda>s. s)"
  "lib_DecodeBase32 sample_env = Inr"
  "lib_GzipCompress sample_env = (\<lambda>s. s)"
  "lib_GzipUncompress sample_env = (\<lambda>s. s)"
  "lib_SplitKey sample_env = split_key"
  "lib_Validate sample_env = (\<lambda>_ _. None)"
  "lib_Select sample_env = (\<lambda>_ _. (0, None))"
  "lib_MarshalRecord sample_env = (\<lambda>_. Inl (Err ''unknown''))"
  "lib_UnmarshalRecord sample_env = (\<lambda>_. Inl (Err ''unknown''))"
  "lib_FormatTime sample_env = (\<lambda>_. [])"
  "lib_Marshal sample_env = (\<lambda>_. Inl (Err ''unknown''))"
  "lib_MarshalMessage sample_env = (\<lambda>_. Inl (Err ''unknown''))"
  "lib_UnmarshalMessage sample_env = (\<lambda>_. (chain_message0, None))"
  "lib_UnmarshalInto sample_env = (\<lambda>_ _. (PNil, None))"
  "lib_UnmarshalPeerClients sample_env = (\<lambda>_. Inl (Err ''unknown''))"
  "lib_TextUnmarshalPeerClients sample_env = (\<lambda>_. Inl (Err ''unknown''))"
  "lib_UnmarshalPeerEndpoint sample_env = (\<lambda>_. Inl (Err ''unknown''))"
  "lib_UnmarshalPeerEndpoints sample_env = (\<lambda>_. Inl (Err ''unknown''))"
  "lib_UnmarshalChainApp sample_env = (\<lambda>_. Inl (Err ''unknown''))"
  "lib_UnmarshalDataBlock sample_env = (\<lambda>_. Inl (Err ''unknown''))"
  "lib_UnmarshalDataBlocks sample_env = (\<lambda>_. Inl (Err ''unknown''))"
  "lib_UnmarshalPeerTransactions sample_env = (\<lambda>_. Inl (Err ''unknown''))"
  "lib_TextUnmarshalTransactionKeys sample_env = (\<lambda>_. Inl (Err ''unknown''))"
  "lib_TextUnmarshalMap sample_env = (\<lambda>_. ([], Some (Err ''not a map'')))"
  "lib_TextUnmarshalDataBlocks sample_env = (\<lambda>_. Inl (Err ''unknown''))"
  "lib_TextUnmarshalPeerTransactions sample_env = (\<lambda>_. Inl (Err ''unknown''))"
  "lib_FloatToUint64 sample_env = (\<lambda>r. word_of_int \<lfloor>r\<rfloor>)"
  "lib_NewKey sample_env = (\<lambda>s. CHR ''/'' # s)"
  "lib_PeerDecode sample_env = Inr"
  "lib_P2pAddr sample_env = (\<lambda>_. Inl (Err ''unknown''))"
  "lib_Verify sample_env = (\<lambda>_ _ _. (False, None))"
  "lib_Sign sample_env = (\<lambda>_ _. [])"
  "lib_LoadPublicKey sample_env = (\<lambda>_. Inl (Err ''unknown''))"
  "lib_DecryptKey sample_env = (\<lambda>_ _. Inl (Err ''unknown''))"
  "lib_DecryptSymmetrical sample_env = (\<lambda>_ _. Inl (Err ''unknown''))"
  "cfg_FaultTolerantLevel sample_env = 0"
  "cfg_PeerNum sample_env = 4"
  "cfg_StdMinPeerNum sample_env = 0"
  "cfg_BucketSize sample_env = 0"
  "cfg_P2pProtocol sample_env = []"
  "cfg_ChainProtocolID sample_env = []"
  "cst_Effective sample_env = ''Effective''"
  "cst_Deleted sample_env = ''Deleted''"
  "glb_PeerId sample_env = ''me''"
  "glb_PrivateKey sample_env = []"
  "glb_MyselfPeer sample_env = Some (myself_peer0\<lparr>my_PeerId := ''me''\<rparr>)"
  "env_now sample_env = (\<lambda>w. (Instant 0, w))"
  "env_UUID sample_env = (\<lambda>w. ([], w))"
  "env_GenerateSecretKey sample_env = (\<lambda>_ w. ([], w))"
  "env_EncryptSymmetrical sample_env = (\<lambda>_ _ w. (Inl (Err ''unknown''), w))"
  "env_EncryptKey sample_env = (\<lambda>_ _ w. (Inl (Err ''unknown''), w))"
  "kad_PutValue sample_env = (\<lambda>_ _ w. (None, w))"
  "kad_GetValue sample_env = (\<lambda>_ w. (([], None), w))"
  "kad_SearchValue sample_env = (\<lambda>_ w. (([], None), w))"
  "kad_FindPeer sample_env = (\<lambda>_ w. (Inl (Err ''unknown''), w))"
  "kad_NearestPeers sample_env = (\<lambda>_ _ w. ([], w))"
  "env_Shuffle sample_env = (\<lambda>_. Pair)"
  "env_Intn sample_env = (\<lambda>_ _ w. (0, w))"
  "mem_PeerClient sample_env = (\<lambda>_ w. None)"
  "mem_SetPeerClient sample_env = (\<lambda>_ _ w. w)"
  "mem_PeerEndpoint sample_env = (\<lambda>_ w. None)"
  "mem_SetPeerEndpoint sample_env = (\<lambda>_ _ w. w)"
  "mem_ChainApp sample_env = (\<lambda>_ w. None)"
  "mem_SetChainApp sample_env = (\<lambda>_ _ w. w)"
  "mem_MyselfPeer sample_env = (\<lambda>_ w. None)"
  "mem_SetMyselfPeer sample_env = (\<lambda>_ _ w. w)"
  "orm_GetPeerClient sample_env = (\<lambda>_ w. (None, w))"
  "orm_DeletePeerClients sample_env = (\<lambda>_ w. w)"
  "orm_GetPeerEndpoint sample_env = (\<lambda>_ w. (None, w))"
  "orm_CountPeerEndpoint sample_env = (\<lambda>_ w. (0, w))"
  "orm_FindPeerEndpoint sample_env = (\<lambda>_ _ _ w. (Inl (Err ''unknown''), w))"
  "orm_GetChainApp sample_env = (\<lambda>_ w. (None, w))"
  "orm_GetMyselfPeer sample_env = (\<lambda>_ w. (None, w))"
  "orm_GetDataBlock sample_env = (\<lambda>_ w. (None, w))"
  "orm_UpsertDataBlock sample_env = (\<lambda>_ w. (0, w))"
  "orm_DeleteDataBlock sample_env = (\<lambda>_ _ _ w. w)"
  "orm_FindDataBlock sample_env = (\<lambda>_ _ _ w. (([], None), w))"
  "orm_GetTransactionKey sample_env = (\<lambda>_ w. (None, w))"
  "orm_UpsertTransactionKey sample_env = (\<lambda>_ w. (0, w))"
  "orm_DeleteTransactionKey sample_env = (\<lambda>_ w. w)"
  "orm_FindTransactionKey sample_env = (\<lambda>_ w. ([], w))"
  "orm_InsertConsensusLog sample_env = Pair"
  "orm_InsertChainMessage sample_env = Pair"
  "orm_DeleteDataBlocks sample_env = (\<lambda>_ w. w)"
  "orm_DeletePeerTransactions sample_env = (\<lambda>_ w. w)"
  "orm_FindChainMessage sample_env = (\<lambda>_ w. (Inl (Err ''unknown''), w))"
  "orm_DeleteChainMessage sample_env = (\<lambda>_ w. (Inl (Err ''unknown''), w))"
  "orm_DeleteChainMessageUntil sample_env = (\<lambda>_ w. w)"
  "env_RangeKeys sample_env = Pair"
  "file_Write sample_env = (\<lambda>_ _ w. (None, w))"
  "file_Read sample_env = (\<lambda>_ w. ([], w))"
  "net_RequestPipe sample_env = (\<lambda>_ _ w. (None, w))"
  "net_ResponsePipe sample_env = (\<lambda>_ w. (None, w))"
  "net_PipeWrite sample_env = (\<lambda>_ _ w. (None, w))"
  "net_Websocket sample_env = (\<lambda>_ w. None)"
  "net_WebsocketWrite sample_env = (\<lambda>_ _ w. (None, w))"
  by (simp_all add: sample_env_def)

section \<open>The state of a node\<close>

text \<open>
  A statement \<open>go f(x)\<close> starts a task that runs later and whose result nobody reads: it is
  appended to the list of the started tasks, and the definition of \<open>f\<close> gives what the task does.
\<close>

datatype task =
    GoSendRaw string string
  | GoRelaySend chain_message
  | GoConsensusDataBlock string string data_block string
  | GoConsensusLog string string consensus_log string
  | GoFinalCommit data_block consensus_log
  | GoPutLocal string string
  | GoReturnPeerEndpoint chain_message
  | GoBizRelaySend peer_client
  | GoReceiver string string json string string string

text \<open>\<open>PeeClientId\<close> of \<^verbatim>\<open>receiver/handler.go\<close>, the value of the pool of connected clients.\<close>

record peer_client_id =
  pci_PeerId :: string
  pci_ClientId :: string

text \<open>
  The state that the handlers work on: the world, the in-memory cache of the consensus in use, the
  pool \<open>peerClientConnectionPool\<close> and the tasks started so far.
\<close>

record ('w, 'c) node =
  nd_world :: 'w
  nd_cache :: 'c
  nd_pool :: "string \<rightharpoonup> peer_client_id"
  nd_tasks :: "task list"

definition on_world :: "('w \<Rightarrow> 'r \<times> 'w) \<Rightarrow> ('w, 'c) node \<Rightarrow> 'r \<times> ('w, 'c) node" where
  "on_world f s = (case f (nd_world s) of (r, w') \<Rightarrow> (r, s\<lparr>nd_world := w'\<rparr>))"

definition go_start :: "task \<Rightarrow> ('w, 'c) node \<Rightarrow> ('w, 'c) node" where
  "go_start t s = s\<lparr>nd_tasks := nd_tasks s @ [t]\<rparr>"

lemma on_world_fields [simp]:
  "nd_cache (snd (on_world f s)) = nd_cache s"
  "nd_pool (snd (on_world f s)) = nd_pool s"
  "nd_tasks (snd (on_world f s)) = nd_tasks s"
  "fst (on_world f s) = fst (f (nd_world s))"
  "nd_world (snd (on_world f s)) = snd (f (nd_world s))"
  by (simp_all add: on_world_def split: prod.splits)

lemma go_start_fields [simp]:
  "nd_cache (go_start t s) = nd_cache s"
  "nd_pool (go_start t s) = nd_pool s"
  "nd_tasks (go_start t s) = nd_tasks s @ [t]"
  "nd_world (go_start t s) = nd_world s"
  by (simp_all add: go_start_def)

end
