(* ===== verification/Namespace.thy ===== *)
theory Namespace
  imports External
begin

text \<open>
  \<^verbatim>\<open>libp2p/ns/default.go\<close>: the namespaces of the DHT, the keys \<open>/namespace/id\<close> under which the
  entities are stored, and the validators that the DHT calls for a key and a value (\<open>Validate\<close>) and to
  choose between a new value and the stored one (\<open>Select\<close>).
\<close>

section \<open>Namespaces and key kinds\<close>

abbreviation PeerEndpoint_Prefix :: string where "PeerEndpoint_Prefix \<equiv> ''peerEndpoint''"
abbreviation PeerClient_Prefix :: string where "PeerClient_Prefix \<equiv> ''peerClient''"
abbreviation PeerClient_Mobile_Prefix :: string where "PeerClient_Mobile_Prefix \<equiv> ''peerClientMobile''"
abbreviation PeerClient_Email_Prefix :: string where "PeerClient_Email_Prefix \<equiv> ''peerClientEmail''"
abbreviation PeerClient_Name_Prefix :: string where "PeerClient_Name_Prefix \<equiv> ''peerClientName''"
abbreviation ChainApp_Prefix :: string where "ChainApp_Prefix \<equiv> ''chainApp''"
abbreviation DataBlock_Prefix :: string where "DataBlock_Prefix \<equiv> ''dataBlock''"
abbreviation DataBlock_Owner_Prefix :: string where "DataBlock_Owner_Prefix \<equiv> ''dataBlockOwner''"
abbreviation PeerTransaction_Src_Prefix :: string where
  "PeerTransaction_Src_Prefix \<equiv> ''peerTransactionSrc''"
abbreviation PeerTransaction_Target_Prefix :: string where
  "PeerTransaction_Target_Prefix \<equiv> ''peerTransactionTarget''"
abbreviation PeerTransaction_P2PChat_Prefix :: string where
  "PeerTransaction_P2PChat_Prefix \<equiv> ''peerTransactionP2PChat''"
abbreviation PeerTransaction_GroupFile_Prefix :: string where
  "PeerTransaction_GroupFile_Prefix \<equiv> ''peerTransactionGroupFile''"
abbreviation PeerTransaction_Channel_Prefix :: string where
  "PeerTransaction_Channel_Prefix \<equiv> ''peerTransactionChannel''"
abbreviation PeerTransaction_ChannelArticle_Prefix :: string where
  "PeerTransaction_ChannelArticle_Prefix \<equiv> ''peerTransactionChannelArticle''"
abbreviation TransactionKey_Prefix :: string where "TransactionKey_Prefix \<equiv> ''transactionKey''"

abbreviation PeerClient_KeyKind :: string where "PeerClient_KeyKind \<equiv> ''PeerId''"
abbreviation PeerClient_Mobile_KeyKind :: string where "PeerClient_Mobile_KeyKind \<equiv> ''Mobile''"
abbreviation PeerClient_Email_KeyKind :: string where "PeerClient_Email_KeyKind \<equiv> ''Email''"
abbreviation PeerClient_Name_KeyKind :: string where "PeerClient_Name_KeyKind \<equiv> ''Name''"
abbreviation DataBlock_KeyKind :: string where "DataBlock_KeyKind \<equiv> ''BlockId''"
abbreviation DataBlock_Owner_KeyKind :: string where "DataBlock_Owner_KeyKind \<equiv> ''PeerId''"
abbreviation PeerTransaction_Src_KeyKind :: string where "PeerTransaction_Src_KeyKind \<equiv> ''SrcPeerId''"
abbreviation PeerTransaction_Target_KeyKind :: string where
  "PeerTransaction_Target_KeyKind \<equiv> ''TargetPeerId''"
abbreviation PeerTransaction_P2PChat_KeyKind :: string where
  "PeerTransaction_P2PChat_KeyKind \<equiv> ''BusinessNumber''"
abbreviation PeerTransaction_GroupFile_KeyKind :: string where
  "PeerTransaction_GroupFile_KeyKind \<equiv> ''BusinessNumber''"
abbreviation PeerTransaction_Channel_KeyKind :: string where
  "PeerTransaction_Channel_KeyKind \<equiv> ''TransactionType''"
abbreviation PeerTransaction_ChannelArticle_KeyKind :: string where
  "PeerTransaction_ChannelArticle_KeyKind \<equiv> ''ParentBusinessNumber''"
abbreviation PeerTransaction_Type_KeyKind :: string where
  "PeerTransaction_Type_KeyKind \<equiv> ''TransactionType''"

section \<open>Keys\<close>

text \<open>\<^verbatim>\<open>fmt.Sprintf("/%v/%v", prefix, id)\<close>.\<close>

definition ns_key :: "string \<Rightarrow> string \<Rightarrow> string" where
  "ns_key prefix i = ''/'' @ prefix @ ''/'' @ i"

definition GetPeerEndpointKey :: "string \<Rightarrow> string" where
  "GetPeerEndpointKey i = ns_key PeerEndpoint_Prefix i"

definition GetPeerClientKey :: "string \<Rightarrow> string" where
  "GetPeerClientKey i = ns_key PeerClient_Prefix i"

definition hashed_id :: "'a library_scheme \<Rightarrow> string \<Rightarrow> bool \<Rightarrow> string" where
  "hashed_id E s hashed =
     (if hashed = False then lib_EncodeBase64 E (lib_Hash E s ''sha3_256'') else s)"

definition GetPeerClientMobileKey :: "'a library_scheme \<Rightarrow> string \<Rightarrow> bool \<Rightarrow> string" where
  "GetPeerClientMobileKey E mobile hashed = ns_key PeerClient_Mobile_Prefix (hashed_id E mobile hashed)"

definition GetPeerClientEmailKey :: "'a library_scheme \<Rightarrow> string \<Rightarrow> bool \<Rightarrow> string" where
  "GetPeerClientEmailKey E email hashed = ns_key PeerClient_Email_Prefix (hashed_id E email hashed)"

definition GetPeerClientNameKey :: "'a library_scheme \<Rightarrow> string \<Rightarrow> bool \<Rightarrow> string" where
  "GetPeerClientNameKey E name hashed = ns_key PeerClient_Name_Prefix (hashed_id E name hashed)"

definition GetChainAppKey :: "string \<Rightarrow> string" where
  "GetChainAppKey i = ns_key ChainApp_Prefix i"

definition GetDataBlockKey :: "string \<Rightarrow> string" where
  "GetDataBlockKey i = ns_key DataBlock_Prefix i"

definition GetDataBlockOwnerKey :: "string \<Rightarrow> string" where
  "GetDataBlockOwnerKey i = ns_key DataBlock_Owner_Prefix i"

definition GetTransactionKeyKey :: "string \<Rightarrow> string" where
  "GetTransactionKeyKey i = ns_key TransactionKey_Prefix i"

definition GetPeerTransactionSrcKey :: "string \<Rightarrow> string" where
  "GetPeerTransactionSrcKey i = ns_key PeerTransaction_Src_Prefix i"

definition GetPeerTransactionTargetKey :: "string \<Rightarrow> string" where
  "GetPeerTransactionTargetKey i = ns_key PeerTransaction_Target_Prefix i"

definition GetPeerTransactionP2pChatKey :: "string \<Rightarrow> string" where
  "GetPeerTransactionP2pChatKey i = ns_key PeerTransaction_P2PChat_Prefix i"

definition GetPeerTransactionGroupFileKey :: "string \<Rightarrow> string" where
  "GetPeerTransactionGroupFileKey i = ns_key PeerTransaction_GroupFile_Prefix i"

definition GetPeerTransactionChannelKey :: "string \<Rightarrow> string" where
  "GetPeerTransactionChannelKey i = ns_key PeerTransaction_Channel_Prefix i"

definition GetPeerTransactionChannelArticleKey :: "string \<Rightarrow> string" where
  "GetPeerTransactionChannelArticleKey i = ns_key PeerTransaction_ChannelArticle_Prefix i"

lemmas key_defs =
  GetPeerEndpointKey_def GetPeerClientKey_def GetPeerClientMobileKey_def GetPeerClientEmailKey_def
  GetPeerClientNameKey_def GetChainAppKey_def GetDataBlockKey_def GetDataBlockOwnerKey_def
  GetTransactionKeyKey_def GetPeerTransactionSrcKey_def GetPeerTransactionTargetKey_def
  GetPeerTransactionP2pChatKey_def GetPeerTransactionGroupFileKey_def
  GetPeerTransactionChannelKey_def GetPeerTransactionChannelArticleKey_def

lemma ns_key_inject [key_simps]:
  assumes "CHR ''/'' \<notin> set p" and "CHR ''/'' \<notin> set q"
  shows "ns_key p i = ns_key q j \<longleftrightarrow> p = q \<and> i = j"
  using assms by (simp add: ns_key_def append_sep_inject)

text \<open>A prefix test on a key reaches the key's own namespace only when nothing extends it.\<close>

lemma has_prefix_ns_key [simp]: "has_prefix (ns_key p i) (''/'' @ p)"
  by (simp add: ns_key_def)

section \<open>Validators\<close>

text \<open>
  \<open>Validate\<close> accepts a key when \<open>record.SplitKey\<close> splits it and its namespace is one of the
  validator's own. The value is not looked at.
\<close>

definition validate_namespace ::
  "'a library_scheme \<Rightarrow> string list \<Rightarrow> string \<Rightarrow> go_error option" where
  "validate_namespace E prefixes key =
     (case lib_SplitKey E key of
        Inl err \<Rightarrow> Some err
      | Inr (namespace, _) \<Rightarrow>
          if namespace \<notin> set prefixes then Some (Err (''invalid namespace:'' @ namespace)) else None)"

definition PeerEndpointValidator_Validate ::
  "'a library_scheme \<Rightarrow> string \<Rightarrow> string \<Rightarrow> go_error option" where
  "PeerEndpointValidator_Validate E key val = validate_namespace E [PeerEndpoint_Prefix] key"

definition PeerClientValidator_Validate ::
  "'a library_scheme \<Rightarrow> string \<Rightarrow> string \<Rightarrow> go_error option" where
  "PeerClientValidator_Validate E key val =
     validate_namespace E
       [PeerClient_Prefix, PeerClient_Mobile_Prefix, PeerClient_Email_Prefix, PeerClient_Name_Prefix] key"

definition ChainAppValidator_Validate ::
  "'a library_scheme \<Rightarrow> string \<Rightarrow> string \<Rightarrow> go_error option" where
  "ChainAppValidator_Validate E key val = validate_namespace E [ChainApp_Prefix] key"

definition DataBlockValidator_Validate ::
  "'a library_scheme \<Rightarrow> string \<Rightarrow> string \<Rightarrow> go_error option" where
  "DataBlockValidator_Validate E key val =
     validate_namespace E [DataBlock_Prefix, DataBlock_Owner_Prefix] key"

definition PeerTransactionValidator_Validate ::
  "'a library_scheme \<Rightarrow> string \<Rightarrow> string \<Rightarrow> go_error option" where
  "PeerTransactionValidator_Validate E key val =
     validate_namespace E
       [PeerTransaction_Src_Prefix, PeerTransaction_Target_Prefix,
        PeerTransaction_P2PChat_Prefix, PeerTransaction_GroupFile_Prefix,
        PeerTransaction_Channel_Prefix, PeerTransaction_ChannelArticle_Prefix] key"

definition TransactionKeyValidator_Validate ::
  "'a library_scheme \<Rightarrow> string \<Rightarrow> string \<Rightarrow> go_error option" where
  "TransactionKeyValidator_Validate E key val = validate_namespace E [TransactionKey_Prefix] key"

text \<open>
  \<open>Select\<close> gets the new value at index 0 and the stored one at index 1 and returns the index of the
  better one, with an error when a value does not decode. Here \<open>Inl\<close> is a panic (a missing value, a
  nil element of a decoded list), \<open>Inr (i, err)\<close> the two results.
\<close>

type_synonym selected = "(int \<times> go_error option) res"

fun select_endpoint :: "peer_endpoint \<Rightarrow> peer_endpoint option list \<Rightarrow> selected" where
  "select_endpoint current [] = Inr (0, None)"
| "select_endpoint current (None # existings) = Inl NilDereference"
| "select_endpoint current (Some existing # existings) =
     (if pe_PeerId existing = pe_PeerId current \<and>
         pe_LastUpdateTime current \<noteq> None \<and> pe_LastUpdateTime existing \<noteq> None \<and>
         the (pe_LastUpdateTime current) < the (pe_LastUpdateTime existing)
      then Inr (1, None) else select_endpoint current existings)"

definition unmarshal_current_endpoint :: "'a library_scheme \<Rightarrow> string \<Rightarrow> (peer_endpoint res) res" where
  "unmarshal_current_endpoint E val =
     (case lib_UnmarshalPeerEndpoint E val of
        Inr current \<Rightarrow> Inr (Inr current)
      | Inl _ \<Rightarrow>
          (case lib_UnmarshalPeerEndpoints E val of
             Inl err \<Rightarrow> Inr (Inl err)
           | Inr [] \<Rightarrow> Inl (Panic ''index out of range'')
           | Inr (None # _) \<Rightarrow> Inl NilDereference
           | Inr (Some current # _) \<Rightarrow> Inr (Inr current)))"

definition PeerEndpointValidator_Select ::
  "'a library_scheme \<Rightarrow> string \<Rightarrow> string list \<Rightarrow> selected" where
  "PeerEndpointValidator_Select E key vals =
     (case vals of
        currentVal # existingVal # _ \<Rightarrow>
          (case unmarshal_current_endpoint E currentVal of
             Inl p \<Rightarrow> Inl p
           | Inr (Inl err) \<Rightarrow> Inr (1, Some err)
           | Inr (Inr current) \<Rightarrow>
               (case lib_UnmarshalPeerEndpoints E existingVal of
                  Inl err \<Rightarrow> Inr (1, Some err)
                | Inr existings \<Rightarrow> select_endpoint current existings))
      | _ \<Rightarrow> Inl (Panic ''index out of range''))"

fun select_block :: "data_block \<Rightarrow> data_block option list \<Rightarrow> selected" where
  "select_block current [] = Inr (0, None)"
| "select_block current (None # existings) = Inl NilDereference"
| "select_block current (Some existing # existings) =
     (if db_BlockId existing = db_BlockId current \<and>
         db_SliceNumber existing = db_SliceNumber current \<and>
         db_CreateTimestamp current \<le> db_CreateTimestamp existing
      then Inr (1, None) else select_block current existings)"

definition DataBlockValidator_Select ::
  "'a library_scheme \<Rightarrow> string \<Rightarrow> string list \<Rightarrow> selected" where
  "DataBlockValidator_Select E key vals =
     (case vals of
        currentVal # existingVal # _ \<Rightarrow>
          (case lib_UnmarshalDataBlock E currentVal of
             Inl err \<Rightarrow> Inr (1, Some err)
           | Inr current \<Rightarrow>
               (case lib_UnmarshalDataBlocks E existingVal of
                  Inl err \<Rightarrow> Inr (1, Some err)
                | Inr existings \<Rightarrow> select_block current existings))
      | _ \<Rightarrow> Inl (Panic ''index out of range''))"

text \<open>The other validators always take the new value.\<close>

definition PeerClientValidator_Select :: "string \<Rightarrow> string list \<Rightarrow> selected" where
  "PeerClientValidator_Select key vals = Inr (0, None)"

definition ChainAppValidator_Select :: "string \<Rightarrow> string list \<Rightarrow> selected" where
  "ChainAppValidator_Select key vals = Inr (0, None)"

definition PeerTransactionValidator_Select :: "string \<Rightarrow> string list \<Rightarrow> selected" where
  "PeerTransactionValidator_Select key vals = Inr (0, None)"

definition TransactionKeyValidator_Select :: "string \<Rightarrow> string list \<Rightarrow> selected" where
  "TransactionKeyValidator_Select key vals = Inr (0, None)"

section \<open>The validators of the DHT\<close>

text \<open>
  \<^verbatim>\<open>libp2p/dht.go\<close> registers one validator for each namespace. The third-party
  \<open>record.NamespacedValidator\<close> then looks up the namespace of a key and calls that validator.
\<close>

datatype validator =
    PeerEndpointValidator
  | PeerClientValidator
  | ChainAppValidator
  | DataBlockValidator
  | PeerTransactionValidator
  | TransactionKeyValidator

fun Validate :: "'a library_scheme \<Rightarrow> validator \<Rightarrow> string \<Rightarrow> string \<Rightarrow> go_error option" where
  "Validate E PeerEndpointValidator key val = PeerEndpointValidator_Validate E key val"
| "Validate E PeerClientValidator key val = PeerClientValidator_Validate E key val"
| "Validate E ChainAppValidator key val = ChainAppValidator_Validate E key val"
| "Validate E DataBlockValidator key val = DataBlockValidator_Validate E key val"
| "Validate E PeerTransactionValidator key val = PeerTransactionValidator_Validate E key val"
| "Validate E TransactionKeyValidator key val = TransactionKeyValidator_Validate E key val"

fun Select :: "'a library_scheme \<Rightarrow> validator \<Rightarrow> string \<Rightarrow> string list \<Rightarrow> selected" where
  "Select E PeerEndpointValidator key vals = PeerEndpointValidator_Select E key vals"
| "Select E PeerClientValidator key vals = PeerClientValidator_Select key vals"
| "Select E ChainAppValidator key vals = ChainAppValidator_Select key vals"
| "Select E DataBlockValidator key vals = DataBlockValidator_Select E key vals"
| "Select E PeerTransactionValidator key vals = PeerTransactionValidator_Select key vals"
| "Select E TransactionKeyValidator key vals = TransactionKeyValidator_Select key vals"

definition dht_validators :: "(string \<times> validator) list" where
  "dht_validators =
     [(PeerEndpoint_Prefix, PeerEndpointValidator),
      (PeerClient_Prefix, PeerClientValidator),
      (PeerClient_Mobile_Prefix, PeerClientValidator),
      (PeerClient_Email_Prefix, PeerClientValidator),
      (PeerClient_Name_Prefix, PeerClientValidator),
      (ChainApp_Prefix, PeerClientValidator),
      (DataBlock_Prefix, DataBlockValidator),
      (DataBlock_Owner_Prefix, DataBlockValidator),
      (PeerTransaction_Src_Prefix, PeerTransactionValidator),
      (PeerTransaction_Target_Prefix, PeerTransactionValidator),
      (TransactionKey_Prefix, TransactionKeyValidator),
      (PeerTransaction_P2PChat_Prefix, PeerTransactionValidator),
      (PeerTransaction_GroupFile_Prefix, PeerTransactionValidator),
      (PeerTransaction_Channel_Prefix, PeerTransactionValidator),
      (PeerTransaction_ChannelArticle_Prefix, PeerTransactionValidator)]"

text \<open>
  Documented behaviour of the third-party functions: \<open>record.SplitKey\<close> splits \<open>/namespace/id\<close>, and
  the namespaced validator runs the validator that is registered for the namespace of the key.
\<close>

definition splits_keys :: "'a library_scheme \<Rightarrow> bool" where
  "splits_keys E \<longleftrightarrow>
     (\<forall>p i. p \<noteq> [] \<longrightarrow> CHR ''/'' \<notin> set p \<longrightarrow> lib_SplitKey E (ns_key p i) = Inr (p, i))"

definition namespaced :: "'a library_scheme \<Rightarrow> bool" where
  "namespaced E \<longleftrightarrow>
     (\<forall>(p, v) \<in> set dht_validators. \<forall>i val.
        lib_Validate E (ns_key p i) val = Validate E v (ns_key p i) val \<and>
        (\<forall>vals r. Select E v (ns_key p i) vals = Inr r \<longrightarrow> lib_Select E (ns_key p i) vals = r))"

lemma dht_validators_names:
  "(p, v) \<in> set dht_validators \<Longrightarrow> p \<noteq> [] \<and> CHR ''/'' \<notin> set p"
proof -
  have "list_all (\<lambda>(p, v). p \<noteq> [] \<and> CHR ''/'' \<notin> set p) dht_validators" by code_simp
  then show "(p, v) \<in> set dht_validators \<Longrightarrow> p \<noteq> [] \<and> CHR ''/'' \<notin> set p"
    by (auto simp: list_all_iff)
qed

text \<open>The namespaces that the \<open>Validate\<close> of each validator lists.\<close>

fun validator_namespaces :: "validator \<Rightarrow> string list" where
  "validator_namespaces PeerEndpointValidator = [PeerEndpoint_Prefix]"
| "validator_namespaces PeerClientValidator =
     [PeerClient_Prefix, PeerClient_Mobile_Prefix, PeerClient_Email_Prefix, PeerClient_Name_Prefix]"
| "validator_namespaces ChainAppValidator = [ChainApp_Prefix]"
| "validator_namespaces DataBlockValidator = [DataBlock_Prefix, DataBlock_Owner_Prefix]"
| "validator_namespaces PeerTransactionValidator =
     [PeerTransaction_Src_Prefix, PeerTransaction_Target_Prefix,
      PeerTransaction_P2PChat_Prefix, PeerTransaction_GroupFile_Prefix,
      PeerTransaction_Channel_Prefix, PeerTransaction_ChannelArticle_Prefix]"
| "validator_namespaces TransactionKeyValidator = [TransactionKey_Prefix]"

lemmas Validate_defs =
  PeerEndpointValidator_Validate_def PeerClientValidator_Validate_def
  ChainAppValidator_Validate_def DataBlockValidator_Validate_def
  PeerTransactionValidator_Validate_def TransactionKeyValidator_Validate_def

lemma Validate_namespaces: "Validate E v key val = validate_namespace E (validator_namespaces v) key"
  by (cases v) (simp_all add: Validate_defs)

lemma validate_namespace_key [key_simps]:
  assumes "splits_keys E" and "p \<noteq> []" and "CHR ''/'' \<notin> set p"
  shows "validate_namespace E ps (ns_key p i) =
    (if p \<in> set ps then None else Some (Err (''invalid namespace:'' @ p)))"
  using assms by (simp add: validate_namespace_def splits_keys_def)

text \<open>
  The validator registered for a namespace accepts the keys of that namespace, for every
  namespace of the table except \<open>chainApp\<close>: there the validator of the peer clients is registered,
  which refuses every key of the namespace.
\<close>

theorem registered_validators_accept:
  assumes "splits_keys E" and "(p, v) \<in> set dht_validators"
  shows "Validate E v (ns_key p i) val =
    (if p = ChainApp_Prefix then Some (Err ''invalid namespace:chainApp'') else None)"
proof -
  have "p \<noteq> []" and "CHR ''/'' \<notin> set p" using assms(2) dht_validators_names by auto
  then have "validate_namespace E ps (ns_key p i) =
      (if p \<in> set ps then None else Some (Err (''invalid namespace:'' @ p)))" for ps
    by (rule validate_namespace_key [OF assms(1)])
  moreover have "list_all (\<lambda>(p, v). if p = ChainApp_Prefix then v = PeerClientValidator
      else p \<in> set (validator_namespaces v)) dht_validators"
    by code_simp
  then have "if p = ChainApp_Prefix then v = PeerClientValidator else p \<in> set (validator_namespaces v)"
    using assms(2) by (auto simp: list_all_iff)
  ultimately show ?thesis
    by (cases "p = ChainApp_Prefix") (simp_all add: Validate_namespaces)
qed

lemma take_drop_until: "c \<notin> set p \<Longrightarrow>
    takeWhile (\<lambda>x. x \<noteq> c) (p @ c # i) = p \<and> dropWhile (\<lambda>x. x \<noteq> c) (p @ c # i) = c # i"
  by (induction p) auto

lemma split_key_ns_key: "p \<noteq> [] \<Longrightarrow> CHR ''/'' \<notin> set p \<Longrightarrow> split_key (ns_key p i) = Inr (p, i)"
  by (cases p) (auto simp: ns_key_def take_drop_until)

lemma splits_keys_sample: "splits_keys sample_env"
  by (simp add: splits_keys_def sample_env_def split_key_ns_key)

theorem registered_validators_accept_witness:
  "Validate (sample_env :: unit env) DataBlockValidator (ns_key DataBlock_Prefix ''b1'') ''v'' = None \<and>
   Validate (sample_env :: unit env) PeerClientValidator (ns_key ChainApp_Prefix ''a1'') ''v'' \<noteq> None"
  by (simp add: registered_validators_accept [OF splits_keys_sample] dht_validators_def
      del: Validate.simps)

lemma select_block_No_panic:
  "None \<notin> set existings \<Longrightarrow>
   select_block current existings =
     Inr (if \<exists>e. Some e \<in> set existings \<and> db_BlockId e = db_BlockId current \<and>
              db_SliceNumber e = db_SliceNumber current \<and>
              db_CreateTimestamp current \<le> db_CreateTimestamp e
          then 1 else 0, None)"
  by (induction current existings rule: select_block.induct) auto

text \<open>
  Between a new block and the blocks stored under its key, the validator takes the new one exactly
  when it is strictly newer than every stored copy of the same slice.
\<close>

theorem DataBlock_Select_newest:
  assumes "lib_UnmarshalDataBlock E new = Inr current"
    and "lib_UnmarshalDataBlocks E old = Inr (map Some stored)"
  shows "DataBlockValidator_Select E key [new, old] = Inr (0, None) \<longleftrightarrow>
    (\<forall>e \<in> set stored. db_BlockId e = db_BlockId current \<longrightarrow>
        db_SliceNumber e = db_SliceNumber current \<longrightarrow>
        db_CreateTimestamp e < db_CreateTimestamp current)"
proof -
  have "select_block current (map Some stored) = Inr (0, None) \<longleftrightarrow>
      \<not> (\<exists>e. Some e \<in> set (map Some stored) \<and> db_BlockId e = db_BlockId current \<and>
          db_SliceNumber e = db_SliceNumber current \<and>
          db_CreateTimestamp current \<le> db_CreateTimestamp e)"
    by (subst select_block_No_panic) auto
  also have "\<dots> \<longleftrightarrow> (\<forall>e \<in> set stored. db_BlockId e = db_BlockId current \<longrightarrow>
        db_SliceNumber e = db_SliceNumber current \<longrightarrow>
        db_CreateTimestamp e < db_CreateTimestamp current)"
    by (auto simp: not_le)
  finally show ?thesis by (simp add: DataBlockValidator_Select_def assms)
qed

definition select_sample :: "unit env" where
  "select_sample = sample_env\<lparr>
     lib_UnmarshalDataBlock := (\<lambda>v. Inr (data_block0\<lparr>db_BlockId := ''b'', db_CreateTimestamp := 5\<rparr>)),
     lib_UnmarshalDataBlocks := (\<lambda>v. Inr [Some (data_block0\<lparr>db_BlockId := ''b'', db_CreateTimestamp := 4\<rparr>)])\<rparr>"

theorem DataBlock_Select_newest_witness:
  "DataBlockValidator_Select select_sample ''k'' [''new'', ''old''] = Inr (0, None)"
  using DataBlock_Select_newest [of select_sample "''new''" "data_block0\<lparr>db_BlockId := ''b'', db_CreateTimestamp := 5\<rparr>"
      "''old''" "[data_block0\<lparr>db_BlockId := ''b'', db_CreateTimestamp := 4\<rparr>]" "''k''"]
  by (simp add: select_sample_def)

section \<open>A sample with the namespaced validator\<close>

text \<open>The namespaced validator over the table, for the evaluations on concrete inputs.\<close>

definition with_validators :: "'w env \<Rightarrow> 'w env" where
  "with_validators E = E\<lparr>
     lib_Validate := (\<lambda>key val.
       case split_key key of
         Inl err \<Rightarrow> Some err
       | Inr (p, _) \<Rightarrow> (case map_of dht_validators p of
           None \<Rightarrow> Some (Err ''invalid record keytype'') | Some v \<Rightarrow> Validate E v key val)),
     lib_Select := (\<lambda>key vals.
       case split_key key of
         Inl err \<Rightarrow> (0, Some err)
       | Inr (p, _) \<Rightarrow> (case map_of dht_validators p of
           None \<Rightarrow> (0, Some (Err ''invalid record keytype''))
         | Some v \<Rightarrow> (case Select E v key vals of Inr r \<Rightarrow> r | Inl _ \<Rightarrow> (0, None))))\<rparr>"

lemma with_validators_fields [simp]:
  "lib_SplitKey (with_validators E) = lib_SplitKey E"
  "lib_UnmarshalPeerEndpoint (with_validators E) = lib_UnmarshalPeerEndpoint E"
  "lib_UnmarshalPeerEndpoints (with_validators E) = lib_UnmarshalPeerEndpoints E"
  "lib_UnmarshalDataBlock (with_validators E) = lib_UnmarshalDataBlock E"
  "lib_UnmarshalDataBlocks (with_validators E) = lib_UnmarshalDataBlocks E"
  by (simp_all add: with_validators_def)

lemma with_validators_Validate:
  "Validate (with_validators E) v key val = Validate E v key val"
  by (simp only: Validate_namespaces validate_namespace_def with_validators_fields)

lemma with_validators_Select:
  "Select (with_validators E) v key vals = Select E v key vals"
  by (cases v) (simp_all only: Select.simps PeerEndpointValidator_Select_def
      DataBlockValidator_Select_def unmarshal_current_endpoint_def with_validators_fields
      PeerClientValidator_Select_def ChainAppValidator_Select_def
      PeerTransactionValidator_Select_def TransactionKeyValidator_Select_def)

lemma with_validators_lookup:
  assumes "(p, v) \<in> set dht_validators"
  shows "lib_Validate (with_validators E) (ns_key p i) val = Validate E v (ns_key p i) val"
    and "lib_Select (with_validators E) (ns_key p i) vals =
      (case Select E v (ns_key p i) vals of Inr r \<Rightarrow> r | Inl _ \<Rightarrow> (0, None))"
proof -
  have "distinct (map fst dht_validators)" by code_simp
  with assms have "map_of dht_validators p = Some v" by simp
  moreover have "split_key (ns_key p i) = Inr (p, i)"
    using dht_validators_names [OF assms] by (simp add: split_key_ns_key)
  ultimately show "lib_Validate (with_validators E) (ns_key p i) val = Validate E v (ns_key p i) val"
    and "lib_Select (with_validators E) (ns_key p i) vals =
      (case Select E v (ns_key p i) vals of Inr r \<Rightarrow> r | Inl _ \<Rightarrow> (0, None))"
    by (simp_all add: with_validators_def del: Validate.simps Select.simps)
qed

lemma namespaced_with_validators: "namespaced (with_validators E)"
  unfolding namespaced_def
  by (auto simp: with_validators_Validate with_validators_Select with_validators_lookup
      simp del: Validate.simps Select.simps)

lemma splits_keys_with_validators [simp]:
  "splits_keys (with_validators E) = splits_keys E"
  by (simp add: splits_keys_def)

end
