(* ===== verification/Registry.thy ===== *)
theory Registry
  imports Namespace
begin

text \<open>
  The registries filled at start-up: the handlers of the message types
  (\<^verbatim>\<open>p2p/chain/handler/default.go\<close>), of the stream protocols (\<^verbatim>\<open>p2p/handler/default.go\<close>) and the
  datastores of the namespaces (\<^verbatim>\<open>libp2p/datastore/handler/default.go\<close>), and the datastore that
  dispatches a key to the store of its namespace (\<^verbatim>\<open>libp2p/datastore/handler/dispatch.go\<close>). The three
  registries share one contract, the locale \<open>registry\<close>: the first registration of a name stays.
\<close>

section \<open>The contract of a registry\<close>

locale registry =
  fixes regist :: "'k \<Rightarrow> 'v \<Rightarrow> 's \<Rightarrow> 's"
    and find_in :: "'k \<Rightarrow> 's \<Rightarrow> 'v option"
  assumes find_regist:
    "find_in k' (regist k v s) = (if k' = k \<and> find_in k s = None then Some v else find_in k' s)"
begin

lemma first_wins: "find_in k s = Some u \<Longrightarrow> find_in k (regist k v s) = Some u"
  by (simp add: find_regist)

lemma regist_twice: "find_in k' (regist k v (regist k u s)) = find_in k' (regist k u s)"
  by (simp add: find_regist)

lemma find_regist_all:
  "find_in k (fold (\<lambda>(k, v). regist k v) kvs s) =
    (case find_in k s of Some v \<Rightarrow> Some v | None \<Rightarrow> map_of kvs k)"
proof (induction kvs arbitrary: s)
  case Nil
  then show ?case by (simp split: option.splits)
next
  case (Cons kv kvs)
  then show ?case by (cases kv) (auto simp: find_regist split: option.splits)
qed

end

section \<open>Handlers of message types\<close>

text \<open>
  A handler gets the message and the state \<open>'s\<close> of the node; the response may be nil (\<open>None\<close>), an
  error is \<open>Inl\<close>.
\<close>

record 's chain_message_handler =
  cmh_MsgType :: string
  cmh_ReceiveHandler :: "chain_message \<Rightarrow> 's \<Rightarrow> chain_message option res \<times> 's"
  cmh_SendHandler :: "chain_message \<Rightarrow> 's \<Rightarrow> chain_message option res \<times> 's"
  cmh_ResponseHandler :: "chain_message \<Rightarrow> 's \<Rightarrow> unit res \<times> 's"

type_synonym 's chain_message_handlers = "string \<rightharpoonup> 's chain_message_handler"

definition registChainMessageHandler ::
  "string \<Rightarrow> 's chain_message_handler \<Rightarrow> 's chain_message_handlers \<Rightarrow> 's chain_message_handlers" where
  "registChainMessageHandler msgType h hs =
     (case hs msgType of None \<Rightarrow> hs(msgType \<mapsto> h) | Some _ \<Rightarrow> hs)"

definition GetChainMessageHandler ::
  "string \<Rightarrow> 's chain_message_handlers \<Rightarrow> 's chain_message_handler res" where
  "GetChainMessageHandler msgType hs =
     (case hs msgType of Some fn \<Rightarrow> Inr fn | None \<Rightarrow> Inl (Err ''NotExist''))"

definition RegistChainMessageHandler ::
  "string \<Rightarrow> (chain_message \<Rightarrow> 's \<Rightarrow> chain_message option res \<times> 's) \<Rightarrow>
   (chain_message \<Rightarrow> 's \<Rightarrow> chain_message option res \<times> 's) \<Rightarrow> (chain_message \<Rightarrow> 's \<Rightarrow> unit res \<times> 's) \<Rightarrow>
   's chain_message_handlers \<Rightarrow> 's chain_message_handlers" where
  "RegistChainMessageHandler msgType sendHandler receiveHandler responseHandler hs =
     (case hs msgType of
        None \<Rightarrow> hs(msgType \<mapsto> \<lparr>cmh_MsgType = msgType, cmh_ReceiveHandler = receiveHandler,
                  cmh_SendHandler = sendHandler, cmh_ResponseHandler = responseHandler\<rparr>)
      | Some _ \<Rightarrow> hs)"

section \<open>Handlers of stream protocols\<close>

record 's protocol_message_handler =
  pmh_ProtocolID :: string
  pmh_MessageHandler :: "string \<Rightarrow> string \<Rightarrow> string \<Rightarrow> string \<Rightarrow> string \<Rightarrow> 's \<Rightarrow> string res \<times> 's"

type_synonym 's protocol_message_handlers = "string \<rightharpoonup> 's protocol_message_handler"

definition GetProtocolMessageHandler ::
  "string \<Rightarrow> 's protocol_message_handlers \<Rightarrow> 's protocol_message_handler res" where
  "GetProtocolMessageHandler protocolID hs =
     (case hs protocolID of Some fn \<Rightarrow> Inr fn | None \<Rightarrow> Inl (Err ''NotExist''))"

definition RegistProtocolMessageHandler ::
  "string \<Rightarrow> (string \<Rightarrow> string \<Rightarrow> string \<Rightarrow> string \<Rightarrow> string \<Rightarrow> 's \<Rightarrow> string res \<times> 's) \<Rightarrow>
   's protocol_message_handlers \<Rightarrow> 's protocol_message_handlers" where
  "RegistProtocolMessageHandler protocolID receiveHandler hs =
     (case hs protocolID of
        None \<Rightarrow> hs(protocolID \<mapsto> \<lparr>pmh_ProtocolID = protocolID, pmh_MessageHandler = receiveHandler\<rparr>)
      | Some _ \<Rightarrow> hs)"

section \<open>Datastores\<close>

text \<open>The interface \<open>datastore.Datastore\<close>, the part that the program calls.\<close>

record 'w datastore =
  ds_Get :: "string \<Rightarrow> 'w \<Rightarrow> ds_result \<times> 'w"
  ds_Put :: "string \<Rightarrow> string \<Rightarrow> 'w \<Rightarrow> unit res \<times> 'w"
  ds_Has :: "string \<Rightarrow> 'w \<Rightarrow> bool res \<times> 'w"
  ds_GetSize :: "string \<Rightarrow> 'w \<Rightarrow> int res \<times> 'w"
  ds_Delete :: "string \<Rightarrow> 'w \<Rightarrow> unit res \<times> 'w"

text \<open>\<open>dsServiceContainer\<close> and \<open>keynamePool\<close>.\<close>

record 'w datastores =
  dss_container :: "string \<rightharpoonup> 'w datastore"
  dss_keynames :: "string \<rightharpoonup> string"

definition RegistKeyname :: "string \<Rightarrow> string \<Rightarrow> 'w datastores \<Rightarrow> 'w datastores" where
  "RegistKeyname name keyname R = R\<lparr>dss_keynames := (dss_keynames R)(name \<mapsto> keyname)\<rparr>"

definition RegistDatastore :: "string \<Rightarrow> 'w datastore \<Rightarrow> 'w datastores \<Rightarrow> 'w datastores" where
  "RegistDatastore name ds R =
     (case dss_container R name of
        None \<Rightarrow> R\<lparr>dss_container := (dss_container R)(name \<mapsto> ds)\<rparr>
      | Some _ \<Rightarrow> R)"

definition GetDatastore :: "string \<Rightarrow> 'w datastores \<Rightarrow> 'w datastore option" where
  "GetDatastore name R = dss_container R name"

section \<open>Interpretations\<close>

interpretation chain_handlers: registry registChainMessageHandler "\<lambda>k hs. hs k"
  by unfold_locales (auto simp: registChainMessageHandler_def split: option.splits)

interpretation protocol_handlers: registry RegistProtocolMessageHandler
  "\<lambda>k hs. map_option pmh_MessageHandler (hs k)"
  by unfold_locales (auto simp: RegistProtocolMessageHandler_def split: option.splits)

interpretation datastore_registry: registry RegistDatastore GetDatastore
  by unfold_locales (auto simp: RegistDatastore_def GetDatastore_def split: option.splits)

text \<open>A handler as the triple of its functions, to state the contract for the public registration.\<close>

definition handler_functions ::
  "'s chain_message_handler \<Rightarrow>
   (chain_message \<Rightarrow> 's \<Rightarrow> chain_message option res \<times> 's) \<times>
   (chain_message \<Rightarrow> 's \<Rightarrow> chain_message option res \<times> 's) \<times> (chain_message \<Rightarrow> 's \<Rightarrow> unit res \<times> 's)" where
  "handler_functions h = (cmh_SendHandler h, cmh_ReceiveHandler h, cmh_ResponseHandler h)"

interpretation chain_registry: registry
  "\<lambda>k (s, r, p). RegistChainMessageHandler k s r p" "\<lambda>k hs. map_option handler_functions (hs k)"
  by unfold_locales
    (auto simp: RegistChainMessageHandler_def handler_functions_def split: option.splits)

type_synonym 's registration =
  "string \<times> (chain_message \<Rightarrow> 's \<Rightarrow> chain_message option res \<times> 's) \<times>
   (chain_message \<Rightarrow> 's \<Rightarrow> chain_message option res \<times> 's) \<times> (chain_message \<Rightarrow> 's \<Rightarrow> unit res \<times> 's)"

definition regist_handlers :: "'s registration list \<Rightarrow> 's chain_message_handlers" where
  "regist_handlers regs =
     fold (\<lambda>(k, s, r, p). RegistChainMessageHandler k s r p) regs (\<lambda>_. None)"

lemma regist_handlers_map:
  "map_option handler_functions (regist_handlers regs t) = map_of regs t"
  using chain_registry.find_regist_all [where k = t and kvs = regs and s = "\<lambda>_. None"]
  by (simp add: regist_handlers_def)

text \<open>
  After any sequence of registrations, the handler found for a message type is the one that was
  registered first for it, and the lookup fails with \<open>NotExist\<close> exactly for the types never
  registered.
\<close>

theorem first_registered_handler:
  "(case GetChainMessageHandler t (regist_handlers regs) of
      Inl e \<Rightarrow> e = Err ''NotExist'' \<and> map_of regs t = None
    | Inr h \<Rightarrow> map_of regs t = Some (handler_functions h))"
  using regist_handlers_map [of regs t]
  by (auto simp: GetChainMessageHandler_def split: option.splits)

section \<open>The dispatching datastore\<close>

text \<open>
  \<open>DispatchRequest\<close>: the store and the key name of the namespace of a key, and the conditions that
  the key stands for. The service of the request comes from a container outside \<^verbatim>\<open>src/\<close> and is left out.
\<close>

record 'w dispatch_request =
  dr_Name :: string
  dr_Keyname :: string
  dr_Datastore :: "'w datastore"
  dr_Keyvalue :: "(string \<times> string) list"

definition NewPrefixRequest :: "'w datastores \<Rightarrow> string \<Rightarrow> 'w dispatch_request res" where
  "NewPrefixRequest R prefix =
     (case GetDatastore prefix R of
        None \<Rightarrow> Inl (Err ''No datastore'')
      | Some ds \<Rightarrow>
          (case dss_keynames R prefix of
             None \<Rightarrow> Inl (Err ''No keyname'')
           | Some keyname \<Rightarrow>
               Inr \<lparr>dr_Name = prefix, dr_Keyname = keyname, dr_Datastore = ds, dr_Keyvalue = []\<rparr>))"

text \<open>
  A key that is not base32 gives a nil request without an error (\<open>Inr None\<close>), a path without a
  second segment an index panic. A segment that is not a JSON map is the value of the key name.
\<close>

definition map_put :: "string \<Rightarrow> string \<Rightarrow> (string \<times> string) list \<Rightarrow> (string \<times> string) list" where
  "map_put k v kvs = filter (\<lambda>(k', _). k' \<noteq> k) kvs @ [(k, v)]"

definition NewKeyRequest ::
  "'a library_scheme \<Rightarrow> 'w datastores \<Rightarrow> string \<Rightarrow> 'w dispatch_request option res" where
  "NewKeyRequest E R key =
     (case lib_DecodeBase32 E (trim_prefix key ''/'') of
        Inl _ \<Rightarrow> Inr None
      | Inr path \<Rightarrow>
          (case split_on (CHR ''/'') path of
             _ # prefix # _ \<Rightarrow>
               (case NewPrefixRequest R prefix of
                  Inl err \<Rightarrow> Inl err
                | Inr request \<Rightarrow>
                    (case split_str (''/'' @ prefix @ ''/'') path of
                       _ # seg # _ \<Rightarrow>
                         (case lib_TextUnmarshalMap E seg of
                            (kvs, None) \<Rightarrow> Inr (Some (request\<lparr>dr_Keyvalue := kvs\<rparr>))
                          | (kvs, Some _) \<Rightarrow>
                              Inr (Some (request\<lparr>dr_Keyvalue := map_put (dr_Keyname request) seg kvs\<rparr>)))
                     | _ \<Rightarrow> Inl (Panic ''index out of range'')))
           | _ \<Rightarrow> Inl (Panic ''index out of range'')))"

definition with_request ::
  "'a library_scheme \<Rightarrow> 'w datastores \<Rightarrow> string \<Rightarrow> ('w datastore \<Rightarrow> 'w \<Rightarrow> 'r res \<times> 'w) \<Rightarrow> 'w \<Rightarrow> 'r res \<times> 'w"
  where
  "with_request E R key f w =
     (case NewKeyRequest E R key of
        Inl err \<Rightarrow> (Inl err, w)
      | Inr None \<Rightarrow> (Inl NilDereference, w)
      | Inr (Some request) \<Rightarrow> f (dr_Datastore request) w)"

definition Dispatch_Put ::
  "'a library_scheme \<Rightarrow> 'w datastores \<Rightarrow> string \<Rightarrow> string \<Rightarrow> 'w \<Rightarrow> unit res \<times> 'w" where
  "Dispatch_Put E R key val = with_request E R key (\<lambda>ds. ds_Put ds key val)"

definition Dispatch_Has :: "'a library_scheme \<Rightarrow> 'w datastores \<Rightarrow> string \<Rightarrow> 'w \<Rightarrow> bool res \<times> 'w" where
  "Dispatch_Has E R key = with_request E R key (\<lambda>ds. ds_Has ds key)"

definition Dispatch_GetSize :: "'a library_scheme \<Rightarrow> 'w datastores \<Rightarrow> string \<Rightarrow> 'w \<Rightarrow> int res \<times> 'w" where
  "Dispatch_GetSize E R key = with_request E R key (\<lambda>ds. ds_GetSize ds key)"

definition Dispatch_Delete :: "'a library_scheme \<Rightarrow> 'w datastores \<Rightarrow> string \<Rightarrow> 'w \<Rightarrow> unit res \<times> 'w" where
  "Dispatch_Delete E R key = with_request E R key (\<lambda>ds. ds_Delete ds key)"

definition Dispatch_Get :: "'a library_scheme \<Rightarrow> 'w datastores \<Rightarrow> string \<Rightarrow> 'w \<Rightarrow> ds_result \<times> 'w" where
  "Dispatch_Get E R key w =
     (case NewKeyRequest E R key of
        Inl err \<Rightarrow> (DsError err, w)
      | Inr None \<Rightarrow> (DsError NilDereference, w)
      | Inr (Some request) \<Rightarrow> ds_Get (dr_Datastore request) key w)"

text \<open>The key under which a path is put into the datastore, and its documented inverse.\<close>

definition ds_key :: "'a library_scheme \<Rightarrow> string \<Rightarrow> string" where
  "ds_key E key = lib_NewKey E (lib_EncodeBase32 E key)"

definition decodes_keys :: "'a library_scheme \<Rightarrow> bool" where
  "decodes_keys E \<longleftrightarrow> (\<forall>key. lib_DecodeBase32 E (trim_prefix (ds_key E key) ''/'') = Inr key)"

text \<open>
  A key of a namespace with a store and a key name reaches that store, with the identifier behind
  the namespace as the value of the key name, when the identifier is no JSON map and does not itself
  contain the namespace between slashes.
\<close>

lemma NewKeyRequest_namespace:
  assumes "decodes_keys E" and "GetDatastore p R = Some ds" and "dss_keynames R p = Some k"
    and "CHR ''/'' \<notin> set p" and "\<not> contains i (''/'' @ p @ ''/'')"
    and "lib_TextUnmarshalMap E i = ([], Some err)"
  shows "NewKeyRequest E R (ds_key E (ns_key p i)) =
    Inr (Some \<lparr>dr_Name = p, dr_Keyname = k, dr_Datastore = ds, dr_Keyvalue = [(k, i)]\<rparr>)"
proof -
  have "split_on (CHR ''/'') (ns_key p i) = [] # p # split_on (CHR ''/'') i"
    using assms(4) split_on_append_sep [of "CHR ''/''" p i] by (simp add: ns_key_def)
  moreover have "split_str (''/'' @ p @ ''/'') (ns_key p i) = [[], i]"
    using split_str_leading [OF _ assms(5)] by (simp add: ns_key_def)
  ultimately show ?thesis
    using assms(1-3,6) by (simp add: NewKeyRequest_def NewPrefixRequest_def decodes_keys_def map_put_def)
qed

section \<open>The registrations of the database store\<close>

text \<open>\<open>init\<close> of \<^verbatim>\<open>libp2p/datastore/xorm/default.go\<close>: the store \<open>X\<close> and a key name for each namespace.\<close>

definition PeerEndpoint_KeyName :: string where "PeerEndpoint_KeyName = ''PeerId''"
definition PeerClient_KeyName :: string where "PeerClient_KeyName = ''PeerId''"
definition ChainApp_KeyName :: string where "ChainApp_KeyName = ''PeerId''"
definition DataBlock_KeyName :: string where "DataBlock_KeyName = ''BlockId''"
definition PeerTransaction_KeyName :: string where "PeerTransaction_KeyName = ''SrcPeerId''"
definition TransactionKey_KeyName :: string where "TransactionKey_KeyName = ''BlockId''"

lemmas KeyName_defs = PeerEndpoint_KeyName_def PeerClient_KeyName_def ChainApp_KeyName_def
  DataBlock_KeyName_def PeerTransaction_KeyName_def TransactionKey_KeyName_def

definition xorm_registrations :: "(string \<times> string) list" where
  "xorm_registrations =
     [(PeerEndpoint_Prefix, PeerEndpoint_KeyName),
      (PeerClient_Prefix, PeerClient_KeyName),
      (PeerClient_Mobile_Prefix, PeerClient_Mobile_KeyKind),
      (PeerClient_Email_Prefix, PeerClient_Email_KeyKind),
      (PeerClient_Name_Prefix, PeerClient_Name_KeyKind),
      (ChainApp_Prefix, ChainApp_KeyName),
      (DataBlock_Prefix, DataBlock_KeyName),
      (DataBlock_Owner_Prefix, DataBlock_Owner_KeyKind),
      (PeerTransaction_Src_Prefix, PeerTransaction_KeyName),
      (PeerTransaction_Target_Prefix, PeerTransaction_Target_KeyKind),
      (TransactionKey_Prefix, TransactionKey_KeyName),
      (PeerTransaction_P2PChat_Prefix, PeerTransaction_P2PChat_KeyKind),
      (PeerTransaction_GroupFile_Prefix, PeerTransaction_GroupFile_KeyKind),
      (PeerTransaction_Channel_Prefix, PeerTransaction_Channel_KeyKind),
      (PeerTransaction_ChannelArticle_Prefix, PeerTransaction_ChannelArticle_KeyKind)]"

definition xorm_init :: "'w datastore \<Rightarrow> 'w datastores \<Rightarrow> 'w datastores" where
  "xorm_init X R =
     fold (\<lambda>(p, k) R. RegistKeyname p k (RegistDatastore p X R)) xorm_registrations R"

definition no_datastores :: "'w datastores" where
  "no_datastores = \<lparr>dss_container = (\<lambda>_. None), dss_keynames = (\<lambda>_. None)\<rparr>"

lemma fold_registrations:
  assumes "distinct (map fst kvs)"
  shows "GetDatastore p (fold (\<lambda>(p, k) R. RegistKeyname p k (RegistDatastore p X R)) kvs R) =
      (if GetDatastore p R = None \<and> p \<in> fst ` set kvs then Some X else GetDatastore p R) \<and>
    dss_keynames (fold (\<lambda>(p, k) R. RegistKeyname p k (RegistDatastore p X R)) kvs R) p =
      (case map_of kvs p of None \<Rightarrow> dss_keynames R p | Some k \<Rightarrow> Some k)"
  using assms
proof (induction kvs arbitrary: R)
  case (Cons kv kvs)
  obtain q k where kv: "kv = (q, k)" by fastforce
  have "GetDatastore p (RegistKeyname q k (RegistDatastore q X R)) =
      (if p = q \<and> GetDatastore q R = None then Some X else GetDatastore p R)"
    using datastore_registry.find_regist [of p q X R]
    by (simp add: RegistKeyname_def GetDatastore_def)
  moreover have "dss_keynames (RegistKeyname q k (RegistDatastore q X R)) p =
      (if p = q then Some k else dss_keynames R p)"
    by (simp add: RegistKeyname_def RegistDatastore_def split: option.splits)
  moreover have "map_of kvs q = None"
    using Cons.prems kv by (simp add: map_of_eq_None_iff)
  ultimately show ?case
    using Cons.IH [of "RegistKeyname q k (RegistDatastore q X R)"] Cons.prems kv
    by (auto split: option.splits)
qed simp

lemma xorm_init_namespace:
  assumes "(p, v) \<in> set dht_validators"
  shows "\<exists>k. (p, k) \<in> set xorm_registrations \<and>
    GetDatastore p (xorm_init X no_datastores) = Some X \<and>
    dss_keynames (xorm_init X no_datastores) p = Some k"
proof -
  have d: "distinct (map fst xorm_registrations)" by code_simp
  have "list_all (\<lambda>(p, v). map_of xorm_registrations p \<noteq> None) dht_validators" by code_simp
  with assms obtain k where k: "map_of xorm_registrations p = Some k" by (auto simp: list_all_iff)
  then have "(p, k) \<in> set xorm_registrations" by (rule map_of_SomeD)
  moreover from this have "p \<in> fst ` set xorm_registrations" by force
  ultimately show ?thesis
    using fold_registrations [OF d, of p X no_datastores] k
    by (simp add: xorm_init_def no_datastores_def GetDatastore_def)
qed

lemma dispatch_serves:
  assumes "decodes_keys E" and "(p, v) \<in> set dht_validators"
    and "\<not> contains i (''/'' @ p @ ''/'')" and "lib_TextUnmarshalMap E i = ([], Some err)"
  shows "\<exists>k. (p, k) \<in> set xorm_registrations \<and>
    NewKeyRequest E (xorm_init X no_datastores) (ds_key E (ns_key p i)) =
      Inr (Some \<lparr>dr_Name = p, dr_Keyname = k, dr_Datastore = X, dr_Keyvalue = [(k, i)]\<rparr>)"
proof -
  obtain k where "(p, k) \<in> set xorm_registrations"
    and "GetDatastore p (xorm_init X no_datastores) = Some X"
    and "dss_keynames (xorm_init X no_datastores) p = Some k"
    using xorm_init_namespace [OF assms(2)] by blast
  with NewKeyRequest_namespace [OF assms(1) _ _ _ assms(3,4)] dht_validators_names [OF assms(2)]
  show ?thesis by blast
qed

lemma Dispatch_namespace:
  assumes "decodes_keys E" and "(p, v) \<in> set dht_validators"
    and "\<not> contains i (''/'' @ p @ ''/'')" and "lib_TextUnmarshalMap E i = ([], Some err)"
  shows "Dispatch_Get E (xorm_init X no_datastores) (ds_key E (ns_key p i)) w =
      ds_Get X (ds_key E (ns_key p i)) w"
    and "Dispatch_Put E (xorm_init X no_datastores) (ds_key E (ns_key p i)) val w =
      ds_Put X (ds_key E (ns_key p i)) val w"
  using dispatch_serves [OF assms, of X]
  by (auto simp: Dispatch_Get_def Dispatch_Put_def with_request_def)

text \<open>
  After the start-up every namespace that has a validator also has a store and a key name: a key
  of it reaches the database store, with its identifier as the value of the registered key name.
  The identifier must not be a JSON map nor contain the namespace between slashes.
\<close>

theorem dispatch_serves_namespaces:
  assumes "decodes_keys E" and "(p, v) \<in> set dht_validators"
    and "\<not> contains i (''/'' @ p @ ''/'')" and "lib_TextUnmarshalMap E i = ([], Some err)"
  shows "\<exists>k. (p, k) \<in> set xorm_registrations \<and>
    NewKeyRequest E (xorm_init X no_datastores) (ds_key E (ns_key p i)) =
      Inr (Some \<lparr>dr_Name = p, dr_Keyname = k, dr_Datastore = X, dr_Keyvalue = [(k, i)]\<rparr>)"
  using assms by (rule dispatch_serves)

lemma decodes_keys_sample: "decodes_keys sample_env"
  by (simp add: decodes_keys_def ds_key_def trim_prefix_def)

definition empty_datastore :: "unit datastore" where
  "empty_datastore = \<lparr>ds_Get = (\<lambda>_ w. (DsNotFound, w)), ds_Put = (\<lambda>_ _ w. (Inr (), w)),
     ds_Has = (\<lambda>_ w. (Inr False, w)), ds_GetSize = (\<lambda>_ w. (Inr 0, w)), ds_Delete = (\<lambda>_ w. (Inr (), w))\<rparr>"

theorem dispatch_serves_namespaces_witness:
  "\<exists>k. (TransactionKey_Prefix, k) \<in> set xorm_registrations \<and>
    NewKeyRequest (sample_env :: unit env) (xorm_init empty_datastore no_datastores)
      (ds_key (sample_env :: unit env) (ns_key TransactionKey_Prefix ''b1'')) =
      Inr (Some \<lparr>dr_Name = TransactionKey_Prefix, dr_Keyname = k, dr_Datastore = empty_datastore,
        dr_Keyvalue = [(k, ''b1'')]\<rparr>)"
  by (rule dispatch_serves_namespaces [where v = TransactionKeyValidator and err = "Err ''not a map''"])
    (simp_all add: decodes_keys_sample dht_validators_def)

end
