(* ===== verification/Dht.thy ===== *)
theory Dht
  imports Registry
begin

text \<open>
  \<^verbatim>\<open>libp2p/dht/default.go\<close>, the wrapper \<open>PeerEntityDHT\<close> of the Kademlia DHT: reading and writing records
  of the local store (through the dispatching datastore), and the network operations, which turn two
  errors of the DHT into success for the keys of some namespaces.
\<close>

section \<open>Local records\<close>

definition GetLocal ::
  "'w env \<Rightarrow> 'w datastores \<Rightarrow> string \<Rightarrow> 'w \<Rightarrow> dht_record option res \<times> 'w" where
  "GetLocal E R key w =
     (case Dispatch_Get E R (ds_key E key) w of
        (DsNotFound, w') \<Rightarrow> (Inr None, w')
      | (DsError err, w') \<Rightarrow> (Inl err, w')
      | (DsFound buf, w') \<Rightarrow>
          (case lib_UnmarshalRecord E buf of
             Inl _ \<Rightarrow> (Inr None, w')
           | Inr rec \<Rightarrow>
               if lib_Validate E (rec_Key rec) (rec_Value rec) \<noteq> None then (Inr None, w')
               else if rec_Key rec \<noteq> key then (Inr None, w')
               else (Inr (Some rec), w')))"

definition store_record ::
  "'w env \<Rightarrow> 'w datastores \<Rightarrow> string \<Rightarrow> string \<Rightarrow> 'w \<Rightarrow> unit res \<times> 'w" where
  "store_record E R key val w =
     (case env_now E w of
        (now, w1) \<Rightarrow>
          (case lib_MarshalRecord E
                  \<lparr>rec_Key = key, rec_Value = val, rec_TimeReceived = lib_FormatTime E now\<rparr> of
             Inl err \<Rightarrow> (Inl err, w1)
           | Inr data \<Rightarrow> Dispatch_Put E R (ds_key E key) data w1))"

definition PutLocal ::
  "'w env \<Rightarrow> 'w datastores \<Rightarrow> string \<Rightarrow> string \<Rightarrow> 'w \<Rightarrow> unit res \<times> 'w" where
  "PutLocal E R key val w =
     (case lib_Validate E key val of
        Some err \<Rightarrow> (Inl err, w)
      | None \<Rightarrow>
          (case GetLocal E R key w of
             (Inl err, w1) \<Rightarrow> (Inl err, w1)
           | (Inr None, w1) \<Rightarrow> store_record E R key val w1
           | (Inr (Some old), w1) \<Rightarrow>
               if rec_Value old \<noteq> val then
                 (case lib_Select E key [val, rec_Value old] of
                    (_, Some err) \<Rightarrow> (Inl err, w1)
                  | (i, None) \<Rightarrow> if i \<noteq> 0 then (Inr (), w1) else store_record E R key val w1)
               else store_record E R key val w1))"

section \<open>Network operations\<close>

text \<open>The namespaces whose keys have two errors of the DHT turned into success.\<close>

definition tolerated_prefixes :: "string list" where
  "tolerated_prefixes =
     [PeerClient_Prefix, PeerClient_Mobile_Prefix, PeerClient_Email_Prefix, PeerClient_Name_Prefix,
      DataBlock_Prefix, DataBlock_Owner_Prefix, PeerTransaction_Src_Prefix, PeerTransaction_Target_Prefix]"

definition tolerated :: "string \<Rightarrow> bool" where
  "tolerated key = list_ex (\<lambda>p. has_prefix key (''/'' @ p)) tolerated_prefixes"

abbreviation CantReplace :: string where
  "CantReplace \<equiv> ''can'' @ [CHR 0x27] @ ''t replace a newer value with an older value''"

definition PutValue :: "'w env \<Rightarrow> string \<Rightarrow> string \<Rightarrow> 'w \<Rightarrow> unit res \<times> 'w" where
  "PutValue E key val w =
     (case kad_PutValue E key val w of
        (None, w') \<Rightarrow> (Inr (), w')
      | (Some err, w') \<Rightarrow>
          if tolerated key \<and> err = DhtErr CantReplace then (Inr (), w')
          else if tolerated key \<and> err = LookupFailure then (Inr (), w')
          else (Inl (dht_go_error err), w'))"

definition GetValue :: "'w env \<Rightarrow> string \<Rightarrow> 'w \<Rightarrow> string res \<times> 'w" where
  "GetValue E key w =
     (case kad_GetValue E key w of
        ((byteArr, None), w') \<Rightarrow> (Inr byteArr, w')
      | ((byteArr, Some err), w') \<Rightarrow>
          if tolerated key \<and> err = LookupFailure then (Inr byteArr, w')
          else (Inl (dht_go_error err), w'))"

definition GetValues :: "'w env \<Rightarrow> string \<Rightarrow> 'w \<Rightarrow> string list res \<times> 'w" where
  "GetValues E key w =
     (case kad_SearchValue E key w of
        ((recvdVals, None), w') \<Rightarrow> (Inr recvdVals, w')
      | ((recvdVals, Some err), w') \<Rightarrow>
          if tolerated key \<and> err = LookupFailure then (Inr recvdVals, w')
          else (Inl (dht_go_error err), w'))"

definition SearchValue :: "'w env \<Rightarrow> string \<Rightarrow> 'w \<Rightarrow> string list res \<times> 'w" where
  "SearchValue E key w =
     (case kad_SearchValue E key w of
        ((valChs, None), w') \<Rightarrow> (Inr valChs, w')
      | ((valChs, Some err), w') \<Rightarrow>
          if tolerated key \<and> err = LookupFailure then (Inr valChs, w')
          else (Inl (dht_go_error err), w'))"

definition FindPeer :: "'w env \<Rightarrow> string \<Rightarrow> 'w \<Rightarrow> string res \<times> 'w" where
  "FindPeer E i w = kad_FindPeer E i w"

definition PutMyself :: "'w env \<Rightarrow> 'w \<Rightarrow> unit res \<times> 'w" where
  "PutMyself E w =
     (case lib_Marshal E (PMyselfPeer (glb_MyselfPeer E)) of
        Inl err \<Rightarrow> (Inl err, w)
      | Inr byteMyselfPeer \<Rightarrow>
          (case lib_UnmarshalPeerEndpoint E byteMyselfPeer of
             Inl err \<Rightarrow> (Inl err, w)
           | Inr peerEndpoint \<Rightarrow>
               let peerEndpoint = peerEndpoint\<lparr>pe_ActiveStatus := ActiveStatus_Up\<rparr> in
               (case lib_Marshal E (PPeerEndpoint (Some peerEndpoint)) of
                  Inl err \<Rightarrow> (Inl err, w)
                | Inr bytePeerEndpoint \<Rightarrow>
                    PutValue E (GetPeerEndpointKey (pe_PeerId peerEndpoint)) bytePeerEndpoint w)))"

section \<open>Properties\<close>

lemma has_prefix_same_namespace:
  "CHR ''/'' \<notin> set q \<Longrightarrow> CHR ''/'' \<notin> set p \<Longrightarrow>
   has_prefix (ns_key p i) (''/'' @ q) \<longleftrightarrow> has_prefix p q"
proof (induction q arbitrary: p)
  case (Cons c q)
  then show ?case by (cases p) (auto simp: ns_key_def)
qed (simp add: ns_key_def)

lemma tolerated_namespace:
  assumes "CHR ''/'' \<notin> set p"
  shows "tolerated (ns_key p i) \<longleftrightarrow> list_ex (\<lambda>q. has_prefix p q) tolerated_prefixes"
proof -
  have "list_all (\<lambda>q. CHR ''/'' \<notin> set q) tolerated_prefixes" by code_simp
  then show ?thesis
    using has_prefix_same_namespace [OF _ assms]
    by (auto simp: tolerated_def list_ex_iff list_all_iff)
qed

text \<open>
  A record that \<open>GetLocal\<close> returns carries the key asked for, and is valid for it; a datastore
  that returns a record of another key or a corrupt one yields no record, never an error.
\<close>

theorem GetLocal_sound:
  assumes "GetLocal E R key w = (Inr (Some rec), w')"
  shows "rec_Key rec = key \<and> lib_Validate E key (rec_Value rec) = None \<and>
    (\<exists>buf. Dispatch_Get E R (ds_key E key) w = (DsFound buf, w') \<and> lib_UnmarshalRecord E buf = Inr rec)"
  using assms
  by (auto simp: GetLocal_def split: prod.splits ds_result.splits sum.splits if_splits)

text \<open>
  C31: no block is rolled back: when the local store holds a copy of the same slice that is not older,
  \<open>PutLocal\<close> reports success and writes nothing; the world is the one after the read.
\<close>

theorem PutLocal_no_rollback:
  assumes "namespaced E" and "key = GetDataBlockKey i"
    and "lib_Validate E key val = None"
    and "GetLocal E R key w = (Inr (Some old), w')" and "rec_Value old \<noteq> val"
    and "lib_UnmarshalDataBlock E val = Inr current"
    and "lib_UnmarshalDataBlocks E (rec_Value old) = Inr (map Some stored)"
    and "e \<in> set stored" and "db_BlockId e = db_BlockId current"
    and "db_SliceNumber e = db_SliceNumber current"
    and "db_CreateTimestamp current \<le> db_CreateTimestamp e"
  shows "PutLocal E R key val w = (Inr (), w')"
proof -
  have "select_block current (map Some stored) = Inr (1, None)"
    using assms(8-11) by (subst select_block_No_panic) auto
  then have "Select E DataBlockValidator key [val, rec_Value old] = Inr (1, None)"
    by (simp add: DataBlockValidator_Select_def assms(6,7))
  moreover have "(DataBlock_Prefix, DataBlockValidator) \<in> set dht_validators"
    by (simp add: dht_validators_def)
  ultimately have "lib_Select E key [val, rec_Value old] = (1, None)"
    using assms(1,2) unfolding namespaced_def GetDataBlockKey_def by fastforce
  with assms(3-5) show ?thesis by (simp add: PutLocal_def)
qed

text \<open>
  When the network knows no peer, a write under a key of a namespace with a validator succeeds for
  the namespaces of peer clients, data blocks and collection transactions and fails for the others,
  among them the transactions of chats, group files and channels.
\<close>

theorem PutValue_lookup_failure:
  assumes "(p, v) \<in> set dht_validators" and "fst (kad_PutValue E (ns_key p i) val w) = Some LookupFailure"
  shows "fst (PutValue E (ns_key p i) val w) =
    (if p \<in> set tolerated_prefixes then Inr () else Inl (dht_go_error LookupFailure))"
proof -
  have "list_all (\<lambda>(p, v). list_ex (has_prefix p) tolerated_prefixes = (p \<in> set tolerated_prefixes)) dht_validators"
    by code_simp
  then have "tolerated (ns_key p i) \<longleftrightarrow> p \<in> set tolerated_prefixes"
    using assms(1) dht_validators_names [OF assms(1)] by (auto simp: tolerated_namespace list_all_iff)
  with assms(2) show ?thesis by (auto simp: PutValue_def split: prod.splits)
qed

text \<open>
  No \<open>ChainApp\<close> can be stored locally: \<open>PutLocal\<close> refuses each key of its namespace before it
  reads or writes anything.
\<close>

theorem PutLocal_chain_app:
  assumes "splits_keys E" and "namespaced E"
  shows "PutLocal E R (GetChainAppKey i) val w = (Inl (Err ''invalid namespace:chainApp''), w)"
proof -
  have "(ChainApp_Prefix, PeerClientValidator) \<in> set dht_validators"
    by (simp add: dht_validators_def)
  then have "lib_Validate E (ns_key ChainApp_Prefix i) val =
      Validate E PeerClientValidator (ns_key ChainApp_Prefix i) val"
    using assms(2) by (auto simp: namespaced_def)
  also have "\<dots> = Some (Err ''invalid namespace:chainApp'')"
    by (simp add: PeerClientValidator_Validate_def validate_namespace_key [OF assms(1)])
  finally show ?thesis by (simp add: PutLocal_def GetChainAppKey_def)
qed

section \<open>Evaluations\<close>

text \<open>A node with one stored block of time 7 and a network without peers.\<close>

definition stored_block :: data_block where
  "stored_block = data_block0\<lparr>db_BlockId := ''b'', db_SliceNumber := 1, db_CreateTimestamp := 7\<rparr>"

definition block_record :: dht_record where
  "block_record = \<lparr>rec_Key = GetDataBlockKey ''b'', rec_Value = ''old'', rec_TimeReceived = ''t''\<rparr>"

definition dht_sample :: "unit env" where
  "dht_sample = with_validators (sample_env\<lparr>
     lib_UnmarshalRecord := (\<lambda>_. Inr block_record),
     lib_UnmarshalDataBlock := (\<lambda>_. Inr (stored_block\<lparr>db_CreateTimestamp := 6\<rparr>)),
     lib_UnmarshalDataBlocks := (\<lambda>_. Inr [Some stored_block]),
     kad_PutValue := (\<lambda>_ _ w. (Some LookupFailure, w))\<rparr>)"

definition block_datastores :: "unit datastores" where
  "block_datastores =
     xorm_init (empty_datastore\<lparr>ds_Get := (\<lambda>_ w. (DsFound ''buf'', w))\<rparr>) no_datastores"

lemma dht_sample_fields [simp]:
  "lib_SplitKey dht_sample = split_key"
  "lib_DecodeBase32 dht_sample = Inr"
  "lib_NewKey dht_sample = (\<lambda>s. CHR ''/'' # s)"
  "lib_EncodeBase32 dht_sample = (\<lambda>s. s)"
  "lib_TextUnmarshalMap dht_sample = (\<lambda>_. ([], Some (Err ''not a map'')))"
  "lib_UnmarshalRecord dht_sample = (\<lambda>_. Inr block_record)"
  "lib_UnmarshalDataBlock dht_sample = (\<lambda>_. Inr (stored_block\<lparr>db_CreateTimestamp := 6\<rparr>))"
  "lib_UnmarshalDataBlocks dht_sample = (\<lambda>_. Inr [Some stored_block])"
  "kad_PutValue dht_sample = (\<lambda>_ _ w. (Some LookupFailure, w))"
  by (simp_all add: dht_sample_def with_validators_def)

lemma namespaced_dht_sample: "namespaced dht_sample"
  by (simp add: dht_sample_def namespaced_with_validators)

lemma splits_keys_dht_sample: "splits_keys dht_sample"
  by (simp add: splits_keys_def split_key_ns_key)

lemma Validate_dht_sample: "lib_Validate dht_sample (GetDataBlockKey i) val = None"
proof -
  have "(DataBlock_Prefix, DataBlockValidator) \<in> set dht_validators" by (simp add: dht_validators_def)
  then have "lib_Validate dht_sample (ns_key DataBlock_Prefix i) val =
      Validate dht_sample DataBlockValidator (ns_key DataBlock_Prefix i) val"
    using namespaced_dht_sample by (auto simp: namespaced_def)
  then show ?thesis
    by (simp add: GetDataBlockKey_def DataBlockValidator_Validate_def
        validate_namespace_key [OF splits_keys_dht_sample])
qed

lemma GetLocal_dht_sample:
  "GetLocal dht_sample block_datastores (GetDataBlockKey ''b'') () = (Inr (Some block_record), ())"
proof -
  have "\<exists>k. NewKeyRequest dht_sample block_datastores (ds_key dht_sample (GetDataBlockKey ''b'')) =
      Inr (Some \<lparr>dr_Name = DataBlock_Prefix, dr_Keyname = k,
        dr_Datastore = empty_datastore\<lparr>ds_Get := (\<lambda>_ w. (DsFound ''buf'', w))\<rparr>, dr_Keyvalue = [(k, ''b'')]\<rparr>)"
    unfolding block_datastores_def GetDataBlockKey_def
    using dispatch_serves [of dht_sample DataBlock_Prefix DataBlockValidator "''b''"
        "Err ''not a map''" "empty_datastore\<lparr>ds_Get := (\<lambda>_ w. (DsFound ''buf'', w))\<rparr>"]
    by (auto simp: decodes_keys_def ds_key_def trim_prefix_def dht_validators_def)
  then show ?thesis
    using Validate_dht_sample [of "''b''" "''old''"]
    by (auto simp: GetLocal_def Dispatch_Get_def block_record_def)
qed

theorem GetLocal_sound_witness:
  "rec_Key block_record = GetDataBlockKey ''b'' \<and>
   lib_Validate dht_sample (GetDataBlockKey ''b'') (rec_Value block_record) = None"
  using GetLocal_sound [OF GetLocal_dht_sample] by simp

theorem PutLocal_no_rollback_witness:
  "PutLocal dht_sample block_datastores (GetDataBlockKey ''b'') ''new'' () = (Inr (), ())"
  by (rule PutLocal_no_rollback [OF namespaced_dht_sample refl Validate_dht_sample GetLocal_dht_sample,
        where stored = "[stored_block]" and e = stored_block and
          current = "stored_block\<lparr>db_CreateTimestamp := 6\<rparr>"])
    (simp_all add: block_record_def stored_block_def data_block0_def)

theorem PutValue_lookup_failure_witness:
  "fst (PutValue dht_sample (ns_key DataBlock_Prefix ''b'') ''x'' ()) = Inr () \<and>
   fst (PutValue dht_sample (ns_key PeerTransaction_Channel_Prefix ''c'') ''x'' ()) =
     Inl (dht_go_error LookupFailure)"
  by (simp add: PutValue_lookup_failure [of _ DataBlockValidator]
      PutValue_lookup_failure [of _ PeerTransactionValidator] dht_validators_def tolerated_prefixes_def)

theorem PutLocal_chain_app_witness:
  "PutLocal dht_sample block_datastores (GetChainAppKey ''a'') ''x'' () =
     (Inl (Err ''invalid namespace:chainApp''), ())"
  by (rule PutLocal_chain_app [OF splits_keys_dht_sample namespaced_dht_sample])

end
