(* ===== verification/PeerServices.thy ===== *)
theory PeerServices
  imports Dht
begin

text \<open>
  \<^verbatim>\<open>p2p/dht/service\<close>: the services of the peer clients, the peer endpoints, this node's own peer
  and the chain apps, over the local store, the DHT and the in-memory cache of the ORM rows.
\<close>

section \<open>Rows behind a cache\<close>

text \<open>
  The common body of the \<open>GetFromCache\<close> methods: the cached row, else the row of the database (the
  zero row when there is none), which is then cached. The second lookup under the mutex repeats the
  first, since no other task runs in between.
\<close>

definition cached_row ::
  "(string \<Rightarrow> 'w \<Rightarrow> 'r option) \<Rightarrow> (string \<Rightarrow> 'r \<Rightarrow> 'w \<Rightarrow> 'w) \<Rightarrow> ('w \<Rightarrow> 'r option \<times> 'w) \<Rightarrow> 'r \<Rightarrow>
   bool \<Rightarrow> string \<Rightarrow> 'w \<Rightarrow> 'r \<times> 'w" where
  "cached_row mem_get mem_set db_get zero refresh key w =
     (case mem_get key w of
        Some ptr \<Rightarrow>
          if \<not> refresh then (ptr, w)
          else (case db_get w of
                  (Some row, w1) \<Rightarrow> (row, mem_set key row w1)
                | (None, w1) \<Rightarrow> (zero, mem_set key zero w1))
      | None \<Rightarrow>
          (case db_get w of
             (Some row, w1) \<Rightarrow> (row, mem_set key row w1)
           | (None, w1) \<Rightarrow> (zero, mem_set key zero w1)))"

lemma cached_row_again:
  assumes "\<And>row w. mem_get key (mem_set key row w) = Some row"
    and "cached_row mem_get mem_set db_get zero refresh key w = (row, w')"
  shows "cached_row mem_get mem_set db_get' zero False key w' = (row, w')"
  using assms by (auto simp: cached_row_def split: option.splits prod.splits if_splits)

definition PeerClient_GetFromCache :: "'w env \<Rightarrow> string \<Rightarrow> 'w \<Rightarrow> peer_client \<times> 'w" where
  "PeerClient_GetFromCache E peerId =
     cached_row (mem_PeerClient E) (mem_SetPeerClient E)
       (orm_GetPeerClient E (peer_client0\<lparr>pc_PeerId := peerId\<rparr>)) peer_client0 False
       (''PeerClient:'' @ peerId)"

definition PeerEndpoint_GetFromCache :: "'w env \<Rightarrow> string \<Rightarrow> 'w \<Rightarrow> peer_endpoint \<times> 'w" where
  "PeerEndpoint_GetFromCache E peerId =
     cached_row (mem_PeerEndpoint E) (mem_SetPeerEndpoint E)
       (orm_GetPeerEndpoint E (peer_endpoint0\<lparr>pe_PeerId := peerId\<rparr>)) peer_endpoint0 False
       (''PeerEndpoint:'' @ peerId)"

definition ChainApp_GetFromCache :: "'w env \<Rightarrow> string \<Rightarrow> 'w \<Rightarrow> chain_app \<times> 'w" where
  "ChainApp_GetFromCache E peerId =
     cached_row (mem_ChainApp E) (mem_SetChainApp E)
       (orm_GetChainApp E (chain_app0\<lparr>ca_PeerId := peerId\<rparr>)) chain_app0 False
       (''ChainApp:'' @ peerId)"

text \<open>The node's own row is the one whose status is \<open>Effective\<close>.\<close>

definition MyselfPeer_GetFromCache :: "'w env \<Rightarrow> bool \<Rightarrow> 'w \<Rightarrow> myself_peer \<times> 'w" where
  "MyselfPeer_GetFromCache E refresh =
     cached_row (mem_MyselfPeer E) (mem_SetMyselfPeer E)
       (orm_GetMyselfPeer E (myself_peer0\<lparr>my_Status := cst_Effective E\<rparr>)) myself_peer0 refresh
       ''MyselfPeer''"

section \<open>Peer clients\<close>

text \<open>The clients whose \<open>ClientId\<close> is the one asked for; \<open>unknownClientId\<close> stands for any.\<close>

fun match_clients :: "string \<Rightarrow> peer_client option list \<Rightarrow> peer_client option list res" where
  "match_clients clientId [] = Inr []"
| "match_clients clientId (peerClient # peerClients) =
     (if clientId = ''unknownClientId'' then
        (case match_clients clientId peerClients of Inl e \<Rightarrow> Inl e | Inr pcs \<Rightarrow> Inr (peerClient # pcs))
      else
        (case peerClient of
           None \<Rightarrow> Inl NilDereference
         | Some pc \<Rightarrow>
             if pc_ClientId pc = clientId then
               (case match_clients clientId peerClients of Inl e \<Rightarrow> Inl e | Inr pcs \<Rightarrow> Inr (peerClient # pcs))
             else match_clients clientId peerClients))"

definition PeerClient_GetLocals ::
  "'w env \<Rightarrow> 'w datastores \<Rightarrow> string \<Rightarrow> string \<Rightarrow> 'w \<Rightarrow> peer_client option list res \<times> 'w" where
  "PeerClient_GetLocals E R key clientId w =
     and_then (GetLocal E R key w) (\<lambda>rec w1.
       case rec of
         None \<Rightarrow> (Inr [], w1)
       | Some r \<Rightarrow>
           and_then (lift_res (lib_UnmarshalPeerClients E (rec_Value r)) w1) (\<lambda>peerClients w1.
             if clientId \<noteq> [] then (match_clients clientId peerClients, w1)
             else (Inr peerClients, w1)))"

definition PeerClient_PutLocals ::
  "'w env \<Rightarrow> 'w datastores \<Rightarrow> peer_client option list \<Rightarrow> 'w \<Rightarrow> unit res \<times> 'w" where
  "PeerClient_PutLocals E R =
     each (\<lambda>peerClient w.
       case peerClient of
         None \<Rightarrow> (Inl NilDereference, w)
       | Some pc \<Rightarrow>
           and_then (lift_res (lib_Marshal E (PPeerClient (Some pc))) w)
             (\<lambda>bytes. PutLocal E R (GetPeerClientKey (pc_PeerId pc)) bytes))"

text \<open>The clients decoded from the values that a search returned.\<close>

fun decode_clients ::
  "'w env \<Rightarrow> string list \<Rightarrow> peer_client option list \<Rightarrow> peer_client option list res" where
  "decode_clients E [] peerClients = Inr peerClients"
| "decode_clients E (recvdVal # recvdVals) peerClients =
     (case lib_TextUnmarshalPeerClients E recvdVal of
        Inl err \<Rightarrow> Inl err
      | Inr pcs \<Rightarrow> decode_clients E recvdVals (peerClients @ pcs))"

text \<open>
  The fault tolerance level chooses how a key is read: 0 searches the DHT, 1 takes its best value, 2
  deletes the local rows for the time of the search and puts them back.
\<close>

definition PeerClient_GetKeyValues ::
  "'w env \<Rightarrow> 'w datastores \<Rightarrow> string \<Rightarrow> 'w \<Rightarrow> peer_client option list res \<times> 'w" where
  "PeerClient_GetKeyValues E R key w =
     (if cfg_FaultTolerantLevel E = 0 then
        and_then (GetValues E key w) (\<lambda>recvdVals w1. (decode_clients E recvdVals [], w1))
      else if cfg_FaultTolerantLevel E = 1 then
        and_then (GetValue E key w) (\<lambda>buf w1. (lib_UnmarshalPeerClients E buf, w1))
      else if cfg_FaultTolerantLevel E = 2 then
        and_then (PeerClient_GetLocals E R key [] w) (\<lambda>locals w1.
          let w2 = (if locals \<noteq> [] then orm_DeletePeerClients E locals w1 else w1) in
          and_then (GetValues E key w2) (\<lambda>recvdVals w3.
            and_then (PeerClient_PutLocals E R locals w3) (\<lambda>_ w4.
              (decode_clients E recvdVals locals, w4))))
      else (Inr [], w))"

definition append_values ::
  "'w env \<Rightarrow> 'w datastores \<Rightarrow> bool \<Rightarrow> string \<Rightarrow> peer_client option list \<Rightarrow> 'w \<Rightarrow>
   peer_client option list res \<times> 'w" where
  "append_values E R given key peerClients w =
     (if given then and_then (PeerClient_GetKeyValues E R key w) (\<lambda>pcs w1. (Inr (peerClients @ pcs), w1))
      else (Inr peerClients, w))"

definition PeerClient_GetValues ::
  "'w env \<Rightarrow> 'w datastores \<Rightarrow> string \<Rightarrow> string \<Rightarrow> string \<Rightarrow> string \<Rightarrow> 'w \<Rightarrow> peer_client option list res \<times> 'w"
  where
  "PeerClient_GetValues E R peerId mobile email name w =
     (if peerId = [] \<and> mobile = [] \<and> name = [] then (Inl (Err ''InvalidPeerClientKey''), w)
      else
        and_then (append_values E R (peerId \<noteq> []) (GetPeerClientKey peerId) [] w) (\<lambda>pcs w.
        and_then (append_values E R (mobile \<noteq> []) (GetPeerClientMobileKey E mobile True) pcs w) (\<lambda>pcs w.
        and_then (append_values E R (email \<noteq> []) (GetPeerClientEmailKey E email True) pcs w) (\<lambda>pcs w.
          append_values E R (name \<noteq> []) (GetPeerClientNameKey E name True) pcs w))))"

definition PeerClient_PutValue :: "'w env \<Rightarrow> peer_client \<Rightarrow> string \<Rightarrow> 'w \<Rightarrow> unit res \<times> 'w" where
  "PeerClient_PutValue E peerClient keyKind w =
     and_then (lift_res (lib_Marshal E (PPeerClient (Some peerClient))) w) (\<lambda>bytes w.
       if keyKind = PeerClient_KeyKind then
         PutValue E (GetPeerClientKey (pc_PeerId peerClient)) bytes w
       else if keyKind = PeerClient_Mobile_KeyKind then
         PutValue E (GetPeerClientMobileKey E (pc_Mobile peerClient) True) bytes w
       else if keyKind = PeerClient_Email_KeyKind then
         PutValue E (GetPeerClientEmailKey E (pc_Email peerClient) True) bytes w
       else if keyKind = PeerClient_Name_KeyKind then
         PutValue E (GetPeerClientNameKey E (pc_Name peerClient) True) bytes w
       else (Inl (Err ''InvalidPeerClientKeyKind''), w))"

definition PeerClient_PutValues :: "'w env \<Rightarrow> peer_client \<Rightarrow> 'w \<Rightarrow> unit res \<times> 'w" where
  "PeerClient_PutValues E peerClient = PeerClient_PutValue E peerClient PeerClient_KeyKind"

section \<open>Peer endpoints\<close>

definition PeerEndpoint_FindPeer :: "'w env \<Rightarrow> string \<Rightarrow> 'w \<Rightarrow> string res \<times> 'w" where
  "PeerEndpoint_FindPeer E peerId w =
     and_then (lift_res (lib_PeerDecode E peerId) w) (\<lambda>i. FindPeer E i)"

definition PeerEndpoint_GetLocal ::
  "'w env \<Rightarrow> 'w datastores \<Rightarrow> string \<Rightarrow> 'w \<Rightarrow> peer_endpoint option list res \<times> 'w" where
  "PeerEndpoint_GetLocal E R peerId w =
     and_then (GetLocal E R (GetPeerEndpointKey peerId) w) (\<lambda>rec w1.
       case rec of
         None \<Rightarrow> (Inr [], w1)
       | Some r \<Rightarrow> (lib_UnmarshalPeerEndpoints E (rec_Value r), w1))"

definition PeerEndpoint_PutLocal ::
  "'w env \<Rightarrow> 'w datastores \<Rightarrow> peer_endpoint \<Rightarrow> 'w \<Rightarrow> unit res \<times> 'w" where
  "PeerEndpoint_PutLocal E R peerEndpoint w =
     and_then (lift_res (lib_Marshal E (PPeerEndpoint (Some peerEndpoint))) w)
       (\<lambda>bytes. PutLocal E R (GetPeerEndpointKey (pe_PeerId peerEndpoint)) bytes)"

text \<open>The value is read under the key of a peer client.\<close>

definition PeerEndpoint_GetValue :: "'w env \<Rightarrow> string \<Rightarrow> 'w \<Rightarrow> peer_endpoint res \<times> 'w" where
  "PeerEndpoint_GetValue E peerId w =
     and_then (GetValue E (GetPeerClientKey peerId) w) (\<lambda>buf w1. (lib_UnmarshalPeerEndpoint E buf, w1))"

definition PeerEndpoint_PutValue :: "'w env \<Rightarrow> peer_endpoint \<Rightarrow> 'w \<Rightarrow> unit res \<times> 'w" where
  "PeerEndpoint_PutValue E peerEndpoint w =
     and_then (lift_res (lib_Marshal E (PPeerEndpoint (Some peerEndpoint))) w)
       (\<lambda>bytes. PutValue E (GetPeerEndpointKey (pe_PeerId peerEndpoint)) bytes)"

text \<open>At most \<open>PeerNum\<close> endpoints that are up, from a random position. A failed query gives nil.\<close>

definition PeerEndpoint_GetRand :: "'w env \<Rightarrow> int \<Rightarrow> 'w \<Rightarrow> peer_endpoint list \<times> 'w" where
  "PeerEndpoint_GetRand E seed w =
     (let limit = cfg_PeerNum E;
          peerEndpoint = peer_endpoint0\<lparr>pe_ActiveStatus := ActiveStatus_Up\<rparr> in
      case orm_CountPeerEndpoint E peerEndpoint w of
        (num, w1) \<Rightarrow>
          (case (if num > limit then env_Intn E seed (num - limit) w1 else (0, w1)) of
             (from, w2) \<Rightarrow>
               (case orm_FindPeerEndpoint E peerEndpoint from limit w2 of
                  (Inr peerEndpoints, w3) \<Rightarrow> (peerEndpoints, w3)
                | (Inl _, w3) \<Rightarrow> ([], w3))))"

section \<open>Chain apps\<close>

definition ChainApp_GetValue :: "'w env \<Rightarrow> string \<Rightarrow> 'w \<Rightarrow> chain_app res \<times> 'w" where
  "ChainApp_GetValue E peerId w =
     and_then (GetValue E (GetChainAppKey peerId) w) (\<lambda>buf w1. (lib_UnmarshalChainApp E buf, w1))"

definition ChainApp_PutValue :: "'w env \<Rightarrow> chain_app \<Rightarrow> 'w \<Rightarrow> unit res \<times> 'w" where
  "ChainApp_PutValue E chainApp w =
     and_then (lift_res (lib_Marshal E (PChainApp (Some chainApp))) w)
       (\<lambda>bytes. PutValue E (GetChainAppKey (ca_PeerId chainApp)) bytes)"

section \<open>Properties\<close>

text \<open>
  The in-memory cache of this node's own peer row is filled once: after any call, the calls
  without refresh return the same row and leave the world alone, so the database is not read again.
\<close>

theorem MyselfPeer_cached:
  assumes "\<And>row w. mem_MyselfPeer E ''MyselfPeer'' (mem_SetMyselfPeer E ''MyselfPeer'' row w) = Some row"
    and "MyselfPeer_GetFromCache E refresh w = (row, w')"
  shows "MyselfPeer_GetFromCache E False w' = (row, w')"
  using assms unfolding MyselfPeer_GetFromCache_def by (rule cached_row_again)

text \<open>
  A search by the email alone is refused, although the query takes the email as a key; with an
  identifier, a mobile number or a name present the search runs.
\<close>

theorem GetValues_email_only:
  "PeerClient_GetValues E R [] [] email [] w = (Inl (Err ''InvalidPeerClientKey''), w)"
  by (simp add: PeerClient_GetValues_def)

text \<open>
  At fault tolerance level 2, a search of the DHT that fails loses the local rows: they are
  deleted before the search and nothing is put back, the world is the one the failed search leaves.
\<close>

theorem GetKeyValues_loses_locals:
  assumes "cfg_FaultTolerantLevel E = 2"
    and "PeerClient_GetLocals E R key [] w = (Inr (pc # pcs), w1)"
    and "kad_SearchValue E key (orm_DeletePeerClients E (pc # pcs) w1) = ((vals, Some (DhtErr err)), w2)"
  shows "PeerClient_GetKeyValues E R key w = (Inl (Err err), w2)"
  using assms by (simp add: PeerClient_GetKeyValues_def GetValues_def)

text \<open>
  What the DHT holds under the keys of the peer endpoints, where \<open>PutValue\<close> of the endpoint
  service writes, has no effect on its \<open>GetValue\<close>: two networks that agree on all other keys give the
  same answer.
\<close>

theorem PeerEndpoint_GetValue_ignores_endpoints:
  assumes "\<And>key w. (\<nexists>i. key = GetPeerEndpointKey i) \<Longrightarrow> g key w = kad_GetValue E key w"
  shows "PeerEndpoint_GetValue (E\<lparr>kad_GetValue := g\<rparr>) peerId w = PeerEndpoint_GetValue E peerId w"
proof -
  have "\<nexists>i. GetPeerClientKey peerId = GetPeerEndpointKey i"
    by (simp add: GetPeerClientKey_def GetPeerEndpointKey_def ns_key_inject)
  then have "g (GetPeerClientKey peerId) w = kad_GetValue E (GetPeerClientKey peerId) w" by (rule assms)
  then show ?thesis by (simp add: PeerEndpoint_GetValue_def GetValue_def)
qed

section \<open>Evaluations\<close>

definition cache_sample :: "myself_peer option env" where
  "cache_sample = sample_env\<lparr>mem_MyselfPeer := (\<lambda>_ w. w), mem_SetMyselfPeer := (\<lambda>_ row _. Some row)\<rparr>"

theorem MyselfPeer_cached_witness:
  "MyselfPeer_GetFromCache cache_sample False (Some myself_peer0) = (myself_peer0, Some myself_peer0)"
  by (rule MyselfPeer_cached [where refresh = True and w = None])
    (simp_all add: cache_sample_def MyselfPeer_GetFromCache_def cached_row_def)

definition lossy_sample :: "bool env" where
  "lossy_sample = sample_env\<lparr>
     cfg_FaultTolerantLevel := 2,
     lib_UnmarshalRecord := (\<lambda>_. Inr \<lparr>rec_Key = GetPeerClientKey ''p'', rec_Value = [], rec_TimeReceived = []\<rparr>),
     lib_UnmarshalPeerClients := (\<lambda>_. Inr [Some peer_client0]),
     orm_DeletePeerClients := (\<lambda>_ _. False),
     kad_SearchValue := (\<lambda>_ w. (([], Some (DhtErr ''down'')), w))\<rparr>"

definition lossy_datastores :: "bool datastores" where
  "lossy_datastores = xorm_init
     \<lparr>ds_Get = (\<lambda>_ w. (if w then DsFound [] else DsNotFound, w)), ds_Put = (\<lambda>_ _ _. (Inr (), True)),
      ds_Has = (\<lambda>_ w. (Inr w, w)), ds_GetSize = (\<lambda>_ w. (Inr 0, w)), ds_Delete = (\<lambda>_ _. (Inr (), False))\<rparr>
     no_datastores"

lemma lossy_sample_fields [simp]:
  "cfg_FaultTolerantLevel lossy_sample = 2"
  "lib_Validate lossy_sample = (\<lambda>_ _. None)"
  "lib_DecodeBase32 lossy_sample = Inr"
  "lib_NewKey lossy_sample = (\<lambda>s. CHR ''/'' # s)"
  "lib_EncodeBase32 lossy_sample = (\<lambda>s. s)"
  "lib_TextUnmarshalMap lossy_sample = (\<lambda>_. ([], Some (Err ''not a map'')))"
  "lib_UnmarshalRecord lossy_sample =
     (\<lambda>_. Inr \<lparr>rec_Key = GetPeerClientKey ''p'', rec_Value = [], rec_TimeReceived = []\<rparr>)"
  "lib_UnmarshalPeerClients lossy_sample = (\<lambda>_. Inr [Some peer_client0])"
  "orm_DeletePeerClients lossy_sample = (\<lambda>_ _. False)"
  "kad_SearchValue lossy_sample = (\<lambda>_ w. (([], Some (DhtErr ''down'')), w))"
  by (simp_all add: lossy_sample_def)

lemma lossy_Get:
  "Dispatch_Get lossy_sample lossy_datastores (ds_key lossy_sample (GetPeerClientKey ''p'')) w =
     (if w then DsFound [] else DsNotFound, w)"
  unfolding lossy_datastores_def GetPeerClientKey_def
  by (subst Dispatch_namespace(1) [of _ _ PeerClientValidator _ "Err ''not a map''"])
    (simp_all add: decodes_keys_def ds_key_def trim_prefix_def dht_validators_def)

theorem GetKeyValues_loses_locals_witness:
  "PeerClient_GetKeyValues lossy_sample lossy_datastores (GetPeerClientKey ''p'') True =
     (Inl (Err ''down''), False)"
  by (rule GetKeyValues_loses_locals)
    (simp_all add: PeerClient_GetLocals_def GetLocal_def lossy_Get)

theorem PeerEndpoint_GetValue_ignores_endpoints_witness:
  "PeerEndpoint_GetValue (sample_env\<lparr>kad_GetValue :=
       (\<lambda>key w. if has_prefix key ''/peerEndpoint/'' then ((''endpoint'', None), w) else (([], None), w))\<rparr>)
     ''p'' () = PeerEndpoint_GetValue sample_env ''p'' ()"
  by (rule PeerEndpoint_GetValue_ignores_endpoints)
    (auto simp: GetPeerEndpointKey_def ns_key_def has_prefix_iff)

end
