(* ===== verification/Handler.thy ===== *)
theory Handler
  imports PeerServices
begin

text \<open>
  \<^verbatim>\<open>p2p/chain/handler/base.go\<close>: the processing of a message before it is sent and after it is received
  (signature, compression, encryption of the payload), the lookup of a peer's public key, and the
  messages that answer a request. \<^verbatim>\<open>libp2p/util/util.go\<close>: the parts of a peer address.
\<close>

section \<open>Addresses\<close>

text \<open>\<open>GetIdAddr\<close> takes the first address behind an identifier; an address without one panics.\<close>

definition GetIdAddr :: "'a library_scheme \<Rightarrow> string \<Rightarrow> (string \<times> string) res" where
  "GetIdAddr E saddr =
     (case lib_P2pAddr E saddr of
        Inl _ \<Rightarrow> Inr ([], [])
      | Inr (i, []) \<Rightarrow> Inl (Panic ''index out of range'')
      | Inr (i, addr # _) \<Rightarrow> Inr (i, addr))"

definition GetPeerId :: "string \<Rightarrow> string" where
  "GetPeerId peerId =
     (let ps = split_on (CHR ''/'') peerId in if length ps > 1 then last ps else peerId)"

section \<open>Public keys\<close>

definition newer_client :: "peer_client \<Rightarrow> peer_client \<Rightarrow> bool" where
  "newer_client a b \<longleftrightarrow>
     pc_LastUpdateTime a \<noteq> None \<and> pc_LastUpdateTime b \<noteq> None \<and>
     (the (pc_LastUpdateTime b) < the (pc_LastUpdateTime a) \<or>
      the (pc_LastUpdateTime a) = the (pc_LastUpdateTime b) \<and>
      pc_LastAccessTime a \<noteq> None \<and> pc_LastAccessTime b \<noteq> None \<and>
      the (pc_LastAccessTime b) < the (pc_LastAccessTime a))"

fun latest_client :: "peer_client \<Rightarrow> peer_client option list \<Rightarrow> peer_client res" where
  "latest_client latest [] = Inr latest"
| "latest_client latest (None # pcs) = Inl NilDereference"
| "latest_client latest (Some pc # pcs) =
     (if pc_PublicKey latest = [] then latest_client pc pcs
      else if newer_client pc latest then latest_client pc pcs
      else latest_client latest pcs)"

text \<open>
  The key of the latest client of the peer, or else of the peer endpoint. An error of either search
  counts as no key.
\<close>

definition find_public_key ::
  "'w env \<Rightarrow> 'w datastores \<Rightarrow> string \<Rightarrow> 'w \<Rightarrow> string res \<times> 'w" where
  "find_public_key E R targetPeerId w =
     (case PeerClient_GetValues E R targetPeerId [] [] [] w of
        (Inl (Panic p), w1) \<Rightarrow> (Inl (Panic p), w1)
      | (Inr (pc # pcs), w1) \<Rightarrow>
          (case latest_client peer_client0 (pc # pcs) of
             Inl e \<Rightarrow> (Inl e, w1)
           | Inr latest \<Rightarrow> (Inr (pc_PublicKey latest), w1))
      | (_, w1) \<Rightarrow>
          (case PeerEndpoint_GetValue E targetPeerId w1 of
             (Inl (Panic p), w2) \<Rightarrow> (Inl (Panic p), w2)
           | (Inl (Err _), w2) \<Rightarrow> (Inr [], w2)
           | (Inr peerEndpoint, w2) \<Rightarrow> (Inr (pe_PublicKey peerEndpoint), w2)))"

definition GetPublicKey :: "'w env \<Rightarrow> 'w datastores \<Rightarrow> string \<Rightarrow> 'w \<Rightarrow> pgp_key res \<times> 'w" where
  "GetPublicKey E R targetPeerId w =
     (if targetPeerId = [] then (Inl (Err ''NoTargetPeerId''), w)
      else and_then (find_public_key E R targetPeerId w) (\<lambda>targetPublicKey w1.
        if targetPublicKey = [] then (Inl (Err ''NoTargetPublicKey''), w1)
        else (case lib_LoadPublicKey E (lib_DecodeBase64 E targetPublicKey) of
                Inl _ \<Rightarrow> (Inl (Err ''LoadSrcPublicKeyFailure''), w1)
              | Inr openpgpPub \<Rightarrow> (Inr openpgpPub, w1))))"

section \<open>Encryption\<close>

definition CompressLimit :: nat where "CompressLimit = 2048"

definition PayloadLimit :: nat where "PayloadLimit = 32 * 1024"

abbreviation PayloadType_PeerClient :: string where "PayloadType_PeerClient \<equiv> ''peerClient''"
abbreviation PayloadType_PeerEndpoint :: string where "PayloadType_PeerEndpoint \<equiv> ''peerEndpoint''"
abbreviation PayloadType_ChainApp :: string where "PayloadType_ChainApp \<equiv> ''chainApp''"
abbreviation PayloadType_DataBlock :: string where "PayloadType_DataBlock \<equiv> ''dataBlock''"
abbreviation PayloadType_ConsensusLog :: string where "PayloadType_ConsensusLog \<equiv> ''consensusLog''"
abbreviation PayloadType_PeerClients :: string where "PayloadType_PeerClients \<equiv> ''peerClients''"
abbreviation PayloadType_PeerEndpoints :: string where "PayloadType_PeerEndpoints \<equiv> ''peerEndpoints''"
abbreviation PayloadType_ChainApps :: string where "PayloadType_ChainApps \<equiv> ''chainApps''"
abbreviation PayloadType_DataBlocks :: string where "PayloadType_DataBlocks \<equiv> ''dataBlocks''"
abbreviation PayloadType_String :: string where "PayloadType_String \<equiv> ''string''"
abbreviation PayloadType_Map :: string where "PayloadType_Map \<equiv> ''map''"

text \<open>
  \<open>Encrypt\<close> changes the message it is given, also when it returns an error: the result is the message
  as it is left and the error. The four steps below are the parts of its body.
\<close>

type_synonym 'w sealed = "(chain_message \<times> go_error option) \<times> 'w"

definition encrypt_target :: "'a library_scheme \<Rightarrow> chain_message \<Rightarrow> string res" where
  "encrypt_target E msg =
     (if cm_TargetPeerId msg = [] then
        (case GetIdAddr E (cm_ConnectPeerId msg) of Inl e \<Rightarrow> Inl e | Inr (i, _) \<Rightarrow> Inr i)
      else Inr (cm_TargetPeerId msg))"

definition compress_payload :: "'a library_scheme \<Rightarrow> chain_message \<Rightarrow> string \<Rightarrow> chain_message \<times> string" where
  "compress_payload E msg data =
     (if cm_NeedCompress msg \<and> length data > CompressLimit then (msg, lib_GzipCompress E data)
      else (msg\<lparr>cm_NeedCompress := False\<rparr>, data))"

definition transport :: "'a library_scheme \<Rightarrow> chain_message \<Rightarrow> string \<Rightarrow> chain_message" where
  "transport E msg data = msg\<lparr>cm_TransportPayload := lib_EncodeBase64 E data, cm_Payload := PNil\<rparr>"

definition seal_payload :: "'w env \<Rightarrow> pgp_key \<Rightarrow> chain_message \<Rightarrow> string \<Rightarrow> 'w \<Rightarrow> 'w sealed" where
  "seal_payload E openpgpPub msg data w =
     (case env_GenerateSecretKey E 32 w of
        (key, w1) \<Rightarrow>
          (case env_EncryptSymmetrical E key data w1 of
             (Inl err, w2) \<Rightarrow> ((msg\<lparr>cm_NeedEncrypt := False\<rparr>, Some err), w2)
           | (Inr cipher, w2) \<Rightarrow>
               (case env_EncryptKey E key openpgpPub w2 of
                  (Inl err, w3) \<Rightarrow> ((msg\<lparr>cm_NeedEncrypt := False\<rparr>, Some err), w3)
                | (Inr payloadKey, w3) \<Rightarrow>
                    ((transport E (msg\<lparr>cm_PayloadKey := lib_EncodeBase64 E payloadKey\<rparr>) cipher, None), w3))))"

definition Encrypt :: "'w env \<Rightarrow> 'w datastores \<Rightarrow> chain_message \<Rightarrow> 'w \<Rightarrow> 'w sealed" where
  "Encrypt E R msg w =
     (if cm_SrcPeerId msg \<noteq> [] \<and> \<not> IsMyself E (cm_SrcPeerId msg) then ((msg, None), w)
      else if cm_Payload msg = PNil then ((msg, None), w)
      else
        (case lib_Marshal E (cm_Payload msg) of
           Inl _ \<Rightarrow> ((msg, Some (Err ''PayloadMarshalFailure'')), w)
         | Inr data \<Rightarrow>
             if cm_NeedEncrypt msg then
               (case encrypt_target E msg of
                  Inl p \<Rightarrow> ((msg, Some p), w)
                | Inr targetPeerId \<Rightarrow>
                    (case GetPublicKey E R targetPeerId w of
                       (Inl err, w1) \<Rightarrow> ((msg\<lparr>cm_NeedEncrypt := False\<rparr>, Some err), w1)
                     | (Inr openpgpPub, w1) \<Rightarrow>
                         let msg = msg\<lparr>cm_PayloadSignature :=
                                 lib_EncodeBase64 E (lib_Sign E (glb_PrivateKey E) data)\<rparr> in
                         (case compress_payload E msg data of
                            (msg, data) \<Rightarrow> seal_payload E openpgpPub msg data w1)))
             else (case compress_payload E msg data of
                     (msg, data) \<Rightarrow> ((transport E msg data, None), w))))"

section \<open>Decryption\<close>

text \<open>The value a payload is decoded into, by the payload type.\<close>

definition payload_target :: "string \<Rightarrow> payload" where
  "payload_target payloadType =
     (if payloadType = PayloadType_String then PString []
      else if payloadType = PayloadType_PeerClient then PPeerClient (Some peer_client0)
      else if payloadType = PayloadType_PeerEndpoint then PPeerEndpoint (Some peer_endpoint0)
      else if payloadType = PayloadType_DataBlock then PDataBlock (Some data_block0)
      else if payloadType = PayloadType_ConsensusLog then PConsensusLog (Some consensus_log0)
      else PJson (JObj []))"

definition unpack_payload :: "'a library_scheme \<Rightarrow> chain_message \<Rightarrow> string \<Rightarrow> chain_message \<times> go_error option" where
  "unpack_payload E msg data =
     (case lib_UnmarshalInto E (payload_target (cm_PayloadType msg))
             (if cm_NeedCompress msg then lib_GzipUncompress E data else data) of
        (payload, err) \<Rightarrow> (msg\<lparr>cm_Payload := payload, cm_TransportPayload := []\<rparr>, err))"

text \<open>The signature is checked on the bytes received, against two signatures, if the key is known.\<close>

definition verify_payload ::
  "'w env \<Rightarrow> 'w datastores \<Rightarrow> chain_message \<Rightarrow> string \<Rightarrow> 'w \<Rightarrow> unit res \<times> 'w" where
  "verify_payload E R msg data w =
     (case GetPublicKey E R (cm_SrcPeerId msg) w of
        (Inl (Panic p), w1) \<Rightarrow> (Inl (Panic p), w1)
      | (Inl (Err _), w1) \<Rightarrow> (Inr (), w1)
      | (Inr srcPublicKey, w1) \<Rightarrow>
          if fst (lib_Verify E srcPublicKey data (lib_DecodeBase64 E (cm_PayloadSignature msg))) then (Inr (), w1)
          else if fst (lib_Verify E srcPublicKey data
                         (lib_DecodeBase64 E (cm_PreviousPublicKeyPayloadSignature msg))) then (Inr (), w1)
          else (Inl (Err ''PayloadVerifyFailure''), w1))"

definition Decrypt :: "'w env \<Rightarrow> 'w datastores \<Rightarrow> chain_message \<Rightarrow> 'w \<Rightarrow> 'w sealed" where
  "Decrypt E R msg w =
     (if cm_TransportPayload msg = [] then ((msg, Some (Err ''NoTransportPayload'')), w)
      else
        (let data = lib_DecodeBase64 E (cm_TransportPayload msg) in
         if cm_NeedEncrypt msg \<and> cm_PayloadKey msg \<noteq> [] then
           (case verify_payload E R msg data w of
              (Inl err, w1) \<Rightarrow> ((msg, Some err), w1)
            | (Inr _, w1) \<Rightarrow>
                (case lib_DecryptKey E (lib_DecodeBase64 E (cm_PayloadKey msg)) (glb_PrivateKey E) of
                   Inl err \<Rightarrow> ((msg, Some err), w1)
                 | Inr secretKey \<Rightarrow>
                     (case lib_DecryptSymmetrical E secretKey data of
                        Inl err \<Rightarrow> ((msg, Some err), w1)
                      | Inr plain \<Rightarrow> (unpack_payload E msg plain, w1))))
         else (unpack_payload E msg data, w)))"

section \<open>Answers\<close>

text \<open>\<open>err.Error()\<close>.\<close>

fun error_text :: "go_error \<Rightarrow> string" where
  "error_text (Err e) = e"
| "error_text (Panic e) = e"

abbreviation StatusOK :: int where "StatusOK \<equiv> 200"
abbreviation StatusInternalServerError :: int where "StatusInternalServerError \<equiv> 500"

definition ErrorMessage :: "string \<Rightarrow> go_error \<Rightarrow> chain_message" where
  "ErrorMessage msgType err = chain_message0\<lparr>
     cm_Payload := PString MT_ERROR, cm_PayloadType := PayloadType_String, cm_Tip := error_text err,
     cm_StatusCode := StatusInternalServerError, cm_MessageType := msgType,
     cm_MessageDirect := MsgDirect_Response\<rparr>"

definition ResponseMessage :: "string \<Rightarrow> payload \<Rightarrow> chain_message" where
  "ResponseMessage msgType payload = chain_message0\<lparr>
     cm_Payload := payload, cm_MessageType := msgType, cm_MessageDirect := MsgDirect_Response,
     cm_StatusCode := StatusOK\<rparr>"

definition OkMessage :: "string \<Rightarrow> chain_message" where
  "OkMessage msgType = chain_message0\<lparr>
     cm_Payload := PString MT_OK, cm_PayloadType := PayloadType_String, cm_Tip := ''OK'',
     cm_MessageType := msgType, cm_MessageDirect := MsgDirect_Response, cm_StatusCode := StatusOK\<rparr>"

definition SetResponse :: "chain_message \<Rightarrow> chain_message \<Rightarrow> chain_message" where
  "SetResponse request response = response\<lparr>
     cm_UUID := cm_UUID request, cm_SrcConnectAddress := cm_SrcConnectAddress request,
     cm_SrcPeerId := cm_SrcPeerId request, cm_ConnectAddress := cm_ConnectAddress request,
     cm_ConnectPeerId := cm_ConnectPeerId request, cm_ConnectSessionId := cm_ConnectSessionId request,
     cm_Topic := cm_Topic request, cm_MessageDirect := MsgDirect_Response, cm_StatusCode := StatusOK\<rparr>"

section \<open>Properties\<close>

definition dated :: "peer_client \<Rightarrow> bool" where
  "dated pc \<longleftrightarrow> pc_PublicKey pc \<noteq> [] \<and> pc_LastUpdateTime pc \<noteq> None"

abbreviation update_time :: "peer_client \<Rightarrow> go_time" where
  "update_time pc \<equiv> the (pc_LastUpdateTime pc)"

lemma not_newer: "dated a \<Longrightarrow> dated b \<Longrightarrow> \<not> newer_client a b \<Longrightarrow> update_time a \<le> update_time b"
  by (auto simp: newer_client_def dated_def)

lemma newer: "newer_client a b \<Longrightarrow> update_time b \<le> update_time a"
  by (auto simp: newer_client_def)

lemma latest_client_max:
  assumes "dated l" and "\<forall>pc \<in> set pcs. dated pc"
  shows "\<exists>r. latest_client l (map Some pcs) = Inr r \<and> r \<in> set (l # pcs) \<and>
    (\<forall>pc \<in> set (l # pcs). update_time pc \<le> update_time r)"
  using assms
proof (induction pcs arbitrary: l)
  case Nil
  then show ?case by simp
next
  case (Cons pc pcs)
  show ?case
  proof (cases "newer_client pc l")
    case True
    obtain r where "latest_client pc (map Some pcs) = Inr r" "r \<in> set (pc # pcs)"
      "\<forall>q \<in> set (pc # pcs). update_time q \<le> update_time r"
      using Cons by fastforce
    with True Cons.prems(1) newer [OF True] show ?thesis
      by (auto simp: dated_def intro: order_trans)
  next
    case False
    obtain r where "latest_client l (map Some pcs) = Inr r" "r \<in> set (l # pcs)"
      "\<forall>q \<in> set (l # pcs). update_time q \<le> update_time r"
      using Cons by fastforce
    moreover have "update_time pc \<le> update_time l" using False Cons.prems by (simp add: not_newer)
    ultimately show ?thesis
      using False Cons.prems(1) by (auto simp: dated_def intro: order_trans)
  qed
qed

text \<open>
  When all clients found for a peer have a key and an update time, the key taken is that of a
  client with the latest update time.
\<close>

theorem find_public_key_latest:
  assumes "PeerClient_GetValues E R peerId [] [] [] w = (Inr (map Some (pc # pcs)), w')"
    and "\<forall>q \<in> set (pc # pcs). dated q"
  shows "\<exists>r \<in> set (pc # pcs). find_public_key E R peerId w = (Inr (pc_PublicKey r), w') \<and>
    (\<forall>q \<in> set (pc # pcs). update_time q \<le> update_time r)"
proof -
  obtain r where "latest_client pc (map Some pcs) = Inr r" "r \<in> set (pc # pcs)"
      "\<forall>q \<in> set (pc # pcs). update_time q \<le> update_time r"
    using latest_client_max [of pc pcs] assms(2) by auto
  with assms(1) show ?thesis
    by (intro bexI [of _ r]) (auto simp: find_public_key_def peer_client0_def)
qed

text \<open>
  C26: a message that is not encrypted survives the transport: decrypting what \<open>Encrypt\<close> leaves gives
  the payload back without an error, whether it was compressed or not. Only the flag of the
  compression may change, to false for a payload of at most 2048 bytes.
\<close>

theorem Decrypt_Encrypt_plain:
  assumes "cm_NeedEncrypt msg = False" and "cm_Payload msg \<noteq> PNil"
    and "cm_SrcPeerId msg = [] \<or> IsMyself E (cm_SrcPeerId msg)"
    and "lib_Marshal E (cm_Payload msg) = Inr data"
    and "\<And>s. lib_DecodeBase64 E' (lib_EncodeBase64 E s) = s"
    and "\<And>s. lib_GzipUncompress E' (lib_GzipCompress E s) = s"
    and "\<And>s. s \<in> {data, lib_GzipCompress E data} \<Longrightarrow> lib_EncodeBase64 E s \<noteq> []"
    and "lib_UnmarshalInto E' (payload_target (cm_PayloadType msg)) data = (cm_Payload msg, None)"
    and "Encrypt E R msg w = ((sent, err), w1)"
  shows "err = None \<and> w1 = w \<and>
    Decrypt E' R' sent w' =
      ((msg\<lparr>cm_NeedCompress := cm_NeedCompress msg \<and> length data > CompressLimit,
            cm_TransportPayload := []\<rparr>, None), w')"
  using assms
  by (auto simp: Encrypt_def compress_payload_def transport_def Decrypt_def unpack_payload_def
      split: if_splits)

lemma seal_payload_Some:
  assumes "seal_payload E pk msg data w = ((sent, None), w')"
  obtains key cipher w1 payloadKey where
    "env_EncryptSymmetrical E key data (snd (env_GenerateSecretKey E 32 w)) = (Inr cipher, w1)"
    "sent = transport E (msg\<lparr>cm_PayloadKey := lib_EncodeBase64 E payloadKey\<rparr>) cipher"
  using assms by (auto simp: seal_payload_def split: prod.splits sum.splits)

text \<open>
  A message encrypted by \<open>Encrypt\<close> is never accepted by \<open>Decrypt\<close>: the signature is made on the
  payload before the encryption and checked on the encrypted bytes. With a signature scheme where a
  signature verifies for the signed text only, the receiver who knows the sender's key answers
  \<open>PayloadVerifyFailure\<close> to every such message.
\<close>

theorem Decrypt_rejects_encrypted:
  assumes "Encrypt E R msg w = ((sent, None), w1)"
    and "cm_NeedEncrypt msg" and "cm_Payload msg \<noteq> PNil" and "cm_SrcPeerId msg = []"
    and "cm_PreviousPublicKeyPayloadSignature msg = []"
    and "\<And>s. lib_DecodeBase64 E' (lib_EncodeBase64 E s) = s"
    and "\<And>s. lib_EncodeBase64 E s \<noteq> []"
    and "lib_Marshal E (cm_Payload msg) = Inr data"
    and "\<And>key d w c w'. d \<in> {data, lib_GzipCompress E data} \<Longrightarrow>
           env_EncryptSymmetrical E key d w = (Inr c, w') \<Longrightarrow> c \<noteq> data"
    and "GetPublicKey E' R' src w2 = (Inr pk, w3)"
    and "\<And>d d'. fst (lib_Verify E' pk d (lib_Sign E (glb_PrivateKey E) d')) \<Longrightarrow> d = d'"
    and "\<And>d. \<not> fst (lib_Verify E' pk d (lib_DecodeBase64 E' []))"
  shows "snd (fst (Decrypt E' R' (sent\<lparr>cm_SrcPeerId := src\<rparr>) w2)) = Some (Err ''PayloadVerifyFailure'')"
proof -
  from assms(1-4,8) obtain targetPeerId pub w1' where
    seal: "(case compress_payload E (msg\<lparr>cm_PayloadSignature :=
        lib_EncodeBase64 E (lib_Sign E (glb_PrivateKey E) data)\<rparr>) data of
        (m, d) \<Rightarrow> seal_payload E pub m d w1') = ((sent, None), w1)"
    by (auto simp: Encrypt_def Let_def split: sum.splits prod.splits if_splits)
  obtain m d where md: "compress_payload E (msg\<lparr>cm_PayloadSignature :=
        lib_EncodeBase64 E (lib_Sign E (glb_PrivateKey E) data)\<rparr>) data = (m, d)" by fastforce
  then have d: "d \<in> {data, lib_GzipCompress E data}"
    by (auto simp: compress_payload_def split: if_splits)
  have m: "cm_NeedEncrypt m" "cm_PreviousPublicKeyPayloadSignature m = []"
    "cm_PayloadSignature m = lib_EncodeBase64 E (lib_Sign E (glb_PrivateKey E) data)"
    using md assms(2,5) by (auto simp: compress_payload_def split: if_splits)
  from seal md obtain key cipher w4 payloadKey where
    c: "env_EncryptSymmetrical E key d (snd (env_GenerateSecretKey E 32 w1')) = (Inr cipher, w4)" and
    sent: "sent = transport E (m\<lparr>cm_PayloadKey := lib_EncodeBase64 E payloadKey\<rparr>) cipher"
    by (auto elim: seal_payload_Some)
  have "cipher \<noteq> data" using assms(9) [OF d c] .
  then have "\<not> fst (lib_Verify E' pk cipher (lib_Sign E (glb_PrivateKey E) data))"
    using assms(11) by blast
  with assms(6,7,10,12) m sent show ?thesis
    by (simp add: Decrypt_def transport_def verify_payload_def)
qed

section \<open>Evaluations\<close>

text \<open>
  Codings that are visible in the result: base64 prepends a letter, the encryption another one, and a
  signature is the signed text.
\<close>

definition crypto_sample :: "unit env" where
  "crypto_sample = sample_env\<lparr>
     lib_EncodeBase64 := (\<lambda>s. CHR ''b'' # s), lib_DecodeBase64 := tl,
     lib_Marshal := (\<lambda>_. Inr ''data''),
     lib_UnmarshalInto := (\<lambda>_ s. (PString s, None)),
     lib_LoadPublicKey := Inr,
     lib_Sign := (\<lambda>_ s. CHR ''s'' # s),
     lib_Verify := (\<lambda>_ d s. (s = CHR ''s'' # d, None)),
     env_EncryptSymmetrical := (\<lambda>_ d w. (Inr (CHR ''x'' # d), w)),
     env_EncryptKey := (\<lambda>k _ w. (Inr k, w)),
     lib_UnmarshalPeerEndpoint := (\<lambda>_. Inr (peer_endpoint0\<lparr>pe_PublicKey := ''bkey''\<rparr>)),
     lib_TextUnmarshalPeerClients := (\<lambda>_. Inr [
        Some (peer_client0\<lparr>pc_PublicKey := ''k1'', pc_LastUpdateTime := Some (Instant 1)\<rparr>),
        Some (peer_client0\<lparr>pc_PublicKey := ''k2'', pc_LastUpdateTime := Some (Instant 2)\<rparr>)]),
     kad_SearchValue := (\<lambda>key w. ((if key = GetPeerClientKey ''c'' then [''v''] else [], None), w))\<rparr>"

lemma crypto_sample_fields [simp]:
  "glb_PeerId crypto_sample = ''me''"
  "glb_PrivateKey crypto_sample = []"
  "cfg_FaultTolerantLevel crypto_sample = 0"
  "lib_EncodeBase64 crypto_sample = (\<lambda>s. CHR ''b'' # s)"
  "lib_DecodeBase64 crypto_sample = tl"
  "lib_GzipCompress crypto_sample = (\<lambda>s. s)"
  "lib_GzipUncompress crypto_sample = (\<lambda>s. s)"
  "lib_Marshal crypto_sample = (\<lambda>_. Inr ''data'')"
  "lib_UnmarshalInto crypto_sample = (\<lambda>_ s. (PString s, None))"
  "lib_LoadPublicKey crypto_sample = Inr"
  "lib_Sign crypto_sample = (\<lambda>_ s. CHR ''s'' # s)"
  "lib_Verify crypto_sample = (\<lambda>_ d s. (s = CHR ''s'' # d, None))"
  "env_GenerateSecretKey crypto_sample = (\<lambda>_ w. ([], w))"
  "env_EncryptSymmetrical crypto_sample = (\<lambda>_ d w. (Inr (CHR ''x'' # d), w))"
  "env_EncryptKey crypto_sample = (\<lambda>k _ w. (Inr k, w))"
  "lib_UnmarshalPeerEndpoint crypto_sample = (\<lambda>_. Inr (peer_endpoint0\<lparr>pe_PublicKey := ''bkey''\<rparr>))"
  "lib_TextUnmarshalPeerClients crypto_sample = (\<lambda>_. Inr [
        Some (peer_client0\<lparr>pc_PublicKey := ''k1'', pc_LastUpdateTime := Some (Instant 1)\<rparr>),
        Some (peer_client0\<lparr>pc_PublicKey := ''k2'', pc_LastUpdateTime := Some (Instant 2)\<rparr>)])"
  "kad_GetValue crypto_sample = (\<lambda>_ w. (([], None), w))"
  "kad_SearchValue crypto_sample =
     (\<lambda>key w. ((if key = GetPeerClientKey ''c'' then [''v''] else [], None), w))"
  by (simp_all add: crypto_sample_def)

lemma crypto_clients:
  "PeerClient_GetValues crypto_sample no_datastores i [] [] [] () =
     (if i = [] then Inl (Err ''InvalidPeerClientKey'')
      else Inr (map Some (if i = ''c'' then
        [peer_client0\<lparr>pc_PublicKey := ''k1'', pc_LastUpdateTime := Some (Instant 1)\<rparr>,
         peer_client0\<lparr>pc_PublicKey := ''k2'', pc_LastUpdateTime := Some (Instant 2)\<rparr>] else [])), ())"
  by (simp add: PeerClient_GetValues_def append_values_def PeerClient_GetKeyValues_def GetValues_def
      GetPeerClientKey_def ns_key_def)

theorem find_public_key_latest_witness:
  "\<exists>k. find_public_key crypto_sample no_datastores ''c'' () = (Inr k, ())"
  using find_public_key_latest [of crypto_sample no_datastores "''c''" "()"
      "peer_client0\<lparr>pc_PublicKey := ''k1'', pc_LastUpdateTime := Some (Instant 1)\<rparr>"
      "[peer_client0\<lparr>pc_PublicKey := ''k2'', pc_LastUpdateTime := Some (Instant 2)\<rparr>]" "()"]
  by (auto simp: crypto_clients dated_def)

definition plain_message :: chain_message where
  "plain_message = chain_message0\<lparr>cm_Payload := PString ''data'', cm_NeedCompress := True\<rparr>"

lemma plain_message_fields [simp]:
  "cm_NeedEncrypt plain_message = False" "cm_Payload plain_message = PString ''data''"
  "cm_SrcPeerId plain_message = []" "cm_NeedCompress plain_message"
  "cm_PreviousPublicKeyPayloadSignature plain_message = []" "cm_TargetPeerId plain_message = []"
  by (simp_all add: plain_message_def chain_message0_def)

theorem Decrypt_Encrypt_plain_witness:
  "\<exists>sent. Encrypt crypto_sample no_datastores plain_message () = ((sent, None), ()) \<and>
    Decrypt crypto_sample no_datastores sent () =
      ((plain_message\<lparr>cm_NeedCompress := False, cm_TransportPayload := []\<rparr>, None), ())"
proof -
  obtain sent err w where "Encrypt crypto_sample no_datastores plain_message () = ((sent, err), w)"
    by (metis prod.collapse)
  with Decrypt_Encrypt_plain [of plain_message crypto_sample "''data''" crypto_sample no_datastores
      "()" sent err w no_datastores "()"]
  show ?thesis by (simp add: CompressLimit_def)
qed

definition secret_message :: chain_message where
  "secret_message = plain_message\<lparr>cm_NeedEncrypt := True, cm_TargetPeerId := ''t''\<rparr>"

lemma crypto_key: "i \<notin> {[], ''c''} \<Longrightarrow> GetPublicKey crypto_sample no_datastores i () = (Inr ''key'', ())"
  by (simp add: GetPublicKey_def find_public_key_def crypto_clients PeerEndpoint_GetValue_def GetValue_def)

theorem Decrypt_rejects_encrypted_witness:
  "\<exists>sent. Encrypt crypto_sample no_datastores secret_message () = ((sent, None), ()) \<and>
    snd (fst (Decrypt crypto_sample no_datastores (sent\<lparr>cm_SrcPeerId := ''s''\<rparr>) ())) =
      Some (Err ''PayloadVerifyFailure'')"
proof -
  obtain sent where "Encrypt crypto_sample no_datastores secret_message () = ((sent, None), ())"
    by (simp add: Encrypt_def secret_message_def encrypt_target_def crypto_key compress_payload_def
        CompressLimit_def seal_payload_def)
  moreover from this have "snd (fst (Decrypt crypto_sample no_datastores (sent\<lparr>cm_SrcPeerId := ''s''\<rparr>) ())) =
      Some (Err ''PayloadVerifyFailure'')"
    by (rule Decrypt_rejects_encrypted [where pk = "''key''" and data = "''data''" and ?w3.0 = "()"])
      (auto simp: secret_message_def crypto_key)
  ultimately show ?thesis by blast
qed

end
