(* ===== verification/Relay.thy ===== *)
theory Relay
  imports Handler
begin

text \<open>
  Sending and receiving messages: \<^verbatim>\<open>p2p/chain/handler/sender/default.go\<close> (finding the way to a peer and
  forwarding to it) and \<^verbatim>\<open>p2p/chain/handler/receiver\<close> (bookkeeping of the connected clients, dispatch
  to the handler of the message type, the answer). A goroutine is a started task of the node.
\<close>

section \<open>Forwarding\<close>

text \<open>A chat message that cannot be forwarded is stored for later.\<close>

definition keep_chat :: "'w env \<Rightarrow> chain_message \<Rightarrow> 'w \<Rightarrow> chain_message \<times> 'w" where
  "keep_chat E msg w = (if MT_CHAT = cm_MessageType msg then orm_InsertChainMessage E msg w else (msg, w))"

definition ForwardPeerEndpoint ::
  "'w env \<Rightarrow> chain_message \<Rightarrow> string \<Rightarrow> 'w \<Rightarrow> chain_message \<times> 'w" where
  "ForwardPeerEndpoint E msg connectPeerId w =
     (if connectPeerId \<noteq> [] \<and> \<not> IsMyself E connectPeerId then
        (case net_RequestPipe E connectPeerId (cfg_ChainProtocolID E) w of
           (Some pipe, w1) \<Rightarrow>
             (case lib_MarshalMessage E msg of
                Inr data \<Rightarrow>
                  (case net_PipeWrite E pipe data w1 of
                     (None, w2) \<Rightarrow> (msg, w2)
                   | (Some _, w2) \<Rightarrow> keep_chat E msg w2)
              | Inl _ \<Rightarrow> keep_chat E msg w1)
         | (None, w1) \<Rightarrow> keep_chat E msg w1)
      else keep_chat E msg w)"

definition ForwardPeerClient ::
  "'w env \<Rightarrow> chain_message \<Rightarrow> peer_client \<Rightarrow> 'w \<Rightarrow> chain_message res \<times> 'w" where
  "ForwardPeerClient E msg peerClient w =
     (case lib_MarshalMessage E msg of
        Inl err \<Rightarrow> (Inl err, w)
      | Inr data \<Rightarrow>
          let keep = (\<lambda>w. case keep_chat E msg w of (msg', w') \<Rightarrow> (Inr msg', w')) in
          if has_prefix (pc_ConnectAddress peerClient) ''ws'' then
            (if pc_ConnectSessionId peerClient \<noteq> [] then
               (case net_Websocket E (pc_ConnectSessionId peerClient) w of
                  Some connection \<Rightarrow>
                    (case net_WebsocketWrite E connection data w of
                       (None, w1) \<Rightarrow> (Inr msg, w1)
                     | (Some _, w1) \<Rightarrow> keep w1)
                | None \<Rightarrow> keep w)
             else keep w)
          else if cfg_P2pProtocol E = ''libp2p'' then
            (if pc_ConnectSessionId peerClient \<noteq> [] then
               (case net_ResponsePipe E (pc_ConnectSessionId peerClient) w of
                  (Some pipe, w1) \<Rightarrow>
                    (case net_PipeWrite E pipe data w1 of
                       (None, w2) \<Rightarrow> (Inr msg, w2)
                     | (Some _, w2) \<Rightarrow> keep w2)
                | (None, w1) \<Rightarrow> keep w1)
             else keep w)
          else keep w)"

section \<open>Lookup\<close>

text \<open>The first client that is up. A nil element before it panics.\<close>

fun first_up :: "peer_client option list \<Rightarrow> peer_client option res" where
  "first_up [] = Inr None"
| "first_up (None # pcs) = Inl NilDereference"
| "first_up (Some pc # pcs) = (if pc_ActiveStatus pc = ActiveStatus_Up then Inr (Some pc) else first_up pcs)"

text \<open>A Go error of a search leaves no clients; a panic goes on.\<close>

definition or_none :: "'a list res \<times> 'w \<Rightarrow> ('a list \<times> go_error option) res \<times> 'w" where
  "or_none r = (case r of
     (Inl (Panic p), w) \<Rightarrow> (Inl (Panic p), w)
   | (Inl (Err e), w) \<Rightarrow> (Inr ([], Some (Err e)), w)
   | (Inr xs, w) \<Rightarrow> (Inr (xs, None), w))"

text \<open>
  The three results: the client, the identifier of the endpoint, the error. Only the last search's
  error is returned.
\<close>

definition lookup_values ::
  "'w env \<Rightarrow> 'w datastores \<Rightarrow> string \<Rightarrow> 'w \<Rightarrow> (peer_client option \<times> string \<times> go_error option) res \<times> 'w"
  where
  "lookup_values E R targetPeerId w =
     and_then (or_none (PeerClient_GetValues E R targetPeerId [] [] [] w)) (\<lambda>(peerClients, err) w1.
       if peerClients \<noteq> [] then
         and_then (lift_res (first_up peerClients) w1) (\<lambda>up w1.
           case up of
             Some peerClient \<Rightarrow> (Inr (Some peerClient, [], None), w1)
           | None \<Rightarrow> (Inr (None, [], err), w1))
       else
         (case PeerEndpoint_FindPeer E targetPeerId w1 of
            (Inl (Panic p), w2) \<Rightarrow> (Inl (Panic p), w2)
          | (Inl (Err e), w2) \<Rightarrow> (Inr (None, [], Some (Err e)), w2)
          | (Inr connectPeerId, w2) \<Rightarrow> (Inr (None, connectPeerId, None), w2)))"

definition Lookup ::
  "'w env \<Rightarrow> 'w datastores \<Rightarrow> string \<Rightarrow> string \<Rightarrow> 'w \<Rightarrow>
   (peer_client option \<times> string \<times> go_error option) res \<times> 'w" where
  "Lookup E R target targetClientId w =
     (let targetPeerId = GetPeerId target in
      and_then (or_none (PeerClient_GetLocals E R (GetPeerClientKey targetPeerId) targetClientId w))
        (\<lambda>(peerClients, _) w1.
          and_then (lift_res (first_up peerClients) w1) (\<lambda>up w1.
            case up of
              Some peerClient \<Rightarrow> (Inr (Some peerClient, [], None), w1)
            | None \<Rightarrow> lookup_values E R targetPeerId w1)))"

section \<open>Sending\<close>

text \<open>The result of a send: the message, nil without an error (\<open>Inr None\<close>), or an error.\<close>

definition relay_to ::
  "'w env \<Rightarrow> chain_message \<Rightarrow> peer_client option \<times> string \<times> go_error option \<Rightarrow> 'w \<Rightarrow>
   chain_message option res \<times> 'w" where
  "relay_to E msg found w =
     (case found of
        (Some peerClient, _, None) \<Rightarrow>
          let msg = msg\<lparr>cm_TargetConnectAddress := pc_ConnectAddress peerClient,
                        cm_TargetConnectPeerId := pc_ConnectPeerId peerClient\<rparr> in
          if IsMyself E (pc_ConnectPeerId peerClient) then
            (case ForwardPeerClient E msg peerClient w of
               (Inr msg', w1) \<Rightarrow> (Inr (Some msg'), w1)
             | (Inl _, w1) \<Rightarrow> (Inr (Some msg), w1))
          else (case ForwardPeerEndpoint E msg (pc_ConnectPeerId peerClient) w of
                  (msg', w1) \<Rightarrow> (Inr (Some msg'), w1))
      | (None, connectPeerId, None) \<Rightarrow>
          if connectPeerId \<noteq> [] then
            (case ForwardPeerEndpoint E msg connectPeerId w of (msg', w1) \<Rightarrow> (Inr (Some msg'), w1))
          else (case keep_chat E msg w of (_, w1) \<Rightarrow> (Inr None, w1))
      | (_, _, Some err) \<Rightarrow> (case keep_chat E msg w of (_, w1) \<Rightarrow> (Inl err, w1)))"

definition RelaySend ::
  "'w env \<Rightarrow> 'w datastores \<Rightarrow> chain_message \<Rightarrow> ('w, 'c) node \<Rightarrow> chain_message option res \<times> ('w, 'c) node"
  where
  "RelaySend E R msg s =
     (if cm_Topic msg \<noteq> [] then
        (case lib_MarshalMessage E msg of
           Inl err \<Rightarrow> (Inl err, s)
         | Inr data \<Rightarrow> (Inr (Some msg), go_start (GoSendRaw (cm_Topic msg) data) s))
      else if cm_TargetPeerId msg = [] then (Inl (Err ''NullTargetPeerId''), s)
      else if IsMyself E (cm_TargetPeerId msg) then (Inl (Err ''SendMyself''), s)
      else on_world (\<lambda>w.
        and_then (Lookup E R (cm_TargetPeerId msg) (cm_TargetClientId msg) w) (relay_to E msg)) s)"

text \<open>\<open>Send\<close> and \<open>DirectSend\<close> drop an error of \<open>Encrypt\<close> and send the message as it was left.\<close>

definition Send ::
  "'w env \<Rightarrow> 'w datastores \<Rightarrow> chain_message \<Rightarrow> ('w, 'c) node \<Rightarrow> chain_message option res \<times> ('w, 'c) node"
  where
  "Send E R msg s =
     (case on_world (Encrypt E R msg) s of
        ((_, Some (Panic p)), s1) \<Rightarrow> (Inl (Panic p), s1)
      | ((msg', _), s1) \<Rightarrow> RelaySend E R msg' s1)"

definition DirectSend ::
  "'w env \<Rightarrow> 'w datastores \<Rightarrow> chain_message \<Rightarrow> ('w, 'c) node \<Rightarrow> chain_message option res \<times> ('w, 'c) node"
  where
  "DirectSend E R msg s =
     (case on_world (Encrypt E R msg) s of
        ((_, Some (Panic p)), s1) \<Rightarrow> (Inl (Panic p), s1)
      | ((msg', _), s1) \<Rightarrow>
          on_world (\<lambda>w. case ForwardPeerEndpoint E msg' (cm_ConnectPeerId msg') w of
            (msg'', w') \<Rightarrow> (Inr (Some msg''), w')) s1)"

section \<open>Connected clients\<close>

text \<open>
  The first client of the list that is not up is set up and stored; an error of storing it is logged
  only.
\<close>

definition stamp_up :: "peer_client \<Rightarrow> peer_client \<Rightarrow> go_time \<Rightarrow> peer_client" where
  "stamp_up peerClient pc now = pc\<lparr>
     pc_LastAccessTime := Some now, pc_ActiveStatus := ActiveStatus_Up,
     pc_ConnectSessionId := pc_ConnectSessionId peerClient,
     pc_ConnectPeerId := pc_ConnectPeerId peerClient, pc_ClientId := pc_ClientId peerClient\<rparr>"

definition drop_error :: "unit res \<times> 'w \<Rightarrow> unit res \<times> 'w" where
  "drop_error r = (case r of (Inl (Panic p), w) \<Rightarrow> (Inl (Panic p), w) | (_, w) \<Rightarrow> (Inr (), w))"

fun set_up :: "'w env \<Rightarrow> peer_client \<Rightarrow> peer_client option list \<Rightarrow> 'w \<Rightarrow> unit res \<times> 'w" where
  "set_up E peerClient [] w = (Inr (), w)"
| "set_up E peerClient (None # pcs) w = (Inl NilDereference, w)"
| "set_up E peerClient (Some pc # pcs) w =
     (if pc_ActiveStatus pc \<noteq> ActiveStatus_Up then
        (case env_now E w of (now, w1) \<Rightarrow>
           drop_error (PeerClient_PutValues E (stamp_up peerClient pc now) w1))
      else set_up E peerClient pcs w)"

definition UpdatePeerClient ::
  "'w env \<Rightarrow> 'w datastores \<Rightarrow> peer_client \<Rightarrow> ('w, 'c) node \<Rightarrow> unit res \<times> ('w, 'c) node" where
  "UpdatePeerClient E R peerClient s =
     (if pc_PeerId peerClient = [] then (Inr (), s)
      else
        (let s1 = s\<lparr>nd_pool := (nd_pool s)(pc_ConnectSessionId peerClient \<mapsto>
                \<lparr>pci_PeerId = pc_PeerId peerClient, pci_ClientId = pc_ClientId peerClient\<rparr>)\<rparr> in
         on_world (\<lambda>w.
           and_then (or_none (PeerClient_GetLocals E R (GetPeerClientKey (pc_PeerId peerClient))
               (pc_ClientId peerClient) w))
             (\<lambda>(peerClients, _). set_up E peerClient peerClients)) s1))"

text \<open>
  On a disconnection the clients of the session are looked at in turn: the first that is not down is
  set down and stored.
\<close>

fun set_down :: "'w env \<Rightarrow> string \<Rightarrow> peer_client option list \<Rightarrow> 'w \<Rightarrow> unit res \<times> 'w" where
  "set_down E sess [] w = (Inr (), w)"
| "set_down E sess (None # pcs) w = (Inl NilDereference, w)"
| "set_down E sess (Some pc # pcs) w =
     (if pc_ConnectSessionId pc = sess then
        (case env_now E w of (now, w1) \<Rightarrow>
           if pc_ActiveStatus pc \<noteq> ActiveStatus_Down then
             drop_error (PeerClient_PutValues E
               (pc\<lparr>pc_LastAccessTime := Some now, pc_ActiveStatus := ActiveStatus_Down\<rparr>) w1)
           else set_down E sess pcs w1)
      else set_down E sess pcs w)"

definition HandleDisconnected ::
  "'w env \<Rightarrow> 'w datastores \<Rightarrow> string \<Rightarrow> ('w, 'c) node \<Rightarrow> unit res \<times> ('w, 'c) node" where
  "HandleDisconnected E R sess s =
     (case nd_pool s sess of
        None \<Rightarrow> (Inr (), s)
      | Some peerClientId \<Rightarrow>
          let s1 = s\<lparr>nd_pool := (nd_pool s)(sess := None)\<rparr> in
          on_world (\<lambda>w.
            and_then (or_none (PeerClient_GetLocals E R (GetPeerClientKey (pci_PeerId peerClientId))
                (pci_ClientId peerClientId) w))
              (\<lambda>(peerClients, _). set_down E sess peerClients)) s1)"

section \<open>Dispatch\<close>

text \<open>
  \<open>Dispatch\<close> returns a response and an error, and decrypts the message it is given in place: the
  results are the two and the message as it is left. \<open>Inl\<close> is a panic.
\<close>

type_synonym dispatched = "(chain_message option \<times> go_error option \<times> chain_message) res"

definition run_handler ::
  "('w, 'c) node chain_message_handlers \<Rightarrow> chain_message \<Rightarrow> ('w, 'c) node \<Rightarrow> dispatched \<times> ('w, 'c) node"
  where
  "run_handler hs msg s =
     (let t = cm_MessageType msg in
      case GetChainMessageHandler t hs of
        Inl err \<Rightarrow> (Inr (Some (ErrorMessage t err), Some err, msg), s)
      | Inr h \<Rightarrow>
          if cm_MessageDirect msg = MsgDirect_Request then
            (case cmh_ReceiveHandler h msg s of
               (Inl (Panic p), s1) \<Rightarrow> (Inl (Panic p), s1)
             | (Inl (Err e), s1) \<Rightarrow> (Inr (Some (ErrorMessage t (Err e)), Some (Err e), msg), s1)
             | (Inr None, s1) \<Rightarrow> (Inr (Some (OkMessage t), None, msg), s1)
             | (Inr (Some response), s1) \<Rightarrow> (Inr (Some response, None, msg), s1))
          else if cm_MessageDirect msg = MsgDirect_Response then
            (case cmh_ResponseHandler h msg s of
               (Inl (Panic p), s1) \<Rightarrow> (Inl (Panic p), s1)
             | (_, s1) \<Rightarrow> (Inr (None, None, msg), s1))
          else (Inr (None, None, msg), s))"

definition Dispatch ::
  "'w env \<Rightarrow> 'w datastores \<Rightarrow> ('w, 'c) node chain_message_handlers \<Rightarrow> chain_message \<Rightarrow> ('w, 'c) node \<Rightarrow>
   dispatched \<times> ('w, 'c) node" where
  "Dispatch E R hs msg s =
     (if cm_TargetPeerId msg = [] \<or> IsMyself E (cm_TargetPeerId msg) then
        (case on_world (Decrypt E R msg) s of
           ((_, Some (Panic p)), s1) \<Rightarrow> (Inl (Panic p), s1)
         | ((msg', _), s1) \<Rightarrow> run_handler hs msg' s1)
      else
        (let s1 = go_start (GoRelaySend msg) s in
         case on_world (env_now E) s1 of
           (now, s2) \<Rightarrow> (Inr (Some (ResponseMessage (cm_MessageType msg) (PTime now)), None, msg), s2)))"

section \<open>Receiving raw data\<close>

definition address_message :: "'a library_scheme \<Rightarrow> string \<Rightarrow> string \<Rightarrow> chain_message \<Rightarrow> chain_message" where
  "address_message E srcPeerId connectSessionId msg =
     (let msg = (if cm_SrcPeerId msg = [] then msg\<lparr>cm_SrcPeerId := srcPeerId\<rparr> else msg);
          msg = (if cm_SrcConnectPeerId msg = [] then msg\<lparr>cm_SrcConnectPeerId := glb_PeerId E\<rparr> else msg);
          msg = msg\<lparr>cm_ConnectPeerId := glb_PeerId E\<rparr>;
          msg = (if cm_SrcConnectSessionId msg = [] then msg\<lparr>cm_SrcConnectSessionId := connectSessionId\<rparr>
                 else msg)
      in msg\<lparr>cm_ConnectSessionId := connectSessionId\<rparr>)"

text \<open>The part behind the label \<open>responseProcess\<close>.\<close>

definition response_process ::
  "'w env \<Rightarrow> 'w datastores \<Rightarrow> chain_message \<Rightarrow> chain_message option \<Rightarrow> go_error option \<Rightarrow>
   ('w, 'c) node \<Rightarrow> string res \<times> ('w, 'c) node" where
  "response_process E R msg response err s =
     and_then
       (case (err, response) of
          (Some e, Some r) \<Rightarrow> (Inr (r\<lparr>cm_StatusCode := StatusInternalServerError\<rparr>), s)
        | (Some e, None) \<Rightarrow> (Inr (ErrorMessage (cm_MessageType msg) e), s)
        | (None, Some r) \<Rightarrow>
            (case on_world (Encrypt E R r) s of
               ((_, Some (Panic p)), s1) \<Rightarrow> (Inl (Panic p), s1)
             | ((_, Some e), s1) \<Rightarrow> (Inr (ErrorMessage (cm_MessageType msg) e), s1)
             | ((r', None), s1) \<Rightarrow> (Inr (r'\<lparr>cm_StatusCode := StatusOK\<rparr>), s1))
        | (None, None) \<Rightarrow> (Inr (OkMessage (cm_MessageType msg)), s))
       (\<lambda>r s1. (Inr (case lib_MarshalMessage E (SetResponse msg r) of Inr data \<Rightarrow> data | Inl _ \<Rightarrow> []), s1))"

definition ReceiveRaw ::
  "'w env \<Rightarrow> 'w datastores \<Rightarrow> ('w, 'c) node chain_message_handlers \<Rightarrow> string \<Rightarrow> string \<Rightarrow> string \<Rightarrow>
   string \<Rightarrow> string \<Rightarrow> ('w, 'c) node \<Rightarrow> string res \<times> ('w, 'c) node" where
  "ReceiveRaw E R hs data srcPeerId clientId connectSessionId remoteAddr s =
     (case lib_UnmarshalMessage E data of
        (msg, Some err) \<Rightarrow> response_process E R msg (Some (ErrorMessage MT_ERROR err)) (Some err) s
      | (msg, None) \<Rightarrow>
          let srcPeerId = (if srcPeerId = [] then cm_SrcPeerId msg else srcPeerId);
              clientId = cm_SrcClientId msg;
              msg = address_message E srcPeerId connectSessionId msg;
              peerClient = peer_client0\<lparr>pc_PeerId := srcPeerId, pc_ConnectPeerId := cm_SrcConnectPeerId msg,
                pc_ConnectSessionId := connectSessionId, pc_ClientId := clientId\<rparr>
          in and_then (UpdatePeerClient E R peerClient s) (\<lambda>_ s1.
               and_then (Dispatch E R hs msg s1) (\<lambda>(response, err, msg') s2.
                 response_process E R msg' response err s2)))"

section \<open>Properties of sending\<close>

text \<open>The last thing done to the world: a successful write of the data, or the storing of the message.\<close>

definition written :: "'w env \<Rightarrow> string \<Rightarrow> 'w \<Rightarrow> bool" where
  "written E data w' \<longleftrightarrow>
     (\<exists>h w. net_PipeWrite E h data w = (None, w') \<or> net_WebsocketWrite E h data w = (None, w'))"

definition stored :: "'w env \<Rightarrow> chain_message \<Rightarrow> 'w \<Rightarrow> bool" where
  "stored E msg w' \<longleftrightarrow> (\<exists>w. w' = snd (orm_InsertChainMessage E msg w))"

definition delivered :: "'w env \<Rightarrow> chain_message \<Rightarrow> 'w \<Rightarrow> bool" where
  "delivered E msg w' \<longleftrightarrow> stored E msg w' \<or> (\<exists>data. lib_MarshalMessage E msg = Inr data \<and> written E data w')"

lemma keep_chat_stored: "cm_MessageType msg = MT_CHAT \<Longrightarrow> stored E msg (snd (keep_chat E msg w))"
  by (auto simp: keep_chat_def stored_def)

lemma keep_chat_delivered:
  "keep_chat E msg w = (m, w') \<Longrightarrow> cm_MessageType msg = MT_CHAT \<Longrightarrow> delivered E msg w'"
  using keep_chat_stored [of msg E w] by (simp add: delivered_def)

lemma pipe_delivered:
  "net_PipeWrite E h data w = (None, w') \<Longrightarrow> lib_MarshalMessage E msg = Inr data \<Longrightarrow> delivered E msg w'"
  by (auto simp: delivered_def written_def)

lemma websocket_delivered:
  "net_WebsocketWrite E h data w = (None, w') \<Longrightarrow> lib_MarshalMessage E msg = Inr data \<Longrightarrow> delivered E msg w'"
  by (auto simp: delivered_def written_def)

lemmas delivered_intros = keep_chat_delivered pipe_delivered websocket_delivered

lemma ForwardPeerEndpoint_delivered:
  "ForwardPeerEndpoint E msg connectPeerId w = (m, w') \<Longrightarrow> cm_MessageType msg = MT_CHAT \<Longrightarrow>
   delivered E msg w'"
  by (auto simp: ForwardPeerEndpoint_def intro: delivered_intros
      split: if_splits prod.splits option.splits sum.splits)

lemma ForwardPeerClient_delivered:
  "ForwardPeerClient E msg peerClient w = (Inr m, w') \<Longrightarrow> cm_MessageType msg = MT_CHAT \<Longrightarrow>
   delivered E msg w'"
  by (auto simp: ForwardPeerClient_def Let_def intro: delivered_intros
      split: if_splits prod.splits option.splits sum.splits)

lemma first_up_Up: "first_up pcs = Inr (Some pc) \<Longrightarrow> Some pc \<in> set pcs \<and> pc_ActiveStatus pc = ActiveStatus_Up"
  by (induction pcs rule: first_up.induct) (auto split: if_splits)

text \<open>The searches return no Go error through their first result: what is left is a panic.\<close>

lemma first_up_panics: "first_up pcs = Inl e \<Longrightarrow> e = NilDereference"
  by (induction pcs rule: first_up.induct) (auto split: if_splits)

lemma or_none_panics: "or_none r = (Inl e, w') \<Longrightarrow> \<exists>p. e = Panic p"
  by (auto simp: or_none_def split: prod.splits sum.splits go_error.splits)

lemma lookup_values_panics: "lookup_values E R i w = (Inl e, w') \<Longrightarrow> \<exists>p. e = Panic p"
  by (auto simp: lookup_values_def and_then_Inl dest: or_none_panics first_up_panics
      split: if_splits prod.splits sum.splits go_error.splits option.splits)

lemma Lookup_panics: "Lookup E R i c w = (Inl e, w') \<Longrightarrow> \<exists>p. e = Panic p"
  by (auto simp: Lookup_def and_then_Inl Let_def
      dest: or_none_panics first_up_panics lookup_values_panics split: prod.splits option.splits)

text \<open>
  A client that \<open>Lookup\<close> returns is up and comes without an error and without the identifier of an
  endpoint: an endpoint is searched only when no client of the peer is known.
\<close>

theorem Lookup_Up:
  assumes "Lookup E R i c w = (Inr (Some pc, e, err), w')"
  shows "pc_ActiveStatus pc = ActiveStatus_Up \<and> e = [] \<and> err = None"
  using assms
  by (auto simp: Lookup_def lookup_values_def and_then_Inr or_none_def Let_def dest: first_up_Up
      split: if_splits option.splits prod.splits sum.splits go_error.splits)

text \<open>The message as \<open>RelaySend\<close> may leave it: only the address of the connection changes.\<close>

definition addressed :: "chain_message \<Rightarrow> chain_message \<Rightarrow> bool" where
  "addressed msg m \<longleftrightarrow>
     (\<exists>a p. m = msg\<lparr>cm_TargetConnectAddress := a, cm_TargetConnectPeerId := p\<rparr>)"

lemma addressed_refl: "addressed msg msg"
  unfolding addressed_def
  by (rule exI [of _ "cm_TargetConnectAddress msg"], rule exI [of _ "cm_TargetConnectPeerId msg"]) simp

lemma ForwardPeerClient_Inr:
  "lib_MarshalMessage E msg = Inr data \<Longrightarrow> \<exists>m w'. ForwardPeerClient E msg peerClient w = (Inr m, w')"
  by (auto simp: ForwardPeerClient_def Let_def split: if_splits prod.splits option.splits)

lemma relay_to_delivered:
  assumes "relay_to E msg found w = (r, w')" and "cm_MessageType msg = MT_CHAT"
    and "\<And>m. \<exists>data. lib_MarshalMessage E m = Inr data"
  shows "\<exists>m. addressed msg m \<and> delivered E m w'"
proof -
  obtain pc c err where found: "found = (pc, c, err)" by (metis prod_cases3)
  show ?thesis
  proof (cases "\<exists>p. pc = Some p \<and> err = None")
    case True
    then obtain p where p: "pc = Some p" "err = None" by blast
    define m where "m = msg\<lparr>cm_TargetConnectAddress := pc_ConnectAddress p,
      cm_TargetConnectPeerId := pc_ConnectPeerId p\<rparr>"
    have "cm_MessageType m = MT_CHAT" using assms(2) by (simp add: m_def)
    moreover obtain m' w1 where "ForwardPeerClient E m p w = (Inr m', w1)"
      using assms(3) [of m] ForwardPeerClient_Inr [of E m _ p w] by blast
    ultimately have "delivered E m w'"
      using assms(1) found p
      by (auto simp: relay_to_def Let_def m_def [symmetric]
          dest: ForwardPeerClient_delivered ForwardPeerEndpoint_delivered split: if_splits prod.splits)
    moreover have "addressed msg m" by (auto simp: addressed_def m_def)
    ultimately show ?thesis by blast
  next
    case False
    then have "delivered E msg w'"
      using assms(1,2) found
      by (auto simp: relay_to_def intro: delivered_intros
          dest: ForwardPeerEndpoint_delivered split: if_splits prod.splits option.splits)
    then show ?thesis using addressed_refl by blast
  qed
qed

text \<open>
  C28: no chat message is lost silently: when \<open>RelaySend\<close> of a chat message to another peer returns,
  with or without an error, the last thing done was a successful write of the message, with only the
  address of the connection filled in, or its storing in the database. A panic aside.
\<close>

theorem RelaySend_keeps_chat:
  assumes "RelaySend E R msg s = (r, s')" and "\<And>p. r \<noteq> Inl (Panic p)"
    and "cm_MessageType msg = MT_CHAT" and "cm_Topic msg = []"
    and "cm_TargetPeerId msg \<noteq> []" and "\<not> IsMyself E (cm_TargetPeerId msg)"
    and "\<And>m. \<exists>data. lib_MarshalMessage E m = Inr data"
  shows "\<exists>m. addressed msg m \<and> delivered E m (nd_world s')"
proof -
  have run: "and_then (Lookup E R (cm_TargetPeerId msg) (cm_TargetClientId msg) (nd_world s)) (relay_to E msg) =
      (r, nd_world s')"
    using assms(1,4-6) by (auto simp: RelaySend_def on_world_def split: prod.splits)
  obtain found w1 where "relay_to E msg found w1 = (r, nd_world s')"
  proof (cases "Lookup E R (cm_TargetPeerId msg) (cm_TargetClientId msg) (nd_world s)")
    case (Pair l w1)
    with run assms(2) show ?thesis
      by (cases l) (auto intro: that dest: Lookup_panics)
  qed
  then show ?thesis using assms(3,7) by (rule relay_to_delivered)
qed

section \<open>Properties of receiving\<close>

lemma decrypt_keeps_header:
  assumes "Decrypt E R msg w = ((msg', err), w')"
  shows "cm_UUID msg' = cm_UUID msg \<and> cm_MessageType msg' = cm_MessageType msg \<and> cm_Topic msg' = cm_Topic msg"
  using assms by (auto simp: Decrypt_def unpack_payload_def Let_def split: if_splits prod.splits sum.splits)

lemma run_handler_message:
  "run_handler hs msg s = (Inr (response, err, msg'), s') \<Longrightarrow> msg' = msg"
  by (auto simp: run_handler_def Let_def split: if_splits prod.splits sum.splits option.splits go_error.splits)

lemma Dispatch_header:
  assumes "Dispatch E R hs msg s = (Inr (response, err, msg'), s')"
  shows "cm_UUID msg' = cm_UUID msg"
  using assms
  by (auto simp: Dispatch_def on_world_def Let_def dest!: run_handler_message decrypt_keeps_header
      split: if_splits prod.splits option.splits go_error.splits)

lemma address_message_UUID [simp]: "cm_UUID (address_message E i c msg) = cm_UUID msg"
  by (simp add: address_message_def Let_def)

lemma SetResponse_fields [simp]:
  "cm_StatusCode (SetResponse q r) = StatusOK" "cm_UUID (SetResponse q r) = cm_UUID q"
  "cm_MessageDirect (SetResponse q r) = MsgDirect_Response"
  by (simp_all add: SetResponse_def)

definition answers :: "'w env \<Rightarrow> string \<Rightarrow> string \<Rightarrow> bool" where
  "answers E uuid out \<longleftrightarrow>
     (\<exists>r. cm_UUID r = uuid \<and> cm_MessageDirect r = MsgDirect_Response \<and> cm_StatusCode r = StatusOK \<and>
        (out = [] \<or> lib_MarshalMessage E r = Inr out))"

lemma response_process_answers:
  assumes "response_process E R msg response err s = (Inr out, s')"
  shows "answers E (cm_UUID msg) out"
proof -
  obtain r where "out = (case lib_MarshalMessage E (SetResponse msg r) of Inr data \<Rightarrow> data | Inl _ \<Rightarrow> [])"
    using assms by (auto simp: response_process_def and_then_Inr)
  then show ?thesis
    unfolding answers_def
    by (intro exI [of _ "SetResponse msg r"]) (auto split: sum.splits)
qed

text \<open>
  What \<open>ReceiveRaw\<close> returns is always the text of a response to the request (its UUID) with the
  status 200, also when the data does not decode, no handler exists or the handler fails: the status
  500 that is set for an error is overwritten.
\<close>

theorem ReceiveRaw_status_ok:
  assumes "ReceiveRaw E R hs data src c sess addr s = (Inr out, s')"
  shows "answers E (cm_UUID (fst (lib_UnmarshalMessage E data))) out"
  using assms
  by (auto simp: ReceiveRaw_def Let_def and_then_Inr dest!: response_process_answers Dispatch_header
      split: prod.splits option.splits)

text \<open>
  A message for another peer is not looked at: \<open>Dispatch\<close> starts one relay of the message as it
  came and answers with the time; no handler runs, whatever handlers are registered.
\<close>

theorem Dispatch_foreign:
  assumes "cm_TargetPeerId msg \<noteq> []" and "\<not> IsMyself E (cm_TargetPeerId msg)"
    and "Dispatch E R hs msg s = (r, s')"
  shows "nd_tasks s' = nd_tasks s @ [GoRelaySend msg] \<and> nd_cache s' = nd_cache s \<and> nd_pool s' = nd_pool s \<and>
    (\<exists>now. r = Inr (Some (ResponseMessage (cm_MessageType msg) (PTime now)), None, msg))"
  using assms by (auto simp: Dispatch_def on_world_def Let_def split: prod.splits)

section \<open>The pool of connected clients\<close>

text \<open>
  The runs of a node as far as the pool is concerned: received messages update it, closed connections
  take their session out.
\<close>

inductive connections :: "'w env \<Rightarrow> 'w datastores \<Rightarrow> ('w, 'c) node \<Rightarrow> ('w, 'c) node \<Rightarrow> bool"
  for E :: "'w env" and R :: "'w datastores" where
  start: "connections E R s s"
| update: "connections E R s0 s \<Longrightarrow> UpdatePeerClient E R peerClient s = (r, s') \<Longrightarrow> connections E R s0 s'"
| disconnect: "connections E R s0 s \<Longrightarrow> HandleDisconnected E R sess s = (r, s') \<Longrightarrow> connections E R s0 s'"

lemma UpdatePeerClient_pool:
  "nd_pool (snd (UpdatePeerClient E R pc s)) =
     (if pc_PeerId pc = [] then nd_pool s
      else (nd_pool s)(pc_ConnectSessionId pc \<mapsto>
        \<lparr>pci_PeerId = pc_PeerId pc, pci_ClientId = pc_ClientId pc\<rparr>))"
  by (simp add: UpdatePeerClient_def Let_def)

lemma HandleDisconnected_pool:
  "nd_pool (snd (HandleDisconnected E R sess s)) = (nd_pool s)(sess := None)"
  by (auto simp: HandleDisconnected_def Let_def split: option.splits)

text \<open>
  In every state that updates and disconnections reach from an empty pool, each session of the
  pool belongs to a named peer, and a session is gone right after its disconnection.
\<close>

theorem connections_pool:
  assumes "connections E R s0 s" and "nd_pool s0 = (\<lambda>_. None)"
  shows "(\<forall>sess i. nd_pool s sess = Some i \<longrightarrow> pci_PeerId i \<noteq> []) \<and>
    nd_pool (snd (HandleDisconnected E R sess s)) sess = None"
  using assms
proof (induction rule: connections.induct)
  case (update s0 s pc r s')
  with UpdatePeerClient_pool [of E R pc s] show ?case
    by (auto simp: HandleDisconnected_pool split: if_splits)
next
  case (disconnect s0 s c r s')
  with HandleDisconnected_pool [of E R c s] show ?case
    by (auto simp: HandleDisconnected_pool split: if_splits)
qed (simp add: HandleDisconnected_pool)

section \<open>Evaluations\<close>

text \<open>A network that knows one client, connected to another node; the world is the list of what was written.\<close>

definition up_client :: peer_client where
  "up_client = peer_client0\<lparr>pc_ActiveStatus := ActiveStatus_Up, pc_ConnectPeerId := ''node2''\<rparr>"

definition relay_sample :: "string list env" where
  "relay_sample = sample_env\<lparr>
     lib_MarshalMessage := (\<lambda>m. Inr (cm_MessageType m)),
     lib_UnmarshalMessage := (\<lambda>_. (chain_message0\<lparr>cm_UUID := ''u''\<rparr>, None)),
     lib_TextUnmarshalPeerClients := (\<lambda>_. Inr [Some up_client]),
     kad_SearchValue := (\<lambda>_ w. (([''v''], None), w)),
     net_RequestPipe := (\<lambda>_ _ w. (Some 0, w)),
     net_PipeWrite := (\<lambda>_ data w. (None, w @ [data]))\<rparr>"

lemma relay_sample_fields [simp]:
  "glb_PeerId relay_sample = ''me''"
  "cfg_FaultTolerantLevel relay_sample = 0"
  "lib_DecodeBase32 relay_sample = Inr"
  "lib_NewKey relay_sample = (\<lambda>s. CHR ''/'' # s)"
  "lib_EncodeBase32 relay_sample = (\<lambda>s. s)"
  "lib_MarshalMessage relay_sample = (\<lambda>m. Inr (cm_MessageType m))"
  "lib_UnmarshalMessage relay_sample = (\<lambda>_. (chain_message0\<lparr>cm_UUID := ''u''\<rparr>, None))"
  "lib_TextUnmarshalPeerClients relay_sample = (\<lambda>_. Inr [Some up_client])"
  "kad_SearchValue relay_sample = (\<lambda>_ w. (([''v''], None), w))"
  "net_RequestPipe relay_sample = (\<lambda>_ _ w. (Some 0, w))"
  "net_PipeWrite relay_sample = (\<lambda>_ data w. (None, w @ [data]))"
  by (simp_all add: relay_sample_def)

lemma no_locals:
  "PeerClient_GetLocals relay_sample no_datastores (GetPeerClientKey i) c w = (Inl (Err ''No datastore''), w)"
proof -
  have "CHR ''/'' \<notin> set PeerClient_Prefix" by simp
  then have "split_on (CHR ''/'') (ns_key PeerClient_Prefix i) = [] # PeerClient_Prefix # split_on (CHR ''/'') i"
    using split_on_append_sep [of "CHR ''/''" PeerClient_Prefix i] by (simp add: ns_key_def)
  then show ?thesis
    by (simp add: PeerClient_GetLocals_def GetLocal_def Dispatch_Get_def NewKeyRequest_def ds_key_def
        trim_prefix_def GetPeerClientKey_def NewPrefixRequest_def GetDatastore_def no_datastores_def)
qed

lemma lookup_sample:
  "Lookup relay_sample no_datastores ''p'' [] w = (Inr (Some up_client, [], None), w)"
  by (simp add: Lookup_def GetPeerId_def no_locals or_none_def lookup_values_def PeerClient_GetValues_def
      append_values_def PeerClient_GetKeyValues_def GetValues_def up_client_def)

theorem Lookup_Up_witness: "pc_ActiveStatus up_client = ActiveStatus_Up"
  using Lookup_Up [OF lookup_sample] by simp

definition chat_message :: chain_message where
  "chat_message = chain_message0\<lparr>cm_MessageType := MT_CHAT, cm_TargetPeerId := ''p''\<rparr>"

definition empty_node :: "(string list, unit) node" where
  "empty_node = \<lparr>nd_world = [], nd_cache = (), nd_pool = (\<lambda>_. None), nd_tasks = []\<rparr>"

theorem RelaySend_keeps_chat_witness:
  "\<exists>r s'. RelaySend relay_sample no_datastores chat_message empty_node = (Inr r, s') \<and>
    (\<exists>m. addressed chat_message m \<and> delivered relay_sample m (nd_world s'))"
proof -
  obtain r s' where run: "RelaySend relay_sample no_datastores chat_message empty_node = (Inr r, s')"
    by (simp add: RelaySend_def chat_message_def chain_message0_def IsMyself_def on_world_def lookup_sample
        relay_to_def up_client_def peer_client0_def ForwardPeerEndpoint_def Let_def)
  then have "\<exists>m. addressed chat_message m \<and> delivered relay_sample m (nd_world s')"
    by (rule RelaySend_keeps_chat) (simp_all add: chat_message_def chain_message0_def IsMyself_def)
  with run show ?thesis by blast
qed

theorem ReceiveRaw_status_ok_witness:
  "\<exists>out. answers relay_sample ''u'' out"
proof -
  obtain out s' where "ReceiveRaw relay_sample no_datastores (\<lambda>_. None) [] [] [] ''s'' [] empty_node = (Inr out, s')"
    by (auto simp: ReceiveRaw_def chain_message0_def Let_def address_message_def UpdatePeerClient_def
        peer_client0_def Dispatch_def on_world_def Decrypt_def run_handler_def GetChainMessageHandler_def
        response_process_def)
  from ReceiveRaw_status_ok [OF this] show ?thesis by auto
qed

lemma chat_sample:
  "cm_TargetPeerId chat_message \<noteq> []" "\<not> IsMyself relay_sample (cm_TargetPeerId chat_message)"
  "nd_tasks empty_node = []"
  by (simp_all add: chat_message_def IsMyself_def empty_node_def)

lemma empty_pool: "nd_pool empty_node = (\<lambda>_. None)"
  by (simp add: empty_node_def)

theorem Dispatch_foreign_witness:
  "nd_tasks (snd (Dispatch relay_sample no_datastores (\<lambda>_. None) chat_message empty_node)) =
     [GoRelaySend chat_message]"
  using Dispatch_foreign [of chat_message relay_sample no_datastores "\<lambda>_. None" empty_node]
  by (metis (no_types, lifting) prod.collapse append_Nil chat_sample)

theorem connections_pool_witness:
  "nd_pool (snd (HandleDisconnected relay_sample no_datastores ''s''
     (snd (UpdatePeerClient relay_sample no_datastores
       (peer_client0\<lparr>pc_PeerId := ''p'', pc_ConnectSessionId := ''s''\<rparr>) empty_node)))) ''s'' = None"
  using connections_pool [OF connections.update [OF connections.start], of relay_sample no_datastores
      "peer_client0\<lparr>pc_PeerId := ''p'', pc_ConnectSessionId := ''s''\<rparr>" empty_node]
  by (metis prod.collapse empty_pool)

end
