(* ===== verification/PeerTransactions.thy ===== *)
theory PeerTransactions
  imports Relay
begin

text \<open>
  \<^verbatim>\<open>p2p/chain/service/peertransaction.go\<close>: the index of the blocks by sender, receiver, chat, group
  file and channel. A transaction is stored under a key of the DHT that its kind chooses.
\<close>

section \<open>Transaction types and keys\<close>

definition transaction_type :: "string \<Rightarrow> string" where
  "transaction_type blockType = TransactionType_DataBlock @ ''-'' @ blockType"

text \<open>The key of \<open>PutPT\<close> and of \<open>PutLocalPTs\<close>. The tests are made in this order.\<close>

definition pt_write_key :: "string \<Rightarrow> peer_transaction \<Rightarrow> string res" where
  "pt_write_key keyKind pt =
     (if keyKind = PeerTransaction_Src_KeyKind then
        (if pt_SrcPeerId pt = [] then Inl (Err ''NullSrcPeerId'')
         else Inr (GetPeerTransactionSrcKey (pt_SrcPeerId pt)))
      else if keyKind = PeerTransaction_Target_KeyKind then
        (if pt_TargetPeerId pt = [] then Inl (Err ''NullTargetPeerId'')
         else Inr (GetPeerTransactionTargetKey (pt_TargetPeerId pt)))
      else if keyKind = PeerTransaction_P2PChat_KeyKind then
        (if pt_BusinessNumber pt = [] then Inl (Err ''NullBusinessNumber'')
         else Inr (GetPeerTransactionP2pChatKey (pt_BusinessNumber pt)))
      else if keyKind = PeerTransaction_GroupFile_KeyKind then
        (if pt_BusinessNumber pt = [] then Inl (Err ''NullBusinessNumber'')
         else Inr (GetPeerTransactionGroupFileKey (pt_BusinessNumber pt)))
      else if keyKind = PeerTransaction_Channel_KeyKind then
        Inr (GetPeerTransactionChannelKey (transaction_type BlockType_Channel))
      else if keyKind = PeerTransaction_ChannelArticle_KeyKind then
        (if pt_BusinessNumber pt = [] then Inl (Err ''NullBusinessNumber'')
         else Inr (GetPeerTransactionChannelArticleKey (pt_BusinessNumber pt)))
      else Inl (Err ''InvalidPeerTransactionKeyKind''))"

text \<open>The key of \<open>GetLocalPTs\<close>.\<close>

definition pt_read_key :: "string \<Rightarrow> string \<Rightarrow> string \<Rightarrow> string \<Rightarrow> string \<Rightarrow> string res" where
  "pt_read_key keyKind srcPeerId targetPeerId businessNumber parentBusinessNumber =
     (if keyKind = PeerTransaction_Src_KeyKind then
        (if srcPeerId = [] then Inl (Err ''NullSrcPeerId'') else Inr (GetPeerTransactionSrcKey srcPeerId))
      else if keyKind = PeerTransaction_Target_KeyKind then
        (if targetPeerId = [] then Inl (Err ''NullTargetPeerId'')
         else Inr (GetPeerTransactionTargetKey targetPeerId))
      else if keyKind = PeerTransaction_P2PChat_KeyKind then
        (if businessNumber = [] then Inl (Err ''NullBusinessNumber'')
         else Inr (GetPeerTransactionP2pChatKey businessNumber))
      else if keyKind = PeerTransaction_GroupFile_KeyKind then
        (if businessNumber = [] then Inl (Err ''NullBusinessNumber'')
         else Inr (GetPeerTransactionGroupFileKey businessNumber))
      else if keyKind = PeerTransaction_Channel_KeyKind then
        Inr (GetPeerTransactionChannelKey (transaction_type BlockType_Channel))
      else if keyKind = PeerTransaction_ChannelArticle_KeyKind then
        (if parentBusinessNumber = [] then Inl (Err ''NullParentBusinessNumber'')
         else Inr (GetPeerTransactionChannelArticleKey parentBusinessNumber))
      else Inl (Err ''InvalidPeerTransactionKeyKind''))"

section \<open>Operations\<close>

definition GetLocalPTs ::
  "'w env \<Rightarrow> 'w datastores \<Rightarrow> string \<Rightarrow> string \<Rightarrow> string \<Rightarrow> string \<Rightarrow> string \<Rightarrow> 'w \<Rightarrow>
   peer_transaction option list res \<times> 'w" where
  "GetLocalPTs E R keyKind srcPeerId targetPeerId businessNumber parentBusinessNumber w =
     and_then (lift_res (pt_read_key keyKind srcPeerId targetPeerId businessNumber parentBusinessNumber) w)
       (\<lambda>key w. and_then (GetLocal E R key w) (\<lambda>rec w1.
          case rec of
            None \<Rightarrow> (Inr [], w1)
          | Some r \<Rightarrow> (lib_UnmarshalPeerTransactions E (rec_Value r), w1)))"

definition PutLocalPTs ::
  "'w env \<Rightarrow> 'w datastores \<Rightarrow> string \<Rightarrow> peer_transaction option list \<Rightarrow> 'w \<Rightarrow> unit res \<times> 'w" where
  "PutLocalPTs E R keyKind =
     each (\<lambda>peerTransaction w.
       case peerTransaction of
         None \<Rightarrow>
           if keyKind = PeerTransaction_Channel_KeyKind then
             and_then (lift_res (lib_Marshal E (PPeerTransaction None)) w)
               (\<lambda>bytes. PutLocal E R (GetPeerTransactionChannelKey (transaction_type BlockType_Channel)) bytes)
           else if keyKind \<in> {PeerTransaction_Src_KeyKind, PeerTransaction_Target_KeyKind,
               PeerTransaction_P2PChat_KeyKind, PeerTransaction_GroupFile_KeyKind,
               PeerTransaction_ChannelArticle_KeyKind} then (Inl NilDereference, w)
           else (Inl (Err ''InvalidPeerTransactionKeyKind''), w)
       | Some pt \<Rightarrow>
           and_then (lift_res (pt_write_key keyKind pt) w) (\<lambda>key w.
             and_then (lift_res (lib_Marshal E (PPeerTransaction (Some pt))) w) (PutLocal E R key)))"

definition PutPT :: "'w env \<Rightarrow> peer_transaction \<Rightarrow> string \<Rightarrow> 'w \<Rightarrow> unit res \<times> 'w" where
  "PutPT E pt keyKind w =
     and_then (lift_res (lib_Marshal E (PPeerTransaction (Some pt))) w) (\<lambda>bytes w.
       and_then (lift_res (pt_write_key keyKind pt) w) (\<lambda>key. PutValue E key bytes))"

definition PutPTs :: "'w env \<Rightarrow> peer_transaction \<Rightarrow> 'w \<Rightarrow> unit res \<times> 'w" where
  "PutPTs E pt w =
     (if pt_TransactionType pt = transaction_type BlockType_Collection then
        and_then (PutPT E pt PeerTransaction_Src_KeyKind w)
          (\<lambda>_. PutPT E pt PeerTransaction_Target_KeyKind)
      else if pt_TransactionType pt = transaction_type BlockType_P2pChat then
        PutPT E pt PeerTransaction_P2PChat_KeyKind w
      else if pt_TransactionType pt = transaction_type BlockType_GroupFile then
        PutPT E pt PeerTransaction_GroupFile_KeyKind w
      else if pt_TransactionType pt = transaction_type BlockType_Channel then
        PutPT E pt PeerTransaction_Channel_KeyKind w
      else if pt_TransactionType pt = transaction_type BlockType_ChannelArticle then
        PutPT E pt PeerTransaction_ChannelArticle_KeyKind w
      else (Inl (Err ''InvalidTransactionType''), w))"

section \<open>Properties\<close>

definition key_kinds :: "string list" where
  "key_kinds = [PeerTransaction_Src_KeyKind, PeerTransaction_Target_KeyKind,
     PeerTransaction_P2PChat_KeyKind, PeerTransaction_GroupFile_KeyKind,
     PeerTransaction_Channel_KeyKind, PeerTransaction_ChannelArticle_KeyKind]"

text \<open>
  A transaction is read under the key it was written under, for each kind, except the channel
  articles: these are written under their own business number and read under that of the parent, so
  the keys agree only when the two numbers do.
\<close>

theorem read_key_of_write_key:
  assumes "kind \<in> set key_kinds" and "pt_write_key kind pt = Inr key" and "pt_ParentBusinessNumber pt \<noteq> []"
  shows "pt_read_key kind (pt_SrcPeerId pt) (pt_TargetPeerId pt) (pt_BusinessNumber pt)
      (pt_ParentBusinessNumber pt) = Inr key \<longleftrightarrow>
    kind \<noteq> PeerTransaction_ChannelArticle_KeyKind \<or> pt_ParentBusinessNumber pt = pt_BusinessNumber pt"
  using assms
  by (auto simp: key_kinds_def pt_write_key_def pt_read_key_def
      GetPeerTransactionChannelArticleKey_def ns_key_def split: if_splits)

text \<open>
  The transaction of a group file is written under the key of a chat with the same number: both
  kinds of keys are the word \<open>BusinessNumber\<close> and the test for chats comes first. No write of
  \<open>PutPTs\<close> reaches the namespace of the group files.
\<close>

theorem group_file_under_chat_key:
  assumes "pt_TransactionType pt = transaction_type BlockType_GroupFile"
    and "pt_BusinessNumber pt \<noteq> []" and "lib_Marshal E (PPeerTransaction (Some pt)) = Inr bytes"
  shows "PutPTs E pt w = PutValue E (GetPeerTransactionP2pChatKey (pt_BusinessNumber pt)) bytes w \<and>
    (\<forall>kind i. pt_write_key kind pt \<noteq> Inr (GetPeerTransactionGroupFileKey i))"
proof -
  have "pt_write_key kind pt \<noteq> Inr (GetPeerTransactionGroupFileKey i)" for kind i
    by (simp add: pt_write_key_def key_defs ns_key_inject)
  moreover have "PutPTs E pt w = PutPT E pt PeerTransaction_GroupFile_KeyKind w"
    using assms(1) by (simp add: PutPTs_def transaction_type_def)
  ultimately show ?thesis using assms(2,3) by (simp add: PutPT_def pt_write_key_def)
qed

theorem read_key_of_write_key_witness:
  "pt_read_key PeerTransaction_ChannelArticle_KeyKind [] [] ''article'' ''channel'' \<noteq>
     Inr (GetPeerTransactionChannelArticleKey ''article'')"
  using read_key_of_write_key [of PeerTransaction_ChannelArticle_KeyKind
      "peer_transaction0\<lparr>pt_BusinessNumber := ''article'', pt_ParentBusinessNumber := ''channel''\<rparr>"
      "GetPeerTransactionChannelArticleKey ''article''"]
  by (simp add: key_kinds_def pt_write_key_def peer_transaction0_def)

definition transaction_sample :: "unit env" where
  "transaction_sample = sample_env\<lparr>lib_Marshal := (\<lambda>_. Inr ''pt'')\<rparr>"

theorem group_file_under_chat_key_witness:
  "PutPTs transaction_sample (peer_transaction0\<lparr>pt_TransactionType := ''DataBlock-GroupFile'',
       pt_BusinessNumber := ''n''\<rparr>) () =
     PutValue transaction_sample (GetPeerTransactionP2pChatKey ''n'') ''pt'' ()"
  using group_file_under_chat_key [of "peer_transaction0\<lparr>pt_TransactionType := ''DataBlock-GroupFile'',
       pt_BusinessNumber := ''n''\<rparr>" transaction_sample "''pt''" "()"]
  by (simp add: transaction_type_def transaction_sample_def)

end
