(* ===== verification/DataBlocks.thy ===== *)
theory DataBlocks
  imports PeerTransactions
begin

text \<open>
  \<^verbatim>\<open>p2p/chain/service/datablock.go\<close>: the blocks of data, stored in slices. \<open>StoreValue\<close> is split into
  the checks, the deletion, the storing and the follow-up writes that its body makes in turn. The block
  is passed by pointer, so the operations return it as they leave it.
\<close>

section \<open>Local reads and writes\<close>

definition DataBlock_Validate :: "data_block \<Rightarrow> unit res" where
  "DataBlock_Validate dataBlock =
     (if db_TransportPayload dataBlock = [] \<and> db_ExpireDate dataBlock = 0
      then Inl (Err ''Invalid expireDate'') else Inr ())"

definition block_keys :: "data_block \<Rightarrow> transaction_key list" where
  "block_keys db = (case db_TransactionKeys db of None \<Rightarrow> [] | Some tks \<Rightarrow> tks)"

text \<open>
  Whether \<open>GetLocalDBs\<close> returns a block: without a receiver the blocks that are not encrypted, with
  one those that it can open, which only the first slice tells. Of no slice number nothing is returned.
\<close>

definition receivable :: "string \<Rightarrow> uint64 \<Rightarrow> data_block \<Rightarrow> bool" where
  "receivable receiverPeerId sliceNumber db \<longleftrightarrow>
     receiverPeerId \<noteq> [] \<and>
     (sliceNumber \<noteq> 1 \<or> list_ex (\<lambda>tk. tk_PeerId tk = receiverPeerId) (block_keys db))"

definition block_selected :: "string \<Rightarrow> uint64 \<Rightarrow> data_block option \<Rightarrow> bool res" where
  "block_selected receiverPeerId sliceNumber dataBlock =
     (case dataBlock of
        None \<Rightarrow>
          if receiverPeerId \<noteq> [] \<and> sliceNumber = 0 then Inr False else Inl NilDereference
      | Some db \<Rightarrow>
          Inr (((receiverPeerId = [] \<and> db_PayloadKey db = []) \<or>
                (receiverPeerId \<noteq> [] \<and> receivable receiverPeerId sliceNumber db)) \<and>
               (sliceNumber > 0 \<and> db_SliceNumber db = sliceNumber)))"

fun filter_blocks :: "string \<Rightarrow> uint64 \<Rightarrow> data_block option list \<Rightarrow> data_block option list res" where
  "filter_blocks receiverPeerId sliceNumber [] = Inr []"
| "filter_blocks receiverPeerId sliceNumber (dataBlock # dataBlocks) =
     (case block_selected receiverPeerId sliceNumber dataBlock of
        Inl e \<Rightarrow> Inl e
      | Inr b \<Rightarrow>
          (case filter_blocks receiverPeerId sliceNumber dataBlocks of
             Inl e \<Rightarrow> Inl e
           | Inr dbs \<Rightarrow> Inr (if b then dataBlock # dbs else dbs)))"

definition GetLocalDBs ::
  "'w env \<Rightarrow> 'w datastores \<Rightarrow> string \<Rightarrow> string \<Rightarrow> string \<Rightarrow> string \<Rightarrow> uint64 \<Rightarrow> 'w \<Rightarrow>
   data_block option list res \<times> 'w" where
  "GetLocalDBs E R keyKind createPeerId blockId receiverPeerId sliceNumber w =
     and_then
       (lift_res
         (if keyKind = DataBlock_Owner_KeyKind then
            (if createPeerId = [] then Inl (Err ''NullCreatePeerId'') else Inr (GetDataBlockOwnerKey createPeerId))
          else if keyKind = DataBlock_KeyKind then
            (if blockId = [] then Inl (Err ''NullBlockId'') else Inr (GetDataBlockKey blockId))
          else Inl (Err ''InvalidDataBlockKeyKind'')) w)
       (\<lambda>key w. and_then (GetLocal E R key w) (\<lambda>rec w1.
          case rec of
            None \<Rightarrow> (Inr [], w1)
          | Some r \<Rightarrow>
              and_then (lift_res (lib_UnmarshalDataBlocks E (rec_Value r)) w1)
                (\<lambda>dataBlocks w1. (filter_blocks receiverPeerId sliceNumber dataBlocks, w1))))"

definition local_block_key :: "string \<Rightarrow> data_block option \<Rightarrow> string res" where
  "local_block_key keyKind dataBlock =
     (if keyKind = DataBlock_Owner_KeyKind then
        (case dataBlock of
           None \<Rightarrow> Inl NilDereference
         | Some db \<Rightarrow> if db_PeerId db = [] then Inl (Err ''NullPeerId'') else Inr (GetDataBlockOwnerKey (db_PeerId db)))
      else if keyKind = DataBlock_KeyKind then
        (case dataBlock of
           None \<Rightarrow> Inl NilDereference
         | Some db \<Rightarrow> if db_BlockId db = [] then Inl (Err ''NullBlockId'') else Inr (GetDataBlockKey (db_BlockId db)))
      else Inl (Err ''InvalidDataBlockKeyKind''))"

definition PutLocalDBs ::
  "'w env \<Rightarrow> 'w datastores \<Rightarrow> string \<Rightarrow> data_block option list \<Rightarrow> 'w \<Rightarrow> unit res \<times> 'w" where
  "PutLocalDBs E R keyKind =
     each (\<lambda>dataBlock w.
       and_then (lift_res (local_block_key keyKind dataBlock) w) (\<lambda>key w.
         and_then (lift_res (lib_Marshal E (PDataBlock dataBlock)) w) (PutLocal E R key)))"

definition PutDB :: "'w env \<Rightarrow> data_block \<Rightarrow> string \<Rightarrow> 'w \<Rightarrow> unit res \<times> 'w" where
  "PutDB E dataBlock keyKind w =
     and_then (lift_res (lib_Marshal E (PDataBlock (Some dataBlock))) w) (\<lambda>bytes w.
       if keyKind = DataBlock_KeyKind then
         PutValue E (GetDataBlockKey (db_BlockId dataBlock)) bytes w
       else if keyKind = DataBlock_Owner_KeyKind then
         PutValue E (GetDataBlockOwnerKey (db_PeerId dataBlock)) bytes w
       else (Inl (Err ''InvalidDataBlockKeyKind''), w))"

definition PutDBs :: "'w env \<Rightarrow> data_block \<Rightarrow> 'w \<Rightarrow> unit res \<times> 'w" where
  "PutDBs E dataBlock w =
     and_then (PutDB E dataBlock DataBlock_KeyKind w) (\<lambda>_. PutDB E dataBlock DataBlock_Owner_KeyKind)"

definition GetTransactionAmount :: "string \<Rightarrow> rat" where
  "GetTransactionAmount transportPayload = of_nat (length transportPayload) / of_nat (1024 * 1024)"

section \<open>Storing a block: the checks\<close>

definition check_fields :: "data_block \<Rightarrow> unit res" where
  "check_fields db =
     (if db_BlockId db = [] then Inl (Err ''NoBlockId'')
      else if db_SliceNumber db = 0 then Inl (Err ''NoSliceNumber'')
      else if db_BusinessNumber db = [] then Inl (Err ''NoBusinessNumber'')
      else Inr ())"

definition check_owner :: "data_block \<Rightarrow> data_block \<Rightarrow> unit res" where
  "check_owner oldDb db =
     (if db_BlockType db = BlockType_P2pChat \<and> db_TransportPayload db = [] then
        (if db_BusinessNumber oldDb \<noteq> db_PeerId db then
           Inl (Err (''InconsistentDataBlockPeerId, blockId: '' @ db_BlockId db @ '', peerId: '' @ db_PeerId db @
             '', oldBusinessNumber: '' @ db_BusinessNumber oldDb))
         else Inr ())
      else
        (if db_PeerId oldDb \<noteq> db_PeerId db then
           Inl (Err (''InconsistentDataBlockPeerId, blockId: '' @ db_BlockId db @ '', peerId: '' @ db_PeerId db @
             '', oldPeerId: '' @ db_PeerId oldDb))
         else Inr ()))"

definition signature_data :: "data_block \<Rightarrow> string" where
  "signature_data db =
     (if db_TransportPayload db \<noteq> [] then db_TransportPayload db
      else if db_ExpireDate db > 0 then show_int (db_ExpireDate db) @ db_PeerId db
      else [])"

definition check_signature ::
  "'w env \<Rightarrow> 'w datastores \<Rightarrow> data_block \<Rightarrow> data_block \<Rightarrow> 'w \<Rightarrow> unit res \<times> 'w" where
  "check_signature E R oldDb db w =
     (let suffix = '', blockId: '' @ db_BlockId db @ '', peerId: '' @ db_PeerId db in
      case GetPublicKey E R (db_PeerId oldDb) w of
        (Inl (Panic p), w1) \<Rightarrow> (Inl (Panic p), w1)
      | (Inl (Err _), w1) \<Rightarrow> (Inl (Err (''GetPublicKey failure'' @ suffix)), w1)
      | (Inr publicKey, w1) \<Rightarrow>
          if signature_data db \<noteq> [] then
            (case lib_Verify E publicKey (signature_data db) (lib_DecodeBase64 E (db_Signature db)) of
               (pass, err) \<Rightarrow>
                 if err \<noteq> None \<or> \<not> pass then (Inl (Err (''SignatureVerifyFailure'' @ suffix)), w1)
                 else (Inr (), w1))
          else (Inr (), w1))"

definition check_timestamp :: "data_block \<Rightarrow> data_block \<Rightarrow> unit res" where
  "check_timestamp oldDb db =
     (if db_CreateTimestamp db \<le> db_CreateTimestamp oldDb then Inl (Err CantReplace) else Inr ())"

definition check_replace ::
  "'w env \<Rightarrow> 'w datastores \<Rightarrow> data_block \<Rightarrow> data_block \<Rightarrow> 'w \<Rightarrow> unit res \<times> 'w" where
  "check_replace E R oldDb db w =
     and_then (lift_res (check_owner oldDb db) w) (\<lambda>_ w.
       and_then (check_signature E R oldDb db w) (\<lambda>_ w1. (check_timestamp oldDb db, w1)))"

section \<open>Storing a block: the deletion\<close>

text \<open>The name of a slice in the file store.\<close>

definition content_id :: "'a library_scheme \<Rightarrow> string \<Rightarrow> uint64 \<Rightarrow> string" where
  "content_id E blockId i = lib_EncodeHex E (lib_Hash E (blockId @ ''-'' @ show_u64 i) ''sha3_256'')"

definition erase_contents :: "'w env \<Rightarrow> string \<Rightarrow> uint64 \<Rightarrow> 'w \<Rightarrow> unit res \<times> 'w" where
  "erase_contents E blockId sliceSize =
     loop_upto (\<lambda>i w. case file_Write E (content_id E blockId i) [] w of (_, w') \<Rightarrow> (Inr (), w')) 1 sliceSize"

text \<open>The transaction that stands for a deleted slice.\<close>

definition deleted_transaction ::
  "'a library_scheme \<Rightarrow> data_block \<Rightarrow> string \<Rightarrow> uint64 \<Rightarrow> peer_transaction" where
  "deleted_transaction E db myselfPeerId i = peer_transaction0\<lparr>
     pt_SrcPeerId := db_PeerId db, pt_TargetPeerId := myselfPeerId, pt_BlockId := db_BlockId db,
     pt_SliceNumber := i, pt_TransactionType := transaction_type (db_BlockType db),
     pt_BusinessNumber := db_BusinessNumber db, pt_Status := cst_Deleted E\<rparr>"

definition delete_transactions ::
  "'w env \<Rightarrow> data_block \<Rightarrow> string \<Rightarrow> uint64 \<Rightarrow> uint64 \<Rightarrow> 'w \<Rightarrow> unit res \<times> 'w" where
  "delete_transactions E db myselfPeerId first n =
     loop_upto (\<lambda>i. PutPTs E (deleted_transaction E db myselfPeerId i)) first n"

definition delete_block ::
  "'w env \<Rightarrow> string \<Rightarrow> data_block \<Rightarrow> data_block \<Rightarrow> 'w \<Rightarrow> unit res \<times> 'w" where
  "delete_block E myselfPeerId oldDb db w =
     (if db_SliceNumber db = 1 then
        and_then (erase_contents E (db_BlockId oldDb) (db_SliceSize oldDb) w) (\<lambda>_ w1.
          let w2 = orm_DeleteDataBlock E (data_block0\<lparr>db_BlockId := db_BlockId db\<rparr>) [] [] w1;
              w3 = orm_DeleteTransactionKey E (transaction_key0\<lparr>tk_BlockId := db_BlockId db\<rparr>) w2
          in delete_transactions E db myselfPeerId 1 (db_SliceSize oldDb) w3)
      else (Inr (), w))"

section \<open>Storing a block: the writes\<close>

text \<open>A large payload goes to the file store and leaves the block.\<close>

definition offload_payload :: "'w env \<Rightarrow> data_block \<Rightarrow> 'w \<Rightarrow> data_block res \<times> 'w" where
  "offload_payload E db w =
     (if length (db_TransportPayload db) > PayloadLimit then
        (case file_Write E (content_id E (db_BlockId db) (db_SliceNumber db))
                (lib_DecodeBase64 E (db_TransportPayload db)) w of
           (Some err, w1) \<Rightarrow> (Inl (Err (''failed to Write FileContent:'' @ error_text err)), w1)
         | (None, w1) \<Rightarrow> (Inr (db\<lparr>db_TransportPayload := []\<rparr>), w1))
      else (Inr db, w))"

definition trim_slices ::
  "'w env \<Rightarrow> string \<Rightarrow> data_block \<Rightarrow> data_block \<Rightarrow> 'w \<Rightarrow> unit res \<times> 'w" where
  "trim_slices E myselfPeerId oldDb db w =
     (if db_SliceSize db < db_SliceSize oldDb then
        let w1 = orm_DeleteDataBlock E (data_block0\<lparr>db_BlockId := db_BlockId db\<rparr>)
                   ''SliceNumber > ?'' [db_SliceSize db] w
        in delete_transactions E db myselfPeerId (db_SliceSize db + 1) (db_SliceSize oldDb) w1
      else (Inr (), w))"

definition store_key :: "'w env \<Rightarrow> string \<Rightarrow> transaction_key \<Rightarrow> 'w \<Rightarrow> unit res \<times> 'w" where
  "store_key E blockId tk w =
     (if tk_BlockId tk \<noteq> blockId then (Inl (Err ''InvalidTKBlockId''), w)
      else if tk_PeerId tk = [] then (Inl (Err ''NoTKPeerId''), w)
      else
        (case orm_GetTransactionKey E
                (transaction_key0\<lparr>tk_BlockId := tk_BlockId tk, tk_PeerId := tk_PeerId tk\<rparr>) w of
           (oldTk, w1) \<Rightarrow>
             let tk = tk\<lparr>tk_Id := (case oldTk of Some old \<Rightarrow> tk_Id old | None \<Rightarrow> 0)\<rparr> in
             (case orm_UpsertTransactionKey E tk w1 of
                (tkAffected, w2) \<Rightarrow>
                  if tkAffected > 0 then (Inr (), w2)
                  else (Inl (Err (''BlockId: '' @ tk_BlockId tk @ '', PeerId: '' @ tk_PeerId tk @
                          '', upsert TransactionKey fail'')), w2))))"

text \<open>The transaction that indexes a stored slice.\<close>

definition block_transaction :: "data_block \<Rightarrow> string \<Rightarrow> go_time \<Rightarrow> peer_transaction" where
  "block_transaction db myselfPeerId currentTime = peer_transaction0\<lparr>
     pt_PrimaryPeerId := db_PrimaryPeerId db, pt_SrcPeerId := db_PeerId db,
     pt_SrcPeerType := PeerType_PeerClient, pt_TargetPeerId := myselfPeerId,
     pt_TargetPeerType := PeerType_PeerEndpoint, pt_BlockId := db_BlockId db,
     pt_SliceNumber := db_SliceNumber db, pt_ParentBusinessNumber := db_ParentBusinessNumber db,
     pt_BusinessNumber := db_BusinessNumber db, pt_TransactionTime := Some currentTime,
     pt_CreateTimestamp := db_CreateTimestamp db, pt_Amount := db_TransactionAmount db,
     pt_TransactionType := transaction_type (db_BlockType db), pt_Metadata := db_Metadata db,
     pt_Thumbnail := db_Thumbnail db, pt_Name := db_Name db, pt_Description := db_Description db\<rparr>"

text \<open>What follows a successful upsert: the first slice trims and stores the keys, then the index.\<close>

definition after_upsert ::
  "'w env \<Rightarrow> string \<Rightarrow> go_time \<Rightarrow> transaction_key list \<Rightarrow> data_block \<Rightarrow> data_block \<Rightarrow> 'w \<Rightarrow> unit res \<times> 'w"
  where
  "after_upsert E myselfPeerId currentTime transactionKeys oldDb db w =
     and_then
       (if db_SliceNumber db = 1 then
          and_then (trim_slices E myselfPeerId oldDb db w)
            (\<lambda>_. each (store_key E (db_BlockId db)) transactionKeys)
        else (Inr (), w))
       (\<lambda>_ w1.
         if db_BlockType db \<noteq> BlockType_ChatAttach then
           PutPTs E (block_transaction db myselfPeerId currentTime) w1
         else (Inr (), w1))"

definition write_block ::
  "'w env \<Rightarrow> string \<Rightarrow> go_time \<Rightarrow> data_block \<Rightarrow> data_block \<Rightarrow> 'w \<Rightarrow> (unit res \<times> data_block) \<times> 'w" where
  "write_block E myselfPeerId currentTime oldDb db w =
     (case offload_payload E db w of
        (Inl e, w1) \<Rightarrow> ((Inl e, db), w1)
      | (Inr db1, w1) \<Rightarrow>
          (case orm_UpsertDataBlock E db1 w1 of
             (dbAffected, w2) \<Rightarrow>
               if dbAffected > 0 then
                 (case after_upsert E myselfPeerId currentTime (block_keys db) oldDb db1 w2 of
                    (r, w3) \<Rightarrow> ((r, db1), w3))
               else ((Inl (Err (''BlockId: '' @ db_BlockId db @ '', upsert DataBlock fail'')), db1), w2)))"

section \<open>StoreValue\<close>

text \<open>
  The result, the block as it is left (its \<open>Id\<close> set, a large payload taken out) and the world. A nil
  block is refused by the callers' test of the pointer, modelled in \<open>StoreValue\<close>.
\<close>

definition store_block ::
  "'w env \<Rightarrow> 'w datastores \<Rightarrow> data_block \<Rightarrow> 'w \<Rightarrow> (unit res \<times> data_block) \<times> 'w" where
  "store_block E R db w =
     (case check_fields db of
        Inl e \<Rightarrow> ((Inl e, db), w)
      | Inr _ \<Rightarrow>
          (case glb_MyselfPeer E of
             None \<Rightarrow> ((Inl NilDereference, db), w)
           | Some myself \<Rightarrow>
               let myselfPeerId = my_PeerId myself;
                   bean = data_block0\<lparr>db_BlockId := db_BlockId db, db_SliceNumber := db_SliceNumber db\<rparr> in
               (case env_now E w of
                  (currentTime, w0) \<Rightarrow>
                    (case orm_GetDataBlock E bean w0 of
                       (Some oldDb, w1) \<Rightarrow>
                         let db = db\<lparr>db_Id := db_Id oldDb\<rparr> in
                         (case check_replace E R oldDb db w1 of
                            (Inl e, w2) \<Rightarrow> ((Inl e, db), w2)
                          | (Inr _, w2) \<Rightarrow>
                              if db_TransportPayload db = [] then
                                (case delete_block E myselfPeerId oldDb db w2 of (r, w3) \<Rightarrow> ((r, db), w3))
                              else write_block E myselfPeerId currentTime oldDb db w2)
                     | (None, w1) \<Rightarrow>
                         let db = db\<lparr>db_Id := 0\<rparr> in
                         if db_TransportPayload db = [] then ((Inr (), db), w1)
                         else write_block E myselfPeerId currentTime bean db w1))))"

definition StoreValue ::
  "'w env \<Rightarrow> 'w datastores \<Rightarrow> data_block option \<Rightarrow> 'w \<Rightarrow> (unit res \<times> data_block option) \<times> 'w" where
  "StoreValue E R dbp w =
     (case dbp of
        None \<Rightarrow> ((Inl (Err ''NoDataBlock''), None), w)
      | Some db \<Rightarrow> (case store_block E R db w of ((r, db'), w') \<Rightarrow> ((r, Some db'), w')))"

section \<open>Reading blocks and their expiry\<close>

text \<open>\<open>QueryValue\<close> of the service: the keys of a first slice and a payload kept in a file are added.\<close>

definition complete_block :: "'w env \<Rightarrow> uint64 \<Rightarrow> data_block \<Rightarrow> 'w \<Rightarrow> data_block \<times> 'w" where
  "complete_block E sliceNumber db w =
     (case (if sliceNumber = 1 then
              (case orm_FindTransactionKey E (transaction_key0\<lparr>tk_BlockId := db_BlockId db\<rparr>) w of
                 (tks, w1) \<Rightarrow> (if tks \<noteq> [] then db\<lparr>db_TransactionKeys := Some tks\<rparr> else db, w1))
            else (db, w)) of
        (db1, w1) \<Rightarrow>
          if db_TransportPayload db1 = [] then
            (case file_Read E (content_id E (db_BlockId db1) (db_SliceNumber db1)) w1 of
               (transportPayload, w2) \<Rightarrow>
                 (db1\<lparr>db_TransportPayload := lib_EncodeBase64 E transportPayload\<rparr>, w2))
          else (db1, w1))"

fun complete_blocks :: "'w env \<Rightarrow> uint64 \<Rightarrow> data_block list \<Rightarrow> 'w \<Rightarrow> data_block list \<times> 'w" where
  "complete_blocks E sliceNumber [] w = ([], w)"
| "complete_blocks E sliceNumber (db # dbs) w =
     (case complete_block E sliceNumber db w of
        (db', w1) \<Rightarrow> (case complete_blocks E sliceNumber dbs w1 of (dbs', w2) \<Rightarrow> (db' # dbs', w2)))"

definition DataBlock_QueryValue ::
  "'w env \<Rightarrow> string \<Rightarrow> uint64 \<Rightarrow> 'w \<Rightarrow> data_block list \<times> 'w" where
  "DataBlock_QueryValue E blockId sliceNumber w =
     (case orm_FindDataBlock E (data_block0\<lparr>db_BlockId := blockId, db_SliceNumber := sliceNumber\<rparr>) [] [] w of
        ((dbs, _), w1) \<Rightarrow> complete_blocks E sliceNumber dbs w1)"

text \<open>Go's integer division truncates toward zero.\<close>

definition go_div :: "int \<Rightarrow> int \<Rightarrow> int" where
  "go_div a b = sgn a * sgn b * (\<bar>a\<bar> div \<bar>b\<bar>)"

definition expire_block :: "'w env \<Rightarrow> data_block \<Rightarrow> 'w \<Rightarrow> unit res \<times> 'w" where
  "expire_block E db w =
     (if db_SliceNumber db = 1 then
        and_then (erase_contents E (db_BlockId db) (db_SliceSize db) w) (\<lambda>_ w1.
          let w2 = orm_DeleteDataBlock E (data_block0\<lparr>db_BlockId := db_BlockId db\<rparr>) [] [] w1;
              w3 = orm_DeleteTransactionKey E (transaction_key0\<lparr>tk_BlockId := db_BlockId db\<rparr>) w2
          in if db_BlockType db \<noteq> BlockType_ChatAttach then
               (case glb_MyselfPeer E of
                  None \<Rightarrow> if 1 \<le> db_SliceSize db then (Inl NilDereference, w3) else (Inr (), w3)
                | Some myself \<Rightarrow> delete_transactions E db (my_PeerId myself) 1 (db_SliceSize db) w3)
             else (Inr (), w3))
      else (Inr (), w))"

definition DeleteExpiredDB :: "'w env \<Rightarrow> 'w \<Rightarrow> unit res \<times> 'w" where
  "DeleteExpiredDB E w =
     (case env_now E w of
        (t, w1) \<Rightarrow>
          (case orm_FindDataBlock E data_block0 ''ExpireDate <= ?'' [go_div (nanos t) 1000000] w1 of
             ((_, Some err), w2) \<Rightarrow> (Inl err, w2)
           | ((dataBlocks, None), w2) \<Rightarrow> each (expire_block E) dataBlocks w2))"

section \<open>Properties\<close>

lemma filter_blocks_0: "filter_blocks r 0 dbs = Inr res \<Longrightarrow> res = []"
  by (induction dbs arbitrary: res) (auto simp: block_selected_def split: sum.splits option.splits if_splits)

text \<open>
  Asked for slice number 0, \<open>GetLocalDBs\<close> never returns a block, whatever is stored.
\<close>

theorem GetLocalDBs_no_slice:
  assumes "GetLocalDBs E R keyKind createPeerId blockId receiverPeerId 0 w = (Inr dbs, w')"
  shows "dbs = []"
  using assms
  by (auto simp: GetLocalDBs_def and_then_Inr dest: filter_blocks_0 split: option.splits)



text \<open>
  A deletion with a negative expiry date is accepted whatever its signature is: \<open>Validate\<close> only
  refuses the date 0 and the signed text is empty unless the date is positive. The owner test and a
  later time stamp, both in the hands of the sender, are all that is checked.
\<close>

theorem unsigned_deletion:
  assumes "db_TransportPayload db = []" and "db_ExpireDate db < 0"
    and "db_CreateTimestamp oldDb < db_CreateTimestamp db" and "db_BlockType db \<noteq> BlockType_P2pChat"
    and "db_PeerId db = db_PeerId oldDb" and "GetPublicKey E R (db_PeerId oldDb) w = (Inr pk, w')"
  shows "DataBlock_Validate db = Inr () \<and> check_replace E R oldDb (db\<lparr>db_Signature := sig\<rparr>) w = (Inr (), w')"
  using assms
  by (simp add: DataBlock_Validate_def check_replace_def check_owner_def check_signature_def Let_def
      signature_data_def check_timestamp_def not_le)

lemma offload_payload_bound:
  "offload_payload E db w = (Inr db', w') \<Longrightarrow> length (db_TransportPayload db') \<le> PayloadLimit"
  by (auto simp: offload_payload_def split: if_splits prod.splits option.splits)

text \<open>
  The block that a successful \<open>StoreValue\<close> puts into the database holds at most 32 KB of payload;
  it is the block as it is left behind the pointer, so a larger payload is gone there, too.
\<close>

theorem StoreValue_payload_bound:
  assumes "StoreValue E R dbp w = ((Inr (), Some db'), w')"
  shows "length (db_TransportPayload db') \<le> PayloadLimit"
proof -
  have "length (db_TransportPayload d') \<le> PayloadLimit"
    if "write_block E m t old db v = ((Inr (), d'), v')" for m t old db v d' v'
    using that by (auto simp: write_block_def dest: offload_payload_bound
        split: prod.splits sum.splits if_splits)
  then show ?thesis
    using assms
    by (auto simp: StoreValue_def store_block_def Let_def
        split: prod.splits sum.splits option.splits if_splits)
qed

text \<open>
  The loop that erases the slices of a block ends with success for every slice count but the
  largest value of the type: for 2^64 - 1 slices the counter wraps around and the loop runs for ever.
\<close>

theorem erase_contents_returns:
  "fst (erase_contents E blockId n w) = (if n = - 1 then Inl NoReturn else Inr ())"
proof -
  define f where "f = (\<lambda>i w. case file_Write E (content_id E blockId i) [] w of (_, w') \<Rightarrow> (Inr () :: unit res, w'))"
  have f: "fst (f i w) = Inr ()" for i w by (simp add: f_def split: prod.splits)
  have "erase_contents E blockId n w = loop_upto f 1 n w" by (simp add: erase_contents_def f_def)
  moreover have "fst (each f (word_range 1 n) w) = Inr ()" by (rule each_ok) (simp add: f)
  ultimately show ?thesis by (simp add: loop_upto_max [OF f] loop_upto_each)
qed

text \<open>
  The deletion of a stored attachment removes its rows and then reports \<open>InvalidTransactionType\<close>:
  attachments have no transaction, but the deletion does not leave them out.
\<close>

theorem delete_attachment_fails:
  assumes "db_BlockType db = BlockType_ChatAttach" and "db_SliceNumber db = 1"
    and "1 \<le> db_SliceSize oldDb" and "db_SliceSize oldDb \<noteq> - 1"
  shows "\<exists>w1. delete_block E myselfPeerId oldDb db w =
    (Inl (Err ''InvalidTransactionType''),
     orm_DeleteTransactionKey E (transaction_key0\<lparr>tk_BlockId := db_BlockId db\<rparr>)
       (orm_DeleteDataBlock E (data_block0\<lparr>db_BlockId := db_BlockId db\<rparr>) [] [] w1))"
proof -
  obtain w1 where erase: "erase_contents E (db_BlockId oldDb) (db_SliceSize oldDb) w = (Inr (), w1)"
  proof (cases "erase_contents E (db_BlockId oldDb) (db_SliceSize oldDb) w")
    case (Pair r w1)
    define f where "f = (\<lambda>i w. case file_Write E (content_id E (db_BlockId oldDb) i) [] w of
      (_, w') \<Rightarrow> (Inr () :: unit res, w'))"
    have "fst (each f (word_range 1 (db_SliceSize oldDb)) w) = Inr ()"
      by (rule each_ok) (simp add: f_def split: prod.splits)
    with Pair assms(4) have "r = Inr ()" by (simp add: erase_contents_def f_def loop_upto_each)
    with Pair show ?thesis using that by simp
  qed
  have "PutPTs E (deleted_transaction E db myselfPeerId i) v = (Inl (Err ''InvalidTransactionType''), v)" for i v
    using assms(1) by (simp add: PutPTs_def deleted_transaction_def transaction_type_def)
  then have "delete_transactions E db myselfPeerId 1 (db_SliceSize oldDb) v =
      (Inl (Err ''InvalidTransactionType''), v)" for v
    using assms(3,4) by (simp add: delete_transactions_def loop_upto_each word_range_Cons)
  with erase assms(2) show ?thesis
    by (intro exI [of _ w1]) (simp add: delete_block_def Let_def)
qed

section \<open>Evaluations\<close>

theorem GetLocalDBs_no_slice_witness:
  "GetLocalDBs dht_sample block_datastores DataBlock_KeyKind [] ''b'' [] 0 () = (Inr [], ())"
proof -
  obtain dbs where run: "GetLocalDBs dht_sample block_datastores DataBlock_KeyKind [] ''b'' [] 0 () = (Inr dbs, ())"
    by (simp add: GetLocalDBs_def GetLocal_dht_sample block_selected_def)
  with GetLocalDBs_no_slice [OF run] show ?thesis by simp
qed

text \<open>A database that holds one block, of the peer \<open>s\<close> and time 7.\<close>

definition old_block :: data_block where
  "old_block = data_block0\<lparr>db_BlockId := ''b'', db_SliceNumber := 2, db_PeerId := ''s'', db_CreateTimestamp := 7\<rparr>"

definition new_block :: data_block where
  "new_block = data_block0\<lparr>db_BlockId := ''b'', db_SliceNumber := 2, db_PeerId := ''s'',
     db_BusinessNumber := ''n'', db_CreateTimestamp := 8, db_ExpireDate := - 1\<rparr>"

definition block_sample :: "unit env" where
  "block_sample = crypto_sample\<lparr>
     orm_GetDataBlock := (\<lambda>_ w. (Some old_block, w)), orm_UpsertDataBlock := (\<lambda>_ w. (1, w))\<rparr>"

lemma block_sample_fields [simp]:
  "glb_MyselfPeer block_sample = Some (myself_peer0\<lparr>my_PeerId := ''me''\<rparr>)"
  "env_now block_sample = (\<lambda>w. (Instant 0, w))"
  "cfg_FaultTolerantLevel block_sample = 0"
  "orm_GetDataBlock block_sample = (\<lambda>_ w. (Some old_block, w))"
  "orm_UpsertDataBlock block_sample = (\<lambda>_ w. (1, w))"
  "lib_DecodeBase64 block_sample = tl" "lib_LoadPublicKey block_sample = Inr"
  "lib_UnmarshalPeerEndpoint block_sample = (\<lambda>_. Inr (peer_endpoint0\<lparr>pe_PublicKey := ''bkey''\<rparr>))"
  "kad_GetValue block_sample = (\<lambda>_ w. (([], None), w))"
  "kad_SearchValue block_sample =
     (\<lambda>key w. ((if key = GetPeerClientKey ''c'' then [''v''] else [], None), w))"
  by (simp_all add: block_sample_def crypto_sample_def)

lemma block_key: "GetPublicKey block_sample no_datastores ''s'' () = (Inr ''key'', ())"
  by (simp add: GetPublicKey_def find_public_key_def PeerClient_GetValues_def append_values_def
      PeerClient_GetKeyValues_def GetValues_def PeerEndpoint_GetValue_def GetValue_def
      GetPeerClientKey_def ns_key_def)

lemma block_fields [simp]:
  "db_PeerId old_block = ''s''" "db_CreateTimestamp old_block = 7"
  "db_BlockId new_block = ''b''" "db_SliceNumber new_block = 2" "db_PeerId new_block = ''s''"
  "db_BusinessNumber new_block = ''n''" "db_CreateTimestamp new_block = 8" "db_ExpireDate new_block = - 1"
  "db_TransportPayload new_block = []" "db_BlockType new_block = []" "db_Signature new_block = []"
  by (simp_all add: old_block_def new_block_def data_block0_def)

theorem unsigned_deletion_witness:
  "check_replace block_sample no_datastores old_block (new_block\<lparr>db_Signature := ''forged''\<rparr>) () = (Inr (), ())"
  using unsigned_deletion [of new_block old_block block_sample no_datastores "()" "''key''" "()" "''forged''"]
  by (simp add: block_key)


definition fresh_sample :: "unit env" where
  "fresh_sample = sample_env\<lparr>orm_UpsertDataBlock := (\<lambda>_ w. (1, w))\<rparr>"

theorem StoreValue_payload_bound_witness:
  "\<exists>db'. StoreValue fresh_sample no_datastores (Some (new_block\<lparr>db_TransportPayload := replicate 40000 CHR ''x'',
       db_BlockType := BlockType_ChatAttach\<rparr>)) () = ((Inr (), Some db'), ()) \<and>
    length (db_TransportPayload db') \<le> PayloadLimit"
proof -
  obtain db' where run: "StoreValue fresh_sample no_datastores (Some (new_block\<lparr>db_TransportPayload :=
      replicate 40000 CHR ''x'', db_BlockType := BlockType_ChatAttach\<rparr>)) () = ((Inr (), Some db'), ())"
    by (simp add: StoreValue_def store_block_def check_fields_def Let_def write_block_def offload_payload_def
        PayloadLimit_def after_upsert_def fresh_sample_def)
  with StoreValue_payload_bound [OF run] show ?thesis by simp
qed

theorem delete_attachment_fails_witness:
  "fst (delete_block (sample_env :: unit env) ''me'' (old_block\<lparr>db_SliceSize := 1\<rparr>)
     (new_block\<lparr>db_SliceNumber := 1, db_BlockType := BlockType_ChatAttach\<rparr>) ()) =
   Inl (Err ''InvalidTransactionType'')"
  using delete_attachment_fails [of "new_block\<lparr>db_SliceNumber := 1, db_BlockType := BlockType_ChatAttach\<rparr>"
      "old_block\<lparr>db_SliceSize := 1\<rparr>" "sample_env :: unit env" "''me''" "()"]
  by auto

end
