(* ===== verification/Consensus.thy ===== *)
theory Consensus
  imports DataBlocks
begin

text \<open>
  What the three consensus protocols share: \<^verbatim>\<open>consensus/default.go\<close> (the payload of a message, the
  choice of the peers, the log, the keys of the cache), \<^verbatim>\<open>consensus/action/consensus.go\<close> and
  \<^verbatim>\<open>p2p/chain/action/default.go\<close> (the messages that are sent). The cache of a protocol is a
  \<open>go-cache\<close>, a parameter; the laws of a store are the locale \<open>kv_store\<close>.
\<close>

section \<open>Stores\<close>

locale kv_store =
  fixes get :: "'k \<Rightarrow> 's \<Rightarrow> 'v option"
    and set_to :: "'k \<Rightarrow> 'v \<Rightarrow> 's \<Rightarrow> 's"
    and remove :: "'k \<Rightarrow> 's \<Rightarrow> 's"
  assumes get_set: "get k' (set_to k v s) = (if k' = k then Some v else get k' s)"
    and get_remove: "get k' (remove k s) = (if k' = k then None else get k' s)"
begin

lemma get_remove_all: "get k' (fold remove ks s) = (if k' \<in> set ks then None else get k' s)"
  by (induction ks arbitrary: s) (auto simp: get_remove)

lemma get_remove_set: "get k' (remove k (set_to k v s)) = (if k' = k then None else get k' s)"
  by (simp add: get_set get_remove)

end

text \<open>The pool of the connected clients, a \<open>sync.Map\<close>, is such a store.\<close>

definition pool_Load :: "string \<Rightarrow> ('w, 'c) node \<Rightarrow> peer_client_id option" where
  "pool_Load sess s = nd_pool s sess"

definition pool_Store :: "string \<Rightarrow> peer_client_id \<Rightarrow> ('w, 'c) node \<Rightarrow> ('w, 'c) node" where
  "pool_Store sess i s = s\<lparr>nd_pool := (nd_pool s)(sess \<mapsto> i)\<rparr>"

definition pool_Delete :: "string \<Rightarrow> ('w, 'c) node \<Rightarrow> ('w, 'c) node" where
  "pool_Delete sess s = s\<lparr>nd_pool := (nd_pool s)(sess := None)\<rparr>"

interpretation pool: kv_store pool_Load pool_Store pool_Delete
  by unfold_locales (auto simp: pool_Load_def pool_Store_def pool_Delete_def)

text \<open>The values in a cache and its operations.\<close>

datatype cache_val = CLog consensus_log | CBlock data_block

record 'c cache_ops =
  mc_Get :: "string \<Rightarrow> 'c \<Rightarrow> cache_val option"
  mc_SetDefault :: "string \<Rightarrow> cache_val \<Rightarrow> 'c \<Rightarrow> 'c"
  mc_Delete :: "string \<Rightarrow> 'c \<Rightarrow> 'c"

definition cache_laws :: "'c cache_ops \<Rightarrow> bool" where
  "cache_laws C \<longleftrightarrow> kv_store (mc_Get C) (mc_SetDefault C) (mc_Delete C)"

text \<open>A lookup with the type assertion behind it: nil when absent, a panic for a value of the other type.\<close>

definition cached_log :: "'c cache_ops \<Rightarrow> string \<Rightarrow> 'c \<Rightarrow> consensus_log option res" where
  "cached_log C key c =
     (case mc_Get C key c of
        None \<Rightarrow> Inr None
      | Some (CLog l) \<Rightarrow> Inr (Some l)
      | Some (CBlock _) \<Rightarrow> Inl BadAssertion)"

definition cached_block :: "'c cache_ops \<Rightarrow> string \<Rightarrow> 'c \<Rightarrow> data_block option res" where
  "cached_block C key c =
     (case mc_Get C key c of
        None \<Rightarrow> Inr None
      | Some (CBlock db) \<Rightarrow> Inr (Some db)
      | Some (CLog _) \<Rightarrow> Inl BadAssertion)"

definition cache_set :: "'c cache_ops \<Rightarrow> string \<Rightarrow> cache_val \<Rightarrow> ('w, 'c) node \<Rightarrow> ('w, 'c) node" where
  "cache_set C key v s = s\<lparr>nd_cache := mc_SetDefault C key v (nd_cache s)\<rparr>"

definition cache_delete :: "'c cache_ops \<Rightarrow> string \<Rightarrow> ('w, 'c) node \<Rightarrow> ('w, 'c) node" where
  "cache_delete C key s = s\<lparr>nd_cache := mc_Delete C key (nd_cache s)\<rparr>"

lemma cache_set_fields [simp]:
  "nd_cache (cache_set C key v s) = mc_SetDefault C key v (nd_cache s)"
  "nd_tasks (cache_set C key v s) = nd_tasks s" "nd_world (cache_set C key v s) = nd_world s"
  by (simp_all add: cache_set_def)

lemma cache_delete_fields [simp]:
  "nd_cache (cache_delete C key s) = mc_Delete C key (nd_cache s)"
  "nd_tasks (cache_delete C key s) = nd_tasks s" "nd_world (cache_delete C key s) = nd_world s"
  by (simp_all add: cache_delete_def)

section \<open>Keys of the cache\<close>

definition GetLogCacheKey :: "consensus_log \<Rightarrow> string" where
  "GetLogCacheKey lg =
     cl_PrimaryPeerId lg @ '':'' @ cl_BlockId lg @ '':'' @ show_u64 (cl_SliceNumber lg) @ '':'' @
     show_u64 (cl_PrimarySequenceId lg) @ '':'' @ cl_PeerId lg @ '':'' @ cl_Status lg"

definition GetDataBlockCacheKey :: "string \<Rightarrow> uint64 \<Rightarrow> string" where
  "GetDataBlockCacheKey blockId sliceNumber = blockId @ '':'' @ show_u64 sliceNumber"

section \<open>Payloads\<close>

definition decode_keys :: "'a library_scheme \<Rightarrow> data_block \<Rightarrow> data_block res" where
  "decode_keys E db =
     (if db_SliceNumber db = 1 \<and> db_TransactionKeys db = None \<and> db_TransportKey db \<noteq> [] then
        (case lib_TextUnmarshalTransactionKeys E (lib_DecodeBase64 E (db_TransportKey db)) of
           Inl _ \<Rightarrow> Inl (Err ''TransactionKeysTextUnmarshalFailure'')
         | Inr tks \<Rightarrow> Inr (db\<lparr>db_TransactionKeys := tks\<rparr>))
      else Inr db)"

definition fill_amount :: "'a library_scheme \<Rightarrow> data_block \<Rightarrow> data_block" where
  "fill_amount E db =
     (if db_TransportPayload db \<noteq> [] \<and> db_TransactionAmount db = 0 then
        db\<lparr>db_TransactionAmount := GetTransactionAmount (lib_DecodeBase64 E (db_TransportPayload db))\<rparr>
      else db)"

definition GetDataBlock :: "'a library_scheme \<Rightarrow> chain_message \<Rightarrow> data_block res" where
  "GetDataBlock E msg =
     (case cm_Payload msg of
        PNil \<Rightarrow> Inl (Err ''NoPayload'')
      | PDataBlock None \<Rightarrow> Inl (Err ''NoPayload'')
      | PDataBlock (Some db) \<Rightarrow>
          (case decode_keys E db of Inl e \<Rightarrow> Inl e | Inr db \<Rightarrow> Inr (fill_amount E db))
      | _ \<Rightarrow> Inl (Err ''NotDataBlock''))"

definition GetConsensusLog :: "chain_message \<Rightarrow> consensus_log res" where
  "GetConsensusLog msg =
     (case cm_Payload msg of
        PNil \<Rightarrow> Inl (Err ''NoPayload'')
      | PConsensusLog None \<Rightarrow> Inl (Err ''NoPayload'')
      | PConsensusLog (Some lg) \<Rightarrow> Inr lg
      | _ \<Rightarrow> Inl (Err ''NotPbftConsensusLog''))"

text \<open>\<open>CreateConsensusLog\<close>.\<close>

definition CreateConsensusLog ::
  "'w env \<Rightarrow> chain_message \<Rightarrow> data_block \<Rightarrow> myself_peer \<Rightarrow> string \<Rightarrow> 'w \<Rightarrow> consensus_log \<times> 'w" where
  "CreateConsensusLog E msg db myselfPeer status w =
     (case env_now E w of
        (t, w') \<Rightarrow>
          (consensus_log0\<lparr>
             cl_BlockId := db_BlockId db, cl_BlockType := db_BlockType db,
             cl_SliceNumber := db_SliceNumber db, cl_PrimarySequenceId := db_PrimarySequenceId db,
             cl_PayloadHash := db_PayloadHash db, cl_ClientPeerId := cm_SrcPeerId msg,
             cl_ClientAddress := cm_SrcConnectAddress msg, cl_PeerId := my_PeerId myselfPeer,
             cl_Address := my_Address myselfPeer, cl_PublicKey := my_PublicKey myselfPeer,
             cl_PrimaryPeerId := db_PrimaryPeerId db, cl_PrimaryAddress := db_PrimaryAddress db,
             cl_PrimaryPublicKey := db_PrimaryPublicKey db, cl_Status := status,
             cl_StatusDate := Some t, cl_CreateDate := Some t,
             cl_TransactionAmount := db_TransactionAmount db\<rparr>, w'))"

section \<open>The choice of the peers\<close>

definition randomSlice :: "'w env \<Rightarrow> string list \<Rightarrow> int \<Rightarrow> int \<Rightarrow> 'w \<Rightarrow> string list res \<times> 'w" where
  "randomSlice E origin num seed w =
     (case env_Shuffle E seed origin w of
        (tmpOrigin, w') \<Rightarrow>
          if num < 0 then (Inl (Panic ''makeslice: cap out of range''), w')
          else (Inr (take (nat num) tmpOrigin), w'))"

definition NearestConsensusPeer :: "'w env \<Rightarrow> string \<Rightarrow> uint64 \<Rightarrow> 'w \<Rightarrow> string list res \<times> 'w" where
  "NearestConsensusPeer E key createTimestamp w =
     (if cfg_PeerNum E = 0 then (Inr [], w)
      else
        (case kad_NearestPeers E key (cfg_BucketSize E) w of
           (ids, w1) \<Rightarrow>
             if int (length ids) > cfg_PeerNum E then
               randomSlice E ids (cfg_PeerNum E) (sint createTimestamp) w1
             else (Inr ids, w1)))"

definition ChooseConsensusPeer :: "'w env \<Rightarrow> data_block \<Rightarrow> 'w \<Rightarrow> string list \<times> 'w" where
  "ChooseConsensusPeer E db w =
     (if cfg_PeerNum E = 0 then ([], w)
      else
        (case PeerEndpoint_GetRand E (sint (db_CreateTimestamp db)) w of
           (peerEndpoints, w') \<Rightarrow> (map pe_PeerId peerEndpoints, w')))"

text \<open>
  The start of each \<open>ReceiveConsensus\<close>, the same in the three protocols: the block of the message, its
  validation, this node's own peer, and the node as the primary of the block.
\<close>

definition receive_block :: "'w env \<Rightarrow> chain_message \<Rightarrow> 'w \<Rightarrow> (data_block \<times> myself_peer) res \<times> 'w" where
  "receive_block E msg w =
     and_then (lift_res (GetDataBlock E msg) w) (\<lambda>db w.
       and_then (lift_res (DataBlock_Validate db) w) (\<lambda>_ w.
         case MyselfPeer_GetFromCache E False w of
           (myselfPeer, w1) \<Rightarrow>
             if my_Id myselfPeer = 0 then (Inl (Err ''NoMyselfPeer''), w1)
             else if db_PrimaryPeerId db = [] then
               (Inr (db\<lparr>db_PrimaryPeerId := my_PeerId myselfPeer\<rparr>, myselfPeer), w1)
             else if db_PrimaryPeerId db \<noteq> my_PeerId myselfPeer then (Inl (Err ''MustPrimaryPeer''), w1)
             else (Inr (db, myselfPeer), w1)))"

text \<open>The start of the later phases: this node's own peer must be known.\<close>

definition known_myself :: "'w env \<Rightarrow> 'w \<Rightarrow> myself_peer res \<times> 'w" where
  "known_myself E w =
     (case MyselfPeer_GetFromCache E False w of
        (myselfPeer, w1) \<Rightarrow>
          if my_Id myselfPeer = 0 then (Inl (Err ''NoMyselfPeer''), w1) else (Inr myselfPeer, w1))"

section \<open>Messages that are sent\<close>

definition PrepareSend ::
  "'w env \<Rightarrow> string \<Rightarrow> string \<Rightarrow> payload \<Rightarrow> string \<Rightarrow> 'w \<Rightarrow> chain_message \<times> 'w" where
  "PrepareSend E msgType connectPeerId data targetPeerId w =
     (case env_UUID E w of
        (uuid, w') \<Rightarrow>
          (chain_message0\<lparr>
             cm_ConnectPeerId := (if connectPeerId = [] then targetPeerId else connectPeerId),
             cm_Payload := data, cm_TargetPeerId := targetPeerId, cm_PayloadType := PayloadType_Map,
             cm_MessageType := msgType, cm_MessageDirect := MsgDirect_Request, cm_NeedCompress := True,
             cm_NeedEncrypt := False, cm_UUID := uuid\<rparr>, w'))"

text \<open>\<open>BaseAction.Receive\<close> relays the message and answers with the time.\<close>

definition BaseAction_Receive ::
  "'w env \<Rightarrow> chain_message \<Rightarrow> ('w, 'c) node \<Rightarrow> chain_message option res \<times> ('w, 'c) node" where
  "BaseAction_Receive E msg s =
     (case on_world (env_now E) (go_start (GoRelaySend msg) s) of
        (now, s1) \<Rightarrow> (Inr (Some (ResponseMessage (cm_MessageType msg) (PTime now))), s1))"

definition consensus_message :: "string \<Rightarrow> string \<Rightarrow> payload \<Rightarrow> string \<Rightarrow> string \<Rightarrow> chain_message" where
  "consensus_message peerId msgType payload payloadType targetPeerId = chain_message0\<lparr>
     cm_TargetPeerId := (if targetPeerId = [] then peerId else targetPeerId),
     cm_Payload := payload, cm_ConnectPeerId := peerId, cm_PayloadType := payloadType,
     cm_MessageType := msgType, cm_MessageDirect := MsgDirect_Request, cm_NeedCompress := True\<rparr>"

definition response_payload :: "chain_message option \<Rightarrow> payload" where
  "response_payload response = (case response of None \<Rightarrow> PNil | Some r \<Rightarrow> cm_Payload r)"

definition ConsensusDataBlock ::
  "'w env \<Rightarrow> 'w datastores \<Rightarrow> string \<Rightarrow> string \<Rightarrow> data_block \<Rightarrow> string \<Rightarrow> ('w, 'c) node \<Rightarrow>
   payload res \<times> ('w, 'c) node" where
  "ConsensusDataBlock E R peerId msgType db targetPeerId s =
     and_then (DirectSend E R
         (consensus_message peerId msgType (PDataBlock (Some db)) PayloadType_DataBlock targetPeerId) s)
       (\<lambda>response s1. (Inr (response_payload response), s1))"

text \<open>A log goes directly to the primary; another peer, the client, is looked up.\<close>

definition ConsensusLog ::
  "'w env \<Rightarrow> 'w datastores \<Rightarrow> string \<Rightarrow> string \<Rightarrow> consensus_log \<Rightarrow> string \<Rightarrow> ('w, 'c) node \<Rightarrow>
   payload res \<times> ('w, 'c) node" where
  "ConsensusLog E R peerId msgType lg targetPeerId s =
     (let msg = consensus_message peerId msgType (PConsensusLog (Some lg)) PayloadType_ConsensusLog targetPeerId in
      and_then (if peerId = cl_PrimaryPeerId lg then DirectSend E R msg s else Send E R msg s)
        (\<lambda>response s1. (Inr (response_payload response), s1)))"

text \<open>
  A block for each peer but the node itself, and a log for each: one started task per peer, in order.
\<close>

definition send_blocks ::
  "string \<Rightarrow> string \<Rightarrow> data_block \<Rightarrow> string list \<Rightarrow> ('w, 'c) node \<Rightarrow> ('w, 'c) node" where
  "send_blocks myPeerId msgType db =
     fold (\<lambda>peerId s. if myPeerId = peerId then s else go_start (GoConsensusDataBlock peerId msgType db []) s)"

definition send_logs ::
  "string \<Rightarrow> string \<Rightarrow> consensus_log \<Rightarrow> string list \<Rightarrow> ('w, 'c) node \<Rightarrow> ('w, 'c) node" where
  "send_logs myPeerId msgType lg =
     fold (\<lambda>peerId s. if myPeerId = peerId then s else go_start (GoConsensusLog peerId msgType lg []) s)"

lemma send_blocks_fields [simp]:
  "nd_tasks (send_blocks my t db ids s) =
     nd_tasks s @ map (\<lambda>i. GoConsensusDataBlock i t db []) (filter (\<lambda>i. my \<noteq> i) ids)"
  "nd_cache (send_blocks my t db ids s) = nd_cache s"
  "nd_world (send_blocks my t db ids s) = nd_world s"
  unfolding send_blocks_def by (induction ids arbitrary: s) simp_all

lemma send_logs_fields [simp]:
  "nd_tasks (send_logs my t l ids s) =
     nd_tasks s @ map (\<lambda>i. GoConsensusLog i t l []) (filter (\<lambda>i. my \<noteq> i) ids)"
  "nd_cache (send_logs my t l ids s) = nd_cache s"
  "nd_world (send_logs my t l ids s) = nd_world s"
  unfolding send_logs_def by (induction ids arbitrary: s) simp_all

text \<open>Facts about a step on the world, for the proofs about the handlers.\<close>

lemma on_world_Pair:
  "on_world f s = (r, s') \<Longrightarrow>
   nd_cache s' = nd_cache s \<and> nd_pool s' = nd_pool s \<and> nd_tasks s' = nd_tasks s \<and> f (nd_world s) = (r, nd_world s')"
  by (auto simp: on_world_def split: prod.splits)

end
