(* ===== verification/StdConsensus.thy ===== *)
theory StdConsensus
  imports Consensus
begin

text \<open>
  \<^verbatim>\<open>consensus/std/default.go\<close>: the primary keeps the block in its cache and sends it to its peers; a
  peer stores it and replies; with enough replies the primary stores the block and tells the client.
\<close>

section \<open>The handlers\<close>

definition std_peers :: "'w env \<Rightarrow> data_block \<Rightarrow> 'w \<Rightarrow> string list res \<times> 'w" where
  "std_peers E db w =
     (if db_BlockType db \<noteq> BlockType_ChatAttach \<and> cfg_StdMinPeerNum E > 0 then
        NearestConsensusPeer E (db_BlockId db) (db_CreateTimestamp db) w
      else (Inr [], w))"

definition std_store ::
  "'w env \<Rightarrow> 'w datastores \<Rightarrow> data_block \<Rightarrow> ('w, 'c) node \<Rightarrow> chain_message option res \<times> ('w, 'c) node" where
  "std_store E R db s =
     (case on_world (StoreValue E R (Some (db\<lparr>db_Status := cst_Effective E\<rparr>))) s of
        ((Inl (Panic p), _), s1) \<Rightarrow> (Inl (Panic p), s1)
      | ((Inl (Err e), _), s1) \<Rightarrow> (Inr (Some (ErrorMessage MT_CONSENSUS_REPLY (Err e))), s1)
      | ((Inr _, _), s1) \<Rightarrow> (Inr (Some (OkMessage MT_CONSENSUS_REPLY)), s1))"

definition Std_ReceiveConsensus ::
  "'w env \<Rightarrow> 'w datastores \<Rightarrow> 'c cache_ops \<Rightarrow> chain_message \<Rightarrow> ('w, 'c) node \<Rightarrow>
   chain_message option res \<times> ('w, 'c) node" where
  "Std_ReceiveConsensus E R C msg s =
     and_then (on_world (receive_block E msg) s) (\<lambda>(db, myselfPeer) s1.
       and_then (on_world (std_peers E db) s1) (\<lambda>peerIds s2.
         if peerIds \<noteq> [] then
           (let db = db\<lparr>db_PeerIds := join_with '','' peerIds\<rparr>;
                datakey = GetDataBlockCacheKey (db_BlockId db) (db_SliceNumber db);
                s3 = cache_set C datakey (CBlock db) s2
            in (Inr (Some (OkMessage MT_CONSENSUS)),
                send_blocks (my_PeerId myselfPeer) MT_CONSENSUS_COMMITED db peerIds s3))
         else std_store E R db s2))"

definition Std_ReceiveCommited ::
  "'w env \<Rightarrow> 'w datastores \<Rightarrow> chain_message \<Rightarrow> ('w, 'c) node \<Rightarrow>
   chain_message option res \<times> ('w, 'c) node" where
  "Std_ReceiveCommited E R msg s =
     and_then (GetDataBlock E msg, s) (\<lambda>db s.
     and_then (on_world (known_myself E) s) (\<lambda>myselfPeer s1.
       case on_world (CreateConsensusLog E msg db myselfPeer MT_CONSENSUS_REPLY) s1 of
         (lg, s2) \<Rightarrow>
           (case on_world (StoreValue E R (Some (db\<lparr>db_Status := cst_Effective E\<rparr>))) s2 of
              ((Inl e, _), s3) \<Rightarrow> (Inl e, s3)
            | ((Inr _, _), s3) \<Rightarrow>
                (Inr None, go_start (GoConsensusLog (db_PrimaryPeerId db) MT_CONSENSUS_REPLY lg []) s3))))"

text \<open>The log under whose key the reply of a peer is looked for.\<close>

definition reply_log :: "consensus_log \<Rightarrow> string \<Rightarrow> consensus_log" where
  "reply_log messageLog peerId = consensus_log0\<lparr>
     cl_PrimaryPeerId := cl_PrimaryPeerId messageLog, cl_BlockId := cl_BlockId messageLog,
     cl_BlockType := cl_BlockType messageLog, cl_SliceNumber := cl_SliceNumber messageLog,
     cl_PrimarySequenceId := cl_PrimarySequenceId messageLog, cl_Status := MT_CONSENSUS_REPLY,
     cl_PeerId := peerId\<rparr>"

text \<open>The loop over the peers: the keys found. The count starts at one.\<close>

fun count_replies ::
  "'c cache_ops \<Rightarrow> consensus_log \<Rightarrow> string list \<Rightarrow> 'c \<Rightarrow> string list res" where
  "count_replies C messageLog [] c = Inr []"
| "count_replies C messageLog (i # is) c =
     (let key = GetLogCacheKey (reply_log messageLog i) in
      case cached_log C key c of
        Inl e \<Rightarrow> Inl e
      | Inr l \<Rightarrow>
          (case count_replies C messageLog is c of
             Inl e \<Rightarrow> Inl e
           | Inr keys \<Rightarrow> Inr (if l \<noteq> None then key # keys else keys)))"

text \<open>A second reply of a peer with another hash is an error; the first one is kept.\<close>

definition record_reply ::
  "'c cache_ops \<Rightarrow> consensus_log \<Rightarrow> ('w, 'c) node \<Rightarrow> unit res \<times> ('w, 'c) node" where
  "record_reply C messageLog s =
     (let logKey = GetLogCacheKey messageLog in
      case cached_log C logKey (nd_cache s) of
        Inl e \<Rightarrow> (Inl e, s)
      | Inr (Some cacheLog) \<Rightarrow>
          if cl_PayloadHash messageLog \<noteq> [] \<and> cl_PayloadHash messageLog \<noteq> cl_PayloadHash cacheLog
          then (Inl (Err ''ErrorPayloadHash''), s) else (Inr (), s)
      | Inr None \<Rightarrow> (Inr (), cache_set C logKey (CLog messageLog) s))"

definition std_quorum ::
  "'w env \<Rightarrow> 'c cache_ops \<Rightarrow> string \<Rightarrow> consensus_log \<Rightarrow> string \<Rightarrow> data_block \<Rightarrow> ('w, 'c) node \<Rightarrow>
   chain_message option res \<times> ('w, 'c) node" where
  "std_quorum E C myPeerId messageLog dbKey db s =
     and_then (count_replies C messageLog (split_on (CHR '','') (db_PeerIds db)) (nd_cache s), s) (\<lambda>keys s.
       if 1 + int (length keys) \<ge> cfg_StdMinPeerNum E + 1 then
         (let s1 = cache_delete C dbKey s;
              s2 = go_start (GoFinalCommit (db\<lparr>db_Status := cst_Effective E\<rparr>) (reply_log messageLog myPeerId)) s1
          in (Inr None, fold (cache_delete C) keys s2))
       else (Inr None, s))"

definition Std_ReceiveReply ::
  "'w env \<Rightarrow> 'c cache_ops \<Rightarrow> chain_message \<Rightarrow> ('w, 'c) node \<Rightarrow> chain_message option res \<times> ('w, 'c) node" where
  "Std_ReceiveReply E C msg s =
     and_then (GetConsensusLog msg, s) (\<lambda>messageLog s.
     and_then (on_world (known_myself E) s) (\<lambda>myselfPeer s1.
       if cl_PeerId messageLog = cl_PrimaryPeerId messageLog then
         (Inl (Err ''peerId == primaryPeerId''), s1)
       else if cl_PrimaryPeerId messageLog \<noteq> my_PeerId myselfPeer then
         (Inl (Err ''primaryPeerId != myPeerId''), s1)
       else
         (let dbKey = GetDataBlockCacheKey (cl_BlockId messageLog) (cl_SliceNumber messageLog) in
          and_then (cached_block C dbKey (nd_cache s1), s1) (\<lambda>dataBlock s1.
            case dataBlock of
              None \<Rightarrow> (Inr None, s1)
            | Some db \<Rightarrow>
                and_then (record_reply C messageLog s1)
                  (\<lambda>_. std_quorum E C (my_PeerId myselfPeer) messageLog dbKey db)))))"

text \<open>
  \<open>finalCommit\<close>, the task that stores the block and replies to the client. A panic of the store ends the
  task; an error is logged. An empty peer in the reply stands for the deletion of a chat.
\<close>

definition finalCommit ::
  "'w env \<Rightarrow> 'w datastores \<Rightarrow> data_block \<Rightarrow> consensus_log \<Rightarrow> ('w, 'c) node \<Rightarrow> unit res \<times> ('w, 'c) node" where
  "finalCommit E R db lg s =
     (case on_world (StoreValue E R (Some db)) s of
        ((Inl (Panic p), _), s1) \<Rightarrow> (Inl (Panic p), s1)
      | ((Inl (Err _), _), s1) \<Rightarrow> (Inr (), s1)
      | ((Inr _, None), s1) \<Rightarrow> (Inl NilDereference, s1)
      | ((Inr _, Some db'), s1) \<Rightarrow>
          let lg' = (if db_BlockType db' = BlockType_P2pChat \<and> db_TransportPayload db' = []
                     then lg\<lparr>cl_PeerId := []\<rparr> else lg)
          in (Inr (), go_start (GoConsensusLog (db_PeerId db') MT_CONSENSUS_REPLY lg' []) s1))"

section \<open>The quorum\<close>

definition has_reply :: "'c cache_ops \<Rightarrow> consensus_log \<Rightarrow> 'c \<Rightarrow> string \<Rightarrow> bool" where
  "has_reply C messageLog c i \<longleftrightarrow> (\<exists>l. mc_Get C (GetLogCacheKey (reply_log messageLog i)) c = Some (CLog l))"

lemma cached_log_cases:
  "cached_log C key c = Inr (Some l) \<longleftrightarrow> mc_Get C key c = Some (CLog l)"
  "cached_log C key c = Inr None \<longleftrightarrow> mc_Get C key c = None"
  by (auto simp: cached_log_def split: option.splits cache_val.splits)

lemma cached_block_cases:
  "cached_block C key c = Inr (Some db) \<longleftrightarrow> mc_Get C key c = Some (CBlock db)"
  "cached_block C key c = Inr None \<longleftrightarrow> mc_Get C key c = None"
  by (auto simp: cached_block_def split: option.splits cache_val.splits)

lemma count_replies_Inr:
  "count_replies C m ids c = Inr keys \<Longrightarrow>
   keys = map (\<lambda>i. GetLogCacheKey (reply_log m i)) (filter (has_reply C m c) ids)"
  by (induction ids arbitrary: keys)
    (auto simp: has_reply_def Let_def cached_log_def split: sum.splits option.splits cache_val.splits if_splits)

lemma cache_delete_fold [simp]:
  "nd_cache (fold (cache_delete C) keys s) = fold (mc_Delete C) keys (nd_cache s)"
  "nd_tasks (fold (cache_delete C) keys s) = nd_tasks s"
  by (induction keys arbitrary: s) simp_all

text \<open>What a reply does to the cache and the tasks: nothing, a recorded log, or the commit.\<close>

lemma record_reply_effect:
  "record_reply C m s = (r, s') \<Longrightarrow> nd_tasks s' = nd_tasks s \<and> nd_world s' = nd_world s \<and>
    (nd_cache s' = nd_cache s \<or>
     r = Inr () \<and> mc_Get C (GetLogCacheKey m) (nd_cache s) = None \<and>
       nd_cache s' = mc_SetDefault C (GetLogCacheKey m) (CLog m) (nd_cache s))"
  by (auto simp: record_reply_def Let_def cached_log_cases split: sum.splits option.splits if_splits)

lemma std_quorum_effect:
  assumes "std_quorum E C my m dbKey db s = (r, s')"
  shows "(nd_cache s' = nd_cache s \<and> nd_tasks s' = nd_tasks s) \<or>
    (\<exists>keys. nd_cache s' = fold (mc_Delete C) (dbKey # keys) (nd_cache s) \<and>
       nd_tasks s' = nd_tasks s @
         [GoFinalCommit (db\<lparr>db_Status := cst_Effective E\<rparr>) (reply_log m my)] \<and>
       cfg_StdMinPeerNum E \<le> int (length (filter (has_reply C m (nd_cache s)) (split_on (CHR '','') (db_PeerIds db)))))"
proof (cases "count_replies C m (split_on (CHR '','') (db_PeerIds db)) (nd_cache s)")
  case (Inl e)
  with assms show ?thesis by (simp add: std_quorum_def)
next
  case (Inr keys)
  have "length keys = length (filter (has_reply C m (nd_cache s)) (split_on (CHR '','') (db_PeerIds db)))"
    using count_replies_Inr [OF Inr] by simp
  with assms Inr show ?thesis
    by (auto simp: std_quorum_def Let_def split: if_splits intro: exI [of _ keys])
qed

text \<open>The run of \<open>ReceiveReply\<close> up to the cached block.\<close>

lemma Std_ReceiveReply_cases:
  assumes "Std_ReceiveReply E C msg s = (r, s')"
  obtains (same) "nd_cache s' = nd_cache s" "nd_tasks s' = nd_tasks s"
  | (block) m db s1 where "GetConsensusLog msg = Inr m" "cl_PeerId m \<noteq> cl_PrimaryPeerId m"
      "mc_Get C (GetDataBlockCacheKey (cl_BlockId m) (cl_SliceNumber m)) (nd_cache s) = Some (CBlock db)"
      "nd_cache s1 = nd_cache s" "nd_tasks s1 = nd_tasks s"
      "and_then (record_reply C m s1) (\<lambda>_. std_quorum E C (cl_PrimaryPeerId m) m
         (GetDataBlockCacheKey (cl_BlockId m) (cl_SliceNumber m)) db) = (r, s')"
proof (cases "GetConsensusLog msg")
  case (Inl e)
  with assms same show ?thesis by (simp add: Std_ReceiveReply_def)
next
  case (Inr m)
  obtain r1 s1 where k: "on_world (known_myself E) s = (r1, s1)" by fastforce
  note w = on_world_Pair [OF k]
  show ?thesis
  proof (cases r1)
    case (Inl e)
    with assms k w Inr same show ?thesis by (simp add: Std_ReceiveReply_def)
  next
    case (Inr my)
    show ?thesis
    proof (cases "cached_block C (GetDataBlockCacheKey (cl_BlockId m) (cl_SliceNumber m)) (nd_cache s1)")
      case (Inl e)
      with assms k w \<open>GetConsensusLog msg = Inr m\<close> Inr same show ?thesis
        by (auto simp: Std_ReceiveReply_def Let_def split: if_splits)
    next
      case (Inr dbo)
      show ?thesis
      proof (cases dbo)
        case None
        with assms k w \<open>GetConsensusLog msg = Inr m\<close> \<open>r1 = Inr my\<close> Inr same show ?thesis
          by (auto simp: Std_ReceiveReply_def Let_def split: if_splits)
      next
        case (Some db)
        have mg: "mc_Get C (GetDataBlockCacheKey (cl_BlockId m) (cl_SliceNumber m)) (nd_cache s) = Some (CBlock db)"
          using Inr Some w cached_block_cases(1) [of C _ "nd_cache s1" db] by simp
        show ?thesis
        proof (cases "cl_PeerId m = cl_PrimaryPeerId m \<or> cl_PrimaryPeerId m \<noteq> my_PeerId my")
          case True
          with assms k w \<open>GetConsensusLog msg = Inr m\<close> \<open>r1 = Inr my\<close> same show ?thesis
            by (auto simp: Std_ReceiveReply_def split: if_splits)
        next
          case False
          with assms k w \<open>GetConsensusLog msg = Inr m\<close> \<open>r1 = Inr my\<close> Inr Some
          have "and_then (record_reply C m s1) (\<lambda>_. std_quorum E C (cl_PrimaryPeerId m) m
              (GetDataBlockCacheKey (cl_BlockId m) (cl_SliceNumber m)) db) = (r, s')"
            by (auto simp: Std_ReceiveReply_def Let_def)
          then show ?thesis using False mg w \<open>GetConsensusLog msg = Inr m\<close> by (intro block [of m db s1]) auto
        qed
      qed
    qed
  qed
qed

lemma has_reply_set:
  assumes "cache_laws C"
  shows "has_reply C m (mc_SetDefault C (GetLogCacheKey m) (CLog m) c) i \<longleftrightarrow>
    has_reply C m c i \<or> GetLogCacheKey (reply_log m i) = GetLogCacheKey m"
  using kv_store.get_set [OF assms [unfolded cache_laws_def]] by (auto simp: has_reply_def)

lemmas cache_get_set = kv_store.get_set [OF cache_laws_def [THEN iffD1]]
lemmas cache_get_remove_all = kv_store.get_remove_all [OF cache_laws_def [THEN iffD1]]

text \<open>A reply commits at most once, and only a block that the primary has in its cache.\<close>

lemma Std_ReceiveReply_effect:
  assumes "Std_ReceiveReply E C msg s = (r, s')"
  obtains (same) "nd_cache s' = nd_cache s" "nd_tasks s' = nd_tasks s"
  | (logged) m where "GetConsensusLog msg = Inr m" "nd_tasks s' = nd_tasks s"
      "nd_cache s' = mc_SetDefault C (GetLogCacheKey m) (CLog m) (nd_cache s)"
  | (commit) m db c keys where "GetConsensusLog msg = Inr m" "cl_PeerId m \<noteq> cl_PrimaryPeerId m"
      "mc_Get C (GetDataBlockCacheKey (cl_BlockId m) (cl_SliceNumber m)) (nd_cache s) = Some (CBlock db)"
      "c = nd_cache s \<or> c = mc_SetDefault C (GetLogCacheKey m) (CLog m) (nd_cache s)"
      "nd_cache s' = fold (mc_Delete C) (GetDataBlockCacheKey (cl_BlockId m) (cl_SliceNumber m) # keys) c"
      "nd_tasks s' = nd_tasks s @
         [GoFinalCommit (db\<lparr>db_Status := cst_Effective E\<rparr>) (reply_log m (cl_PrimaryPeerId m))]"
      "cfg_StdMinPeerNum E \<le> int (length (filter (has_reply C m c) (split_on (CHR '','') (db_PeerIds db))))"
  using assms
proof (cases rule: Std_ReceiveReply_cases)
  case same
  then show ?thesis by (rule that(1))
next
  case (block m db s1)
  obtain r2 s2 where rr: "record_reply C m s1 = (r2, s2)" by fastforce
  from record_reply_effect [OF rr] block(4,5)
  have s2: "nd_tasks s2 = nd_tasks s"
      "nd_cache s2 = nd_cache s \<or> nd_cache s2 = mc_SetDefault C (GetLogCacheKey m) (CLog m) (nd_cache s)"
    by auto
  show ?thesis
  proof (cases r2)
    case (Inl e)
    with block(6) rr have "s' = s2" by simp
    with s2 block(1) show ?thesis by (auto intro: that)
  next
    case (Inr u)
    with block(6) rr have q: "std_quorum E C (cl_PrimaryPeerId m) m
        (GetDataBlockCacheKey (cl_BlockId m) (cl_SliceNumber m)) db s2 = (r, s')" by simp
    from std_quorum_effect [OF q] show ?thesis
    proof
      assume "nd_cache s' = nd_cache s2 \<and> nd_tasks s' = nd_tasks s2"
      with s2 block(1) show ?thesis by (auto intro: that)
    next
      assume "\<exists>keys. nd_cache s' = fold (mc_Delete C) (GetDataBlockCacheKey (cl_BlockId m) (cl_SliceNumber m) # keys) (nd_cache s2) \<and>
         nd_tasks s' = nd_tasks s2 @
           [GoFinalCommit (db\<lparr>db_Status := cst_Effective E\<rparr>) (reply_log m (cl_PrimaryPeerId m))] \<and>
         cfg_StdMinPeerNum E \<le> int (length (filter (has_reply C m (nd_cache s2)) (split_on (CHR '','') (db_PeerIds db))))"
      then obtain keys where
         "nd_cache s' = fold (mc_Delete C) (GetDataBlockCacheKey (cl_BlockId m) (cl_SliceNumber m) # keys) (nd_cache s2)"
         "nd_tasks s' = nd_tasks s2 @
           [GoFinalCommit (db\<lparr>db_Status := cst_Effective E\<rparr>) (reply_log m (cl_PrimaryPeerId m))]"
         "cfg_StdMinPeerNum E \<le> int (length (filter (has_reply C m (nd_cache s2)) (split_on (CHR '','') (db_PeerIds db))))"
        by blast
      then show ?thesis using s2 block(1,2,3) by (intro that(3) [of m db "nd_cache s2" keys]) auto
    qed
  qed
qed

lemma and_then_Pair:
  "and_then m f = (r, s') \<longleftrightarrow>
     (\<exists>e. m = (Inl e, s') \<and> r = Inl e) \<or> (\<exists>x s1. m = (Inr x, s1) \<and> f x s1 = (r, s'))"
  by (cases m, cases "fst m") auto

lemma GetDataBlock_payload:
  "GetDataBlock E msg = Inr db \<Longrightarrow> \<exists>db0. cm_Payload msg = PDataBlock (Some db0) \<and>
     db_BlockId db = db_BlockId db0 \<and> db_SliceNumber db = db_SliceNumber db0"
  by (auto simp: GetDataBlock_def decode_keys_def fill_amount_def
      split: payload.splits option.splits sum.splits if_splits)

lemma receive_block_payload:
  assumes "receive_block E msg w = (Inr (db, my), w')"
  shows "\<exists>db0. cm_Payload msg = PDataBlock (Some db0) \<and>
     db_BlockId db = db_BlockId db0 \<and> db_SliceNumber db = db_SliceNumber db0"
proof -
  obtain my1 w1 where g: "MyselfPeer_GetFromCache E False w = (my1, w1)" by fastforce
  from assms obtain db1 where "GetDataBlock E msg = Inr db1"
      "db = db1 \<or> db = db1\<lparr>db_PrimaryPeerId := my_PeerId my1\<rparr>"
    by (auto simp: receive_block_def and_then_Inr g split: if_splits)
  with GetDataBlock_payload show ?thesis by fastforce
qed

lemma std_store_effect:
  "std_store E R db s = (r, s') \<Longrightarrow> nd_cache s' = nd_cache s \<and> nd_tasks s' = nd_tasks s"
  by (auto simp: std_store_def dest!: on_world_Pair split: prod.splits sum.splits go_error.splits)

lemma Std_ReceiveConsensus_effect:
  assumes "Std_ReceiveConsensus E R C msg s = (r, s')"
  obtains (same) "nd_cache s' = nd_cache s" "nd_tasks s' = nd_tasks s"
  | (cached) db db0 ids where "cm_Payload msg = PDataBlock (Some db0)"
      "db_BlockId db = db_BlockId db0" "db_SliceNumber db = db_SliceNumber db0"
      "nd_cache s' = mc_SetDefault C (GetDataBlockCacheKey (db_BlockId db) (db_SliceNumber db)) (CBlock db) (nd_cache s)"
      "nd_tasks s' = nd_tasks s @ map (\<lambda>i. GoConsensusDataBlock i MT_CONSENSUS_COMMITED db []) ids"
proof -
  obtain r1 s1 where b: "on_world (receive_block E msg) s = (r1, s1)" by fastforce
  note w = on_world_Pair [OF b]
  show ?thesis
  proof (cases r1)
    case (Inl e)
    with assms b w same show ?thesis by (simp add: Std_ReceiveConsensus_def)
  next
    case (Inr dbmy)
    obtain db my where d: "dbmy = (db, my)" by fastforce
    from w Inr d have "receive_block E msg (nd_world s) = (Inr (db, my), nd_world s1)" by simp
    from receive_block_payload [OF this] obtain db0 where db0: "cm_Payload msg = PDataBlock (Some db0)"
      "db_BlockId db = db_BlockId db0" "db_SliceNumber db = db_SliceNumber db0" by blast
    obtain r2 s2 where p: "on_world (std_peers E db) s1 = (r2, s2)" by fastforce
    note w2 = on_world_Pair [OF p]
    show ?thesis
    proof (cases r2)
      case Inl: (Inl e)
      with assms b w w2 Inr d p same show ?thesis by (simp add: Std_ReceiveConsensus_def)
    next
      case ids: (Inr ids)
      show ?thesis
      proof (cases "ids = []")
        case True
        with assms b Inr d p ids have "std_store E R db s2 = (r, s')" by (simp add: Std_ReceiveConsensus_def)
        with std_store_effect w w2 same show ?thesis by metis
      next
        case False
        with assms b Inr d p ids
        have "s' = send_blocks (my_PeerId my) MT_CONSENSUS_COMMITED (db\<lparr>db_PeerIds := join_with '','' ids\<rparr>) ids
           (cache_set C (GetDataBlockCacheKey (db_BlockId db) (db_SliceNumber db))
              (CBlock (db\<lparr>db_PeerIds := join_with '','' ids\<rparr>)) s2)"
          by (simp add: Std_ReceiveConsensus_def Let_def)
        with w w2 db0 show ?thesis by (intro cached [of db0 "db\<lparr>db_PeerIds := join_with '','' ids\<rparr>"]) auto
      qed
    qed
  qed
qed

lemma Std_ReceiveCommited_effect:
  assumes "Std_ReceiveCommited E R msg s = (r, s')"
  obtains ts where "nd_cache s' = nd_cache s" "nd_tasks s' = nd_tasks s @ ts"
    "\<And>t db l. t \<in> set ts \<Longrightarrow> t \<noteq> GoFinalCommit db l"
proof -
  obtain r1 s1 where k: "on_world (known_myself E) s = (r1, s1)" by fastforce
  note w1 = on_world_Pair [OF k]
  show ?thesis
  proof (cases "GetDataBlock E msg")
    case (Inl e)
    with assms show ?thesis by (intro that [of "[]"]) (auto simp: Std_ReceiveCommited_def)
  next
    case db: (Inr db)
    show ?thesis
    proof (cases r1)
      case (Inl e)
      with assms db k w1 show ?thesis by (intro that [of "[]"]) (auto simp: Std_ReceiveCommited_def)
    next
      case (Inr my)
      obtain lg s2 where c: "on_world (CreateConsensusLog E msg db my MT_CONSENSUS_REPLY) s1 = (lg, s2)" by fastforce
      obtain r3 x s3 where v: "on_world (StoreValue E R (Some (db\<lparr>db_Status := cst_Effective E\<rparr>))) s2 = ((r3, x), s3)"
        by (metis prod.exhaust)
      note w2 = on_world_Pair [OF c] on_world_Pair [OF v]
      show ?thesis
      proof (cases r3)
        case Inl: (Inl e)
        with assms db k Inr c v w1 w2 show ?thesis by (intro that [of "[]"]) (auto simp: Std_ReceiveCommited_def)
      next
        case (Inr u)
        with assms db k \<open>r1 = Inr my\<close> c v w1 w2 show ?thesis
          by (intro that [of "[GoConsensusLog (db_PrimaryPeerId db) MT_CONSENSUS_REPLY lg []]"])
            (auto simp: Std_ReceiveCommited_def)
      qed
    qed
  qed
qed

lemma finalCommit_effect:
  assumes "finalCommit E R db l s = (r, s')"
  obtains ts where "nd_cache s' = nd_cache s" "nd_tasks s' = nd_tasks s @ ts"
    "\<And>t db l. t \<in> set ts \<Longrightarrow> t \<noteq> GoFinalCommit db l"
proof -
  obtain r1 x s1 where v: "on_world (StoreValue E R (Some db)) s = ((r1, x), s1)"
    by (metis prod.exhaust)
  note w = on_world_Pair [OF v]
  show ?thesis
  proof (cases "\<exists>u y. r1 = Inr u \<and> x = Some y")
    case False
    with assms v w show ?thesis
      by (intro that [of "[]"]) (auto simp: finalCommit_def split: sum.splits go_error.splits option.splits)
  next
    case True
    then obtain y where "r1 = Inr ()" "x = Some y" by auto
    with assms v w show ?thesis
      by (intro that [of "[GoConsensusLog (db_PeerId y) MT_CONSENSUS_REPLY
          (if db_BlockType y = BlockType_P2pChat \<and> db_TransportPayload y = [] then l\<lparr>cl_PeerId := []\<rparr> else l) []]"])
        (auto simp: finalCommit_def Let_def)
  qed
qed

section \<open>Runs of the primary\<close>

text \<open>A step that is not one of this protocol: it keeps the cache as it is read, and commits nothing.\<close>

fun is_commit :: "task \<Rightarrow> bool" where
  "is_commit (GoFinalCommit _ _) = True"
| "is_commit _ = False"

definition aside :: "'c cache_ops \<Rightarrow> ('w, 'c) node \<Rightarrow> ('w, 'c) node \<Rightarrow> bool" where
  "aside C s s' \<longleftrightarrow>
     (\<exists>ts. nd_tasks s' = nd_tasks s @ ts \<and> (\<forall>t\<in>set ts. \<not> is_commit t)) \<and>
     (\<forall>k. mc_Get C k (nd_cache s') = mc_Get C k (nd_cache s))"

text \<open>
  What happens to the cache and the tasks of a node: the messages it receives in the three phases, the
  stores of blocks that are committed, the expiry of a cache entry, and steps of its other parts.
\<close>

datatype std_event =
  EvConsensus chain_message
| EvCommited chain_message
| EvReply chain_message
| EvFinal data_block consensus_log
| EvExpire string
| EvOther

inductive std_step ::
  "'w env \<Rightarrow> 'w datastores \<Rightarrow> 'c cache_ops \<Rightarrow> std_event \<Rightarrow> ('w, 'c) node \<Rightarrow> ('w, 'c) node \<Rightarrow> bool"
  for E R C where
  consensus: "Std_ReceiveConsensus E R C msg s = (r, s') \<Longrightarrow> std_step E R C (EvConsensus msg) s s'"
| commited: "Std_ReceiveCommited E R msg s = (r, s') \<Longrightarrow> std_step E R C (EvCommited msg) s s'"
| reply: "Std_ReceiveReply E C msg s = (r, s') \<Longrightarrow> std_step E R C (EvReply msg) s s'"
| final: "finalCommit E R db l s = (r, s') \<Longrightarrow> std_step E R C (EvFinal db l) s s'"
| expire: "std_step E R C (EvExpire key) s (cache_delete C key s)"
| other: "aside C s s' \<Longrightarrow> std_step E R C EvOther s s'"

inductive_cases std_step_cases: "std_step E R C ev s s'"

inductive std_run ::
  "'w env \<Rightarrow> 'w datastores \<Rightarrow> 'c cache_ops \<Rightarrow> ('w, 'c) node \<Rightarrow> std_event list \<Rightarrow> ('w, 'c) node \<Rightarrow> bool"
  for E R C s where
  start: "std_run E R C s [] s"
| step: "std_run E R C s evs s1 \<Longrightarrow> std_step E R C ev s1 s2 \<Longrightarrow> std_run E R C s (evs @ [ev]) s2"

text \<open>The requests for the block of a cache key, and the commits of it.\<close>

definition block_key :: "data_block \<Rightarrow> string" where
  "block_key db = GetDataBlockCacheKey (db_BlockId db) (db_SliceNumber db)"

fun requests :: "string \<Rightarrow> std_event \<Rightarrow> bool" where
  "requests k (EvConsensus msg) =
     (case cm_Payload msg of PDataBlock (Some db) \<Rightarrow> block_key db = k | _ \<Rightarrow> False)"
| "requests k _ = False"

fun commits :: "string \<Rightarrow> task \<Rightarrow> bool" where
  "commits k (GoFinalCommit db _) = (block_key db = k)"
| "commits k _ = False"

definition pending :: "'c cache_ops \<Rightarrow> string \<Rightarrow> 'c \<Rightarrow> nat" where
  "pending C k c = (case mc_Get C k c of Some (CBlock _) \<Rightarrow> 1 | _ \<Rightarrow> 0)"

definition keyed :: "'c cache_ops \<Rightarrow> 'c \<Rightarrow> bool" where
  "keyed C c \<longleftrightarrow> (\<forall>k db. mc_Get C k c = Some (CBlock db) \<longrightarrow> block_key db = k)"

lemma pending_le: "pending C k c \<le> 1"
  by (simp add: pending_def split: option.splits cache_val.splits)

lemma keyed_set:
  assumes "cache_laws C" "keyed C c"
  shows "keyed C (mc_SetDefault C k (CLog l) c)"
    "block_key db = k \<Longrightarrow> keyed C (mc_SetDefault C k (CBlock db) c)"
    "keyed C (fold (mc_Delete C) ks c)"
  using assms by (auto simp: keyed_def cache_get_set cache_get_remove_all)

lemma pending_set:
  assumes "cache_laws C"
  shows "pending C k (mc_SetDefault C k' (CLog l) c) \<le> pending C k c"
    "pending C k (mc_SetDefault C k' (CBlock db) c) \<le> pending C k c + (if k' = k then 1 else 0)"
    "pending C k (fold (mc_Delete C) ks c) \<le> (if k \<in> set ks then 0 else pending C k c)"
  using assms by (auto simp: pending_def cache_get_set cache_get_remove_all)

lemma no_commits: "(\<And>t db l. t \<in> set ts \<Longrightarrow> t \<noteq> GoFinalCommit db l) \<Longrightarrow> filter (commits k) ts = []"
  by (metis (no_types, lifting) commits.elims(2) filter_False)

text \<open>One step: a commit uses up the cached block, and only a request brings one into the cache.\<close>

lemma std_step_count:
  assumes "cache_laws C" "std_step E R C ev s s'" "keyed C (nd_cache s)"
  shows "keyed C (nd_cache s') \<and>
    length (filter (commits k) (nd_tasks s')) + pending C k (nd_cache s') \<le>
    length (filter (commits k) (nd_tasks s)) + pending C k (nd_cache s) + (if requests k ev then 1 else 0)"
  using assms(2)
proof cases
  case (consensus msg r)
  from consensus(2) show ?thesis
  proof (cases rule: Std_ReceiveConsensus_effect)
    case same
    with assms(3) show ?thesis by simp
  next
    case (cached db db0 ids)
    have "filter (commits k) (map (\<lambda>i. GoConsensusDataBlock i MT_CONSENSUS_COMMITED db []) ids) = []"
      by (simp add: filter_empty_conv)
    moreover have "block_key db = block_key db0" using cached by (simp add: block_key_def)
    moreover have "requests k ev \<longleftrightarrow> block_key db = k" using cached consensus by (simp add: block_key_def)
    moreover have "nd_cache s' = mc_SetDefault C (block_key db) (CBlock db) (nd_cache s)"
      using cached by (simp add: block_key_def)
    ultimately show ?thesis
      using cached(5) keyed_set(2) [OF assms(1,3), of db "block_key db"] pending_set(2) [OF assms(1), of k "block_key db" db "nd_cache s"]
      by simp
  qed
next
  case (commited msg r)
  from commited(2) show ?thesis
  proof (cases rule: Std_ReceiveCommited_effect)
    case (1 ts)
    with no_commits [OF 1(3)] assms(3) show ?thesis by simp
  qed
next
  case (reply msg r)
  from reply(2) show ?thesis
  proof (cases rule: Std_ReceiveReply_effect)
    case same
    with assms(3) show ?thesis by simp
  next
    case (logged m)
    with keyed_set(1) [OF assms(1,3)] pending_set(1) [OF assms(1), of k _ _ "nd_cache s"] show ?thesis
      by (simp add: trans_le_add1)
  next
    case (commit m db c keys)
    have kc: "keyed C c" using commit(4) keyed_set(1) [OF assms(1,3)] assms(3) by auto
    have pc: "pending C k c \<le> pending C k (nd_cache s)"
      using commit(4) pending_set(1) [OF assms(1)] by auto
    let ?key = "GetDataBlockCacheKey (cl_BlockId m) (cl_SliceNumber m)"
    have key: "block_key db = ?key" using commit(3) assms(3) by (simp add: keyed_def)
    then have "block_key (db\<lparr>db_Status := cst_Effective E\<rparr>) = ?key" by (simp add: block_key_def)
    then have tasks: "length (filter (commits k) (nd_tasks s')) =
        length (filter (commits k) (nd_tasks s)) + (if ?key = k then 1 else 0)"
      using commit(6) by simp
    have one: "pending C ?key (nd_cache s) = 1" using commit(3) by (simp add: pending_def)
    have "pending C k (nd_cache s') \<le> (if ?key = k then 0 else pending C k (nd_cache s))"
      using pending_set(3) [OF assms(1), of k "?key # keys" c] pc unfolding commit(5)
      by (auto split: if_splits)
    then show ?thesis using tasks one keyed_set(3) [OF assms(1) kc, of "?key # keys"] unfolding commit(5)
      by (auto split: if_splits)
  qed
next
  case (final db l r)
  from final(2) show ?thesis
  proof (cases rule: finalCommit_effect)
    case (1 ts)
    with no_commits [OF 1(3)] assms(3) show ?thesis by simp
  qed
next
  case (expire key)
  then show ?thesis
    using keyed_set(3) [OF assms(1,3), of "[key]"] pending_set(3) [OF assms(1), of k "[key]" "nd_cache s"]
    by (auto split: if_splits)
next
  case other
  then obtain ts where ts: "nd_tasks s' = nd_tasks s @ ts" "\<forall>t\<in>set ts. \<not> is_commit t"
    and get: "\<And>k. mc_Get C k (nd_cache s') = mc_Get C k (nd_cache s)" by (auto simp: aside_def)
  have "filter (commits k) ts = []" using ts(2) by (intro no_commits) auto
  with ts assms(3) show ?thesis by (simp add: keyed_def pending_def get)
qed

lemma std_run_count:
  assumes "cache_laws C" "std_run E R C s evs s'" "keyed C (nd_cache s)"
  shows "keyed C (nd_cache s') \<and>
    length (filter (commits k) (nd_tasks s')) + pending C k (nd_cache s') \<le>
    length (filter (commits k) (nd_tasks s)) + pending C k (nd_cache s) + length (filter (requests k) evs)"
  using assms(2)
proof induction
  case start
  with assms(3) show ?case by simp
next
  case (step evs s1 ev s2)
  with std_step_count [OF assms(1) step(2), of k] show ?case by auto
qed

section \<open>Properties\<close>

lemma std_commit_effect:
  assumes "cache_laws C" and "Std_ReceiveReply E C msg s = (r, s')" and "nd_tasks s' \<noteq> nd_tasks s"
  shows "\<exists>m db. GetConsensusLog msg = Inr m \<and> cl_PeerId m \<noteq> cl_PrimaryPeerId m \<and>
    mc_Get C (GetDataBlockCacheKey (cl_BlockId m) (cl_SliceNumber m)) (nd_cache s) = Some (CBlock db) \<and>
    mc_Get C (GetDataBlockCacheKey (cl_BlockId m) (cl_SliceNumber m)) (nd_cache s') = None \<and>
    nd_tasks s' = nd_tasks s @
      [GoFinalCommit (db\<lparr>db_Status := cst_Effective E\<rparr>) (reply_log m (cl_PrimaryPeerId m))] \<and>
    cfg_StdMinPeerNum E \<le> int (length (filter
      (\<lambda>i. has_reply C m (nd_cache s) i \<or> GetLogCacheKey (reply_log m i) = GetLogCacheKey m)
      (split_on (CHR '','') (db_PeerIds db))))"
  using assms(2)
proof (cases rule: Std_ReceiveReply_effect)
  case (commit m db c keys)
  let ?p = "\<lambda>i. has_reply C m (nd_cache s) i \<or> GetLogCacheKey (reply_log m i) = GetLogCacheKey m"
  have "filter (has_reply C m c) ids = filter (has_reply C m c) (filter ?p ids)" for ids
    using commit(4) has_reply_set [OF assms(1)] by (induction ids) auto
  then have "length (filter (has_reply C m c) ids) \<le> length (filter ?p ids)" for ids
    by (metis length_filter_le)
  with commit(7) have "cfg_StdMinPeerNum E \<le> int (length (filter ?p (split_on (CHR '','') (db_PeerIds db))))"
    by (meson of_nat_le_iff order_trans)
  with commit show ?thesis by (auto simp: cache_get_remove_all [OF assms(1)] simp del: fold.simps)
qed (use assms(3) in auto)

text \<open>
  A block is committed only by a reply of another peer, only when the primary has the block in its
  cache, and only when replies of at least \<open>StdMinPeerNum\<close> of the peers of the block are at hand: the
  ones in the cache and the one received. The committed block is effective and is gone from the cache.
\<close>

theorem std_commit_quorum:
  assumes "cache_laws C" and "Std_ReceiveReply E C msg s = (r, s')" and "nd_tasks s' \<noteq> nd_tasks s"
  shows "\<exists>m db. GetConsensusLog msg = Inr m \<and> cl_PeerId m \<noteq> cl_PrimaryPeerId m \<and>
    mc_Get C (GetDataBlockCacheKey (cl_BlockId m) (cl_SliceNumber m)) (nd_cache s) = Some (CBlock db) \<and>
    mc_Get C (GetDataBlockCacheKey (cl_BlockId m) (cl_SliceNumber m)) (nd_cache s') = None \<and>
    nd_tasks s' = nd_tasks s @
      [GoFinalCommit (db\<lparr>db_Status := cst_Effective E\<rparr>) (reply_log m (cl_PrimaryPeerId m))] \<and>
    cfg_StdMinPeerNum E \<le> int (length (filter
      (\<lambda>i. has_reply C m (nd_cache s) i \<or> GetLogCacheKey (reply_log m i) = GetLogCacheKey m)
      (split_on (CHR '','') (db_PeerIds db))))"
  using assms by (rule std_commit_effect)

text \<open>
  C21: the converse. A first reply of a peer to this node as the primary of a cached block commits the
  block when, with it, enough of the block's peers have replied.
\<close>

theorem std_quorum_commits:
  assumes "cache_laws C" and "GetConsensusLog msg = Inr m"
    and "known_myself E (nd_world s) = (Inr my, w)"
    and "cl_PrimaryPeerId m = my_PeerId my" and "cl_PeerId m \<noteq> my_PeerId my"
    and "mc_Get C (GetDataBlockCacheKey (cl_BlockId m) (cl_SliceNumber m)) (nd_cache s) = Some (CBlock db)"
    and "mc_Get C (GetLogCacheKey m) (nd_cache s) = None"
    and "\<forall>i db'. mc_Get C (GetLogCacheKey (reply_log m i)) (nd_cache s) \<noteq> Some (CBlock db')"
    and "cfg_StdMinPeerNum E \<le> int (length (filter
      (\<lambda>i. has_reply C m (nd_cache s) i \<or> GetLogCacheKey (reply_log m i) = GetLogCacheKey m)
      (split_on (CHR '','') (db_PeerIds db))))"
  shows "nd_tasks (snd (Std_ReceiveReply E C msg s)) = nd_tasks s @
      [GoFinalCommit (db\<lparr>db_Status := cst_Effective E\<rparr>) (reply_log m (my_PeerId my))]"
proof -
  let ?c = "mc_SetDefault C (GetLogCacheKey m) (CLog m) (nd_cache s)"
  have "\<exists>keys. count_replies C m ids ?c = Inr keys" for ids
    using assms(8) by (induction ids)
      (auto simp: Let_def cached_log_def cache_get_set [OF assms(1)] split: option.splits cache_val.splits)
  then obtain keys where keys: "count_replies C m (split_on (CHR '','') (db_PeerIds db)) ?c = Inr keys" by blast
  have "cfg_StdMinPeerNum E \<le> int (length keys)"
    using count_replies_Inr [OF keys] assms(9)
    unfolding ext [of "has_reply C m ?c", OF has_reply_set [OF assms(1)]] by simp
  then show ?thesis
    using assms(2-7) keys
    by (simp add: Std_ReceiveReply_def on_world_def Let_def cached_block_def cached_log_def
        record_reply_def std_quorum_def)
qed

text \<open>
  In every run of a node from a cache without blocks, and whatever is received in between, a block
  is committed at most once for each request for it: a reply that comes late or twice commits nothing.
\<close>

theorem std_commits_once:
  assumes "cache_laws C" and "std_run E R C s evs s'"
    and "\<forall>k db. mc_Get C k (nd_cache s) \<noteq> Some (CBlock db)" and "nd_tasks s = []"
  shows "length (filter (commits k) (nd_tasks s')) \<le> length (filter (requests k) evs)"
proof -
  have "keyed C (nd_cache s)" "pending C k (nd_cache s) = 0"
    using assms(3) by (auto simp: keyed_def pending_def split: option.splits cache_val.splits)
  with std_run_count [OF assms(1,2), of k] assms(4) show ?thesis by simp
qed

text \<open>
  The peers a request is sent to, but for the node itself, are the ones whose replies count later:
  the list that is joined into the cached block is the list that the reply handler splits out of it.
\<close>

theorem std_request_peers:
  assumes "cache_laws C" and "receive_block E msg (nd_world s) = (Inr (db, my), w)"
    and "std_peers E db w = (Inr ids, w')" and "ids \<noteq> []" and "\<forall>i\<in>set ids. CHR '','' \<notin> set i"
  shows "\<exists>db'. mc_Get C (block_key db) (nd_cache (snd (Std_ReceiveConsensus E R C msg s))) = Some (CBlock db') \<and>
    split_on (CHR '','') (db_PeerIds db') = ids \<and>
    nd_tasks (snd (Std_ReceiveConsensus E R C msg s)) =
      nd_tasks s @ map (\<lambda>i. GoConsensusDataBlock i MT_CONSENSUS_COMMITED db' []) (filter (\<lambda>i. my_PeerId my \<noteq> i) ids)"
  using assms
  by (simp add: Std_ReceiveConsensus_def on_world_def Let_def cache_get_set block_key_def split_on_join_with)

lemma StoreValue_large:
  assumes "StoreValue E R (Some db) w = ((Inr (), Some db'), w')" "PayloadLimit < length (db_TransportPayload db)"
  shows "db_TransportPayload db' = [] \<and> db_BlockType db' = db_BlockType db \<and> db_PeerId db' = db_PeerId db"
proof -
  have "db_TransportPayload d' = [] \<and> db_BlockType d' = db_BlockType d \<and> db_PeerId d' = db_PeerId d"
    if "write_block E m t old d v = ((Inr (), d'), v')" "PayloadLimit < length (db_TransportPayload d)"
    for m t old d v d' v'
    using that by (auto simp: write_block_def offload_payload_def split: prod.splits sum.splits if_splits option.splits)
  note wb = this
  show ?thesis
    using assms
    by (auto simp: StoreValue_def store_block_def Let_def dest!: wb
        split: prod.splits sum.splits option.splits if_splits)
qed

text \<open>
  The reply to the client for a committed chat whose payload exceeds 32 KB is the one for a deleted
  chat, without the peer: the store has moved the payload to a file and left the block without one.
\<close>

theorem finalCommit_large_chat:
  assumes "StoreValue E R (Some db) (nd_world s) = ((Inr (), Some db'), w')"
    and "db_BlockType db = BlockType_P2pChat" and "PayloadLimit < length (db_TransportPayload db)"
  shows "finalCommit E R db lg s = (Inr (),
    go_start (GoConsensusLog (db_PeerId db) MT_CONSENSUS_REPLY (lg\<lparr>cl_PeerId := []\<rparr>) []) (s\<lparr>nd_world := w'\<rparr>))"
  using assms StoreValue_large [OF assms(1,3)] by (simp add: finalCommit_def on_world_def Let_def)

section \<open>The properties on a concrete node\<close>

text \<open>A cache that is a map, and a node \<open>me\<close> that is the primary of a block sent to one peer.\<close>

definition map_cache :: "(string \<rightharpoonup> cache_val) cache_ops" where
  "map_cache = \<lparr>mc_Get = (\<lambda>k c. c k), mc_SetDefault = (\<lambda>k v c. c(k \<mapsto> v)), mc_Delete = (\<lambda>k c. c(k := None))\<rparr>"

lemma map_cache_simps [simp]:
  "mc_Get map_cache k c = c k"
  "mc_SetDefault map_cache k v c = c(k \<mapsto> v)"
  "mc_Delete map_cache k c = c(k := None)"
  by (simp_all add: map_cache_def)

lemma map_cache_laws: "cache_laws map_cache"
  unfolding cache_laws_def by unfold_locales auto

definition primary_sample :: "unit env" where
  "primary_sample = sample_env\<lparr>
     mem_MyselfPeer := (\<lambda>_ _. Some (myself_peer0\<lparr>my_Id := 1, my_PeerId := ''me''\<rparr>)),
     kad_NearestPeers := (\<lambda>_ _ w. ([''p''], w)), cfg_StdMinPeerNum := 1,
     orm_UpsertDataBlock := (\<lambda>_ w. (1, w))\<rparr>"

lemma primary_sample_fields [simp]:
  "cfg_StdMinPeerNum primary_sample = 1" "cst_Effective primary_sample = ''Effective''"
  "env_now primary_sample = (\<lambda>w. (Instant 0, w))" "orm_InsertConsensusLog primary_sample = Pair"
  "cfg_PeerNum primary_sample = 4" "cfg_BucketSize primary_sample = 0"
  "kad_NearestPeers primary_sample = (\<lambda>_ _ w. ([''p''], w))"
  by (simp_all add: primary_sample_def)

lemma known_primary [simp]:
  "known_myself primary_sample w = (Inr (myself_peer0\<lparr>my_Id := 1, my_PeerId := ''me''\<rparr>), w)"
  by (simp add: known_myself_def MyselfPeer_GetFromCache_def cached_row_def primary_sample_def)

definition reply_sample :: chain_message where
  "reply_sample = chain_message0\<lparr>cm_Payload := PConsensusLog (Some (consensus_log0\<lparr>
     cl_PrimaryPeerId := ''me'', cl_PeerId := ''p'', cl_BlockId := ''b'', cl_Status := MT_CONSENSUS_REPLY\<rparr>))\<rparr>"

definition waiting_block :: data_block where
  "waiting_block = data_block0\<lparr>db_BlockId := ''b'', db_PeerIds := ''p''\<rparr>"

definition waiting_node :: "(unit, string \<rightharpoonup> cache_val) node" where
  "waiting_node = \<lparr>nd_world = (), nd_cache = [GetDataBlockCacheKey ''b'' 0 \<mapsto> CBlock waiting_block],
     nd_pool = Map.empty, nd_tasks = []\<rparr>"

lemma sample_keys [simp]:
  "GetConsensusLog reply_sample = Inr (consensus_log0\<lparr>
     cl_PrimaryPeerId := ''me'', cl_PeerId := ''p'', cl_BlockId := ''b'', cl_Status := MT_CONSENSUS_REPLY\<rparr>)"
  "nd_cache waiting_node = [GetDataBlockCacheKey ''b'' 0 \<mapsto> CBlock waiting_block]"
  "nd_tasks waiting_node = []" "nd_world waiting_node = ()"
  "split_on (CHR '','') (db_PeerIds waiting_block) = [''p'']"
  "cl_SliceNumber consensus_log0 = 0"
  by (simp_all add: GetConsensusLog_def reply_sample_def chain_message0_def waiting_node_def waiting_block_def
      consensus_log0_def data_block0_def)

lemma log_key_other [simp]:
  "GetLogCacheKey (consensus_log0\<lparr>cl_PrimaryPeerId := ''me'', cl_PeerId := p, cl_BlockId := b, cl_Status := t\<rparr>) \<noteq>
     GetDataBlockCacheKey ''b'' 0"
  "GetLogCacheKey (reply_log (l\<lparr>cl_PrimaryPeerId := ''me'', cl_PeerId := p, cl_BlockId := b, cl_Status := t\<rparr>) i) \<noteq>
     GetDataBlockCacheKey ''b'' 0"
  by (simp_all add: GetLogCacheKey_def GetDataBlockCacheKey_def reply_log_def)

lemma reply_sample_key [simp]:
  "GetLogCacheKey (reply_log (consensus_log0\<lparr>cl_PrimaryPeerId := ''me'', cl_PeerId := ''p'', cl_BlockId := ''b'',
     cl_Status := MT_CONSENSUS_REPLY\<rparr>) ''p'') =
   GetLogCacheKey (consensus_log0\<lparr>cl_PrimaryPeerId := ''me'', cl_PeerId := ''p'', cl_BlockId := ''b'',
     cl_Status := MT_CONSENSUS_REPLY\<rparr>)"
  by (simp add: GetLogCacheKey_def reply_log_def consensus_log0_def)

theorem std_quorum_commits_witness:
  "nd_tasks (snd (Std_ReceiveReply primary_sample map_cache reply_sample waiting_node)) \<noteq> []"
proof -
  let ?m = "consensus_log0\<lparr>cl_PrimaryPeerId := ''me'', cl_PeerId := ''p'', cl_BlockId := ''b'',
     cl_Status := MT_CONSENSUS_REPLY\<rparr>"
  have "nd_tasks (snd (Std_ReceiveReply primary_sample map_cache reply_sample waiting_node)) =
      nd_tasks waiting_node @ [GoFinalCommit (waiting_block\<lparr>db_Status := cst_Effective primary_sample\<rparr>)
        (reply_log ?m (my_PeerId (myself_peer0\<lparr>my_Id := 1, my_PeerId := ''me''\<rparr>)))]"
    by (rule std_quorum_commits [OF map_cache_laws]) simp_all
  then show ?thesis by simp
qed

lemma sample_commit:
  "nd_tasks (snd (Std_ReceiveReply primary_sample map_cache reply_sample waiting_node)) \<noteq> []"
  by (simp add: Std_ReceiveReply_def on_world_def Let_def cached_block_def cached_log_def
        record_reply_def std_quorum_def)

theorem std_commit_quorum_witness:
  "\<exists>m db. GetConsensusLog reply_sample = Inr m \<and> nd_cache waiting_node (GetDataBlockCacheKey ''b'' 0) = Some (CBlock db) \<and>
     1 \<le> int (length (split_on (CHR '','') (db_PeerIds db)))"
proof -
  obtain r s' where run: "Std_ReceiveReply primary_sample map_cache reply_sample waiting_node = (r, s')" by fastforce
  have "nd_tasks s' \<noteq> nd_tasks waiting_node" using sample_commit by (simp add: run)
  from std_commit_quorum [OF map_cache_laws run this] show ?thesis by auto
qed

definition request_sample :: chain_message where
  "request_sample = chain_message0\<lparr>cm_Payload := PDataBlock (Some (data_block0\<lparr>db_BlockId := ''b'',
     db_PrimaryPeerId := ''me'', db_TransportPayload := ''x'', db_TransactionAmount := 1\<rparr>))\<rparr>"

lemma request_key [simp]: "requests ''b:0'' (EvConsensus request_sample)"
  by (simp add: request_sample_def chain_message0_def block_key_def GetDataBlockCacheKey_def data_block0_def
      show_u64_def show_nat.simps)

lemma std_step_simps:
  "std_step E R C (EvConsensus msg) s (snd (Std_ReceiveConsensus E R C msg s))"
  "std_step E R C (EvReply msg) s (snd (Std_ReceiveReply E C msg s))"
  by (auto intro: std_step.consensus std_step.reply prod.collapse [symmetric])

text \<open>A request and then the reply of the peer, received twice.\<close>

theorem std_commits_once_witness:
  "let s0 = waiting_node\<lparr>nd_cache := Map.empty\<rparr>;
       s1 = snd (Std_ReceiveConsensus primary_sample no_datastores map_cache request_sample s0);
       s2 = snd (Std_ReceiveReply primary_sample map_cache reply_sample s1);
       s3 = snd (Std_ReceiveReply primary_sample map_cache reply_sample s2)
   in length (filter (commits ''b:0'') (nd_tasks s3)) \<le> 1"
proof -
  let ?s0 = "waiting_node\<lparr>nd_cache := Map.empty\<rparr>"
  let ?s1 = "snd (Std_ReceiveConsensus primary_sample no_datastores map_cache request_sample ?s0)"
  let ?s2 = "snd (Std_ReceiveReply primary_sample map_cache reply_sample ?s1)"
  let ?s3 = "snd (Std_ReceiveReply primary_sample map_cache reply_sample ?s2)"
  have "std_run primary_sample no_datastores map_cache ?s0
      ((([] @ [EvConsensus request_sample]) @ [EvReply reply_sample]) @ [EvReply reply_sample]) ?s3"
    by (rule std_run.step [OF std_run.step [OF std_run.step [OF std_run.start std_step_simps(1)]
          std_step_simps(2)] std_step_simps(2)])
  from std_commits_once [OF map_cache_laws this, of "''b:0''"] show ?thesis by (simp add: Let_def split: if_splits)
qed

lemma request_received:
  "receive_block primary_sample request_sample w = (Inr (data_block0\<lparr>db_BlockId := ''b'',
     db_PrimaryPeerId := ''me'', db_TransportPayload := ''x'', db_TransactionAmount := 1\<rparr>,
     myself_peer0\<lparr>my_Id := 1, my_PeerId := ''me''\<rparr>), w)"
  by (simp add: receive_block_def GetDataBlock_def decode_keys_def fill_amount_def request_sample_def chain_message0_def
      DataBlock_Validate_def data_block0_def MyselfPeer_GetFromCache_def cached_row_def primary_sample_def)

theorem std_request_peers_witness:
  "nd_tasks (snd (Std_ReceiveConsensus primary_sample no_datastores map_cache request_sample waiting_node)) \<noteq> []"
proof -
  have "std_peers primary_sample (data_block0\<lparr>db_BlockId := ''b'',
     db_PrimaryPeerId := ''me'', db_TransportPayload := ''x'', db_TransactionAmount := 1\<rparr>) () = (Inr [''p''], ())"
    by (simp add: std_peers_def NearestConsensusPeer_def data_block0_def)
  from std_request_peers [OF map_cache_laws, of primary_sample request_sample waiting_node, unfolded sample_keys,
      OF request_received this, of no_datastores]
  show ?thesis by auto
qed

definition large_chat :: data_block where
  "large_chat = new_block\<lparr>db_BlockType := BlockType_P2pChat, db_TransportPayload := replicate 40000 CHR ''x''\<rparr>"

definition chat_primary :: "unit env" where
  "chat_primary = primary_sample\<lparr>lib_Marshal := (\<lambda>_. Inr ''v'')\<rparr>"

lemma chat_primary_fields [simp]:
  "lib_Marshal chat_primary = (\<lambda>_. Inr ''v'')" "kad_PutValue chat_primary = (\<lambda>_ _ w. (None, w))"
  "glb_MyselfPeer chat_primary = Some (myself_peer0\<lparr>my_PeerId := ''me''\<rparr>)"
  "env_now chat_primary = (\<lambda>w. (Instant 0, w))" "orm_GetDataBlock chat_primary = (\<lambda>_ w. (None, w))"
  "orm_UpsertDataBlock chat_primary = (\<lambda>_ w. (1, w))" "file_Write chat_primary = (\<lambda>_ _ w. (None, w))"
  by (simp_all add: chat_primary_def primary_sample_def)

theorem finalCommit_large_chat_witness:
  "nd_tasks (snd (finalCommit chat_primary no_datastores large_chat (consensus_log0\<lparr>cl_PeerId := ''me''\<rparr>) waiting_node)) =
     [GoConsensusLog ''s'' MT_CONSENSUS_REPLY consensus_log0 []]"
proof -
  obtain db' where run: "StoreValue chat_primary no_datastores (Some large_chat) (nd_world waiting_node) =
      ((Inr (), Some db'), ())"
    by (simp add: StoreValue_def store_block_def check_fields_def Let_def write_block_def offload_payload_def
        PayloadLimit_def after_upsert_def large_chat_def PutPTs_def PutPT_def pt_write_key_def
        transaction_type_def block_transaction_def PutValue_def)
  from finalCommit_large_chat [OF run] show ?thesis
    by (simp add: large_chat_def PayloadLimit_def consensus_log0_def)
qed

end
