(* ===== verification/PhaseLogs.thy ===== *)
theory PhaseLogs
  imports StdConsensus
begin

text \<open>
  The parts that the handlers of \<^verbatim>\<open>consensus/pbft/default.go\<close> and \<^verbatim>\<open>consensus/raft/default.go\<close> have in
  common, with the message type of the phase as an argument: the record of a peer's log of a phase, the
  test of a pre-prepared block and the loop that counts the logs of the peers.
\<close>

section \<open>Logs of a phase\<close>

definition phase_log :: "string \<Rightarrow> consensus_log \<Rightarrow> string \<Rightarrow> string \<Rightarrow> consensus_log" where
  "phase_log primaryPeerId messageLog status peerId = consensus_log0\<lparr>
     cl_PrimaryPeerId := primaryPeerId, cl_BlockId := cl_BlockId messageLog,
     cl_SliceNumber := cl_SliceNumber messageLog,
     cl_PrimarySequenceId := cl_PrimarySequenceId messageLog, cl_PeerId := peerId, cl_Status := status\<rparr>"

text \<open>
  A log received a second time must have the hash of the first one; the first one is inserted into the
  database and kept in the cache. The result is the log found before and the log as it is left.
\<close>

definition record_phase ::
  "'w env \<Rightarrow> 'c cache_ops \<Rightarrow> string \<Rightarrow> string \<Rightarrow> consensus_log \<Rightarrow> ('w, 'c) node \<Rightarrow>
   (consensus_log option \<times> consensus_log) res \<times> ('w, 'c) node" where
  "record_phase E C key status messageLog s =
     (case cached_log C key (nd_cache s) of
        Inl e \<Rightarrow> (Inl e, s)
      | Inr (Some cacheLog) \<Rightarrow>
          if cl_PayloadHash messageLog \<noteq> [] \<and> cl_PayloadHash messageLog \<noteq> cl_PayloadHash cacheLog
          then (Inl (Err ''ErrorPayloadHash''), s) else (Inr (Some cacheLog, messageLog), s)
      | Inr None \<Rightarrow>
          (case on_world (orm_InsertConsensusLog E (messageLog\<lparr>cl_Id := 0, cl_Status := status\<rparr>)) s of
             (l, s1) \<Rightarrow> (Inr (None, l), cache_set C key (CLog l) s1)))"

text \<open>
  The start of \<open>ReceivePreprepared\<close>: \<open>None\<close> when the block has been recorded before. The type
  assertion there has two results, so that a value of another type is a nil pointer.
\<close>

definition check_preprepared ::
  "'w env \<Rightarrow> 'c cache_ops \<Rightarrow> string \<Rightarrow> chain_message \<Rightarrow> ('w, 'c) node \<Rightarrow>
   (data_block \<times> myself_peer) option res \<times> ('w, 'c) node" where
  "check_preprepared E C status msg s =
     and_then (GetDataBlock E msg, s) (\<lambda>db s.
     and_then (on_world (known_myself E) s) (\<lambda>myselfPeer s1.
       if db_PrimaryPeerId db \<noteq> cm_SrcPeerId msg then (Inl (Err ''SendPrepreparedMustPrimaryPeer''), s1)
       else if db_PrimaryPeerId db = my_PeerId myselfPeer then (Inl (Err ''PrepreparedInPrimaryPeer''), s1)
       else
         (let key = GetLogCacheKey (consensus_log0\<lparr>cl_PrimaryPeerId := db_PrimaryPeerId db,
                cl_BlockId := db_BlockId db, cl_SliceNumber := db_SliceNumber db,
                cl_PrimarySequenceId := db_PrimarySequenceId db, cl_PeerId := my_PeerId myselfPeer,
                cl_Status := status\<rparr>)
          in case mc_Get C key (nd_cache s1) of
               Some (CBlock _) \<Rightarrow> (Inl NilDereference, s1)
             | Some (CLog cacheLog) \<Rightarrow>
                 if db_PayloadHash db \<noteq> [] \<and> db_PayloadHash db \<noteq> cl_PayloadHash cacheLog
                 then (Inl (Err ''ErrorPayloadHash''), s1) else (Inr None, s1)
             | None \<Rightarrow> (Inr (Some (db, myselfPeer)), s1))))"

text \<open>
  The loop that counts: \<open>cacheLog\<close> is declared outside of it and never set back to nil, so that once a
  log has been found every later peer is counted, too.
\<close>

fun count_phase ::
  "'c cache_ops \<Rightarrow> (string \<Rightarrow> consensus_log) \<Rightarrow> string list \<Rightarrow> consensus_log option \<Rightarrow> 'c \<Rightarrow>
   (nat \<times> consensus_log option) res" where
  "count_phase C lg [] cacheLog c = Inr (0, cacheLog)"
| "count_phase C lg (i # is) cacheLog c =
     (case cached_log C (GetLogCacheKey (lg i)) c of
        Inl e \<Rightarrow> Inl e
      | Inr found \<Rightarrow>
          let cacheLog' = (if found = None then cacheLog else found) in
          (case count_phase C lg is cacheLog' c of
             Inl e \<Rightarrow> Inl e
           | Inr (n, l) \<Rightarrow> Inr (if cacheLog' = None then n else Suc n, l)))"

section \<open>What the loop counts\<close>

definition in_phase :: "'c cache_ops \<Rightarrow> (string \<Rightarrow> consensus_log) \<Rightarrow> 'c \<Rightarrow> string \<Rightarrow> bool" where
  "in_phase C lg c i \<longleftrightarrow> mc_Get C (GetLogCacheKey (lg i)) c \<noteq> None"

lemma count_phase_stale:
  "count_phase C lg ids (Some l) c = Inr (n, l') \<Longrightarrow> n = length ids \<and> l' \<noteq> None"
proof (induction ids arbitrary: l n)
  case (Cons i ids)
  then show ?case
    by (cases "cached_log C (GetLogCacheKey (lg i)) c") (auto simp: Let_def split: if_splits sum.splits)
qed auto

lemma count_phase_fresh:
  "count_phase C lg ids None c = Inr (n, l') \<Longrightarrow>
     n = length (dropWhile (\<lambda>i. \<not> in_phase C lg c i) ids) \<and> (l' = None \<longleftrightarrow> n = 0)"
proof (induction ids arbitrary: n)
  case (Cons i ids)
  show ?case
  proof (cases "cached_log C (GetLogCacheKey (lg i)) c")
    case (Inr found)
    then have f: "found = None \<longleftrightarrow> \<not> in_phase C lg c i"
      by (auto simp: in_phase_def cached_log_def split: option.splits cache_val.splits)
    show ?thesis
    proof (cases found)
      case None
      with Cons Inr f show ?thesis by (auto split: sum.splits)
    next
      case (Some l)
      with Cons.prems Inr f show ?thesis by (auto simp: Let_def split: sum.splits dest: count_phase_stale)
    qed
  qed (use Cons.prems in simp)
qed simp

lemma count_phase_some:
  "count_phase C lg ids cacheLog c = Inr (n, l') \<Longrightarrow> l' = None \<Longrightarrow> n = 0"
  by (cases cacheLog) (auto dest: count_phase_stale count_phase_fresh)

lemma count_phase_returns:
  assumes "\<And>i db. i \<in> set ids \<Longrightarrow> mc_Get C (GetLogCacheKey (lg i)) c \<noteq> Some (CBlock db)"
  shows "\<exists>n l. count_phase C lg ids cacheLog c = Inr (n, l)"
  using assms
proof (induction ids arbitrary: cacheLog)
  case (Cons i ids)
  have "\<exists>found. cached_log C (GetLogCacheKey (lg i)) c = Inr found"
    using Cons.prems [of i] by (auto simp: cached_log_def split: option.splits cache_val.splits)
  then obtain found where f: "cached_log C (GetLogCacheKey (lg i)) c = Inr found" by blast
  obtain n l where "count_phase C lg ids (if found = None then cacheLog else found) c = Inr (n, l)"
    using Cons.IH Cons.prems by (metis list.set_intros(2))
  with f show ?case by (simp add: Let_def)
qed simp

lemma record_phase_fields:
  "record_phase E C key status m s = (r, s') \<Longrightarrow> nd_tasks s' = nd_tasks s"
  by (auto simp: record_phase_def dest!: on_world_Pair split: sum.splits option.splits if_splits prod.splits)

lemma check_preprepared_fields:
  assumes "check_preprepared E C status msg s = (r, s')"
  shows "nd_tasks s' = nd_tasks s \<and> nd_cache s' = nd_cache s"
proof -
  obtain r1 s1 where k: "on_world (known_myself E) s = (r1, s1)" by fastforce
  show ?thesis
    using assms on_world_Pair [OF k] k
    by (cases "GetDataBlock E msg"; cases r1)
      (auto simp: check_preprepared_def Let_def split: if_splits option.splits cache_val.splits)
qed

end
