(* ===== verification/PbftConsensus.thy ===== *)
theory PbftConsensus
  imports PhaseLogs
begin

text \<open>
  \<^verbatim>\<open>consensus/pbft/default.go\<close>: the primary sends the block to its peers, each of them tells all others
  that it is prepared, then that it commits, and then the client. What the handlers really do with the
  messages of each other is the subject of the properties.
\<close>

section \<open>The handlers\<close>

text \<open>The log that \<open>CreateConsensusLog\<close> makes is not used.\<close>

definition Pbft_ReceiveConsensus ::
  "'w env \<Rightarrow> chain_message \<Rightarrow> ('w, 'c) node \<Rightarrow> chain_message option res \<times> ('w, 'c) node" where
  "Pbft_ReceiveConsensus E msg s =
     and_then (on_world (receive_block E msg) s) (\<lambda>(db, myselfPeer) s1.
       case on_world (CreateConsensusLog E msg db myselfPeer MT_CONSENSUS_PBFT_PREPREPARED) s1 of
         (_, s2) \<Rightarrow>
           (case on_world (ChooseConsensusPeer E db) s2 of
              (peerIds, s3) \<Rightarrow>
                if length peerIds > 2 then
                  (Inr None, send_blocks (my_PeerId myselfPeer) MT_CONSENSUS_PBFT_PREPREPARED
                     (db\<lparr>db_PeerIds := join_with '','' peerIds\<rparr>) peerIds s3)
                else (Inl (Err ''LessPeerLocation''), s3)))"

definition Pbft_ReceivePreprepared ::
  "'w env \<Rightarrow> 'c cache_ops \<Rightarrow> chain_message \<Rightarrow> ('w, 'c) node \<Rightarrow>
   chain_message option res \<times> ('w, 'c) node" where
  "Pbft_ReceivePreprepared E C msg s =
     and_then (check_preprepared E C MT_CONSENSUS_PBFT_PREPREPARED msg s) (\<lambda>checked s1.
       case checked of
         None \<Rightarrow> (Inr None, s1)
       | Some (db, myselfPeer) \<Rightarrow>
           (case on_world (CreateConsensusLog E msg db myselfPeer MT_CONSENSUS_PBFT_PREPREPARED) s1 of
              (lg, s2) \<Rightarrow>
                let lg = lg\<lparr>cl_Status := MT_CONSENSUS_PBFT_PREPARED\<rparr>;
                    peerIds = split_on (CHR '','') (db_PeerIds db)
                in if length peerIds > 2 then
                     (Inr None, send_logs (my_PeerId myselfPeer) MT_CONSENSUS_PBFT_PREPARED lg peerIds s2)
                   else (Inl (Err ''LessPeerLocation''), s2)))"

text \<open>
  What follows the count in \<open>ReceivePrepared\<close>: the node's own commit log, unless one is found or
  \<open>cacheLog\<close> is still set, is kept and sent to the other peers.
\<close>

definition pbft_commit ::
  "'c cache_ops \<Rightarrow> myself_peer \<Rightarrow> consensus_log \<Rightarrow> consensus_log option \<Rightarrow> string list \<Rightarrow> ('w, 'c) node \<Rightarrow>
   chain_message option res \<times> ('w, 'c) node" where
  "pbft_commit C myselfPeer lg cacheLog peerIds s =
     (let key = GetLogCacheKey lg in
      case cached_log C key (nd_cache s) of
        Inl e \<Rightarrow> (Inl e, s)
      | Inr found \<Rightarrow>
          if found = None \<and> cacheLog = None then
            (let lg = lg\<lparr>cl_Address := my_Address myselfPeer, cl_PublicKey := my_PublicKey myselfPeer\<rparr>
             in (Inr None, send_logs (my_PeerId myselfPeer) MT_CONSENSUS_PBFT_COMMITED lg peerIds
                   (cache_set C key (CLog lg) s)))
          else (Inr None, s))"

definition Pbft_ReceivePrepared ::
  "'w env \<Rightarrow> 'c cache_ops \<Rightarrow> chain_message \<Rightarrow> ('w, 'c) node \<Rightarrow>
   chain_message option res \<times> ('w, 'c) node" where
  "Pbft_ReceivePrepared E C msg s =
     and_then (GetConsensusLog msg, s) (\<lambda>messageLog s.
     and_then (on_world (known_myself E) s) (\<lambda>myselfPeer s1.
       let myPeerId = my_PeerId myselfPeer; primaryPeerId = cl_PrimaryPeerId messageLog in
       if cl_PeerId messageLog = primaryPeerId then (Inl (Err ''SendPrimaryPreparedMessage''), s1)
       else if cl_PeerId messageLog = myPeerId then (Inl (Err ''SendMyselfMessage''), s1)
       else
         and_then (record_phase E C (GetLogCacheKey messageLog) MT_CONSENSUS_PBFT_PREPARED messageLog s1)
           (\<lambda>(cacheLog, messageLog) s2.
             let peerIds = split_on (CHR '','') (cl_PeerIds messageLog) in
             if length peerIds > 2 then
               and_then (count_phase C (phase_log primaryPeerId messageLog MT_CONSENSUS_PBFT_PREPARED)
                           peerIds cacheLog (nd_cache s2), s2)
                 (\<lambda>(n, cacheLog) s2.
                   if 1 + n > 2 * (length peerIds div 3) then
                     pbft_commit C myselfPeer
                       (phase_log primaryPeerId messageLog MT_CONSENSUS_PBFT_COMMITED myPeerId) cacheLog peerIds s2
                   else (Inr None, s2))
             else (Inl (Err ''LessPeerLocation''), s2))))"

text \<open>
  \<open>ReceiveCommited\<close>, also the handler of the replies: its \<open>dataBlock\<close> is declared and never set, so
  that what follows the count is a nil pointer.
\<close>

definition Pbft_ReceiveCommited ::
  "'w env \<Rightarrow> 'c cache_ops \<Rightarrow> chain_message \<Rightarrow> ('w, 'c) node \<Rightarrow>
   chain_message option res \<times> ('w, 'c) node" where
  "Pbft_ReceiveCommited E C msg s =
     and_then (GetConsensusLog msg, s) (\<lambda>messageLog s.
     and_then (on_world (known_myself E) s) (\<lambda>myselfPeer s1.
       if cl_PeerId messageLog = my_PeerId myselfPeer then (Inl (Err ''SendMyselfMessage''), s1)
       else
         (let lg = phase_log (cl_PrimaryPeerId messageLog) messageLog MT_CONSENSUS_PBFT_COMMITED in
          and_then (record_phase E C (GetLogCacheKey (lg (cl_PeerId messageLog)))
                      MT_CONSENSUS_PBFT_COMMITED messageLog s1)
            (\<lambda>(cacheLog, messageLog) s2.
              let peerIds = split_on (CHR '','') (cl_PeerIds messageLog) in
              if length peerIds > 2 then
                and_then (count_phase C lg peerIds cacheLog (nd_cache s2), s2)
                  (\<lambda>(n, _) s2.
                    if 1 + n > 2 * (length peerIds div 3) then (Inl NilDereference, s2)
                    else (Inl (Err ''NoDataBlockInCache''), s2))
              else (Inl (Err ''LessPeerLocation''), s2)))))"

section \<open>Properties\<close>

text \<open>A step that starts no task.\<close>

definition silent :: "('r \<times> ('w, 'c) node) \<Rightarrow> ('w, 'c) node \<Rightarrow> bool" where
  "silent rs s \<longleftrightarrow> nd_tasks (snd rs) = nd_tasks s"

lemma silent_and_then:
  "silent m s \<Longrightarrow> (\<And>x s1. m = (Inr x, s1) \<Longrightarrow> silent (f x s1) s1) \<Longrightarrow> silent (and_then m f) s"
  by (cases m, cases "fst m") (auto simp: silent_def)

lemma silent_on_world: "silent (on_world f s) s"
  by (simp add: silent_def)

lemma silent_pair: "silent (r, s) s"
  by (simp add: silent_def)

lemma silent_record_phase: "silent (record_phase E C key status m s) s"
  using record_phase_fields [of E C key status m s] by (cases "record_phase E C key status m s") (auto simp: silent_def)

lemmas silent_intros = silent_and_then silent_on_world silent_pair silent_record_phase

lemma silent_pbft_commit: "cacheLog \<noteq> None \<Longrightarrow> silent (pbft_commit C my lg cacheLog ids s) s"
  by (auto simp: pbft_commit_def silent_def Let_def split: sum.splits)

lemma quorum_found:
  assumes "count_phase C lg ids l0 c = Inr (n, l)" "2 * (length ids div 3) < Suc n" "2 < length ids"
  shows "\<exists>y. l = Some y"
proof (rule ccontr)
  assume "\<not> (\<exists>y. l = Some y)"
  then have "n = 0" using count_phase_some [OF assms(1)] by auto
  moreover have "1 \<le> length ids div 3" using assms(3) by linarith
  ultimately show False using assms(2) by linarith
qed

text \<open>
  C39: no node ever sends a commit. The quorum of \<open>ReceivePrepared\<close> needs a log found, the variable that
  holds it is not reset, and the commit is sent only when it is nil: the handler starts no task.
\<close>

theorem Pbft_prepared_never_commits:
  "nd_tasks (snd (Pbft_ReceivePrepared E C msg s)) = nd_tasks s"
proof -
  have "silent (Pbft_ReceivePrepared E C msg s) s"
    unfolding Pbft_ReceivePrepared_def Let_def
    by (auto intro!: silent_intros silent_pbft_commit split: if_splits) (rule quorum_found)
  then show ?thesis by (simp add: silent_def)
qed

text \<open>
  \<open>ReceiveCommited\<close>, which also serves the replies, fails for every message and in every state: with
  an error, or with a nil pointer once enough logs are counted. It starts no task.
\<close>

theorem Pbft_commited_fails:
  "\<exists>e. fst (Pbft_ReceiveCommited E C msg s) = Inl e \<and>
    nd_tasks (snd (Pbft_ReceiveCommited E C msg s)) = nd_tasks s"
proof -
  have "silent (Pbft_ReceiveCommited E C msg s) s"
    unfolding Pbft_ReceiveCommited_def Let_def
    by (auto intro!: silent_intros split: if_splits)
  moreover have "\<exists>e. fst (Pbft_ReceiveCommited E C msg s) = Inl e"
    by (auto simp: Pbft_ReceiveCommited_def Let_def and_then_def split: prod.splits sum.splits)
  ultimately show ?thesis by (auto simp: silent_def)
qed

text \<open>
  The phases do not fit together: the log that \<open>ReceivePreprepared\<close> sends has no peers, and a
  message with it is refused by \<open>ReceivePrepared\<close> of every node.
\<close>

theorem Pbft_prepared_refused:
  assumes "Pbft_ReceivePreprepared E C msg s = (r, s')"
    and "nd_tasks s' = nd_tasks s @ ts" and "GoConsensusLog i t lg ids \<in> set ts"
    and "cm_Payload msg' = PConsensusLog (Some lg)" and "orm_InsertConsensusLog E' = Pair"
  shows "cl_PeerIds lg = [] \<and> (\<exists>e. fst (Pbft_ReceivePrepared E' C' msg' n) = Inl e)"
proof -
  obtain r1 s1 where ck: "check_preprepared E C MT_CONSENSUS_PBFT_PREPREPARED msg s = (r1, s1)" by fastforce
  note f = check_preprepared_fields [OF ck]
  obtain db my where r1: "r1 = Inr (Some (db, my))"
    using assms(1-3) ck f by (cases r1) (auto simp: Pbft_ReceivePreprepared_def split: option.splits)
  obtain l s2 where cr: "on_world (CreateConsensusLog E msg db my MT_CONSENSUS_PBFT_PREPREPARED) s1 = (l, s2)"
    by fastforce
  have "cl_PeerIds l = []"
    using on_world_Pair [OF cr] by (auto simp: CreateConsensusLog_def consensus_log0_def split: prod.splits)
  moreover have "lg = l\<lparr>cl_Status := MT_CONSENSUS_PBFT_PREPARED\<rparr>"
    using assms(1-3) ck f r1 cr on_world_Pair [OF cr]
    by (auto simp: Pbft_ReceivePreprepared_def Let_def split: if_splits)
  ultimately have peers: "cl_PeerIds lg = []" by simp
  moreover have "\<exists>e. fst (Pbft_ReceivePrepared E' C' msg' n) = Inl e"
  proof -
    have few: "length (split_on (CHR '','') (cl_PeerIds m)) \<le> 2"
      if "record_phase E' C' k st lg s0 = (Inr (x, m), s3)" for k st s0 x m s3
      using that peers assms(5)
      by (auto simp: record_phase_def on_world_def split: sum.splits option.splits if_splits)
    then show ?thesis
      using assms(4)
      by (auto simp: Pbft_ReceivePrepared_def GetConsensusLog_def Let_def and_then_def dest!: few
          split: prod.splits sum.splits)
  qed
  ultimately show ?thesis by simp
qed

text \<open>
  A commit log received twice from the same peer, naming more than two peers, makes the handler
  panic: the log found first makes the loop count all peers.
\<close>

theorem Pbft_duplicate_commit_panics:
  assumes "GetConsensusLog msg = Inr m" and "known_myself E (nd_world s) = (Inr my, w)"
    and "cl_PeerId m \<noteq> my_PeerId my" and "2 < length (split_on (CHR '','') (cl_PeerIds m))"
    and "mc_Get C (GetLogCacheKey (phase_log (cl_PrimaryPeerId m) m MT_CONSENSUS_PBFT_COMMITED (cl_PeerId m)))
           (nd_cache s) = Some (CLog m')"
    and "cl_PayloadHash m = cl_PayloadHash m'"
    and "\<forall>i db. mc_Get C (GetLogCacheKey (phase_log (cl_PrimaryPeerId m) m MT_CONSENSUS_PBFT_COMMITED i))
           (nd_cache s) \<noteq> Some (CBlock db)"
  shows "fst (Pbft_ReceiveCommited E C msg s) = Inl NilDereference"
proof -
  let ?ids = "split_on (CHR '','') (cl_PeerIds m)"
  obtain n l where n: "count_phase C (phase_log (cl_PrimaryPeerId m) m MT_CONSENSUS_PBFT_COMMITED) ?ids (Some m')
      (nd_cache s) = Inr (n, l)"
    using count_phase_returns [of ?ids C _ "nd_cache s"] assms(7) by metis
  have "2 * (length ?ids div 3) < Suc n" using count_phase_stale [OF n] by linarith
  with n assms show ?thesis
    by (simp add: Pbft_ReceiveCommited_def on_world_def record_phase_def cached_log_def Let_def)
qed

text \<open>
  A request that the primary accepts goes to at least three peers, the node itself left out, with the
  chosen peers in the block; with fewer peers the request is refused and nothing is sent.
\<close>

theorem Pbft_request_peers:
  assumes "receive_block E msg (nd_world s) = (Inr (db, my), w)"
    and "env_now E w = (now, w1)" and "ChooseConsensusPeer E db w1 = (ids, w2)"
    and "\<forall>i\<in>set ids. CHR '','' \<notin> set i"
  shows "if length ids > 2
    then \<exists>db'. fst (Pbft_ReceiveConsensus E msg s) = Inr None \<and>
      split_on (CHR '','') (db_PeerIds db') = ids \<and> db_PrimaryPeerId db' = db_PrimaryPeerId db \<and>
      nd_tasks (snd (Pbft_ReceiveConsensus E msg s)) = nd_tasks s @
        map (\<lambda>i. GoConsensusDataBlock i MT_CONSENSUS_PBFT_PREPREPARED db' []) (filter (\<lambda>i. my_PeerId my \<noteq> i) ids)
    else Pbft_ReceiveConsensus E msg s = (Inl (Err ''LessPeerLocation''), s\<lparr>nd_world := w2\<rparr>)"
proof -
  have "ids \<noteq> []" if "length ids > 2" using that by auto
  with assms show ?thesis
    by (auto simp: Pbft_ReceiveConsensus_def on_world_def CreateConsensusLog_def split_on_join_with
        intro!: exI [of _ "db\<lparr>db_PeerIds := join_with '','' ids\<rparr>"])
qed

section \<open>The properties on concrete messages\<close>

definition preprepared_block :: data_block where
  "preprepared_block = data_block0\<lparr>db_BlockId := ''b'', db_PrimaryPeerId := ''p'', db_PeerIds := ''p,q,me''\<rparr>"

definition preprepared_sample :: chain_message where
  "preprepared_sample = chain_message0\<lparr>cm_SrcPeerId := ''p'', cm_Payload := PDataBlock (Some preprepared_block)\<rparr>"

definition prepared_log :: consensus_log where
  "prepared_log = fst (CreateConsensusLog primary_sample preprepared_sample preprepared_block
     (myself_peer0\<lparr>my_Id := 1, my_PeerId := ''me''\<rparr>) MT_CONSENSUS_PBFT_PREPARED ())"

definition empty_node :: "(unit, string \<rightharpoonup> cache_val) node" where
  "empty_node = \<lparr>nd_world = (), nd_cache = Map.empty, nd_pool = Map.empty, nd_tasks = []\<rparr>"

lemma empty_node_fields [simp]:
  "nd_world empty_node = ()" "nd_cache empty_node = Map.empty" "nd_tasks empty_node = []"
  by (simp_all add: empty_node_def)

lemma sample_checked:
  "check_preprepared primary_sample map_cache MT_CONSENSUS_PBFT_PREPREPARED preprepared_sample empty_node =
     (Inr (Some (preprepared_block, myself_peer0\<lparr>my_Id := 1, my_PeerId := ''me''\<rparr>)), empty_node)"
  by (simp add: check_preprepared_def GetDataBlock_def decode_keys_def fill_amount_def preprepared_sample_def
      preprepared_block_def chain_message0_def data_block0_def on_world_def Let_def)

lemma sample_preprepared:
  "\<exists>s'. Pbft_ReceivePreprepared primary_sample map_cache preprepared_sample empty_node = (Inr None, s') \<and>
     nd_tasks s' = [GoConsensusLog ''p'' MT_CONSENSUS_PBFT_PREPARED prepared_log [],
       GoConsensusLog ''q'' MT_CONSENSUS_PBFT_PREPARED prepared_log []]"
  by (simp add: Pbft_ReceivePreprepared_def sample_checked on_world_def Let_def CreateConsensusLog_def prepared_log_def
      preprepared_block_def)

theorem Pbft_prepared_refused_witness:
  "\<exists>e. fst (Pbft_ReceivePrepared primary_sample map_cache
     (chain_message0\<lparr>cm_Payload := PConsensusLog (Some prepared_log)\<rparr>) empty_node) = Inl e"
proof -
  from sample_preprepared obtain s' where
    run: "Pbft_ReceivePreprepared primary_sample map_cache preprepared_sample empty_node = (Inr None, s')" and
    tasks: "nd_tasks s' = nd_tasks empty_node @ [GoConsensusLog ''p'' MT_CONSENSUS_PBFT_PREPARED prepared_log [],
       GoConsensusLog ''q'' MT_CONSENSUS_PBFT_PREPARED prepared_log []]" by auto
  show ?thesis
    using Pbft_prepared_refused [OF run tasks, of "''p''" MT_CONSENSUS_PBFT_PREPARED prepared_log "[]"
        "chain_message0\<lparr>cm_Payload := PConsensusLog (Some prepared_log)\<rparr>" primary_sample map_cache empty_node]
    by (simp add: primary_sample_def)
qed

definition commit_log :: consensus_log where
  "commit_log = consensus_log0\<lparr>cl_PrimaryPeerId := ''p'', cl_PeerId := ''q'', cl_PeerIds := ''p,q,me''\<rparr>"

lemma commit_log_fields [simp]:
  "cl_PrimaryPeerId commit_log = ''p''" "cl_PeerId commit_log = ''q''" "cl_PeerIds commit_log = ''p,q,me''"
  by (simp_all add: commit_log_def)

theorem Pbft_duplicate_commit_panics_witness:
  "fst (Pbft_ReceiveCommited primary_sample map_cache
     (chain_message0\<lparr>cm_Payload := PConsensusLog (Some commit_log)\<rparr>)
     (empty_node\<lparr>nd_cache := [GetLogCacheKey (phase_log ''p'' commit_log MT_CONSENSUS_PBFT_COMMITED ''q'') \<mapsto>
        CLog commit_log]\<rparr>)) = Inl NilDereference"
  by (rule Pbft_duplicate_commit_panics [where m = commit_log and m' = commit_log])
    (auto simp: GetConsensusLog_def split: if_splits)

definition three_peers :: "unit env" where
  "three_peers = primary_sample\<lparr>orm_CountPeerEndpoint := (\<lambda>_ w. (3, w)), env_Intn := (\<lambda>_ _ w. (0, w)),
     orm_FindPeerEndpoint := (\<lambda>_ _ _ w. (Inr (map (\<lambda>i. peer_endpoint0\<lparr>pe_PeerId := i\<rparr>) [''me'', ''p'', ''q'']), w))\<rparr>"

lemma three_peers_received:
  "receive_block three_peers request_sample w = (Inr (data_block0\<lparr>db_BlockId := ''b'',
     db_PrimaryPeerId := ''me'', db_TransportPayload := ''x'', db_TransactionAmount := 1\<rparr>,
     myself_peer0\<lparr>my_Id := 1, my_PeerId := ''me''\<rparr>), w)"
  by (simp add: receive_block_def GetDataBlock_def decode_keys_def fill_amount_def request_sample_def chain_message0_def
      DataBlock_Validate_def data_block0_def MyselfPeer_GetFromCache_def cached_row_def three_peers_def primary_sample_def)

theorem Pbft_request_peers_witness:
  "length (nd_tasks (snd (Pbft_ReceiveConsensus three_peers request_sample empty_node))) = 2"
proof -
  have c: "ChooseConsensusPeer three_peers db () = ([''me'', ''p'', ''q''], ())" for db
    by (simp add: ChooseConsensusPeer_def PeerEndpoint_GetRand_def three_peers_def Let_def)
  have n: "env_now three_peers () = (Instant 0, ())" by (simp add: three_peers_def)
  from Pbft_request_peers [where s = empty_node, unfolded empty_node_fields, OF three_peers_received n c]
  show ?thesis by auto
qed

end
