(* ===== verification/RaftConsensus.thy ===== *)
theory RaftConsensus
  imports PbftConsensus
begin

text \<open>
  \<^verbatim>\<open>consensus/raft/default.go\<close>: like the PBFT handlers, but the peers answer only to the leader.
\<close>

section \<open>The handlers\<close>

text \<open>
  The log is a pointer that is kept in the cache before its \<open>PeerIds\<close> are set: what the cache holds
  afterwards is the log with them.
\<close>

definition Raft_ReceiveConsensus ::
  "'w env \<Rightarrow> 'c cache_ops \<Rightarrow> chain_message \<Rightarrow> ('w, 'c) node \<Rightarrow>
   chain_message option res \<times> ('w, 'c) node" where
  "Raft_ReceiveConsensus E C msg s =
     and_then (on_world (receive_block E msg) s) (\<lambda>(db, myselfPeer) s1.
       case on_world (CreateConsensusLog E msg db myselfPeer MT_CONSENSUS_RAFT_PREPREPARED) s1 of
         (lg, s2) \<Rightarrow>
           (case on_world (ChooseConsensusPeer E db) s2 of
              (peerIds, s3) \<Rightarrow>
                let enough = length peerIds > 2;
                    lg' = (if enough then lg\<lparr>cl_PeerIds := join_with '','' peerIds\<rparr> else lg);
                    s4 = cache_set C (GetDataBlockCacheKey (db_BlockId db) (db_SliceNumber db)) (CBlock db)
                           (cache_set C (GetLogCacheKey lg) (CLog lg') s3)
                in if enough then
                     (Inr None, send_blocks (my_PeerId myselfPeer) MT_CONSENSUS_RAFT_PREPREPARED db peerIds s4)
                   else (Inl (Err ''LessPeerLocation''), s4)))"

definition Raft_ReceivePreprepared ::
  "'w env \<Rightarrow> 'c cache_ops \<Rightarrow> chain_message \<Rightarrow> ('w, 'c) node \<Rightarrow>
   chain_message option res \<times> ('w, 'c) node" where
  "Raft_ReceivePreprepared E C msg s =
     and_then (check_preprepared E C MT_CONSENSUS_RAFT_PREPREPARED msg s) (\<lambda>checked s1.
       case checked of
         None \<Rightarrow> (Inr None, s1)
       | Some (db, myselfPeer) \<Rightarrow>
           (case on_world (CreateConsensusLog E msg db myselfPeer MT_CONSENSUS_RAFT_PREPREPARED) s1 of
              (lg, s2) \<Rightarrow>
                let lg = lg\<lparr>cl_Status := MT_CONSENSUS_RAFT_PREPARED\<rparr>;
                    s3 = cache_set C (GetLogCacheKey lg) (CLog lg) s2;
                    s4 = cache_set C (GetDataBlockCacheKey (db_BlockId db) (db_SliceNumber db)) (CBlock db) s3
                in (Inr None, go_start (GoConsensusLog (cl_PrimaryPeerId lg) MT_CONSENSUS_RAFT_PREPARED lg []) s4)))"

text \<open>
  What \<open>ReceivePrepared\<close> and \<open>ReceiveReply\<close> have in common, up to the test of the count: the log is
  recorded as prepared, and the peers are those of the cached block, a nil pointer when there is none.
\<close>

definition raft_collect ::
  "'w env \<Rightarrow> 'c cache_ops \<Rightarrow> chain_message \<Rightarrow> ('w, 'c) node \<Rightarrow>
   (consensus_log \<times> myself_peer \<times> data_block \<times> string list \<times> bool) res \<times> ('w, 'c) node" where
  "raft_collect E C msg s =
     and_then (GetConsensusLog msg, s) (\<lambda>messageLog s.
     and_then (on_world (known_myself E) s) (\<lambda>myselfPeer s1.
       if cl_PeerId messageLog = cl_PrimaryPeerId messageLog then (Inl (Err ''SendPrimaryPreparedMessage''), s1)
       else if cl_PrimaryPeerId messageLog \<noteq> my_PeerId myselfPeer then (Inl (Err ''SendMyselfMessage''), s1)
       else
         and_then (record_phase E C (GetLogCacheKey messageLog) MT_CONSENSUS_RAFT_PREPARED messageLog s1)
           (\<lambda>(cacheLog, messageLog) s2.
             and_then (cached_block C (GetDataBlockCacheKey (cl_BlockId messageLog) (cl_SliceNumber messageLog))
                         (nd_cache s2), s2)
               (\<lambda>dataBlock s2.
                 case dataBlock of
                   None \<Rightarrow> (Inl NilDereference, s2)
                 | Some db \<Rightarrow>
                     let peerIds = split_on (CHR '','') (db_PeerIds db) in
                     if length peerIds > 2 then
                       and_then (count_phase C (phase_log (my_PeerId myselfPeer) messageLog MT_CONSENSUS_RAFT_PREPARED)
                                   peerIds cacheLog (nd_cache s2), s2)
                         (\<lambda>(n, _) s2.
                           (Inr (messageLog, myselfPeer, db, peerIds, 1 + n > 2 * (length peerIds div 3)), s2))
                     else (Inl (Err ''LessPeerLocation''), s2)))))"

text \<open>The key of the last peer looked up: the node's own log is kept under it.\<close>

definition last_key :: "myself_peer \<Rightarrow> consensus_log \<Rightarrow> string list \<Rightarrow> string" where
  "last_key myselfPeer messageLog peerIds =
     GetLogCacheKey (phase_log (my_PeerId myselfPeer) messageLog MT_CONSENSUS_RAFT_PREPARED (last peerIds))"

definition Raft_ReceivePrepared ::
  "'w env \<Rightarrow> 'c cache_ops \<Rightarrow> chain_message \<Rightarrow> ('w, 'c) node \<Rightarrow>
   chain_message option res \<times> ('w, 'c) node" where
  "Raft_ReceivePrepared E C msg s =
     and_then (raft_collect E C msg s) (\<lambda>(messageLog, myselfPeer, _, peerIds, reached) s1.
       if reached then
         (let lg = (phase_log (my_PeerId myselfPeer) messageLog MT_CONSENSUS_RAFT_COMMITED (my_PeerId myselfPeer))
                     \<lparr>cl_Address := my_Address myselfPeer, cl_PublicKey := my_PublicKey myselfPeer\<rparr>
          in (Inr None, send_logs (my_PeerId myselfPeer) MT_CONSENSUS_RAFT_COMMITED lg peerIds
                (cache_set C (last_key myselfPeer messageLog peerIds) (CLog lg) s1)))
       else (Inr None, s1))"

text \<open>As in PBFT the block is a nil pointer.\<close>

definition Raft_ReceiveCommited ::
  "'w env \<Rightarrow> 'c cache_ops \<Rightarrow> chain_message \<Rightarrow> ('w, 'c) node \<Rightarrow>
   chain_message option res \<times> ('w, 'c) node" where
  "Raft_ReceiveCommited E C msg s =
     and_then (GetConsensusLog msg, s) (\<lambda>messageLog s.
     and_then (on_world (known_myself E) s) (\<lambda>myselfPeer s1.
       if cl_PeerId messageLog = my_PeerId myselfPeer then (Inl (Err ''SendMyselfMessage''), s1)
       else
         and_then (record_phase E C (GetLogCacheKey (phase_log (cl_PrimaryPeerId messageLog) messageLog
                       MT_CONSENSUS_RAFT_COMMITED (cl_PeerId messageLog)))
                     MT_CONSENSUS_RAFT_COMMITED messageLog s1)
           (\<lambda>_ s2. (Inl NilDereference, s2))))"

definition Raft_ReceiveReply ::
  "'w env \<Rightarrow> 'c cache_ops \<Rightarrow> chain_message \<Rightarrow> ('w, 'c) node \<Rightarrow>
   chain_message option res \<times> ('w, 'c) node" where
  "Raft_ReceiveReply E C msg s =
     and_then (raft_collect E C msg s) (\<lambda>(messageLog, myselfPeer, db, peerIds, reached) s1.
       if reached then
         (let lg = phase_log (my_PeerId myselfPeer) messageLog MT_CONSENSUS_RAFT_REPLY (my_PeerId myselfPeer)
          in (Inr None, go_start (GoConsensusLog (db_PeerId db) MT_CONSENSUS_RAFT_REPLY lg [])
                (cache_set C (last_key myselfPeer messageLog peerIds) (CLog lg) s1)))
       else (Inr None, s1))"

section \<open>Properties\<close>

text \<open>
  A follower never completes a commit: \<open>ReceiveCommited\<close> fails for every message, and starts no
  task, so that the leader never gets a reply.
\<close>

theorem Raft_commited_fails:
  "\<exists>e. fst (Raft_ReceiveCommited E C msg s) = Inl e \<and>
    nd_tasks (snd (Raft_ReceiveCommited E C msg s)) = nd_tasks s"
proof -
  have "silent (Raft_ReceiveCommited E C msg s) s"
    unfolding Raft_ReceiveCommited_def by (auto intro!: silent_intros split: if_splits)
  moreover have "\<exists>e. fst (Raft_ReceiveCommited E C msg s) = Inl e"
    by (auto simp: Raft_ReceiveCommited_def and_then_def split: prod.splits sum.splits)
  ultimately show ?thesis by (auto simp: silent_def)
qed

lemma phase_key: "cl_PrimaryPeerId m = p \<Longrightarrow> cl_Status m = t \<Longrightarrow>
    GetLogCacheKey (phase_log p (m\<lparr>cl_Status := t', cl_Id := i\<rparr>) t (cl_PeerId m)) = GetLogCacheKey m"
  by (simp add: GetLogCacheKey_def phase_log_def)

text \<open>
  C40: one peer is enough for the leader to commit: a prepared log of the peer that is listed first makes
  the loop count every peer after it, and the leader sends its commit to all of them.
\<close>

theorem Raft_first_prepared_commits:
  assumes "cache_laws C" and "GetConsensusLog msg = Inr m" and "known_myself E (nd_world s) = (Inr my, w)"
    and "cl_PrimaryPeerId m = my_PeerId my" and "cl_PeerId m \<noteq> my_PeerId my"
    and "cl_Status m = MT_CONSENSUS_RAFT_PREPARED" and "mc_Get C (GetLogCacheKey m) (nd_cache s) = None"
    and "mc_Get C (GetDataBlockCacheKey (cl_BlockId m) (cl_SliceNumber m)) (nd_cache s) = Some (CBlock db)"
    and "split_on (CHR '','') (db_PeerIds db) = cl_PeerId m # ids" and "2 \<le> length ids"
    and "\<forall>i db. mc_Get C (GetLogCacheKey (phase_log (my_PeerId my) m MT_CONSENSUS_RAFT_PREPARED i)) (nd_cache s) \<noteq>
           Some (CBlock db)"
    and "\<forall>l w. \<exists>i. fst (orm_InsertConsensusLog E l w) = l\<lparr>cl_Id := i\<rparr>"
  shows "\<exists>lg. nd_tasks (snd (Raft_ReceivePrepared E C msg s)) = nd_tasks s @
    map (\<lambda>i. GoConsensusLog i MT_CONSENSUS_RAFT_COMMITED lg []) (filter (\<lambda>i. my_PeerId my \<noteq> i) (cl_PeerId m # ids))"
proof -
  let ?k = "GetLogCacheKey m"
  obtain l w' where ins: "orm_InsertConsensusLog E (m\<lparr>cl_Id := 0, cl_Status := MT_CONSENSUS_RAFT_PREPARED\<rparr>) w = (l, w')"
    by fastforce
  obtain i where l: "l = m\<lparr>cl_Status := MT_CONSENSUS_RAFT_PREPARED, cl_Id := i\<rparr>"
    using assms(12) [rule_format, of "m\<lparr>cl_Id := 0, cl_Status := MT_CONSENSUS_RAFT_PREPARED\<rparr>" w] ins by auto
  let ?lg = "phase_log (my_PeerId my) l MT_CONSENSUS_RAFT_PREPARED"
  let ?c = "mc_SetDefault C ?k (CLog l) (nd_cache s)"
  have lg: "?lg = phase_log (my_PeerId my) m MT_CONSENSUS_RAFT_PREPARED"
    by (rule ext) (simp add: l phase_log_def)
  have key: "GetLogCacheKey (?lg (cl_PeerId m)) = ?k" using phase_key [of m] assms(4,6) l by simp
  have block: "mc_Get C (GetDataBlockCacheKey (cl_BlockId m) (cl_SliceNumber m)) ?c = Some (CBlock db)"
    using assms(7,8) by (auto simp: cache_get_set [OF assms(1)])
  have "\<exists>n y. count_phase C ?lg (cl_PeerId m # ids) None ?c = Inr (n, y)"
    by (rule count_phase_returns) (use assms(11) in \<open>auto simp: lg cache_get_set [OF assms(1)] split: if_splits\<close>)
  then obtain n y where n: "count_phase C ?lg (cl_PeerId m # ids) None ?c = Inr (n, y)" by blast
  have "in_phase C ?lg ?c (cl_PeerId m)" by (simp add: in_phase_def key cache_get_set [OF assms(1)])
  then have "n = Suc (length ids)" using count_phase_fresh [OF n] by simp
  then have "2 * (Suc (length ids) div 3) < Suc n" by linarith
  then have reached: "2 * (length (cl_PeerId m # ids) div 3) < 1 + n" by simp
  define s2 where "s2 = cache_set C ?k (CLog l) (s\<lparr>nd_world := w'\<rparr>)"
  have c2: "nd_cache s2 = ?c" and t2: "nd_tasks s2 = nd_tasks s" by (simp_all add: s2_def)
  have "record_phase E C ?k MT_CONSENSUS_RAFT_PREPARED m (s\<lparr>nd_world := w\<rparr>) = (Inr (None, l), s2)"
    using ins assms(7) by (simp add: record_phase_def cached_log_def on_world_def s2_def)
  moreover have "cl_BlockId l = cl_BlockId m" "cl_SliceNumber l = cl_SliceNumber m" by (simp_all add: l)
  moreover have "on_world (known_myself E) s = (Inr my, s\<lparr>nd_world := w\<rparr>)" by (simp add: on_world_def assms(3))
  ultimately have "raft_collect E C msg s = (Inr (l, my, db, cl_PeerId m # ids, True), s2)"
    using assms(2,4,5,9,10) n block reached
    by (simp add: raft_collect_def Let_def c2 cached_block_def del: count_phase.simps)
  then show ?thesis by (simp add: Raft_ReceivePrepared_def Let_def t2)
qed

lemma raft_collect_few:
  assumes "cache_laws C"
    and "mc_Get C (GetDataBlockCacheKey (cl_BlockId m) (cl_SliceNumber m)) (nd_cache n) = Some (CBlock db)"
    and "db_PeerIds db = []" and "GetConsensusLog msg = Inr m"
    and "\<forall>l w. \<exists>i. fst (orm_InsertConsensusLog E l w) = l\<lparr>cl_Id := i\<rparr>"
  shows "\<exists>e. fst (raft_collect E C msg n) = Inl e"
proof -
  have "\<exists>e. cached_block C (GetDataBlockCacheKey (cl_BlockId l) (cl_SliceNumber l)) (nd_cache s1) = Inl e \<or>
      cached_block C (GetDataBlockCacheKey (cl_BlockId l) (cl_SliceNumber l)) (nd_cache s1) = Inr (Some db)"
    if "record_phase E C k st m s0 = (Inr (x, l), s1)" "nd_cache s0 = nd_cache n" for k st s0 x l s1
  proof -
    have "cl_BlockId l = cl_BlockId m \<and> cl_SliceNumber l = cl_SliceNumber m"
    proof (cases x)
      case (Some y)
      with that show ?thesis
        by (auto simp: record_phase_def split: sum.splits option.splits if_splits prod.splits)
    next
      case None
      obtain l' w' where ins: "orm_InsertConsensusLog E (m\<lparr>cl_Id := 0, cl_Status := st\<rparr>) (nd_world s0) = (l', w')"
        by fastforce
      from assms(5) [rule_format, of "m\<lparr>cl_Id := 0, cl_Status := st\<rparr>" "nd_world s0"] ins
      have "cl_BlockId l' = cl_BlockId m \<and> cl_SliceNumber l' = cl_SliceNumber m" by auto
      with that None ins show ?thesis
        by (auto simp: record_phase_def on_world_def split: sum.splits option.splits if_splits)
    qed
    moreover have "nd_cache s1 = nd_cache n \<or> nd_cache s1 = mc_SetDefault C k (CLog l) (nd_cache n)"
      using that by (auto simp: record_phase_def dest!: on_world_Pair
          split: sum.splits option.splits if_splits prod.splits)
    ultimately show ?thesis using assms(2)
      by (cases "GetDataBlockCacheKey (cl_BlockId m) (cl_SliceNumber m) = k")
        (auto simp: cached_block_def cache_get_set [OF assms(1)])
  qed
  note block = this
  show ?thesis
  proof (cases "on_world (known_myself E) n")
    case (Pair r s0)
    then have c: "nd_cache s0 = nd_cache n" by (auto dest: on_world_Pair)
    obtain r1 s1 where rp: "record_phase E C (GetLogCacheKey m) MT_CONSENSUS_RAFT_PREPARED m s0 = (r1, s1)" by fastforce
    show ?thesis
    proof (cases r1)
      case (Inl e)
      with Pair rp assms(4) show ?thesis by (cases r) (auto simp: raft_collect_def Let_def)
    next
      case (Inr xl)
      obtain x l where xl: "xl = (x, l)" by fastforce
      with rp Inr have rp': "record_phase E C (GetLogCacheKey m) MT_CONSENSUS_RAFT_PREPARED m s0 = (Inr (x, l), s1)"
        by simp
      show ?thesis
      proof (cases r)
        case Inl
        with Pair assms(4) show ?thesis by (simp add: raft_collect_def)
      next
        case my: (Inr my)
        consider e where "cached_block C (GetDataBlockCacheKey (cl_BlockId l) (cl_SliceNumber l)) (nd_cache s1) = Inl e"
          | "cached_block C (GetDataBlockCacheKey (cl_BlockId l) (cl_SliceNumber l)) (nd_cache s1) = Inr (Some db)"
          using block [OF rp' c] by blast
        then show ?thesis
          by cases (use Pair assms(3,4) my rp' in \<open>simp_all add: raft_collect_def Let_def\<close>)
      qed
    qed
  qed
qed

text \<open>
  The leader takes the peers of a block from the client: \<open>ReceiveConsensus\<close> caches the block with
  the peers of the request and puts the chosen ones into the log only. A block that names no peers is
  sent to the chosen peers, and yet each prepared log for it is refused while the block is cached.
\<close>

theorem Raft_peers_of_client:
  assumes "cache_laws C" and "receive_block E msg (nd_world s) = (Inr (db, my), w)" and "db_PeerIds db = []"
    and "Raft_ReceiveConsensus E C msg s = (Inr None, s1)"
    and "mc_Get C (block_key db) (nd_cache n) = mc_Get C (block_key db) (nd_cache s1)"
    and "GetConsensusLog msg' = Inr m" and "cl_BlockId m = db_BlockId db" and "cl_SliceNumber m = db_SliceNumber db"
    and "\<forall>l w. \<exists>i. fst (orm_InsertConsensusLog E l w) = l\<lparr>cl_Id := i\<rparr>"
  shows "(\<exists>ids. 2 < length ids \<and> nd_tasks s1 = nd_tasks s @
      map (\<lambda>i. GoConsensusDataBlock i MT_CONSENSUS_RAFT_PREPREPARED db []) (filter (\<lambda>i. my_PeerId my \<noteq> i) ids)) \<and>
    (\<exists>e. fst (Raft_ReceivePrepared E C msg' n) = Inl e)"
proof
  obtain lg s2 where c: "on_world (CreateConsensusLog E msg db my MT_CONSENSUS_RAFT_PREPREPARED) (s\<lparr>nd_world := w\<rparr>) = (lg, s2)"
    by fastforce
  obtain ids s3 where p: "on_world (ChooseConsensusPeer E db) s2 = (ids, s3)" by fastforce
  have r: "on_world (receive_block E msg) s = (Inr (db, my), s\<lparr>nd_world := w\<rparr>)" by (simp add: on_world_def assms(2))
  have tasks: "nd_tasks s3 = nd_tasks s" using on_world_Pair [OF c] on_world_Pair [OF p] by simp
  have run: "2 < length ids" "nd_tasks s1 = nd_tasks s @
      map (\<lambda>i. GoConsensusDataBlock i MT_CONSENSUS_RAFT_PREPREPARED db []) (filter (\<lambda>i. my_PeerId my \<noteq> i) ids)"
      "mc_Get C (block_key db) (nd_cache s1) = Some (CBlock db)"
    using assms(4) r c p tasks
    by (auto simp: Raft_ReceiveConsensus_def Let_def block_key_def cache_get_set [OF assms(1)] split: if_splits)
  show "\<exists>ids. 2 < length ids \<and> nd_tasks s1 = nd_tasks s @
      map (\<lambda>i. GoConsensusDataBlock i MT_CONSENSUS_RAFT_PREPREPARED db []) (filter (\<lambda>i. my_PeerId my \<noteq> i) ids)"
    using run by blast
  have "mc_Get C (GetDataBlockCacheKey (cl_BlockId m) (cl_SliceNumber m)) (nd_cache n) = Some (CBlock db)"
    using run(3) assms(5,7,8) by (simp add: block_key_def)
  from raft_collect_few [OF assms(1) this assms(3,6,9)]
  show "\<exists>e. fst (Raft_ReceivePrepared E C msg' n) = Inl e"
    by (auto simp: Raft_ReceivePrepared_def and_then_def split: prod.splits sum.splits)
qed

section \<open>The properties on concrete messages\<close>

definition raft_log :: consensus_log where
  "raft_log = consensus_log0\<lparr>cl_PrimaryPeerId := ''me'', cl_PeerId := ''p'', cl_BlockId := ''b'',
     cl_Status := MT_CONSENSUS_RAFT_PREPARED\<rparr>"

lemma raft_log_fields [simp]:
  "cl_PrimaryPeerId raft_log = ''me''" "cl_PeerId raft_log = ''p''" "cl_BlockId raft_log = ''b''"
  "cl_Status raft_log = MT_CONSENSUS_RAFT_PREPARED" "cl_SliceNumber raft_log = 0"
  by (simp_all add: raft_log_def consensus_log0_def)

lemma raft_log_key [simp]:
  "GetLogCacheKey raft_log \<noteq> GetDataBlockCacheKey ''b'' 0"
  "GetLogCacheKey (phase_log ''me'' m t i) \<noteq> GetDataBlockCacheKey ''b'' 0"
  by (simp_all add: GetLogCacheKey_def GetDataBlockCacheKey_def phase_log_def)

lemma insert_id: "\<exists>i. l = l\<lparr>cl_Id := i\<rparr>" for l :: consensus_log
  by (rule exI [of _ "cl_Id l"]) simp

lemma insert_Pair: "\<forall>l w. \<exists>i. fst (Pair (l :: consensus_log) w) = l\<lparr>cl_Id := i\<rparr>"
  using insert_id by simp

theorem Raft_first_prepared_commits_witness:
  "\<exists>lg. nd_tasks (snd (Raft_ReceivePrepared primary_sample map_cache
     (chain_message0\<lparr>cm_Payload := PConsensusLog (Some raft_log)\<rparr>)
     (empty_node\<lparr>nd_cache := [GetDataBlockCacheKey ''b'' 0 \<mapsto> CBlock (data_block0\<lparr>db_PeerIds := ''p,q,me''\<rparr>)]\<rparr>))) =
   [GoConsensusLog ''p'' MT_CONSENSUS_RAFT_COMMITED lg [], GoConsensusLog ''q'' MT_CONSENSUS_RAFT_COMMITED lg []]"
proof -
  have "\<exists>lg. nd_tasks (snd (Raft_ReceivePrepared primary_sample map_cache
     (chain_message0\<lparr>cm_Payload := PConsensusLog (Some raft_log)\<rparr>)
     (empty_node\<lparr>nd_cache := [GetDataBlockCacheKey ''b'' 0 \<mapsto> CBlock (data_block0\<lparr>db_PeerIds := ''p,q,me''\<rparr>)]\<rparr>))) =
     nd_tasks (empty_node\<lparr>nd_cache := [GetDataBlockCacheKey ''b'' 0 \<mapsto> CBlock (data_block0\<lparr>db_PeerIds := ''p,q,me''\<rparr>)]\<rparr>) @
     map (\<lambda>i. GoConsensusLog i MT_CONSENSUS_RAFT_COMMITED lg [])
       (filter (\<lambda>i. my_PeerId (myself_peer0\<lparr>my_Id := 1, my_PeerId := ''me''\<rparr>) \<noteq> i) (cl_PeerId raft_log # [''q'', ''me'']))"
    by (rule Raft_first_prepared_commits [OF map_cache_laws])
      (use insert_Pair in \<open>auto simp: GetConsensusLog_def\<close>)
  then show ?thesis by simp
qed

theorem Raft_peers_of_client_witness:
  "\<exists>e. fst (Raft_ReceivePrepared three_peers map_cache
     (chain_message0\<lparr>cm_Payload := PConsensusLog (Some raft_log)\<rparr>)
     (snd (Raft_ReceiveConsensus three_peers map_cache request_sample empty_node))) = Inl e"
proof -
  have c: "ChooseConsensusPeer three_peers db () = ([''me'', ''p'', ''q''], ())" for db
    by (simp add: ChooseConsensusPeer_def PeerEndpoint_GetRand_def three_peers_def Let_def)
  have n: "env_now three_peers () = (Instant 0, ())" by (simp add: three_peers_def)
  obtain s1 where run: "Raft_ReceiveConsensus three_peers map_cache request_sample empty_node = (Inr None, s1)"
    by (simp add: Raft_ReceiveConsensus_def on_world_def three_peers_received c n CreateConsensusLog_def Let_def)
  have "db_PeerIds (data_block0\<lparr>db_BlockId := ''b'',
     db_PrimaryPeerId := ''me'', db_TransportPayload := ''x'', db_TransactionAmount := 1\<rparr>) = []"
    by (simp add: data_block0_def)
  from Raft_peers_of_client [OF map_cache_laws, of three_peers request_sample empty_node, unfolded empty_node_fields,
      OF three_peers_received this run refl, of "chain_message0\<lparr>cm_Payload := PConsensusLog (Some raft_log)\<rparr>" raft_log]
  moreover have "orm_InsertConsensusLog three_peers = Pair" by (simp add: three_peers_def)
  ultimately show ?thesis using insert_Pair by (auto simp: run GetConsensusLog_def data_block0_def)
qed

end
