(* ===== verification/DhtActions.thy ===== *)
theory DhtActions
  imports RaftConsensus
begin

text \<open>
  \<^verbatim>\<open>p2p/chain/action/dht\<close>: the handlers of the requests for the DHT (reading and writing values, finding
  peers and clients, querying blocks), of connections and of signals, and \<^verbatim>\<open>p2p/msg/service/biz\<close>, the
  messages stored for a client that was not connected. A handler takes the message and the node and
  returns the response; an error that it answers itself is a response, too.
\<close>

section \<open>Conditions\<close>

text \<open>\<open>x, err := m(); if err != nil { return handler.Error(t, err), nil }; f(x)\<close>\<close>

definition answering ::
  "string \<Rightarrow> 'a res \<times> 's \<Rightarrow> ('a \<Rightarrow> 's \<Rightarrow> chain_message option res \<times> 's) \<Rightarrow> chain_message option res \<times> 's" where
  "answering t m f =
     (case m of
        (Inl (Panic p), s) \<Rightarrow> (Inl (Panic p), s)
      | (Inl (Err e), s) \<Rightarrow> (Inr (Some (ErrorMessage t (Err e))), s)
      | (Inr x, s) \<Rightarrow> f x s)"

lemma answering_simps [simp]:
  "answering t (Inl (Panic p), s) f = (Inl (Panic p), s)"
  "answering t (Inl (Err e), s) f = (Inr (Some (ErrorMessage t (Err e))), s)"
  "answering t (Inr x, s) f = f x s"
  by (simp_all add: answering_def)

text \<open>The payload as a \<open>map[string]interface{}\<close>, and its fields: absent or nil is the zero value.\<close>

definition condition_bean :: "payload \<Rightarrow> (string \<times> json) list res" where
  "condition_bean p = (case p of PJson (JObj kvs) \<Rightarrow> Inr kvs | _ \<Rightarrow> Inl (Err ''ErrorCondition''))"

definition bean_string :: "(string \<times> json) list \<Rightarrow> string \<Rightarrow> string res" where
  "bean_string bean k =
     (case map_of bean k of
        None \<Rightarrow> Inr [] | Some JNull \<Rightarrow> Inr [] | Some (JStr s) \<Rightarrow> Inr s | Some _ \<Rightarrow> Inl BadAssertion)"

definition bean_bool :: "(string \<times> json) list \<Rightarrow> string \<Rightarrow> bool res" where
  "bean_bool bean k =
     (case map_of bean k of
        None \<Rightarrow> Inr False | Some JNull \<Rightarrow> Inr False | Some (JBool b) \<Rightarrow> Inr b | Some _ \<Rightarrow> Inl BadAssertion)"

definition bean_uint64 :: "'a library_scheme \<Rightarrow> (string \<times> json) list \<Rightarrow> string \<Rightarrow> uint64 res" where
  "bean_uint64 E bean k =
     (case map_of bean k of
        None \<Rightarrow> Inr 0 | Some JNull \<Rightarrow> Inr 0 | Some (JNum x) \<Rightarrow> Inr (lib_FloatToUint64 E x)
      | Some _ \<Rightarrow> Inl BadAssertion)"

text \<open>A field that must be given.\<close>

definition bean_required :: "(string \<times> json) list \<Rightarrow> string \<Rightarrow> string \<Rightarrow> string res" where
  "bean_required bean k err =
     (case bean_string bean k of Inl e \<Rightarrow> Inl e | Inr s \<Rightarrow> if s = [] then Inl (Err err) else Inr s)"

section \<open>Reading values, finding peers and clients\<close>

definition GetValue_Receive ::
  "'w env \<Rightarrow> chain_message \<Rightarrow> ('w, 'c) node \<Rightarrow> chain_message option res \<times> ('w, 'c) node" where
  "GetValue_Receive E msg s =
     (case cm_Payload msg of
        PString key \<Rightarrow>
          and_then (on_world (GetValue E key) s) (\<lambda>buf s1.
            (Inr (Some (ResponseMessage (cm_MessageType msg) (PString buf))), s1))
      | _ \<Rightarrow> (Inl (Err ''ErrorKey''), s))"

definition FindPeer_Receive ::
  "'w env \<Rightarrow> chain_message \<Rightarrow> ('w, 'c) node \<Rightarrow> chain_message option res \<times> ('w, 'c) node" where
  "FindPeer_Receive E msg s =
     (let t = cm_MessageType msg in
      answering t (condition_bean (cm_Payload msg), s) (\<lambda>bean s.
        and_then (bean_string bean ''peerId'', s) (\<lambda>peerId s.
          if peerId \<noteq> [] then
            answering t (on_world (PeerEndpoint_FindPeer E peerId) s) (\<lambda>addrInfo s1.
              (Inr (Some (ResponseMessage t (PAddrInfo addrInfo))), s1))
          else (Inr None, s))))"

definition clients_response :: "string \<Rightarrow> peer_client option list \<Rightarrow> chain_message" where
  "clients_response t peerClients =
     (ResponseMessage t (PPeerClients peerClients))\<lparr>cm_PayloadType := PayloadType_PeerClients\<rparr>"

definition FindClient_Receive ::
  "'w env \<Rightarrow> 'w datastores \<Rightarrow> chain_message \<Rightarrow> ('w, 'c) node \<Rightarrow> chain_message option res \<times> ('w, 'c) node" where
  "FindClient_Receive E R msg s =
     (let t = cm_MessageType msg in
      answering t (condition_bean (cm_Payload msg), s) (\<lambda>bean s.
        and_then (bean_string bean ''peerId'', s) (\<lambda>peerId s.
        and_then (bean_string bean ''mobile'', s) (\<lambda>mobile s.
        and_then (bean_string bean ''email'', s) (\<lambda>email s.
        and_then (bean_string bean ''name'', s) (\<lambda>name s.
          answering t (on_world (PeerClient_GetValues E R peerId mobile email name) s) (\<lambda>peerClients s1.
            (Inr (Some (clients_response t peerClients)), s1))))))))"

text \<open>The endpoint of another node is stored by a task; a payload of another type is a panic.\<close>

definition PeerEndPoint_Receive ::
  "'w env \<Rightarrow> chain_message \<Rightarrow> ('w, 'c) node \<Rightarrow> chain_message option res \<times> ('w, 'c) node" where
  "PeerEndPoint_Receive E msg s =
     (let t = cm_MessageType msg in
      case cm_Payload msg of
        PNil \<Rightarrow> (Inr None, s)
      | PPeerEndpoint None \<Rightarrow> (Inl NilDereference, s)
      | PPeerEndpoint (Some pe) \<Rightarrow>
          let pe = pe\<lparr>pe_ActiveStatus := ActiveStatus_Up\<rparr> in
          answering t (lib_Marshal E (PPeerEndpoint (Some pe)), s) (\<lambda>bytes s.
            (Inr (Some (OkMessage t)), go_start (GoPutLocal (GetPeerEndpointKey (pe_PeerId pe)) bytes) s))
      | _ \<Rightarrow> (Inl BadAssertion, s))"

section \<open>Writing values\<close>

text \<open>
  \<open>GetLocals\<close> for all clients of a peer, as \<open>PUTVALUE\<close> uses it: nil, when there is no record, is told
  from a list. \<open>local_clients_GetLocals\<close> shows that it is otherwise \<open>PeerClient_GetLocals\<close>.
\<close>

definition local_clients ::
  "'w env \<Rightarrow> 'w datastores \<Rightarrow> string \<Rightarrow> 'w \<Rightarrow> peer_client option list option res \<times> 'w" where
  "local_clients E R key w =
     and_then (GetLocal E R key w) (\<lambda>rec w1.
       case rec of
         None \<Rightarrow> (Inr None, w1)
       | Some r \<Rightarrow>
           and_then (lift_res (lib_UnmarshalPeerClients E (rec_Value r)) w1) (\<lambda>pcs w1. (Inr (Some pcs), w1)))"

definition put_client :: "'a library_scheme \<Rightarrow> go_time \<Rightarrow> peer_client \<Rightarrow> peer_client \<Rightarrow> peer_client" where
  "put_client E currentTime peerClient pc =
     (let pc = (if pc_ClientId pc = pc_ClientId peerClient then
                  pc\<lparr>pc_LastAccessTime := Some currentTime,
                     pc_Mobile := lib_EncodeBase64 E (lib_Hash E (pc_Mobile peerClient) ''sha3_256''),
                     pc_MobileVerified := pc_MobileVerified peerClient\<rparr>
                else pc)
      in pc\<lparr>pc_PreviousPublicKeySignature := pc_PreviousPublicKeySignature peerClient,
            pc_Signature := pc_Signature peerClient, pc_SignatureData := pc_SignatureData peerClient,
            pc_ExpireDate := pc_ExpireDate peerClient, pc_LastUpdateTime := pc_LastUpdateTime peerClient,
            pc_Name := pc_Name peerClient, pc_Avatar := pc_Avatar peerClient,
            pc_VisibilitySetting := pc_VisibilitySetting peerClient\<rparr>)"

definition put_clients ::
  "'w env \<Rightarrow> go_time \<Rightarrow> peer_client \<Rightarrow> peer_client option list \<Rightarrow> 'w \<Rightarrow> unit res \<times> 'w" where
  "put_clients E currentTime peerClient =
     each (\<lambda>pc w.
       case pc of
         None \<Rightarrow> (Inl NilDereference, w)
       | Some pc \<Rightarrow> PeerClient_PutValues E (put_client E currentTime peerClient pc) w)"

definition put_peer_client ::
  "'w env \<Rightarrow> 'w datastores \<Rightarrow> string \<Rightarrow> peer_client \<Rightarrow> 'w \<Rightarrow> chain_message option res \<times> 'w" where
  "put_peer_client E R t peerClient w =
     answering t (local_clients E R (GetPeerClientKey (pc_PeerId peerClient)) w) (\<lambda>pcs w1.
       case pcs of
         None \<Rightarrow> (Inr (Some (ErrorMessage t (Err ''NoLocalPCs''))), w1)
       | Some pcs \<Rightarrow>
           (case env_now E w1 of
              (currentTime, w2) \<Rightarrow>
                answering t (put_clients E currentTime peerClient pcs w2)
                  (\<lambda>_ w3. (Inr (Some (OkMessage t)), w3))))"

text \<open>
  The key and the value of the other payloads. After a failed encoding the empty value is written all
  the same; the error is answered.
\<close>

definition put_key :: "chain_message \<Rightarrow> (string \<times> payload) res" where
  "put_key msg =
     (case cm_Payload msg of
        PPeerEndpoint None \<Rightarrow> Inl NilDereference
      | PPeerEndpoint (Some pe) \<Rightarrow>
          Inr (''/'' @ PeerEndpoint_Prefix @ ''/'' @ pe_PeerId pe,
               PPeerEndpoint (Some (pe\<lparr>pe_ConnectSessionId := cm_ConnectSessionId msg\<rparr>)))
      | PChainApp None \<Rightarrow> Inl NilDereference
      | PChainApp (Some app) \<Rightarrow>
          Inr (''/'' @ ChainApp_Prefix @ ''/'' @ ca_PeerId app,
               PChainApp (Some (app\<lparr>ca_ConnectSessionId := cm_ConnectSessionId msg\<rparr>)))
      | PDataBlock None \<Rightarrow> Inl NilDereference
      | PDataBlock (Some db) \<Rightarrow> Inr (''/'' @ DataBlock_Prefix @ ''/'' @ db_BlockId db, PDataBlock (Some db))
      | p \<Rightarrow> Inr ([], p))"

definition put_other :: "'w env \<Rightarrow> string \<Rightarrow> string \<Rightarrow> payload \<Rightarrow> 'w \<Rightarrow> chain_message option res \<times> 'w" where
  "put_other E t key v w =
     (case lib_Marshal E v of
        Inl (Panic p) \<Rightarrow> (Inl (Panic p), w)
      | Inl (Err e) \<Rightarrow>
          answering t (PutValue E key [] w) (\<lambda>_ w1. (Inr (Some (ErrorMessage t (Err e))), w1))
      | Inr buf \<Rightarrow> answering t (PutValue E key buf w) (\<lambda>_ w1. (Inr (Some (OkMessage t)), w1)))"

definition PutValue_Receive ::
  "'w env \<Rightarrow> 'w datastores \<Rightarrow> chain_message \<Rightarrow> ('w, 'c) node \<Rightarrow> chain_message option res \<times> ('w, 'c) node" where
  "PutValue_Receive E R msg s =
     (case cm_Payload msg of
        PPeerClient None \<Rightarrow> (Inl NilDereference, s)
      | PPeerClient (Some peerClient) \<Rightarrow> on_world (put_peer_client E R (cm_MessageType msg) peerClient) s
      | _ \<Rightarrow> and_then (put_key msg, s) (\<lambda>(key, v). on_world (put_other E (cm_MessageType msg) key v)))"

lemma local_clients_GetLocals:
  "PeerClient_GetLocals E R key [] w =
     and_then (local_clients E R key w) (\<lambda>pcs w1. (Inr (case pcs of None \<Rightarrow> [] | Some pcs \<Rightarrow> pcs), w1))"
  by (auto simp: PeerClient_GetLocals_def local_clients_def and_then_def lift_res_def
      split: prod.splits sum.splits option.splits)

section \<open>Connections\<close>

text \<open>
  A client that connects is stored with the session over which it came. Two tasks send it the endpoints
  that are close to it and, when it is up, the messages that were kept for it.
\<close>

definition connected_client :: "chain_message \<Rightarrow> go_time \<Rightarrow> peer_client \<Rightarrow> peer_client" where
  "connected_client msg currentTime peerClient = peerClient\<lparr>
     pc_ConnectSessionId := cm_SrcConnectSessionId msg, pc_ConnectPeerId := cm_SrcConnectPeerId msg,
     pc_ConnectAddress := cm_SrcConnectAddress msg, pc_LastAccessTime := Some currentTime\<rparr>"

definition Connect_Receive ::
  "'w env \<Rightarrow> 'w datastores \<Rightarrow> chain_message \<Rightarrow> ('w, 'c) node \<Rightarrow> chain_message option res \<times> ('w, 'c) node" where
  "Connect_Receive E R msg s =
     (let t = cm_MessageType msg in
      case cm_Payload msg of
        PPeerClient None \<Rightarrow> (Inl NilDereference, s)
      | PPeerClient (Some peerClient) \<Rightarrow>
          (case on_world (env_now E) s of
             (currentTime, s1) \<Rightarrow>
               let pc = connected_client msg currentTime peerClient in
               and_then (on_world (PeerClient_PutValues E pc) s1) (\<lambda>_ s2.
                 let s3 = go_start (GoReturnPeerEndpoint msg) s2;
                     s4 = (if pc_ActiveStatus pc = ActiveStatus_Up then go_start (GoBizRelaySend pc) s3 else s3)
                 in answering t (on_world (PeerClient_GetValues E R (pc_PeerId pc) [] [] []) s4)
                      (\<lambda>peerClients s5.
                        (Inr (Some ((clients_response t peerClients)\<lparr>cm_TargetPeerId := pc_PeerId pc,
                                cm_ConnectPeerId := pc_PeerId pc, cm_NeedCompress := False\<rparr>)), s5))))
      | _ \<Rightarrow> (Inl (Err ''PayloadDataTypeError''), s))"

text \<open>\<open>biz.RelaySend\<close>: one task per message kept for the client; then the rows are deleted.\<close>

definition Biz_RelaySend :: "'w env \<Rightarrow> peer_client \<Rightarrow> ('w, 'c) node \<Rightarrow> unit res \<times> ('w, 'c) node" where
  "Biz_RelaySend E peerClient s =
     and_then (on_world (orm_FindChainMessage E (pc_PeerId peerClient)) s) (\<lambda>chainMessages s1.
       on_world (orm_DeleteChainMessage E (pc_PeerId peerClient))
         (fold (\<lambda>m. go_start (GoRelaySend m)) chainMessages s1))"

definition add_days :: "int \<Rightarrow> go_time \<Rightarrow> go_time" where
  "add_days d t = Instant (nanos t + d * 24 * 60 * 60 * 1000000000)"

definition DeleteTimeout :: "'w env \<Rightarrow> 'w \<Rightarrow> 'w" where
  "DeleteTimeout E w = (case env_now E w of (now, w1) \<Rightarrow> orm_DeleteChainMessageUntil E (add_days 7 now) w1)"

section \<open>Signals\<close>

text \<open>The receivers of signals, by name, and the single receiver of the other signals.\<close>

definition Signal_RegistReceiver ::
  "string \<Rightarrow> 'f \<Rightarrow> (string \<times> 'f) list \<Rightarrow> unit res \<times> (string \<times> 'f) list" where
  "Signal_RegistReceiver name receiver receivers =
     (case map_of receivers name of
        Some _ \<Rightarrow> (Inl (Err ''Exist''), receivers)
      | None \<Rightarrow> (Inr (), receivers @ [(name, receiver)]))"

definition Ion_RegistReceiver :: "'f \<Rightarrow> 'f option \<Rightarrow> unit res \<times> 'f option" where
  "Ion_RegistReceiver f receiver =
     (case receiver of None \<Rightarrow> (Inr (), Some f) | Some _ \<Rightarrow> (Inl (Err ''Exist''), receiver))"

definition is_bean :: "payload \<Rightarrow> json res" where
  "is_bean p = (case p of PJson (JObj kvs) \<Rightarrow> Inr (JObj kvs) | _ \<Rightarrow> Inl BadAssertion)"

text \<open>An error comes with a response, which the dispatcher drops.\<close>

definition Signal_Receive ::
  "'w env \<Rightarrow> (string \<times> 'f) list \<Rightarrow> chain_message \<Rightarrow> ('w, 'c) node \<Rightarrow> chain_message option res \<times> ('w, 'c) node" where
  "Signal_Receive E receivers msg s =
     (if cm_TargetPeerId msg \<noteq> [] \<and> IsMyself E (cm_TargetPeerId msg) then
        and_then (is_bean (cm_Payload msg), s) (\<lambda>signal s.
          if receivers = [] then (case on_world (env_now E) s of (_, s1) \<Rightarrow> (Inl (Err ''NoReceiver''), s1))
          else
            (case on_world (env_RangeKeys E (map fst receivers)) s of
               (names, s1) \<Rightarrow>
                 (case on_world (env_now E) (fold (\<lambda>name. go_start (GoReceiver name (cm_SrcPeerId msg) signal
                         (cm_SrcClientId msg) (cm_SrcConnectPeerId msg) (cm_SrcConnectSessionId msg))) names s1) of
                    (now, s2) \<Rightarrow> (Inr (Some (ResponseMessage (cm_MessageType msg) (PTime now))), s2))))
      else
        (case on_world (env_now E) (go_start (GoRelaySend msg) s) of
           (now, s1) \<Rightarrow> (Inr (Some (ResponseMessage (cm_MessageType msg) (PTime now))), s1)))"

record net_peer =
  np_TargetPeerId :: string
  np_ConnectPeerId :: string
  np_ConnectSessionId :: string
  np_PeerType :: string

definition IonSignal_Receive ::
  "'w env \<Rightarrow> 'w datastores \<Rightarrow> (net_peer \<Rightarrow> json \<Rightarrow> ('w, 'c) node \<Rightarrow> payload res \<times> ('w, 'c) node) option \<Rightarrow>
   chain_message \<Rightarrow> ('w, 'c) node \<Rightarrow> chain_message option res \<times> ('w, 'c) node" where
  "IonSignal_Receive E R receiver msg s =
     (if cm_TargetPeerId msg \<noteq> [] \<and> IsMyself E (cm_TargetPeerId msg) then
        and_then (is_bean (cm_Payload msg), s) (\<lambda>signal s.
          case receiver of
            None \<Rightarrow> (Inl (Err ''NoReceiver''), s)
          | Some f \<Rightarrow>
              and_then (f \<lparr>np_TargetPeerId = cm_SrcPeerId msg, np_ConnectPeerId = cm_SrcConnectPeerId msg,
                           np_ConnectSessionId = cm_SrcConnectSessionId msg, np_PeerType = []\<rparr> signal s)
                (\<lambda>res s1. (Inr (Some (ResponseMessage (cm_MessageType msg) res)), s1)))
      else RelaySend E R msg s)"

interpretation signal_receivers: registry
  "\<lambda>name f rs. snd (Signal_RegistReceiver name f rs)" "\<lambda>name rs. map_of rs name"
  by unfold_locales (auto simp: Signal_RegistReceiver_def map_add_def split: option.splits)

interpretation ion_receiver: registry "\<lambda>(_ :: unit) f r. snd (Ion_RegistReceiver f r)" "\<lambda>_ r. r"
  by unfold_locales (auto simp: Ion_RegistReceiver_def split: option.splits)

section \<open>Querying the index of the blocks\<close>

text \<open>
  The key of the index entries, its kind, and the numbers that the request gives. A block type without
  an index has the empty key.
\<close>

record index_query =
  iq_key :: string
  iq_keyKind :: string
  iq_createPeerId :: string
  iq_businessNumber :: string
  iq_parentBusinessNumber :: string

definition index_query :: "(string \<times> json) list \<Rightarrow> string \<Rightarrow> index_query res" where
  "index_query bean blockType =
     (if blockType = BlockType_Collection then
        (case bean_required bean ''createPeerId'' ''NullCreatePeerId'' of
           Inl e \<Rightarrow> Inl e
         | Inr c \<Rightarrow> Inr \<lparr>iq_key = GetPeerTransactionSrcKey c, iq_keyKind = PeerTransaction_Src_KeyKind,
                       iq_createPeerId = c, iq_businessNumber = [], iq_parentBusinessNumber = []\<rparr>)
      else if blockType = BlockType_P2pChat then
        (case bean_required bean ''businessNumber'' ''NullBusinessNumber'' of
           Inl e \<Rightarrow> Inl e
         | Inr b \<Rightarrow> Inr \<lparr>iq_key = GetPeerTransactionP2pChatKey b, iq_keyKind = PeerTransaction_P2PChat_KeyKind,
                       iq_createPeerId = [], iq_businessNumber = b, iq_parentBusinessNumber = []\<rparr>)
      else if blockType = BlockType_GroupFile then
        (case bean_required bean ''businessNumber'' ''NullBusinessNumber'' of
           Inl e \<Rightarrow> Inl e
         | Inr b \<Rightarrow> Inr \<lparr>iq_key = GetPeerTransactionGroupFileKey b, iq_keyKind = PeerTransaction_GroupFile_KeyKind,
                       iq_createPeerId = [], iq_businessNumber = b, iq_parentBusinessNumber = []\<rparr>)
      else if blockType = BlockType_Channel then
        Inr \<lparr>iq_key = GetPeerTransactionChannelKey (transaction_type BlockType_Channel),
             iq_keyKind = PeerTransaction_Channel_KeyKind,
             iq_createPeerId = [], iq_businessNumber = [], iq_parentBusinessNumber = []\<rparr>
      else if blockType = BlockType_ChannelArticle then
        (case bean_required bean ''parentBusinessNumber'' ''NullParentBusinessNumber'' of
           Inl e \<Rightarrow> Inl e
         | Inr b \<Rightarrow> Inr \<lparr>iq_key = GetPeerTransactionChannelArticleKey b,
                       iq_keyKind = PeerTransaction_ChannelArticle_KeyKind,
                       iq_createPeerId = [], iq_businessNumber = [], iq_parentBusinessNumber = b\<rparr>)
      else Inr \<lparr>iq_key = [], iq_keyKind = [], iq_createPeerId = [], iq_businessNumber = [],
                iq_parentBusinessNumber = []\<rparr>)"

text \<open>\<open>ptMap\<close>: the first entry found for a block stays.\<close>

fun add_pts ::
  "peer_transaction option list \<Rightarrow> (string \<times> peer_transaction) list \<Rightarrow> (string \<times> peer_transaction) list res" where
  "add_pts [] ptMap = Inr ptMap"
| "add_pts (None # pts) ptMap = Inl NilDereference"
| "add_pts (Some pt # pts) ptMap =
     add_pts pts (if map_of ptMap (pt_BlockId pt) = None then ptMap @ [(pt_BlockId pt, pt)] else ptMap)"

fun add_values ::
  "'a library_scheme \<Rightarrow> string list \<Rightarrow> (string \<times> peer_transaction) list \<Rightarrow> (string \<times> peer_transaction) list res" where
  "add_values E [] ptMap = Inr ptMap"
| "add_values E (recvdVal # recvdVals) ptMap =
     (case lib_TextUnmarshalPeerTransactions E recvdVal of
        Inl e \<Rightarrow> Inl e
      | Inr pts \<Rightarrow>
          (case add_pts pts ptMap of Inl e \<Rightarrow> Inl e | Inr ptMap' \<Rightarrow> add_values E recvdVals ptMap'))"

text \<open>At level 2 the local entries are taken out of the database, so that the DHT asks the others.\<close>

definition find_index ::
  "'w env \<Rightarrow> 'w datastores \<Rightarrow> index_query \<Rightarrow> 'w \<Rightarrow> (string \<times> peer_transaction) list res \<times> 'w" where
  "find_index E R q w =
     (if cfg_FaultTolerantLevel E = 0 then
        and_then (GetValues E (iq_key q) w) (\<lambda>recvdVals w1. (add_values E recvdVals [], w1))
      else if cfg_FaultTolerantLevel E = 2 then
        and_then (GetLocalPTs E R (iq_keyKind q) (iq_createPeerId q) [] (iq_businessNumber q)
            (iq_parentBusinessNumber q) w) (\<lambda>locals w1.
        and_then (lift_res (add_pts locals []) w1) (\<lambda>ptMap w1.
          let w2 = (if locals \<noteq> [] then orm_DeletePeerTransactions E locals w1 else w1) in
          and_then (GetValues E (iq_key q) w2) (\<lambda>recvdVals w3.
          and_then (PutLocalPTs E R (iq_keyKind q) locals w3) (\<lambda>_ w4.
            (add_values E recvdVals ptMap, w4)))))
      else (Inr [], w))"

definition index_block :: "peer_transaction \<Rightarrow> data_block" where
  "index_block v = data_block0\<lparr>
     db_BlockId := pt_BlockId v, db_ParentBusinessNumber := pt_ParentBusinessNumber v,
     db_BusinessNumber := pt_BusinessNumber v, db_CreateTimestamp := pt_CreateTimestamp v,
     db_PrimaryPeerId := pt_PrimaryPeerId v, db_Metadata := pt_Metadata v, db_Thumbnail := pt_Thumbnail v,
     db_Name := pt_Name v, db_Description := pt_Description v, db_PeerId := pt_SrcPeerId v\<rparr>"

definition query_index ::
  "'w env \<Rightarrow> 'w datastores \<Rightarrow> (string \<times> json) list \<Rightarrow> 'w \<Rightarrow> data_block option list res \<times> 'w" where
  "query_index E R bean w =
     and_then (lift_res (bean_required bean ''blockType'' ''NullBlockType'') w) (\<lambda>blockType w.
     and_then (lift_res (index_query bean blockType) w) (\<lambda>q w.
     and_then (find_index E R q w) (\<lambda>ptMap w1.
       case env_RangeKeys E (map fst ptMap) w1 of
         (blockIds, w2) \<Rightarrow> (Inr (map (\<lambda>pt. Some (index_block pt)) (List.map_filter (map_of ptMap) blockIds)), w2))))"

section \<open>Querying blocks\<close>

text \<open>The test of the blocks from the DHT: as in \<open>GetLocalDBs\<close>, but a block without keys is open to all.\<close>

definition remote_receivable :: "string \<Rightarrow> uint64 \<Rightarrow> data_block \<Rightarrow> bool" where
  "remote_receivable receiverPeerId sliceNumber db \<longleftrightarrow>
     receiverPeerId \<noteq> [] \<and>
     (sliceNumber \<noteq> 1 \<or> block_keys db = [] \<or> list_ex (\<lambda>tk. tk_PeerId tk = receiverPeerId) (block_keys db))"

fun select_remote :: "string \<Rightarrow> uint64 \<Rightarrow> data_block option list \<Rightarrow> data_block option list res" where
  "select_remote receiverPeerId sliceNumber [] = Inr []"
| "select_remote receiverPeerId sliceNumber (None # dbs) =
     (if receiverPeerId \<noteq> [] \<and> sliceNumber = 0 then select_remote receiverPeerId sliceNumber dbs
      else Inl NilDereference)"
| "select_remote receiverPeerId sliceNumber (Some db # dbs) =
     (case select_remote receiverPeerId sliceNumber dbs of
        Inl e \<Rightarrow> Inl e
      | Inr rest \<Rightarrow>
          if ((receiverPeerId = [] \<and> db_PayloadKey db = []) \<or>
              (receiverPeerId \<noteq> [] \<and> remote_receivable receiverPeerId sliceNumber db)) \<and>
             (sliceNumber > 0 \<and> db_SliceNumber db = sliceNumber)
          then Inr (Some db # rest) else Inr rest)"

fun select_values ::
  "'a library_scheme \<Rightarrow> string \<Rightarrow> uint64 \<Rightarrow> string list \<Rightarrow> data_block option list res" where
  "select_values E receiverPeerId sliceNumber [] = Inr []"
| "select_values E receiverPeerId sliceNumber (recvdVal # recvdVals) =
     (case lib_TextUnmarshalDataBlocks E recvdVal of
        Inl e \<Rightarrow> Inl e
      | Inr dbs \<Rightarrow>
          (case select_remote receiverPeerId sliceNumber dbs of
             Inl e \<Rightarrow> Inl e
           | Inr selected \<Rightarrow>
               (case select_values E receiverPeerId sliceNumber recvdVals of
                  Inl e \<Rightarrow> Inl e
                | Inr rest \<Rightarrow> Inr (selected @ rest))))"

definition put_values :: "'w env \<Rightarrow> 'w datastores \<Rightarrow> string list \<Rightarrow> 'w \<Rightarrow> unit res \<times> 'w" where
  "put_values E R =
     each (\<lambda>recvdVal w.
       and_then (lift_res (lib_TextUnmarshalDataBlocks E recvdVal) w) (PutLocalDBs E R DataBlock_KeyKind))"

text \<open>The local blocks that are to be taken out of the database: those of slice number 0.\<close>

definition take_locals ::
  "'w env \<Rightarrow> 'w datastores \<Rightarrow> string \<Rightarrow> string \<Rightarrow> 'w \<Rightarrow> data_block option list res \<times> 'w" where
  "take_locals E R blockId receiverPeerId w =
     and_then (GetLocalDBs E R DataBlock_KeyKind [] blockId receiverPeerId 0 w) (\<lambda>locals w1.
       (Inr locals, if locals \<noteq> [] then orm_DeleteDataBlocks E locals w1 else w1))"

definition find_blocks ::
  "'w env \<Rightarrow> 'w datastores \<Rightarrow> string \<Rightarrow> string \<Rightarrow> uint64 \<Rightarrow> 'w \<Rightarrow> data_block option list res \<times> 'w" where
  "find_blocks E R blockId receiverPeerId sliceNumber w =
     (let key = GetDataBlockKey blockId in
      if cfg_FaultTolerantLevel E = 0 then
        and_then (GetValues E key w) (\<lambda>recvdVals w1. (select_values E receiverPeerId sliceNumber recvdVals, w1))
      else if cfg_FaultTolerantLevel E = 2 then
        and_then (take_locals E R blockId receiverPeerId w) (\<lambda>locals w1.
        and_then (GetValues E key w1) (\<lambda>recvdVals w2.
        and_then (PutLocalDBs E R DataBlock_KeyKind locals w2) (\<lambda>_ w3.
        and_then (put_values E R recvdVals w3) (\<lambda>_ w4.
        and_then (GetLocalDBs E R DataBlock_KeyKind [] blockId receiverPeerId sliceNumber w4) (\<lambda>dbs w5.
          (filter_blocks receiverPeerId sliceNumber dbs, w5))))))
      else (Inr [], w))"

definition query_blocks ::
  "'w env \<Rightarrow> 'w datastores \<Rightarrow> (string \<times> json) list \<Rightarrow> 'w \<Rightarrow> data_block option list res \<times> 'w" where
  "query_blocks E R bean w =
     and_then (lift_res (bean_required bean ''blockId'' ''NullBlockId'') w) (\<lambda>blockId w.
     and_then (lift_res (bean_uint64 E bean ''sliceNumber'') w) (\<lambda>sliceNumber w.
     and_then (lift_res (bean_bool bean ''receiverPeer'') w) (\<lambda>receiverPeer w.
     and_then (lift_res (if receiverPeer then bean_required bean ''receiverPeerId'' ''NullReceiverPeerId'' else Inr []) w)
       (\<lambda>receiverPeerId. find_blocks E R blockId receiverPeerId sliceNumber))))"

definition QueryValue_Receive ::
  "'w env \<Rightarrow> 'w datastores \<Rightarrow> chain_message \<Rightarrow> ('w, 'c) node \<Rightarrow> chain_message option res \<times> ('w, 'c) node" where
  "QueryValue_Receive E R msg s =
     (let t = cm_MessageType msg in
      answering t (condition_bean (cm_Payload msg), s) (\<lambda>bean s.
        and_then (bean_bool bean ''getAllBlockIndex'', s) (\<lambda>getAllBlockIndex s.
          answering t (on_world (if getAllBlockIndex then query_index E R bean else query_blocks E R bean) s)
            (\<lambda>dataBlocks s1.
              (Inr (Some ((ResponseMessage t (PDataBlocks dataBlocks))\<lparr>cm_PayloadType := PayloadType_DataBlock\<rparr>)),
               s1)))))"

section \<open>Properties of the queries\<close>

definition block_matches :: "string \<Rightarrow> uint64 \<Rightarrow> data_block option \<Rightarrow> bool" where
  "block_matches receiverPeerId n d \<longleftrightarrow>
     (\<exists>b. d = Some b \<and> n > 0 \<and> db_SliceNumber b = n \<and>
       (if receiverPeerId = [] then db_PayloadKey b = []
        else n = 1 \<longrightarrow> block_keys b \<noteq> [] \<longrightarrow> list_ex (\<lambda>tk. tk_PeerId tk = receiverPeerId) (block_keys b)))"

lemma select_remote_matches:
  "select_remote rcv n ds = Inr res \<Longrightarrow> d \<in> set res \<Longrightarrow> block_matches rcv n d"
  by (induction rcv n ds arbitrary: res rule: select_remote.induct)
    (auto simp: block_matches_def remote_receivable_def split: sum.splits if_splits)

lemma select_values_matches:
  "select_values E rcv n vs = Inr res \<Longrightarrow> d \<in> set res \<Longrightarrow> block_matches rcv n d"
  by (induction E rcv n vs arbitrary: res rule: select_values.induct)
    (auto dest: select_remote_matches split: sum.splits)

lemma filter_blocks_matches:
  "filter_blocks rcv n ds = Inr res \<Longrightarrow> d \<in> set res \<Longrightarrow> block_matches rcv n d"
  by (induction ds arbitrary: res)
    (auto simp: block_matches_def block_selected_def receivable_def
      split: sum.splits if_splits option.splits)

lemma find_blocks_matches:
  "find_blocks E R blockId rcv n w = (Inr res, w') \<Longrightarrow> d \<in> set res \<Longrightarrow> block_matches rcv n d"
  by (auto simp: find_blocks_def Let_def and_then_Inr dest: select_values_matches filter_blocks_matches
      split: if_splits)

text \<open>
  A query for blocks answers, at every level of fault tolerance, only with blocks of the slice number
  asked for, which must be positive: without a receiver only blocks that are not encrypted, with one
  only first slices that have a key for it or no keys at all.
\<close>

theorem query_blocks_selected:
  assumes "query_blocks E R bean w = (Inr dbs, w')" and "bean_uint64 E bean ''sliceNumber'' = Inr n"
    and "bean_bool bean ''receiverPeer'' = Inr rp" and "d \<in> set dbs"
  shows "\<exists>rcv. (rcv = [] \<longleftrightarrow> \<not> rp) \<and> (rp \<longrightarrow> bean_string bean ''receiverPeerId'' = Inr rcv) \<and>
    block_matches rcv n d"
  using assms find_blocks_matches [OF _ assms(4)]
  by (cases rp) (auto simp: query_blocks_def and_then_Inr bean_required_def split: sum.splits if_splits)

text \<open>
  The local blocks that a query at level 2 means to take out of the database before it asks the DHT
  are never there: they are looked up with slice number 0, for which nothing is found.
\<close>

theorem take_locals_nothing:
  assumes "take_locals E R blockId receiverPeerId w = (Inr locals, w')"
  shows "locals = [] \<and> GetLocalDBs E R DataBlock_KeyKind [] blockId receiverPeerId 0 w = (Inr [], w')"
proof -
  obtain w1 where l: "GetLocalDBs E R DataBlock_KeyKind [] blockId receiverPeerId 0 w = (Inr locals, w1)"
    and w': "w' = (if locals \<noteq> [] then orm_DeleteDataBlocks E locals w1 else w1)"
    using assms by (auto simp: take_locals_def and_then_Inr)
  have "locals = []"
    using l by (auto simp: GetLocalDBs_def and_then_Inr dest: filter_blocks_0 split: option.splits)
  with l w' show ?thesis by simp
qed

definition index_map :: "(string \<times> peer_transaction) list \<Rightarrow> bool" where
  "index_map m \<longleftrightarrow> distinct (map fst m) \<and> (\<forall>(k, pt)\<in>set m. pt_BlockId pt = k)"

lemma index_map_Nil [simp]: "index_map []"
  by (simp add: index_map_def)

lemma add_pts_index_map: "add_pts pts m = Inr m' \<Longrightarrow> index_map m \<Longrightarrow> index_map m'"
proof (induction pts m rule: add_pts.induct)
  case (3 pt pts m)
  have "index_map (if map_of m (pt_BlockId pt) = None then m @ [(pt_BlockId pt, pt)] else m)"
    using 3(3) by (auto simp: index_map_def map_of_eq_None_iff)
  with 3 show ?case by simp
qed auto

lemma add_values_index_map: "add_values E vs m = Inr m' \<Longrightarrow> index_map m \<Longrightarrow> index_map m'"
  by (induction E vs m rule: add_values.induct) (auto dest: add_pts_index_map split: sum.splits)

lemma find_index_index_map: "find_index E R q w = (Inr m, w') \<Longrightarrow> index_map m"
  by (auto simp: find_index_def Let_def and_then_Inr dest: add_pts_index_map add_values_index_map split: if_splits)

lemma index_map_blocks:
  assumes "index_map m" "mset ks = mset (map fst m)"
  shows "distinct (map (\<lambda>d. db_BlockId (the d)) (map (\<lambda>pt. Some (index_block pt)) (List.map_filter (map_of m) ks)))"
proof -
  have "distinct ks" using assms by (metis index_map_def mset_eq_imp_distinct_iff)
  have id: "pt_BlockId pt = k" if "map_of m k = Some pt" for k pt
    using that assms(1) by (auto simp: index_map_def dest!: map_of_SomeD)
  have ks: "map (\<lambda>pt. pt_BlockId pt) (List.map_filter (map_of m) js) = filter (\<lambda>k. map_of m k \<noteq> None) js" for js
    by (induction js) (auto simp: List.map_filter_simps id split: option.splits)
  have "map (\<lambda>d. db_BlockId (the d)) (map (\<lambda>pt. Some (index_block pt)) (List.map_filter (map_of m) ks)) =
      map (\<lambda>pt. pt_BlockId pt) (List.map_filter (map_of m) ks)"
    by (simp add: index_block_def)
  with ks [of ks] \<open>distinct ks\<close> show ?thesis by simp
qed

text \<open>
  A query of the index lists each block once, however often the entries of its slices and the copies
  at several nodes are found; the order is that of a Go map.
\<close>

theorem query_index_distinct:
  assumes "query_index E R bean w = (Inr dbs, w')"
    and "\<forall>ks w. mset (fst (env_RangeKeys E ks w)) = mset ks"
  shows "None \<notin> set dbs \<and> distinct (map (\<lambda>d. db_BlockId (the d)) dbs)"
proof -
  obtain q m w1 where m: "find_index E R q w = (Inr m, w1)"
    and run: "(case env_RangeKeys E (map fst m) w1 of (ks, w2) \<Rightarrow>
        (Inr (map (\<lambda>pt. Some (index_block pt)) (List.map_filter (map_of m) ks)) :: data_block option list res, w2)) =
        (Inr dbs, w')"
    using assms(1) by (auto simp: query_index_def and_then_Inr)
  obtain ks w2 where ks: "env_RangeKeys E (map fst m) w1 = (ks, w2)" by fastforce
  with run have dbs: "dbs = map (\<lambda>pt. Some (index_block pt)) (List.map_filter (map_of m) ks)" by simp
  have "mset ks = mset (map fst m)" using assms(2) ks by (metis fst_conv)
  from index_map_blocks [OF find_index_index_map [OF m] this] show ?thesis using dbs by auto
qed

section \<open>Properties of the other handlers\<close>

text \<open>
  When a client has connected, it has been stored with the session of its message, and the tasks
  that were started send it the endpoints and, if it is up, the messages kept for it.
\<close>

theorem Connect_stores_session:
  assumes "cm_Payload msg = PPeerClient (Some pc)" and "env_now E (nd_world s) = (now, w1)"
    and "Connect_Receive E R msg s = (Inr (Some response), s')"
  shows "\<exists>pc' w2. PeerClient_PutValues E pc' w1 = (Inr (), w2) \<and> pc_PeerId pc' = pc_PeerId pc \<and>
    pc_ConnectSessionId pc' = cm_SrcConnectSessionId msg \<and> pc_ConnectPeerId pc' = cm_SrcConnectPeerId msg \<and>
    pc_ConnectAddress pc' = cm_SrcConnectAddress msg \<and> pc_LastAccessTime pc' = Some now \<and>
    nd_tasks s' = nd_tasks s @ GoReturnPeerEndpoint msg #
      (if pc_ActiveStatus pc = ActiveStatus_Up then [GoBizRelaySend pc'] else [])"
proof -
  let ?pc = "connected_client msg now pc"
  obtain r w2 where put: "PeerClient_PutValues E ?pc w1 = (r, w2)" by fastforce
  have "r = Inr ()" using assms put
    by (cases r) (auto simp: Connect_Receive_def on_world_def Let_def)
  then show ?thesis using assms put
    by (intro exI [of _ ?pc] exI [of _ w2])
      (auto simp: Connect_Receive_def on_world_def Let_def connected_client_def answering_def
        split: prod.splits sum.splits go_error.splits if_splits)
qed

lemma fold_go_start [simp]:
  "nd_tasks (fold (\<lambda>m. go_start (f m)) ms s) = nd_tasks s @ map f ms"
  "nd_world (fold (\<lambda>m. go_start (f m)) ms s) = nd_world s"
  by (induction ms arbitrary: s) simp_all

text \<open>
  Each message kept for a client is relayed once when the client connects, in the order in which the
  database returns them, and then all rows of the client are deleted.
\<close>

theorem Biz_RelaySend_all:
  assumes "orm_FindChainMessage E (pc_PeerId pc) (nd_world s) = (Inr ms, w1)"
  shows "nd_tasks (snd (Biz_RelaySend E pc s)) = nd_tasks s @ map GoRelaySend ms \<and>
    nd_world (snd (Biz_RelaySend E pc s)) = snd (orm_DeleteChainMessage E (pc_PeerId pc) w1)"
  using assms by (simp add: Biz_RelaySend_def on_world_def split: prod.splits)

text \<open>
  The nightly deletion of the messages that are older than seven days deletes all of them: its limit
  lies seven days in the future.
\<close>

theorem DeleteTimeout_deletes_all:
  assumes "env_now E w = (now, w1)"
  shows "\<exists>limit. DeleteTimeout E w = orm_DeleteChainMessageUntil E limit w1 \<and> (\<forall>created\<le>now. created < limit)"
proof -
  have "created < add_days 7 now" if "created \<le> now" for created
    using that by (cases created; cases now) (simp add: add_days_def)
  with assms show ?thesis by (auto simp: DeleteTimeout_def)
qed

section \<open>The properties on concrete requests\<close>

definition query_sample :: "unit env" where
  "query_sample = sample_env\<lparr>
     kad_SearchValue := (\<lambda>_ w. (([''v''], None), w)),
     lib_TextUnmarshalDataBlocks := (\<lambda>_. Inr [Some (data_block0\<lparr>db_SliceNumber := 1\<rparr>),
        Some (data_block0\<lparr>db_SliceNumber := 2\<rparr>), Some (data_block0\<lparr>db_SliceNumber := 1, db_PayloadKey := ''k''\<rparr>)]),
     lib_TextUnmarshalPeerTransactions := (\<lambda>_. Inr [Some (peer_transaction0\<lparr>pt_BlockId := ''b'', pt_Name := ''x''\<rparr>),
        Some (peer_transaction0\<lparr>pt_BlockId := ''b'', pt_Name := ''y''\<rparr>)])\<rparr>"

lemma query_sample_fields [simp]:
  "cfg_FaultTolerantLevel query_sample = 0"
  "kad_SearchValue query_sample = (\<lambda>_ w. (([''v''], None), w))"
  "lib_FloatToUint64 query_sample = (\<lambda>r. word_of_int \<lfloor>r\<rfloor>)"
  "env_RangeKeys query_sample = Pair"
  "lib_TextUnmarshalDataBlocks query_sample = (\<lambda>_. Inr [Some (data_block0\<lparr>db_SliceNumber := 1\<rparr>),
     Some (data_block0\<lparr>db_SliceNumber := 2\<rparr>), Some (data_block0\<lparr>db_SliceNumber := 1, db_PayloadKey := ''k''\<rparr>)])"
  "lib_TextUnmarshalPeerTransactions query_sample = (\<lambda>_. Inr [Some (peer_transaction0\<lparr>pt_BlockId := ''b'', pt_Name := ''x''\<rparr>),
     Some (peer_transaction0\<lparr>pt_BlockId := ''b'', pt_Name := ''y''\<rparr>)])"
  by (simp_all add: query_sample_def)

lemma sample_query:
  "query_blocks query_sample no_datastores [(''blockId'', JStr ''b''), (''sliceNumber'', JNum 1)] () =
     (Inr [Some (data_block0\<lparr>db_SliceNumber := 1\<rparr>)], ())"
  by (simp add: query_blocks_def bean_required_def bean_string_def bean_uint64_def bean_bool_def find_blocks_def
      GetValues_def Let_def remote_receivable_def data_block0_def)

theorem query_blocks_selected_witness:
  "block_matches [] 1 (Some (data_block0\<lparr>db_SliceNumber := 1\<rparr>))"
  using query_blocks_selected [OF sample_query, of 1 False "Some (data_block0\<lparr>db_SliceNumber := 1\<rparr>)"]
  by (auto simp: bean_uint64_def bean_bool_def)

theorem take_locals_nothing_witness:
  "GetLocalDBs dht_sample block_datastores DataBlock_KeyKind [] ''b'' [] 0 () = (Inr [], ())"
proof -
  obtain locals where run: "take_locals dht_sample block_datastores ''b'' [] () = (Inr locals, ())"
    by (simp add: take_locals_def GetLocalDBs_def GetLocal_dht_sample block_selected_def)
  from take_locals_nothing [OF run] show ?thesis by simp
qed

theorem query_index_distinct_witness:
  "\<exists>d. query_index query_sample no_datastores [(''blockType'', JStr BlockType_Channel)] () = (Inr [d], ()) \<and>
     distinct [db_BlockId (the d)]"
proof -
  have run: "query_index query_sample no_datastores [(''blockType'', JStr BlockType_Channel)] () =
      (Inr [Some (index_block (peer_transaction0\<lparr>pt_BlockId := ''b'', pt_Name := ''x''\<rparr>))], ())"
    by (simp add: query_index_def bean_required_def bean_string_def index_query_def find_index_def GetValues_def
        List.map_filter_simps)
  from query_index_distinct [OF run] run show ?thesis by simp
qed

theorem DeleteTimeout_deletes_all_witness:
  "\<exists>limit. DeleteTimeout (sample_env\<lparr>orm_DeleteChainMessageUntil := (\<lambda>t ds. filter (\<lambda>d. \<not> d \<le> t) ds)\<rparr>)
     [Instant (- 5), Instant 0] = filter (\<lambda>d. \<not> d \<le> limit) [Instant (- 5), Instant 0] \<and> Instant 0 < limit"
  using DeleteTimeout_deletes_all [of "sample_env\<lparr>orm_DeleteChainMessageUntil := (\<lambda>t ds. filter (\<lambda>d. \<not> d \<le> t) ds)\<rparr>"
      "[Instant (- 5), Instant 0]" "Instant 0" "[Instant (- 5), Instant 0]"]
  by auto

theorem Biz_RelaySend_all_witness:
  "nd_tasks (snd (Biz_RelaySend (sample_env\<lparr>orm_FindChainMessage := (\<lambda>_ w. (Inr [chain_message0], w))\<rparr>) peer_client0
     empty_node)) = [GoRelaySend chain_message0]"
  using Biz_RelaySend_all [of "sample_env\<lparr>orm_FindChainMessage := (\<lambda>_ w. (Inr [chain_message0], w))\<rparr>" peer_client0
      empty_node "[chain_message0]" "()"]
  by simp

definition connect_sample :: chain_message where
  "connect_sample = chain_message0\<lparr>cm_SrcConnectSessionId := ''sess'',
     cm_Payload := PPeerClient (Some (peer_client0\<lparr>pc_PeerId := ''c'', pc_ActiveStatus := ActiveStatus_Up\<rparr>))\<rparr>"

theorem Connect_stores_session_witness:
  "\<exists>pc'. pc_ConnectSessionId pc' = ''sess'' \<and>
     nd_tasks (snd (Connect_Receive (query_sample\<lparr>lib_Marshal := (\<lambda>_. Inr ''v''),
       lib_TextUnmarshalPeerClients := (\<lambda>_. Inr [])\<rparr>) no_datastores connect_sample empty_node)) =
     [GoReturnPeerEndpoint connect_sample, GoBizRelaySend pc']"
proof -
  let ?E = "query_sample\<lparr>lib_Marshal := (\<lambda>_. Inr ''v''), lib_TextUnmarshalPeerClients := (\<lambda>_. Inr [])\<rparr>"
  have n: "env_now ?E (nd_world empty_node) = (Instant 0, ())" "kad_PutValue ?E = (\<lambda>_ _ w. (None, w))"
    by (simp_all add: query_sample_def)
  have p: "cm_Payload connect_sample = PPeerClient (Some (peer_client0\<lparr>pc_PeerId := ''c'', pc_ActiveStatus := ActiveStatus_Up\<rparr>))"
    "cm_SrcConnectSessionId connect_sample = ''sess''" by (simp_all add: connect_sample_def)
  obtain response s' where run: "Connect_Receive ?E no_datastores connect_sample empty_node = (Inr (Some response), s')"
    using n p
    by (simp add: Connect_Receive_def Let_def on_world_def PeerClient_PutValues_def PeerClient_PutValue_def PutValue_def
        connected_client_def PeerClient_GetValues_def append_values_def PeerClient_GetKeyValues_def GetValues_def)
  from Connect_stores_session [OF p(1) n(1) run] show ?thesis by (auto simp: run p(2))
qed

end
