(* ===== verification/LivekitRooms.thy ===== *)
theory LivekitRooms
  imports DhtActions
begin

text \<open>
  The rooms of a LiveKit server, which other peers create and delete with messages to this node:
  \<^verbatim>\<open>p2p/chain/action/dht/manageroom.go\<close> and the functions of \<^verbatim>\<open>livekit/default.go\<close> that it uses. The
  client of the server is a parameter.
\<close>

section \<open>The client of the server\<close>

definition GetRoomServiceClient :: "'w env \<Rightarrow> 'w \<Rightarrow> 'w" where
  "GetRoomServiceClient E w =
     (if lk_HasClient E w then w
      else
        let host = cfg_LivekitHost E;
            url = (if has_prefix host ''http://'' then host else ''http://'' @ host) in
        lk_NewClient E url (cfg_LivekitApiKey E) (cfg_LivekitApiSecret E) w)"

text \<open>A token for a room; an empty name or identity is not set.\<close>

definition CreateToken ::
  "'w env \<Rightarrow> string \<Rightarrow> string \<Rightarrow> string \<Rightarrow> int \<Rightarrow> string \<Rightarrow> 'w \<Rightarrow> string res \<times> 'w" where
  "CreateToken E roomName identity name duration md =
     lk_ToJWT E roomName (if length identity > 0 then Some identity else None)
       (if length name > 0 then Some name else None) duration md"

text \<open>The tokens of the identities from the number \<open>i\<close> on; those that cannot be made are left out.\<close>

fun create_tokens ::
  "'w env \<Rightarrow> string \<Rightarrow> string list \<Rightarrow> int \<Rightarrow> string \<Rightarrow> nat \<Rightarrow> string list \<Rightarrow> string list \<Rightarrow> 'w \<Rightarrow> string list res \<times> 'w" where
  "create_tokens E roomName names duration md i [] tokens w = (Inr tokens, w)"
| "create_tokens E roomName names duration md i (identity # identities) tokens w =
     (if i < length names then
        (case CreateToken E roomName identity (names ! i) duration md w of
           (Inl _, w1) \<Rightarrow> create_tokens E roomName names duration md (i + 1) identities tokens w1
         | (Inr token, w1) \<Rightarrow> create_tokens E roomName names duration md (i + 1) identities (tokens @ [token]) w1)
      else (Inl (Panic ''index out of range''), w))"

definition CreateTokens ::
  "'w env \<Rightarrow> string \<Rightarrow> string list \<Rightarrow> string list \<Rightarrow> int \<Rightarrow> string \<Rightarrow> 'w \<Rightarrow> string list res \<times> 'w" where
  "CreateTokens E roomName identities names duration md w =
     and_then (create_tokens E roomName names duration md 0 identities [] w) (\<lambda>tokens w1.
       case CreateToken E roomName ''anonymous'' ''anonymous'' duration md w1 of
         (Inl _, w2) \<Rightarrow> (Inr tokens, w2)
       | (Inr token, w2) \<Rightarrow> (Inr (tokens @ [token]), w2))"

section \<open>The action\<close>

text \<open>
  The request is a map, which is decoded into the struct; without a payload all fields are empty. The
  timeout is converted to 32 bits for the room, and to nanoseconds in 64 bits for the tokens.
\<close>

definition room_request :: "'a library_scheme \<Rightarrow> payload \<Rightarrow> livekit_room res" where
  "room_request E p =
     (case p of
        PNil \<Rightarrow> Inr livekit_room0
      | _ \<Rightarrow>
          (case condition_bean p of
             Inl _ \<Rightarrow> Inl (Err ''ErrorCondition'')
           | Inr conditionBean \<Rightarrow>
               (case lib_Marshal E (PJson (JObj conditionBean)) of
                  Inl _ \<Rightarrow> Inl (Err ''ErrorCondition'')
                | Inr data \<Rightarrow>
                    (case lib_UnmarshalLiveKitRoom E data of
                       Inl _ \<Rightarrow> Inl (Err ''ErrorCondition'')
                     | Inr room \<Rightarrow> Inr room))))"

definition room_timeout :: "int \<Rightarrow> 32 word" where
  "room_timeout t = word_of_int t"

definition token_duration :: "int \<Rightarrow> int" where
  "token_duration t = sint (word_of_int t * 1000 * 1000 * 1000 :: 64 word)"

definition create_room :: "'w env \<Rightarrow> livekit_room \<Rightarrow> 'w \<Rightarrow> livekit_room res \<times> 'w" where
  "create_room E room w =
     (if lr_RoomName room = [] then (Inl (Err ''ErrorRoomName''), w)
      else if lr_EmptyTimeout room \<le> 0 then (Inl (Err ''ErrorEmptyTimeout''), w)
      else
        (case lk_CreateRoom E (lr_RoomName room) (room_timeout (lr_EmptyTimeout room)) (lr_MaxParticipants room) [] w of
           (None, w1) \<Rightarrow> (Inr room, w1)
         | (Some r, w1) \<Rightarrow>
             and_then (CreateTokens E (lr_RoomName room) (lr_Identities room) (lr_Names room)
                 (token_duration (lr_EmptyTimeout room)) [] w1)
               (\<lambda>tokens w2. (Inr (room\<lparr>lr_Rooms := [r], lr_Tokens := tokens\<rparr>), w2))))"

definition delete_room :: "'w env \<Rightarrow> livekit_room \<Rightarrow> 'w \<Rightarrow> livekit_room res \<times> 'w" where
  "delete_room E room w =
     (if lr_RoomName room = [] then (Inl (Err ''ErrorRoomName''), w)
      else
        (case lk_DeleteRoom E (lr_RoomName room) w of
           (deleted, w1) \<Rightarrow> (Inr (if deleted then room else room\<lparr>lr_RoomName := []\<rparr>), w1)))"

definition list_rooms :: "'w env \<Rightarrow> livekit_room \<Rightarrow> 'w \<Rightarrow> livekit_room res \<times> 'w" where
  "list_rooms E room w =
     (case lk_ListRooms E [] w of
        (Inl _, w1) \<Rightarrow> (Inr room, w1)
      | (Inr rooms, w1) \<Rightarrow> (Inr (room\<lparr>lr_Rooms := rooms\<rparr>), w1))"

definition list_participants :: "'w env \<Rightarrow> livekit_room \<Rightarrow> 'w \<Rightarrow> livekit_room res \<times> 'w" where
  "list_participants E room w =
     (if lr_RoomName room = [] then (Inl (Err ''ErrorRoomName''), w)
      else
        (case lk_ListParticipants E (lr_RoomName room) w of
           (Inl _, w1) \<Rightarrow> (Inr room, w1)
         | (Inr participants, w1) \<Rightarrow> (Inr (room\<lparr>lr_Participants := participants\<rparr>), w1)))"

definition manage_room :: "'w env \<Rightarrow> livekit_room \<Rightarrow> 'w \<Rightarrow> livekit_room res \<times> 'w" where
  "manage_room E room w =
     (let w1 = GetRoomServiceClient E w; room1 = room\<lparr>lr_Host := cfg_LivekitHost E\<rparr> in
      if lr_ManageType room = ''create'' then create_room E room1 w1
      else if lr_ManageType room = ''delete'' then delete_room E room1 w1
      else if lr_ManageType room = ''list'' then list_rooms E room1 w1
      else if lr_ManageType room = ''listParticipants'' then list_participants E room1 w1
      else (Inr room1, w1))"

definition ManageRoom_Receive ::
  "'w env \<Rightarrow> chain_message \<Rightarrow> ('w, 'c) node \<Rightarrow> chain_message option res \<times> ('w, 'c) node" where
  "ManageRoom_Receive E msg s =
     (let t = cm_MessageType msg in
      answering t (room_request E (cm_Payload msg), s) (\<lambda>room s.
        answering t (on_world (manage_room E room) s) (\<lambda>room s1.
          (Inr (Some ((ResponseMessage t (PLiveKitRoom room))\<lparr>cm_PayloadType := PayloadType_Map\<rparr>)), s1))))"

section \<open>Properties\<close>

lemma create_tokens_all:
  assumes "length identities + i \<le> length names" and "\<And>identity name. \<exists>t. \<forall>w. CreateToken E roomName identity name duration md w = (Inr t, w)"
  shows "\<exists>ts. length ts = length identities \<and>
    create_tokens E roomName names duration md i identities tokens w = (Inr (tokens @ ts), w)"
  using assms(1)
proof (induction identities arbitrary: i tokens)
  case (Cons identity identities)
  obtain t where t: "\<forall>w. CreateToken E roomName identity (names ! i) duration md w = (Inr t, w)" using assms(2) by blast
  from Cons.IH [of "i + 1" "tokens @ [t]"] Cons.prems obtain ts where "length ts = length identities"
      "create_tokens E roomName names duration md (i + 1) identities (tokens @ [t]) w = (Inr ((tokens @ [t]) @ ts), w)"
    by auto
  with t Cons.prems show ?case by (intro exI [of _ "t # ts"]) simp
qed simp



text \<open>
  Otherwise, when tokens can be made, the answer has one for each identity and one for a guest, who may
  join, too.
\<close>

theorem create_answers_tokens:
  assumes "room_request E (cm_Payload msg) = Inr room" and "lr_ManageType room = ''create''"
    and "lr_RoomName room \<noteq> []" and "0 < lr_EmptyTimeout room" and "length (lr_Identities room) \<le> length (lr_Names room)"
    and "lk_CreateRoom E (lr_RoomName room) (room_timeout (lr_EmptyTimeout room)) (lr_MaxParticipants room) []
      (GetRoomServiceClient E (nd_world s)) = (Some r, w)"
    and "\<And>identity name duration. \<exists>t. \<forall>w. CreateToken E (lr_RoomName room) identity name duration [] w = (Inr t, w)"
  shows "\<exists>response s' answer. ManageRoom_Receive E msg s = (Inr (Some response), s') \<and>
    cm_Payload response = PLiveKitRoom answer \<and> lr_Rooms answer = [r] \<and>
    length (lr_Tokens answer) = length (lr_Identities room) + 1 \<and> nd_world s' = w"
proof -
  let ?d = "token_duration (lr_EmptyTimeout room)"
  obtain ts where ts: "length ts = length (lr_Identities room)"
      "create_tokens E (lr_RoomName room) (lr_Names room) ?d [] 0 (lr_Identities room) [] w = (Inr ts, w)"
    using create_tokens_all [of "lr_Identities room" 0 "lr_Names room" E "lr_RoomName room" ?d "[]" "[]" w] assms(5,7) by auto
  obtain t where t: "CreateToken E (lr_RoomName room) ''anonymous'' ''anonymous'' ?d [] w = (Inr t, w)"
    using assms(7) [of "''anonymous''" "''anonymous''" ?d] by blast
  from ts t assms(1-4,6) show ?thesis
    by (simp add: ManageRoom_Receive_def manage_room_def create_room_def CreateTokens_def on_world_def ResponseMessage_def)
qed

text \<open>
  The timeout of a room is what was asked for below 2^32 seconds, and the tokens live as long as the
  room up to 9223372036 seconds; one second more, and they have expired before they are made.
\<close>

theorem timeout_bounds:
  assumes "0 < t"
  shows "(t < 2 ^ 32 \<longrightarrow> uint (room_timeout t) = t) \<and> (t \<le> 9223372036 \<longrightarrow> token_duration t = t * 1000000000) \<and>
    token_duration 9223372037 < 0"
proof -
  have eq: "word_of_int t * 1000 * 1000 * 1000 = (word_of_int (t * 1000000000) :: 64 word)" for t
    by simp
  have "token_duration t = t * 1000000000" if "t \<le> 9223372036"
    unfolding token_duration_def eq using that assms
    by (simp only: sint_uint uint_word_of_int) (simp add: signed_take_bit_int_eq_self take_bit_int_eq_self)
  moreover have "uint (room_timeout t) = t" if "t < 2 ^ 32"
    using that assms by (simp add: room_timeout_def uint_word_of_int)
  moreover have "token_duration 9223372037 < 0"
    unfolding token_duration_def eq by simp
  ultimately show ?thesis by blast
qed

text \<open>
  A request without the name of a room is refused, or lists the rooms, and nothing is created or
  deleted; the only effect is that of the listing and of making the client.
\<close>

theorem unnamed_harmless:
  assumes "room_request E (cm_Payload msg) = Inr room" and "lr_RoomName room = []" and "lk_HasClient E (nd_world s)"
  shows "nd_world (snd (ManageRoom_Receive E msg s)) \<in> {nd_world s, snd (lk_ListRooms E [] (nd_world s))}"
  using assms
  by (auto simp: ManageRoom_Receive_def manage_room_def create_room_def delete_room_def list_rooms_def list_participants_def
      GetRoomServiceClient_def on_world_def Let_def split: prod.split sum.split)

section \<open>Witnesses\<close>

definition room_sample :: livekit_room where
  "room_sample = livekit_room0\<lparr>lr_ManageType := ''create'', lr_EmptyTimeout := 3600, lr_RoomName := ''r'',
     lr_Identities := [''i'']\<rparr>"

definition room_env :: "livekit_room \<Rightarrow> unit env" where
  "room_env room = sample_env\<lparr>lib_Marshal := (\<lambda>_. Inr ''data''), lib_UnmarshalLiveKitRoom := (\<lambda>_. Inr room),
     lk_CreateRoom := (\<lambda>name _ _ _ w. (Some name, w)), lk_ToJWT := (\<lambda>_ _ _ _ _ w. (Inr ''token'', w))\<rparr>"

definition room_message :: chain_message where
  "room_message = chain_message0\<lparr>cm_Payload := PJson (JObj [])\<rparr>"

lemma room_request_sample: "room_request (room_env room) (cm_Payload room_message) = Inr room"
  by (simp add: room_request_def room_env_def room_message_def condition_bean_def)

lemma CreateRoom_sample:
  "lk_CreateRoom (room_env room) name t n [] (GetRoomServiceClient (room_env room) w) = (Some name, w)"
  by (simp add: room_env_def GetRoomServiceClient_def)


theorem create_answers_tokens_witness:
  "\<exists>response s' answer.
     ManageRoom_Receive (room_env (room_sample\<lparr>lr_Names := [''n'']\<rparr>)) room_message empty_node = (Inr (Some response), s') \<and>
     cm_Payload response = PLiveKitRoom answer \<and> length (lr_Tokens answer) = 2"
  using create_answers_tokens [OF room_request_sample, of "room_sample\<lparr>lr_Names := [''n'']\<rparr>", OF _ _ _ _ CreateRoom_sample]
  by (fastforce simp: room_sample_def livekit_room0_def CreateToken_def room_env_def)

theorem timeout_bounds_witness: "uint (room_timeout 3600) = 3600 \<and> token_duration 3600 = 3600000000000"
  using timeout_bounds [of 3600] by simp

theorem unnamed_harmless_witness:
  "nd_world (snd (ManageRoom_Receive (room_env (room_sample\<lparr>lr_RoomName := []\<rparr>)) room_message empty_node)) = ()"
  using unnamed_harmless [OF room_request_sample, of "room_sample\<lparr>lr_RoomName := []\<rparr>" empty_node]
  by (simp add: room_sample_def room_env_def)

end
