(* ===== verification/NodeHandlers.thy ===== *)
theory NodeHandlers
  imports LivekitRooms
begin

text \<open>
  The action of the chats between two clients, \<^verbatim>\<open>p2p/chain/action/dht/p2pChat.go\<close>, and the table of
  all the handlers of a node, as the \<open>init\<close> functions of the actions and of the consensus protocols
  register them. For each handler it is shown whether it is a step of the standard protocol or stays
  aside of it.
\<close>

section \<open>Chats\<close>

text \<open>The service that pushes a notification to the device of a client, by the kind of the device.\<close>

datatype push_channel = Push_Apple | Push_Huawei | Push_Xiaomi | Push_Oppo | Push_Vivo | Push_Meizu

definition push_by_type :: "string \<Rightarrow> push_channel option" where
  "push_by_type clientType =
     map_of [(''Apple'', Push_Apple), (''HUAWEI'', Push_Huawei), (''Xiaomi'', Push_Xiaomi), (''OPPO'', Push_Oppo),
             (''VIVO'', Push_Vivo), (''Meizu'', Push_Meizu)]
       (hd (split_on (CHR ''('') clientType))"

text \<open>
  The chat is a request of the standard protocol when a way to its receiver is found, whose result is
  the response, nil after an error; a chat to a peer that is not found is not answered. The services
  for the notifications, with the client and the name of the sender, are a parameter.
\<close>

definition push_chat ::
  "(push_channel \<Rightarrow> peer_client \<Rightarrow> string \<Rightarrow> 'w \<Rightarrow> unit res \<times> 'w) \<Rightarrow> peer_client \<Rightarrow> peer_client option list \<Rightarrow>
   'w \<Rightarrow> unit res \<times> 'w" where
  "push_chat push peerClient srcPeerClients w =
     (case srcPeerClients of
        [] \<Rightarrow> (Inr (), w)
      | None # _ \<Rightarrow> (Inl NilDereference, w)
      | Some src # _ \<Rightarrow>
          (case push_by_type (pc_ClientType peerClient) of
             None \<Rightarrow> (Inr (), w) | Some channel \<Rightarrow> push channel peerClient (pc_Name src) w))"

definition P2pChat_Receive ::
  "'w env \<Rightarrow> 'w datastores \<Rightarrow> 'c cache_ops \<Rightarrow> (push_channel \<Rightarrow> peer_client \<Rightarrow> string \<Rightarrow> 'w \<Rightarrow> unit res \<times> 'w) \<Rightarrow>
   chain_message \<Rightarrow> ('w, 'c) node \<Rightarrow> chain_message option res \<times> ('w, 'c) node" where
  "P2pChat_Receive E R C push msg s =
     and_then (on_world (Lookup E R (cm_TargetPeerId msg) (cm_TargetClientId msg)) s) (\<lambda>(peerClient, _, _) s1.
       case peerClient of
         None \<Rightarrow> (Inr None, s1)
       | Some pc \<Rightarrow>
           (case on_world (Decrypt E R msg) s1 of
              ((_, Some (Panic p)), s2) \<Rightarrow> (Inl (Panic p), s2)
            | ((msg', _), s2) \<Rightarrow>
                (case Std_ReceiveConsensus E R C msg' s2 of
                   (Inl (Panic p), s3) \<Rightarrow> (Inl (Panic p), s3)
                 | (received, s3) \<Rightarrow>
                     let response = (case received of Inr r \<Rightarrow> r | Inl _ \<Rightarrow> None) in
                     and_then (on_world (\<lambda>w. or_none (PeerClient_GetLocals E R
                         (GetPeerClientKey (GetPeerId (cm_SrcPeerId msg'))) [] w)) s3) (\<lambda>(srcs, _) s4.
                       and_then (on_world (push_chat push pc srcs) s4) (\<lambda>_ s5. (Inr response, s5))))))"

section \<open>The handlers of a node\<close>

text \<open>Each consensus protocol has a cache of its own, \<open>MemCache\<close> of its package.\<close>

record 'c caches =
  cc_std :: 'c
  cc_pbft :: 'c
  cc_raft :: 'c

definition std_cache :: "'c cache_ops \<Rightarrow> 'c caches cache_ops" where
  "std_cache C = \<lparr>mc_Get = (\<lambda>k c. mc_Get C k (cc_std c)),
     mc_SetDefault = (\<lambda>k v c. c\<lparr>cc_std := mc_SetDefault C k v (cc_std c)\<rparr>),
     mc_Delete = (\<lambda>k c. c\<lparr>cc_std := mc_Delete C k (cc_std c)\<rparr>)\<rparr>"

definition pbft_cache :: "'c cache_ops \<Rightarrow> 'c caches cache_ops" where
  "pbft_cache C = \<lparr>mc_Get = (\<lambda>k c. mc_Get C k (cc_pbft c)),
     mc_SetDefault = (\<lambda>k v c. c\<lparr>cc_pbft := mc_SetDefault C k v (cc_pbft c)\<rparr>),
     mc_Delete = (\<lambda>k c. c\<lparr>cc_pbft := mc_Delete C k (cc_pbft c)\<rparr>)\<rparr>"

definition raft_cache :: "'c cache_ops \<Rightarrow> 'c caches cache_ops" where
  "raft_cache C = \<lparr>mc_Get = (\<lambda>k c. mc_Get C k (cc_raft c)),
     mc_SetDefault = (\<lambda>k v c. c\<lparr>cc_raft := mc_SetDefault C k v (cc_raft c)\<rparr>),
     mc_Delete = (\<lambda>k c. c\<lparr>cc_raft := mc_Delete C k (cc_raft c)\<rparr>)\<rparr>"

lemma own_cache_laws:
  assumes "cache_laws C"
  shows "cache_laws (std_cache C)" "cache_laws (pbft_cache C)" "cache_laws (raft_cache C)"
  using assms unfolding cache_laws_def kv_store_def
  by (auto simp: std_cache_def pbft_cache_def raft_cache_def)

text \<open>
  The receiving handlers that the \<open>init\<close> functions register; no message type stands twice in the table.
  The one for the rooms of a media server is not modelled. A receiver of the ion signals is never
  registered: the registration in \<^verbatim>\<open>webrtc/ion/sfu/pool.go\<close> is commented out.
\<close>

definition handler_table ::
  "'w env \<Rightarrow> 'w datastores \<Rightarrow> 'c cache_ops \<Rightarrow> (string \<times> 'f) list \<Rightarrow>
   (push_channel \<Rightarrow> peer_client \<Rightarrow> string \<Rightarrow> 'w \<Rightarrow> unit res \<times> 'w) \<Rightarrow>
   (string \<times> (chain_message \<Rightarrow> ('w, 'c caches) node \<Rightarrow> chain_message option res \<times> ('w, 'c caches) node)) list" where
  "handler_table E R C receivers push =
     [(MT_CONSENSUS, Std_ReceiveConsensus E R (std_cache C)),
      (MT_CONSENSUS_COMMITED, Std_ReceiveCommited E R),
      (MT_CONSENSUS_REPLY, Std_ReceiveReply E (std_cache C)),
      (MT_CONSENSUS_RAFT, Raft_ReceiveConsensus E (raft_cache C)),
      (MT_CONSENSUS_RAFT_PREPREPARED, Raft_ReceivePreprepared E (raft_cache C)),
      (MT_CONSENSUS_RAFT_PREPARED, Raft_ReceivePrepared E (raft_cache C)),
      (MT_CONSENSUS_RAFT_COMMITED, Raft_ReceiveCommited E (raft_cache C)),
      (MT_CONSENSUS_RAFT_REPLY, Raft_ReceiveReply E (raft_cache C)),
      (MT_CONSENSUS_PBFT, Pbft_ReceiveConsensus E),
      (MT_CONSENSUS_PBFT_PREPREPARED, Pbft_ReceivePreprepared E (pbft_cache C)),
      (MT_CONSENSUS_PBFT_PREPARED, Pbft_ReceivePrepared E (pbft_cache C)),
      (MT_CONSENSUS_PBFT_COMMITED, Pbft_ReceiveCommited E (pbft_cache C)),
      (MT_CONSENSUS_PBFT_REPLY, Pbft_ReceiveCommited E (pbft_cache C)),
      (MT_GETVALUE, GetValue_Receive E),
      (MT_CHAT, BaseAction_Receive E),
      (MT_P2PCHAT, P2pChat_Receive E R (std_cache C) push),
      (MT_PEERENDPOINT, PeerEndPoint_Receive E),
      (MT_FINDPEER, FindPeer_Receive E),
      (MT_IONSIGNAL, IonSignal_Receive E R None),
      (MT_FINDCLIENT, FindClient_Receive E R),
      (MT_QUERYVALUE, QueryValue_Receive E R),
      (MT_CONNECT, Connect_Receive E R),
      (MT_SIGNAL, Signal_Receive E receivers),
      (MT_PUTVALUE, PutValue_Receive E R),
      (MT_ManageRoom, ManageRoom_Receive E),
      (MT_PING, BaseAction_Receive E)]"

definition BaseAction_Response :: "chain_message \<Rightarrow> 's \<Rightarrow> unit res \<times> 's" where
  "BaseAction_Response msg s = (Inr (), s)"

definition node_handlers ::
  "'w env \<Rightarrow> 'w datastores \<Rightarrow> 'c cache_ops \<Rightarrow> (string \<times> 'f) list \<Rightarrow>
   (push_channel \<Rightarrow> peer_client \<Rightarrow> string \<Rightarrow> 'w \<Rightarrow> unit res \<times> 'w) \<Rightarrow>
   ('w, 'c caches) node chain_message_handlers" where
  "node_handlers E R C receivers push =
     fold (\<lambda>(t, receive). RegistChainMessageHandler t (Send E R) receive BaseAction_Response)
       (handler_table E R C receivers push) Map.empty"

lemma handler_table_distinct: "distinct (map fst (handler_table E R C receivers push))"
  by (simp add: handler_table_def)

lemma node_handlers_find:
  fixes E :: "'w env" and C :: "'c cache_ops"
  shows "map_option handler_functions (node_handlers E R C receivers push t) =
     map_option (\<lambda>receive. (Send E R, receive, BaseAction_Response)) (map_of (handler_table E R C receivers push) t)"
proof -
  let ?kvs = "map (\<lambda>(t, receive). (t, Send E R, receive, BaseAction_Response)) (handler_table E R C receivers push)"
  have "node_handlers E R C receivers push =
      fold (\<lambda>(k, v). (\<lambda>(s, r, p). RegistChainMessageHandler k s r p) v) ?kvs Map.empty"
    unfolding node_handlers_def fold_map by (rule fold_cong) auto
  moreover have "map_of ?kvs t =
      map_option (\<lambda>receive. (Send E R, receive, BaseAction_Response)) (map_of (handler_table E R C receivers push) t)"
    by (simp add: map_of_map)
  ultimately show ?thesis
    using chain_registry.find_regist_all [where k = t and kvs = ?kvs and s = Map.empty] by simp
qed

section \<open>Steps aside of the standard protocol\<close>

text \<open>
  \<open>aside C s s'\<close>: the cache reads as before and no block is committed. It holds of the steps on the
  world, of the tasks that send, and of a write to a cache that is separate from \<open>C\<close>.
\<close>

lemma aside_refl: "aside C s s"
  by (simp add: aside_def)

lemma aside_trans: "aside C s s1 \<Longrightarrow> aside C s1 s2 \<Longrightarrow> aside C s s2"
  unfolding aside_def by (metis append.assoc Un_iff set_append)

lemma aside_world: "nd_cache s' = nd_cache s \<Longrightarrow> nd_tasks s' = nd_tasks s \<Longrightarrow> aside C s s'"
  by (simp add: aside_def)

lemma aside_on_world: "aside C s (snd (on_world f s))"
  by (simp add: aside_world)

lemma aside_and_then:
  "aside C s (snd m) \<Longrightarrow> (\<And>x s1. m = (Inr x, s1) \<Longrightarrow> aside C s1 (snd (f x s1))) \<Longrightarrow> aside C s (snd (and_then m f))"
  by (cases m, cases "fst m") (auto intro: aside_trans)

lemma aside_answering:
  "aside C s (snd m) \<Longrightarrow> (\<And>x s1. m = (Inr x, s1) \<Longrightarrow> aside C s1 (snd (f x s1))) \<Longrightarrow>
   aside C s (snd (answering t m f))"
  by (cases m, cases "fst m") (auto simp: answering_def intro: aside_trans split: go_error.splits)

lemma aside_case_world:
  "aside C s s0 \<Longrightarrow> (\<And>x s1. aside C s s1 \<Longrightarrow> aside C s (snd (g x s1))) \<Longrightarrow>
   aside C s (snd (case on_world f s0 of (x, s1) \<Rightarrow> g x s1))"
  using aside_trans [OF _ aside_on_world, of C s s0 f] by (cases "on_world f s0") simp

lemma aside_step:
  assumes "aside C s s1"
  shows "\<not> is_commit t \<Longrightarrow> aside C s (go_start t s1)"
    "aside C s (send_blocks my t' db ids s1)" "aside C s (send_logs my t' l ids s1)"
    "aside C s (snd (on_world f s1))"
  using assms by (auto intro!: aside_trans [OF assms] simp: aside_def)

lemma aside_fold_start:
  "(\<And>x. \<not> is_commit (f x)) \<Longrightarrow> aside C s s1 \<Longrightarrow> aside C s (fold (\<lambda>x. go_start (f x)) xs s1)"
  by (induction xs arbitrary: s1) (auto intro: aside_step)

definition separate :: "'c cache_ops \<Rightarrow> 'c cache_ops \<Rightarrow> bool" where
  "separate C C' \<longleftrightarrow> (\<forall>k k' v c. mc_Get C k (mc_SetDefault C' k' v c) = mc_Get C k c)"

lemma aside_cache_set: "separate C C' \<Longrightarrow> aside C s s1 \<Longrightarrow> aside C s (cache_set C' k v s1)"
  by (auto simp: aside_def separate_def)

lemma own_caches_separate:
  "separate (std_cache C) (pbft_cache C)" "separate (std_cache C) (raft_cache C)"
  by (simp_all add: separate_def std_cache_def pbft_cache_def raft_cache_def)

lemmas aside_intros = aside_refl aside_and_then aside_answering aside_case_world aside_step aside_on_world
  aside_fold_start aside_cache_set

subsection \<open>The other consensus protocols\<close>

lemma aside_record_phase:
  assumes "separate C C'"
  shows "aside C s (snd (record_phase E C' key status m s))"
  unfolding record_phase_def
  by (auto intro!: aside_intros assms split: sum.split option.split)

lemma aside_check_preprepared: "aside C s (snd (check_preprepared E C' status m s))"
  unfolding check_preprepared_def Let_def
  by (auto intro!: aside_intros split: option.split cache_val.split)

lemma aside_raft_collect:
  assumes "separate C C'"
  shows "aside C s (snd (raft_collect E C' msg s))"
  unfolding raft_collect_def Let_def
  by (auto intro!: aside_intros aside_record_phase assms split: option.split)

lemma aside_pbft_commit:
  assumes "separate C C'"
  shows "aside C s (snd (pbft_commit C' my lg cacheLog ids s))"
  unfolding pbft_commit_def Let_def
  by (auto intro!: aside_intros assms split: sum.split)

lemma aside_pbft:
  assumes "separate C C'"
  shows "aside C s (snd (Pbft_ReceiveConsensus E msg s))"
    "aside C s (snd (Pbft_ReceivePreprepared E C' msg s))"
    "aside C s (snd (Pbft_ReceivePrepared E C' msg s))"
    "aside C s (snd (Pbft_ReceiveCommited E C' msg s))"
  unfolding Pbft_ReceiveConsensus_def Pbft_ReceivePreprepared_def Pbft_ReceivePrepared_def
    Pbft_ReceiveCommited_def Let_def
  by (auto intro!: aside_intros aside_record_phase aside_check_preprepared aside_pbft_commit assms split: option.split)

lemma aside_raft:
  assumes "separate C C'"
  shows "aside C s (snd (Raft_ReceiveConsensus E C' msg s))"
    "aside C s (snd (Raft_ReceivePreprepared E C' msg s))"
    "aside C s (snd (Raft_ReceivePrepared E C' msg s))"
    "aside C s (snd (Raft_ReceiveCommited E C' msg s))"
    "aside C s (snd (Raft_ReceiveReply E C' msg s))"
  unfolding Raft_ReceiveConsensus_def Raft_ReceivePreprepared_def Raft_ReceivePrepared_def
    Raft_ReceiveCommited_def Raft_ReceiveReply_def Let_def
  by (auto intro!: aside_intros aside_record_phase aside_check_preprepared aside_raft_collect assms split: option.split)

subsection \<open>The requests to the DHT\<close>

lemma aside_RelaySend: "aside C s (snd (RelaySend E R msg s))"
  unfolding RelaySend_def Let_def by (auto intro!: aside_intros split: sum.split)

lemma aside_dht:
  "aside C s (snd (BaseAction_Receive E msg s))"
  "aside C s (snd (GetValue_Receive E msg s))"
  "aside C s (snd (PeerEndPoint_Receive E msg s))"
  "aside C s (snd (FindPeer_Receive E msg s))"
  "aside C s (snd (FindClient_Receive E R msg s))"
  "aside C s (snd (QueryValue_Receive E R msg s))"
  "aside C s (snd (Connect_Receive E R msg s))"
  "aside C s (snd (Signal_Receive E receivers msg s))"
  "aside C s (snd (PutValue_Receive E R msg s))"
  "aside C s (snd (IonSignal_Receive E R None msg s))"
  "aside C s (snd (ManageRoom_Receive E msg s))"
  unfolding BaseAction_Receive_def GetValue_Receive_def PeerEndPoint_Receive_def FindPeer_Receive_def
    FindClient_Receive_def QueryValue_Receive_def Connect_Receive_def Signal_Receive_def PutValue_Receive_def
    IonSignal_Receive_def ManageRoom_Receive_def Let_def
  by (auto intro!: aside_intros aside_RelaySend split: payload.split option.split)

section \<open>Handlers as steps of the standard protocol\<close>

lemma std_run_append: "std_run E R C s1 evs2 s2 \<Longrightarrow> std_run E R C s evs1 s1 \<Longrightarrow> std_run E R C s (evs1 @ evs2) s2"
proof (induction rule: std_run.induct)
  case (step evs sa ev sb)
  then have "std_run E R C s ((evs1 @ evs) @ [ev]) sb" by (blast intro: std_run.step)
  then show ?case by simp
qed simp

lemma std_run_single: "std_step E R C ev s s' \<Longrightarrow> std_run E R C s [ev] s'"
  using std_run.step [OF std_run.start] by fastforce

text \<open>A run of the standard protocol with at most \<open>n\<close> requests for the block of each key.\<close>

definition std_runs ::
  "'w env \<Rightarrow> 'w datastores \<Rightarrow> 'c cache_ops \<Rightarrow> nat \<Rightarrow> ('w, 'c) node \<Rightarrow> ('w, 'c) node \<Rightarrow> bool" where
  "std_runs E R C n s s' \<longleftrightarrow>
     (\<exists>evs. std_run E R C s evs s' \<and> (\<forall>k. length (filter (requests k) evs) \<le> n))"

lemma std_runs_refl: "std_runs E R C 0 s s"
  unfolding std_runs_def by (intro exI [of _ "[]"]) (simp add: std_run.start)

lemma std_runs_trans: "std_runs E R C m s s1 \<Longrightarrow> std_runs E R C n s1 s2 \<Longrightarrow> std_runs E R C (m + n) s s2"
  unfolding std_runs_def by (metis (no_types, lifting) std_run_append filter_append length_append add_mono)

lemma std_runs_step: "std_step E R C ev s s' \<Longrightarrow> (\<And>k. \<not> requests k ev) \<Longrightarrow> std_runs E R C n s s'"
  unfolding std_runs_def by (intro exI [of _ "[ev]"]) (simp add: std_run_single)

lemma std_runs_request: "std_step E R C ev s s' \<Longrightarrow> std_runs E R C (Suc n) s s'"
  unfolding std_runs_def by (intro exI [of _ "[ev]"]) (simp add: std_run_single)

lemma std_runs_aside: "aside C s s' \<Longrightarrow> std_runs E R C n s s'"
  by (rule std_runs_step [OF std_step.other]) simp_all

lemma std_runs_aside_left: "aside C s s1 \<Longrightarrow> std_runs E R C n s1 s2 \<Longrightarrow> std_runs E R C n s s2"
  by (drule std_runs_aside [where n = 0], drule (1) std_runs_trans) simp

lemma std_runs_aside_right: "std_runs E R C n s s1 \<Longrightarrow> aside C s1 s2 \<Longrightarrow> std_runs E R C n s s2"
  by (drule std_runs_aside [where n = 0], drule (1) std_runs_trans) simp

lemma std_runs_std:
  "std_runs E R C (Suc n) s (snd (Std_ReceiveConsensus E R C msg s))"
  "std_runs E R C n s (snd (Std_ReceiveCommited E R msg s))"
  "std_runs E R C n s (snd (Std_ReceiveReply E C msg s))"
  "std_runs E R C n s (snd (finalCommit E R db l s))"
     apply (rule std_runs_request, rule std_step.consensus, rule prod.collapse [symmetric])
    apply (rule std_runs_step, rule std_step.commited, rule prod.collapse [symmetric], simp)
   apply (rule std_runs_step, rule std_step.reply, rule prod.collapse [symmetric], simp)
  apply (rule std_runs_step, rule std_step.final, rule prod.collapse [symmetric], simp)
  done

lemma std_runs_chat: "std_runs E R C (Suc n) s (snd (P2pChat_Receive E R C push msg s))"
proof -
  obtain r s1 where l: "on_world (Lookup E R (cm_TargetPeerId msg) (cm_TargetClientId msg)) s = (r, s1)"
    by fastforce
  have 1: "aside C s s1" using aside_on_world l by (metis snd_conv)
  show ?thesis
  proof (cases "\<exists>pc i e. r = Inr (Some pc, i, e)")
    case False
    with l 1 show ?thesis
      by (cases r) (auto simp: P2pChat_Receive_def intro: std_runs_aside split: option.splits)
  next
    case True
    then obtain pc i e where r: "r = Inr (Some pc, i, e)" by auto
    obtain msg' err s2 where d: "on_world (Decrypt E R msg) s1 = ((msg', err), s2)" by (metis prod.exhaust)
    have 2: "aside C s s2" using aside_on_world d 1 by (metis aside_trans snd_conv)
    obtain rc s3 where c: "Std_ReceiveConsensus E R C msg' s2 = (rc, s3)" by fastforce
    have 3: "std_runs E R C (Suc n) s s3"
      using std_runs_aside_left [OF 2 std_runs_std(1), of E R n msg'] c by simp
    show ?thesis
      using l r d c 3 std_runs_aside [OF 2, of E R "Suc n"]
      by (auto simp: P2pChat_Receive_def Let_def split: option.split go_error.split sum.split
          intro!: aside_intros std_runs_aside_right [OF 3])
  qed
qed

section \<open>What a received message does to the standard protocol\<close>

text \<open>The message types whose handler takes up a request of the standard protocol.\<close>

definition std_request :: "string \<Rightarrow> bool" where
  "std_request t \<longleftrightarrow> t = MT_CONSENSUS \<or> t = MT_P2PCHAT"

lemmas handlers_aside = aside_dht aside_pbft [OF own_caches_separate(1)] aside_raft [OF own_caches_separate(2)]

lemma handler_runs:
  assumes "map_of (handler_table E R C receivers push) t = Some receive"
  shows "std_runs E R (std_cache C) (if std_request t then 1 else 0) s (snd (receive msg s))"
  using assms
  by (auto simp: handler_table_def std_request_def split: if_splits
      intro!: std_runs_std std_runs_std(1) [of _ _ _ 0, simplified] std_runs_chat [of _ _ _ 0, simplified]
        std_runs_aside handlers_aside)

text \<open>A block is committed by no handler but the one of the replies.\<close>

definition no_cache :: "'c cache_ops" where
  "no_cache = \<lparr>mc_Get = (\<lambda>_ _. None), mc_SetDefault = (\<lambda>_ _ c. c), mc_Delete = (\<lambda>_ c. c)\<rparr>"

text \<open>\<open>aside no_cache\<close> is the part of \<open>aside\<close> about the tasks.\<close>

lemma aside_no_cache: "aside no_cache s s' \<longleftrightarrow>
    (\<exists>ts. nd_tasks s' = nd_tasks s @ ts \<and> (\<forall>t\<in>set ts. \<not> is_commit t))"
  by (simp add: aside_def no_cache_def)

lemma no_cache_separate: "separate no_cache C"
  by (simp add: separate_def no_cache_def)

lemma aside_std:
  "aside no_cache s (snd (Std_ReceiveConsensus E R C msg s))"
  "aside no_cache s (snd (Std_ReceiveCommited E R msg s))"
  unfolding Std_ReceiveConsensus_def Std_ReceiveCommited_def std_store_def Let_def
  by (auto intro!: aside_intros no_cache_separate split: sum.split go_error.split)

lemma aside_case_prod:
  "aside C s (snd m) \<Longrightarrow> (\<And>x s1. aside C s s1 \<Longrightarrow> aside C s (snd (g x s1))) \<Longrightarrow>
   aside C s (snd (case m of (x, s1) \<Rightarrow> g x s1))"
  by (cases m) simp

lemma aside_chat: "aside no_cache s (snd (P2pChat_Receive E R C push msg s))"
  unfolding P2pChat_Receive_def Let_def
  by (auto intro!: aside_intros aside_case_prod aside_trans [OF _ aside_std(1)]
      split: option.split go_error.split sum.split)

lemma handler_commits:
  assumes "map_of (handler_table E R C receivers push) t = Some receive" "t \<noteq> MT_CONSENSUS_REPLY"
  shows "aside no_cache s (snd (receive msg s))"
  using assms
  by (auto simp: handler_table_def split: if_splits
      intro!: aside_dht aside_pbft aside_raft no_cache_separate aside_std aside_chat)

section \<open>What a received message does to a node\<close>

text \<open>The bookkeeping around a handler keeps the cache and the tasks.\<close>

definition same_work :: "('w, 'c) node \<Rightarrow> ('w, 'c) node \<Rightarrow> bool" where
  "same_work s s' \<longleftrightarrow> nd_cache s' = nd_cache s \<and> nd_tasks s' = nd_tasks s"

lemma same_work_aside: "same_work s s' \<Longrightarrow> aside C s s'"
  by (simp add: same_work_def aside_world)

lemma same_work_on_world: "same_work s (snd (on_world f s))"
  by (simp add: same_work_def)

lemma same_work_UpdatePeerClient: "same_work s (snd (UpdatePeerClient E R pc s))"
  by (simp add: same_work_def UpdatePeerClient_def Let_def)

lemma same_work_HandleDisconnected: "same_work s (snd (HandleDisconnected E R sess s))"
  by (simp add: same_work_def HandleDisconnected_def Let_def split: option.split)

lemma same_work_response_process: "same_work s (snd (response_process E R msg response err s))"
  by (auto simp: same_work_def response_process_def and_then_def on_world_def
      split: option.split prod.split sum.split go_error.split)

lemma run_handler_node:
  "snd (run_handler (node_handlers E R C receivers push) msg s) = s \<or>
   (\<exists>receive. map_of (handler_table E R C receivers push) (cm_MessageType msg) = Some receive \<and>
      cm_MessageDirect msg = MsgDirect_Request \<and>
      snd (run_handler (node_handlers E R C receivers push) msg s) = snd (receive msg s))"
proof (cases "node_handlers E R C receivers push (cm_MessageType msg)")
  case None
  then show ?thesis by (simp add: run_handler_def GetChainMessageHandler_def)
next
  case (Some h)
  then obtain receive where m: "map_of (handler_table E R C receivers push) (cm_MessageType msg) = Some receive"
    and h: "cmh_ReceiveHandler h = receive" "cmh_ResponseHandler h = BaseAction_Response"
    using node_handlers_find [of E R C receivers push "cm_MessageType msg"]
    by (cases "map_of (handler_table E R C receivers push) (cm_MessageType msg)")
      (auto simp: handler_functions_def)
  show ?thesis
    using m Some h
    by (auto simp: run_handler_def GetChainMessageHandler_def BaseAction_Response_def Let_def
        split: sum.split option.split go_error.split prod.split)
qed

text \<open>
  A received message is relayed, or it is bookkeeping only, or the handler of its type has run on the
  decrypted message, between steps that are bookkeeping.
\<close>

lemma Dispatch_node:
  fixes s :: "('w, 'c caches) node"
  shows "same_work s (snd (Dispatch E R (node_handlers E R C receivers push) msg s)) \<or>
   same_work (go_start (GoRelaySend msg) s) (snd (Dispatch E R (node_handlers E R C receivers push) msg s)) \<or>
   (\<exists>msg' receive s1. cm_MessageType msg' = cm_MessageType msg \<and> same_work s s1 \<and>
      map_of (handler_table E R C receivers push) (cm_MessageType msg) = Some receive \<and>
      cm_MessageDirect msg' = MsgDirect_Request \<and>
      snd (Dispatch E R (node_handlers E R C receivers push) msg s) = snd (receive msg' s1))"
proof (cases "cm_TargetPeerId msg = [] \<or> IsMyself E (cm_TargetPeerId msg)")
  case False
  then show ?thesis by (auto simp: Dispatch_def same_work_def on_world_def split: prod.split)
next
  case True
  obtain msg' err s1 where d: "on_world (Decrypt E R msg) s = ((msg', err), s1)" by (metis prod.exhaust)
  have s1: "same_work s s1" using same_work_on_world d by (metis snd_conv)
  have t: "cm_MessageType msg' = cm_MessageType msg"
    using decrypt_keeps_header on_world_Pair [OF d] by metis
  consider "\<exists>p. err = Some (Panic p)" | "Dispatch E R (node_handlers E R C receivers push) msg s =
      run_handler (node_handlers E R C receivers push) msg' s1"
    using True d by (cases err; cases "the err") (auto simp: Dispatch_def)
  then show ?thesis
  proof cases
    case 1
    with True d s1 show ?thesis by (auto simp: Dispatch_def)
  next
    case 2
    with run_handler_node [of E R C receivers push msg' s1] s1 t show ?thesis by metis
  qed
qed

lemma same_work_trans: "same_work s s1 \<Longrightarrow> same_work s1 s2 \<Longrightarrow> same_work s s2"
  by (simp add: same_work_def)

lemma ReceiveRaw_node:
  fixes s s' :: "('w, 'c caches) node"
  assumes "ReceiveRaw E R (node_handlers E R C receivers push) data src client sess addr s = (r, s')"
  obtains (same) "same_work s s'"
  | (relayed) msg where "same_work (go_start (GoRelaySend msg) s) s'"
  | (handled) msg receive s1 where "same_work s s1"
      "cm_MessageType msg = cm_MessageType (fst (lib_UnmarshalMessage E data))"
      "cm_MessageDirect msg = MsgDirect_Request"
      "map_of (handler_table E R C receivers push) (cm_MessageType msg) = Some receive"
      "same_work (snd (receive msg s1)) s'"
proof -
  let ?hs = "node_handlers E R C receivers push"
  obtain msg0 e where u: "lib_UnmarshalMessage E data = (msg0, e)" by fastforce
  show ?thesis
  proof (cases e)
    case (Some err)
    with assms u same show ?thesis
      using same_work_response_process [of s E R msg0 "Some (ErrorMessage MT_ERROR err)" "Some err"]
      by (simp add: ReceiveRaw_def)
  next
    case None
    define src' where "src' = (if src = [] then cm_SrcPeerId msg0 else src)"
    define msg where "msg = address_message E src' sess msg0"
    have ty: "cm_MessageType msg = cm_MessageType msg0" by (simp add: msg_def address_message_def Let_def)
    obtain pc where run: "and_then (UpdatePeerClient E R pc s) (\<lambda>_ s1. and_then (Dispatch E R ?hs msg s1)
        (\<lambda>(response, err, msg') s2. response_process E R msg' response err s2)) = (r, s')"
      using assms u None by (auto simp: ReceiveRaw_def Let_def src'_def [symmetric] msg_def [symmetric])
    obtain r1 s1 where up: "UpdatePeerClient E R pc s = (r1, s1)" by fastforce
    have s1: "same_work s s1" using same_work_UpdatePeerClient up by (metis snd_conv)
    obtain r2 s2 where dis: "Dispatch E R ?hs msg s1 = (r2, s2)" by fastforce
    have last: "s' = s1 \<or> same_work s2 s'"
    proof (cases r1)
      case Inl
      with run up show ?thesis by simp
    next
      case (Inr u)
      show ?thesis
      proof (cases r2)
        case Inl
        with run up dis \<open>r1 = Inr u\<close> show ?thesis by (simp add: same_work_def)
      next
        case (Inr x)
        with run up dis \<open>r1 = Inr u\<close>
        have "response_process E R (snd (snd x)) (fst x) (fst (snd x)) s2 = (r, s')" by (auto split: prod.splits)
        then show ?thesis using same_work_response_process by (metis snd_conv)
      qed
    qed
    show ?thesis
    proof (cases "s' = s1")
      case True
      with s1 same show ?thesis by simp
    next
      case False
      with last have s2: "same_work s2 s'" by simp
      from Dispatch_node [of s1 E R C receivers push msg] dis
      consider "same_work s1 s2" | "same_work (go_start (GoRelaySend msg) s1) s2"
        | msg' receive s3 where "cm_MessageType msg' = cm_MessageType msg" "same_work s1 s3"
          "map_of (handler_table E R C receivers push) (cm_MessageType msg) = Some receive"
          "cm_MessageDirect msg' = MsgDirect_Request" "s2 = snd (receive msg' s3)"
        by auto
      then show ?thesis
      proof cases
        case 1
        with s1 s2 same show ?thesis by (metis same_work_trans)
      next
        case 2
        with s1 s2 show ?thesis by (intro relayed [of msg]) (simp add: same_work_def)
      next
        case (3 msg' receive s3)
        with s1 s2 u ty show ?thesis by (intro handled [of s3 msg' receive]) (auto intro: same_work_trans)
      qed
    qed
  qed
qed

end
