(* ===== verification/PushNotifications.thy ===== *)
theory PushNotifications
  imports NodeHandlers
begin

text \<open>
  The notifications that a chat sends to the device of its receiver, \<^verbatim>\<open>p2pChat.go\<close>: one service for each
  kind of device. Huawei, Oppo and Vivo ask for an access token, which the node keeps and renews when a
  push is refused.
\<close>

section \<open>State\<close>

text \<open>The tokens of \<open>global.Global\<close>, a part of the world.\<close>

record push_tokens =
  HuaweiAccessToken :: string
  OppoAccessToken :: string
  VivoAccessToken :: string

record push_request =
  pr_DeviceTokens :: "string list"
  pr_AccessToken :: string
  pr_BusinessId :: string
  pr_Title :: string
  pr_SubTitle :: string
  pr_Content :: string
  pr_Extra :: "(string \<times> string) list"

text \<open>The answers that the three services are expected to give, and any other.\<close>

datatype push_response = HuaweiResponse string | OppoResponse int | VivoResponse int | OtherResponse

text \<open>
  The library of the services: the client of a service, its push, where nil is no response, and its
  access token. The clients do not touch the tokens.
\<close>

record 'w push_sdk =
  ps_GetClient :: "push_channel \<Rightarrow> 'w \<Rightarrow> unit res"
  ps_PushNotice :: "push_channel \<Rightarrow> push_request \<Rightarrow> 'w \<Rightarrow> push_response option \<times> 'w"
  ps_GetAccessToken :: "push_channel \<Rightarrow> 'w \<Rightarrow> string res \<times> 'w"
  ps_UUID :: "'w \<Rightarrow> string \<times> 'w"

section \<open>Texts\<close>

text \<open>The bytes of the texts that are not in ASCII.\<close>

definition utf8 :: "nat list \<Rightarrow> string" where
  "utf8 = map char_of"

definition getTitle :: "string \<Rightarrow> string" where
  "getTitle language =
     (if language = ''en-us'' then ''Message Reminder''
      else if language = ''ja-jp'' then utf8 [0xE3, 0x83, 0xA1, 0xE3, 0x83, 0x83, 0xE3, 0x82, 0xBB, 0xE3, 0x83, 0xBC, 0xE3, 0x82, 0xB8,
         0xE9, 0x80, 0x9A, 0xE7, 0x9F, 0xA5]
      else if language = ''ko-kr'' then utf8 [0xEB, 0xA9, 0x94, 0xEC, 0x8B, 0x9C, 0xEC, 0xA7, 0x80] @ '' '' @ utf8 [0xEC, 0x95, 0x8C,
         0xEB, 0xA6, 0xBC]
      else if language = ''zh-hans'' then utf8 [0xE6, 0xB6, 0x88, 0xE6, 0x81, 0xAF, 0xE6, 0x8F, 0x90, 0xE9, 0x86, 0x92]
      else if language = ''zh-tw'' then utf8 [0xE6, 0xB6, 0x88, 0xE6, 0x81, 0xAF, 0xE6, 0x8F, 0x90, 0xE9, 0x86, 0x92]
      else ''Message Reminder'')"

definition getContent :: "string \<Rightarrow> string \<Rightarrow> string" where
  "getContent language name =
     (if language = ''en-us'' then ''You have 1 message from '' @ name
      else if language = ''ja-jp'' then name @ '' '' @ utf8 [0xE3, 0x81, 0x8B, 0xE3, 0x82, 0x89, 0xE3, 0x81, 0xAE, 0xE3, 0x83, 0xA1,
         0xE3, 0x83, 0x83, 0xE3, 0x82, 0xBB, 0xE3, 0x83, 0xBC, 0xE3, 0x82, 0xB8, 0xE3, 0x81, 0x8C] @
         ''1'' @ utf8 [0xE3, 0x81, 0xA4, 0xE3, 0x81, 0x82, 0xE3, 0x82, 0x8A, 0xE3, 0x81, 0xBE, 0xE3,
         0x81, 0x99]
      else if language = ''ko-kr'' then ''1'' @ utf8 [0xEA, 0xB0, 0x9C, 0xEC, 0x9D, 0x98] @ '' '' @ utf8 [0xEB, 0xA9, 0x94, 0xEC, 0x8B,
         0x9C, 0xEC, 0xA7, 0x80, 0xEA, 0xB0, 0x80] @ '' '' @ utf8 [0xEC, 0x9E, 0x88, 0xEC, 0x8A, 0xB5,
         0xEB, 0x8B, 0x88, 0xEB, 0x8B, 0xA4] @ '' '' @ name
      else if language = ''zh-hans'' then utf8 [0xE6, 0x82, 0xA8, 0xE6, 0x9C, 0x89] @ ''1'' @ utf8 [0xE6, 0x9D, 0xA1, 0xE6, 0x9D, 0xA5,
         0xE8, 0x87, 0xAA] @ '' '' @ name @ '' '' @ utf8 [0xE7, 0x9A, 0x84, 0xE6, 0xB6, 0x88, 0xE6, 0x81,
         0xAF]
      else if language = ''zh-tw'' then utf8 [0xE6, 0x82, 0xA8, 0xE6, 0x9C, 0x89] @ ''1'' @ utf8 [0xE6, 0xA2, 0x9D, 0xE4, 0xBE, 0x86,
         0xE8, 0x87, 0xAA] @ '' '' @ name @ '' '' @ utf8 [0xE7, 0x9A, 0x84, 0xE6, 0xB6, 0x88, 0xE6, 0x81,
         0xAF]
      else ''You have 1 message from '' @ name)"

section \<open>Services\<close>

definition push_message :: "peer_client \<Rightarrow> string \<Rightarrow> (string \<times> string) list \<Rightarrow> string \<Rightarrow> string \<Rightarrow> push_request" where
  "push_message peerClient token extra content uuid =
     \<lparr>pr_DeviceTokens = [pc_DeviceToken peerClient], pr_AccessToken = token, pr_BusinessId = uuid,
      pr_Title = getTitle (pc_Language peerClient), pr_SubTitle = [], pr_Content = content, pr_Extra = extra\<rparr>"

text \<open>One push: the response is nil after an error too.\<close>

definition push_once ::
  "'w push_sdk \<Rightarrow> push_channel \<Rightarrow> (string \<Rightarrow> push_request) \<Rightarrow> 'w \<Rightarrow> push_response option \<times> 'w" where
  "push_once S channel msg w = (case ps_UUID S w of (uuid, w1) \<Rightarrow> ps_PushNotice S channel (msg uuid) w1)"

text \<open>Without a client nothing is pushed.\<close>

definition push_plain ::
  "'w push_sdk \<Rightarrow> push_channel \<Rightarrow> (string \<times> string) list \<Rightarrow> peer_client \<Rightarrow> string \<Rightarrow> 'w \<Rightarrow> unit res \<times> 'w" where
  "push_plain S channel extra peerClient content w =
     (case ps_GetClient S channel w of
        Inl (Panic p) \<Rightarrow> (Inl (Panic p), w)
      | Inl (Err _) \<Rightarrow> (Inr (), w)
      | Inr _ \<Rightarrow> (case push_once S channel (push_message peerClient [] extra content) w of (_, w1) \<Rightarrow> (Inr (), w1)))"

definition pushApple :: "'w push_sdk \<Rightarrow> peer_client \<Rightarrow> string \<Rightarrow> 'w \<Rightarrow> unit res \<times> 'w" where
  "pushApple S = push_plain S Push_Apple
     [(''type'', ''TodoRemind''), (''link_type'', ''TaskList''), (''link_params'', ''[]'')]"

definition pushXiaomi :: "'w push_sdk \<Rightarrow> peer_client \<Rightarrow> string \<Rightarrow> 'w \<Rightarrow> unit res \<times> 'w" where
  "pushXiaomi S = push_plain S Push_Xiaomi []"

definition pushMeizu :: "'w push_sdk \<Rightarrow> peer_client \<Rightarrow> string \<Rightarrow> 'w \<Rightarrow> unit res \<times> 'w" where
  "pushMeizu S = push_plain S Push_Meizu []"

text \<open>
  A refused push is tried once more with a new token, which is kept. The response is asserted to be of the
  type of the service: another one ends the program.
\<close>

definition push_with_token ::
  "('a push_tokens_scheme) push_sdk \<Rightarrow> push_channel \<Rightarrow> ('a push_tokens_scheme \<Rightarrow> string) \<Rightarrow>
   (string \<Rightarrow> 'a push_tokens_scheme \<Rightarrow> 'a push_tokens_scheme) \<Rightarrow> (push_response \<Rightarrow> bool res) \<Rightarrow> peer_client \<Rightarrow>
   string \<Rightarrow> 'a push_tokens_scheme \<Rightarrow> unit res \<times> 'a push_tokens_scheme" where
  "push_with_token S channel token set_token refused peerClient content w =
     (let sub = (\<lambda>w. push_once S channel (push_message peerClient (token w) [] content) w) in
      case ps_GetClient S channel w of
        Inl (Panic p) \<Rightarrow> (Inl (Panic p), w)
      | Inl (Err _) \<Rightarrow> (Inr (), w)
      | Inr _ \<Rightarrow>
          (case sub w of
             (respPush, w1) \<Rightarrow>
               (case (case respPush of None \<Rightarrow> Inr True | Some resp \<Rightarrow> refused resp) of
                  Inl e \<Rightarrow> (Inl e, w1)
                | Inr False \<Rightarrow> (Inr (), w1)
                | Inr True \<Rightarrow>
                    (case ps_GetAccessToken S channel w1 of
                       (Inl (Panic p), w2) \<Rightarrow> (Inl (Panic p), w2)
                     | (Inl (Err _), w2) \<Rightarrow> (Inr (), w2)
                     | (Inr t, w2) \<Rightarrow> (case sub (set_token t w2) of (_, w3) \<Rightarrow> (Inr (), w3))))))"

definition huawei_refused :: "push_response \<Rightarrow> bool res" where
  "huawei_refused resp =
     (case resp of HuaweiResponse code \<Rightarrow> Inr (code \<noteq> ''80000000'') | _ \<Rightarrow> Inl (Panic ''interface conversion''))"

definition oppo_refused :: "push_response \<Rightarrow> bool res" where
  "oppo_refused resp = (case resp of OppoResponse code \<Rightarrow> Inr (code \<noteq> 0) | _ \<Rightarrow> Inl (Panic ''interface conversion''))"

definition vivo_refused :: "push_response \<Rightarrow> bool res" where
  "vivo_refused resp = (case resp of VivoResponse r \<Rightarrow> Inr (r \<noteq> 0) | _ \<Rightarrow> Inl (Panic ''interface conversion''))"

definition pushHuawei ::
  "('a push_tokens_scheme) push_sdk \<Rightarrow> peer_client \<Rightarrow> string \<Rightarrow> 'a push_tokens_scheme \<Rightarrow>
   unit res \<times> 'a push_tokens_scheme" where
  "pushHuawei S = push_with_token S Push_Huawei HuaweiAccessToken (\<lambda>t w. w\<lparr>HuaweiAccessToken := t\<rparr>) huawei_refused"

definition pushOppo ::
  "('a push_tokens_scheme) push_sdk \<Rightarrow> peer_client \<Rightarrow> string \<Rightarrow> 'a push_tokens_scheme \<Rightarrow>
   unit res \<times> 'a push_tokens_scheme" where
  "pushOppo S = push_with_token S Push_Oppo OppoAccessToken (\<lambda>t w. w\<lparr>OppoAccessToken := t\<rparr>) oppo_refused"

definition pushVivo ::
  "('a push_tokens_scheme) push_sdk \<Rightarrow> peer_client \<Rightarrow> string \<Rightarrow> 'a push_tokens_scheme \<Rightarrow>
   unit res \<times> 'a push_tokens_scheme" where
  "pushVivo S = push_with_token S Push_Vivo VivoAccessToken (\<lambda>t w. w\<lparr>VivoAccessToken := t\<rparr>) vivo_refused"

text \<open>The parameter of \<open>P2pChat_Receive\<close>: the text in the language of the receiver, and its service.\<close>

definition push_service ::
  "('a push_tokens_scheme) push_sdk \<Rightarrow> push_channel \<Rightarrow> peer_client \<Rightarrow> string \<Rightarrow> 'a push_tokens_scheme \<Rightarrow>
   unit res \<times> 'a push_tokens_scheme" where
  "push_service S channel peerClient name =
     (let content = getContent (pc_Language peerClient) name in
      case channel of
        Push_Apple \<Rightarrow> pushApple S peerClient content
      | Push_Huawei \<Rightarrow> pushHuawei S peerClient content
      | Push_Xiaomi \<Rightarrow> pushXiaomi S peerClient content
      | Push_Oppo \<Rightarrow> pushOppo S peerClient content
      | Push_Vivo \<Rightarrow> pushVivo S peerClient content
      | Push_Meizu \<Rightarrow> pushMeizu S peerClient content)"

section \<open>Properties\<close>

fun access_token :: "push_channel \<Rightarrow> 'a push_tokens_scheme \<Rightarrow> string" where
  "access_token Push_Huawei w = HuaweiAccessToken w"
| "access_token Push_Oppo w = OppoAccessToken w"
| "access_token Push_Vivo w = VivoAccessToken w"
| "access_token _ w = []"

text \<open>The library leaves the tokens alone.\<close>

definition keeps_tokens :: "('a push_tokens_scheme) push_sdk \<Rightarrow> bool" where
  "keeps_tokens S \<longleftrightarrow> (\<forall>c ch msg w. access_token c (snd (ps_PushNotice S ch msg w)) = access_token c w \<and>
     access_token c (snd (ps_GetAccessToken S ch w)) = access_token c w \<and> access_token c (snd (ps_UUID S w)) = access_token c w)"

lemma push_once_tokens:
  assumes "keeps_tokens S"
  shows "access_token c (snd (push_once S ch msg w)) = access_token c w"
proof (cases "ps_UUID S w")
  case (Pair uuid w1)
  then have "access_token c w1 = access_token c w" using assms unfolding keeps_tokens_def by (metis snd_conv)
  then show ?thesis using assms Pair by (simp add: push_once_def keeps_tokens_def)
qed

lemma push_plain_tokens:
  "keeps_tokens S \<Longrightarrow> access_token c (snd (push_plain S ch extra pc content w)) = access_token c w"
  using push_once_tokens [of S c ch "push_message pc [] extra content" w]
  by (auto simp: push_plain_def split: sum.split go_error.split prod.split)

text \<open>How a push with a token goes: none, one, or two with a new token between them.\<close>

lemma push_with_token_cases:
  assumes "push_with_token S ch tok set_token refused pc content w = (r, w')"
  obtains (none) "w' = w"
    | (one) msg x where "push_once S ch msg w = (x, w')"
    | (token) msg x y w1 where "push_once S ch msg w = (x, w1)" "ps_GetAccessToken S ch w1 = (y, w')"
    | (two) msg x t w1 w2 msg' y where "push_once S ch msg w = (x, w1)" "ps_GetAccessToken S ch w1 = (Inr t, w2)"
        "push_once S ch msg' (set_token t w2) = (y, w')"
  using assms unfolding push_with_token_def Let_def
  by (auto split: sum.splits go_error.splits prod.splits option.splits bool.splits)

lemma push_plain_cases:
  assumes "push_plain S ch extra pc content w = (r, w')"
  obtains (none) "w' = w" | (one) msg x where "push_once S ch msg w = (x, w')"
  using assms by (auto simp: push_plain_def split: sum.splits go_error.splits prod.splits)

lemma push_with_token_tokens:
  assumes S: "keeps_tokens S" and set: "\<And>t w. access_token c (set_token t w) = access_token c w"
  shows "access_token c (snd (push_with_token S ch tok set_token refused pc content w)) = access_token c w"
proof -
  obtain r w' where run: "push_with_token S ch tok set_token refused pc content w = (r, w')" by fastforce
  have once: "access_token c w2 = access_token c w1" if "push_once S ch msg w1 = (x, w2)" for msg x w1 w2
    using push_once_tokens [OF S, of c ch msg w1] that by simp
  have token: "access_token c w2 = access_token c w1" if "ps_GetAccessToken S ch w1 = (x, w2)" for x w1 w2
    using S that unfolding keeps_tokens_def by (metis snd_conv)
  from run have "access_token c w' = access_token c w"
    by (cases rule: push_with_token_cases) (auto simp: set dest!: once token)
  with run show ?thesis by simp
qed

text \<open>
  A notification changes at most the access token of its own service: a token that Huawei hands out is
  never sent to another service.
\<close>

theorem push_keeps_tokens:
  assumes "keeps_tokens S" and "c \<noteq> ch" and "push_service S ch pc name w = (r, w')"
  shows "access_token c w' = access_token c w"
proof -
  have set: "ch = Push_Huawei \<Longrightarrow> access_token c (w\<lparr>HuaweiAccessToken := t\<rparr>) = access_token c w"
    "ch = Push_Oppo \<Longrightarrow> access_token c (w\<lparr>OppoAccessToken := t\<rparr>) = access_token c w"
    "ch = Push_Vivo \<Longrightarrow> access_token c (w\<lparr>VivoAccessToken := t\<rparr>) = access_token c w" for t w
    using assms(2) by (cases c; simp)+
  have "access_token c (snd (push_service S ch pc name w)) = access_token c w"
    by (cases ch) (simp_all add: push_service_def Let_def pushApple_def pushXiaomi_def pushMeizu_def
        pushHuawei_def pushOppo_def pushVivo_def push_plain_tokens [OF assms(1)] push_with_token_tokens [OF assms(1)] set)
  with assms(3) show ?thesis by simp
qed

text \<open>
  A chat pushes at most two notifications, however often the service refuses them: for every count that
  only a push raises, by one.
\<close>

theorem push_at_most_twice:
  assumes push: "\<And>ch msg w. sent (snd (ps_PushNotice S ch msg w)) \<le> Suc (sent w)"
    and other: "\<And>ch w. sent (snd (ps_GetAccessToken S ch w)) = sent w" "\<And>w. sent (snd (ps_UUID S w)) = sent w"
    and set: "\<And>t w. sent (w\<lparr>HuaweiAccessToken := t\<rparr>) = sent w" "\<And>t w. sent (w\<lparr>OppoAccessToken := t\<rparr>) = sent w"
      "\<And>t w. sent (w\<lparr>VivoAccessToken := t\<rparr>) = sent w"
    and run: "push_service S ch pc name w = (r, w')"
  shows "sent w' \<le> sent w + 2"
proof -
  have once: "sent w1 \<le> Suc (sent w)" if "push_once S c msg w = (x, w1)" for c msg w x w1
  proof (cases "ps_UUID S w")
    case (Pair uuid w2)
    with that push [of c "msg uuid" w2] other(2) [of w] show ?thesis by (simp add: push_once_def)
  qed
  have token: "sent w1 = sent w" if "ps_GetAccessToken S c w = (x, w1)" for c w x w1
    using other(1) [of c w] that by simp
  have plain: "sent (snd (push_plain S c extra pc content w)) \<le> sent w + 2" for c extra content
  proof -
    obtain x w1 where run: "push_plain S c extra pc content w = (x, w1)" by fastforce
    then have "sent w1 \<le> sent w + 2" by (cases rule: push_plain_cases) (auto dest!: once)
    with run show ?thesis by simp
  qed
  have twice: "sent (snd (push_with_token S c tok set_token refused pc content w)) \<le> sent w + 2"
    if "\<And>t w. sent (set_token t w) = sent w" for c tok set_token refused content
  proof -
    obtain x w1 where run: "push_with_token S c tok set_token refused pc content w = (x, w1)" by fastforce
    then have "sent w1 \<le> sent w + 2" by (cases rule: push_with_token_cases) (auto simp: that dest!: once token)
    with run show ?thesis by simp
  qed
  have "sent (snd (push_service S ch pc name w)) \<le> sent w + 2"
    using plain twice set
    by (cases ch) (simp_all add: push_service_def Let_def pushApple_def pushXiaomi_def pushMeizu_def
        pushHuawei_def pushOppo_def pushVivo_def)
  with run show ?thesis by simp
qed

section \<open>Instances\<close>

text \<open>A log of the pushes behind the tokens, and a service that refuses every push.\<close>

record push_log = push_tokens +
  pushed :: "push_request list"

definition refusing :: "push_log push_sdk" where
  "refusing = \<lparr>ps_GetClient = \<lambda>_ _. Inr (), ps_PushNotice = \<lambda>_ msg w. (None, w\<lparr>pushed := pushed w @ [msg]\<rparr>),
     ps_GetAccessToken = \<lambda>_ w. (Inr ''new'', w), ps_UUID = \<lambda>w. (''id'', w)\<rparr>"

definition no_pushes :: push_log where
  "no_pushes = \<lparr>HuaweiAccessToken = ''old'', OppoAccessToken = [], VivoAccessToken = [], pushed = []\<rparr>"

lemma access_token_pushed [simp]: "access_token c (w\<lparr>pushed := x\<rparr>) = access_token c w"
  by (cases c) simp_all

theorem push_keeps_tokens_witness:
  "access_token Push_Oppo (snd (push_service refusing Push_Huawei peer_client0 ''bob'' no_pushes)) = []"
proof -
  have "keeps_tokens refusing" by (simp add: keeps_tokens_def refusing_def)
  from push_keeps_tokens [OF this, of Push_Oppo Push_Huawei, OF _ prod.collapse [symmetric]] show ?thesis
    by (simp add: no_pushes_def)
qed

theorem push_at_most_twice_witness:
  "length (pushed (snd (push_service refusing Push_Huawei peer_client0 ''bob'' no_pushes))) \<le> 2"
  using push_at_most_twice [of "length \<circ> pushed" refusing, OF _ _ _ _ _ _ prod.collapse [symmetric],
      of Push_Huawei peer_client0 "''bob''" no_pushes]
  by (simp add: refusing_def no_pushes_def)

end
