(* ===== verification/RoutingEvents.thy ===== *)
theory RoutingEvents
  imports DhtActions
begin

text \<open>
  What the node does when its routing table changes, \<^verbatim>\<open>PeerAdded\<close> and \<^verbatim>\<open>PeerRemoved\<close> of \<^verbatim>\<open>libp2p/dht.go\<close>, and
  the peers that it tells to a client that has connected, \<^verbatim>\<open>returnPeerEndpoint\<close> of \<^verbatim>\<open>connect.go\<close>.
\<close>

section \<open>The routing table\<close>

text \<open>\<open>PeerEndPoint\<close> sends the record of this node to the new peer.\<close>

definition PeerEndPoint ::
  "'w env \<Rightarrow> 'w datastores \<Rightarrow> string \<Rightarrow> ('w, 'c) node \<Rightarrow> payload res \<times> ('w, 'c) node" where
  "PeerEndPoint E R targetPeerId s =
     (case on_world (PrepareSend E MT_PEERENDPOINT [] (PMyselfPeer (glb_MyselfPeer E)) targetPeerId) s of
        (msg, s1) \<Rightarrow>
          and_then (DirectSend E R (msg\<lparr>cm_PayloadType := PayloadType_PeerEndpoint\<rparr>) s1)
            (\<lambda>response s2. (Inr (response_payload response), s2)))"

definition endpoint_event :: "'w env \<Rightarrow> 'w datastores \<Rightarrow> string \<Rightarrow> string \<Rightarrow> 'w \<Rightarrow> unit res \<times> 'w" where
  "endpoint_event E R status peerId w =
     and_then (or_none (PeerEndpoint_GetLocal E R peerId w)) (\<lambda>(peerEndPoints, _) w1.
       if peerEndPoints = [] then (Inr (), w1)
       else
         (case env_now E w1 of
            (now, w2) \<Rightarrow>
              each (\<lambda>peerEndPoint w. case peerEndPoint of
                  None \<Rightarrow> (Inl NilDereference, w)
                | Some pe \<Rightarrow> drop_error (PeerEndpoint_PutLocal E R
                    (pe\<lparr>pe_ActiveStatus := status, pe_LastUpdateTime := Some now\<rparr>) w)) peerEndPoints w2))"

definition PeerAdded :: "'w env \<Rightarrow> 'w datastores \<Rightarrow> string \<Rightarrow> ('w, 'c) node \<Rightarrow> unit res \<times> ('w, 'c) node" where
  "PeerAdded E R peerId s =
     (case PeerEndPoint E R peerId s of
        (Inl (Panic p), s1) \<Rightarrow> (Inl (Panic p), s1)
      | (_, s1) \<Rightarrow> on_world (endpoint_event E R ActiveStatus_Up peerId) s1)"

definition PeerRemoved :: "'w env \<Rightarrow> 'w datastores \<Rightarrow> string \<Rightarrow> ('w, 'c) node \<Rightarrow> unit res \<times> ('w, 'c) node" where
  "PeerRemoved E R peerId = on_world (endpoint_event E R ActiveStatus_Down peerId)"

section \<open>The peers that a connecting client is told\<close>

text \<open>
  The closest peers in the DHT, the order in which the goroutines that ask for their records get their
  turns, and the decoding of a record.
\<close>

record 'w closest =
  cl_GetClosestPeers :: "string \<Rightarrow> 'w \<Rightarrow> string list res \<times> 'w"
  cl_Turns :: "string list \<Rightarrow> 'w \<Rightarrow> string list \<times> 'w"
  cl_TextUnmarshal :: "string \<Rightarrow> peer_endpoint option list res"

text \<open>The first endpoint of each record; a nil one is logged, and its fields are read for that.\<close>

fun first_endpoints :: "'w closest \<Rightarrow> string list \<Rightarrow> peer_endpoint option list res" where
  "first_endpoints L [] = Inr []"
| "first_endpoints L (recvdVal # recvdVals) =
     (case cl_TextUnmarshal L recvdVal of
        Inl (Panic p) \<Rightarrow> Inl (Panic p)
      | Inl (Err _) \<Rightarrow> first_endpoints L recvdVals
      | Inr [] \<Rightarrow> first_endpoints L recvdVals
      | Inr (None # _) \<Rightarrow> Inl NilDereference
      | Inr (Some pe # _) \<Rightarrow> map_sum id ((#) (Some pe)) (first_endpoints L recvdVals))"

fun closest_endpoints ::
  "'w env \<Rightarrow> 'w closest \<Rightarrow> string list \<Rightarrow> 'w \<Rightarrow> peer_endpoint option list res \<times> 'w" where
  "closest_endpoints E L [] w = (Inr [], w)"
| "closest_endpoints E L (p # ps) w =
     (case GetValues E (GetPeerEndpointKey p) w of
        (Inl (Panic e), w1) \<Rightarrow> (Inl (Panic e), w1)
      | (Inl (Err _), w1) \<Rightarrow> closest_endpoints E L ps w1
      | (Inr recvdVals, w1) \<Rightarrow>
          and_then (first_endpoints L recvdVals, w1) (\<lambda>xs w2.
            and_then (closest_endpoints E L ps w2) (\<lambda>ys w3. (Inr (xs @ ys), w3))))"

definition own_endpoint :: "'a library_scheme \<Rightarrow> peer_endpoint" where
  "own_endpoint E =
     (case lib_UnmarshalPeerEndpoint E
             (case lib_Marshal E (PMyselfPeer (glb_MyselfPeer E)) of Inl _ \<Rightarrow> [] | Inr myself \<Rightarrow> myself) of
        Inl _ \<Rightarrow> peer_endpoint0
      | Inr peerEndpoint \<Rightarrow> peerEndpoint)"

text \<open>The peers, and whether the search has failed.\<close>

definition known_endpoints ::
  "'w env \<Rightarrow> 'w closest \<Rightarrow> 'w \<Rightarrow> (peer_endpoint option list \<times> bool) res \<times> 'w" where
  "known_endpoints E L w =
     (let own = own_endpoint E in
      case cl_GetClosestPeers L (GetPeerEndpointKey (pe_PeerId own)) w of
        (Inl (Panic p), w1) \<Rightarrow> (Inl (Panic p), w1)
      | (Inl (Err _), w1) \<Rightarrow> (Inr ([Some own], True), w1)
      | (Inr parray, w1) \<Rightarrow>
          (case cl_Turns L parray w1 of
             (turns, w2) \<Rightarrow>
               and_then (closest_endpoints E L turns w2) (\<lambda>found w3. (Inr (Some own # found, False), w3))))"

definition endpoints_response :: "chain_message \<Rightarrow> peer_endpoint option list \<Rightarrow> bool \<Rightarrow> chain_message" where
  "endpoints_response msg peers failed =
     (let response = (ResponseMessage MT_FINDPEER (PPeerEndpoints peers))\<lparr>cm_PayloadType := PayloadType_PeerEndpoints\<rparr> in
      if failed then response else (SetResponse msg response)\<lparr>cm_NeedCompress := False\<rparr>)"

text \<open>The result is that of \<open>Send\<close>, which the goroutine drops.\<close>

definition returnPeerEndpoint ::
  "'w env \<Rightarrow> 'w datastores \<Rightarrow> 'w closest \<Rightarrow> chain_message \<Rightarrow> ('w, 'c) node \<Rightarrow>
   chain_message option res \<times> ('w, 'c) node" where
  "returnPeerEndpoint E R L msg s =
     and_then (on_world (known_endpoints E L) s)
       (\<lambda>(peers, failed) s1. Send E R (endpoints_response msg peers failed) s1)"

section \<open>Properties\<close>

lemma Send_untargeted:
  assumes "cm_TargetPeerId msg = []" "cm_Topic msg = []" "cm_NeedEncrypt msg = False" "Send E R msg s = (r, s')"
    and "\<And>p. r \<noteq> Inl (Panic p)"
  shows "r = Inl (Err ''NullTargetPeerId'') \<and> s' = s"
proof -
  have "\<exists>msg' e. Encrypt E R msg (nd_world s) = ((msg', e), nd_world s) \<and> cm_TargetPeerId msg' = [] \<and> cm_Topic msg' = []"
    using assms(1-3) by (auto simp: Encrypt_def compress_payload_def transport_def split: sum.split prod.split)
  then obtain msg' e where "Encrypt E R msg (nd_world s) = ((msg', e), nd_world s)" "cm_TargetPeerId msg' = []" "cm_Topic msg' = []"
    by blast
  then show ?thesis using assms(4,5)
    by (auto simp: Send_def on_world_def RelaySend_def split: option.splits go_error.splits)
qed

text \<open>
  The list of the peers that a connecting client should get is never sent, unless its request names a
  topic: \<open>SetResponse\<close> does not set the target of the answer, and the sender refuses a message without one.
  Whatever the DHT has found, no task is started and only the search changes the world.
\<close>

theorem returnPeerEndpoint_unsent:
  assumes "cm_Topic msg = []" and "on_world (known_endpoints E L) s = (Inr found, s1)"
    and "returnPeerEndpoint E R L msg s = (r, s')" and "\<And>p. r \<noteq> Inl (Panic p)"
  shows "r = Inl (Err ''NullTargetPeerId'') \<and> s' = s1"
proof -
  obtain peers failed where found: "found = (peers, failed)" by (cases found)
  let ?m = "endpoints_response msg peers failed"
  have "cm_TargetPeerId ?m = []" "cm_Topic ?m = []" "cm_NeedEncrypt ?m = False"
    using assms(1) by (simp_all add: endpoints_response_def Let_def SetResponse_def ResponseMessage_def chain_message0_def)
  moreover have "Send E R ?m s1 = (r, s')"
    using assms(2,3) found by (simp add: returnPeerEndpoint_def and_then_def)
  ultimately show ?thesis using Send_untargeted assms(4) by blast
qed

section \<open>Instances\<close>

definition alone :: "unit closest" where
  "alone = \<lparr>cl_GetClosestPeers = \<lambda>_ w. (Inl (Err ''timeout''), w), cl_Turns = \<lambda>ps w. (ps, w),
     cl_TextUnmarshal = \<lambda>_. Inr []\<rparr>"

theorem returnPeerEndpoint_unsent_witness:
  "fst (returnPeerEndpoint sample_env no_datastores alone chain_message0 empty_node) = Inl (Err ''NullTargetPeerId'')"
proof -
  have found: "on_world (known_endpoints sample_env alone) empty_node = (Inr ([Some (own_endpoint (sample_env :: unit env))], True), empty_node)"
    by (simp add: on_world_def known_endpoints_def Let_def alone_def empty_node_def)
  obtain r s' where run: "returnPeerEndpoint sample_env no_datastores alone chain_message0 empty_node = (r, s')" by fastforce
  have "r \<noteq> Inl (Panic p)" for p
    using run unfolding returnPeerEndpoint_def found and_then_def
    by (auto simp: endpoints_response_def Let_def ResponseMessage_def chain_message0_def Send_def on_world_def Encrypt_def
        RelaySend_def compress_payload_def transport_def split: sum.splits prod.splits option.splits go_error.splits)
  with returnPeerEndpoint_unsent [OF _ found run] run show ?thesis by (simp add: chain_message0_def)
qed

end
