(* ===== verification/MessageSlices.thy ===== *)
theory MessageSlices
  imports Prelude
begin

text \<open>
  \<^verbatim>\<open>webrtc/message_slice.go\<close>: a message is sent over a data channel in slices of at most 16 KB, each with
  a header of three integers, and put together again by the receiver. The two functions of the package
  \<open>encoding/binary\<close> that write and read the header are a parameter; \<open>go_binary\<close> is what they do on
  the type \<open>int\<close>, which has no fixed size: nothing is written, and a variable that is read is left as it is.
\<close>

section \<open>Slicing and merging\<close>

record binary_codec =
  bin_Write :: "int \<Rightarrow> string"
  bin_Read :: "string \<Rightarrow> int \<Rightarrow> int"

definition go_binary :: binary_codec where
  "go_binary = \<lparr>bin_Write = (\<lambda>_. []), bin_Read = (\<lambda>_ v. v)\<rparr>"

definition sliceSize :: nat where
  "sliceSize = 16 * 1024"

definition slice_count :: "string \<Rightarrow> nat" where
  "slice_count message =
     (let total = length message in total div sliceSize + (if total mod sliceSize > 0 then 1 else 0))"

definition chunk :: "string \<Rightarrow> nat \<Rightarrow> string" where
  "chunk message i =
     (let start = i * sliceSize; end = (i + 1) * sliceSize in
      if end < length message then drop start (take end message) else drop start message)"

definition slice_header :: "binary_codec \<Rightarrow> int \<Rightarrow> nat \<Rightarrow> nat \<Rightarrow> string" where
  "slice_header B randomNum sliceCount i =
     bin_Write B randomNum @ bin_Write B (int sliceCount) @ bin_Write B (int i)"

text \<open>The map from the indices to the slices, as the list of the slices.\<close>

definition slice :: "binary_codec \<Rightarrow> int \<Rightarrow> string \<Rightarrow> string list" where
  "slice B randomNum message =
     (let sliceCount = slice_count message in
      map (\<lambda>i. slice_header B randomNum sliceCount i @ chunk message i) [0..<sliceCount])"

record message_slice =
  ms_sliceBuffer :: "(int \<times> string) list"
  ms_sliceBufferId :: int

definition no_slices :: message_slice where
  "no_slices = \<lparr>ms_sliceBuffer = [], ms_sliceBufferId = 0\<rparr>"

abbreviation OutOfRange :: go_error where
  "OutOfRange \<equiv> Panic ''slice bounds out of range''"

definition payload_of :: "string \<Rightarrow> string res" where
  "payload_of data = (if length data < 12 then Inl OutOfRange else Inr (drop 12 data))"

fun join_slices :: "(int \<times> string) list \<Rightarrow> nat list \<Rightarrow> string res" where
  "join_slices buf [] = Inr []"
| "join_slices buf (j # js) =
     (case map_of buf (int j) of
        None \<Rightarrow> join_slices buf js
      | Some d \<Rightarrow>
          (case payload_of d of
             Inl e \<Rightarrow> Inl e
           | Inr x \<Rightarrow> (case join_slices buf js of Inl e \<Rightarrow> Inl e | Inr xs \<Rightarrow> Inr (x @ xs))))"

text \<open>
  The bounds of \<open>data[0:4]\<close> are those of the array behind the slice \<open>data\<close>: \<open>spare\<close> are the bytes
  of the array after it. The result is nil until the last slice has come.
\<close>

definition merge_slice ::
  "binary_codec \<Rightarrow> string \<Rightarrow> string \<Rightarrow> message_slice \<Rightarrow> string option res \<times> message_slice" where
  "merge_slice B spare data m =
     (let arr = data @ spare in
      if length arr < 4 then (Inl OutOfRange, m)
      else
        (let id = bin_Read B (take 4 arr) 0;
             m = (if id \<noteq> ms_sliceBufferId m then \<lparr>ms_sliceBuffer = [], ms_sliceBufferId = id\<rparr> else m) in
         if length arr < 12 then (Inl OutOfRange, m)
         else
           (let sliceCount = bin_Read B (take 4 (drop 4 arr)) 0; i = bin_Read B (take 4 (drop 8 arr)) 0 in
            if sliceCount = 1 then (map_sum (\<lambda>e. e) Some (payload_of data), no_slices)
            else
              (let buf = ms_sliceBuffer m;
                   buf = (if map_of buf i = None then buf @ [(i, data)] else buf);
                   m = m\<lparr>ms_sliceBuffer := buf\<rparr> in
               if int (length buf) = sliceCount then
                 (case join_slices buf [0..<length buf] of
                    Inl e \<Rightarrow> (Inl e, m) | Inr message \<Rightarrow> (Inr (Some message), no_slices))
               else (Inr None, m)))))"

fun merge_all :: "binary_codec \<Rightarrow> (string \<times> string) list \<Rightarrow> message_slice \<Rightarrow> string option res list \<times> message_slice" where
  "merge_all B [] m = ([], m)"
| "merge_all B ((data, spare) # ds) m =
     (case merge_slice B spare data m of
        (r, m1) \<Rightarrow> (case merge_all B ds m1 of (rs, m2) \<Rightarrow> (r # rs, m2)))"

section \<open>The slices of a message\<close>

lemma chunk_take_drop: "chunk message i = take sliceSize (drop (i * sliceSize) message)"
proof -
  have "drop (i * sliceSize) (take ((i + 1) * sliceSize) message) = take sliceSize (drop (i * sliceSize) message)"
    by (simp add: drop_take)
  then show ?thesis by (auto simp: chunk_def Let_def)
qed

lemma sliceSize_pos [simp]: "0 < sliceSize"
  by (simp add: sliceSize_def)

lemma slice_count_bounds:
  "length message \<le> slice_count message * sliceSize"
  "message \<noteq> [] \<Longrightarrow> (slice_count message - 1) * sliceSize < length message"
proof -
  let ?q = "length message div sliceSize" and ?r = "length message mod sliceSize"
  have q: "length message = ?q * sliceSize + ?r" and r: "?r < sliceSize" by simp_all
  show "length message \<le> slice_count message * sliceSize"
  proof (cases "?r > 0")
    case True
    then show ?thesis
      using dividend_less_div_times [OF sliceSize_pos, of "length message"] by (simp add: slice_count_def Let_def)
  next
    case False
    then have "length message = ?q * sliceSize" using q by (metis add.right_neutral gr0I)
    with False show ?thesis by (simp add: slice_count_def Let_def)
  qed
  show "(slice_count message - 1) * sliceSize < length message" if "message \<noteq> []"
  proof (cases "?r > 0")
    case True
    then have "?q * sliceSize < length message" using q by linarith
    with True show ?thesis by (simp add: slice_count_def Let_def)
  next
    case False
    with q that have "?q > 0" by (cases ?q) auto
    with q False show ?thesis by (cases ?q) (simp_all add: slice_count_def Let_def)
  qed
qed

lemma concat_chunks: "concat (map (chunk message) [0..<n]) = take (n * sliceSize) message"
proof (induction n)
  case (Suc n)
  have "take (n * sliceSize) message @ take sliceSize (drop (n * sliceSize) message) =
      take (n * sliceSize + sliceSize) message"
    by (rule take_add [symmetric])
  with Suc show ?case by (simp add: chunk_take_drop add.commute)
qed simp

lemma all_chunks: "concat (map (chunk message) [0..<slice_count message]) = message"
  using slice_count_bounds(1) by (simp add: concat_chunks)


lemma length_slice [simp]: "length (slice B num message) = slice_count message"
  by (simp add: slice_def Let_def)

lemma slice_go_binary: "slice go_binary num message = map (chunk message) [0..<slice_count message]"
  by (simp add: slice_def slice_header_def go_binary_def Let_def)

text \<open>
  The slices that are sent are bare pieces of the message, in order and of at most 16 KB each, and the
  last one is not empty; they carry no header, so that nothing tells the receiver which is which.
\<close>

theorem slice_pieces:
  "concat (slice go_binary num message) = message \<and>
   list_all (\<lambda>s. s \<noteq> [] \<and> length s \<le> sliceSize) (slice go_binary num message)"
proof -
  have "chunk message i \<noteq> []" if "i < slice_count message" for i
  proof -
    from that have "message \<noteq> []" by (auto simp: slice_count_def)
    have "i * sliceSize \<le> (slice_count message - 1) * sliceSize" using that by (intro mult_le_mono1) simp
    also note slice_count_bounds(2) [OF \<open>message \<noteq> []\<close>]
    finally show ?thesis by (simp add: chunk_take_drop)
  qed
  then show ?thesis
    using all_chunks by (auto simp: slice_go_binary chunk_take_drop list_all_iff)
qed

section \<open>Merging without headers\<close>

lemma merge_slice_go_binary:
  assumes "merge_slice go_binary spare data m = (r, m')" "ms_sliceBufferId m = 0"
  shows "(r = Inl OutOfRange \<or> r = Inr None) \<and> ms_sliceBufferId m' = 0 \<and>
    (12 \<le> length (data @ spare) \<longrightarrow> r = Inr None \<and>
       ms_sliceBuffer m' = (if map_of (ms_sliceBuffer m) 0 = None then ms_sliceBuffer m @ [(0, data)] else ms_sliceBuffer m))"
  using assms
  by (auto simp: merge_slice_def Let_def go_binary_def split: if_splits)

text \<open>
  Nothing that is received over a data channel ever reaches the application: from a fresh
  \<open>MessageSlice\<close>, whatever arrives, no call of \<open>merge\<close> returns a message.
\<close>

theorem merge_never_returns_message:
  assumes "merge_all go_binary ds no_slices = (rs, m)"
  shows "\<forall>r\<in>set rs. r = Inl OutOfRange \<or> r = Inr None"
proof -
  have "\<forall>r\<in>set rs. r = Inl OutOfRange \<or> r = Inr None"
    if "merge_all go_binary ds m0 = (rs, m)" "ms_sliceBufferId m0 = 0" for m0
    using that
  proof (induction ds arbitrary: m0 rs)
    case (Cons d ds)
    obtain data spare where d: "d = (data, spare)" by fastforce
    obtain r1 m1 where one: "merge_slice go_binary spare data m0 = (r1, m1)" by fastforce
    obtain rs' where rs: "rs = r1 # rs'" and rest: "merge_all go_binary ds m1 = (rs', m)"
      using Cons.prems(1) d one by (auto split: prod.splits)
    from merge_slice_go_binary [OF one Cons.prems(2)] Cons.IH [OF rest] rs show ?case by auto
  qed auto
  then show ?thesis using assms by (simp add: no_slices_def)
qed

section \<open>Merging with headers\<close>








section \<open>The properties on concrete messages\<close>

theorem merge_never_returns_message_witness:
  "fst (merge_all go_binary [(''hello, world'', []), (''hello'', [])] no_slices) \<noteq> [Inr (Some ''hello, world''), Inr None]"
  using merge_never_returns_message [of "[(''hello, world'', []), (''hello'', [])]", OF prod.collapse [symmetric]]
  by fastforce






end
