(* ===== verification/WebrtcSignals.thy ===== *)
theory WebrtcSignals
  imports Entity MessageSlices
begin

text \<open>
  The signals by which two WebRTC connections find each other: the structs of \<^verbatim>\<open>webrtc/default.go\<close> and the
  two directions of the translation in \<^verbatim>\<open>webrtc/signal.go\<close>, \<open>Signal\<close> to a map that is sent as JSON and
  \<open>Transform\<close> of the map that has been received.
\<close>

section \<open>Signals\<close>

record meeting_room =
  mr_Id :: string
  mr_Typ :: string
  mr_Action :: string
  mr_RoomId :: string
  mr_Identity :: string

text \<open>The three fields of \<open>webrtc.ICEServer\<close>, and of \<open>webrtc.SessionDescription\<close> the text of its type.\<close>

record ice_server =
  is_URLs :: "string list"
  is_Username :: string
  is_Credential :: string

record session_description =
  sd_Type :: string
  sd_SDP :: string

record signal_extension =
  se_PeerId :: string
  se_ClientId :: string
  se_Name :: string
  se_Room :: "meeting_room option"
  se_IceServers :: "ice_server list option"

definition signal_extension0 :: signal_extension where
  "signal_extension0 = \<lparr>se_PeerId = [], se_ClientId = [], se_Name = [], se_Room = None, se_IceServers = None\<rparr>"

text \<open>A value in the map of a request for a transceiver: the kind of a codec, or what JSON has.\<close>

datatype request_value = RKind string | RJson json

text \<open>A candidate is the object that JSON has for it.\<close>

record webrtc_signal =
  ws_SignalType :: string
  ws_Renegotiate :: bool
  ws_TransceiverRequest :: "(string \<times> request_value) list option"
  ws_Candidates :: "json list option"
  ws_Sdp :: "session_description option"
  ws_SignalExtension :: "signal_extension option"

definition webrtc_signal0 :: webrtc_signal where
  "webrtc_signal0 = \<lparr>ws_SignalType = [], ws_Renegotiate = False, ws_TransceiverRequest = None,
     ws_Candidates = None, ws_Sdp = None, ws_SignalExtension = None\<rparr>"

abbreviation WebrtcSignalType_TransceiverRequest :: string where
  "WebrtcSignalType_TransceiverRequest \<equiv> ''transceiverRequest''"
abbreviation WebrtcSignalType_Renegotiate :: string where "WebrtcSignalType_Renegotiate \<equiv> ''renegotiate''"
abbreviation WebrtcSignalType_Sdp :: string where "WebrtcSignalType_Sdp \<equiv> ''sdp''"
abbreviation WebrtcSignalType_Offer :: string where "WebrtcSignalType_Offer \<equiv> ''offer''"
abbreviation WebrtcSignalType_Answer :: string where "WebrtcSignalType_Answer \<equiv> ''answer''"
abbreviation WebrtcSignalType_Candidate :: string where "WebrtcSignalType_Candidate \<equiv> ''candidate''"

text \<open>\<open>GetICEServers\<close>, with the parameters of the SFU from the configuration.\<close>

definition GetICEServers :: "string list list \<Rightarrow> string list \<Rightarrow> string list \<Rightarrow> ice_server list" where
  "GetICEServers urls usernames credentials =
     map (\<lambda>(i, us). \<lparr>is_URLs = us, is_Username = (if i < length usernames then usernames ! i else []),
        is_Credential = (if i < length credentials then credentials ! i else [])\<rparr>)
       (zip [0..<length urls] urls)"

section \<open>Sending and receiving\<close>

text \<open>
  The map that \<open>Signal\<close> sends. The candidates go under the key \<open>candidate\<close>, and the \<open>init\<close> of a
  request under the key \<open>kind\<close>. A nil slice is \<open>null\<close>.
\<close>

definition signal_request :: "(string \<times> request_value) list option \<Rightarrow> (string \<times> json) list" where
  "signal_request tr =
     (let req = (case tr of None \<Rightarrow> [] | Some m \<Rightarrow> m);
          kind = (case map_of req ''kind'' of Some (RKind k) \<Rightarrow> Some k | _ \<Rightarrow> None) in
      case map_of req ''init'' of
        Some (RJson (JStr i)) \<Rightarrow> [(''kind'', JStr i)]
      | _ \<Rightarrow> (case kind of Some k \<Rightarrow> [(''kind'', JStr k)] | None \<Rightarrow> []))"

definition signal_payload :: "webrtc_signal \<Rightarrow> (string \<times> json) list" where
  "signal_payload sig =
     (let t = ws_SignalType sig in
      (''type'', JStr t) #
      (if t = WebrtcSignalType_Offer \<or> t = WebrtcSignalType_Answer then
         (case ws_Sdp sig of None \<Rightarrow> [] | Some sdp \<Rightarrow> [(''sdp'', JStr (sd_SDP sdp))])
       else if t = WebrtcSignalType_Candidate then
         [(''candidate'', case ws_Candidates sig of None \<Rightarrow> JNull | Some cs \<Rightarrow> JArr cs)]
       else if t = WebrtcSignalType_Renegotiate then [(''renegotiate'', JBool (ws_Renegotiate sig))]
       else if t = WebrtcSignalType_TransceiverRequest then
         [(''transceiverRequest'', JObj (signal_request (ws_TransceiverRequest sig)))]
       else []))"

text \<open>
  The assertion to \<open>[]map[string]interface{}\<close> never holds of a value that was decoded from JSON: an
  array is a \<open>[]interface{}\<close>.
\<close>

definition as_maps :: "json \<Rightarrow> json list option" where
  "as_maps j = None"

text \<open>The parameter \<open>ext\<close> decodes the extension; \<open>None\<close> is the nil signal.\<close>

definition transform_sdp :: "string \<Rightarrow> json option \<Rightarrow> session_description option" where
  "transform_sdp t j =
     (case j of
        Some (JStr s) \<Rightarrow> if s \<noteq> [] then Some \<lparr>sd_Type = t, sd_SDP = s\<rparr> else None
      | _ \<Rightarrow> None)"

definition Transform :: "(json \<Rightarrow> signal_extension option) \<Rightarrow> (string \<times> json) list \<Rightarrow> webrtc_signal option" where
  "Transform ext payload =
     (let field = map_of payload;
          signalType = (case field ''type'' of Some (JStr t) \<Rightarrow> t | _ \<Rightarrow> []) in
      if field ''type'' \<noteq> None \<and> signalType = [] then None
      else Some (webrtc_signal0\<lparr>
        ws_SignalType := signalType,
        ws_Sdp := (if signalType = WebrtcSignalType_Offer \<or> signalType = WebrtcSignalType_Answer
                   then transform_sdp signalType (field ''sdp'') else None),
        ws_Candidates := (if signalType = WebrtcSignalType_Candidate
                          then Option.bind (field ''candidates'') as_maps else None),
        ws_Renegotiate := (signalType = WebrtcSignalType_Renegotiate \<and> field ''renegotiate'' = Some (JBool True)),
        ws_TransceiverRequest := (if signalType = WebrtcSignalType_TransceiverRequest
          then (case field ''transceiverRequest'' of
                  Some (JObj m) \<Rightarrow> Some (map (map_prod (\<lambda>k. k) RJson) m) | _ \<Rightarrow> None) else None),
        ws_SignalExtension := Option.bind (field ''extension'') ext\<rparr>))"

section \<open>What arrives of a signal\<close>

text \<open>
  Of a signal that is sent the receiver gets its type, the text of an offer or an answer, the wish to
  renegotiate and the kind of a transceiver. The candidates never arrive, nor does the extension, and an
  \<open>sdp\<close> signal, the only form in which \<open>BasePeerConnection\<close> has its descriptions, arrives empty.
\<close>

theorem signal_arrives:
  assumes "ws_SignalType sig \<noteq> []"
  shows "Transform ext (signal_payload sig) = Some (webrtc_signal0\<lparr>
    ws_SignalType := ws_SignalType sig,
    ws_Sdp := (if ws_SignalType sig \<in> {WebrtcSignalType_Offer, WebrtcSignalType_Answer}
      then map_option (\<lambda>sdp. sdp\<lparr>sd_Type := ws_SignalType sig\<rparr>)
        (case ws_Sdp sig of Some sdp \<Rightarrow> if sd_SDP sdp \<noteq> [] then Some sdp else None | None \<Rightarrow> None) else None),
    ws_Renegotiate := (ws_SignalType sig = WebrtcSignalType_Renegotiate \<and> ws_Renegotiate sig),
    ws_TransceiverRequest := (if ws_SignalType sig = WebrtcSignalType_TransceiverRequest
      then Some (map (map_prod (\<lambda>k. k) RJson) (signal_request (ws_TransceiverRequest sig))) else None)\<rparr>)"
  using assms
  by (cases "ws_Sdp sig")
    (auto simp: Transform_def signal_payload_def Let_def transform_sdp_def webrtc_signal0_def split: option.splits)

theorem signal_arrives_witness:
  "ws_Candidates (the (Transform (\<lambda>_. None) (signal_payload (webrtc_signal0\<lparr>
     ws_SignalType := ''candidate'', ws_Candidates := Some [JStr ''c'']\<rparr>)))) = None"
  using signal_arrives [of "webrtc_signal0\<lparr>ws_SignalType := ''candidate'', ws_Candidates := Some [JStr ''c'']\<rparr>" "\<lambda>_. None"]
  by (simp add: webrtc_signal0_def)

end
