(* ===== verification/PeerConnections.thy ===== *)
theory PeerConnections
  imports WebrtcSignals "HOL-Library.AList"
begin

text \<open>
  A WebRTC connection: \<^verbatim>\<open>webrtc/base_peer_connection.go\<close>, \<^verbatim>\<open>datachannel.go\<close> and
  \<^verbatim>\<open>advanced_peer_connection.go\<close>, with the maps of the pool \<^verbatim>\<open>peer_connection_pool.go\<close>, which the event
  handlers of a connection work on. The connections are objects behind pointers: a pointer is an index into
  the list of the connections. The library \<open>pion\<close> is a parameter; its connections and channels are
  handles, and a method call on a nil handle is a nil dereference. What it reports, it reports by calling
  the \<open>on...\<close> functions; each is an operation here.
\<close>

section \<open>State\<close>

abbreviation NegotiateStatus_none :: string where "NegotiateStatus_none \<equiv> ''none''"
abbreviation NegotiateStatus_negotiating :: string where "NegotiateStatus_negotiating \<equiv> ''negotiating''"
abbreviation NegotiateStatus_negotiated :: string where "NegotiateStatus_negotiated \<equiv> ''negotiated''"

abbreviation PeerConnectionStatus_none :: string where "PeerConnectionStatus_none \<equiv> ''none''"
abbreviation PeerConnectionStatus_init :: string where "PeerConnectionStatus_init \<equiv> ''init''"
abbreviation PeerConnectionStatus_connected :: string where "PeerConnectionStatus_connected \<equiv> ''connected''"
abbreviation PeerConnectionStatus_closed :: string where "PeerConnectionStatus_closed \<equiv> ''closed''"

text \<open>
  Of the local tracks only the map of the streams matters: nil or not, and the tracks by stream and name.
  \<open>bp_events\<close> tells whether the handlers of \<open>AdvancedPeerConnection.Init\<close> are registered.
\<close>

record base_pc =
  bp_id :: string
  bp_initiator :: bool
  bp_peerConnection :: "nat option"
  bp_status :: string
  bp_negotiateStatus :: string
  bp_dataChannelOpen :: bool
  bp_dataChannel :: "nat option"
  bp_needDataChannel :: bool
  bp_localTracks :: "(string \<times> (string \<times> nat) list) list option"
  bp_events :: bool
  bp_extension :: "signal_extension option"
  bp_start :: int
  bp_end :: int
  bp_delayTimes :: int
  bp_reconnectTimes :: int
  bp_messageSlice :: message_slice

definition CreateBasePeerConnection :: "bool \<Rightarrow> base_pc" where
  "CreateBasePeerConnection initiator = \<lparr>bp_id = [], bp_initiator = initiator, bp_peerConnection = None,
     bp_status = [], bp_negotiateStatus = [], bp_dataChannelOpen = False, bp_dataChannel = None,
     bp_needDataChannel = True, bp_localTracks = None, bp_events = False, bp_extension = None,
     bp_start = 0, bp_end = 0, bp_delayTimes = 20, bp_reconnectTimes = 1, bp_messageSlice = no_slices\<rparr>"

record advanced_pc =
  ap_base :: base_pc
  ap_peerId :: string
  ap_clientId :: string
  ap_name :: string
  ap_connectPeerId :: string
  ap_connectSessionId :: string
  ap_Room :: "meeting_room option"

definition CreateAdvancedPeerConnection ::
  "string \<Rightarrow> bool \<Rightarrow> string \<Rightarrow> string \<Rightarrow> string \<Rightarrow> string \<Rightarrow> meeting_room option \<Rightarrow> advanced_pc" where
  "CreateAdvancedPeerConnection peerId initiator clientId name connectPeerId connectSessionId room =
     \<lparr>ap_base = CreateBasePeerConnection initiator, ap_peerId = peerId, ap_clientId = clientId, ap_name = name,
       ap_connectPeerId = connectPeerId, ap_connectSessionId = connectSessionId, ap_Room = room\<rparr>"

text \<open>
  The library, the clock, the sending of a signal by \<open>SignalAction.Signal\<close> (connect peer, signal, target)
  and the order in which \<open>range\<close> visits the keys of a map.
\<close>

record 'w pion =
  pn_NewPeerConnection :: "string \<Rightarrow> ice_server list \<Rightarrow> 'w \<Rightarrow> (nat option \<times> go_error option) \<times> 'w"
  pn_CreateDataChannel :: "nat \<Rightarrow> string \<Rightarrow> 'w \<Rightarrow> nat option \<times> 'w"
  pn_LocalDescription :: "nat \<Rightarrow> 'w \<Rightarrow> session_description option \<times> 'w"
  pn_RemoteDescription :: "nat \<Rightarrow> 'w \<Rightarrow> session_description option \<times> 'w"
  pn_CreateOffer :: "nat \<Rightarrow> 'w \<Rightarrow> session_description res \<times> 'w"
  pn_CreateAnswer :: "nat \<Rightarrow> 'w \<Rightarrow> session_description res \<times> 'w"
  pn_SetLocalDescription :: "nat \<Rightarrow> session_description \<Rightarrow> 'w \<Rightarrow> 'w"
  pn_SetRemoteDescription :: "nat \<Rightarrow> session_description \<Rightarrow> 'w \<Rightarrow> go_error option \<times> 'w"
  pn_AddICECandidate :: "nat \<Rightarrow> json \<Rightarrow> 'w \<Rightarrow> go_error option \<times> 'w"
  pn_AddTrack :: "nat \<Rightarrow> nat \<Rightarrow> 'w \<Rightarrow> nat res \<times> 'w"
  pn_Close :: "nat \<Rightarrow> 'w \<Rightarrow> 'w"
  pn_CloseChannel :: "nat \<Rightarrow> 'w \<Rightarrow> 'w"
  pn_ChannelSend :: "nat \<Rightarrow> string \<Rightarrow> 'w \<Rightarrow> go_error option \<times> 'w"
  pn_UUID :: "'w \<Rightarrow> string \<times> 'w"
  pn_Nanosecond :: "'w \<Rightarrow> int \<times> 'w"
  pn_Random :: "'w \<Rightarrow> int \<times> 'w"
  pn_Signal :: "string \<Rightarrow> webrtc_signal \<Rightarrow> string \<Rightarrow> 'w \<Rightarrow> unit res \<times> 'w"
  pn_RangeKeys :: "string list \<Rightarrow> 'w \<Rightarrow> string list \<times> 'w"
  pn_RangeSlices :: "nat \<Rightarrow> 'w \<Rightarrow> nat list \<times> 'w"
  pn_Extension :: "json \<Rightarrow> signal_extension option"
  pn_ICEServers :: "ice_server list"

record 'w rtc =
  rt_world :: 'w
  rt_conns :: "advanced_pc list"
  rt_pool :: "(string \<times> (string \<times> nat) list) list"

definition on_pion :: "('w \<Rightarrow> 'r \<times> 'w) \<Rightarrow> 'w rtc \<Rightarrow> 'r \<times> 'w rtc" where
  "on_pion f s = (case f (rt_world s) of (r, w') \<Rightarrow> (r, s\<lparr>rt_world := w'\<rparr>))"

definition do_pion :: "('w \<Rightarrow> 'w) \<Rightarrow> 'w rtc \<Rightarrow> 'w rtc" where
  "do_pion f s = s\<lparr>rt_world := f (rt_world s)\<rparr>"

abbreviation conn :: "'w rtc \<Rightarrow> nat \<Rightarrow> advanced_pc" where "conn s r \<equiv> rt_conns s ! r"
abbreviation base :: "'w rtc \<Rightarrow> nat \<Rightarrow> base_pc" where "base s r \<equiv> ap_base (conn s r)"

definition set_conn :: "nat \<Rightarrow> (advanced_pc \<Rightarrow> advanced_pc) \<Rightarrow> 'w rtc \<Rightarrow> 'w rtc" where
  "set_conn r f s = s\<lparr>rt_conns := (rt_conns s)[r := f (conn s r)]\<rparr>"

definition set_base :: "nat \<Rightarrow> (base_pc \<Rightarrow> base_pc) \<Rightarrow> 'w rtc \<Rightarrow> 'w rtc" where
  "set_base r f s = set_conn r (\<lambda>a. a\<lparr>ap_base := f (ap_base a)\<rparr>) s"

text \<open>A new object.\<close>

definition new_conn :: "advanced_pc \<Rightarrow> 'w rtc \<Rightarrow> nat \<times> 'w rtc" where
  "new_conn a s = (length (rt_conns s), s\<lparr>rt_conns := rt_conns s @ [a]\<rparr>)"

section \<open>The maps of the pool\<close>

text \<open>\<open>get\<close> and \<open>getOne\<close>: the connections of a peer in the order of \<open>range\<close>; nil without an entry.\<close>

definition pool_get :: "'w pion \<Rightarrow> string \<Rightarrow> 'w rtc \<Rightarrow> nat list option \<times> 'w rtc" where
  "pool_get P peerId s =
     (case map_of (rt_pool s) peerId of
        None \<Rightarrow> (None, s)
      | Some pcs \<Rightarrow>
          (case on_pion (pn_RangeKeys P (map fst pcs)) s of
             (ks, s1) \<Rightarrow> (Some (List.map_filter (map_of pcs) ks), s1)))"

definition pool_getOne :: "'w pion \<Rightarrow> string \<Rightarrow> string \<Rightarrow> 'w rtc \<Rightarrow> nat option \<times> 'w rtc" where
  "pool_getOne P peerId clientId s =
     (case pool_get P peerId s of
        (None, s1) \<Rightarrow> (None, s1)
      | (Some rs, s1) \<Rightarrow> (List.find (\<lambda>r. ap_clientId (conn s1 r) = clientId) rs, s1))"

definition pool_put :: "string \<Rightarrow> nat \<Rightarrow> string \<Rightarrow> 'w rtc \<Rightarrow> 'w rtc" where
  "pool_put peerId r clientId s =
     (let pcs = (case map_of (rt_pool s) peerId of None \<Rightarrow> [] | Some pcs \<Rightarrow> pcs) in
      s\<lparr>rt_pool := AList.update peerId (AList.update clientId r pcs) (rt_pool s)\<rparr>)"

text \<open>\<open>remove\<close> returns the map of what is removed, nil without an entry or for an empty one.\<close>

definition pool_remove :: "string \<Rightarrow> string \<Rightarrow> 'w rtc \<Rightarrow> (string \<times> nat) list option \<times> 'w rtc" where
  "pool_remove peerId clientId s =
     (case map_of (rt_pool s) peerId of
        None \<Rightarrow> (None, s)
      | Some pcs \<Rightarrow>
          if pcs = [] then (None, s)
          else if clientId = [] then (Some pcs, s\<lparr>rt_pool := AList.delete peerId (rt_pool s)\<rparr>)
          else
            (let left = AList.delete clientId pcs;
                 removed = (case map_of pcs clientId of None \<Rightarrow> [] | Some r \<Rightarrow> [(clientId, r)]) in
             (Some removed, s\<lparr>rt_pool := (if left = [] then AList.delete peerId (rt_pool s)
                                           else AList.update peerId left (rt_pool s))\<rparr>)))"

section \<open>Events\<close>

definition connected :: "'w rtc \<Rightarrow> nat \<Rightarrow> bool" where
  "connected s r \<longleftrightarrow> bp_status (base s r) = PeerConnectionStatus_connected"

text \<open>
  A signal goes through the pool, whose handler \<open>signal\<close> sends it to the peer, unless the pool has a
  connected connection to the client: then nothing is sent.
\<close>

definition pool_signal :: "'w pion \<Rightarrow> advanced_pc \<Rightarrow> webrtc_signal \<Rightarrow> 'w rtc \<Rightarrow> unit res \<times> 'w rtc" where
  "pool_signal P a sig s =
     (case pool_getOne P (ap_peerId a) (ap_clientId a) s of
        (found, s1) \<Rightarrow>
          if (case found of None \<Rightarrow> False | Some r \<Rightarrow> connected s1 r) then (Inr (), s1)
          else on_pion (pn_Signal P (ap_connectPeerId a) sig (ap_peerId a)) s1)"

text \<open>An error of a handler is dropped by the callers of \<open>Emit\<close>, a panic is not.\<close>

definition drop_err :: "unit res \<times> 's \<Rightarrow> unit res \<times> 's" where
  "drop_err r = (case r of (Inl (Panic p), s) \<Rightarrow> (Inl (Panic p), s) | (_, s) \<Rightarrow> (Inr (), s))"

definition emit_signal :: "'w pion \<Rightarrow> nat \<Rightarrow> webrtc_signal \<Rightarrow> 'w rtc \<Rightarrow> unit res \<times> 'w rtc" where
  "emit_signal P r sig s =
     (if bp_events (base s r) then drop_err (pool_signal P (conn s r) sig s) else (Inr (), s))"

definition emit_closed :: "nat \<Rightarrow> 'w rtc \<Rightarrow> 'w rtc" where
  "emit_closed r s =
     (if bp_events (base s r) then snd (pool_remove (ap_peerId (conn s r)) (ap_clientId (conn s r)) s) else s)"

section \<open>Closing and sending\<close>

text \<open>
  \<open>Close\<close> sets the library's connection to nil and then calls its methods to take the handlers off.
\<close>

definition close_channel :: "'w pion \<Rightarrow> nat \<Rightarrow> 'w rtc \<Rightarrow> 'w rtc" where
  "close_channel P r s =
     (case bp_dataChannel (base s r) of
        None \<Rightarrow> s
      | Some ch \<Rightarrow> set_base r (\<lambda>b. b\<lparr>bp_dataChannelOpen := False, bp_dataChannel := None\<rparr>)
                    (do_pion (pn_CloseChannel P ch) s))"

definition rtc_Close :: "'w pion \<Rightarrow> nat \<Rightarrow> 'w rtc \<Rightarrow> unit res \<times> 'w rtc" where
  "rtc_Close P r s =
     (if bp_status (base s r) = PeerConnectionStatus_closed then (Inr (), s)
      else
        (let s1 = close_channel P r (set_base r (\<lambda>b. b\<lparr>bp_localTracks := None\<rparr>) s) in
         case bp_peerConnection (base s1 r) of
           Some h \<Rightarrow> (Inl NilDereference, set_base r (\<lambda>b. b\<lparr>bp_peerConnection := None\<rparr>) (do_pion (pn_Close P h) s1))
         | None \<Rightarrow> (Inr (), emit_closed r (set_base r (\<lambda>b. b\<lparr>bp_status := PeerConnectionStatus_closed,
                       bp_negotiateStatus := NegotiateStatus_none\<rparr>) s1))))"

definition rtc_Send :: "'w pion \<Rightarrow> nat \<Rightarrow> string \<Rightarrow> 'w rtc \<Rightarrow> unit res \<times> 'w rtc" where
  "rtc_Send P r data s =
     (if bp_status (base s r) = PeerConnectionStatus_closed then (Inl (Err ''PeerConnectionStatus closed''), s)
      else
        (case on_pion (pn_Random P) s of
           (randomNum, s1) \<Rightarrow>
             let slices = slice go_binary randomNum data in
             (case on_pion (pn_RangeSlices P (length slices)) s1 of
                (order, s2) \<Rightarrow>
                  each (\<lambda>i s.
                    case bp_dataChannel (base s r) of
                      None \<Rightarrow> (Inl NilDereference, s)
                    | Some ch \<Rightarrow>
                        (case on_pion (pn_ChannelSend P ch (slices ! i)) s of
                           (None, s) \<Rightarrow> (Inr (), s) | (Some e, s) \<Rightarrow> (Inl e, s))) order s2)))"

text \<open>\<open>AdvancedPeerConnection.Send\<close> and \<open>SendText\<close>: without a connection nothing is sent, without an error.\<close>

definition adv_Send :: "'w pion \<Rightarrow> nat \<Rightarrow> string \<Rightarrow> 'w rtc \<Rightarrow> unit res \<times> 'w rtc" where
  "adv_Send P r data s = (if connected s r then rtc_Send P r data s else (Inr (), s))"

text \<open>A local track is put into the map of its stream, which must not be nil.\<close>

definition rtc_AddTrack :: "'w pion \<Rightarrow> nat \<Rightarrow> string \<Rightarrow> string \<Rightarrow> nat \<Rightarrow> 'w rtc \<Rightarrow> nat res \<times> 'w rtc" where
  "rtc_AddTrack P r streamId trackId track s =
     (case bp_peerConnection (base s r) of
        None \<Rightarrow> (Inl NilDereference, s)
      | Some h \<Rightarrow>
          and_then (on_pion (pn_AddTrack P h track) s) (\<lambda>sender s1.
            case bp_localTracks (base s1 r) of
              None \<Rightarrow> (Inl (Panic ''assignment to entry in nil map''), s1)
            | Some streams \<Rightarrow>
                let tracks = (case map_of streams streamId of None \<Rightarrow> [] | Some ts \<Rightarrow> ts) in
                (Inr sender, set_base r (\<lambda>b. b\<lparr>bp_localTracks :=
                   Some (AList.update streamId (AList.update trackId track tracks) streams)\<rparr>) s1)))"

section \<open>What the library reports\<close>

definition hello_text :: string where
  "hello_text = ''hello,'' @ map (\<lambda>n. char_of (n :: nat)) [0xE8, 0x83, 0xA1, 0xE5, 0x8A, 0xB2, 0xE6, 0x9D, 0xBE]"

definition rtc_Connected :: "'w pion \<Rightarrow> nat \<Rightarrow> 'w rtc \<Rightarrow> unit res \<times> 'w rtc" where
  "rtc_Connected P r s =
     (if connected s r then (Inr (), s)
      else
        (case on_pion (pn_Nanosecond P) s of
           (now, s1) \<Rightarrow>
             let s2 = set_base r (\<lambda>b. b\<lparr>bp_end := now, bp_status := PeerConnectionStatus_connected\<rparr>) s1 in
             if bp_events (base s2 r) then drop_err (adv_Send P r hello_text s2) else (Inr (), s2)))"

definition onIceConnectionStateChange :: "'w pion \<Rightarrow> nat \<Rightarrow> string \<Rightarrow> 'w rtc \<Rightarrow> unit res \<times> 'w rtc" where
  "onIceConnectionStateChange P r state s =
     (if connected s r then (Inr (), s)
      else
        and_then (if state \<in> {''connected'', ''completed''} then rtc_Connected P r s else (Inr (), s)) (\<lambda>_ s1.
          if state \<in> {''failed'', ''closed'', ''disconnected''} then rtc_Close P r s1 else (Inr (), s1)))"

definition onSignalingStateChange :: "nat \<Rightarrow> string \<Rightarrow> 'w rtc \<Rightarrow> 'w rtc" where
  "onSignalingStateChange r state s =
     (if \<not> connected s r \<and> state = ''stable''
      then set_base r (\<lambda>b. b\<lparr>bp_negotiateStatus := NegotiateStatus_negotiated\<rparr>) s else s)"

definition onIceCandidate :: "'w pion \<Rightarrow> nat \<Rightarrow> json option \<Rightarrow> 'w rtc \<Rightarrow> unit res \<times> 'w rtc" where
  "onIceCandidate P r candidate s =
     (if bp_status (base s r) = PeerConnectionStatus_closed then (Inr (), s)
      else
        (case candidate of
           None \<Rightarrow> (Inr (), s)
         | Some can \<Rightarrow> emit_signal P r (webrtc_signal0\<lparr>ws_SignalType := WebrtcSignalType_Candidate,
             ws_Candidates := Some [can], ws_SignalExtension := bp_extension (base s r)\<rparr>) s))"

text \<open>
  The messages of a data channel: what \<open>merge\<close> returns is emitted, for which the pool has no handler.
  The result is the message that is emitted.
\<close>

definition rtc_onMessage :: "nat \<Rightarrow> string \<Rightarrow> string \<Rightarrow> 'w rtc \<Rightarrow> string option res \<times> 'w rtc" where
  "rtc_onMessage r spare data s =
     (if bp_status (base s r) = PeerConnectionStatus_closed then (Inr None, s)
      else
        (case merge_slice go_binary spare data (bp_messageSlice (base s r)) of
           (slices, ms) \<Rightarrow> (slices, set_base r (\<lambda>b. b\<lparr>bp_messageSlice := ms\<rparr>) s)))"

definition onChannelOpen :: "nat \<Rightarrow> 'w rtc \<Rightarrow> unit res \<times> 'w rtc" where
  "onChannelOpen r s =
     (if bp_status (base s r) = PeerConnectionStatus_closed then (Inr (), s)
      else if bp_peerConnection (base s r) = None then (Inl NilDereference, s)
      else (Inr (), set_base r (\<lambda>b. b\<lparr>bp_dataChannelOpen := True\<rparr>) s))"

definition onChannelClose :: "'w pion \<Rightarrow> nat \<Rightarrow> 'w rtc \<Rightarrow> unit res \<times> 'w rtc" where
  "onChannelClose P r s =
     (if bp_status (base s r) = PeerConnectionStatus_closed then (Inr (), s) else rtc_Close P r s)"

section \<open>Setting up\<close>

definition setupDataChannel :: "'w pion \<Rightarrow> nat \<Rightarrow> nat option \<Rightarrow> 'w rtc \<Rightarrow> unit res \<times> 'w rtc" where
  "setupDataChannel P r dataChannel s =
     and_then (if dataChannel = None then rtc_Close P r s else (Inr (), s)) (\<lambda>_ s1.
       let s2 = set_base r (\<lambda>b. b\<lparr>bp_dataChannel := dataChannel\<rparr>) s1 in
       if dataChannel = None then (Inl NilDereference, s2) else (Inr (), s2))"

text \<open>\<open>BasePeerConnection.Init\<close>: \<open>start\<close> is the nanosecond of the zero time.\<close>

definition base_Init :: "'w pion \<Rightarrow> nat \<Rightarrow> signal_extension \<Rightarrow> 'w rtc \<Rightarrow> unit res \<times> 'w rtc" where
  "base_Init P r extension s =
     (case on_pion (pn_UUID P) s of
        (uuid, s1) \<Rightarrow>
          let s2 = set_base r (\<lambda>b. b\<lparr>bp_id := uuid, bp_start := 0, bp_extension := Some extension\<rparr>) s1;
              iceServers = (case se_IceServers extension of None \<Rightarrow> pn_ICEServers P | Some is \<Rightarrow> is) in
          (case on_pion (pn_NewPeerConnection P uuid iceServers) s2 of
             ((pc, err), s3) \<Rightarrow>
               let s4 = set_base r (\<lambda>b. b\<lparr>bp_peerConnection := pc\<rparr>) s3 in
               (case err of
                  Some e \<Rightarrow> (Inl e, s4)
                | None \<Rightarrow>
                    (case pc of
                       None \<Rightarrow> (Inl NilDereference, s4)
                     | Some h \<Rightarrow>
                         and_then
                           (if bp_initiator (base s4 r) \<and> bp_needDataChannel (base s4 r) then
                              (case on_pion (pn_UUID P) s4 of
                                 (channelName, s5) \<Rightarrow>
                                   (case on_pion (pn_CreateDataChannel P h channelName) s5 of
                                      (dataChannel, s6) \<Rightarrow>
                                        setupDataChannel P r dataChannel
                                          (set_base r (\<lambda>b. b\<lparr>bp_dataChannel := dataChannel\<rparr>) s6)))
                            else (Inr (), s4))
                           (\<lambda>_ s7. (Inr (), set_base r (\<lambda>b. b\<lparr>bp_status := PeerConnectionStatus_init\<rparr>) s7))))))"

text \<open>\<open>AdvancedPeerConnection.Init\<close> drops the error and the servers it is given.\<close>

definition adv_Init :: "'w pion \<Rightarrow> nat \<Rightarrow> 'w rtc \<Rightarrow> unit res \<times> 'w rtc" where
  "adv_Init P r s =
     and_then (drop_err (base_Init P r (signal_extension0\<lparr>se_Room := ap_Room (conn s r)\<rparr>) s)) (\<lambda>_ s1.
       (Inr (), set_base r (\<lambda>b. b\<lparr>bp_events := True\<rparr>) s1))"

section \<open>Negotiating\<close>

text \<open>The local description is what the library has, for an answer else the answer itself.\<close>

definition send_sdp :: "'w pion \<Rightarrow> nat \<Rightarrow> nat \<Rightarrow> session_description option \<Rightarrow> 'w rtc \<Rightarrow> unit res \<times> 'w rtc" where
  "send_sdp P r h otherwise s =
     (if bp_status (base s r) = PeerConnectionStatus_closed then (Inr (), s)
      else
        (case on_pion (pn_LocalDescription P h) s of
           (sdp, s1) \<Rightarrow>
             emit_signal P r (webrtc_signal0\<lparr>ws_SignalType := WebrtcSignalType_Sdp,
               ws_Sdp := (if sdp = None then otherwise else sdp),
               ws_SignalExtension := bp_extension (base s1 r)\<rparr>) s1))"

definition createOffer :: "'w pion \<Rightarrow> nat \<Rightarrow> 'w rtc \<Rightarrow> unit res \<times> 'w rtc" where
  "createOffer P r s =
     (if bp_status (base s r) = PeerConnectionStatus_closed then (Inr (), s)
      else
        (case bp_peerConnection (base s r) of
           None \<Rightarrow> (Inl NilDereference, s)
         | Some h \<Rightarrow>
             (case on_pion (pn_LocalDescription P h) s of
                (_, s1) \<Rightarrow>
                  (case on_pion (pn_CreateOffer P h) s1 of
                     (Inl _, s2) \<Rightarrow> (Inr (), s2)
                   | (Inr offer, s2) \<Rightarrow> send_sdp P r h None (do_pion (pn_SetLocalDescription P h offer) s2)))))"

definition createAnswer :: "'w pion \<Rightarrow> nat \<Rightarrow> 'w rtc \<Rightarrow> unit res \<times> 'w rtc" where
  "createAnswer P r s =
     (if bp_status (base s r) = PeerConnectionStatus_closed then (Inr (), s)
      else
        (case bp_peerConnection (base s r) of
           None \<Rightarrow> (Inl NilDereference, s)
         | Some h \<Rightarrow>
             (case on_pion (pn_LocalDescription P h) s of
                (_, s1) \<Rightarrow>
                  (case on_pion (pn_CreateAnswer P h) s1 of
                     (Inl _, s2) \<Rightarrow> (Inr (), s2)
                   | (Inr answer, s2) \<Rightarrow>
                       send_sdp P r h (Some answer) (do_pion (pn_SetLocalDescription P h answer) s2)))))"

definition negotiateOffer :: "'w pion \<Rightarrow> nat \<Rightarrow> 'w rtc \<Rightarrow> unit res \<times> 'w rtc" where
  "negotiateOffer P r s =
     (if bp_status (base s r) = PeerConnectionStatus_closed \<or>
         bp_negotiateStatus (base s r) = NegotiateStatus_negotiating then (Inr (), s)
      else createOffer P r (set_base r (\<lambda>b. b\<lparr>bp_negotiateStatus := NegotiateStatus_negotiating\<rparr>) s))"

definition negotiateAnswer :: "'w pion \<Rightarrow> nat \<Rightarrow> 'w rtc \<Rightarrow> unit res \<times> 'w rtc" where
  "negotiateAnswer P r s =
     (if bp_status (base s r) = PeerConnectionStatus_closed \<or>
         bp_negotiateStatus (base s r) = NegotiateStatus_negotiating \<or> \<not> connected s r then (Inr (), s)
      else
        and_then (emit_signal P r (webrtc_signal0\<lparr>ws_SignalType := WebrtcSignalType_Renegotiate,
            ws_Renegotiate := True, ws_SignalExtension := bp_extension (base s r)\<rparr>) s) (\<lambda>_ s1.
          (Inr (), set_base r (\<lambda>b. b\<lparr>bp_negotiateStatus := NegotiateStatus_negotiating\<rparr>) s1)))"

text \<open>
  The channel of the timer is compared with nil and not waited for, so that the status is tested at once.
  A round counts \<open>reconnectTimes\<close> down: as many rounds more as this number are enough.
\<close>

fun negotiate_rounds :: "nat \<Rightarrow> 'w pion \<Rightarrow> nat \<Rightarrow> 'w rtc \<Rightarrow> unit res \<times> 'w rtc" where
  "negotiate_rounds n P r s =
     and_then (if bp_initiator (base s r) then negotiateOffer P r s else negotiateAnswer P r s) (\<lambda>_ s1.
       if connected s1 r then (Inr (), s1)
       else
         and_then (rtc_Close P r s1) (\<lambda>_ s2.
           if bp_reconnectTimes (base s2 r) > 0 then
             (let s3 = set_base r (\<lambda>b. b\<lparr>bp_reconnectTimes := bp_reconnectTimes b - 1\<rparr>) s2 in
              case n of 0 \<Rightarrow> (Inr (), s3) | Suc m \<Rightarrow> negotiate_rounds m P r s3)
           else (Inr (), s2)))"

declare negotiate_rounds.simps [simp del]

definition rtc_negotiate :: "'w pion \<Rightarrow> nat \<Rightarrow> 'w rtc \<Rightarrow> unit res \<times> 'w rtc" where
  "rtc_negotiate P r s = negotiate_rounds (nat (bp_reconnectTimes (base s r))) P r s"

section \<open>Received signals\<close>

text \<open>The candidate that is asked for the reason of the error is a fresh one, so that the connection is closed.\<close>

definition addIceCandidate :: "'w pion \<Rightarrow> nat \<Rightarrow> json \<Rightarrow> 'w rtc \<Rightarrow> unit res \<times> 'w rtc" where
  "addIceCandidate P r candidate s =
     (case bp_peerConnection (base s r) of
        None \<Rightarrow> (Inl NilDereference, s)
      | Some h \<Rightarrow>
          (case on_pion (pn_AddICECandidate P h candidate) s of
             (None, s1) \<Rightarrow> (Inr (), s1)
           | (Some e, s1) \<Rightarrow> and_then (rtc_Close P r s1) (\<lambda>_ s2. (Inl e, s2))))"

definition add_candidates :: "'w pion \<Rightarrow> nat \<Rightarrow> json list \<Rightarrow> 'w rtc \<Rightarrow> unit res \<times> 'w rtc" where
  "add_candidates P r = each (\<lambda>c s. drop_err (addIceCandidate P r c s))"

definition empty_signal :: "webrtc_signal \<Rightarrow> bool" where
  "empty_signal sig \<longleftrightarrow> ws_Sdp sig = None \<and> ws_Candidates sig = None \<and> \<not> ws_Renegotiate sig \<and>
     ws_TransceiverRequest sig = None"

text \<open>
  A request for a transceiver is replaced by an empty map before it is read, so that nothing follows.
\<close>

definition onOfferSignal :: "'w pion \<Rightarrow> nat \<Rightarrow> webrtc_signal \<Rightarrow> 'w rtc \<Rightarrow> unit res \<times> 'w rtc" where
  "onOfferSignal P r sig s =
     (if bp_status (base s r) = PeerConnectionStatus_closed then (Inr (), s)
      else if empty_signal sig then rtc_Close P r s
      else if ws_SignalType sig = WebrtcSignalType_Renegotiate \<and> ws_Renegotiate sig then rtc_negotiate P r s
      else if ws_TransceiverRequest sig \<noteq> None then (Inr (), s)
      else if ws_SignalType sig = WebrtcSignalType_Candidate \<and> ws_Candidates sig \<noteq> None then
        add_candidates P r (the (ws_Candidates sig)) s
      else if ws_SignalType sig = WebrtcSignalType_Sdp \<and> ws_Sdp sig \<noteq> None then
        (case bp_peerConnection (base s r) of
           None \<Rightarrow> (Inl NilDereference, s)
         | Some h \<Rightarrow>
             (case on_pion (pn_RemoteDescription P h) s of
                (_, s1) \<Rightarrow>
                  (case on_pion (pn_SetRemoteDescription P h (the (ws_Sdp sig))) s1 of
                     (None, s2) \<Rightarrow> (Inr (), s2)
                   | (Some _, s2) \<Rightarrow> rtc_Close P r s2)))
      else (Inr (), s))"

definition onAnswerSignal :: "'w pion \<Rightarrow> nat \<Rightarrow> webrtc_signal \<Rightarrow> 'w rtc \<Rightarrow> unit res \<times> 'w rtc" where
  "onAnswerSignal P r sig s =
     (if bp_status (base s r) = PeerConnectionStatus_closed then (Inr (), s)
      else if empty_signal sig then rtc_Close P r s
      else
        (let s = set_base r (\<lambda>b. b\<lparr>bp_negotiateStatus := NegotiateStatus_negotiating\<rparr>) s in
         if ws_SignalType sig = WebrtcSignalType_Candidate \<and> ws_Candidates sig \<noteq> None then
           add_candidates P r (the (ws_Candidates sig)) s
         else if ws_SignalType sig = WebrtcSignalType_Sdp \<and> ws_Sdp sig \<noteq> None then
           (case bp_peerConnection (base s r) of
              None \<Rightarrow> (Inl NilDereference, s)
            | Some h \<Rightarrow>
                (case on_pion (pn_RemoteDescription P h) s of
                   (_, s1) \<Rightarrow>
                     (case on_pion (pn_SetRemoteDescription P h (the (ws_Sdp sig))) s1 of
                        (_, s2) \<Rightarrow>
                          (case on_pion (pn_RemoteDescription P h) s2 of
                             (remote, s3) \<Rightarrow>
                               if remote \<noteq> None \<and> sd_Type (the remote) = ''offer'' then createAnswer P r s3
                               else (Inr (), s3)))))
         else (Inr (), s)))"

definition rtc_onSignal :: "'w pion \<Rightarrow> nat \<Rightarrow> webrtc_signal \<Rightarrow> 'w rtc \<Rightarrow> unit res \<times> 'w rtc" where
  "rtc_onSignal P r sig s =
     (if bp_initiator (base s r) then onOfferSignal P r sig s else onAnswerSignal P r sig s)"

end
