(* ===== verification/MediaTracks.thy ===== *)
theory MediaTracks
  imports PeerConnections
begin

text \<open>
  The media of a WebRTC connection: \<^verbatim>\<open>webrtc/mediastream.go\<close> and the operations on tracks of
  \<^verbatim>\<open>track.go\<close>, \<^verbatim>\<open>advanced_peer_connection.go\<close> and \<^verbatim>\<open>peer_connection_pool.go\<close>. Tracks, senders and receivers
  belong to the library and are handles. Left out is what only moves packets.
\<close>

section \<open>The library\<close>

text \<open>The getters of the library read its state; a sender may have no track.\<close>

record 'w media =
  md_GetSenders :: "nat \<Rightarrow> 'w \<Rightarrow> nat list"
  md_SenderTrack :: "nat \<Rightarrow> 'w \<Rightarrow> nat option"
  md_GetReceivers :: "nat \<Rightarrow> 'w \<Rightarrow> nat list"
  md_ReceiverTracks :: "nat \<Rightarrow> 'w \<Rightarrow> nat list"
  md_ReceiverTrack :: "nat \<Rightarrow> 'w \<Rightarrow> nat option"
  md_LocalID :: "nat \<Rightarrow> string"
  md_LocalStreamID :: "nat \<Rightarrow> string"
  md_LocalKind :: "nat \<Rightarrow> nat"
  md_RemoteID :: "nat \<Rightarrow> string"
  md_RemoteStreamID :: "nat \<Rightarrow> string"
  md_RemoteKind :: "nat \<Rightarrow> nat"
  md_RemoteCodec :: "nat \<Rightarrow> string"
  md_NewTrackLocalStaticRTP :: "string \<Rightarrow> string \<Rightarrow> string \<Rightarrow> 'w \<Rightarrow> nat res \<times> 'w"
  md_ReplaceTrack :: "nat \<Rightarrow> nat \<Rightarrow> 'w \<Rightarrow> go_error option \<times> 'w"
  md_RemoveTrack :: "nat \<Rightarrow> nat \<Rightarrow> 'w \<Rightarrow> go_error option \<times> 'w"
  md_Stop :: "nat \<Rightarrow> 'w \<Rightarrow> go_error option \<times> 'w"

text \<open>A call whose result is an \<open>error\<close>.\<close>

definition run_pion :: "('w \<Rightarrow> go_error option \<times> 'w) \<Rightarrow> 'w rtc \<Rightarrow> unit res \<times> 'w rtc" where
  "run_pion f s = (case on_pion f s of (None, s1) \<Rightarrow> (Inr (), s1) | (Some e, s1) \<Rightarrow> (Inl e, s1))"

section \<open>Tracks of a connection\<close>

definition CreateTrack :: "'w pion \<Rightarrow> 'w media \<Rightarrow> string \<Rightarrow> string \<Rightarrow> string \<Rightarrow> 'w rtc \<Rightarrow> nat res \<times> 'w rtc" where
  "CreateTrack P M codec trackId streamId s =
     (case (if streamId = [] then on_pion (pn_UUID P) s else (streamId, s)) of
        (streamId, s1) \<Rightarrow>
          (case (if trackId = [] then on_pion (pn_UUID P) s1 else (trackId, s1)) of
             (trackId, s2) \<Rightarrow> on_pion (md_NewTrackLocalStaticRTP M codec trackId streamId) s2))"

text \<open>The first sender of a track. A sender without a track that is met before is a nil dereference.\<close>

fun find_sender :: "'w media \<Rightarrow> 'w \<Rightarrow> string \<Rightarrow> nat list \<Rightarrow> nat option res" where
  "find_sender M w trackId [] = Inr None"
| "find_sender M w trackId (x # xs) =
     (case md_SenderTrack M x w of
        None \<Rightarrow> Inl NilDereference
      | Some t \<Rightarrow> if md_LocalID M t = trackId then Inr (Some x) else find_sender M w trackId xs)"

definition GetSender :: "'w media \<Rightarrow> nat \<Rightarrow> string \<Rightarrow> 'w rtc \<Rightarrow> nat option res" where
  "GetSender M r trackId s =
     (case bp_peerConnection (base s r) of
        None \<Rightarrow> Inl NilDereference
      | Some h \<Rightarrow> find_sender M (rt_world s) trackId (md_GetSenders M h (rt_world s)))"

definition ReplaceTrack :: "'w media \<Rightarrow> nat \<Rightarrow> nat \<Rightarrow> nat \<Rightarrow> 'w rtc \<Rightarrow> unit res \<times> 'w rtc" where
  "ReplaceTrack M r oldTrack newTrack s =
     and_then (GetSender M r (md_LocalID M oldTrack) s, s) (\<lambda>sender s.
       case sender of None \<Rightarrow> (Inr (), s) | Some x \<Rightarrow> run_pion (md_ReplaceTrack M x newTrack) s)"

definition RemoveTrack :: "'w media \<Rightarrow> nat \<Rightarrow> string \<Rightarrow> 'w rtc \<Rightarrow> unit res \<times> 'w rtc" where
  "RemoveTrack M r trackId s =
     and_then (GetSender M r trackId s, s) (\<lambda>sender s.
       case sender of
         None \<Rightarrow> (Inl (Err ''NotExist''), s)
       | Some x \<Rightarrow> run_pion (md_RemoveTrack M (the (bp_peerConnection (base s r))) x) s)"

text \<open>The tracks of a stream are all removed; the last error is the result.\<close>

fun remove_senders :: "'w media \<Rightarrow> nat \<Rightarrow> string \<Rightarrow> nat list \<Rightarrow> go_error option \<Rightarrow> 'w rtc \<Rightarrow> go_error option \<times> 'w rtc"
  where
  "remove_senders M h streamId [] err s = (err, s)"
| "remove_senders M h streamId (x # xs) err s =
     (case md_SenderTrack M x (rt_world s) of
        None \<Rightarrow> remove_senders M h streamId xs err s
      | Some t \<Rightarrow>
          if streamId = [] \<or> md_LocalStreamID M t = streamId then
            (case on_pion (md_RemoveTrack M h x) s of
               (err1, s1) \<Rightarrow> remove_senders M h streamId xs (if err1 = None then err else err1) s1)
          else remove_senders M h streamId xs err s)"

definition RemoveStream :: "'w media \<Rightarrow> nat \<Rightarrow> string \<Rightarrow> 'w rtc \<Rightarrow> unit res \<times> 'w rtc" where
  "RemoveStream M r streamId s =
     (case bp_peerConnection (base s r) of
        None \<Rightarrow> (Inl NilDereference, s)
      | Some h \<Rightarrow>
          (case remove_senders M h streamId (md_GetSenders M h (rt_world s)) None s of
             (None, s1) \<Rightarrow> (Inr (), s1) | (Some e, s1) \<Rightarrow> (Inl e, s1)))"

text \<open>The senders of a stream, all of them for the empty id: then the track of a sender is not looked at.\<close>

definition GetSenders :: "'w media \<Rightarrow> nat \<Rightarrow> string \<Rightarrow> 'w rtc \<Rightarrow> nat list res" where
  "GetSenders M r streamId s =
     (case bp_peerConnection (base s r) of
        None \<Rightarrow> Inl NilDereference
      | Some h \<Rightarrow>
          Inr (filter (\<lambda>x. streamId = [] \<or>
            (case md_SenderTrack M x (rt_world s) of None \<Rightarrow> False | Some t \<Rightarrow> streamId = md_LocalStreamID M t))
            (md_GetSenders M h (rt_world s))))"

fun senders_of_kind :: "'w media \<Rightarrow> 'w \<Rightarrow> nat \<Rightarrow> nat list \<Rightarrow> nat list res" where
  "senders_of_kind M w kind [] = Inr []"
| "senders_of_kind M w kind (x # xs) =
     (case md_SenderTrack M x w of
        None \<Rightarrow> Inl NilDereference
      | Some t \<Rightarrow> map_sum id (\<lambda>ys. if kind = md_LocalKind M t \<or> kind = 0 then x # ys else ys) (senders_of_kind M w kind xs))"

definition GetSendersByKind :: "'w media \<Rightarrow> nat \<Rightarrow> nat \<Rightarrow> 'w rtc \<Rightarrow> nat list res" where
  "GetSendersByKind M r kind s =
     (case bp_peerConnection (base s r) of
        None \<Rightarrow> Inl NilDereference
      | Some h \<Rightarrow> senders_of_kind M (rt_world s) kind (md_GetSenders M h (rt_world s)))"

text \<open>The first remote track with an id and its receiver.\<close>

definition GetReceiver :: "'w media \<Rightarrow> nat \<Rightarrow> string \<Rightarrow> 'w rtc \<Rightarrow> (nat \<times> nat) option res" where
  "GetReceiver M r trackId s =
     (case bp_peerConnection (base s r) of
        None \<Rightarrow> Inl NilDereference
      | Some h \<Rightarrow>
          Inr (List.find (\<lambda>(t, x). md_RemoteID M t = trackId)
            (concat (map (\<lambda>x. map (\<lambda>t. (t, x)) (md_ReceiverTracks M x (rt_world s)))
              (md_GetReceivers M h (rt_world s))))))"

text \<open>The remote tracks, nil without receivers.\<close>

definition track_remotes :: "'w media \<Rightarrow> nat \<Rightarrow> (nat \<Rightarrow> bool) \<Rightarrow> 'w rtc \<Rightarrow> nat list option res" where
  "track_remotes M r wanted s =
     (case bp_peerConnection (base s r) of
        None \<Rightarrow> Inl NilDereference
      | Some h \<Rightarrow>
          let all = md_GetReceivers M h (rt_world s) in
          Inr (if all = [] then None
               else Some (filter wanted (concat (map (\<lambda>x. md_ReceiverTracks M x (rt_world s)) all)))))"

definition GetTrackRemotes :: "'w media \<Rightarrow> nat \<Rightarrow> string \<Rightarrow> 'w rtc \<Rightarrow> nat list option res" where
  "GetTrackRemotes M r streamId = track_remotes M r (\<lambda>t. md_RemoteStreamID M t = streamId \<or> streamId = [])"

definition GetTrackRemotesByKind :: "'w media \<Rightarrow> nat \<Rightarrow> nat \<Rightarrow> 'w rtc \<Rightarrow> nat list option res" where
  "GetTrackRemotesByKind M r kind = track_remotes M r (\<lambda>t. md_RemoteKind M t = kind \<or> kind = 0)"

text \<open>\<open>StopReceiver\<close> asks each receiver for its track, which the library says is nil for several of them.\<close>

fun stop_receiver :: "'w media \<Rightarrow> string \<Rightarrow> nat list \<Rightarrow> 'w rtc \<Rightarrow> unit res \<times> 'w rtc" where
  "stop_receiver M trackId [] s = (Inl (Err ''NotExist''), s)"
| "stop_receiver M trackId (x # xs) s =
     (case md_ReceiverTrack M x (rt_world s) of
        None \<Rightarrow> (Inl NilDereference, s)
      | Some t \<Rightarrow> if md_RemoteID M t = trackId then run_pion (md_Stop M x) s else stop_receiver M trackId xs s)"

definition StopReceiver :: "'w media \<Rightarrow> nat \<Rightarrow> string \<Rightarrow> 'w rtc \<Rightarrow> unit res \<times> 'w rtc" where
  "StopReceiver M r trackId s =
     (case bp_peerConnection (base s r) of
        None \<Rightarrow> (Inl NilDereference, s)
      | Some h \<Rightarrow> stop_receiver M trackId (md_GetReceivers M h (rt_world s)) s)"

text \<open>\<open>StopStream\<close> stops a receiver once for each of its tracks of the stream.\<close>

fun stop_tracks :: "'w media \<Rightarrow> string \<Rightarrow> (nat \<times> nat) list \<Rightarrow> go_error option \<Rightarrow> 'w rtc \<Rightarrow> go_error option \<times> 'w rtc"
  where
  "stop_tracks M streamId [] err s = (err, s)"
| "stop_tracks M streamId ((x, t) # xs) err s =
     (if md_RemoteStreamID M t = streamId \<or> streamId = [] then
        (case on_pion (md_Stop M x) s of
           (err1, s1) \<Rightarrow> stop_tracks M streamId xs (if err1 = None then err else err1) s1)
      else stop_tracks M streamId xs err s)"

fun stop_receivers :: "'w media \<Rightarrow> string \<Rightarrow> nat list \<Rightarrow> go_error option \<Rightarrow> 'w rtc \<Rightarrow> go_error option \<times> 'w rtc" where
  "stop_receivers M streamId [] err s = (err, s)"
| "stop_receivers M streamId (x # xs) err s =
     (case stop_tracks M streamId (map (\<lambda>t. (x, t)) (md_ReceiverTracks M x (rt_world s))) err s of
        (err1, s1) \<Rightarrow> stop_receivers M streamId xs err1 s1)"

definition StopStream :: "'w media \<Rightarrow> nat \<Rightarrow> string \<Rightarrow> 'w rtc \<Rightarrow> unit res \<times> 'w rtc" where
  "StopStream M r streamId s =
     (case bp_peerConnection (base s r) of
        None \<Rightarrow> (Inl NilDereference, s)
      | Some h \<Rightarrow>
          (case stop_receivers M streamId (md_GetReceivers M h (rt_world s)) None s of
             (None, s1) \<Rightarrow> (Inr (), s1) | (Some e, s1) \<Rightarrow> (Inl e, s1)))"

text \<open>The operations of \<^verbatim>\<open>track.go\<close>: an error closes the connection, and after a removal it negotiates.\<close>

definition or_close :: "'w pion \<Rightarrow> nat \<Rightarrow> unit res \<times> 'w rtc \<Rightarrow> unit res \<times> 'w rtc" where
  "or_close P r m = (case m of (Inl (Err e), s) \<Rightarrow> rtc_Close P r s | _ \<Rightarrow> m)"

definition base_replaceTrack :: "'w pion \<Rightarrow> 'w media \<Rightarrow> nat \<Rightarrow> nat \<Rightarrow> nat \<Rightarrow> 'w rtc \<Rightarrow> unit res \<times> 'w rtc" where
  "base_replaceTrack P M r oldTrack newTrack s = or_close P r (ReplaceTrack M r oldTrack newTrack s)"

definition base_removeTrack :: "'w pion \<Rightarrow> 'w media \<Rightarrow> nat \<Rightarrow> nat \<Rightarrow> 'w rtc \<Rightarrow> unit res \<times> 'w rtc" where
  "base_removeTrack P M r track s =
     and_then (or_close P r (RemoveTrack M r (md_LocalID M track) s)) (\<lambda>_ s1. rtc_negotiate P r s1)"

section \<open>Tracks of the pool\<close>

text \<open>The connection to a client, if there is one; errors of the operation are dropped.\<close>

definition on_client :: "'w pion \<Rightarrow> string \<Rightarrow> string \<Rightarrow> (nat \<Rightarrow> 'w rtc \<Rightarrow> unit res \<times> 'w rtc) \<Rightarrow> 'w rtc \<Rightarrow> unit res \<times> 'w rtc"
  where
  "on_client P peerId clientId f s =
     (case pool_getOne P peerId clientId s of
        (None, s1) \<Rightarrow> (Inr (), s1) | (Some r, s1) \<Rightarrow> drop_err (f r s1))"

definition pool_removeStream :: "'w pion \<Rightarrow> 'w media \<Rightarrow> string \<Rightarrow> string \<Rightarrow> string \<Rightarrow> 'w rtc \<Rightarrow> unit res \<times> 'w rtc" where
  "pool_removeStream P M peerId streamId clientId = on_client P peerId clientId (\<lambda>r. RemoveStream M r streamId)"

definition pool_removeTrack :: "'w pion \<Rightarrow> 'w media \<Rightarrow> string \<Rightarrow> string \<Rightarrow> string \<Rightarrow> 'w rtc \<Rightarrow> unit res \<times> 'w rtc" where
  "pool_removeTrack P M peerId trackId clientId = on_client P peerId clientId (\<lambda>r. RemoveTrack M r trackId)"

definition pool_replaceTrack ::
  "'w pion \<Rightarrow> 'w media \<Rightarrow> string \<Rightarrow> nat \<Rightarrow> nat \<Rightarrow> string \<Rightarrow> 'w rtc \<Rightarrow> unit res \<times> 'w rtc" where
  "pool_replaceTrack P M peerId oldTrack newTrack clientId =
     on_client P peerId clientId (\<lambda>r. ReplaceTrack M r oldTrack newTrack)"

end
