(* ===== verification/ConnectionPool.thy ===== *)
theory ConnectionPool
  imports PeerConnections
begin

text \<open>
  The pool of the WebRTC connections, \<^verbatim>\<open>webrtc/peer_connection_pool.go\<close>: for each peer the connections to its
  clients. The pool makes the connections, passes the signals on that come from the DHT, and takes closed
  connections out. The streams and tracks of the connections are left out.
\<close>

section \<open>Operations\<close>

text \<open>The connections that are removed are closed in the order of \<open>range\<close>.\<close>

definition pool_Close :: "'w pion \<Rightarrow> string \<Rightarrow> string \<Rightarrow> 'w rtc \<Rightarrow> bool res \<times> 'w rtc" where
  "pool_Close P peerId clientId s =
     (case pool_remove peerId clientId s of
        (None, s1) \<Rightarrow> (Inr False, s1)
      | (Some removed, s1) \<Rightarrow>
          if removed = [] then (Inr False, s1)
          else
            (case on_pion (pn_RangeKeys P (map fst removed)) s1 of
               (ks, s2) \<Rightarrow>
                 and_then (each (\<lambda>r s. if clientId = [] \<or> clientId = ap_clientId (conn s r) then rtc_Close P r s
                                       else (Inr (), s)) (List.map_filter (map_of removed) ks) s2)
                   (\<lambda>_ s3. (Inr True, s3))))"

definition getConnected :: "'w pion \<Rightarrow> string \<Rightarrow> 'w rtc \<Rightarrow> nat list option \<times> 'w rtc" where
  "getConnected P peerId s =
     (case pool_get P peerId s of
        (None, s1) \<Rightarrow> (None, s1)
      | (Some rs, s1) \<Rightarrow> let up = filter (connected s1) rs in (if up = [] then None else Some up, s1))"

definition pool_create ::
  "'w pion \<Rightarrow> string \<Rightarrow> string \<Rightarrow> string \<Rightarrow> string \<Rightarrow> string \<Rightarrow> meeting_room option \<Rightarrow> 'w rtc \<Rightarrow> nat res \<times> 'w rtc"
  where
  "pool_create P peerId clientId name connectPeerId connectSessionId room s =
     (case pool_getOne P peerId clientId s of
        (found, s1) \<Rightarrow>
          and_then (if found = None then (Inr False, s1) else pool_Close P peerId clientId s1) (\<lambda>_ s2.
            case new_conn (CreateAdvancedPeerConnection peerId True clientId name connectPeerId connectSessionId room) s2
            of (r, s3) \<Rightarrow>
              and_then (adv_Init P r s3) (\<lambda>_ s4.
                and_then (rtc_negotiate P r s4) (\<lambda>_ s5. (Inr r, pool_put peerId r clientId s5)))))"

definition createIfNotExist ::
  "'w pion \<Rightarrow> string \<Rightarrow> string \<Rightarrow> string \<Rightarrow> string \<Rightarrow> string \<Rightarrow> meeting_room option \<Rightarrow> 'w rtc \<Rightarrow> nat res \<times> 'w rtc"
  where
  "createIfNotExist P peerId clientId name connectPeerId connectSessionId room s =
     (case pool_getOne P peerId clientId s of
        (Some r, s1) \<Rightarrow> (Inr r, s1)
      | (None, s1) \<Rightarrow>
          (case new_conn (CreateAdvancedPeerConnection peerId False clientId name connectPeerId connectSessionId room) s1
           of (r, s2) \<Rightarrow> and_then (adv_Init P r (pool_put peerId r clientId s2)) (\<lambda>_ s3. (Inr r, s3))))"

text \<open>
  \<open>clear\<close>: the clients of a peer that are not connected and overtime. Both times are the nanoseconds within
  a second, and the limit is \<open>20 * 3600\<close>. A peer whose last client is removed is removed at the end.
\<close>

fun overtime :: "'w pion \<Rightarrow> nat list \<Rightarrow> 'w rtc \<Rightarrow> string list \<times> 'w rtc" where
  "overtime P [] s = ([], s)"
| "overtime P (r # rs) s =
     (if connected s r then overtime P rs s
      else
        (case on_pion (pn_Nanosecond P) s of
           (now, s1) \<Rightarrow>
             (case overtime P rs s1 of
                (ids, s2) \<Rightarrow>
                  (if now - bp_start (base s r) > 20 * 3600 then ap_clientId (conn s r) # ids else ids, s2))))"

definition clear_peer :: "'w pion \<Rightarrow> string \<Rightarrow> 'w rtc \<Rightarrow> string list \<times> 'w rtc" where
  "clear_peer P peerId s =
     (case map_of (rt_pool s) peerId of
        None \<Rightarrow> ([], s)
      | Some pcs \<Rightarrow>
          if pcs = [] then ([], s)
          else
            (case pool_get P peerId s of
               (rs, s1) \<Rightarrow>
                 (case overtime P (the rs) s1 of
                    (ids, s2) \<Rightarrow>
                      let left = fold AList.delete ids pcs in
                      (if left = [] then [peerId] else [], s2\<lparr>rt_pool := AList.update peerId left (rt_pool s2)\<rparr>))))"

fun clear_peers :: "'w pion \<Rightarrow> string list \<Rightarrow> 'w rtc \<Rightarrow> string list \<times> 'w rtc" where
  "clear_peers P [] s = ([], s)"
| "clear_peers P (p # ps) s =
     (case clear_peer P p s of (ids, s1) \<Rightarrow> (case clear_peers P ps s1 of (ids', s2) \<Rightarrow> (ids @ ids', s2)))"

definition pool_clear :: "'w pion \<Rightarrow> 'w rtc \<Rightarrow> 'w rtc" where
  "pool_clear P s =
     (case on_pion (pn_RangeKeys P (map fst (rt_pool s))) s of
        (ps, s1) \<Rightarrow>
          (case clear_peers P ps s1 of (ids, s2) \<Rightarrow> s2\<lparr>rt_pool := fold AList.delete ids (rt_pool s2)\<rparr>))"

abbreviation unknownClientId :: string where "unknownClientId \<equiv> ''unknownClientId''"

text \<open>
  A signal of the DHT. A connection that was made before its client was known is put under the client. The
  connection that is created for an offer or a candidate is a local variable of the branch: the signal
  goes to the connection that was found before it.
\<close>

definition adopt_client :: "'w pion \<Rightarrow> string \<Rightarrow> string \<Rightarrow> string \<Rightarrow> 'w rtc \<Rightarrow> 'w rtc" where
  "adopt_client P peerId clientId name s =
     (case pool_getOne P peerId unknownClientId s of
        (None, s1) \<Rightarrow> s1
      | (Some r, s1) \<Rightarrow>
          pool_put peerId r clientId (snd (pool_remove peerId unknownClientId
            (set_conn r (\<lambda>a. a\<lparr>ap_clientId := clientId, ap_name := name\<rparr>) s1))))"

definition onWebrtcSignal ::
  "'w pion \<Rightarrow> string \<Rightarrow> webrtc_signal option \<Rightarrow> string \<Rightarrow> string \<Rightarrow> string \<Rightarrow> 'w rtc \<Rightarrow> unit res \<times> 'w rtc" where
  "onWebrtcSignal P peerId sig clientId connectPeerId connectSessionId s =
     (case sig of
        None \<Rightarrow> (Inl NilDereference, s)
      | Some sig \<Rightarrow>
          let ext = ws_SignalExtension sig;
              peerId = (case ext of None \<Rightarrow> peerId | Some e \<Rightarrow> se_PeerId e);
              clientId = (case ext of None \<Rightarrow> clientId | Some e \<Rightarrow> se_ClientId e);
              name = (case ext of None \<Rightarrow> [] | Some e \<Rightarrow> se_Name e);
              room = (case ext of None \<Rightarrow> None | Some e \<Rightarrow> se_Room e) in
          (case pool_getOne P peerId clientId (adopt_client P peerId clientId name s) of
             (found, s1) \<Rightarrow>
               if ws_SignalType sig = WebrtcSignalType_Sdp \<and> ws_Sdp sig = None then (Inl NilDereference, s1)
               else
                 and_then
                   (if ws_SignalType sig = WebrtcSignalType_Candidate \<or>
                       (ws_SignalType sig = WebrtcSignalType_Sdp \<and> sd_Type (the (ws_Sdp sig)) = ''offer'') then
                      createIfNotExist P peerId clientId name connectPeerId connectSessionId room s1
                    else (Inr 0, s1))
                   (\<lambda>_ s2. case found of None \<Rightarrow> (Inr (), s2) | Some r \<Rightarrow> rtc_onSignal P r sig s2)))"

definition pool_onSignal ::
  "'w pion \<Rightarrow> string \<Rightarrow> (string \<times> json) list \<Rightarrow> string \<Rightarrow> string \<Rightarrow> string \<Rightarrow> 'w rtc \<Rightarrow> unit res \<times> 'w rtc" where
  "pool_onSignal P peerId payload clientId connectPeerId connectSessionId =
     onWebrtcSignal P peerId (Transform (pn_Extension P) payload) clientId connectPeerId connectSessionId"

definition pool_send :: "'w pion \<Rightarrow> string \<Rightarrow> string \<Rightarrow> string \<Rightarrow> 'w rtc \<Rightarrow> unit res \<times> 'w rtc" where
  "pool_send P peerId data clientId s =
     (case pool_get P peerId s of
        (None, s1) \<Rightarrow> (Inr (), s1)
      | (Some rs, s1) \<Rightarrow>
          each (\<lambda>r s. if clientId = [] \<or> ap_clientId (conn s r) = clientId then drop_err (adv_Send P r data s)
                      else (Inr (), s)) rs s1)"

definition pool_status :: "'w pion \<Rightarrow> string \<Rightarrow> string \<Rightarrow> 'w rtc \<Rightarrow> string \<times> 'w rtc" where
  "pool_status P peerId clientId s =
     (case pool_getOne P peerId clientId s of
        (Some r, s1) \<Rightarrow> (bp_status (base s1 r), s1) | (None, s1) \<Rightarrow> (PeerConnectionStatus_none, s1))"

definition pool_onClosed :: "string \<Rightarrow> string \<Rightarrow> 'w rtc \<Rightarrow> 'w rtc" where
  "pool_onClosed peerId clientId s = snd (pool_remove peerId clientId s)"

end
