(* ===== verification/AssocLists.thy ===== *)
theory AssocLists
  imports Main "HOL-Library.AList"
begin

text \<open>
  Association lists for the maps of the pools: what updating and deleting do to the entries.
\<close>

lemma set_delete: "set (AList.delete k xs) \<subseteq> set xs"
  by (auto simp: AList.delete_eq)

lemma set_update: "distinct (map fst xs) \<Longrightarrow> set (AList.update k v xs) \<subseteq> insert (k, v) (set xs)"
  by (induction xs) auto

lemma delete_key: "x \<in> set (AList.delete k ps) \<Longrightarrow> x \<in> set ps \<and> fst x \<noteq> k"
  by (auto simp: AList.delete_eq)

lemma update_entry:
  "distinct (map fst ps) \<Longrightarrow> (j, v) \<in> set (AList.update k u ps) \<Longrightarrow> (j = k \<and> v = u) \<or> (j \<noteq> k \<and> (j, v) \<in> set ps)"
  by (induction ps) (force split: if_splits)+

end
