(* ===== verification/Effects.thy ===== *)
theory Effects
  imports Prelude
begin

text \<open>
  The locale \<open>effect\<close>: relations between the states before and after an operation, with a rule for each way
  in which operations are put together. It is interpreted for the pool of WebRTC connections and for the
  pipes of libp2p.
\<close>

text \<open>
  The laws of a relation between the state an operation starts in and one it reaches. The rules say that an
  operation after related steps is related, so that they apply from the last step of an operation back to
  its first, whatever the operation returns.
\<close>

lemma each_and_then: "each f (x # xs) s = and_then (f x s) (\<lambda>_. each f xs)"
  by (simp add: and_then_def split: prod.split sum.split)

locale effect =
  fixes R :: "'s \<Rightarrow> 's \<Rightarrow> bool"
  assumes same: "R s s" and trans: "R s t \<Longrightarrow> R t u \<Longrightarrow> R s u"
begin

lemma in_and_then: "R s (snd m) \<Longrightarrow> (\<And>x s1. R s s1 \<Longrightarrow> R s (snd (f x s1))) \<Longrightarrow> R s (snd (and_then m f))"
  by (cases m; cases "fst m") (auto simp: and_then_def)

lemma in_case: "R s (snd m) \<Longrightarrow> (\<And>x s1. R s s1 \<Longrightarrow> R s (snd (f x s1))) \<Longrightarrow> R s (snd (case m of (x, s1) \<Rightarrow> f x s1))"
  by (cases m) auto

lemma in_case_state: "R s (snd m) \<Longrightarrow> (\<And>x s1. R s s1 \<Longrightarrow> R s (f x s1)) \<Longrightarrow> R s (case m of (x, s1) \<Rightarrow> f x s1)"
  by (cases m) auto

lemma in_if:
  "(b \<Longrightarrow> R s (snd x)) \<Longrightarrow> (\<not> b \<Longrightarrow> R s (snd y)) \<Longrightarrow> R s (snd (if b then x else y))"
  "(b \<Longrightarrow> R s x') \<Longrightarrow> (\<not> b \<Longrightarrow> R s y') \<Longrightarrow> R s (if b then x' else y')"
  by simp_all

lemma in_option:
  "R s (snd x) \<Longrightarrow> (\<And>v. R s (snd (f v))) \<Longrightarrow> R s (snd (case v of None \<Rightarrow> x | Some v \<Rightarrow> f v))"
  "R s x' \<Longrightarrow> (\<And>v. R s (f' v)) \<Longrightarrow> R s (case v of None \<Rightarrow> x' | Some v \<Rightarrow> f' v)"
  by (simp_all split: option.split)

lemma in_sum:
  "(\<And>e. R s (snd (f e))) \<Longrightarrow> (\<And>v. R s (snd (g v))) \<Longrightarrow> R s (snd (case x of Inl e \<Rightarrow> f e | Inr v \<Rightarrow> g v))"
  by (simp split: sum.split)

lemma in_values: "(\<And>x y. R s (snd (f x y))) \<Longrightarrow> R s (snd (case a of (x, y) \<Rightarrow> f x y))"
  by (cases a) simp

lemma in_pair: "R s t \<Longrightarrow> R s (snd (x, t))"
  by simp

lemma in_each:
  "R s t \<Longrightarrow> (\<And>x t. R s t \<Longrightarrow> R s (snd (f x t))) \<Longrightarrow> R s (snd (each f xs t))"
proof (induction xs arbitrary: t)
  case (Cons x xs)
  show ?case unfolding each_and_then using Cons by (intro in_and_then) blast+
qed simp

end

end
