(* ===== verification/PoolInvariant.thy ===== *)
theory PoolInvariant
  imports ConnectionPool AssocLists Effects
begin

text \<open>
  What holds of the pool of the WebRTC connections whatever the library, the clock and the other side do:
  the keys of the maps are the ids of the connections they lead to, no peer is left without a connection,
  and the number of the reconnections that are left only goes down. The relation \<open>tame\<close> is what every
  operation may do to the state; the rules for it follow the structure of the operations, panics included.
\<close>

section \<open>The invariant\<close>

definition peer_ok :: "advanced_pc list \<Rightarrow> string \<Rightarrow> (string \<times> nat) list \<Rightarrow> bool" where
  "peer_ok cs p pcs \<longleftrightarrow> distinct (map fst pcs) \<and>
     (\<forall>(c, r) \<in> set pcs. r < length cs \<and> ap_peerId (cs ! r) = p \<and> ap_clientId (cs ! r) = c)"

definition peers_ok :: "'w rtc \<Rightarrow> bool" where
  "peers_ok s \<longleftrightarrow> distinct (map fst (rt_pool s)) \<and> (\<forall>(p, pcs) \<in> set (rt_pool s). peer_ok (rt_conns s) p pcs)"

definition pool_ok :: "'w rtc \<Rightarrow> bool" where
  "pool_ok s \<longleftrightarrow> peers_ok s \<and> [] \<notin> snd ` set (rt_pool s)"

definition later_conn :: "advanced_pc \<Rightarrow> advanced_pc \<Rightarrow> bool" where
  "later_conn a a' \<longleftrightarrow> ap_peerId a' = ap_peerId a \<and> ap_clientId a' = ap_clientId a \<and>
     bp_initiator (ap_base a') = bp_initiator (ap_base a) \<and>
     bp_reconnectTimes (ap_base a') \<le> bp_reconnectTimes (ap_base a) \<and>
     (bp_localTracks (ap_base a) = None \<longrightarrow> bp_localTracks (ap_base a') = None)"

definition later_conns :: "advanced_pc list \<Rightarrow> advanced_pc list \<Rightarrow> bool" where
  "later_conns cs cs' \<longleftrightarrow> length cs \<le> length cs' \<and> (\<forall>r < length cs. later_conn (cs ! r) (cs' ! r)) \<and>
     ((\<forall>a \<in> set cs. bp_localTracks (ap_base a) = None) \<longrightarrow> (\<forall>a \<in> set cs'. bp_localTracks (ap_base a) = None))"

definition tame :: "'w rtc \<Rightarrow> 'w rtc \<Rightarrow> bool" where
  "tame s s' \<longleftrightarrow> later_conns (rt_conns s) (rt_conns s') \<and> (pool_ok s \<longrightarrow> pool_ok s')"

lemma later_conn_refl [simp]: "later_conn a a"
  by (simp add: later_conn_def)

lemma later_conn_trans: "later_conn a b \<Longrightarrow> later_conn b c \<Longrightarrow> later_conn a c"
  by (auto simp: later_conn_def)

lemma later_conns_refl [simp]: "later_conns cs cs"
  by (simp add: later_conns_def)

lemma later_conns_trans: "later_conns a b \<Longrightarrow> later_conns b c \<Longrightarrow> later_conns a c"
  unfolding later_conns_def by (meson dual_order.trans later_conn_trans order_less_le_trans)

lemma tame_refl [simp]: "tame s s"
  by (simp add: tame_def)

lemma tame_trans: "tame s t \<Longrightarrow> tame t u \<Longrightarrow> tame s u"
  unfolding tame_def using later_conns_trans by blast

lemma later_conns_update:
  assumes "later_conn (cs ! r) (f (cs ! r))" shows "later_conns cs (cs[r := f (cs ! r)])"
proof -
  have "bp_localTracks (ap_base a) = None"
    if all: "\<forall>a \<in> set cs. bp_localTracks (ap_base a) = None" and a: "a \<in> set (cs[r := f (cs ! r)])" for a
  proof (cases "r < length cs")
    case True
    have "a \<in> set cs \<or> a = f (cs ! r)" using a set_update_subset_insert by fastforce
    then show ?thesis using all assms nth_mem [OF True] by (auto simp: later_conn_def)
  qed (use all a in \<open>simp add: list_update_beyond\<close>)
  then show ?thesis using assms by (cases "r < length cs") (auto simp: later_conns_def nth_list_update list_update_beyond)
qed

lemma peer_ok_later: "peer_ok cs p pcs \<Longrightarrow> later_conns cs cs' \<Longrightarrow> peer_ok cs' p pcs"
  by (fastforce simp: peer_ok_def later_conns_def later_conn_def)

lemma pool_ok_later:
  "pool_ok s \<Longrightarrow> later_conns (rt_conns s) (rt_conns s') \<Longrightarrow> rt_pool s' = rt_pool s \<Longrightarrow> pool_ok s'"
  by (auto simp: pool_ok_def peers_ok_def intro: peer_ok_later)

lemma tame_same_pool:
  "later_conns (rt_conns s) (rt_conns s') \<Longrightarrow> rt_pool s' = rt_pool s \<Longrightarrow> tame s s'"
  by (auto simp: tame_def intro: pool_ok_later)

section \<open>The maps\<close>

lemma pool_get_same [simp]:
  "rt_pool (snd (pool_get P p s)) = rt_pool s" "rt_conns (snd (pool_get P p s)) = rt_conns s"
  by (auto simp: pool_get_def on_pion_def split: option.splits prod.splits)

lemma pool_getOne_same [simp]:
  "rt_pool (snd (pool_getOne P p c s)) = rt_pool s" "rt_conns (snd (pool_getOne P p c s)) = rt_conns s"
proof -
  obtain rs s1 where g: "pool_get P p s = (rs, s1)" by fastforce
  have "snd (pool_getOne P p c s) = s1" by (simp add: pool_getOne_def g split: option.splits)
  then show "rt_pool (snd (pool_getOne P p c s)) = rt_pool s" "rt_conns (snd (pool_getOne P p c s)) = rt_conns s"
    using pool_get_same [of P p s] by (simp_all add: g)
qed

lemma peers_ok_entry: "peers_ok s \<Longrightarrow> map_of (rt_pool s) p = Some pcs \<Longrightarrow> peer_ok (rt_conns s) p pcs"
  by (auto simp: peers_ok_def dest: map_of_SomeD)

lemma peer_ok_delete: "peer_ok cs p pcs \<Longrightarrow> peer_ok cs p (AList.delete c pcs)"
  unfolding peer_ok_def by (auto simp: AList.delete_eq intro: distinct_map_filter)

lemma peer_ok_update:
  assumes "peer_ok cs p pcs" "r < length cs" "ap_peerId (cs ! r) = p" "ap_clientId (cs ! r) = c"
  shows "peer_ok cs p (AList.update c r pcs)"
proof -
  have d: "distinct (map fst pcs)" using assms(1) by (simp add: peer_ok_def)
  show ?thesis using assms set_update [OF d, of c r] by (fastforce simp: peer_ok_def AList.distinct_update)
qed

lemma pool_ok_delete: "pool_ok s \<Longrightarrow> pool_ok (s\<lparr>rt_pool := AList.delete p (rt_pool s)\<rparr>)"
  using set_delete [of p "rt_pool s"]
  by (fastforce simp: pool_ok_def peers_ok_def AList.distinct_delete)

lemma peers_ok_update:
  assumes "peers_ok s" "peer_ok (rt_conns s) p pcs"
  shows "peers_ok (s\<lparr>rt_pool := AList.update p pcs (rt_pool s)\<rparr>)"
proof -
  have d: "distinct (map fst (rt_pool s))" using assms(1) by (simp add: peers_ok_def)
  show ?thesis using assms set_update [OF d, of p pcs]
    by (fastforce simp: peers_ok_def AList.distinct_update)
qed

lemma pool_ok_update:
  assumes "pool_ok s" "peer_ok (rt_conns s) p pcs" "pcs \<noteq> []"
  shows "pool_ok (s\<lparr>rt_pool := AList.update p pcs (rt_pool s)\<rparr>)"
proof -
  have d: "distinct (map fst (rt_pool s))" using assms(1) by (simp add: pool_ok_def peers_ok_def)
  have "peers_ok (s\<lparr>rt_pool := AList.update p pcs (rt_pool s)\<rparr>)"
    using assms by (intro peers_ok_update) (simp_all add: pool_ok_def)
  then show ?thesis using assms set_update [OF d, of p pcs] by (fastforce simp: pool_ok_def)
qed

lemma pool_remove_conns [simp]: "rt_conns (snd (pool_remove p c s)) = rt_conns s"
  by (simp add: pool_remove_def Let_def split: option.splits)

lemma pool_remove_ok:
  assumes ok: "pool_ok s" shows "pool_ok (snd (pool_remove p c s))"
proof (cases "map_of (rt_pool s) p")
  case (Some pcs)
  have p: "peer_ok (rt_conns s) p (AList.delete c pcs)"
    using ok Some by (intro peer_ok_delete peers_ok_entry) (simp_all add: pool_ok_def)
  show ?thesis
    using Some ok pool_ok_delete [OF ok, of p] pool_ok_update [OF ok p] by (simp add: pool_remove_def Let_def)
qed (simp add: pool_remove_def ok)

lemma pool_put_ok:
  assumes "pool_ok s" "r < length (rt_conns s)" "ap_peerId (conn s r) = p" "ap_clientId (conn s r) = c"
  shows "pool_ok (pool_put p r c s)"
proof -
  have "peer_ok (rt_conns s) p (case map_of (rt_pool s) p of None \<Rightarrow> [] | Some pcs \<Rightarrow> pcs)"
    using assms(1) by (auto simp: pool_ok_def peer_ok_def [of _ _ "[]"] intro: peers_ok_entry split: option.splits)
  from peer_ok_update [OF this assms(2-4)] show ?thesis
    unfolding pool_put_def Let_def using assms(1) by (intro pool_ok_update) (simp_all add: AList.update_nonempty)
qed

section \<open>Relations that follow the structure of the operations\<close>

text \<open>What is particular to these operations.\<close>

context effect begin

lemma in_drop_err: "R s (snd m) \<Longrightarrow> R s (snd (drop_err m))"
  by (cases m) (simp add: drop_err_def split: sum.split go_error.split)

end

section \<open>What the operations may do\<close>

named_theorems tames \<open>rules that an operation is tame\<close>

interpretation tame: effect tame
  by unfold_locales (auto intro: tame_trans)

lemmas tame_structure [tames] = tame.in_and_then tame.in_case tame.in_case_state tame.in_if tame.in_option
  tame.in_sum tame.in_pair tame.in_drop_err tame.in_each

lemma tame_get [tames]: "tame s t \<Longrightarrow> tame s (snd (pool_get P p t))"
  by (erule tame_trans) (rule tame_same_pool; simp)

lemma tame_getOne [tames]: "tame s t \<Longrightarrow> tame s (snd (pool_getOne P p c t))"
  by (erule tame_trans) (rule tame_same_pool; simp)

lemma tame_remove [tames]: "tame s t \<Longrightarrow> tame s (snd (pool_remove p c t))"
  by (erule tame_trans) (simp add: tame_def pool_remove_ok)

lemma tame_on_pion [tames]: "tame s t \<Longrightarrow> tame s (snd (on_pion f t))"
  by (erule tame_trans) (rule tame_same_pool; simp add: on_pion_def split: prod.split)

lemma tame_do_pion [tames]: "tame s t \<Longrightarrow> tame s (do_pion f t)"
  by (erule tame_trans) (rule tame_same_pool; simp add: do_pion_def)

lemma tame_set_conn: "tame s t \<Longrightarrow> (\<And>a. later_conn a (f a)) \<Longrightarrow> tame s (set_conn r f t)"
  by (erule tame_trans) (rule tame_same_pool; simp add: set_conn_def later_conns_update)

lemma tame_set_base [tames]:
  "tame s t \<Longrightarrow> (\<And>b. bp_initiator (f b) = bp_initiator b) \<Longrightarrow>
   (\<And>b. bp_reconnectTimes (f b) \<le> bp_reconnectTimes b) \<Longrightarrow>
   (\<And>b. bp_localTracks b = None \<Longrightarrow> bp_localTracks (f b) = None) \<Longrightarrow> tame s (set_base r f t)"
  unfolding set_base_def by (intro tame_set_conn) (simp_all add: later_conn_def)

lemma tame_set_tracks:
  "tame s t \<Longrightarrow> bp_localTracks (base t r) \<noteq> None \<Longrightarrow> tame s (set_base r (\<lambda>b. b\<lparr>bp_localTracks := Some ts\<rparr>) t)"
  by (erule tame_trans) (rule tame_same_pool; simp add: set_base_def set_conn_def later_conns_update later_conn_def)

lemma tame_emit_signal [tames]: "tame s t \<Longrightarrow> tame s (snd (emit_signal P r sig t))"
  unfolding emit_signal_def pool_signal_def by (intro tames)

lemma tame_emit_closed [tames]: "tame s t \<Longrightarrow> tame s (emit_closed r t)"
  unfolding emit_closed_def by (intro tames)

lemma tame_close_channel [tames]: "tame s t \<Longrightarrow> tame s (close_channel P r t)"
  unfolding close_channel_def by (intro tames) simp_all

lemma tame_Close [tames]: "tame s t \<Longrightarrow> tame s (snd (rtc_Close P r t))"
  unfolding rtc_Close_def Let_def by (intro tames) simp_all

lemma tame_rtc_Send [tames]: "tame s t \<Longrightarrow> tame s (snd (rtc_Send P r data t))"
proof -
  assume "tame s t"
  moreover have "tame s (snd (case bp_dataChannel (base u r) of None \<Rightarrow> (Inl NilDereference, u)
      | Some ch \<Rightarrow> (case on_pion (f ch) u of (None, v) \<Rightarrow> (Inr (), v) | (Some e, v) \<Rightarrow> (Inl e, v))))"
    if "tame s u" for u :: "'a rtc" and f :: "nat \<Rightarrow> 'a \<Rightarrow> go_error option \<times> 'a"
    using that by (intro tames)
  ultimately show ?thesis unfolding rtc_Send_def Let_def by (intro tames)
qed

lemma tame_adv_Send [tames]: "tame s t \<Longrightarrow> tame s (snd (adv_Send P r data t))"
  unfolding adv_Send_def by (intro tames)

lemma tame_AddTrack [tames]: "tame s t \<Longrightarrow> tame s (snd (rtc_AddTrack P r streamId trackId track t))"
  unfolding rtc_AddTrack_def Let_def
  by (rule tame.in_option(1), simp, intro tame.in_and_then tame_on_pion) (auto split: option.split intro: tame_set_tracks)

lemma tame_Connected [tames]: "tame s t \<Longrightarrow> tame s (snd (rtc_Connected P r t))"
  unfolding rtc_Connected_def Let_def by (intro tames) simp_all

lemma tame_onIceConnectionStateChange [tames]:
  "tame s t \<Longrightarrow> tame s (snd (onIceConnectionStateChange P r state t))"
  unfolding onIceConnectionStateChange_def by (intro tames)

lemma tame_onSignalingStateChange [tames]: "tame s t \<Longrightarrow> tame s (onSignalingStateChange r state t)"
  unfolding onSignalingStateChange_def by (intro tames) simp_all

lemma tame_onIceCandidate [tames]: "tame s t \<Longrightarrow> tame s (snd (onIceCandidate P r candidate t))"
  unfolding onIceCandidate_def by (intro tames)

lemma tame_onMessage [tames]: "tame s t \<Longrightarrow> tame s (snd (rtc_onMessage r spare data t))"
  unfolding rtc_onMessage_def by (cases "merge_slice go_binary spare data (bp_messageSlice (base t r))")
    (simp, intro tames impI, simp_all add: tames)

lemma tame_onChannelOpen [tames]: "tame s t \<Longrightarrow> tame s (snd (onChannelOpen r t))"
  unfolding onChannelOpen_def by (intro tames) simp_all

lemma tame_onChannelClose [tames]: "tame s t \<Longrightarrow> tame s (snd (onChannelClose P r t))"
  unfolding onChannelClose_def by (intro tames)

lemma tame_setupDataChannel [tames]: "tame s t \<Longrightarrow> tame s (snd (setupDataChannel P r ch t))"
  unfolding setupDataChannel_def Let_def by (intro tames) simp_all

lemma tame_base_Init [tames]: "tame s t \<Longrightarrow> tame s (snd (base_Init P r extension t))"
  unfolding base_Init_def Let_def
  by (intro tames; (rule tame.in_values, (intro tames; simp))?; simp?)

lemma tame_adv_Init [tames]: "tame s t \<Longrightarrow> tame s (snd (adv_Init P r t))"
  unfolding adv_Init_def by (intro tames) simp_all

lemma tame_send_sdp [tames]: "tame s t \<Longrightarrow> tame s (snd (send_sdp P r h sdp t))"
  unfolding send_sdp_def by (intro tames)

lemma tame_createOffer [tames]: "tame s t \<Longrightarrow> tame s (snd (createOffer P r t))"
  unfolding createOffer_def by (intro tames)

lemma tame_createAnswer [tames]: "tame s t \<Longrightarrow> tame s (snd (createAnswer P r t))"
  unfolding createAnswer_def by (intro tames)

lemma tame_negotiateOffer [tames]: "tame s t \<Longrightarrow> tame s (snd (negotiateOffer P r t))"
  unfolding negotiateOffer_def by (intro tames) simp_all

lemma tame_negotiateAnswer [tames]: "tame s t \<Longrightarrow> tame s (snd (negotiateAnswer P r t))"
  unfolding negotiateAnswer_def by (intro tames) simp_all

lemma tame_negotiate_rounds [tames]: "tame s t \<Longrightarrow> tame s (snd (negotiate_rounds n P r t))"
proof (induction n arbitrary: t)
  case 0
  then show ?case unfolding negotiate_rounds.simps [of 0] Let_def nat.case by (intro tames) simp_all
next
  case (Suc n)
  show ?case unfolding negotiate_rounds.simps [of "Suc n"] Let_def nat.case
    using Suc by (intro tames Suc.IH) simp_all
qed

lemma tame_negotiate [tames]: "tame s t \<Longrightarrow> tame s (snd (rtc_negotiate P r t))"
  unfolding rtc_negotiate_def by (intro tames)

lemma tame_add_candidates [tames]: "tame s t \<Longrightarrow> tame s (snd (add_candidates P r cs t))"
  unfolding add_candidates_def addIceCandidate_def by (intro tames)

lemma tame_onOfferSignal [tames]: "tame s t \<Longrightarrow> tame s (snd (onOfferSignal P r sig t))"
  unfolding onOfferSignal_def by (intro tames)

lemma tame_onAnswerSignal [tames]: "tame s t \<Longrightarrow> tame s (snd (onAnswerSignal P r sig t))"
  unfolding onAnswerSignal_def Let_def by (intro tames) simp_all

lemma tame_rtc_onSignal [tames]: "tame s t \<Longrightarrow> tame s (snd (rtc_onSignal P r sig t))"
  unfolding rtc_onSignal_def by (intro tames)

section \<open>The operations of the pool\<close>

lemma later_conns_append: "bp_localTracks (ap_base a) = None \<Longrightarrow> later_conns cs (cs @ [a])"
  by (auto simp: later_conns_def nth_append)

lemma tame_pool_put:
  assumes "tame s t" "r < length (rt_conns s)" "ap_peerId (conn s r) = p" "ap_clientId (conn s r) = c"
  shows "tame s (pool_put p r c t)"
proof -
  have r: "r < length (rt_conns t)" "ap_peerId (conn t r) = p" "ap_clientId (conn t r) = c"
    using assms by (auto simp: tame_def later_conns_def later_conn_def)
  have "tame t (pool_put p r c t)" using r by (simp add: tame_def pool_put_ok) (simp add: pool_put_def Let_def)
  with assms(1) show ?thesis by (rule tame_trans)
qed

lemma tame_new_conn:
  assumes new: "\<And>s1. s1 = snd (new_conn a t) \<Longrightarrow> tame s1 (f (length (rt_conns t)) s1)"
    and a: "bp_localTracks (ap_base a) = None" and t: "tame s t"
  shows "tame s (case new_conn a t of (r, s1) \<Rightarrow> f r s1)"
proof -
  have "tame t (snd (new_conn a t))" using a by (intro tame_same_pool) (simp_all add: new_conn_def later_conns_append)
  with t new [OF refl] have "tame s (f (length (rt_conns t)) (snd (new_conn a t)))" by (blast intro: tame_trans)
  then show ?thesis by (simp add: new_conn_def)
qed

lemma tame_pool_Close [tames]: "tame s t \<Longrightarrow> tame s (snd (pool_Close P p c t))"
  unfolding pool_Close_def by (intro tames)

lemma tame_getConnected [tames]: "tame s t \<Longrightarrow> tame s (snd (getConnected P p t))"
  unfolding getConnected_def Let_def by (intro tames)

lemma tame_create [tames]: "tame s t \<Longrightarrow> tame s (snd (pool_create P p c name cp cs room t))"
proof -
  have new: "tame t (case new_conn (CreateAdvancedPeerConnection p True c name cp cs room) t of
      (r, s3) \<Rightarrow> snd (and_then (adv_Init P r s3) (\<lambda>_ s4.
        and_then (rtc_negotiate P r s4) (\<lambda>_ s5. (Inr r, pool_put p r c s5)))))" for t :: "'a rtc"
    by (intro tame_new_conn tame.in_and_then tame_adv_Init tame_negotiate tame.in_pair tame_pool_put tame_refl)
      (auto simp: new_conn_def CreateAdvancedPeerConnection_def CreateBasePeerConnection_def)
  show "tame s t \<Longrightarrow> tame s (snd (pool_create P p c name cp cs room t))"
    unfolding pool_create_def
    by (rule tame.in_case, erule tame_getOne, rule tame.in_and_then)
      (auto simp: prod.case_distrib [of snd] intro: tame_pool_Close tame_trans new)
qed

lemma tame_createIfNotExist [tames]: "tame s t \<Longrightarrow> tame s (snd (createIfNotExist P p c name cp cs room t))"
proof -
  have new: "tame t (case new_conn (CreateAdvancedPeerConnection p False c name cp cs room) t of
      (r, s2) \<Rightarrow> snd (and_then (adv_Init P r (pool_put p r c s2)) (\<lambda>_ s3. (Inr r, s3))))" for t :: "'a rtc"
    by (intro tame_new_conn tame.in_and_then tame_adv_Init tame.in_pair tame_pool_put tame_refl)
      (auto simp: new_conn_def CreateAdvancedPeerConnection_def CreateBasePeerConnection_def)
  show "tame s t \<Longrightarrow> tame s (snd (createIfNotExist P p c name cp cs room t))"
    unfolding createIfNotExist_def
    by (cases "pool_getOne P p c t"; cases "fst (pool_getOne P p c t)")
      (use tame_getOne [of s t P p c] new in \<open>auto simp: prod.case_distrib [of snd] intro: tame_trans\<close>)
qed

lemma tame_pool_send [tames]: "tame s t \<Longrightarrow> tame s (snd (pool_send P p data c t))"
  unfolding pool_send_def
  by (cases "pool_get P p t"; cases "fst (pool_get P p t)")
    (use tame_get [of s t P p] in \<open>auto intro!: tames\<close>)

lemma tame_pool_status [tames]: "tame s t \<Longrightarrow> tame s (snd (pool_status P p c t))"
  unfolding pool_status_def using tame_getOne [of s t P p c]
  by (cases "pool_getOne P p c t") (auto split: option.split)

lemma tame_pool_onClosed [tames]: "tame s t \<Longrightarrow> tame s (pool_onClosed p c t)"
  unfolding pool_onClosed_def by (intro tames)

section \<open>Clearing\<close>

definition entry :: "'w rtc \<Rightarrow> string \<Rightarrow> string \<Rightarrow> nat \<Rightarrow> bool" where
  "entry s p c r \<longleftrightarrow> (case map_of (rt_pool s) p of None \<Rightarrow> False | Some pcs \<Rightarrow> map_of pcs c = Some r)"

text \<open>Entries only go, those of connected connections stay, and an empty map of a peer stays empty.\<close>

definition cleared :: "'w rtc \<Rightarrow> 'w rtc \<Rightarrow> bool" where
  "cleared s s' \<longleftrightarrow> rt_conns s' = rt_conns s \<and> peers_ok s' \<and>
     (\<forall>p c r. entry s p c r \<and> connected s r \<longrightarrow> entry s' p c r) \<and>
     (\<forall>p. map_of (rt_pool s) p = Some [] \<longrightarrow> map_of (rt_pool s') p = Some [])"

lemma cleared_trans: "cleared s t \<Longrightarrow> cleared t u \<Longrightarrow> cleared s u"
  by (auto simp: cleared_def connected_def)

lemma cleared_same: "peers_ok s \<Longrightarrow> rt_conns s' = rt_conns s \<Longrightarrow> rt_pool s' = rt_pool s \<Longrightarrow> cleared s s'"
  by (simp add: cleared_def peers_ok_def entry_def)

lemma map_of_deletes [simp]:
  "map_of (fold AList.delete ks xs) k = (if k \<in> set ks then None else map_of xs k)"
  by (induction ks arbitrary: xs) (auto simp: AList.delete_conv')

lemma set_deletes: "set (fold AList.delete ks xs) \<subseteq> set xs"
proof (induction ks arbitrary: xs)
  case (Cons k ks)
  then show ?case using set_delete [of k xs] by fastforce
qed simp

lemma distinct_deletes: "distinct (map fst xs) \<Longrightarrow> distinct (map fst (fold AList.delete ks xs))"
  by (induction ks arbitrary: xs) (simp_all add: AList.distinct_delete)

lemma peer_ok_deletes: "peer_ok cs p pcs \<Longrightarrow> peer_ok cs p (fold AList.delete ks pcs)"
  by (induction ks arbitrary: pcs) (simp_all add: peer_ok_delete)

lemma overtime_spec:
  "overtime P rs s = (ids, s') \<Longrightarrow> rt_pool s' = rt_pool s \<and> rt_conns s' = rt_conns s \<and>
     set ids \<subseteq> (\<lambda>r. ap_clientId (conn s r)) ` {r \<in> set rs. \<not> connected s r}"
proof (induction rs arbitrary: s s' ids)
  case (Cons r rs)
  show ?case
  proof (cases "connected s r")
    case True
    then show ?thesis using Cons.IH [of s ids s'] Cons.prems by auto
  next
    case False
    obtain now s1 ids1 s2 where n: "on_pion (pn_Nanosecond P) s = (now, s1)" and o: "overtime P rs s1 = (ids1, s2)"
      by (metis surj_pair)
    have s1: "rt_conns s1 = rt_conns s" "rt_pool s1 = rt_pool s"
      using n by (auto simp: on_pion_def split: prod.splits)
    then have "connected s1 = connected s" by (simp add: connected_def fun_eq_iff)
    then show ?thesis using Cons.IH [OF o] Cons.prems False s1 by (fastforce simp: n o split: if_splits)
  qed
qed simp

lemma pool_get_entries:
  "pool_get P p s = (Some rs, s1) \<Longrightarrow> \<exists>pcs. map_of (rt_pool s) p = Some pcs \<and> set rs \<subseteq> ran (map_of pcs)"
  by (auto simp: pool_get_def List.map_filter_def ran_def split: option.splits prod.splits) blast

lemma clear_peer_spec:
  assumes ok: "peers_ok s" and c: "clear_peer P p s = (ids, s')"
  shows "cleared s s' \<and> set ids = {q. map_of (rt_pool s') q = Some [] \<and> map_of (rt_pool s) q \<noteq> Some []}"
proof (cases "map_of (rt_pool s) p \<in> {None, Some []}")
  case True
  then show ?thesis using c ok by (auto simp: clear_peer_def cleared_same)
next
  case False
  then obtain pcs where pcs: "map_of (rt_pool s) p = Some pcs" "pcs \<noteq> []" by auto
  then obtain rs s1 where g: "pool_get P p s = (Some rs, s1)"
    by (cases "on_pion (pn_RangeKeys P (map fst pcs)) s") (auto simp: pool_get_def)
  obtain cs s2 where o: "overtime P rs s1 = (cs, s2)" by fastforce
  define left where "left = fold AList.delete cs pcs"
  have s1: "rt_pool s1 = rt_pool s" "rt_conns s1 = rt_conns s" using pool_get_same [of P p s] by (simp_all add: g)
  have s2: "rt_pool s2 = rt_pool s" "rt_conns s2 = rt_conns s" using overtime_spec [OF o] s1 by simp_all
  have s': "s' = s2\<lparr>rt_pool := AList.update p left (rt_pool s2)\<rparr>" and ids: "ids = (if left = [] then [p] else [])"
    using c pcs by (auto simp: clear_peer_def g o left_def Let_def)
  have entry_ok: "peer_ok (rt_conns s) p pcs" using ok pcs by (intro peers_ok_entry)
  have gone: "\<not> connected s r" if get: "map_of pcs c = Some r" and dead: "c \<in> set cs" for c r
  proof -
    obtain r' where r': "r' \<in> set rs" "\<not> connected s r'" "c = ap_clientId (conn s r')"
      using dead overtime_spec [OF o] s1 by (fastforce simp: connected_def)
    obtain c' where "map_of pcs c' = Some r'" using pool_get_entries [OF g] pcs r' by (auto simp: ran_def)
    with r' entry_ok have "map_of pcs c = Some r'" by (auto simp: peer_ok_def dest: map_of_SomeD)
    with get r' show ?thesis by simp
  qed
  have "peers_ok s'" unfolding s' using ok s2 entry_ok
    by (intro peers_ok_update) (auto simp: left_def peers_ok_def intro: peer_ok_deletes)
  moreover have "entry s' q c r" if "entry s q c r" "connected s r" for q c r
    using that gone pcs s2 by (auto simp: entry_def s' AList.update_conv' left_def split: option.splits)
  ultimately show ?thesis using pcs s2 by (auto simp: cleared_def s' ids AList.update_conv' split: if_splits)
qed

lemma clear_peers_spec:
  "peers_ok s \<Longrightarrow> clear_peers P ps s = (ids, s') \<Longrightarrow>
   cleared s s' \<and> set ids = {q. map_of (rt_pool s') q = Some [] \<and> map_of (rt_pool s) q \<noteq> Some []}"
proof (induction ps arbitrary: s ids)
  case (Cons p ps)
  obtain ids1 s1 ids2 where 1: "clear_peer P p s = (ids1, s1)" and 2: "clear_peers P ps s1 = (ids2, s')"
    and ids: "ids = ids1 @ ids2"
    using Cons.prems(2) by (auto split: prod.splits)
  note a = clear_peer_spec [OF Cons.prems(1) 1]
  have "peers_ok s1" using a by (simp add: cleared_def)
  note b = Cons.IH [OF this 2]
  from a b have "cleared s s'" by (blast intro: cleared_trans)
  with a b ids show ?case by (auto simp: cleared_def)
qed (simp add: cleared_same)

lemma pool_clear_spec:
  assumes "pool_ok s"
  shows "pool_ok (pool_clear P s) \<and> rt_conns (pool_clear P s) = rt_conns s \<and>
    (\<forall>p c r. entry s p c r \<and> connected s r \<longrightarrow> entry (pool_clear P s) p c r)"
proof -
  obtain ps s1 where 1: "on_pion (pn_RangeKeys P (map fst (rt_pool s))) s = (ps, s1)" by fastforce
  obtain ids s2 where 2: "clear_peers P ps s1 = (ids, s2)" by fastforce
  have s1: "rt_pool s1 = rt_pool s" "rt_conns s1 = rt_conns s"
    using 1 by (auto simp: on_pion_def split: prod.splits)
  have ok: "peers_ok s1" using assms s1 by (simp add: pool_ok_def peers_ok_def)
  have ne: "map_of (rt_pool s1) q \<noteq> Some []" for q
    using assms s1 map_of_SomeD [of "rt_pool s" q "[]"] by (force simp: pool_ok_def)
  note c = clear_peers_spec [OF ok 2]
  define pool' where "pool' = fold AList.delete ids (rt_pool s2)"
  have eq: "pool_clear P s = s2\<lparr>rt_pool := pool'\<rparr>" by (simp add: pool_clear_def 1 2 pool'_def)
  have d: "distinct (map fst pool')" unfolding pool'_def
    using c by (intro distinct_deletes) (simp add: cleared_def peers_ok_def)
  have "[] \<notin> snd ` set pool'"
  proof
    assume "[] \<in> snd ` set pool'"
    then obtain q where "(q, []) \<in> set pool'" by auto
    then have "map_of pool' q = Some []" by (simp add: d)
    then show False using c ne by (auto simp: pool'_def split: if_splits)
  qed
  moreover have "set pool' \<subseteq> set (rt_pool s2)" by (simp add: pool'_def set_deletes)
  ultimately have "pool_ok (pool_clear P s)" using c d by (fastforce simp: eq pool_ok_def peers_ok_def cleared_def)
  moreover have "entry (pool_clear P s) p x r" if e: "entry s p x r" and up: "connected s r" for p x r
  proof -
    have "entry s2 p x r" using c e up s1 by (auto simp: cleared_def entry_def connected_def)
    moreover have "p \<notin> set ids" using c calculation by (auto simp: entry_def)
    ultimately show ?thesis by (simp add: eq pool'_def entry_def)
  qed
  ultimately show ?thesis using c s1 by (simp add: eq cleared_def)
qed

section \<open>Signals\<close>

lemma pool_entry_iff:
  "pool_ok s \<Longrightarrow> entry s p c r \<longleftrightarrow> (\<exists>pcs. (p, pcs) \<in> set (rt_pool s) \<and> (c, r) \<in> set pcs)"
proof
  assume ok: "pool_ok s" and "entry s p c r"
  then show "\<exists>pcs. (p, pcs) \<in> set (rt_pool s) \<and> (c, r) \<in> set pcs"
    by (auto simp: entry_def split: option.splits dest!: map_of_SomeD)
next
  assume ok: "pool_ok s" and "\<exists>pcs. (p, pcs) \<in> set (rt_pool s) \<and> (c, r) \<in> set pcs"
  then obtain pcs where p: "(p, pcs) \<in> set (rt_pool s)" and c: "(c, r) \<in> set pcs" by blast
  have "distinct (map fst pcs)" using ok p by (auto simp: pool_ok_def peers_ok_def peer_ok_def)
  then show "entry s p c r" using ok p c by (simp add: entry_def pool_ok_def peers_ok_def)
qed

lemma entry_ids:
  "pool_ok s \<Longrightarrow> entry s p c r \<Longrightarrow> r < length (rt_conns s) \<and> ap_peerId (conn s r) = p \<and> ap_clientId (conn s r) = c"
  by (fastforce simp: entry_def pool_ok_def peer_ok_def split: option.splits dest: map_of_SomeD peers_ok_entry)

lemma pool_remove_entry: "\<not> entry (snd (pool_remove p c s)) p c r"
  by (auto simp: pool_remove_def entry_def Let_def AList.update_conv' AList.delete_conv' split: option.splits)

lemma pool_getOne_entry:
  assumes ok: "pool_ok s" and g: "pool_getOne P p c s = (Some r, s1)"
  shows "entry s p c r"
proof -
  obtain rs where rs: "pool_get P p s = (Some rs, s1)" and r: "r \<in> set rs" "ap_clientId (conn s1 r) = c"
    using g by (auto simp: pool_getOne_def find_Some_iff split: prod.splits option.splits)
  have "rt_conns s1 = rt_conns s" using pool_get_same [of P p s] by (simp add: rs)
  moreover obtain pcs c' where "map_of (rt_pool s) p = Some pcs" "map_of pcs c' = Some r"
    using pool_get_entries [OF rs] r by (auto simp: ran_def)
  then have "entry s p c' r" by (simp add: entry_def)
  ultimately show ?thesis using entry_ids [OF ok, of p c' r] r by simp
qed

lemma set_conn_ok:
  assumes "pool_ok s" and "\<And>p c. \<not> entry s p c r" shows "pool_ok (set_conn r f s)"
proof -
  have "x \<noteq> r" if "(p, pcs) \<in> set (rt_pool s)" "(c, x) \<in> set pcs" for p pcs c x
    using assms that pool_entry_iff [of s p c r] by blast
  then have "peer_ok (rt_conns (set_conn r f s)) p pcs" if "(p, pcs) \<in> set (rt_pool s)" for p pcs
    using that assms(1) unfolding pool_ok_def peers_ok_def peer_ok_def
    by (fastforce simp: set_conn_def nth_list_update)
  moreover have "rt_pool (set_conn r f s) = rt_pool s" by (simp add: set_conn_def)
  ultimately show ?thesis using assms(1) unfolding pool_ok_def peers_ok_def by auto
qed

definition no_tracks :: "'w rtc \<Rightarrow> bool" where
  "no_tracks s \<longleftrightarrow> (\<forall>a \<in> set (rt_conns s). bp_localTracks (ap_base a) = None)"

definition sound :: "'w rtc \<Rightarrow> bool" where
  "sound s \<longleftrightarrow> pool_ok s \<and> no_tracks s"

lemma tame_sound: "tame s s' \<Longrightarrow> sound s \<Longrightarrow> sound s'"
  by (simp add: tame_def sound_def no_tracks_def later_conns_def)

lemma pool_remove_set_conn: "snd (pool_remove p c (set_conn r f s)) = set_conn r f (snd (pool_remove p c s))"
  by (simp add: pool_remove_def set_conn_def Let_def split: option.splits)

lemma sound_adopt_client:
  assumes s: "sound s" shows "sound (adopt_client P p c name s)"
proof (cases "fst (pool_getOne P p unknownClientId s)")
  case None
  then show ?thesis using tame_sound [OF tame_getOne [OF tame_refl] s, of P p unknownClientId]
    by (cases "pool_getOne P p unknownClientId s") (simp add: adopt_client_def)
next
  case (Some r)
  then obtain s1 where g: "pool_getOne P p unknownClientId s = (Some r, s1)" by (metis prod.collapse)
  define s2 where "s2 = snd (pool_remove p unknownClientId s1)"
  let ?f = "\<lambda>a. a\<lparr>ap_clientId := c, ap_name := name\<rparr>"
  have r: "r < length (rt_conns s)" "ap_peerId (conn s r) = p" "ap_clientId (conn s r) = unknownClientId"
    using pool_getOne_entry [OF _ g] entry_ids s by (auto simp: sound_def)
  have same: "rt_conns s2 = rt_conns s" using pool_getOne_same [of P p unknownClientId s] by (simp add: s2_def g)
  have "tame s s2" unfolding s2_def using tame_getOne [OF tame_refl, of s P p unknownClientId]
    by (intro tames) (simp add: g)
  then have s2: "sound s2" using s by (rule tame_sound)
  have "\<not> entry s2 q d r" for q d
    using entry_ids [of s2 q d r] s2 same r pool_remove_entry [of p unknownClientId s1 r]
    by (auto simp: sound_def s2_def)
  then have "pool_ok (set_conn r ?f s2)" using s2 by (intro set_conn_ok) (simp_all add: sound_def)
  then have "pool_ok (pool_put p r c (set_conn r ?f s2))"
    using r same by (intro pool_put_ok) (simp_all add: set_conn_def)
  moreover have "no_tracks (pool_put p r c (set_conn r ?f s2))"
    using s2 r same set_update_subset_insert [of "rt_conns s2" r "?f (conn s2 r)"]
    by (fastforce simp: sound_def no_tracks_def pool_put_def Let_def set_conn_def)
  ultimately show ?thesis by (simp add: adopt_client_def g sound_def pool_remove_set_conn s2_def)
qed

lemma sound_onWebrtcSignal:
  assumes "sound s" shows "sound (snd (onWebrtcSignal P p sig c cp cs s))"
proof (cases sig)
  case (Some g)
  define p' where "p' = (case ws_SignalExtension g of None \<Rightarrow> p | Some e \<Rightarrow> se_PeerId e)"
  define c' where "c' = (case ws_SignalExtension g of None \<Rightarrow> c | Some e \<Rightarrow> se_ClientId e)"
  define name where "name = (case ws_SignalExtension g of None \<Rightarrow> [] | Some e \<Rightarrow> se_Name e)"
  have "tame (adopt_client P p' c' name s) (snd (onWebrtcSignal P p sig c cp cs s))"
    unfolding onWebrtcSignal_def Some option.case Let_def p'_def [symmetric] c'_def [symmetric] name_def [symmetric]
    by (intro tames tame_refl)
  then show ?thesis using sound_adopt_client [OF assms] by (rule tame_sound)
qed (simp add: onWebrtcSignal_def assms)

section \<open>Runs of the pool\<close>

text \<open>
  A step is an operation of the pool, an event that the library reports, or an operation on a connection;
  what the operation returns is dropped, and one that panics leaves the state it has reached.
\<close>

inductive pool_step :: "'w pion \<Rightarrow> 'w rtc \<Rightarrow> 'w rtc \<Rightarrow> bool" for P where
  create: "pool_step P s (snd (pool_create P p c name cp cs room s))"
| createIfNotExist: "pool_step P s (snd (createIfNotExist P p c name cp cs room s))"
| onSignal: "pool_step P s (snd (pool_onSignal P p payload c cp cs s))"
| onWebrtcSignal: "pool_step P s (snd (onWebrtcSignal P p sig c cp cs s))"
| send: "pool_step P s (snd (pool_send P p data c s))"
| close: "pool_step P s (snd (pool_Close P p c s))"
| getConnected: "pool_step P s (snd (getConnected P p s))"
| status: "pool_step P s (snd (pool_status P p c s))"
| clear: "pool_step P s (pool_clear P s)"
| closed: "pool_step P s (pool_onClosed p c s)"
| ice_state: "pool_step P s (snd (onIceConnectionStateChange P r state s))"
| signaling_state: "pool_step P s (onSignalingStateChange r state s)"
| ice_candidate: "pool_step P s (snd (onIceCandidate P r candidate s))"
| data_channel: "pool_step P s (snd (setupDataChannel P r ch s))"
| channel_open: "pool_step P s (snd (onChannelOpen r s))"
| channel_close: "pool_step P s (snd (onChannelClose P r s))"
| message: "pool_step P s (snd (rtc_onMessage r spare data s))"
| negotiate: "pool_step P s (snd (rtc_negotiate P r s))"
| add_track: "pool_step P s (snd (rtc_AddTrack P r streamId trackId track s))"
| rtc_close: "pool_step P s (snd (rtc_Close P r s))"
| world: "pool_step P s (do_pion f s)"

inductive pool_reach :: "'w pion \<Rightarrow> 'w rtc \<Rightarrow> bool" for P where
  start: "pool_reach P \<lparr>rt_world = w, rt_conns = [], rt_pool = []\<rparr>"
| step: "pool_reach P s \<Longrightarrow> pool_step P s s' \<Longrightarrow> pool_reach P s'"

lemma pool_step_sound: "pool_step P s s' \<Longrightarrow> sound s \<Longrightarrow> sound s'"
proof (induction rule: pool_step.induct)
  case (clear s)
  then show ?case using pool_clear_spec [of s P] by (simp add: sound_def no_tracks_def)
qed (simp_all add: sound_onWebrtcSignal pool_onSignal_def | (erule tame_sound [rotated], intro tames tame_refl))+

lemma pool_reach_sound: "pool_reach P s \<Longrightarrow> sound s"
proof (induction rule: pool_reach.induct)
  case (start w)
  show ?case by (simp add: sound_def no_tracks_def pool_ok_def peers_ok_def)
qed (rule pool_step_sound)

text \<open>
  C11: In every reachable state of the pool the two levels of its maps have distinct keys, no peer has an
  empty map, and an entry under a peer and a client leads to an existing connection of this peer and this
  client, whatever the library reports and even when operations have panicked.
\<close>

theorem pool_reach_keys:
  assumes "pool_reach P s" shows "pool_ok s"
  using pool_reach_sound [OF assms] by (simp add: sound_def)

end
