(* ===== verification/Sfu.thy ===== *)
theory Sfu
  imports MediaTracks PoolInvariant
begin

text \<open>
  The selective forwarding unit, \<^verbatim>\<open>webrtc/sfu.go\<close>: the publishers and subscribers of a room and the pool of
  the rooms. The maps hold pointers to connections, here references into the list of the connections. Both
  mutexes are held for the whole of an operation, so that an operation is one step. The handler that
  \<open>onTrack\<close> registers, which forwards packets for ever, is only known by its registration.
\<close>

section \<open>State\<close>

abbreviation RouterIdentity_Publisher :: string where "RouterIdentity_Publisher \<equiv> ''publisher''"
abbreviation RouterIdentity_Subscriber :: string where "RouterIdentity_Subscriber \<equiv> ''subscriber''"
abbreviation RouterIdentity_PubSub :: string where "RouterIdentity_PubSub \<equiv> ''pubsub''"

record sfu =
  sf_id :: string
  sf_peerConnections :: "(string \<times> nat) list"
  sf_publishers :: "(string \<times> (string \<times> nat) list) list"
  sf_subscribers :: "(string \<times> nat) list"

definition Create :: "string \<Rightarrow> sfu" where
  "Create sfuId = \<lparr>sf_id = sfuId, sf_peerConnections = [], sf_publishers = [], sf_subscribers = []\<rparr>"

text \<open>The connections, the rooms, and which connection forwards its tracks to which room.\<close>

record 'w sfu_node =
  sn_rtc :: "'w rtc"
  sn_sfus :: "(string \<times> sfu) list"
  sn_onTrack :: "(nat \<times> string) list"

section \<open>Publishing and subscribing\<close>

text \<open>A publisher starts with the subscribers that are there, itself excepted.\<close>

definition publish :: "string \<Rightarrow> sfu \<Rightarrow> unit res \<times> sfu" where
  "publish i u =
     (if map_of (sf_peerConnections u) i = None \<or> map_of (sf_publishers u) i \<noteq> None then (Inl (Err ''Exist''), u)
      else (Inr (), u\<lparr>sf_publishers :=
        AList.update i (filter (\<lambda>(j, _). j \<noteq> i) (sf_subscribers u)) (sf_publishers u)\<rparr>))"

text \<open>The local tracks for the remote tracks of a publisher.\<close>

fun create_tracks :: "'w pion \<Rightarrow> 'w media \<Rightarrow> nat list \<Rightarrow> 'w rtc \<Rightarrow> nat list res \<times> 'w rtc" where
  "create_tracks P M [] s = (Inr [], s)"
| "create_tracks P M (t # ts) s =
     and_then (CreateTrack P M (md_RemoteCodec M t) (md_RemoteID M t) (md_RemoteStreamID M t) s) (\<lambda>l s1.
       and_then (create_tracks P M ts s1) (\<lambda>ls s2. (Inr (l # ls), s2)))"

text \<open>\<open>subscribe\<close>: the publishers in the order of \<open>range\<close>, then the tracks that were made.\<close>

fun subscribe_to :: "'w pion \<Rightarrow> 'w media \<Rightarrow> string \<Rightarrow> nat \<Rightarrow> string list \<Rightarrow> sfu \<Rightarrow> 'w rtc \<Rightarrow> nat list res \<times> sfu \<times> 'w rtc"
  where
  "subscribe_to P M i r [] u s = (Inr [], u, s)"
| "subscribe_to P M i r (p # ps) u s =
     (case (map_of (sf_publishers u) p, map_of (sf_peerConnections u) p) of
        (Some subs, Some pub) \<Rightarrow>
          if p = i then subscribe_to P M i r ps u s
          else
            (let u1 = u\<lparr>sf_publishers := AList.update p
                   (if map_of subs i = None then AList.update i r subs else subs) (sf_publishers u)\<rparr> in
             case GetTrackRemotes M pub [] s of
               Inl e \<Rightarrow> (Inl e, u1, s)
             | Inr remotes \<Rightarrow>
                 (case create_tracks P M (case remotes of None \<Rightarrow> [] | Some ts \<Rightarrow> ts) s of
                    (Inl e, s1) \<Rightarrow> (Inl e, u1, s1)
                  | (Inr ls, s1) \<Rightarrow>
                      (case subscribe_to P M i r ps u1 s1 of
                         (Inl e, us) \<Rightarrow> (Inl e, us) | (Inr ls', us) \<Rightarrow> (Inr (ls @ ls'), us))))
      | _ \<Rightarrow> subscribe_to P M i r ps u s)"

text \<open>The stream and the id of a local track are those it was made with.\<close>

definition add_tracks :: "'w pion \<Rightarrow> 'w media \<Rightarrow> nat \<Rightarrow> nat list \<Rightarrow> 'w rtc \<Rightarrow> unit res \<times> 'w rtc" where
  "add_tracks P M r = each (\<lambda>t s.
     and_then (rtc_AddTrack P r (md_LocalStreamID M t) (md_LocalID M t) t s) (\<lambda>_ s1. (Inr (), s1)))"

definition subscribe :: "'w pion \<Rightarrow> 'w media \<Rightarrow> nat \<Rightarrow> sfu \<Rightarrow> 'w rtc \<Rightarrow> unit res \<times> sfu \<times> 'w rtc" where
  "subscribe P M r u s =
     (let i = bp_id (base s r) in
      if map_of (sf_peerConnections u) i = None then (Inr (), u, s)
      else if map_of (sf_subscribers u) i \<noteq> None then (Inl (Err ''Exist''), u, s)
      else
        (case on_pion (pn_RangeKeys P (map fst (sf_publishers u))) s of
           (ps, s1) \<Rightarrow>
             (case subscribe_to P M i r ps (u\<lparr>sf_subscribers := AList.update i r (sf_subscribers u)\<rparr>) s1 of
                (Inl e, u2, s2) \<Rightarrow> (Inl e, u2, s2)
              | (Inr ts, u2, s2) \<Rightarrow> (case add_tracks P M r ts s2 of (x, s3) \<Rightarrow> (x, u2, s3)))))"

section \<open>Joining and leaving\<close>

text \<open>\<open>join\<close>: the connection is a member from the start, also when publishing or subscribing fails.\<close>

definition sfu_join :: "'w pion \<Rightarrow> 'w media \<Rightarrow> nat \<Rightarrow> sfu \<Rightarrow> 'w rtc \<Rightarrow> unit res \<times> sfu \<times> 'w rtc" where
  "sfu_join P M r u s =
     (let i = bp_id (base s r) in
      if map_of (sf_peerConnections u) i \<noteq> None then (Inl (Err ''Exist''), u, s)
      else
        (let u1 = u\<lparr>sf_peerConnections := AList.update i r (sf_peerConnections u)\<rparr> in
         case ap_Room (conn s r) of
           None \<Rightarrow> (Inl NilDereference, u1, s)
         | Some room \<Rightarrow>
             (case (if mr_Identity room = RouterIdentity_Publisher \<or> mr_Identity room = RouterIdentity_PubSub
                    then publish i u1 else (Inr (), u1)) of
                (Inl e, u2) \<Rightarrow> (Inl e, u2, s)
              | (Inr _, u2) \<Rightarrow>
                  if mr_Identity room = RouterIdentity_Subscriber \<or> mr_Identity room = RouterIdentity_PubSub
                  then subscribe P M r u2 s else (Inr (), u2, s))))"

definition leave :: "string \<Rightarrow> sfu \<Rightarrow> unit res \<times> sfu" where
  "leave i u =
     (if map_of (sf_peerConnections u) i = None then (Inl (Err ''NotExist''), u)
      else (Inr (), u\<lparr>
        sf_publishers := AList.delete i (map (\<lambda>(p, subs). (p, AList.delete i subs)) (sf_publishers u)),
        sf_subscribers := AList.delete i (sf_subscribers u),
        sf_peerConnections := AList.delete i (sf_peerConnections u)\<rparr>))"

section \<open>The pool of the rooms\<close>

definition sfu_Join :: "'w pion \<Rightarrow> 'w media \<Rightarrow> nat \<Rightarrow> 'w sfu_node \<Rightarrow> unit res \<times> 'w sfu_node" where
  "sfu_Join P M r n =
     (case ap_Room (conn (sn_rtc n) r) of
        None \<Rightarrow> (Inl (Err ''NoRouter''), n)
      | Some room \<Rightarrow>
          if mr_RoomId room = [] then (Inl (Err ''NoRoomId''), n)
          else
            (let k = mr_RoomId room;
                 u = (case map_of (sn_sfus n) k of None \<Rightarrow> Create k | Some u \<Rightarrow> u) in
             case sfu_join P M r u (sn_rtc n) of
               (x, u1, s1) \<Rightarrow>
                 (x, n\<lparr>sn_rtc := s1, sn_sfus := AList.update k u1 (sn_sfus n),
                       sn_onTrack := (if x = Inr () then AList.update r k (sn_onTrack n) else sn_onTrack n)\<rparr>)))"

definition sfu_Get :: "string \<Rightarrow> 'w sfu_node \<Rightarrow> sfu option" where
  "sfu_Get roomId n = map_of (sn_sfus n) roomId"

definition sfu_Leave :: "nat \<Rightarrow> 'w sfu_node \<Rightarrow> unit res \<times> 'w sfu_node" where
  "sfu_Leave r n =
     (case ap_Room (conn (sn_rtc n) r) of
        None \<Rightarrow> (Inl (Err ''NoRouter''), n)
      | Some room \<Rightarrow>
          if mr_RoomId room = [] then (Inl (Err ''NoRoomId''), n)
          else
            (case map_of (sn_sfus n) (mr_RoomId room) of
               None \<Rightarrow> (Inl (Err ''NotExist''), n)
             | Some u \<Rightarrow>
                 (case leave (bp_id (base (sn_rtc n) r)) u of
                    (Inl e, u1) \<Rightarrow> (Inl e, n\<lparr>sn_sfus := AList.update (mr_RoomId room) u1 (sn_sfus n)\<rparr>)
                  | (Inr _, u1) \<Rightarrow>
                      (Inr (), n\<lparr>sn_sfus := (if sf_peerConnections u1 = []
                         then AList.delete (mr_RoomId room) (sn_sfus n)
                         else AList.update (mr_RoomId room) u1 (sn_sfus n))\<rparr>))))"

definition sfu_Destroy :: "string \<Rightarrow> 'w sfu_node \<Rightarrow> unit res \<times> 'w sfu_node" where
  "sfu_Destroy roomId n =
     (if map_of (sn_sfus n) roomId = None then (Inl (Err ''NotExist''), n)
      else (Inr (), n\<lparr>sn_sfus := AList.delete roomId (sn_sfus n)\<rparr>))"

end
