(* ===== verification/PoolBehaviour.thy ===== *)
theory PoolBehaviour
  imports PoolInvariant
begin

text \<open>
  What the operations on the WebRTC connections do, for every library: how they end (closing, creating and
  adding a track panic), which signals have an effect, what the clearing of the pool keeps, and that the
  negotiation ends.
\<close>

section \<open>Closing\<close>

lemma base_set_base [simp]: "r < length (rt_conns s) \<Longrightarrow> base (set_base r f s) r = f (base s r)"
  by (simp add: set_base_def set_conn_def)

lemma length_set_base [simp]: "length (rt_conns (set_base r f s)) = length (rt_conns s)"
  by (simp add: set_base_def set_conn_def)

lemma pool_set_base [simp]: "rt_pool (set_base r f s) = rt_pool s"
  by (simp add: set_base_def set_conn_def)

lemma do_pion_same [simp]: "rt_conns (do_pion f s) = rt_conns s" "rt_pool (do_pion f s) = rt_pool s"
  by (simp_all add: do_pion_def)

lemma close_channel_base:
  assumes "r < length (rt_conns s)"
  shows "bp_peerConnection (base (close_channel P r s) r) = bp_peerConnection (base s r)"
    "bp_status (base (close_channel P r s) r) = bp_status (base s r)"
    "bp_dataChannel (base (close_channel P r s) r) = None"
    "length (rt_conns (close_channel P r s)) = length (rt_conns s)"
    "rt_pool (close_channel P r s) = rt_pool s"
  using assms by (simp_all add: close_channel_def split: option.split)

lemma rtc_Close_open:
  assumes "r < length (rt_conns s)" "bp_peerConnection (base s r) = Some h"
    "bp_status (base s r) \<noteq> PeerConnectionStatus_closed"
  shows "fst (rtc_Close P r s) = Inl NilDereference \<and> bp_peerConnection (base (snd (rtc_Close P r s)) r) = None \<and>
    bp_dataChannel (base (snd (rtc_Close P r s)) r) = None \<and>
    bp_status (base (snd (rtc_Close P r s)) r) = bp_status (base s r) \<and>
    rt_pool (snd (rtc_Close P r s)) = rt_pool s"
  using assms by (simp add: rtc_Close_def Let_def close_channel_base)

lemma ids_set_base:
  "ap_peerId (conn (set_base r f s) r) = ap_peerId (conn s r)"
  "ap_clientId (conn (set_base r f s) r) = ap_clientId (conn s r)"
  by (cases "r < length (rt_conns s)"; simp add: set_base_def set_conn_def list_update_beyond)+

lemma rtc_Close_events:
  "r < length (rt_conns s) \<Longrightarrow> bp_events (base (snd (rtc_Close P r s)) r) = bp_events (base s r)"
  by (cases "bp_dataChannel (base s r)"; cases "bp_peerConnection (base s r)")
    (simp_all add: rtc_Close_def Let_def close_channel_def emit_closed_def)

text \<open>
  Closing a connection that the library has made panics, because the field is set to nil before its
  methods are called: the connection keeps its status, no closed event is sent, so that it stays in the
  pool. Only a second close, if the first panic is recovered, sets the status and, when the handlers are
  registered, takes the connection out of the pool.
\<close>

theorem rtc_Close_twice:
  assumes r: "r < length (rt_conns s)" "bp_peerConnection (base s r) = Some h"
    and up: "bp_status (base s r) \<noteq> PeerConnectionStatus_closed" and ev: "bp_events (base s r)"
    and 1: "rtc_Close P r s = (res1, s1)" and 2: "rtc_Close P r s1 = (res2, s2)"
  shows "res1 = Inl NilDereference \<and> bp_status (base s1 r) = bp_status (base s r) \<and> rt_pool s1 = rt_pool s \<and>
    res2 = Inr () \<and> bp_status (base s2 r) = PeerConnectionStatus_closed \<and>
    \<not> entry s2 (ap_peerId (conn s r)) (ap_clientId (conn s r)) r"
proof -
  have a: "res1 = Inl NilDereference \<and> bp_peerConnection (base s1 r) = None \<and> bp_dataChannel (base s1 r) = None \<and>
      bp_status (base s1 r) = bp_status (base s r) \<and> rt_pool s1 = rt_pool s"
    using rtc_Close_open [OF r up, of P] by (simp add: 1)
  have "tame s s1" using tame_Close [OF tame_refl, of s P r] by (simp add: 1)
  then have r1: "r < length (rt_conns s1)" and ids: "ap_peerId (conn s1 r) = ap_peerId (conn s r)"
    "ap_clientId (conn s1 r) = ap_clientId (conn s r)"
    using r by (auto simp: tame_def later_conns_def later_conn_def)
  have ev1: "bp_events (base s1 r)" using rtc_Close_events [OF r(1), of P] ev by (simp add: 1)
  let ?s = "set_base r (\<lambda>b. b\<lparr>bp_status := PeerConnectionStatus_closed, bp_negotiateStatus := NegotiateStatus_none\<rparr>)
    (set_base r (\<lambda>b. b\<lparr>bp_localTracks := None\<rparr>) s1)"
  have s2: "rtc_Close P r s1 = (Inr (), snd (pool_remove (ap_peerId (conn s r)) (ap_clientId (conn s r)) ?s))"
    using a up r1 ev1 ids by (simp add: rtc_Close_def close_channel_def Let_def emit_closed_def ids_set_base)
  then show ?thesis using a r1 2 by (auto simp: pool_remove_entry)
qed

section \<open>Creating\<close>

text \<open>An operation that returns without an error or panics.\<close>

definition returns_or_panics :: "'a res \<Rightarrow> bool" where
  "returns_or_panics x \<longleftrightarrow> (\<forall>e. x \<noteq> Inl (Err e))"

lemma drop_err_returns [simp]: "returns_or_panics (fst (drop_err m))"
  by (cases m) (simp add: drop_err_def returns_or_panics_def split: sum.split go_error.split)

lemma and_then_returns:
  "returns_or_panics (fst m) \<Longrightarrow> (\<And>x s. m = (Inr x, s) \<Longrightarrow> returns_or_panics (fst (f x s))) \<Longrightarrow>
   returns_or_panics (fst (and_then m f))"
  by (cases m; cases "fst m") (simp_all add: and_then_def returns_or_panics_def)

lemma rtc_Close_returns [simp]: "returns_or_panics (fst (rtc_Close P r s))"
  by (simp add: rtc_Close_def Let_def returns_or_panics_def split: option.split)

lemma each_returns: "(\<And>x s. returns_or_panics (fst (f x s))) \<Longrightarrow> returns_or_panics (fst (each f xs s))"
proof (induction xs arbitrary: s)
  case (Cons x xs)
  show ?case unfolding each_and_then using Cons by (intro and_then_returns) blast+
qed (simp add: returns_or_panics_def)

lemma pool_Close_returns: "returns_or_panics (fst (pool_Close P p c s))"
proof -
  have "returns_or_panics (fst (each (\<lambda>r s. if c = [] \<or> c = ap_clientId (conn s r) then rtc_Close P r s
      else (Inr (), s)) rs t))" for rs and t :: "'a rtc"
    by (intro each_returns) (simp add: returns_or_panics_def [of "Inr _"])
  then show ?thesis
    by (auto simp: pool_Close_def returns_or_panics_def [of "Inr _"] intro!: and_then_returns
        split: prod.split option.split)
qed

definition same_conns :: "'w rtc \<Rightarrow> 'w rtc \<Rightarrow> bool" where
  "same_conns s t \<longleftrightarrow> rt_conns t = rt_conns s"

interpretation conns: effect same_conns
  by unfold_locales (simp_all add: same_conns_def)

named_theorems same_conns_rules \<open>rules that an operation leaves the connections as they are\<close>

lemma same_conns_leaf [same_conns_rules]:
  "same_conns s t \<Longrightarrow> same_conns s (snd (on_pion f t))" "same_conns s t \<Longrightarrow> same_conns s (do_pion g t)"
  "same_conns s t \<Longrightarrow> same_conns s (snd (pool_getOne P p c t))" "same_conns s s"
  by (simp_all add: same_conns_def on_pion_def split: prod.split)

lemmas same_conns_structure [same_conns_rules] = conns.in_and_then conns.in_case conns.in_if conns.in_option
  conns.in_sum conns.in_pair conns.in_drop_err

lemma emit_signal_conns [same_conns_rules]: "same_conns s t \<Longrightarrow> same_conns s (snd (emit_signal P r sig t))"
  unfolding emit_signal_def pool_signal_def by (intro same_conns_rules)

lemma send_sdp_conns [same_conns_rules]: "same_conns s t \<Longrightarrow> same_conns s (snd (send_sdp P r h sdp t))"
  unfolding send_sdp_def by (intro same_conns_rules)

lemma createOffer_conns [same_conns_rules]: "same_conns s t \<Longrightarrow> same_conns s (snd (createOffer P r t))"
  unfolding createOffer_def by (intro same_conns_rules)

lemma setup_then:
  "and_then (setupDataChannel P r ch s) f =
     (case ch of
        None \<Rightarrow> (Inl NilDereference, snd (setupDataChannel P r None s))
      | Some c \<Rightarrow> f () (set_base r (\<lambda>b. b\<lparr>bp_dataChannel := Some c\<rparr>) s))"
proof (cases ch)
  case None
  have "fst (setupDataChannel P r None s) = Inl NilDereference"
    by (simp add: setupDataChannel_def Let_def and_then_def rtc_Close_def split: option.split)
  then show ?thesis by (cases "setupDataChannel P r None s") (simp add: None)
qed (simp add: setupDataChannel_def Let_def)

text \<open>A connection whose negotiation has not begun.\<close>

definition waiting :: "base_pc \<Rightarrow> bool" where
  "waiting b \<longleftrightarrow> bp_status b \<in> {[], PeerConnectionStatus_init} \<and> bp_negotiateStatus b = [] \<and> bp_initiator b"

lemma base_Init_waiting:
  assumes "r < length (rt_conns s)" "waiting (base s r)" "base_Init P r e s = (x, s1)" "\<And>p. x \<noteq> Inl (Panic p)"
  shows "waiting (base s1 r) \<and> r < length (rt_conns s1)"
proof -
  have [simp]: "on_pion f t = (y, t') \<Longrightarrow> rt_conns t' = rt_conns t" for f :: "'a \<Rightarrow> 'b \<times> 'a" and t y t'
    by (auto simp: on_pion_def split: prod.splits)
  show ?thesis
    using assms unfolding base_Init_def Let_def
    by (auto simp: waiting_def setup_then split: prod.splits option.splits if_splits)
qed

lemma adv_Init_waiting:
  assumes "r < length (rt_conns s)" "waiting (base s r)" "adv_Init P r s = (Inr x, s1)"
  shows "waiting (base s1 r) \<and> r < length (rt_conns s1)"
proof -
  let ?e = "signal_extension0\<lparr>se_Room := ap_Room (conn s r)\<rparr>"
  obtain y s2 where i: "base_Init P r ?e s = (y, s2)" by fastforce
  have "y \<noteq> Inl (Panic p)" for p using assms(3) by (auto simp: adv_Init_def i drop_err_def)
  from base_Init_waiting [OF assms(1,2) i this] assms(3) show ?thesis
    by (auto simp: adv_Init_def i drop_err_def waiting_def split: sum.splits go_error.splits)
qed

lemma createOffer_returns: "returns_or_panics (fst (createOffer P r s))"
  by (auto simp: createOffer_def send_sdp_def emit_signal_def returns_or_panics_def [of "Inr _"]
    returns_or_panics_def [of "Inl (Panic _)"] split: option.split prod.split sum.split)

lemma createOffer_conn:
  "createOffer P r s = (Inr x, s1) \<Longrightarrow> bp_status (base s r) \<noteq> PeerConnectionStatus_closed \<Longrightarrow>
   bp_peerConnection (base s r) \<noteq> None"
  by (auto simp: createOffer_def split: option.splits)

lemma negotiate_rounds_panics:
  assumes r: "r < length (rt_conns s)" and w: "waiting (base s r)"
  shows "\<exists>p. fst (negotiate_rounds n P r s) = Inl (Panic p)"
proof -
  let ?s = "set_base r (\<lambda>b. b\<lparr>bp_negotiateStatus := NegotiateStatus_negotiating\<rparr>) s"
  have off: "negotiateOffer P r s = createOffer P r ?s" using w by (auto simp: negotiateOffer_def waiting_def)
  obtain x s1 where c: "createOffer P r ?s = (x, s1)" by fastforce
  show ?thesis
  proof (cases x)
    case (Inl e)
    then obtain p where "e = Panic p" using createOffer_returns [of P r ?s]
      by (cases e) (auto simp: c returns_or_panics_def)
    then show ?thesis using w Inl by (subst negotiate_rounds.simps) (simp add: off c waiting_def)
  next
    case (Inr u)
    have same: "rt_conns s1 = rt_conns ?s"
      using createOffer_conns [of ?s ?s P r] by (simp add: c same_conns_def)
    obtain h where h: "bp_peerConnection (base ?s r) = Some h"
      using createOffer_conn [OF c [unfolded Inr]] w r by (auto simp: waiting_def)
    have "fst (rtc_Close P r s1) = Inl NilDereference"
      using r w h by (intro rtc_Close_open [THEN conjunct1]) (auto simp: same waiting_def)
    moreover have "\<not> connected s1 r" using r w by (auto simp: same connected_def waiting_def)
    ultimately show ?thesis using w Inr
      by (subst negotiate_rounds.simps) (cases "rtc_Close P r s1", simp add: off c waiting_def)
  qed
qed

text \<open>
  Creating a connection as the caller never returns. Whatever the library answers, the negotiation
  either runs into a nil connection or, after the offer, into the close of a connection that is not yet
  connected, since the time of the delay is not waited for; and this close panics. So no created connection
  is put into the pool.
\<close>

theorem pool_create_panics: "\<exists>p. fst (pool_create P peerId clientId name cp cs room s) = Inl (Panic p)"
proof -
  have neg: "\<exists>p. fst (case new_conn (CreateAdvancedPeerConnection peerId True clientId name cp cs room) t of
      (r, s3) \<Rightarrow> and_then (adv_Init P r s3) (\<lambda>_ s4. and_then (rtc_negotiate P r s4)
        (\<lambda>_ s5. (Inr r, pool_put peerId r clientId s5)))) = Inl (Panic p)" for t :: "'a rtc"
  proof -
    let ?a = "CreateAdvancedPeerConnection peerId True clientId name cp cs room"
    obtain r s3 where n: "new_conn ?a t = (r, s3)" by fastforce
    then have r: "r < length (rt_conns s3)" "waiting (base s3 r)"
      by (auto simp: new_conn_def waiting_def CreateAdvancedPeerConnection_def CreateBasePeerConnection_def)
    obtain x s4 where i: "adv_Init P r s3 = (x, s4)" by fastforce
    show ?thesis
    proof (cases x)
      case (Inl e)
      have "returns_or_panics (fst (adv_Init P r s3))"
        unfolding adv_Init_def by (intro and_then_returns) (simp_all add: returns_or_panics_def [of "Inr _"])
      then show ?thesis using Inl by (cases e) (auto simp: n i returns_or_panics_def)
    next
      case (Inr u)
      from adv_Init_waiting [OF r i [unfolded Inr]]
      obtain p where "fst (rtc_negotiate P r s4) = Inl (Panic p)"
        using negotiate_rounds_panics unfolding rtc_negotiate_def by blast
      then show ?thesis by (cases "rtc_negotiate P r s4") (simp add: n i Inr)
    qed
  qed
  obtain found s1 where g: "pool_getOne P peerId clientId s = (found, s1)" by fastforce
  let ?m = "if found = None then (Inr False, s1) else pool_Close P peerId clientId s1"
  obtain y s2 where m: "?m = (y, s2)" by fastforce
  have ret: "returns_or_panics (fst ?m)" by (simp add: pool_Close_returns returns_or_panics_def [of "Inr _"])
  show ?thesis
  proof (cases y)
    case (Inl e)
    with ret m show ?thesis by (cases e) (auto simp: pool_create_def g returns_or_panics_def)
  next
    case (Inr b)
    then show ?thesis using neg [of s2] by (simp add: pool_create_def g m)
  qed
qed

section \<open>Descriptions and candidates that are never set\<close>

text \<open>A library that differs in \<open>SetRemoteDescription\<close> and \<open>AddICECandidate\<close> only.\<close>

definition deaf ::
  "(nat \<Rightarrow> session_description \<Rightarrow> 'w \<Rightarrow> go_error option \<times> 'w) \<Rightarrow> (nat \<Rightarrow> json \<Rightarrow> 'w \<Rightarrow> go_error option \<times> 'w) \<Rightarrow>
   'w pion \<Rightarrow> 'w pion" where
  "deaf f g P = P\<lparr>pn_SetRemoteDescription := f, pn_AddICECandidate := g\<rparr>"

lemma deaf_fields:
  "pn_NewPeerConnection (deaf f g P) = pn_NewPeerConnection P"
  "pn_CreateDataChannel (deaf f g P) = pn_CreateDataChannel P"
  "pn_LocalDescription (deaf f g P) = pn_LocalDescription P"
  "pn_RemoteDescription (deaf f g P) = pn_RemoteDescription P" "pn_CreateOffer (deaf f g P) = pn_CreateOffer P"
  "pn_CreateAnswer (deaf f g P) = pn_CreateAnswer P"
  "pn_SetLocalDescription (deaf f g P) = pn_SetLocalDescription P" "pn_AddTrack (deaf f g P) = pn_AddTrack P"
  "pn_Close (deaf f g P) = pn_Close P" "pn_CloseChannel (deaf f g P) = pn_CloseChannel P"
  "pn_ChannelSend (deaf f g P) = pn_ChannelSend P" "pn_UUID (deaf f g P) = pn_UUID P"
  "pn_Nanosecond (deaf f g P) = pn_Nanosecond P" "pn_Random (deaf f g P) = pn_Random P"
  "pn_Signal (deaf f g P) = pn_Signal P" "pn_RangeKeys (deaf f g P) = pn_RangeKeys P"
  "pn_RangeSlices (deaf f g P) = pn_RangeSlices P" "pn_Extension (deaf f g P) = pn_Extension P"
  "pn_ICEServers (deaf f g P) = pn_ICEServers P"
  by (simp_all add: deaf_def)

named_theorems deafness \<open>operations that set neither the remote description nor a candidate\<close>

lemma deaf_maps [deafness]: "pool_get (deaf f g P) = pool_get P" "pool_getOne (deaf f g P) = pool_getOne P"
  unfolding fun_eq_iff pool_get_def pool_getOne_def deaf_fields by simp_all

lemma deaf_events [deafness]: "emit_signal (deaf f g P) = emit_signal P" "rtc_Close (deaf f g P) = rtc_Close P"
  unfolding fun_eq_iff emit_signal_def pool_signal_def rtc_Close_def close_channel_def deaf_fields deafness
  by simp_all

lemma deaf_init [deafness]: "adv_Init (deaf f g P) = adv_Init P"
  unfolding fun_eq_iff adv_Init_def base_Init_def setupDataChannel_def deaf_fields deafness by simp

lemma deaf_negotiate [deafness]: "rtc_negotiate (deaf f g P) = rtc_negotiate P"
proof -
  have offer: "negotiateOffer (deaf f g P) = negotiateOffer P"
    unfolding fun_eq_iff negotiateOffer_def createOffer_def send_sdp_def deaf_fields deafness by simp
  have answer: "negotiateAnswer (deaf f g P) = negotiateAnswer P"
    unfolding fun_eq_iff negotiateAnswer_def deafness by simp
  have "negotiate_rounds n (deaf f g P) r s = negotiate_rounds n P r s" for n r s
  proof (induction n arbitrary: s)
    case 0
    show ?case unfolding negotiate_rounds.simps [of 0] Let_def nat.case offer answer deafness by simp
  next
    case (Suc n)
    show ?case unfolding negotiate_rounds.simps [of "Suc n"] Let_def nat.case offer answer deafness Suc.IH by simp
  qed
  then show ?thesis by (simp add: fun_eq_iff rtc_negotiate_def)
qed

lemma deaf_onSignal:
  assumes "ws_SignalType sig \<noteq> WebrtcSignalType_Sdp" "ws_Candidates sig = None"
  shows "rtc_onSignal (deaf f g P) r sig s = rtc_onSignal P r sig s"
  using assms unfolding rtc_onSignal_def onOfferSignal_def onAnswerSignal_def deafness by simp

lemma deaf_pool [deafness]:
  "createIfNotExist (deaf f g P) = createIfNotExist P" "adopt_client (deaf f g P) = adopt_client P"
  unfolding fun_eq_iff createIfNotExist_def adopt_client_def deafness by simp_all

lemma transform_empty:
  "Transform E payload = Some sig \<Longrightarrow> ws_Candidates sig = None \<and>
   (ws_SignalType sig = WebrtcSignalType_Sdp \<longrightarrow> ws_Sdp sig = None)"
  by (auto simp: Transform_def webrtc_signal0_def Let_def as_maps_def bind_eq_None_conv split: option.splits if_splits)

text \<open>
  Whatever map arrives as a signal, no remote description is set and no candidate is added: the signal
  has the same effect with any other implementation of these two calls. A signal of the type \<open>sdp\<close> is a
  nil dereference, offers and answers are not recognised by the connection, and the candidates are lost
  in \<open>Transform\<close>. So no connection can be negotiated by signals from the DHT.
\<close>

theorem onSignal_negotiates_nothing:
  "pool_onSignal (deaf f g P) peerId payload clientId connectPeerId connectSessionId =
   pool_onSignal P peerId payload clientId connectPeerId connectSessionId"
proof (cases "Transform (pn_Extension P) payload")
  case (Some sig)
  show ?thesis
  proof (cases "ws_SignalType sig = WebrtcSignalType_Sdp")
    case True
    then have "ws_Sdp sig = None" using transform_empty [OF Some] by simp
    with True show ?thesis
      unfolding fun_eq_iff pool_onSignal_def onWebrtcSignal_def deaf_fields deafness Some by simp
  next
    case False
    have same: "rtc_onSignal (deaf f g P) r sig = rtc_onSignal P r sig" for r
      by (rule ext) (rule deaf_onSignal [OF False conjunct1 [OF transform_empty [OF Some]]])
    show ?thesis
      unfolding fun_eq_iff pool_onSignal_def onWebrtcSignal_def deaf_fields deafness Some option.case same by simp
  qed
qed (simp add: fun_eq_iff pool_onSignal_def onWebrtcSignal_def deaf_fields)

section \<open>Signals for unknown clients\<close>

text \<open>
  A candidate, or an offer in the form of an \<open>sdp\<close> signal, that comes from a client without a
  connection creates the connection and is then lost: what it carries has no influence, since the new
  connection is a variable of an inner block that hides the outer one.
\<close>

theorem first_signal_lost:
  assumes "ws_SignalExtension sig = None"
    and "map_of (rt_pool s) peerId = None"
    and "ws_SignalType sig = WebrtcSignalType_Candidate \<or>
         ws_SignalType sig = WebrtcSignalType_Sdp \<and> (\<exists>sdp. ws_Sdp sig = Some sdp \<and> sd_Type sdp = ''offer'')"
  shows "onWebrtcSignal P peerId (Some sig) clientId cp cs s =
    and_then (createIfNotExist P peerId clientId [] cp cs None s) (\<lambda>_ s1. (Inr (), s1))"
  using assms by (auto simp: onWebrtcSignal_def adopt_client_def pool_getOne_def pool_get_def)

section \<open>Clearing the pool\<close>

text \<open>
  Clearing the pool keeps every connection that is connected under its peer and its client, leaves no
  peer without a connection and closes no connection: the removed ones stay as they are.
\<close>

theorem clear_keeps_connected:
  assumes "pool_reach P s" "entry s peerId clientId r" "connected s r"
  shows "entry (pool_clear P s) peerId clientId r \<and> pool_ok (pool_clear P s) \<and>
    rt_conns (pool_clear P s) = rt_conns s"
  using pool_clear_spec [of s P] pool_reach_sound [OF assms(1)] assms(2,3) by (simp add: sound_def)

section \<open>Tracks\<close>

text \<open>
  No local track can be added to a connection of a reachable state: when the library has accepted the
  track, the assignment to the map of the tracks panics, because the map is never made.
\<close>

theorem AddTrack_panics:
  assumes "pool_reach P s" "r < length (rt_conns s)" "bp_peerConnection (base s r) = Some h"
    and "pn_AddTrack P h track (rt_world s) = (Inr sender, w)"
  shows "rtc_AddTrack P r streamId trackId track s =
    (Inl (Panic ''assignment to entry in nil map''), s\<lparr>rt_world := w\<rparr>)"
proof -
  have "bp_localTracks (base s r) = None"
    using pool_reach_sound [OF assms(1)] assms(2) by (simp add: sound_def no_tracks_def)
  then show ?thesis using assms(3,4) by (simp add: rtc_AddTrack_def on_pion_def)
qed

section \<open>Negotiating\<close>

lemma and_then_same: "(\<And>x s1. m = (Inr x, s1) \<Longrightarrow> f x s1 = g x s1) \<Longrightarrow> and_then m f = and_then m g"
  by (auto simp: and_then_def split: prod.split sum.split)

lemma round_tame:
  assumes "(if bp_initiator (base s r) then negotiateOffer P r s else negotiateAnswer P r s) = (Inr x, s1)"
    and "rtc_Close P r s1 = (Inr y, s2)"
  shows "tame s s2"
proof -
  have "tame s (snd (if bp_initiator (base s r) then negotiateOffer P r s else negotiateAnswer P r s))"
    by (intro tames tame_refl)
  then have "tame s s1" by (simp add: assms(1))
  then have "tame s (snd (rtc_Close P r s1))" by (rule tame_Close)
  then show ?thesis by (simp add: assms(2))
qed

lemma negotiate_rounds_enough:
  "r < length (rt_conns s) \<Longrightarrow> nat (bp_reconnectTimes (base s r)) \<le> n \<Longrightarrow>
   negotiate_rounds (n + k) P r s = negotiate_rounds n P r s"
proof (induction n arbitrary: s)
  case n: (0 s)
  show ?case unfolding negotiate_rounds.simps [of "0 + k"] negotiate_rounds.simps [of 0]
  proof (rule and_then_same, rule if_cong [OF refl refl], rule and_then_same)
    fix x s1 y s2
    assume 1: "(if bp_initiator (base s r) then negotiateOffer P r s else negotiateAnswer P r s) = (Inr x, s1)"
      and 2: "rtc_Close P r s1 = (Inr y, s2)"
    have "tame s s2" using round_tame [OF 1 2] .
    then have "bp_reconnectTimes (base s2 r) \<le> 0" using n by (auto simp: tame_def later_conns_def later_conn_def)
    then show "(if 0 < bp_reconnectTimes (base s2 r) then
          let s3 = set_base r (\<lambda>b. b\<lparr>bp_reconnectTimes := bp_reconnectTimes b - 1\<rparr>) s2 in
          case 0 + k of 0 \<Rightarrow> (Inr (), s3) | Suc m \<Rightarrow> negotiate_rounds m P r s3 else (Inr (), s2)) =
        (if 0 < bp_reconnectTimes (base s2 r) then
          let s3 = set_base r (\<lambda>b. b\<lparr>bp_reconnectTimes := bp_reconnectTimes b - 1\<rparr>) s2 in
          case 0 of 0 \<Rightarrow> (Inr (), s3) | Suc m \<Rightarrow> negotiate_rounds m P r s3 else (Inr (), s2))"
      by simp
  qed
next
  case (Suc n s)
  show ?case unfolding negotiate_rounds.simps [of "Suc n + k"] negotiate_rounds.simps [of "Suc n"]
  proof (rule and_then_same, rule if_cong [OF refl refl], rule and_then_same)
    fix x s1 y s2
    assume 1: "(if bp_initiator (base s r) then negotiateOffer P r s else negotiateAnswer P r s) = (Inr x, s1)"
      and 2: "rtc_Close P r s1 = (Inr y, s2)"
    have "tame s s2" using round_tame [OF 1 2] .
    then have s2: "r < length (rt_conns s2)" "nat (bp_reconnectTimes (base s2 r)) \<le> Suc n"
      using Suc.prems by (auto simp: tame_def later_conns_def later_conn_def)
    let ?s3 = "set_base r (\<lambda>b. b\<lparr>bp_reconnectTimes := bp_reconnectTimes b - 1\<rparr>) s2"
    have "negotiate_rounds (n + k) P r ?s3 = negotiate_rounds n P r ?s3"
      using s2 by (intro Suc.IH) simp_all
    then show "(if 0 < bp_reconnectTimes (base s2 r) then let s3 = ?s3 in
          case Suc n + k of 0 \<Rightarrow> (Inr (), s3) | Suc m \<Rightarrow> negotiate_rounds m P r s3 else (Inr (), s2)) =
        (if 0 < bp_reconnectTimes (base s2 r) then let s3 = ?s3 in
          case Suc n of 0 \<Rightarrow> (Inr (), s3) | Suc m \<Rightarrow> negotiate_rounds m P r s3 else (Inr (), s2))"
      by simp
  qed
qed

text \<open>
  The negotiation ends: it calls itself again only after it has counted down the reconnections that are
  left, and nothing counts them up, so that more rounds than this number change nothing.
\<close>

theorem negotiate_ends:
  assumes "r < length (rt_conns s)" "nat (bp_reconnectTimes (base s r)) \<le> n"
  shows "negotiate_rounds n P r s = rtc_negotiate P r s"
  using negotiate_rounds_enough [of r s "nat (bp_reconnectTimes (base s r))" "n - nat (bp_reconnectTimes (base s r))" P]
    assms by (simp add: rtc_negotiate_def)

section \<open>Instances\<close>

text \<open>A library that answers at once, with one connection and no failures, and a node with one callee.\<close>

definition quiet :: "unit pion" where
  "quiet = \<lparr>pn_NewPeerConnection = (\<lambda>_ _ w. ((Some 0, None), w)), pn_CreateDataChannel = (\<lambda>_ _ w. (Some 0, w)),
     pn_LocalDescription = (\<lambda>_ w. (None, w)), pn_RemoteDescription = (\<lambda>_ w. (None, w)),
     pn_CreateOffer = (\<lambda>_ w. (Inr \<lparr>sd_Type = ''offer'', sd_SDP = ''o''\<rparr>, w)),
     pn_CreateAnswer = (\<lambda>_ w. (Inr \<lparr>sd_Type = ''answer'', sd_SDP = ''a''\<rparr>, w)),
     pn_SetLocalDescription = (\<lambda>_ _ w. w), pn_SetRemoteDescription = (\<lambda>_ _ w. (None, w)),
     pn_AddICECandidate = (\<lambda>_ _ w. (None, w)), pn_AddTrack = (\<lambda>_ t w. (Inr t, w)), pn_Close = (\<lambda>_ w. w),
     pn_CloseChannel = (\<lambda>_ w. w), pn_ChannelSend = (\<lambda>_ _ w. (None, w)), pn_UUID = (\<lambda>w. (''u'', w)),
     pn_Nanosecond = (\<lambda>w. (1, w)), pn_Random = (\<lambda>w. (0, w)), pn_Signal = (\<lambda>_ _ _ w. (Inr (), w)),
     pn_RangeKeys = (\<lambda>ks w. (ks, w)), pn_RangeSlices = (\<lambda>_ w. ([], w)), pn_Extension = (\<lambda>_. None),
     pn_ICEServers = []\<rparr>"

definition nobody :: "unit rtc" where
  "nobody = \<lparr>rt_world = (), rt_conns = [], rt_pool = []\<rparr>"

definition callee :: "unit rtc" where
  "callee = snd (createIfNotExist quiet ''p'' ''c'' [] [] [] None nobody)"

lemma callee_reach: "pool_reach quiet callee"
  unfolding callee_def nobody_def by (rule pool_reach.step [OF pool_reach.start pool_step.createIfNotExist])

lemmas callee_eval = callee_def nobody_def createIfNotExist_def pool_getOne_def pool_get_def on_pion_def quiet_def
  new_conn_def CreateAdvancedPeerConnection_def CreateBasePeerConnection_def adv_Init_def base_Init_def
  pool_put_def set_base_def set_conn_def drop_err_def signal_extension0_def

lemma callee_state:
  "rt_pool callee = [(''p'', [(''c'', 0)])]" "length (rt_conns callee) = 1"
  "bp_peerConnection (base callee 0) = Some 0" "bp_status (base callee 0) = PeerConnectionStatus_init"
  "bp_events (base callee 0)" "ap_peerId (conn callee 0) = ''p''" "ap_clientId (conn callee 0) = ''c''"
  "bp_reconnectTimes (base callee 0) = 1"
  by (simp_all add: callee_eval)

definition called :: "unit rtc" where
  "called = snd (onIceConnectionStateChange quiet 0 ''connected'' callee)"

lemma called_reach: "pool_reach quiet called"
  unfolding called_def by (rule pool_reach.step [OF callee_reach pool_step.ice_state])

lemma called_state: "rt_pool called = [(''p'', [(''c'', 0)])]" "connected called 0"
  by (simp_all add: called_def onIceConnectionStateChange_def rtc_Connected_def adv_Send_def rtc_Send_def
    connected_def callee_state on_pion_def set_base_def set_conn_def quiet_def drop_err_def Let_def)

theorem pool_reach_keys_witness: "pool_ok called \<and> rt_pool called = [(''p'', [(''c'', 0)])]"
  using pool_reach_keys [OF called_reach] called_state by simp

theorem rtc_Close_twice_witness:
  "\<not> entry (snd (rtc_Close quiet 0 (snd (rtc_Close quiet 0 callee)))) ''p'' ''c'' 0 \<and>
   rt_pool (snd (rtc_Close quiet 0 callee)) = [(''p'', [(''c'', 0)])]"
proof -
  obtain x s1 y s2 where r: "rtc_Close quiet 0 callee = (x, s1)" "rtc_Close quiet 0 s1 = (y, s2)"
    by (metis surj_pair)
  have "0 < length (rt_conns callee)" by (simp add: callee_state)
  from rtc_Close_twice [OF this callee_state(3) _ callee_state(5) r] show ?thesis
    by (simp add: r callee_state)
qed

theorem first_signal_lost_witness:
  "onWebrtcSignal quiet ''p'' (Some (webrtc_signal0\<lparr>ws_SignalType := ''candidate'', ws_Candidates := Some [JStr ''x'']\<rparr>))
     ''c'' [] [] nobody = (Inr (), callee)"
proof -
  let ?g = "webrtc_signal0\<lparr>ws_SignalType := ''candidate'', ws_Candidates := Some [JStr ''x'']\<rparr>"
  have "fst (createIfNotExist quiet ''p'' ''c'' [] [] [] None nobody) = Inr 0" by (simp add: callee_eval)
  then have c: "createIfNotExist quiet ''p'' ''c'' [] [] [] None nobody = (Inr 0, callee)"
    by (simp add: callee_def prod_eq_iff)
  have "onWebrtcSignal quiet ''p'' (Some ?g) ''c'' [] [] nobody =
      and_then (createIfNotExist quiet ''p'' ''c'' [] [] [] None nobody) (\<lambda>_ s1. (Inr (), s1))"
    by (rule first_signal_lost) (simp_all add: webrtc_signal0_def nobody_def)
  then show ?thesis by (simp add: c)
qed

theorem clear_keeps_connected_witness: "entry (pool_clear quiet called) ''p'' ''c'' 0"
proof -
  have "entry called ''p'' ''c'' 0" by (simp add: entry_def called_state)
  from clear_keeps_connected [OF called_reach this called_state(2)] show ?thesis by simp
qed

theorem AddTrack_panics_witness:
  "fst (rtc_AddTrack quiet 0 ''s'' ''t'' 7 callee) = Inl (Panic ''assignment to entry in nil map'')"
proof -
  have "0 < length (rt_conns callee)" "pn_AddTrack quiet 0 7 (rt_world callee) = (Inr 7, ())"
    by (simp_all add: callee_state quiet_def)
  from AddTrack_panics [OF callee_reach this(1) callee_state(3) this(2)] show ?thesis by simp
qed

theorem negotiate_ends_witness: "negotiate_rounds 5 quiet 0 callee = rtc_negotiate quiet 0 callee"
  by (rule negotiate_ends) (simp_all add: callee_state)

end
