(* ===== verification/SfuRooms.thy ===== *)
theory SfuRooms
  imports Sfu PoolBehaviour
begin

text \<open>
  What the rooms keep: the invariant of a room and of the pool of the rooms, and the abstract room, a set of
  publishers and a map of subscribers in which each publisher reaches all other subscribers, which joining
  and leaving implement.
\<close>

declare map_of_eq_Some_iff [simp del] Some_eq_map_of_iff [simp del]

lemma map_le_iff: "m \<subseteq>\<^sub>m n \<longleftrightarrow> (\<forall>j x. m j = Some x \<longrightarrow> n j = Some x)"
  by (auto simp: map_le_def dom_def)

section \<open>The invariant of a room\<close>

definition sfu_ok :: "sfu \<Rightarrow> bool" where
  "sfu_ok u \<longleftrightarrow> distinct (map fst (sf_peerConnections u)) \<and> distinct (map fst (sf_publishers u)) \<and>
     distinct (map fst (sf_subscribers u)) \<and> map_of (sf_subscribers u) \<subseteq>\<^sub>m map_of (sf_peerConnections u) \<and>
     (\<forall>p ss. map_of (sf_publishers u) p = Some ss \<longrightarrow>
        distinct (map fst ss) \<and> map_of (sf_peerConnections u) p \<noteq> None \<and> map_of ss p = None \<and>
        map_of ss \<subseteq>\<^sub>m map_of (sf_subscribers u))"

text \<open>What \<open>subscribe\<close> may do to the publishers: to enter the new subscriber into some of their lists.\<close>

definition gains :: "string \<Rightarrow> nat \<Rightarrow> string \<Rightarrow> (string \<times> nat) list \<Rightarrow> (string \<times> nat) list \<Rightarrow> bool" where
  "gains i r p ss ss' \<longleftrightarrow> (distinct (map fst ss) \<longrightarrow> distinct (map fst ss')) \<and>
     (map_of ss' = map_of ss \<or> p \<noteq> i \<and> map_of ss i = None \<and> map_of ss' = (map_of ss)(i \<mapsto> r))"

definition fed :: "string \<Rightarrow> nat \<Rightarrow> sfu \<Rightarrow> sfu \<Rightarrow> bool" where
  "fed i r u u' \<longleftrightarrow> sf_id u' = sf_id u \<and> sf_peerConnections u' = sf_peerConnections u \<and>
     sf_subscribers u' = sf_subscribers u \<and>
     (distinct (map fst (sf_publishers u)) \<longrightarrow> distinct (map fst (sf_publishers u'))) \<and>
     (\<forall>p. rel_option (gains i r p) (map_of (sf_publishers u) p) (map_of (sf_publishers u') p))"

lemma gains_refl [simp]: "gains i r p ss ss"
  by (simp add: gains_def)

lemma gains_trans: "gains i r p x y \<Longrightarrow> gains i r p y z \<Longrightarrow> gains i r p x z"
  by (elim disjE conjE | simp add: gains_def)+

lemma fed_refl [simp]: "fed i r u u"
  by (simp add: fed_def option.rel_refl)

lemma fed_trans: "fed i r u v \<Longrightarrow> fed i r v w \<Longrightarrow> fed i r u w"
  by (simp add: fed_def) (metis (no_types, lifting) gains_trans option.rel_sel)

lemma fed_update:
  assumes "map_of (sf_publishers u) p = Some subs" "p \<noteq> i"
  shows "fed i r u (u\<lparr>sf_publishers := AList.update p
    (if map_of subs i = None then AList.update i r subs else subs) (sf_publishers u)\<rparr>)"
proof -
  have "gains i r p subs (if map_of subs i = None then AList.update i r subs else subs)"
    using assms(2) by (auto simp: gains_def AList.update_conv' AList.distinct_update)
  then show ?thesis using assms(1)
    by (auto simp: fed_def AList.update_conv' AList.distinct_update option.rel_refl)
qed

lemma fed_entry:
  assumes "fed i r u u'" "map_of (sf_publishers u') p = Some ss'"
  shows "\<exists>ss. map_of (sf_publishers u) p = Some ss \<and> gains i r p ss ss'"
proof -
  have "rel_option (gains i r p) (map_of (sf_publishers u) p) (Some ss')" using assms by (metis fed_def)
  then show ?thesis by (cases "map_of (sf_publishers u) p") auto
qed

lemma gained_le:
  "m' = m \<or> p \<noteq> i \<and> m i = None \<and> m' = m(i \<mapsto> r) \<Longrightarrow> m \<subseteq>\<^sub>m n \<Longrightarrow> n i = Some r \<Longrightarrow> m p = None \<Longrightarrow>
   m' \<subseteq>\<^sub>m n \<and> m' p = None"
  by (auto simp: map_le_iff split: if_splits)

lemma fed_ok:
  assumes ok: "sfu_ok u" and i: "map_of (sf_subscribers u) i = Some r" and f: "fed i r u u'"
  shows "sfu_ok u'"
proof -
  have "distinct (map fst ss') \<and> map_of (sf_peerConnections u) p \<noteq> None \<and> map_of ss' p = None \<and>
      map_of ss' \<subseteq>\<^sub>m map_of (sf_subscribers u)" if p: "map_of (sf_publishers u') p = Some ss'" for p ss'
  proof -
    obtain ss where ss: "map_of (sf_publishers u) p = Some ss" "gains i r p ss ss'" using fed_entry [OF f p] by blast
    then have "distinct (map fst ss) \<and> map_of (sf_peerConnections u) p \<noteq> None \<and> map_of ss p = None \<and>
      map_of ss \<subseteq>\<^sub>m map_of (sf_subscribers u)" using ok by (simp add: sfu_ok_def)
    then show ?thesis using ss(2) gained_le [of "map_of ss'" "map_of ss" p i r "map_of (sf_subscribers u)"] i
      by (simp add: gains_def)
  qed
  then show ?thesis using ok f by (auto simp: sfu_ok_def fed_def)
qed

lemma subscribe_to_fed: "subscribe_to P M i r ps u s = (x, u', s') \<Longrightarrow> fed i r u u'"
proof (induction ps arbitrary: x u u' s s')
  case (Cons p ps)
  show ?case
  proof (cases "map_of (sf_publishers u) p = None \<or> map_of (sf_peerConnections u) p = None \<or> p = i")
    case True
    then have "subscribe_to P M i r ps u s = (x, u', s')"
      using Cons.prems by (auto split: option.splits)
    then show ?thesis by (rule Cons.IH)
  next
    case False
    then obtain subs pub where sp: "map_of (sf_publishers u) p = Some subs"
      "map_of (sf_peerConnections u) p = Some pub" "p \<noteq> i" by auto
    let ?u = "u\<lparr>sf_publishers := AList.update p
      (if map_of subs i = None then AList.update i r subs else subs) (sf_publishers u)\<rparr>"
    have "fed i r u ?u" using sp by (intro fed_update)
    moreover have "fed i r ?u u'"
      using Cons.prems Cons.IH [of ?u] sp by (auto simp: Let_def split: sum.splits prod.splits)
    ultimately show ?thesis by (rule fed_trans)
  qed
qed simp

text \<open>A subscription that succeeds has entered the subscriber into the list of every publisher it visits.\<close>

lemma fed_keeps: "fed i r u u' \<Longrightarrow> map_of (sf_publishers u) p = Some ss \<Longrightarrow> map_of ss i \<noteq> None \<Longrightarrow>
   \<exists>ss'. map_of (sf_publishers u') p = Some ss' \<and> map_of ss' i \<noteq> None"
proof -
  assume f: "fed i r u u'" and p: "map_of (sf_publishers u) p = Some ss" "map_of ss i \<noteq> None"
  have "rel_option (gains i r p) (Some ss) (map_of (sf_publishers u') p)" using f p(1) by (metis fed_def)
  then obtain ss' where "map_of (sf_publishers u') p = Some ss'" "gains i r p ss ss'"
    by (cases "map_of (sf_publishers u') p") auto
  then show ?thesis using p(2) by (auto simp: gains_def)
qed

lemma subscribe_to_all:
  "subscribe_to P M i r ps u s = (Inr ls, u', s') \<Longrightarrow> p \<in> set ps \<Longrightarrow> p \<noteq> i \<Longrightarrow>
   map_of (sf_peerConnections u) p \<noteq> None \<Longrightarrow> map_of (sf_publishers u) p = Some ss \<Longrightarrow>
   \<exists>ss'. map_of (sf_publishers u') p = Some ss' \<and> map_of ss' i \<noteq> None"
proof (induction ps arbitrary: u s s' ls ss)
  case (Cons q ps)
  show ?case
  proof (cases "map_of (sf_publishers u) q = None \<or> map_of (sf_peerConnections u) q = None \<or> q = i")
    case True
    then have "subscribe_to P M i r ps u s = (Inr ls, u', s')" "p \<in> set ps"
      using Cons.prems by (auto split: option.splits)
    then show ?thesis using Cons by blast
  next
    case False
    then obtain subs pub where sp: "map_of (sf_publishers u) q = Some subs"
      "map_of (sf_peerConnections u) q = Some pub" "q \<noteq> i" by auto
    let ?subs = "if map_of subs i = None then AList.update i r subs else subs"
    let ?u = "u\<lparr>sf_publishers := AList.update q ?subs (sf_publishers u)\<rparr>"
    obtain ls1 s1 ls2 where rest: "subscribe_to P M i r ps ?u s1 = (Inr ls2, u', s')"
      using Cons.prems(1) sp by (auto simp: Let_def split: sum.splits prod.splits)
    show ?thesis
    proof (cases "p = q")
      case True
      have "map_of ?subs i \<noteq> None" by (simp add: AList.update_conv')
      then show ?thesis using fed_keeps [OF subscribe_to_fed [OF rest], of p ?subs] True
        by (simp add: AList.update_conv')
    next
      case False
      then show ?thesis using Cons.IH [OF rest _ Cons.prems(3), of ss] Cons.prems by (simp add: AList.update_conv')
    qed
  qed
qed simp

section \<open>Operations of a room\<close>

lemma Create_ok [simp]: "sfu_ok (Create k)"
  by (simp add: sfu_ok_def Create_def)

lemma sfu_ok_member:
  "sfu_ok u \<Longrightarrow> map_of (sf_peerConnections u) i = None \<Longrightarrow>
   sfu_ok (u\<lparr>sf_peerConnections := AList.update i r (sf_peerConnections u)\<rparr>)"
  by (auto simp: sfu_ok_def AList.distinct_update AList.update_conv' map_le_iff)

lemma sfu_ok_subscriber:
  assumes "sfu_ok u" "map_of (sf_peerConnections u) i = Some r" "map_of (sf_subscribers u) i = None"
  shows "sfu_ok (u\<lparr>sf_subscribers := AList.update i r (sf_subscribers u)\<rparr>)"
  using assms by (auto simp: sfu_ok_def AList.distinct_update AList.update_conv' map_le_iff)

lemma map_of_not_key: "map_of (filter (\<lambda>(j, _). j \<noteq> i) xs) = (map_of xs)(i := None)"
  by (induction xs) (auto simp: fun_eq_iff)

lemma publish_ok: "sfu_ok u \<Longrightarrow> publish i u = (x, u') \<Longrightarrow> sfu_ok u'"
  by (auto simp: publish_def sfu_ok_def AList.distinct_update AList.update_conv' map_of_not_key distinct_map_filter
      map_le_iff split: if_splits)

lemma map_of_map_values: "map_of (map (\<lambda>(p, x). (p, f x)) xs) = map_option f \<circ> map_of xs"
  by (induction xs) (auto simp: fun_eq_iff)

lemma leave_publishers:
  "map_of (AList.delete i (map (\<lambda>(p, subs). (p, AList.delete i subs)) xs)) p =
     (if p = i then None else map_option (AList.delete i) (map_of xs p))"
  by (simp add: AList.delete_conv' map_of_map_values)

lemma keys_map_values: "map fst (map (\<lambda>(p, x). (p, f x)) xs) = map fst xs"
  by (simp add: case_prod_beta comp_def)

lemma leave_ok:
  assumes ok: "sfu_ok u" and l: "leave i u = (x, u')" shows "sfu_ok u'"
proof (cases "map_of (sf_peerConnections u) i")
  case (Some r)
  have "\<forall>p ss. map_of (AList.delete i (map (\<lambda>(p, subs). (p, AList.delete i subs)) (sf_publishers u))) p = Some ss
    \<longrightarrow> distinct (map fst ss) \<and> ((map_of (sf_peerConnections u))(i := None)) p \<noteq> None \<and> map_of ss p = None \<and>
      map_of ss \<subseteq>\<^sub>m (map_of (sf_subscribers u))(i := None)"
    using ok unfolding leave_publishers
    by (auto simp: sfu_ok_def AList.distinct_delete AList.delete_conv' map_le_iff split: if_splits)
  moreover have del: "map_of (AList.delete i xs) = (map_of xs)(i := None)" for xs :: "(string \<times> nat) list"
    by (simp add: fun_eq_iff AList.delete_conv')
  moreover have "u' = u\<lparr>sf_publishers := AList.delete i (map (\<lambda>(p, subs). (p, AList.delete i subs)) (sf_publishers u)),
      sf_subscribers := AList.delete i (sf_subscribers u), sf_peerConnections := AList.delete i (sf_peerConnections u)\<rparr>"
    using l Some by (simp add: leave_def)
  moreover have "(map_of (sf_subscribers u))(i := None) \<subseteq>\<^sub>m (map_of (sf_peerConnections u))(i := None)"
    using ok by (auto simp: sfu_ok_def map_le_iff)
  moreover have "distinct (map fst (AList.delete i (map (\<lambda>(p, subs). (p, AList.delete i subs)) (sf_publishers u))))"
    using ok by (intro AList.distinct_delete) (simp only: keys_map_values sfu_ok_def)
  ultimately show ?thesis using ok by (simp add: sfu_ok_def AList.distinct_delete del)
qed (use assms in \<open>simp add: leave_def\<close>)

lemma subscribe_cases:
  assumes "subscribe P M r u s = (x, u', s')"
  obtains
    "map_of (sf_peerConnections u) (bp_id (base s r)) = None" "x = Inr ()" "u' = u" "s' = s"
  | "map_of (sf_subscribers u) (bp_id (base s r)) \<noteq> None" "x = Inl (Err ''Exist'')" "u' = u" "s' = s"
  | ps s1 y s2 where
    "map_of (sf_peerConnections u) (bp_id (base s r)) \<noteq> None" "map_of (sf_subscribers u) (bp_id (base s r)) = None"
    "on_pion (pn_RangeKeys P (map fst (sf_publishers u))) s = (ps, s1)"
    "subscribe_to P M (bp_id (base s r)) r ps
       (u\<lparr>sf_subscribers := AList.update (bp_id (base s r)) r (sf_subscribers u)\<rparr>) s1 = (y, u', s2)"
    "case y of Inl e \<Rightarrow> x = Inl e \<and> s' = s2 | Inr ts \<Rightarrow> add_tracks P M r ts s2 = (x, s')"
proof -
  let ?i = "bp_id (base s r)" and ?u = "u\<lparr>sf_subscribers := AList.update (bp_id (base s r)) r (sf_subscribers u)\<rparr>"
  obtain ps s1 where o: "on_pion (pn_RangeKeys P (map fst (sf_publishers u))) s = (ps, s1)" by fastforce
  obtain y u2 s2 where t: "subscribe_to P M ?i r ps ?u s1 = (y, u2, s2)" by (metis surj_pair)
  consider (outside) "map_of (sf_peerConnections u) ?i = None"
    | (again) "map_of (sf_peerConnections u) ?i \<noteq> None" "map_of (sf_subscribers u) ?i \<noteq> None"
    | (fresh) "map_of (sf_peerConnections u) ?i \<noteq> None" "map_of (sf_subscribers u) ?i = None" by blast
  then show thesis
  proof cases
    case outside
    then have "subscribe P M r u s = (Inr (), u, s)" by (simp add: subscribe_def Let_def)
    with assms outside show thesis by (intro that(1)) simp_all
  next
    case again
    then have "subscribe P M r u s = (Inl (Err ''Exist''), u, s)" by (simp add: subscribe_def Let_def)
    with assms again show thesis by (intro that(2)) simp_all
  next
    case fresh
    have eq: "subscribe P M r u s = (case (y, u2, s2) of
        (Inl e, u2, s2) \<Rightarrow> (Inl e, u2, s2)
      | (Inr ts, u2, s2) \<Rightarrow> (case add_tracks P M r ts s2 of (x, s3) \<Rightarrow> (x, u2, s3)))"
      unfolding subscribe_def Let_def o prod.case t using fresh by auto
    show thesis
    proof (cases y)
      case (Inl e)
      then show thesis using that(3) [OF fresh o] t assms eq by simp
    next
      case (Inr ts)
      obtain x3 s3 where "add_tracks P M r ts s2 = (x3, s3)" by fastforce
      then show thesis using that(3) [OF fresh o] t assms eq Inr by simp
    qed
  qed
qed

lemma subscribe_fed:
  assumes "subscribe P M r u s = (x, u', s')"
  shows "u' = u \<or> map_of (sf_peerConnections u) (bp_id (base s r)) \<noteq> None \<and>
    map_of (sf_subscribers u) (bp_id (base s r)) = None \<and>
    fed (bp_id (base s r)) r (u\<lparr>sf_subscribers := AList.update (bp_id (base s r)) r (sf_subscribers u)\<rparr>) u'"
  using assms by (rule subscribe_cases) (auto dest: subscribe_to_fed)

lemma subscribe_ok:
  assumes ok: "sfu_ok u" and i: "map_of (sf_peerConnections u) (bp_id (base s r)) = Some r"
    and s: "subscribe P M r u s = (x, u', s')"
  shows "sfu_ok u'"
proof (cases "u' = u")
  case False
  let ?u = "u\<lparr>sf_subscribers := AList.update (bp_id (base s r)) r (sf_subscribers u)\<rparr>"
  have f: "map_of (sf_subscribers u) (bp_id (base s r)) = None" "fed (bp_id (base s r)) r ?u u'"
    using subscribe_fed [OF s] False by simp_all
  have "sfu_ok ?u" using ok i f(1) by (rule sfu_ok_subscriber)
  then show ?thesis by (rule fed_ok [OF _ _ f(2)]) (simp add: AList.update_conv')
qed (simp add: ok)

lemma publish_members:
  "publish i u = (x, u') \<Longrightarrow> sf_peerConnections u' = sf_peerConnections u \<and> sf_subscribers u' = sf_subscribers u \<and>
     sf_id u' = sf_id u"
  by (auto simp: publish_def split: if_splits)

lemma subscribe_members:
  "subscribe P M r u s = (x, u', s') \<Longrightarrow> sf_peerConnections u' = sf_peerConnections u \<and> sf_id u' = sf_id u"
  by (drule subscribe_fed) (auto simp: fed_def)

lemma sfu_join_ok:
  assumes ok: "sfu_ok u" and j: "sfu_join P M r u s = (x, u', s')"
  shows "sfu_ok u' \<and> sf_id u' = sf_id u \<and> sf_peerConnections u' \<noteq> []"
proof -
  let ?i = "bp_id (base s r)"
  let ?u = "u\<lparr>sf_peerConnections := AList.update ?i r (sf_peerConnections u)\<rparr>"
  show ?thesis
  proof (cases "map_of (sf_peerConnections u) ?i = None")
    case True
    then have 1: "sfu_ok ?u" using ok by (rule sfu_ok_member [rotated])
    have member: "map_of (sf_peerConnections ?u) ?i = Some r" "sf_peerConnections ?u \<noteq> []"
      by (simp_all add: AList.update_conv')
    show ?thesis
    proof (cases "ap_Room (conn s r)")
      case None
      then show ?thesis using j True 1 member by (auto simp: sfu_join_def Let_def)
    next
      case (Some room)
      define pub where "pub = (if mr_Identity room = RouterIdentity_Publisher \<or> mr_Identity room = RouterIdentity_PubSub
        then publish ?i ?u else (Inr (), ?u))"
      obtain y u2 where p: "pub = (y, u2)" by fastforce
      have 2: "sfu_ok u2" using 1 p publish_ok [of ?u ?i] by (auto simp: pub_def split: if_splits)
      have m2: "sf_peerConnections u2 = sf_peerConnections ?u" "sf_id u2 = sf_id u"
        using p publish_members [of ?i ?u] by (auto simp: pub_def split: if_splits)
      have "(u' = u2) \<or> subscribe P M r u2 s = (x, u', s')"
        using j True Some p by (cases y) (auto simp: sfu_join_def Let_def pub_def split: if_splits)
      then show ?thesis
        using 2 m2 member subscribe_ok [OF 2, of s r P M x u' s'] subscribe_members [of P M r u2 s x u' s'] by auto
    qed
  next
    case False
    then show ?thesis using ok j by (auto simp: sfu_join_def Let_def)
  qed
qed

section \<open>The abstract room\<close>

record forum =
  fo_members :: "string \<Rightarrow> nat option"
  fo_publishers :: "string set"
  fo_subscribers :: "string \<Rightarrow> nat option"

text \<open>Whom a publisher reaches.\<close>

definition audience :: "forum \<Rightarrow> string \<Rightarrow> string \<Rightarrow> nat option" where
  "audience f p = (fo_subscribers f)(p := None)"

definition publishes :: "string \<Rightarrow> bool" where
  "publishes identity \<longleftrightarrow> identity = RouterIdentity_Publisher \<or> identity = RouterIdentity_PubSub"

definition subscribes :: "string \<Rightarrow> bool" where
  "subscribes identity \<longleftrightarrow> identity = RouterIdentity_Subscriber \<or> identity = RouterIdentity_PubSub"

definition enter :: "string \<Rightarrow> nat \<Rightarrow> string \<Rightarrow> forum \<Rightarrow> forum" where
  "enter i r identity f =
     (let f1 = f\<lparr>fo_members := (fo_members f)(i \<mapsto> r)\<rparr>;
          f2 = (if publishes identity then f1\<lparr>fo_publishers := insert i (fo_publishers f)\<rparr> else f1) in
      if subscribes identity then f2\<lparr>fo_subscribers := (fo_subscribers f)(i \<mapsto> r)\<rparr> else f2)"

definition exit :: "string \<Rightarrow> forum \<Rightarrow> forum" where
  "exit i f = \<lparr>fo_members = (fo_members f)(i := None), fo_publishers = fo_publishers f - {i},
     fo_subscribers = (fo_subscribers f)(i := None)\<rparr>"

definition shows_forum :: "sfu \<Rightarrow> forum \<Rightarrow> bool" where
  "shows_forum u f \<longleftrightarrow> sfu_ok u \<and> map_of (sf_peerConnections u) = fo_members f \<and>
     map_of (sf_subscribers u) = fo_subscribers f \<and>
     (\<forall>p. map_option map_of (map_of (sf_publishers u) p) =
        (if p \<in> fo_publishers f then Some (audience f p) else None))"

lemma shows_ok: "shows_forum u f \<Longrightarrow> sfu_ok u"
  unfolding shows_forum_def by blast

lemma shows_publisher: "shows_forum u f \<Longrightarrow> map_of (sf_publishers u) p = Some ss \<Longrightarrow>
   p \<in> fo_publishers f \<and> map_of ss = audience f p"
  unfolding shows_forum_def by (metis option.distinct(1) option.inject option.simps(9))

lemma shows_member:
  assumes "shows_forum u f" "map_of (sf_peerConnections u) i = None"
  shows "shows_forum (u\<lparr>sf_peerConnections := AList.update i r (sf_peerConnections u)\<rparr>)
    (f\<lparr>fo_members := (fo_members f)(i \<mapsto> r)\<rparr>)"
  using assms sfu_ok_member [of u i r] by (simp add: shows_forum_def audience_def AList.update_conv')

lemma shows_publish:
  assumes u: "shows_forum u f" and x: "publish i u = (Inr (), u')"
  shows "shows_forum u' (f\<lparr>fo_publishers := insert i (fo_publishers f)\<rparr>)"
proof -
  have u': "u' = u\<lparr>sf_publishers := AList.update i (filter (\<lambda>(j, _). j \<noteq> i) (sf_subscribers u)) (sf_publishers u)\<rparr>"
    using x by (simp add: publish_def split: if_splits)
  have "sfu_ok u'" using shows_ok [OF u] x by (rule publish_ok)
  then show ?thesis using u
    by (simp add: shows_forum_def u' AList.update_conv' map_of_not_key audience_def
        del: map_option_eq_Some map_option_is_None option.map_disc_iff)
qed

lemma shows_subscribe:
  assumes u: "shows_forum u f" and x: "subscribe P M r u s = (Inr (), u', s')"
    and member: "map_of (sf_peerConnections u) (bp_id (base s r)) = Some r"
    and range: "\<And>ks w. set (fst (pn_RangeKeys P ks w)) = set ks"
  shows "shows_forum u' (f\<lparr>fo_subscribers := (fo_subscribers f)(bp_id (base s r) \<mapsto> r)\<rparr>)"
  using x
proof (rule subscribe_cases)
  let ?i = "bp_id (base s r)"
  let ?u = "u\<lparr>sf_subscribers := AList.update ?i r (sf_subscribers u)\<rparr>"
  fix ps s1 y s2
  assume new: "map_of (sf_subscribers u) ?i = None"
    and o: "on_pion (pn_RangeKeys P (map fst (sf_publishers u))) s = (ps, s1)"
    and t: "subscribe_to P M ?i r ps ?u s1 = (y, u', s2)"
    and y: "case y of Inl e \<Rightarrow> Inr () = Inl e \<and> s' = s2 | Inr ts \<Rightarrow> add_tracks P M r ts s2 = (Inr (), s')"
  have ps: "set ps = fst ` set (sf_publishers u)"
    using o range [of "map fst (sf_publishers u)" "rt_world s"] by (auto simp: on_pion_def split: prod.splits)
  have f: "fed ?i r ?u u'" using t by (rule subscribe_to_fed)
  obtain ts where ts: "y = Inr ts" using y by (auto split: sum.splits)
  have ok: "sfu_ok u'" using subscribe_ok [OF _ member x] u by (simp add: shows_forum_def)
  have reach: "map_of ss' = audience (f\<lparr>fo_subscribers := (fo_subscribers f)(?i \<mapsto> r)\<rparr>) p"
    if p: "map_of (sf_publishers u') p = Some ss'" for p ss'
  proof -
    obtain ss where ss: "map_of (sf_publishers u) p = Some ss" "gains ?i r p ss ss'"
      using fed_entry [OF f p] by auto
    have "sfu_ok u" using u by (simp add: shows_forum_def)
    then have "map_of (sf_peerConnections u) p \<noteq> None" using ss(1) unfolding sfu_ok_def by blast
    moreover have "p \<in> set ps" unfolding ps using map_of_SomeD [OF ss(1)] by (simp add: image_iff rev_bexI)
    ultimately have "map_of ss' ?i \<noteq> None" if "p \<noteq> ?i"
      using subscribe_to_all [OF t [unfolded ts], of p ss] that ss(1) p by auto
    moreover have "map_of ss = audience f p" using shows_publisher [OF u ss(1)] by simp
    moreover have "fo_subscribers f ?i = None" using u new by (simp add: shows_forum_def)
    ultimately show ?thesis using ss(2) by (cases "p = ?i") (auto simp: gains_def audience_def fun_eq_iff)
  qed
  have pubs: "map_of (sf_publishers u') p = None \<longleftrightarrow> p \<notin> fo_publishers f" for p
  proof -
    have "rel_option (gains ?i r p) (map_of (sf_publishers u) p) (map_of (sf_publishers u') p)"
      using f by (simp add: fed_def)
    then have "map_of (sf_publishers u') p = None \<longleftrightarrow> map_of (sf_publishers u) p = None"
      by (auto simp: option.rel_sel)
    moreover have "map_option map_of (map_of (sf_publishers u) p) =
        (if p \<in> fo_publishers f then Some (audience f p) else None)" using u by (simp add: shows_forum_def)
    ultimately show ?thesis by (auto split: if_splits)
  qed
  have "map_option map_of (map_of (sf_publishers u') p) = (if p \<in> fo_publishers f
      then Some (audience (f\<lparr>fo_subscribers := (fo_subscribers f)(?i \<mapsto> r)\<rparr>) p) else None)" for p
    using reach [of p] pubs [of p] by (cases "map_of (sf_publishers u') p") simp_all
  then show ?thesis using u ok f by (simp add: shows_forum_def fed_def AList.update_conv')
qed (use member u in \<open>auto simp: shows_forum_def\<close>)

lemma join_shows:
  assumes u: "shows_forum u f" and j: "sfu_join P M r u s = (Inr (), u', s')"
    and room: "ap_Room (conn s r) = Some room" and range: "\<And>ks w. set (fst (pn_RangeKeys P ks w)) = set ks"
  shows "fo_members f (bp_id (base s r)) = None \<and> shows_forum u' (enter (bp_id (base s r)) r (mr_Identity room) f)"
proof -
  let ?i = "bp_id (base s r)"
  let ?u = "u\<lparr>sf_peerConnections := AList.update ?i r (sf_peerConnections u)\<rparr>"
  let ?f = "f\<lparr>fo_members := (fo_members f)(?i \<mapsto> r)\<rparr>"
  have new: "map_of (sf_peerConnections u) ?i = None" using j by (auto simp: sfu_join_def Let_def split: if_splits)
  have 1: "shows_forum ?u ?f" using u new by (rule shows_member)
  define pub where "pub = (if publishes (mr_Identity room) then publish ?i ?u else (Inr (), ?u))"
  obtain y u2 where p: "pub = (y, u2)" by fastforce
  have "sfu_join P M r u s = (case pub of (Inl e, u2) \<Rightarrow> (Inl e, u2, s)
      | (Inr _, u2) \<Rightarrow> if subscribes (mr_Identity room) then subscribe P M r u2 s else (Inr (), u2, s))"
    unfolding sfu_join_def Let_def pub_def publishes_def subscribes_def using new room by simp
  then have rest: "(case (y, u2) of (Inl e, u2) \<Rightarrow> (Inl e, u2, s)
      | (Inr _, u2) \<Rightarrow> if subscribes (mr_Identity room) then subscribe P M r u2 s else (Inr (), u2, s)) = (Inr (), u', s')"
    using j by (simp add: p)
  then have y: "y = Inr ()" by (cases y) simp_all
  have 2: "shows_forum u2 (if publishes (mr_Identity room) then ?f\<lparr>fo_publishers := insert ?i (fo_publishers f)\<rparr> else ?f)"
    using p 1 shows_publish [OF 1] by (auto simp: y pub_def split: if_splits)
  have "map_of (sf_peerConnections u2) ?i = Some r" using 2 by (simp add: shows_forum_def)
  then have "shows_forum u' (enter ?i r (mr_Identity room) f)"
    using rest 2 shows_subscribe [OF 2 _ _ range, of M r s u' s'] by (auto simp: y enter_def Let_def split: if_splits)
  then show ?thesis using new u by (simp add: shows_forum_def)
qed

lemma leave_shows:
  assumes u: "shows_forum u f" and l: "leave i u = (Inr (), u')" shows "shows_forum u' (exit i f)"
proof -
  have "sfu_ok u'" using shows_ok [OF u] l by (rule leave_ok)
  moreover have "map_of (AList.delete i xs) = (map_of xs)(i := None)" for xs :: "(string \<times> nat) list"
    by (simp add: fun_eq_iff AList.delete_conv')
  moreover have "u' = u\<lparr>sf_publishers := AList.delete i (map (\<lambda>(p, subs). (p, AList.delete i subs)) (sf_publishers u)),
      sf_subscribers := AList.delete i (sf_subscribers u), sf_peerConnections := AList.delete i (sf_peerConnections u)\<rparr>"
    using l by (simp add: leave_def split: if_splits)
  moreover have "map_option map_of (map_option (AList.delete i) x) = map_option (\<lambda>m. m(i := None)) (map_option map_of x)"
    for x :: "(string \<times> nat) list option"
    by (cases x) (simp_all add: fun_eq_iff AList.delete_conv')
  ultimately show ?thesis using u
    by (simp add: shows_forum_def exit_def audience_def leave_publishers fun_upd_twist
        del: map_option_eq_Some map_option_is_None option.map_disc_iff)
qed

lemma shows_outside:
  assumes u: "shows_forum u f" and i: "fo_members f i = None"
  shows "fo_subscribers f i = None \<and> i \<notin> fo_publishers f"
proof -
  have peers: "map_of (sf_peerConnections u) i = None" using u i by (simp add: shows_forum_def)
  have ok: "sfu_ok u" by (rule shows_ok [OF u])
  have "map_of (sf_subscribers u) i = None" using ok peers
    by (cases "map_of (sf_subscribers u) i") (auto simp: sfu_ok_def map_le_iff)
  moreover have "map_of (sf_publishers u) i = None" using ok peers unfolding sfu_ok_def by (metis option.exhaust)
  ultimately show ?thesis using u unfolding shows_forum_def by (metis option.distinct(1) option.simps(8))
qed

text \<open>
  C9: A connection that joins a room without an error makes the concrete room implement the abstract one
  with the new member: a publisher is added and reaches all other subscribers, a subscriber is added to the
  audience of all other publishers. It was no member before.
\<close>

theorem join_refines:
  assumes "shows_forum u f" "sfu_join P M r u s = (Inr (), u', s')" "ap_Room (conn s r) = Some room"
    and "\<And>ks w. set (fst (pn_RangeKeys P ks w)) = set ks"
  shows "fo_members f (bp_id (base s r)) = None \<and> shows_forum u' (enter (bp_id (base s r)) r (mr_Identity room) f)"
  using assms by (rule join_shows)

text \<open>
  C19: Leaving undoes joining: after a join without an error the member can leave, and the room then
  implements the same abstract room as before, so that its publishers, their audiences and the subscribers
  are the former ones.
\<close>

theorem leave_after_join:
  assumes u: "shows_forum u f" and j: "sfu_join P M r u s = (Inr (), u1, s1)" and room: "ap_Room (conn s r) = Some room"
    and range: "\<And>ks w. set (fst (pn_RangeKeys P ks w)) = set ks"
  shows "\<exists>u2. leave (bp_id (base s r)) u1 = (Inr (), u2) \<and> shows_forum u2 f"
proof -
  let ?i = "bp_id (base s r)"
  note e = join_shows [OF assms]
  have "map_of (sf_peerConnections u1) ?i = Some r"
    using e by (simp add: shows_forum_def enter_def Let_def split: if_splits)
  then obtain u2 where l: "leave ?i u1 = (Inr (), u2)" by (simp add: leave_def)
  have "shows_forum u2 (exit ?i (enter ?i r (mr_Identity room) f))" using leave_shows [OF _ l] e by blast
  moreover have "exit ?i (enter ?i r (mr_Identity room) f) = f"
    using shows_outside [OF u conjunct1 [OF e]] conjunct1 [OF e]
    by (cases f) (simp add: exit_def enter_def Let_def fun_upd_idem)
  ultimately show ?thesis using l by auto
qed

section \<open>The pool of the rooms\<close>

definition rooms_ok :: "(string \<times> sfu) list \<Rightarrow> bool" where
  "rooms_ok us \<longleftrightarrow> distinct (map fst us) \<and>
     (\<forall>(k, u) \<in> set us. k \<noteq> [] \<and> sf_id u = k \<and> sfu_ok u \<and> sf_peerConnections u \<noteq> [])"

lemma rooms_ok_update:
  "rooms_ok us \<Longrightarrow> k \<noteq> [] \<Longrightarrow> sf_id u = k \<Longrightarrow> sfu_ok u \<Longrightarrow> sf_peerConnections u \<noteq> [] \<Longrightarrow>
   rooms_ok (AList.update k u us)"
  unfolding rooms_ok_def using set_update [of us k u] by (fastforce simp: AList.distinct_update)

lemma rooms_ok_delete: "rooms_ok us \<Longrightarrow> rooms_ok (AList.delete k us)"
  unfolding rooms_ok_def using set_delete [of k us] by (fastforce simp: AList.distinct_delete)

lemma rooms_ok_get: "rooms_ok us \<Longrightarrow> map_of us k = Some u \<Longrightarrow>
   k \<noteq> [] \<and> sf_id u = k \<and> sfu_ok u \<and> sf_peerConnections u \<noteq> []"
  by (auto simp: rooms_ok_def dest: map_of_SomeD)

lemma Join_rooms_ok: "rooms_ok (sn_sfus n) \<Longrightarrow> rooms_ok (sn_sfus (snd (sfu_Join P M r n)))"
proof (cases "ap_Room (conn (sn_rtc n) r)")
  case (Some room)
  assume ok: "rooms_ok (sn_sfus n)"
  let ?k = "mr_RoomId room"
  define u where "u = (case map_of (sn_sfus n) ?k of None \<Rightarrow> Create ?k | Some u \<Rightarrow> u)"
  obtain x u1 s1 where j: "sfu_join P M r u (sn_rtc n) = (x, u1, s1)" by (metis surj_pair)
  have u: "sfu_ok u" "sf_id u = ?k"
    using rooms_ok_get [OF ok, of ?k] by (auto simp: u_def Create_def [THEN arg_cong, of sf_id] split: option.splits)
  show ?thesis using ok Some rooms_ok_update [OF ok, of ?k u1] sfu_join_ok [OF u(1) j] u(2)
    by (simp add: sfu_Join_def Let_def u_def [symmetric] j)
qed (simp add: sfu_Join_def)

lemma Leave_rooms_ok: "rooms_ok (sn_sfus n) \<Longrightarrow> rooms_ok (sn_sfus (snd (sfu_Leave r n)))"
proof (cases "ap_Room (conn (sn_rtc n) r)")
  case (Some room)
  assume ok: "rooms_ok (sn_sfus n)"
  show ?thesis
  proof (cases "map_of (sn_sfus n) (mr_RoomId room)")
    case None
    then show ?thesis using ok Some by (simp add: sfu_Leave_def)
  next
    case u: (Some u)
    obtain x u1 where l: "leave (bp_id (base (sn_rtc n) r)) u = (x, u1)" by fastforce
    note g = rooms_ok_get [OF ok u]
    have "sf_id u1 = sf_id u" "x \<noteq> Inr () \<Longrightarrow> u1 = u" using l by (auto simp: leave_def split: if_splits)
    then show ?thesis using ok g u Some l leave_ok [OF _ l] rooms_ok_update [OF ok, of "mr_RoomId room" u1]
      by (cases x) (auto simp: sfu_Leave_def intro: rooms_ok_delete)
  qed
qed (simp add: sfu_Leave_def)

lemma tame_CreateTrack [tames]: "tame s t \<Longrightarrow> tame s (snd (CreateTrack P M codec trackId streamId t))"
  unfolding CreateTrack_def by (intro tames)

lemma tame_create_tracks [tames]: "tame s t \<Longrightarrow> tame s (snd (create_tracks P M ts t))"
proof (induction ts arbitrary: t)
  case (Cons a ts)
  show ?case unfolding create_tracks.simps using Cons by (intro tames) blast
qed simp

lemma tame_add_tracks [tames]: "tame s t \<Longrightarrow> tame s (snd (add_tracks P M r ts t))"
  unfolding add_tracks_def by (intro tames)

lemma tame_subscribe_to: "subscribe_to P M i r ps u s = (x, u', s') \<Longrightarrow> tame s s'"
proof (induction ps arbitrary: u s x u' s')
  case (Cons p ps)
  show ?case
  proof (cases "map_of (sf_publishers u) p = None \<or> map_of (sf_peerConnections u) p = None \<or> p = i")
    case True
    then have "subscribe_to P M i r ps u s = (x, u', s')"
      using Cons.prems by (auto split: option.splits)
    then show ?thesis by (rule Cons.IH)
  next
    case False
    then obtain subs pub where sp: "map_of (sf_publishers u) p = Some subs"
      "map_of (sf_peerConnections u) p = Some pub" "p \<noteq> i" by auto
    have tracks: "tame s (snd (create_tracks P M ts s))" for ts by (rule tame_create_tracks [OF tame_refl])
    show ?thesis
    proof (cases "GetTrackRemotes M pub [] s")
      case (Inl e)
      then show ?thesis using Cons.prems sp by (simp add: Let_def)
    next
      case (Inr remotes)
      obtain y s1 where c: "create_tracks P M (case remotes of None \<Rightarrow> [] | Some ts \<Rightarrow> ts) s = (y, s1)" by fastforce
      have "tame s s1" using tracks [of "case remotes of None \<Rightarrow> [] | Some ts \<Rightarrow> ts"] by (simp add: c)
      moreover have "s' = s1 \<or> tame s1 s'"
        using Cons.prems sp Inr c Cons.IH by (cases y) (auto simp: Let_def split: sum.splits prod.splits)
      ultimately show ?thesis by (auto intro: tame_trans)
    qed
  qed
qed simp

lemma tame_subscribe:
  assumes "subscribe P M r u s = (x, u', s')" shows "tame s s'"
  using assms
proof (rule subscribe_cases)
  fix ps s1 y s2
  assume o: "on_pion (pn_RangeKeys P (map fst (sf_publishers u))) s = (ps, s1)"
    and t: "subscribe_to P M (bp_id (base s r)) r ps
      (u\<lparr>sf_subscribers := AList.update (bp_id (base s r)) r (sf_subscribers u)\<rparr>) s1 = (y, u', s2)"
    and y: "case y of Inl e \<Rightarrow> x = Inl e \<and> s' = s2 | Inr ts \<Rightarrow> add_tracks P M r ts s2 = (x, s')"
  have "tame s s1" using tame_on_pion [OF tame_refl, of s "pn_RangeKeys P (map fst (sf_publishers u))"] by (simp add: o)
  then have "tame s s2" using tame_subscribe_to [OF t] by (rule tame_trans)
  then show "tame s s'"
  proof (cases y)
    case (Inr ts)
    have "tame s (snd (add_tracks P M r ts s2))" using \<open>tame s s2\<close> by (rule tame_add_tracks)
    with Inr y show ?thesis by simp
  qed (use y in simp)
qed simp_all

lemma tame_sfu_join: "sfu_join P M r u s = (x, u', s') \<Longrightarrow> tame s s'"
  by (auto simp: sfu_join_def Let_def split: option.splits if_splits prod.splits sum.splits dest: tame_subscribe)

lemma tame_sfu_Join: "tame (sn_rtc n) (sn_rtc (snd (sfu_Join P M r n)))"
proof (cases "ap_Room (conn (sn_rtc n) r)")
  case (Some room)
  let ?u = "case map_of (sn_sfus n) (mr_RoomId room) of None \<Rightarrow> Create (mr_RoomId room) | Some u \<Rightarrow> u"
  obtain x u1 s1 where "sfu_join P M r ?u (sn_rtc n) = (x, u1, s1)" by (metis surj_pair)
  then show ?thesis using Some tame_sfu_join by (simp add: sfu_Join_def Let_def) blast
qed (simp add: sfu_Join_def)

text \<open>The steps of a node: its rooms and its connections.\<close>

inductive sfu_step :: "'w pion \<Rightarrow> 'w media \<Rightarrow> 'w sfu_node \<Rightarrow> 'w sfu_node \<Rightarrow> bool" for P M where
  join: "sfu_step P M n (snd (sfu_Join P M r n))"
| leave: "sfu_step P M n (snd (sfu_Leave r n))"
| destroy: "sfu_step P M n (snd (sfu_Destroy k n))"
| connection: "pool_step P (sn_rtc n) s \<Longrightarrow> sfu_step P M n (n\<lparr>sn_rtc := s\<rparr>)"

inductive sfu_reach :: "'w pion \<Rightarrow> 'w media \<Rightarrow> 'w sfu_node \<Rightarrow> bool" for P M where
  start: "sfu_reach P M \<lparr>sn_rtc = \<lparr>rt_world = w, rt_conns = [], rt_pool = []\<rparr>, sn_sfus = [], sn_onTrack = []\<rparr>"
| step: "sfu_reach P M n \<Longrightarrow> sfu_step P M n n' \<Longrightarrow> sfu_reach P M n'"

lemma Leave_rtc [simp]: "sn_rtc (snd (sfu_Leave r n)) = sn_rtc n"
  by (simp add: sfu_Leave_def split: option.split prod.split sum.split)

lemma Destroy_rtc [simp]: "sn_rtc (snd (sfu_Destroy k n)) = sn_rtc n"
  by (simp add: sfu_Destroy_def)

lemma sfu_step_ok:
  "sfu_step P M n n' \<Longrightarrow> sound (sn_rtc n) \<and> rooms_ok (sn_sfus n) \<Longrightarrow> sound (sn_rtc n') \<and> rooms_ok (sn_sfus n')"
proof (induction rule: sfu_step.induct)
  case (join n r)
  then show ?case using Join_rooms_ok tame_sound [OF tame_sfu_Join] by blast
next
  case (leave n r)
  then show ?case by (simp add: Leave_rooms_ok)
next
  case (destroy n k)
  then show ?case by (simp add: sfu_Destroy_def rooms_ok_delete)
next
  case (connection n s)
  then show ?case by (auto intro: pool_step_sound)
qed

lemma sfu_reach_ok: "sfu_reach P M n \<Longrightarrow> sound (sn_rtc n) \<and> rooms_ok (sn_sfus n)"
proof (induction rule: sfu_reach.induct)
  case (start w)
  show ?case by (simp add: sound_def no_tracks_def pool_ok_def peers_ok_def rooms_ok_def)
qed (rule sfu_step_ok)


section \<open>Tracks of a subscriber\<close>

text \<open>Only \<open>add_tracks\<close> calls \<open>AddTrack\<close>, and it fails as soon as there is a track.\<close>

abbreviation other_AddTrack :: "(nat \<Rightarrow> nat \<Rightarrow> 'w \<Rightarrow> nat res \<times> 'w) \<Rightarrow> 'w pion \<Rightarrow> 'w pion" where
  "other_AddTrack f P \<equiv> P\<lparr>pn_AddTrack := f\<rparr>"

lemma subscribe_to_other: "subscribe_to (other_AddTrack f P) M i r ps u s = subscribe_to P M i r ps u s"
proof -
  have c: "CreateTrack (other_AddTrack f P) = CreateTrack P" by (simp add: fun_eq_iff CreateTrack_def)
  have cs: "create_tracks (other_AddTrack f P) M ts s = create_tracks P M ts s" for ts s
    by (induction ts arbitrary: s) (simp_all add: c)
  show ?thesis
  proof (induction ps arbitrary: u s)
    case (Cons p ps)
    show ?case unfolding subscribe_to.simps cs Cons.IH by (rule refl)
  qed simp
qed

lemma add_tracks_none:
  assumes "no_tracks s" "r < length (rt_conns s)" "add_tracks P M r ts s = (Inr (), s')"
  shows "ts = [] \<and> s' = s"
proof (cases ts)
  case (Cons t ts')
  have "bp_localTracks (base s r) = None" using assms(1,2) by (simp add: no_tracks_def)
  then have "fst (rtc_AddTrack P r a b t s) \<noteq> Inr x" for a b x
    by (cases "on_pion (pn_AddTrack P (the (bp_peerConnection (base s r))) t) s")
      (auto simp: rtc_AddTrack_def on_pion_def and_then_def split: option.split prod.splits sum.splits)
  then have False using assms(3) Cons
    by (auto simp: add_tracks_def and_then_def split: prod.splits sum.splits) (metis fst_conv)
  then show ?thesis ..
qed (use assms in \<open>simp add: add_tracks_def\<close>)

lemma subscribe_other:
  assumes "no_tracks s" "r < length (rt_conns s)" "subscribe P M r u s = (Inr (), u', s')"
  shows "subscribe (other_AddTrack f P) M r u s = (Inr (), u', s')"
  using assms(3)
proof (rule subscribe_cases)
  let ?u = "u\<lparr>sf_subscribers := AList.update (bp_id (base s r)) r (sf_subscribers u)\<rparr>"
  fix ps s1 y s2
  assume new: "map_of (sf_peerConnections u) (bp_id (base s r)) \<noteq> None"
      "map_of (sf_subscribers u) (bp_id (base s r)) = None"
    and o: "on_pion (pn_RangeKeys P (map fst (sf_publishers u))) s = (ps, s1)"
    and t: "subscribe_to P M (bp_id (base s r)) r ps ?u s1 = (y, u', s2)"
    and y: "case y of Inl e \<Rightarrow> Inr () = Inl e \<and> s' = s2 | Inr ts \<Rightarrow> add_tracks P M r ts s2 = (Inr (), s')"
  obtain ts where ts: "y = Inr ts" "add_tracks P M r ts s2 = (Inr (), s')" using y by (cases y) auto
  have "tame s s1" using tame_on_pion [OF tame_refl, of s "pn_RangeKeys P (map fst (sf_publishers u))"] by (simp add: o)
  then have "tame s s2" using tame_subscribe_to [OF t] by (rule tame_trans)
  then have "no_tracks s2" "r < length (rt_conns s2)"
    using assms(1,2) by (auto simp: tame_def later_conns_def no_tracks_def)
  then have "ts = []" "s' = s2" using add_tracks_none ts(2) by blast+
  then show ?thesis using new o t ts
    by (auto simp: subscribe_def Let_def subscribe_to_other add_tracks_def)
qed (auto simp: subscribe_def Let_def)

text \<open>
  No subscriber ever gets a track of a publisher from joining: a join without an error has added no
  track to any connection, it goes the same way with any other \<open>AddTrack\<close> of the library. When a publisher
  has a remote track, the join of a subscriber fails or panics.
\<close>

theorem join_adds_no_track:
  assumes n: "sfu_reach P M n" "r < length (rt_conns (sn_rtc n))" and j: "sfu_Join P M r n = (Inr (), n')"
  shows "sfu_Join (P\<lparr>pn_AddTrack := f\<rparr>) M r n = (Inr (), n')"
proof -
  have nt: "no_tracks (sn_rtc n)" using sfu_reach_ok [OF n(1)] by (simp add: sound_def)
  have "sfu_join (other_AddTrack f P) M r u (sn_rtc n) = (Inr (), u', s')"
    if "sfu_join P M r u (sn_rtc n) = (Inr (), u', s')" for u u' s'
    using that subscribe_other [OF nt n(2)]
    by (auto simp: sfu_join_def Let_def split: option.splits if_splits prod.splits sum.splits)
  then show ?thesis using j
    by (auto simp: sfu_Join_def Let_def split: option.splits if_splits prod.splits)
qed

section \<open>Instances\<close>

text \<open>A library without media, and a node with one connection for a room.\<close>

definition silent :: "unit media" where
  "silent = \<lparr>md_GetSenders = (\<lambda>_ _. []), md_SenderTrack = (\<lambda>_ _. None), md_GetReceivers = (\<lambda>_ _. []),
     md_ReceiverTracks = (\<lambda>_ _. []), md_ReceiverTrack = (\<lambda>_ _. None), md_LocalID = (\<lambda>_. []),
     md_LocalStreamID = (\<lambda>_. []), md_LocalKind = (\<lambda>_. 0), md_RemoteID = (\<lambda>_. []), md_RemoteStreamID = (\<lambda>_. []),
     md_RemoteKind = (\<lambda>_. 0), md_RemoteCodec = (\<lambda>_. []), md_NewTrackLocalStaticRTP = (\<lambda>_ _ _ w. (Inr 0, w)),
     md_ReplaceTrack = (\<lambda>_ _ w. (None, w)), md_RemoveTrack = (\<lambda>_ _ w. (None, w)), md_Stop = (\<lambda>_ w. (None, w))\<rparr>"

definition hall :: meeting_room where
  "hall = \<lparr>mr_Id = [], mr_Typ = ''sfu'', mr_Action = [], mr_RoomId = ''hall'', mr_Identity = RouterIdentity_PubSub\<rparr>"

definition guest :: "unit rtc" where
  "guest = snd (createIfNotExist quiet ''p'' ''c'' [] [] [] (Some hall) nobody)"

definition lobby :: "unit sfu_node" where
  "lobby = \<lparr>sn_rtc = nobody, sn_sfus = [], sn_onTrack = []\<rparr>\<lparr>sn_rtc := guest\<rparr>"

lemma lobby_reach: "sfu_reach quiet silent lobby"
  unfolding lobby_def nobody_def guest_def
  by (rule sfu_reach.step [OF sfu_reach.start sfu_step.connection]) (simp add: pool_step.createIfNotExist)

lemma guest_state:
  "length (rt_conns guest) = 1" "bp_id (base guest 0) = ''u''" "ap_Room (conn guest 0) = Some hall"
  by (simp_all add: guest_def callee_eval)

lemma unit_rtc_world: "s\<lparr>rt_world := ()\<rparr> = s" for s :: "unit rtc"
  by (cases s) simp

lemma guest_joins:
  "sfu_join quiet silent 0 (Create ''hall'') guest = (Inr (),
     \<lparr>sf_id = ''hall'', sf_peerConnections = [(''u'', 0)], sf_publishers = [(''u'', [])],
       sf_subscribers = [(''u'', 0)]\<rparr>, guest)"
  by (simp add: sfu_join_def guest_state Create_def hall_def publish_def subscribe_def on_pion_def quiet_def add_tracks_def
      unit_rtc_world Let_def)

definition nobody_there :: forum where
  "nobody_there = \<lparr>fo_members = Map.empty, fo_publishers = {}, fo_subscribers = Map.empty\<rparr>"

lemma empty_room: "shows_forum (Create k) nobody_there"
  by (simp add: shows_forum_def nobody_there_def) (simp add: Create_def)

lemma quiet_range: "set (fst (pn_RangeKeys quiet ks w)) = set ks"
  by (simp add: quiet_def)

theorem join_refines_witness:
  "shows_forum \<lparr>sf_id = ''hall'', sf_peerConnections = [(''u'', 0)], sf_publishers = [(''u'', [])],
     sf_subscribers = [(''u'', 0)]\<rparr> (enter ''u'' 0 RouterIdentity_PubSub nobody_there)"
  using join_refines [OF empty_room guest_joins guest_state(3) quiet_range] by (simp add: guest_state hall_def)

theorem leave_after_join_witness:
  "\<exists>u. leave ''u'' \<lparr>sf_id = ''hall'', sf_peerConnections = [(''u'', 0)], sf_publishers = [(''u'', [])],
     sf_subscribers = [(''u'', 0)]\<rparr> = (Inr (), u) \<and> shows_forum u nobody_there"
  using leave_after_join [OF empty_room guest_joins guest_state(3) quiet_range] by (simp add: guest_state)

lemma lobby_Join:
  "sfu_Join quiet silent 0 lobby = (Inr (), lobby\<lparr>sn_sfus := [(''hall'',
     \<lparr>sf_id = ''hall'', sf_peerConnections = [(''u'', 0)], sf_publishers = [(''u'', [])],
       sf_subscribers = [(''u'', 0)]\<rparr>)], sn_onTrack := [(0, ''hall'')]\<rparr>)"
  using guest_joins by (simp add: sfu_Join_def lobby_def guest_state hall_def Let_def)


theorem join_adds_no_track_witness:
  "fst (sfu_Join (quiet\<lparr>pn_AddTrack := \<lambda>_ _ w. (Inl (Err ''e''), w)\<rparr>) silent 0 lobby) = Inr ()"
proof -
  have "0 < length (rt_conns (sn_rtc lobby))" by (simp add: lobby_def guest_state)
  from join_adds_no_track [OF lobby_reach this lobby_Join] show ?thesis by simp
qed

end
