(* ===== verification/MediaPackets.thy ===== *)
theory MediaPackets
  imports SfuRooms
begin

text \<open>
  The packets of the media: the loops of \<^verbatim>\<open>webrtc/mediastream.go\<close> and \<^verbatim>\<open>track.go\<close> that copy them, and the
  handler with which a room (\<^verbatim>\<open>webrtc/sfu.go\<close>) forwards the tracks of a member. A loop reads packets until an
  error and starts a goroutine for each copy: a step reads one packet, or runs one of the goroutines that
  have been started, in any order.
\<close>

section \<open>Reading and writing\<close>

text \<open>
  What the library does: which local tracks are \<open>TrackLocalStaticRTP\<close>, what a write returns, and which of
  its errors is \<open>io.ErrClosedPipe\<close>.
\<close>

record 'w packets =
  pk_Static :: "nat \<Rightarrow> bool"
  pk_Write :: "nat \<Rightarrow> string \<Rightarrow> 'w \<Rightarrow> go_error option \<times> 'w"
  pk_ClosedPipe :: "go_error \<Rightarrow> bool"
  pk_WriteRemb :: "nat \<Rightarrow> nat \<Rightarrow> 'w \<Rightarrow> go_error option \<times> 'w"
  pk_KeyFrame :: "nat \<Rightarrow> nat \<Rightarrow> 'w \<Rightarrow> go_error option \<times> 'w"

text \<open>
  \<open>Write\<close> and \<open>WriteRTP\<close>, for the bytes of a packet. The nil track of a sender is no \<open>TrackLocalStaticRTP\<close>,
  and its \<open>ID\<close> is asked for.
\<close>

definition WriteRTP :: "'w media \<Rightarrow> 'w packets \<Rightarrow> nat \<Rightarrow> string \<Rightarrow> 'w rtc \<Rightarrow> unit res \<times> 'w rtc" where
  "WriteRTP M K sender packet s =
     (case md_SenderTrack M sender (rt_world s) of
        None \<Rightarrow> (Inl NilDereference, s)
      | Some t \<Rightarrow>
          if pk_Static K t then
            (case on_pion (pk_Write K t packet) s of
               (None, s1) \<Rightarrow> (Inr (), s1)
             | (Some e, s1) \<Rightarrow> (if pk_ClosedPipe K e then Inr () else Inl e, s1))
          else (Inl (Err (''trackId:%v is not TrackLocalStaticRTP'' @ md_LocalID M t)), s))"

section \<open>Which senders get a packet\<close>

text \<open>What a loop does with a packet, as the senders for which it starts a goroutine: \<open>simulcast\<close> and \<open>echo\<close>.\<close>

definition simulcast_senders :: "'w media \<Rightarrow> nat \<Rightarrow> 'w rtc \<Rightarrow> nat list res" where
  "simulcast_senders M r s = GetSenders M r [] s"

definition echo_senders :: "nat \<Rightarrow> 'w rtc \<Rightarrow> nat list res" where
  "echo_senders sender s = Inr [sender]"

definition echo_start :: "'w pion \<Rightarrow> 'w media \<Rightarrow> nat \<Rightarrow> nat \<Rightarrow> 'w rtc \<Rightarrow> nat res \<times> 'w rtc" where
  "echo_start P M r track s =
     and_then (CreateTrack P M (md_RemoteCodec M track) (md_RemoteID M track) (md_RemoteStreamID M track) s)
       (\<lambda>trackLocal s1. rtc_AddTrack P r (md_LocalStreamID M trackLocal) (md_LocalID M trackLocal) trackLocal s1)"

text \<open>
  \<open>onTrack\<close> of a room: the track is added to the first other member that \<open>range\<close> comes to, or to the
  connection itself when it is alone.
\<close>

definition onTrack_start ::
  "'w pion \<Rightarrow> 'w media \<Rightarrow> sfu \<Rightarrow> nat \<Rightarrow> nat \<Rightarrow> 'w rtc \<Rightarrow> (nat \<times> nat) res \<times> 'w rtc" where
  "onTrack_start P M u r track s =
     and_then (CreateTrack P M (md_RemoteCodec M track) (md_RemoteID M track) (md_RemoteStreamID M track) s)
       (\<lambda>trackLocal s1.
         case on_pion (pn_RangeKeys P (map fst (sf_peerConnections u))) s1 of
           (ids, s2) \<Rightarrow>
             let others = filter (\<lambda>peer. bp_id (base s2 peer) \<noteq> bp_id (base s2 r))
                   (List.map_filter (map_of (sf_peerConnections u)) ids);
                 other = (case others of [] \<Rightarrow> r | peer # _ \<Rightarrow> peer) in
             and_then (rtc_AddTrack P other (md_LocalStreamID M trackLocal) (md_LocalID M trackLocal) trackLocal s2)
               (\<lambda>_ s3. (Inr (other, trackLocal), s3)))"

definition onTrack_senders :: "'w media \<Rightarrow> nat \<Rightarrow> nat \<Rightarrow> 'w rtc \<Rightarrow> nat list res" where
  "onTrack_senders M other trackLocal s =
     map_sum id (filter (\<lambda>sender. case md_SenderTrack M sender (rt_world s) of
         None \<Rightarrow> False
       | Some t \<Rightarrow> md_LocalStreamID M trackLocal = md_LocalStreamID M t \<and> md_LocalID M trackLocal = md_LocalID M t))
       (GetSenders M other [] s)"

text \<open>\<open>publishTrack\<close>, which nothing calls: the track goes back to its publisher.\<close>

definition publishTrack :: "'w pion \<Rightarrow> 'w media \<Rightarrow> sfu \<Rightarrow> nat \<Rightarrow> nat \<Rightarrow> 'w rtc \<Rightarrow> unit res \<times> 'w rtc" where
  "publishTrack P M u r trackRemote s =
     (if map_of (sf_peerConnections u) (bp_id (base s r)) = None then (Inl (Err ''Exist''), s)
      else
        and_then (CreateTrack P M (md_RemoteCodec M trackRemote) (md_RemoteID M trackRemote)
            (md_RemoteStreamID M trackRemote) s)
          (\<lambda>trackLocal s1.
            and_then (rtc_AddTrack P r (md_LocalStreamID M trackLocal) (md_LocalID M trackLocal) trackLocal s1)
              (\<lambda>_ s2. (Inr (), s2))))"

section \<open>Copying packets\<close>

datatype copy_event = ReadPacket string "nat list" | WrotePacket nat string | Elsewhere

definition drop_nth :: "nat \<Rightarrow> 'x list \<Rightarrow> 'x list" where
  "drop_nth k xs = take k xs @ drop (Suc k) xs"

text \<open>
  The goroutines that have been started and not run are a list of senders and packets. An error of a write
  is dropped with its goroutine, a panic would end the program. The rest of the node goes on.
\<close>

inductive copy_step ::
  "'w media \<Rightarrow> 'w packets \<Rightarrow> ('w rtc \<Rightarrow> nat list res) \<Rightarrow> copy_event \<Rightarrow>
   'w rtc \<times> (nat \<times> string) list \<Rightarrow> 'w rtc \<times> (nat \<times> string) list \<Rightarrow> bool" for M K senders where
  reads: "senders s = Inr xs \<Longrightarrow>
    copy_step M K senders (ReadPacket packet xs) (s, pending) (s, pending @ map (\<lambda>x. (x, packet)) xs)"
| writes: "k < length pending \<Longrightarrow> pending ! k = (x, packet) \<Longrightarrow> WriteRTP M K x packet s = (r, s') \<Longrightarrow>
    r = Inr () \<or> r = Inl (Err e) \<Longrightarrow>
    copy_step M K senders (WrotePacket x packet) (s, pending) (s', drop_nth k pending)"
| elsewhere: "copy_step M K senders Elsewhere (s, pending) (s', pending)"

inductive copy_run ::
  "'w media \<Rightarrow> 'w packets \<Rightarrow> ('w rtc \<Rightarrow> nat list res) \<Rightarrow> 'w rtc \<Rightarrow> copy_event list \<Rightarrow>
   'w rtc \<times> (nat \<times> string) list \<Rightarrow> bool" for M K senders s0 where
  start: "copy_run M K senders s0 [] (s0, [])"
| step: "copy_run M K senders s0 evs c \<Longrightarrow> copy_step M K senders ev c c' \<Longrightarrow> copy_run M K senders s0 (evs @ [ev]) c'"

section \<open>The shared buffer\<close>

text \<open>
  \<open>forward\<close> reads every packet into the same buffer and hands a slice of it to the goroutine, which writes
  what the buffer holds when it runs. \<open>n\<close> is the number of bytes that have been read, at most the size of
  the buffer.
\<close>

definition read_into :: "string \<Rightarrow> string \<Rightarrow> string" where
  "read_into data buf = take (length buf) data @ drop (length data) buf"

definition rtpBuf :: string where
  "rtpBuf = replicate 1500 (CHR 0x00)"

inductive forward_step ::
  "'w media \<Rightarrow> 'w packets \<Rightarrow> nat \<Rightarrow> string \<Rightarrow> copy_event \<Rightarrow>
   'w rtc \<times> string \<times> (nat \<times> nat) list \<Rightarrow> 'w rtc \<times> string \<times> (nat \<times> nat) list \<Rightarrow> bool" for M K r trackId where
  reads: "length data \<le> length buf \<Longrightarrow> GetSender M r trackId s = Inr (Some x) \<Longrightarrow>
    forward_step M K r trackId (ReadPacket data [x]) (s, buf, pending)
      (s, read_into data buf, pending @ [(x, length data)])"
| writes: "k < length pending \<Longrightarrow> pending ! k = (x, n) \<Longrightarrow> WriteRTP M K x (take n buf) s = (res, s') \<Longrightarrow>
    res = Inr () \<or> res = Inl (Err e) \<Longrightarrow>
    forward_step M K r trackId (WrotePacket x (take n buf)) (s, buf, pending) (s', buf, drop_nth k pending)"
| elsewhere: "forward_step M K r trackId Elsewhere (s, buf, pending) (s', buf, pending)"

inductive forward_run ::
  "'w media \<Rightarrow> 'w packets \<Rightarrow> nat \<Rightarrow> string \<Rightarrow> 'w rtc \<Rightarrow> copy_event list \<Rightarrow>
   'w rtc \<times> string \<times> (nat \<times> nat) list \<Rightarrow> bool" for M K r trackId s0 where
  start: "forward_run M K r trackId s0 [] (s0, rtpBuf, [])"
| step: "forward_run M K r trackId s0 evs c \<Longrightarrow> forward_step M K r trackId ev c c' \<Longrightarrow>
    forward_run M K r trackId s0 (evs @ [ev]) c'"

section \<open>Control packets\<close>

text \<open>\<open>remb\<close> and one round of \<open>keyFrame\<close>, which goes on after three seconds unless the write fails.\<close>

definition remb :: "'w packets \<Rightarrow> nat \<Rightarrow> nat \<Rightarrow> 'w rtc \<Rightarrow> unit res \<times> 'w rtc" where
  "remb K r track s =
     (case bp_peerConnection (base s r) of
        None \<Rightarrow> (Inl NilDereference, s)
      | Some h \<Rightarrow> (case on_pion (pk_WriteRemb K h track) s of (_, s1) \<Rightarrow> (Inr (), s1)))"

definition keyFrame_round :: "'w packets \<Rightarrow> nat \<Rightarrow> nat \<Rightarrow> 'w rtc \<Rightarrow> bool res \<times> 'w rtc" where
  "keyFrame_round K r track s =
     (case bp_peerConnection (base s r) of
        None \<Rightarrow> (Inl NilDereference, s)
      | Some h \<Rightarrow> (case on_pion (pk_KeyFrame K h track) s of (err, s1) \<Rightarrow> (Inr (err = None), s1)))"

text \<open>\<open>BasePeerConnection.onTrack\<close>: the goroutine \<open>keyFrame\<close> and the events, unless the connection is closed.\<close>

datatype track_event = StartKeyFrame nat | EmitStream nat | EmitTrack nat

definition base_onTrack :: "nat \<Rightarrow> nat \<Rightarrow> 'w rtc \<Rightarrow> track_event list" where
  "base_onTrack r track s =
     (if bp_status (base s r) = PeerConnectionStatus_closed then []
      else [StartKeyFrame track, EmitStream track, EmitTrack track])"

section \<open>What is copied\<close>

text \<open>The goroutines that have been started, what has been written, and the packets that have been read.\<close>

definition started :: "copy_event list \<Rightarrow> (nat \<times> string) list" where
  "started evs = concat (map (\<lambda>ev. case ev of ReadPacket packet xs \<Rightarrow> map (\<lambda>x. (x, packet)) xs | _ \<Rightarrow> []) evs)"

definition written :: "copy_event list \<Rightarrow> (nat \<times> string) list" where
  "written evs = List.map_filter (\<lambda>ev. case ev of WrotePacket x packet \<Rightarrow> Some (x, packet) | _ \<Rightarrow> None) evs"

lemma copied_snoc [simp]:
  "started [] = []" "written [] = []"
  "started (evs @ [ReadPacket packet xs]) = started evs @ map (\<lambda>x. (x, packet)) xs"
  "started (evs @ [WrotePacket x packet]) = started evs" "started (evs @ [Elsewhere]) = started evs"
  "written (evs @ [ReadPacket packet xs]) = written evs"
  "written (evs @ [WrotePacket x packet]) = written evs @ [(x, packet)]" "written (evs @ [Elsewhere]) = written evs"
  by (simp_all add: started_def written_def List.map_filter_def)


text \<open>
  The state of \<open>forward\<close> when each goroutine runs before the next packet is read: none waits, or the one of
  the last packet, which is still in the buffer.
\<close>

fun eager :: "bool \<Rightarrow> copy_event list \<Rightarrow> bool" where
  "eager due [] = True"
| "eager due (ReadPacket packet xs # evs) = (\<not> due \<and> eager True evs)"
| "eager due (WrotePacket x packet # evs) = eager False evs"
| "eager due (Elsewhere # evs) = eager due evs"

fun waits :: "bool \<Rightarrow> copy_event list \<Rightarrow> bool" where
  "waits due [] = due"
| "waits due (ReadPacket packet xs # evs) = waits True evs"
| "waits due (WrotePacket x packet # evs) = waits False evs"
| "waits due (Elsewhere # evs) = waits due evs"

lemma eager_snoc: "eager b (evs @ [ev]) \<longleftrightarrow> eager b evs \<and> eager (waits b evs) [ev]"
  by (induction b evs rule: waits.induct) auto

lemma waits_snoc: "waits b (evs @ [ev]) = waits (waits b evs) [ev]"
  by (induction b evs rule: waits.induct) auto

lemma take_read_into: "length data \<le> length buf \<Longrightarrow> take (length data) (read_into data buf) = data"
  by (simp add: read_into_def)

lemma length_read_into [simp]: "length data \<le> length buf \<Longrightarrow> length (read_into data buf) = length buf"
  by (simp add: read_into_def)

lemma forward_eager:
  assumes "forward_run M K r trackId s0 evs (s, buf, pending)" and "eager False evs"
  shows "started evs = written evs @ map (\<lambda>(x, n). (x, take n buf)) pending \<and>
    length pending = (if waits False evs then 1 else 0)"
  using assms
proof (induction evs "(s, buf, pending)" arbitrary: s buf pending)
  case (step evs c ev)
  obtain s1 buf1 pending1 where c: "c = (s1, buf1, pending1)" by (cases c)
  from step.prems have eager: "eager False evs" "eager (waits False evs) [ev]" by (simp_all add: eager_snoc)
  note IH = step.hyps(2) [OF c eager(1)]
  from step.hyps(3) [unfolded c] show ?case
  proof cases
    case (reads data x)
    with IH eager show ?thesis by (auto simp: take_read_into waits_snoc)
  next
    case (writes k x n res e)
    with IH eager have "length pending1 = 1" "k = 0" by (auto split: if_splits)
    with writes have "pending1 = [(x, n)]" by (cases pending1) auto
    with IH writes \<open>k = 0\<close> show ?thesis by (auto simp: waits_snoc drop_nth_def)
  next
    case elsewhere
    with IH show ?thesis by (simp add: waits_snoc)
  qed
qed simp

section \<open>Adding a track\<close>

lemma CreateTrack_created:
  assumes "\<And>c t i w. \<exists>l w'. md_NewTrackLocalStaticRTP M c t i w = (Inr l, w')"
  shows "\<exists>l s1. CreateTrack P M c t i s = (Inr l, s1) \<and> rt_conns s1 = rt_conns s"
proof -
  obtain x s1 where x: "(if i = [] then on_pion (pn_UUID P) s else (i, s)) = (x, s1)" by fastforce
  obtain y s2 where y: "(if t = [] then on_pion (pn_UUID P) s1 else (t, s1)) = (y, s2)" by fastforce
  obtain l w' where l: "md_NewTrackLocalStaticRTP M c y x (rt_world s2) = (Inr l, w')" using assms by blast
  have "rt_conns s1 = rt_conns s" "rt_conns s2 = rt_conns s1"
    using x y by (auto simp: on_pion_def split: if_splits prod.splits)
  with x y l show ?thesis by (simp add: CreateTrack_def on_pion_def)
qed

lemma AddTrack_nil_map:
  assumes "no_tracks s" "r < length (rt_conns s)" "\<And>h t w. \<exists>x w'. pn_AddTrack P h t w = (Inr x, w')"
  shows "\<exists>p s'. rtc_AddTrack P r i l t s = (Inl (Panic p), s')"
proof (cases "bp_peerConnection (base s r)")
  case (Some h)
  have none: "bp_localTracks (base s r) = None" using assms(1,2) by (simp add: no_tracks_def)
  obtain x w' where "pn_AddTrack P h t (rt_world s) = (Inr x, w')" using assms(3) by blast
  with Some none show ?thesis by (simp add: rtc_AddTrack_def on_pion_def and_then_def)
qed (simp add: rtc_AddTrack_def)

section \<open>Properties\<close>


text \<open>
  The order is not kept: the goroutines of two packets can write them to the same track in either
  order.
\<close>

theorem copies_reordered:
  assumes "senders s0 = Inr [x]" and "WriteRTP M K x b s0 = (Inr (), s1)" and "WriteRTP M K x a s1 = (Inr (), s2)"
  shows "copy_run M K senders s0 ((([] @ [ReadPacket a [x]]) @ [ReadPacket b [x]]) @ [WrotePacket x b] @ [WrotePacket x a])
    (s2, [])"
proof -
  have read: "copy_step M K senders (ReadPacket packet [x]) (s0, pending) (s0, pending @ [(x, packet)])" for packet pending
    using copy_step.reads [where senders = senders, OF assms(1)] by simp
  have "copy_run M K senders s0 (([] @ [ReadPacket a [x]]) @ [ReadPacket b [x]]) (s0, ([] @ [(x, a)]) @ [(x, b)])"
    by (rule copy_run.step [OF copy_run.step [OF copy_run.start read] read])
  then have "copy_run M K senders s0 (([] @ [ReadPacket a [x]]) @ [ReadPacket b [x]]) (s0, [(x, a), (x, b)])" by simp
  moreover have "copy_step M K senders (WrotePacket x b) (s0, [(x, a), (x, b)]) (s1, [(x, a)])"
    using copy_step.writes [of 1 "[(x, a), (x, b)]" x b M K s0 "Inr ()" s1] assms(2) by (simp add: drop_nth_def)
  moreover have "copy_step M K senders (WrotePacket x a) (s1, [(x, a)]) (s2, [])"
    using copy_step.writes [of 0 "[(x, a)]" x a M K s1 "Inr ()" s2] assms(3) by (simp add: drop_nth_def)
  ultimately show ?thesis by (metis append_assoc copy_run.step)
qed

text \<open>
  \<open>forward\<close> copies the packets in order when each goroutine runs before the next packet is read.
\<close>

theorem forward_in_order:
  assumes "forward_run M K r trackId s0 evs (s, buf, pending)" and "eager False evs"
  shows "\<exists>rest. started evs = written evs @ rest \<and> length rest \<le> 1"
  using forward_eager [OF assms] by (auto split: if_splits)

text \<open>
  Otherwise it does not: the goroutines share the buffer, and when two packets of the same length are
  read first, the second is written twice and the first is lost.
\<close>

theorem forward_overwrites:
  assumes "GetSender M r trackId s0 = Inr (Some x)" and "length a = length b" and "length a \<le> 1500"
    and "WriteRTP M K x b s0 = (Inr (), s1)" and "WriteRTP M K x b s1 = (Inr (), s2)"
  shows "forward_run M K r trackId s0
    ((([] @ [ReadPacket a [x]]) @ [ReadPacket b [x]]) @ [WrotePacket x b] @ [WrotePacket x b])
    (s2, read_into b (read_into a rtpBuf), [])"
proof -
  let ?buf = "read_into b (read_into a rtpBuf)"
  have len: "length a \<le> length rtpBuf" "length b \<le> length (read_into a rtpBuf)"
    using assms(2,3) by (simp_all add: rtpBuf_def)
  have "forward_run M K r trackId s0 (([] @ [ReadPacket a [x]]) @ [ReadPacket b [x]])
      (s0, ?buf, [(x, length b), (x, length b)])"
    using forward_run.step [OF forward_run.step [OF forward_run.start forward_step.reads [OF len(1) assms(1)]]
        forward_step.reads [OF len(2) assms(1)]] assms(2)
    by simp
  moreover have "forward_step M K r trackId (WrotePacket x b) (s0, ?buf, [(x, length b), (x, length b)]) (s1, ?buf, [(x, length b)])"
    using forward_step.writes [of 0 "[(x, length b), (x, length b)]" x "length b" M K ?buf s0 "Inr ()" s1] assms(4)
    by (simp add: drop_nth_def take_read_into [OF len(2)])
  moreover have "forward_step M K r trackId (WrotePacket x b) (s1, ?buf, [(x, length b)]) (s2, ?buf, [])"
    using forward_step.writes [of 0 "[(x, length b)]" x "length b" M K ?buf s1 "Inr ()" s2] assms(5)
    by (simp add: drop_nth_def take_read_into [OF len(2)])
  ultimately show ?thesis by (metis append_assoc forward_run.step)
qed

text \<open>
  The map of the local tracks of a connection is never made: when the first track of a member of a
  room arrives and the library creates and adds the track for another member, the program ends with a
  panic. No room has ever forwarded a packet.
\<close>

theorem room_track_panics:
  assumes "sfu_reach P M n" and "r < length (rt_conns (sn_rtc n))"
    and "\<And>i q. map_of (sf_peerConnections u) i = Some q \<Longrightarrow> q < length (rt_conns (sn_rtc n))"
    and "\<And>c t i w. \<exists>l w'. md_NewTrackLocalStaticRTP M c t i w = (Inr l, w')"
    and "\<And>h t w. \<exists>x w'. pn_AddTrack P h t w = (Inr x, w')"
  shows "\<exists>p. fst (onTrack_start P M u r track (sn_rtc n)) = Inl (Panic p)"
proof -
  let ?s = "sn_rtc n"
  have none: "no_tracks ?s" using sfu_reach_ok [OF assms(1)] by (simp add: sound_def)
  obtain l s1 where created: "CreateTrack P M (md_RemoteCodec M track) (md_RemoteID M track) (md_RemoteStreamID M track) ?s =
      (Inr l, s1)" and s1: "rt_conns s1 = rt_conns ?s"
    using CreateTrack_created [OF assms(4)] by blast
  obtain ids s2 where range: "on_pion (pn_RangeKeys P (map fst (sf_peerConnections u))) s1 = (ids, s2)" by fastforce
  then have s2: "rt_conns s2 = rt_conns ?s" using s1 by (auto simp: on_pion_def split: prod.splits)
  let ?others = "filter (\<lambda>peer. bp_id (base s2 peer) \<noteq> bp_id (base s2 r))
    (List.map_filter (map_of (sf_peerConnections u)) ids)"
  define other where "other = (case ?others of [] \<Rightarrow> r | peer # _ \<Rightarrow> peer)"
  have "other = r \<or> other \<in> set ?others" by (cases ?others) (auto simp: other_def)
  then have "other < length (rt_conns s2)"
    using assms(2,3) by (auto simp: s2 List.map_filter_def dest!: sym [of _ "map_of _ _"])
  moreover have "no_tracks s2" using none by (simp add: no_tracks_def s2)
  ultimately obtain p s' where
    "rtc_AddTrack P other (md_LocalStreamID M l) (md_LocalID M l) l s2 = (Inl (Panic p), s')"
    using AddTrack_nil_map [OF _ _ assms(5)] by blast
  then show ?thesis
    unfolding onTrack_start_def and_then_def created prod.case sum.case range Let_def other_def [symmetric] by simp
qed

section \<open>Instances\<close>

text \<open>A library whose only sender has one track, to which every write succeeds.\<close>

definition one_sender :: "unit media" where
  "one_sender = silent\<lparr>md_GetSenders := \<lambda>_ _. [7], md_SenderTrack := \<lambda>_ _. Some 3, md_LocalID := \<lambda>_. ''t''\<rparr>"

definition writable :: "unit packets" where
  "writable = \<lparr>pk_Static = \<lambda>_. True, pk_Write = \<lambda>_ _ w. (None, w), pk_ClosedPipe = \<lambda>_. False,
     pk_WriteRemb = \<lambda>_ _ w. (None, w), pk_KeyFrame = \<lambda>_ _ w. (None, w)\<rparr>"

lemma written_sample: "WriteRTP one_sender writable x data callee = (Inr (), callee)"
  by (simp add: WriteRTP_def one_sender_def writable_def on_pion_def unit_rtc_world)

lemma sender_sample: "GetSender one_sender 0 ''t'' callee = Inr (Some 7)"
  by (simp add: GetSender_def callee_state one_sender_def)


lemma forward_sample:
  "forward_run one_sender writable 0 ''t'' callee ([] @ [ReadPacket ''a'' [7]]) (callee, read_into ''a'' rtpBuf, [(7, 1)])"
proof -
  have "forward_step one_sender writable 0 ''t'' (ReadPacket ''a'' [7]) (callee, rtpBuf, [])
      (callee, read_into ''a'' rtpBuf, [(7, 1)])"
    using forward_step.reads [of "''a''" rtpBuf one_sender 0 "''t''" callee 7 writable "[]"] sender_sample
    by (simp add: rtpBuf_def)
  from forward_run.step [OF forward_run.start this] show ?thesis .
qed


theorem copies_reordered_witness:
  "copy_run one_sender writable (echo_senders 7) callee
    ((([] @ [ReadPacket ''a'' [7]]) @ [ReadPacket ''b'' [7]]) @ [WrotePacket 7 ''b''] @ [WrotePacket 7 ''a'']) (callee, [])"
  by (rule copies_reordered [OF _ written_sample written_sample]) (simp add: echo_senders_def)

theorem forward_in_order_witness:
  "\<exists>rest. started ([] @ [ReadPacket ''a'' [7]]) = written ([] @ [ReadPacket ''a'' [7]]) @ rest \<and> length rest \<le> 1"
  by (rule forward_in_order [OF forward_sample]) simp

theorem forward_overwrites_witness:
  "forward_run one_sender writable 0 ''t'' callee
    ((([] @ [ReadPacket ''a'' [7]]) @ [ReadPacket ''b'' [7]]) @ [WrotePacket 7 ''b''] @ [WrotePacket 7 ''b''])
    (callee, read_into ''b'' (read_into ''a'' rtpBuf), [])"
  by (rule forward_overwrites [OF sender_sample _ _ written_sample written_sample]) simp_all

theorem room_track_panics_witness:
  "\<exists>p. fst (onTrack_start quiet silent (Create ''hall'') 0 0 (sn_rtc lobby)) = Inl (Panic p)"
  by (rule room_track_panics [OF lobby_reach]) (simp_all add: lobby_def guest_state Create_def silent_def quiet_def)

end
