(* ===== verification/XormDatastore.thy ===== *)
theory XormDatastore
  imports DataBlocks "HOL-Library.List_Lexorder" "HOL-Library.Char_ord"
begin

text \<open>
  The datastore of the DHT on the database, \<^verbatim>\<open>libp2p/datastore/xorm/default.go\<close>: a record of the DHT is a
  list of entities of the namespace of its key, and putting it writes each of them. The fields that the
  code asks for by name exist in the entities of the namespace, and a field of a number compared with an
  untyped 0 through an interface is never equal to it, so that these tests do not show here.
\<close>

section \<open>The services\<close>

text \<open>The rows that a service finds, a list of the entities of its namespace.\<close>

datatype rows =
    RClients "peer_client list"
  | RBlocks "data_block list"
  | RTransactions "peer_transaction list"
  | REndpoints "peer_endpoint list"
  | RApps "chain_app list"
  | RKeys "transaction_key list"

text \<open>
  The services of the ORM beyond those in \<open>env\<close>. \<open>xs_Find\<close> and \<open>xs_Count\<close> get the fields that are set in a
  new entity; those that it does not have are ignored. The service of a namespace decodes and finds the
  entities of this namespace, which is why the kind of the rows stands for the tests of the namespace.
\<close>

record 'w xorm =
  xs_ParseJSON :: "string \<Rightarrow> string \<Rightarrow> rows res"
  xs_Marshal :: "rows \<Rightarrow> string res"
  xs_Find :: "string \<Rightarrow> (string \<times> string) list \<Rightarrow> 'w \<Rightarrow> rows \<times> 'w"
  xs_Count :: "string \<Rightarrow> (string \<times> string) list \<Rightarrow> 'w \<Rightarrow> int \<times> 'w"
  xs_Delete :: "string \<Rightarrow> (string \<times> string) list \<Rightarrow> 'w \<Rightarrow> int \<times> 'w"
  xs_UpsertPeerClient :: "peer_client \<Rightarrow> 'w \<Rightarrow> int \<times> 'w"
  xs_UpsertPeerEndpoint :: "peer_endpoint \<Rightarrow> 'w \<Rightarrow> int \<times> 'w"
  xs_UpsertChainApp :: "chain_app \<Rightarrow> 'w \<Rightarrow> int \<times> 'w"
  xs_GetPeerTransaction :: "peer_transaction \<Rightarrow> 'w \<Rightarrow> peer_transaction option \<times> 'w"
  xs_UpsertPeerTransaction :: "peer_transaction \<Rightarrow> 'w \<Rightarrow> int \<times> 'w"
  xs_DeletePeerTransaction :: "peer_transaction \<Rightarrow> 'w \<Rightarrow> 'w"

definition client_namespace :: "string \<Rightarrow> bool" where
  "client_namespace n \<longleftrightarrow> n \<in> {PeerClient_Prefix, PeerClient_Mobile_Prefix, PeerClient_Email_Prefix, PeerClient_Name_Prefix}"

definition block_namespace :: "string \<Rightarrow> bool" where
  "block_namespace n \<longleftrightarrow> n \<in> {DataBlock_Prefix, DataBlock_Owner_Prefix}"

text \<open>The map of a request as \<open>%v\<close> prints it.\<close>

definition show_map :: "(string \<times> string) list \<Rightarrow> string" where
  "show_map kvs = ''map['' @ join_with '' '' (map (\<lambda>(k, v). k @ '':'' @ v) (sort_key fst kvs)) @ '']''"

text \<open>The affected rows of an upsert, and what follows if there are some.\<close>

definition upserted ::
  "'w dispatch_request \<Rightarrow> ('w \<Rightarrow> int \<times> 'w) \<Rightarrow> ('w \<Rightarrow> unit res \<times> 'w) \<Rightarrow> 'w \<Rightarrow> unit res \<times> 'w" where
  "upserted req upsert f w =
     (case upsert w of
        (affected, w1) \<Rightarrow>
          if affected > 0 then f w1
          else (Inl (Err (dr_Keyname req @ '':'' @ show_map (dr_Keyvalue req) @ '' upsert fail'')), w1))"

section \<open>Putting blocks\<close>

text \<open>\<open>global.Global.MyselfPeer\<close> is read in the loop, so that a nil one is met only if there is a slice.\<close>

definition deleted_slices :: "'w env \<Rightarrow> data_block \<Rightarrow> uint64 \<Rightarrow> uint64 \<Rightarrow> 'w \<Rightarrow> unit res \<times> 'w" where
  "deleted_slices E db first n w =
     (case glb_MyselfPeer E of
        None \<Rightarrow> if first \<le> n then (Inl NilDereference, w) else (Inr (), w)
      | Some myself \<Rightarrow> delete_transactions E db (my_PeerId myself) first n w)"

definition put_deletion :: "'w env \<Rightarrow> data_block \<Rightarrow> data_block \<Rightarrow> 'w \<Rightarrow> unit res \<times> 'w" where
  "put_deletion E oldp p w =
     (if db_SliceNumber p = 1 then
        and_then (erase_contents E (db_BlockId oldp) (db_SliceSize oldp) w) (\<lambda>_ w1.
          let w2 = orm_DeleteDataBlock E (data_block0\<lparr>db_BlockId := db_BlockId p\<rparr>) [] [] w1;
              w3 = orm_DeleteTransactionKey E (transaction_key0\<lparr>tk_BlockId := db_BlockId p\<rparr>) w2
          in deleted_slices E p 1 (db_SliceSize oldp) w3)
      else (Inr (), w))"

text \<open>A payload that cannot be written to the file store is dropped: the error of the write is not looked at.\<close>

definition put_payload :: "'w env \<Rightarrow> data_block \<Rightarrow> 'w \<Rightarrow> data_block \<times> 'w" where
  "put_payload E p w =
     (if length (db_TransportPayload p) > PayloadLimit then
        (case file_Write E (content_id E (db_BlockId p) (db_SliceNumber p))
                (lib_DecodeBase64 E (db_TransportPayload p)) w of
           (_, w1) \<Rightarrow> (p\<lparr>db_TransportPayload := []\<rparr>, w1))
      else (p, w))"

definition put_index :: "'w env \<Rightarrow> go_time \<Rightarrow> data_block \<Rightarrow> data_block \<Rightarrow> 'w \<Rightarrow> unit res \<times> 'w" where
  "put_index E currentTime oldp p w =
     and_then
       (if db_SliceNumber p = 1 then
          and_then
            (if db_SliceSize p < db_SliceSize oldp then
               deleted_slices E p (db_SliceSize p + 1) (db_SliceSize oldp)
                 (orm_DeleteDataBlock E (data_block0\<lparr>db_BlockId := db_BlockId p\<rparr>) ''SliceNumber > ?'' [db_SliceSize p] w)
             else (Inr (), w))
            (\<lambda>_. each (store_key E (db_BlockId p)) (block_keys p))
        else (Inr (), w))
       (\<lambda>_ w1.
         if db_BlockType p \<noteq> BlockType_ChatAttach then
           (case glb_MyselfPeer E of
              None \<Rightarrow> (Inl NilDereference, w1)
            | Some myself \<Rightarrow> PutPTs E (block_transaction p (my_PeerId myself) currentTime) w1)
         else (Inr (), w1))"

definition put_slice ::
  "'w env \<Rightarrow> 'w dispatch_request \<Rightarrow> go_time \<Rightarrow> data_block \<Rightarrow> data_block \<Rightarrow> 'w \<Rightarrow> unit res \<times> 'w" where
  "put_slice E req currentTime oldp p w =
     (case put_payload E p w of
        (p1, w1) \<Rightarrow> upserted req (orm_UpsertDataBlock E p1) (put_index E currentTime oldp p1) w1)"

definition put_block :: "'w env \<Rightarrow> 'w dispatch_request \<Rightarrow> data_block \<Rightarrow> 'w \<Rightarrow> unit res \<times> 'w" where
  "put_block E req p w =
     (let old = data_block0\<lparr>db_BlockId := db_BlockId p, db_SliceNumber := db_SliceNumber p\<rparr> in
      case env_now E w of
        (currentTime, w0) \<Rightarrow>
          (case orm_GetDataBlock E old w0 of
             (Some oldp, w1) \<Rightarrow>
               let p = p\<lparr>db_Id := db_Id oldp\<rparr> in
               and_then (lift_res (check_owner oldp p) w1) (\<lambda>_ w1.
                 if db_TransportPayload p = [] then put_deletion E oldp p w1
                 else put_slice E req currentTime oldp p w1)
           | (None, w1) \<Rightarrow>
               if db_TransportPayload p = [] then (Inr (), w1)
               else put_slice E req currentTime old (p\<lparr>db_Id := 0\<rparr>) w1))"

section \<open>Putting other entities\<close>

definition put_transaction :: "'w env \<Rightarrow> 'w xorm \<Rightarrow> 'w dispatch_request \<Rightarrow> peer_transaction \<Rightarrow> 'w \<Rightarrow> unit res \<times> 'w"
  where
  "put_transaction E X req p w =
     (case env_now E w of
        (_, w0) \<Rightarrow>
          (case xs_GetPeerTransaction X (peer_transaction0\<lparr>pt_TargetPeerId := pt_TargetPeerId p,
                   pt_BlockId := pt_BlockId p, pt_SliceNumber := pt_SliceNumber p,
                   pt_BusinessNumber := pt_BusinessNumber p\<rparr>) w0 of
             (Some oldp, w1) \<Rightarrow>
               if pt_Status p = cst_Deleted E then (Inr (), xs_DeletePeerTransaction X oldp w1)
               else upserted req (xs_UpsertPeerTransaction X (p\<lparr>pt_Id := pt_Id oldp\<rparr>)) (Pair (Inr ())) w1
           | (None, w1) \<Rightarrow>
               if pt_Status p = cst_Deleted E then (Inr (), w1)
               else upserted req (xs_UpsertPeerTransaction X (p\<lparr>pt_Id := 0\<rparr>)) (Pair (Inr ())) w1))"

text \<open>An entity without further rules: it takes the id of the row that is found, or 0.\<close>

definition put_entity ::
  "'w env \<Rightarrow> 'w dispatch_request \<Rightarrow> ('w \<Rightarrow> 'e option \<times> 'w) \<Rightarrow> ('e option \<Rightarrow> 'w \<Rightarrow> int \<times> 'w) \<Rightarrow> 'w \<Rightarrow> unit res \<times> 'w"
  where
  "put_entity E req get upsert w =
     (case env_now E w of
        (_, w0) \<Rightarrow> (case get w0 of (found, w1) \<Rightarrow> upserted req (upsert found) (Pair (Inr ())) w1))"

abbreviation id_of :: "('e \<Rightarrow> uint64) \<Rightarrow> 'e option \<Rightarrow> uint64" where
  "id_of f found \<equiv> (case found of None \<Rightarrow> 0 | Some e \<Rightarrow> f e)"

definition put_client_row :: "'w env \<Rightarrow> 'w xorm \<Rightarrow> 'w dispatch_request \<Rightarrow> peer_client \<Rightarrow> 'w \<Rightarrow> unit res \<times> 'w" where
  "put_client_row E X req p = put_entity E req
     (orm_GetPeerClient E (peer_client0\<lparr>pc_PeerId := pc_PeerId p, pc_ClientId := pc_ClientId p\<rparr>))
     (\<lambda>found. xs_UpsertPeerClient X (p\<lparr>pc_Id := id_of pc_Id found\<rparr>))"

definition put_rows :: "'w env \<Rightarrow> 'w xorm \<Rightarrow> 'w dispatch_request \<Rightarrow> rows \<Rightarrow> 'w \<Rightarrow> unit res \<times> 'w" where
  "put_rows E X req entities =
     (case entities of
        RBlocks ps \<Rightarrow> each (put_block E req) ps
      | RTransactions ps \<Rightarrow> each (put_transaction E X req) ps
      | RClients ps \<Rightarrow> each (put_client_row E X req) ps
      | REndpoints ps \<Rightarrow>
          each (\<lambda>p. put_entity E req (orm_GetPeerEndpoint E (peer_endpoint0\<lparr>pe_PeerId := pe_PeerId p\<rparr>))
                 (\<lambda>found. xs_UpsertPeerEndpoint X (p\<lparr>pe_Id := id_of pe_Id found\<rparr>))) ps
      | RApps ps \<Rightarrow>
          each (\<lambda>p. put_entity E req (orm_GetChainApp E (chain_app0\<lparr>ca_PeerId := ca_PeerId p\<rparr>))
                 (\<lambda>found. xs_UpsertChainApp X (p\<lparr>ca_Id := id_of ca_Id found\<rparr>))) ps
      | RKeys ps \<Rightarrow>
          each (\<lambda>p. put_entity E req (orm_GetTransactionKey E (transaction_key0\<lparr>tk_BlockId := tk_BlockId p\<rparr>))
                 (\<lambda>found. orm_UpsertTransactionKey E (p\<lparr>tk_Id := id_of tk_Id found\<rparr>))) ps)"

section \<open>The operations of the datastore\<close>

text \<open>\<open>handler.NewKeyRequest\<close> returns nil without an error exactly when the key is not base32.\<close>

definition Xorm_Put ::
  "'w env \<Rightarrow> 'w xorm \<Rightarrow> 'w datastores \<Rightarrow> string \<Rightarrow> string \<Rightarrow> 'w \<Rightarrow> unit res \<times> 'w" where
  "Xorm_Put E X R key value w =
     and_then (lift_res (NewKeyRequest E R key) w) (\<lambda>req w.
     and_then (lift_res (lib_DecodeBase32 E (trim_prefix key ''/'')) w) (\<lambda>keyString w.
     and_then (lift_res (lib_SplitKey E keyString) w) (\<lambda>_ w.
     and_then (lift_res (lib_UnmarshalRecord E value) w) (\<lambda>rec w.
     and_then (lift_res (xs_ParseJSON X (dr_Name (the req)) (rec_Value rec)) w) (\<lambda>entities w.
       put_rows E X (the req) entities w)))))"

text \<open>
  The conditions of a read. In the namespaces with a key kind of their own the first value of the map
  that \<open>range\<close> visits is taken for this kind.
\<close>

definition collection_type :: string where
  "collection_type = TransactionType_DataBlock @ ''-'' @ BlockType_Collection"

definition key_conditions :: "string \<Rightarrow> string \<Rightarrow> string \<Rightarrow> (string \<times> string) list option" where
  "key_conditions name k v =
     (if name = PeerClient_Mobile_Prefix then Some [(PeerClient_Mobile_KeyKind, v)]
      else if name = PeerClient_Email_Prefix then Some [(PeerClient_Email_KeyKind, v)]
      else if name = PeerClient_Name_Prefix then Some [(PeerClient_Name_KeyKind, v)]
      else if name = DataBlock_Owner_Prefix then Some [(DataBlock_Owner_KeyKind, v)]
      else if name = PeerTransaction_Src_Prefix then Some [(k, v), (PeerTransaction_Type_KeyKind, collection_type)]
      else if name = PeerTransaction_Target_Prefix then
        Some [(PeerTransaction_Target_KeyKind, v), (PeerTransaction_Type_KeyKind, collection_type)]
      else if name = PeerTransaction_P2PChat_Prefix then
        Some [(PeerTransaction_P2PChat_KeyKind, v), (PeerTransaction_Type_KeyKind, transaction_type BlockType_P2pChat)]
      else if name = PeerTransaction_GroupFile_Prefix then
        Some [(PeerTransaction_GroupFile_KeyKind, v), (PeerTransaction_Type_KeyKind, transaction_type BlockType_GroupFile)]
      else if name = PeerTransaction_Channel_Prefix then Some [(PeerTransaction_Channel_KeyKind, v)]
      else if name = PeerTransaction_ChannelArticle_Prefix then
        Some [(PeerTransaction_ChannelArticle_KeyKind, v),
              (PeerTransaction_Type_KeyKind, transaction_type BlockType_ChannelArticle)]
      else None)"

definition read_conditions :: "string \<Rightarrow> (string \<times> string) list \<Rightarrow> (string \<times> string) list" where
  "read_conditions name kvs =
     (case kvs of
        [] \<Rightarrow> []
      | (k, v) # _ \<Rightarrow> (case key_conditions name k v of None \<Rightarrow> kvs | Some conds \<Rightarrow> conds))"

text \<open>The request's map in the order of \<open>range\<close>.\<close>

definition ranged :: "'w env \<Rightarrow> 'w dispatch_request \<Rightarrow> 'w \<Rightarrow> (string \<times> string) list \<times> 'w" where
  "ranged E req w =
     (case env_RangeKeys E (map fst (dr_Keyvalue req)) w of
        (ks, w1) \<Rightarrow> (List.map_filter (\<lambda>k. map_option (Pair k) (map_of (dr_Keyvalue req) k)) ks, w1))"

fun map_state :: "('a \<Rightarrow> 'w \<Rightarrow> 'b \<times> 'w) \<Rightarrow> 'a list \<Rightarrow> 'w \<Rightarrow> 'b list \<times> 'w" where
  "map_state f [] w = ([], w)"
| "map_state f (x # xs) w = (case f x w of (y, w1) \<Rightarrow> (case map_state f xs w1 of (ys, w2) \<Rightarrow> (y # ys, w2)))"

definition read_payload :: "'w env \<Rightarrow> data_block \<Rightarrow> 'w \<Rightarrow> data_block \<times> 'w" where
  "read_payload E db w =
     (if db_TransportPayload db = [] then
        (case file_Read E (content_id E (db_BlockId db) (db_SliceNumber db)) w of
           (transportPayload, w1) \<Rightarrow> (db\<lparr>db_TransportPayload := lib_EncodeBase64 E transportPayload\<rparr>, w1))
      else (db, w))"

definition read_keys :: "'w env \<Rightarrow> data_block \<Rightarrow> 'w \<Rightarrow> data_block \<times> 'w" where
  "read_keys E db w =
     (if db_SliceNumber db = 1 then
        (case orm_FindTransactionKey E (transaction_key0\<lparr>tk_BlockId := db_BlockId db\<rparr>) w of
           (tks, w1) \<Rightarrow> (if tks \<noteq> [] then db\<lparr>db_TransactionKeys := Some tks\<rparr> else db, w1))
      else (db, w))"

definition Xorm_get :: "'w env \<Rightarrow> 'w xorm \<Rightarrow> 'w dispatch_request \<Rightarrow> 'w \<Rightarrow> rows res \<times> 'w" where
  "Xorm_get E X req w =
     (case ranged E req w of
        (kvs, w1) \<Rightarrow>
          (case xs_Find X (dr_Name req) (read_conditions (dr_Name req) kvs) w1 of
             (entities, w2) \<Rightarrow>
               if block_namespace (dr_Name req) then
                 (case entities of
                    RBlocks dbs \<Rightarrow> (case map_state (read_payload E) dbs w2 of (dbs', w3) \<Rightarrow> (Inr (RBlocks dbs'), w3))
                  | _ \<Rightarrow> (Inl BadAssertion, w2))
               else (Inr entities, w2)))"

text \<open>The rows of a namespace in which an empty list is not found; the type assertions may panic.\<close>

definition present :: "'w env \<Rightarrow> string \<Rightarrow> rows \<Rightarrow> 'w \<Rightarrow> rows option res \<times> 'w" where
  "present E namespace entities w =
     (if client_namespace namespace then
        (case entities of RClients ps \<Rightarrow> (Inr (if ps = [] then None else Some entities), w) | _ \<Rightarrow> (Inl BadAssertion, w))
      else if block_namespace namespace then
        (case entities of
           RBlocks [] \<Rightarrow> (Inr None, w)
         | RBlocks dbs \<Rightarrow> (case map_state (read_keys E) dbs w of (dbs', w1) \<Rightarrow> (Inr (Some (RBlocks dbs')), w1))
         | _ \<Rightarrow> (Inl BadAssertion, w))
      else if namespace \<in> {PeerTransaction_Src_Prefix, PeerTransaction_Target_Prefix} then
        (case entities of
           RTransactions ps \<Rightarrow> (Inr (if ps = [] then None else Some entities), w) | _ \<Rightarrow> (Inl BadAssertion, w))
      else (Inr (Some entities), w))"

definition Xorm_Get :: "'w env \<Rightarrow> 'w xorm \<Rightarrow> 'w datastores \<Rightarrow> string \<Rightarrow> 'w \<Rightarrow> ds_result \<times> 'w" where
  "Xorm_Get E X R key w =
     (case and_then (lift_res (NewKeyRequest E R key) w) (\<lambda>req w.
           and_then (lift_res (lib_DecodeBase32 E (trim_prefix key ''/'')) w) (\<lambda>keyString w.
           and_then (lift_res (lib_SplitKey E keyString) w) (\<lambda>(namespace, _) w.
           and_then (Xorm_get E X (the req) w) (\<lambda>entities w.
           and_then (present E namespace entities w) (\<lambda>found w.
             case found of
               None \<Rightarrow> (Inr None, w)
             | Some entities \<Rightarrow>
                 and_then (lift_res (xs_Marshal X entities) w) (\<lambda>val w.
                   case env_now E w of
                     (t, w1) \<Rightarrow>
                       and_then (lift_res (lib_MarshalRecord E
                           \<lparr>rec_Key = keyString, rec_Value = val, rec_TimeReceived = lib_FormatTime E t\<rparr>) w1)
                         (\<lambda>buf w. (Inr (Some buf), w)))))))) of
        (Inl e, w1) \<Rightarrow> (DsError e, w1)
      | (Inr None, w1) \<Rightarrow> (DsNotFound, w1)
      | (Inr (Some buf), w1) \<Rightarrow> (DsFound buf, w1))"

text \<open>A nil request is a nil dereference here.\<close>

definition on_request ::
  "'w env \<Rightarrow> 'w datastores \<Rightarrow> string \<Rightarrow> ('w dispatch_request \<Rightarrow> 'w \<Rightarrow> 'r res \<times> 'w) \<Rightarrow> 'w \<Rightarrow> 'r res \<times> 'w" where
  "on_request E R key f w =
     and_then (lift_res (NewKeyRequest E R key) w) (\<lambda>req w.
       case req of None \<Rightarrow> (Inl NilDereference, w) | Some req \<Rightarrow> f req w)"

definition rows_empty :: "rows \<Rightarrow> bool" where
  "rows_empty entities =
     (case entities of RClients ps \<Rightarrow> ps = [] | RBlocks ps \<Rightarrow> ps = [] | RTransactions ps \<Rightarrow> ps = []
      | REndpoints ps \<Rightarrow> ps = [] | RApps ps \<Rightarrow> ps = [] | RKeys ps \<Rightarrow> ps = [])"

definition Xorm_Has :: "'w env \<Rightarrow> 'w xorm \<Rightarrow> 'w datastores \<Rightarrow> string \<Rightarrow> 'w \<Rightarrow> bool res \<times> 'w" where
  "Xorm_Has E X R key =
     on_request E R key (\<lambda>req w. and_then (Xorm_get E X req w) (\<lambda>entities w. (Inr (\<not> rows_empty entities), w)))"

definition Xorm_GetSize :: "'w env \<Rightarrow> 'w xorm \<Rightarrow> 'w datastores \<Rightarrow> string \<Rightarrow> 'w \<Rightarrow> int res \<times> 'w" where
  "Xorm_GetSize E X R key =
     on_request E R key (\<lambda>req w.
       case ranged E req w of
         (kvs, w1) \<Rightarrow> (case xs_Count X (dr_Name req) kvs w1 of (n, w2) \<Rightarrow> (Inr n, w2)))"

definition Xorm_Delete :: "'w env \<Rightarrow> 'w xorm \<Rightarrow> 'w datastores \<Rightarrow> string \<Rightarrow> 'w \<Rightarrow> unit res \<times> 'w" where
  "Xorm_Delete E X R key =
     on_request E R key (\<lambda>req w.
       case map_of (dr_Keyvalue req) (dr_Keyname req) of
         None \<Rightarrow> (Inl (Err ''Delete need keyvalue''), w)
       | Some v \<Rightarrow>
           (case xs_Delete X (dr_Name req) [(dr_Keyname req, v)] w of
              (affected, w1) \<Rightarrow> if affected > 0 then (Inr (), w1) else (Inl (Err ''delete fail''), w1)))"

definition xorm_datastore :: "'w env \<Rightarrow> 'w xorm \<Rightarrow> 'w datastores \<Rightarrow> 'w datastore" where
  "xorm_datastore E X R = \<lparr>ds_Get = Xorm_Get E X R, ds_Put = Xorm_Put E X R, ds_Has = Xorm_Has E X R,
     ds_GetSize = Xorm_GetSize E X R, ds_Delete = Xorm_Delete E X R\<rparr>"

section \<open>The datastore and the service of the blocks\<close>

lemma block_keys_payload [simp]: "block_keys (db\<lparr>db_TransportPayload := x\<rparr>) = block_keys db"
  by (simp add: block_keys_def)




text \<open>
  C24: A put of a stored block succeeds only for its owner: the peer that stored it, or, for the deletion of
  a chat, its receiver; for any other peer it fails and leaves the world as it was after the lookup.
\<close>

theorem put_block_owner:
  assumes "env_now E w = (t, w0)"
    and "orm_GetDataBlock E (data_block0\<lparr>db_BlockId := db_BlockId db, db_SliceNumber := db_SliceNumber db\<rparr>) w0 = (Some oldDb, w1)"
    and "if db_BlockType db = BlockType_P2pChat \<and> db_TransportPayload db = []
         then db_PeerId db \<noteq> db_BusinessNumber oldDb else db_PeerId db \<noteq> db_PeerId oldDb"
  shows "\<exists>e. put_block E req db w = (Inl e, w1)"
  using assms by (auto simp: put_block_def check_owner_def Let_def split: if_splits)

text \<open>
  A payload that is moved to a file when its block is put is read back when the block is read: the block
  is completed to the one that was put, given that the file store returns what was written last and that
  base64 is decoded and encoded back.
\<close>

theorem payload_roundtrip:
  assumes "db_TransportPayload p \<noteq> []"
    and stored: "\<And>i d w. fst (file_Read E i (snd (file_Write E i d w))) = d"
    and base64: "lib_EncodeBase64 E (lib_DecodeBase64 E (db_TransportPayload p)) = db_TransportPayload p"
    and put: "put_payload E p w = (p1, w1)"
  shows "length (db_TransportPayload p1) \<le> PayloadLimit \<and> fst (read_payload E p1 w1) = p"
proof (cases "length (db_TransportPayload p) > PayloadLimit")
  case True
  let ?i = "content_id E (db_BlockId p) (db_SliceNumber p)"
  obtain err w2 where f: "file_Write E ?i (lib_DecodeBase64 E (db_TransportPayload p)) w = (err, w2)" by fastforce
  obtain d w3 where r: "file_Read E ?i w2 = (d, w3)" by fastforce
  have "d = lib_DecodeBase64 E (db_TransportPayload p)"
    using stored [of ?i "lib_DecodeBase64 E (db_TransportPayload p)" w] by (simp add: f r)
  moreover have "p1 = p\<lparr>db_TransportPayload := []\<rparr>" "w1 = w2"
    using True put by (simp_all add: put_payload_def f)
  ultimately show ?thesis using base64 by (simp add: read_payload_def r)
qed (use assms in \<open>auto simp: put_payload_def read_payload_def\<close>)

section \<open>Instances\<close>

definition any_request :: "'w dispatch_request" where
  "any_request = \<lparr>dr_Name = DataBlock_Prefix, dr_Keyname = DataBlock_KeyName,
     dr_Datastore = \<lparr>ds_Get = (\<lambda>_ w. (DsNotFound, w)), ds_Put = (\<lambda>_ _ w. (Inr (), w)),
       ds_Has = (\<lambda>_ w. (Inr False, w)), ds_GetSize = (\<lambda>_ w. (Inr 0, w)), ds_Delete = (\<lambda>_ w. (Inr (), w))\<rparr>,
     dr_Keyvalue = []\<rparr>"

definition a_block :: data_block where
  "a_block = data_block0\<lparr>db_BlockId := ''b'', db_SliceNumber := 2, db_BusinessNumber := ''n'', db_PeerId := ''p'',
     db_BlockType := BlockType_ChatAttach, db_TransportPayload := ''x''\<rparr>"



theorem put_block_owner_witness:
  "\<exists>e. put_block (sample_env\<lparr>orm_GetDataBlock := (\<lambda>_ w. (Some (a_block\<lparr>db_PeerId := ''q''\<rparr>), w))\<rparr>) any_request a_block () =
     (Inl e, ())"
  by (rule put_block_owner [where oldDb = "a_block\<lparr>db_PeerId := ''q''\<rparr>" and t = "Instant 0" and ?w0.0 = "()"])
    (simp_all add: a_block_def data_block0_def)

text \<open>The file store is the content that was written last.\<close>

definition last_file_env :: "string env" where
  "last_file_env = sample_env\<lparr>file_Write := (\<lambda>_ d _. (None, d)), file_Read := (\<lambda>_ w. (w, w))\<rparr>"

definition big_block :: data_block where
  "big_block = a_block\<lparr>db_TransportPayload := replicate (PayloadLimit + 1) CHR ''x''\<rparr>"

theorem payload_roundtrip_witness:
  "fst (read_payload last_file_env (fst (put_payload last_file_env big_block [])) (snd (put_payload last_file_env big_block []))) =
     big_block"
  using payload_roundtrip [of big_block last_file_env "[]" "fst (put_payload last_file_env big_block [])"
      "snd (put_payload last_file_env big_block [])"]
  by (simp add: last_file_env_def big_block_def a_block_def data_block0_def)

end
