(* ===== verification/Websockets.thy ===== *)
theory Websockets
  imports Prelude "HOL-Library.AList"
begin

text \<open>
  The websocket server, \<^verbatim>\<open>transport/websocket/stdhttp/server.go\<close>: connections of clients with their
  channels, the three goroutines of each connection, and the pool of the connections by session. The
  messages go to the handlers that \<^verbatim>\<open>p2p/chain/handler/receiver/default.go\<close> registers.

  Goroutines interleave: each has a position between two of its operations that may block or that share
  state with the others, and \<open>loopRead_next\<close>, \<open>loopWrite_next\<close> and \<open>loopHeartbeat_next\<close> go from one to the
  next. A \<open>select\<close> is the list of what its enabled branches lead to: the empty list blocks. \<open>Close\<close> runs
  under its locks and is one operation. The sizes of the channels are positive: a channel without a buffer
  hands over, which is not modelled. What a socket reads and whether it writes are parameters.
\<close>

section \<open>State\<close>

type_synonym ws_message = "int \<times> string"

datatype reader = RCheck | RRead | RQueue ws_message | RTake | RAnswer string | REnd
datatype writer = WCheck | WWait | WSend ws_message | WEnd
datatype heartbeat = HStart | HFirst | HSleep | HEnd

text \<open>
  \<open>wc_open\<close> and \<open>wc_wire\<close> are the socket: not closed by this side, and what has been written to it;
  \<open>wc_closeChan\<close> tells whether the channel is closed. Nothing is ever sent over it.
\<close>

record ws_conn =
  wc_session :: string
  wc_open :: bool
  wc_wire :: "ws_message list"
  wc_inChan :: "ws_message list"
  wc_outChan :: "ws_message list"
  wc_closeChan :: bool
  wc_isClosed :: bool
  wc_reader :: reader
  wc_writer :: writer
  wc_heartbeat :: heartbeat

definition new_ws_conn :: "string \<Rightarrow> ws_conn" where
  "new_ws_conn session = \<lparr>wc_session = session, wc_open = True, wc_wire = [], wc_inChan = [], wc_outChan = [],
     wc_closeChan = False, wc_isClosed = False, wc_reader = RCheck, wc_writer = WCheck, wc_heartbeat = HStart\<rparr>"

text \<open>A pointer to a connection is an index. \<open>ws_node\<close> is what the registered handlers work on.\<close>

record 's websockets =
  ws_conns :: "ws_conn list"
  ws_pool :: "(string \<times> nat) list"
  ws_node :: 's

type_synonym 's message_handler = "string \<Rightarrow> string \<Rightarrow> string \<Rightarrow> string \<Rightarrow> string \<Rightarrow> 's \<Rightarrow> string res \<times> 's"

record 's ws_env =
  we_Path :: string
  we_chanBufferSize :: nat
  we_messageHandler :: "'s message_handler option"
  we_disconnectedHandler :: "(string \<Rightarrow> 's \<Rightarrow> unit res \<times> 's) option"
  we_RemoteAddr :: "nat \<Rightarrow> string"

definition RegistMessageHandler :: "'s message_handler \<Rightarrow> 's ws_env \<Rightarrow> 's ws_env" where
  "RegistMessageHandler h W = W\<lparr>we_messageHandler := Some h\<rparr>"

definition RegistDisconnectedHandler :: "(string \<Rightarrow> 's \<Rightarrow> unit res \<times> 's) \<Rightarrow> 's ws_env \<Rightarrow> 's ws_env" where
  "RegistDisconnectedHandler h W = W\<lparr>we_disconnectedHandler := Some h\<rparr>"

abbreviation ws_conn_at :: "'s websockets \<Rightarrow> nat \<Rightarrow> ws_conn" where "ws_conn_at s c \<equiv> ws_conns s ! c"

definition set_ws :: "nat \<Rightarrow> (ws_conn \<Rightarrow> ws_conn) \<Rightarrow> 's websockets \<Rightarrow> 's websockets" where
  "set_ws c f s = s\<lparr>ws_conns := (ws_conns s)[c := f (ws_conn_at s c)]\<rparr>"

text \<open>What a step shows: a message that \<open>Write\<close> has accepted, one that has been handed to the handler.\<close>

datatype ws_event = Quiet | Opened string | Sent nat ws_message | Handled nat string

type_synonym 's outcome = "ws_event \<times> unit res \<times> 's websockets"

section \<open>Accepting connections\<close>

definition CheckOrigin :: "string \<Rightarrow> string \<Rightarrow> string \<Rightarrow> bool" where
  "CheckOrigin websocketPath requestMethod urlPath \<longleftrightarrow>
     (requestMethod = ''POST'' \<or> requestMethod = ''GET'') \<and> urlPath = websocketPath"

text \<open>A new connection takes the place of another one with the same session.\<close>

definition websocketHandler :: "'s ws_env \<Rightarrow> string \<Rightarrow> string \<Rightarrow> string \<Rightarrow> 's websockets \<Rightarrow> 's websockets" where
  "websocketHandler W requestMethod urlPath sessionId s =
     (if CheckOrigin (we_Path W) requestMethod urlPath then
        s\<lparr>ws_conns := ws_conns s @ [new_ws_conn sessionId],
          ws_pool := AList.update sessionId (length (ws_conns s)) (ws_pool s)\<rparr>
      else s)"

section \<open>Writing and closing\<close>

definition ws_Write :: "'s ws_env \<Rightarrow> ws_message \<Rightarrow> nat \<Rightarrow> 's websockets \<Rightarrow> 's outcome list" where
  "ws_Write W m c s =
     (if length (wc_outChan (ws_conn_at s c)) < we_chanBufferSize W
      then [(Sent c m, Inr (), set_ws c (\<lambda>k. k\<lparr>wc_outChan := wc_outChan k @ [m]\<rparr>) s)] else []) @
     (if wc_closeChan (ws_conn_at s c) then [(Quiet, Inl (Err ''connection is closeed''), s)] else [])"

definition SendRaw :: "'s ws_env \<Rightarrow> string \<Rightarrow> string \<Rightarrow> 's websockets \<Rightarrow> 's outcome list" where
  "SendRaw W sessionId data s =
     (case map_of (ws_pool s) sessionId of
        None \<Rightarrow> [(Quiet, Inl (Err ''NoConnection''), s)]
      | Some c \<Rightarrow> map (\<lambda>(ev, r, s1). (ev, map_sum (\<lambda>_. Err ''WriteFail'') (\<lambda>_. ()) r, s1)) (ws_Write W (2, data) c s))"

abbreviation ClosedTwice :: go_error where "ClosedTwice \<equiv> Panic ''close of closed channel''"

definition close_chan :: "nat \<Rightarrow> 's websockets \<Rightarrow> unit res \<times> 's websockets" where
  "close_chan c s =
     (if wc_closeChan (ws_conn_at s c) then (Inl ClosedTwice, s)
      else (Inr (), set_ws c (\<lambda>k. k\<lparr>wc_closeChan := True\<rparr>) s))"

text \<open>The registered handler returns nothing: only a panic of it matters.\<close>

definition notify_disconnected :: "'s ws_env \<Rightarrow> string \<Rightarrow> 's websockets \<Rightarrow> unit res \<times> 's websockets" where
  "notify_disconnected W sessionId s =
     (case we_disconnectedHandler W of
        None \<Rightarrow> (Inl NilDereference, s)
      | Some h \<Rightarrow>
          (case h sessionId (ws_node s) of
             (Inl (Panic p), n) \<Rightarrow> (Inl (Panic p), s\<lparr>ws_node := n\<rparr>)
           | (_, n) \<Rightarrow> (Inr (), s\<lparr>ws_node := n\<rparr>)))"

definition ws_Close :: "'s ws_env \<Rightarrow> nat \<Rightarrow> 's websockets \<Rightarrow> unit res \<times> 's websockets" where
  "ws_Close W c s =
     (let s1 = set_ws c (\<lambda>k. k\<lparr>wc_open := False\<rparr>) s;
          sessionId = wc_session (ws_conn_at s c) in
      and_then
        (if wc_isClosed (ws_conn_at s1 c) then (Inr (), s1)
         else and_then (close_chan c s1) (\<lambda>_ s2. (Inr (), set_ws c (\<lambda>k. k\<lparr>wc_isClosed := True\<rparr>) s2)))
        (\<lambda>_ s3. notify_disconnected W sessionId (s3\<lparr>ws_pool := AList.delete sessionId (ws_pool s3)\<rparr>)))"

section \<open>The goroutines of a connection\<close>

definition set_reader :: "nat \<Rightarrow> reader \<Rightarrow> 's websockets \<Rightarrow> 's websockets" where
  "set_reader c p = set_ws c (\<lambda>k. k\<lparr>wc_reader := p\<rparr>)"

definition set_writer :: "nat \<Rightarrow> writer \<Rightarrow> 's websockets \<Rightarrow> 's websockets" where
  "set_writer c p = set_ws c (\<lambda>k. k\<lparr>wc_writer := p\<rparr>)"

definition set_heartbeat :: "nat \<Rightarrow> heartbeat \<Rightarrow> 's websockets \<Rightarrow> 's websockets" where
  "set_heartbeat c p = set_ws c (\<lambda>k. k\<lparr>wc_heartbeat := p\<rparr>)"

text \<open>The goroutine calls \<open>Close\<close> and goes on as \<open>go\<close> says.\<close>

definition closing :: "'s ws_env \<Rightarrow> nat \<Rightarrow> ('s websockets \<Rightarrow> 's websockets) \<Rightarrow> 's websockets \<Rightarrow> 's outcome" where
  "closing W c go s = (case ws_Close W c s of (r, s1) \<Rightarrow> (Quiet, r, go s1))"

text \<open>\<open>read\<close>: the message that has been queued is handled; an error of the handler is dropped.\<close>

definition handle_message :: "'s ws_env \<Rightarrow> nat \<Rightarrow> string \<Rightarrow> 's websockets \<Rightarrow> 's outcome" where
  "handle_message W c data s =
     (case we_messageHandler W of
        None \<Rightarrow> (Quiet, Inr (), set_reader c RCheck s)
      | Some h \<Rightarrow>
          (case h data [] [] (wc_session (ws_conn_at s c)) (we_RemoteAddr W c) (ws_node s) of
             (Inl (Panic p), n) \<Rightarrow> (Handled c data, Inl (Panic p), s\<lparr>ws_node := n\<rparr>)
           | (Inl (Err e), n) \<Rightarrow> (Handled c data, Inr (), set_reader c RCheck (s\<lparr>ws_node := n\<rparr>))
           | (Inr response, n) \<Rightarrow>
               (Handled c data, Inr (),
                set_reader c (if response = [] then RCheck else RAnswer response) (s\<lparr>ws_node := n\<rparr>))))"

definition ws_read :: "'s ws_env \<Rightarrow> nat \<Rightarrow> 's websockets \<Rightarrow> 's outcome list" where
  "ws_read W c s =
     (case wc_inChan (ws_conn_at s c) of
        [] \<Rightarrow> []
      | m # ms \<Rightarrow> [handle_message W c (snd m) (set_ws c (\<lambda>k. k\<lparr>wc_inChan := ms\<rparr>) s)]) @
     (if wc_closeChan (ws_conn_at s c) then [closing W c (set_reader c RCheck) s] else [])"

text \<open>
  \<open>loopRead\<close>; \<open>inp\<close> is what \<open>ReadMessage\<close> returns: an error or a message. After a message \<open>ping\<close> the
  goroutine returns.
\<close>

definition loopRead_next :: "'s ws_env \<Rightarrow> unit + ws_message \<Rightarrow> nat \<Rightarrow> 's websockets \<Rightarrow> 's outcome list" where
  "loopRead_next W inp c s =
     (case wc_reader (ws_conn_at s c) of
        RCheck \<Rightarrow> [(Quiet, Inr (), set_reader c (if wc_isClosed (ws_conn_at s c) then REnd else RRead) s)]
      | RRead \<Rightarrow>
          (case inp of
             Inl _ \<Rightarrow> [closing W c (set_reader c REnd) s]
           | Inr m \<Rightarrow> [(Quiet, Inr (), set_reader c (if snd m = ''ping'' then REnd else RQueue m) s)])
      | RQueue m \<Rightarrow>
          (if length (wc_inChan (ws_conn_at s c)) < we_chanBufferSize W
           then [(Quiet, Inr (), set_reader c RTake (set_ws c (\<lambda>k. k\<lparr>wc_inChan := wc_inChan k @ [m]\<rparr>) s))] else []) @
          (if wc_closeChan (ws_conn_at s c) then [closing W c (set_reader c REnd) s] else [])
      | RTake \<Rightarrow> ws_read W c s
      | RAnswer data \<Rightarrow> map (\<lambda>(ev, _, s1). (ev, Inr (), set_reader c RCheck s1)) (ws_Write W (2, data) c s)
      | REnd \<Rightarrow> [])"

text \<open>\<open>loopWrite\<close>; \<open>ok\<close> is whether \<open>WriteMessage\<close> succeeds.\<close>

definition loopWrite_next :: "'s ws_env \<Rightarrow> bool \<Rightarrow> nat \<Rightarrow> 's websockets \<Rightarrow> 's outcome list" where
  "loopWrite_next W ok c s =
     (case wc_writer (ws_conn_at s c) of
        WCheck \<Rightarrow> [(Quiet, Inr (), set_writer c (if wc_isClosed (ws_conn_at s c) then WEnd else WWait) s)]
      | WWait \<Rightarrow>
          (case wc_outChan (ws_conn_at s c) of
             [] \<Rightarrow> []
           | m # ms \<Rightarrow> [(Quiet, Inr (), set_writer c (WSend m) (set_ws c (\<lambda>k. k\<lparr>wc_outChan := ms\<rparr>) s))]) @
          (if wc_closeChan (ws_conn_at s c) then [closing W c (set_writer c WEnd) s] else [])
      | WSend m \<Rightarrow>
          [if ok then (Quiet, Inr (), set_writer c WCheck (set_ws c (\<lambda>k. k\<lparr>wc_wire := wc_wire k @ [m]\<rparr>) s))
           else closing W c (set_writer c WEnd) s]
      | WEnd \<Rightarrow> [])"

text \<open>\<open>loopHeartbeat\<close>: after the first heartbeat the loop goes on, also when it has failed.\<close>

definition beat :: "'s ws_env \<Rightarrow> heartbeat \<Rightarrow> nat \<Rightarrow> 's websockets \<Rightarrow> 's outcome list" where
  "beat W failed c s =
     map (\<lambda>(ev, r, s1). case r of
            Inr _ \<Rightarrow> (ev, Inr (), set_heartbeat c HSleep s1)
          | Inl _ \<Rightarrow> closing W c (set_heartbeat c failed) s1)
       (ws_Write W (2, ''heartbeat:'' @ wc_session (ws_conn_at s c)) c s)"

definition loopHeartbeat_next :: "'s ws_env \<Rightarrow> nat \<Rightarrow> 's websockets \<Rightarrow> 's outcome list" where
  "loopHeartbeat_next W c s =
     (case wc_heartbeat (ws_conn_at s c) of
        HStart \<Rightarrow> [(Quiet, Inr (), set_heartbeat c (if wc_isClosed (ws_conn_at s c) then HEnd else HFirst) s)]
      | HFirst \<Rightarrow> beat W HSleep c s
      | HSleep \<Rightarrow> beat W HEnd c s
      | HEnd \<Rightarrow> [])"

section \<open>Requests over HTTP\<close>

text \<open>\<open>receiveHandler\<close>: the status and the body of the answer.\<close>

definition receiveHandler ::
  "'s ws_env \<Rightarrow> string \<Rightarrow> string \<Rightarrow> string \<Rightarrow> 's websockets \<Rightarrow> (int \<times> string) res \<times> 's websockets" where
  "receiveHandler W body sessId remoteAddr s =
     (case we_messageHandler W of
        None \<Rightarrow> (Inl NilDereference, s)
      | Some h \<Rightarrow>
          (case h body [] [] sessId remoteAddr (ws_node s) of
             (Inl (Panic p), n) \<Rightarrow> (Inl (Panic p), s\<lparr>ws_node := n\<rparr>)
           | (Inl (Err e), n) \<Rightarrow> (Inr (400, []), s\<lparr>ws_node := n\<rparr>)
           | (Inr data, n) \<Rightarrow> (Inr (200, data), s\<lparr>ws_node := n\<rparr>)))"

section \<open>The server\<close>

text \<open>
  The goroutines of the connections take turns with new connections, messages that the node sends, requests
  over HTTP, and whatever else changes the node.
\<close>

inductive ws_step :: "'s ws_env \<Rightarrow> ('s \<Rightarrow> 's \<Rightarrow> bool) \<Rightarrow> ws_event \<Rightarrow> 's websockets \<Rightarrow> 's websockets \<Rightarrow> bool"
  for W other where
  opened: "ws_step W other (Opened sess) s (websocketHandler W meth url sess s)"
| reads: "c < length (ws_conns s) \<Longrightarrow> (ev, Inr (), s') \<in> set (loopRead_next W inp c s) \<Longrightarrow> ws_step W other ev s s'"
| writes: "c < length (ws_conns s) \<Longrightarrow> (ev, Inr (), s') \<in> set (loopWrite_next W ok c s) \<Longrightarrow> ws_step W other ev s s'"
| beats: "c < length (ws_conns s) \<Longrightarrow> (ev, Inr (), s') \<in> set (loopHeartbeat_next W c s) \<Longrightarrow> ws_step W other ev s s'"
| sends: "(ev, r, s') \<in> set (SendRaw W sess data s) \<Longrightarrow> ws_step W other ev s s'"
| posts: "receiveHandler W body sess addr s = (Inr answer, s') \<Longrightarrow> ws_step W other Quiet s s'"
| others: "other (ws_node s) n \<Longrightarrow> ws_step W other Quiet s (s\<lparr>ws_node := n\<rparr>)"

inductive ws_run :: "'s ws_env \<Rightarrow> ('s \<Rightarrow> 's \<Rightarrow> bool) \<Rightarrow> 's websockets \<Rightarrow> ws_event list \<Rightarrow> 's websockets \<Rightarrow> bool"
  for W other s0 where
  start: "ws_run W other s0 [] s0"
| step: "ws_run W other s0 evs s \<Longrightarrow> ws_step W other ev s s' \<Longrightarrow> ws_run W other s0 (evs @ [ev]) s'"

definition no_sockets :: "'s \<Rightarrow> 's websockets" where
  "no_sockets n = \<lparr>ws_conns = [], ws_pool = [], ws_node = n\<rparr>"

end
