(* ===== verification/WebsocketRuns.thy ===== *)
theory WebsocketRuns
  imports Websockets AssocLists "HOL-Library.Sublist"
begin

text \<open>
  What holds of the websocket server in every interleaving of its goroutines: the state of the channels,
  the pool, the order of the messages, and what a client loses.
\<close>

section \<open>One step of a goroutine\<close>

lemma set_ws_fields [simp]:
  "length (ws_conns (set_ws c f s)) = length (ws_conns s)" "ws_pool (set_ws c f s) = ws_pool s"
  "ws_node (set_ws c f s) = ws_node s"
  "c < length (ws_conns s) \<Longrightarrow> ws_conn_at (set_ws c f s) c = f (ws_conn_at s c)"
  "d \<noteq> c \<Longrightarrow> ws_conn_at (set_ws c f s) d = ws_conn_at s d"
  by (simp_all add: set_ws_def)

lemma set_ws_node [simp]: "set_ws c f (s\<lparr>ws_node := n\<rparr>) = (set_ws c f s)\<lparr>ws_node := n\<rparr>"
  by (simp add: set_ws_def)

lemma set_ws_set_ws [simp]:
  "c < length (ws_conns s) \<Longrightarrow> set_ws c f (set_ws c g s) = set_ws c (\<lambda>k. f (g k)) s"
  by (simp add: set_ws_def)

text \<open>The messages that have been accepted and not yet written.\<close>

fun taken :: "writer \<Rightarrow> ws_message list" where
  "taken (WSend m) = [m]"
| "taken _ = []"

definition queued :: "ws_conn \<Rightarrow> ws_message list" where
  "queued k = taken (wc_writer k) @ wc_outChan k"

text \<open>What is in the channel of the received messages, by the position of the reader.\<close>

fun inChan_ok :: "reader \<Rightarrow> bool \<Rightarrow> ws_message list \<Rightarrow> bool" where
  "inChan_ok RTake isClosed ms \<longleftrightarrow> length ms = 1"
| "inChan_ok RCheck isClosed ms \<longleftrightarrow> length ms \<le> (if isClosed then 1 else 0)"
| "inChan_ok REnd isClosed ms \<longleftrightarrow> length ms \<le> 1"
| "inChan_ok _ isClosed ms \<longleftrightarrow> ms = []"

lemma inChan_ok_closed: "inChan_ok p isClosed ms \<Longrightarrow> inChan_ok p True ms"
  by (cases p) (auto split: if_splits)

definition conn_ok :: "'s ws_env \<Rightarrow> ws_conn \<Rightarrow> bool" where
  "conn_ok W k \<longleftrightarrow> wc_closeChan k = wc_isClosed k \<and> wc_open k = (\<not> wc_isClosed k) \<and>
     length (wc_outChan k) \<le> we_chanBufferSize W \<and>
     inChan_ok (wc_reader k) (wc_isClosed k) (wc_inChan k)"

lemma new_ws_conn_ok [simp]: "conn_ok W (new_ws_conn session)" "queued (new_ws_conn session) = []"
  by (simp_all add: conn_ok_def new_ws_conn_def queued_def)

text \<open>
  How a step of one of its goroutines, or a \<open>Write\<close> from elsewhere, changes a connection. A message is added
  to those that are queued, or the writer goes on: what it has written and what is queued stays the same,
  unless it ends.
\<close>

definition moves :: "'s ws_env \<Rightarrow> ws_event \<Rightarrow> nat \<Rightarrow> ws_conn \<Rightarrow> ws_conn \<Rightarrow> bool" where
  "moves W ev c k k' \<longleftrightarrow> wc_session k' = wc_session k \<and> (wc_isClosed k \<longrightarrow> wc_isClosed k') \<and> conn_ok W k' \<and>
     (wc_reader k = REnd \<longrightarrow> wc_reader k' = REnd \<and> (\<forall>data. ev \<noteq> Handled c data)) \<and>
     (case ev of
        Sent d m \<Rightarrow> d = c \<and> wc_wire k' = wc_wire k \<and> wc_writer k' = wc_writer k \<and> queued k' = queued k @ [m]
      | Opened _ \<Rightarrow> False
      | Handled d _ \<Rightarrow> d = c \<and> wc_wire k' = wc_wire k \<and> wc_writer k' = wc_writer k \<and> queued k' = queued k
      | Quiet \<Rightarrow> (wc_writer k' = WEnd \<and> wc_wire k' = wc_wire k) \<or>
          (wc_writer k \<noteq> WEnd \<and> wc_writer k' \<noteq> WEnd \<and> wc_wire k' @ queued k' = wc_wire k @ queued k))"

text \<open>The state after a step: the connection has moved, the pool is as it was or without a closed session.\<close>

definition stepped :: "'s ws_env \<Rightarrow> ws_event \<Rightarrow> nat \<Rightarrow> 's websockets \<Rightarrow> 's websockets \<Rightarrow> bool" where
  "stepped W ev c s s' \<longleftrightarrow> (\<exists>k'. moves W ev c (ws_conn_at s c) k' \<and> ws_conns s' = (ws_conns s)[c := k'] \<and>
     (ws_pool s' = ws_pool s \<and> wc_isClosed k' = wc_isClosed (ws_conn_at s c) \<or>
      ws_pool s' = AList.delete (wc_session k') (ws_pool s) \<and> wc_isClosed k'))"

lemma steppedI:
  assumes "c < length (ws_conns s)" "s' = (set_ws c f s)\<lparr>ws_pool := P, ws_node := n\<rparr>"
    "moves W ev c (ws_conn_at s c) (f (ws_conn_at s c))"
    "P = ws_pool s \<and> wc_isClosed (f (ws_conn_at s c)) = wc_isClosed (ws_conn_at s c) \<or>
     P = AList.delete (wc_session (ws_conn_at s c)) (ws_pool s) \<and> wc_isClosed (f (ws_conn_at s c))"
  shows "stepped W ev c s s'"
  using assms unfolding stepped_def
  by (intro exI [of _ "f (ws_conn_at s c)"]) (auto simp: set_ws_def moves_def)

definition close_conn :: "ws_conn \<Rightarrow> ws_conn" where
  "close_conn k = k\<lparr>wc_open := False, wc_closeChan := True, wc_isClosed := True\<rparr>"

lemma notify_disconnected_shape:
  "\<exists>n. snd (notify_disconnected W sess s) = s\<lparr>ws_node := n\<rparr>"
proof (cases "we_disconnectedHandler W")
  case None
  then show ?thesis by (auto simp: notify_disconnected_def intro: exI [of _ "ws_node s"])
next
  case (Some h)
  obtain r n where "h sess (ws_node s) = (r, n)" by fastforce
  with Some show ?thesis by (auto simp: notify_disconnected_def split: sum.split go_error.split)
qed

lemma ws_Close_eq:
  assumes "c < length (ws_conns s)" "conn_ok W (ws_conn_at s c)"
  shows "ws_Close W c s = notify_disconnected W (wc_session (ws_conn_at s c))
    ((set_ws c close_conn s)\<lparr>ws_pool := AList.delete (wc_session (ws_conn_at s c)) (ws_pool s)\<rparr>)"
proof -
  let ?k = "ws_conn_at s c"
  have "close_conn ?k = ?k\<lparr>wc_open := False\<rparr>" if "wc_isClosed ?k"
    using that assms(2) by (simp add: close_conn_def conn_ok_def)
  then have "set_ws c (\<lambda>k. k\<lparr>wc_open := False\<rparr>) s = set_ws c close_conn s" if "wc_isClosed ?k"
    using that by (simp add: set_ws_def)
  moreover have "(\<lambda>k. k\<lparr>wc_open := False, wc_closeChan := True, wc_isClosed := True\<rparr>) = close_conn"
    by (simp add: fun_eq_iff close_conn_def)
  ultimately show ?thesis
    using assms by (simp add: ws_Close_def Let_def close_chan_def conn_ok_def)
qed

lemma ws_Close_shape:
  assumes "c < length (ws_conns s)" "conn_ok W (ws_conn_at s c)"
  obtains n where "snd (ws_Close W c s) =
    (set_ws c close_conn s)\<lparr>ws_pool := AList.delete (wc_session (ws_conn_at s c)) (ws_pool s), ws_node := n\<rparr>"
proof -
  from notify_disconnected_shape [of W "wc_session (ws_conn_at s c)"
      "(set_ws c close_conn s)\<lparr>ws_pool := AList.delete (wc_session (ws_conn_at s c)) (ws_pool s)\<rparr>"]
  show ?thesis using that unfolding ws_Close_eq [OF assms] by auto
qed

lemma stepped_closing:
  assumes "c < length (ws_conns s)" "conn_ok W (ws_conn_at s c)" "closing W c (set_ws c f) s = (ev, r, s')"
    and "moves W Quiet c (ws_conn_at s c) (f (close_conn (ws_conn_at s c)))" "wc_isClosed (f (close_conn (ws_conn_at s c)))"
  shows "stepped W ev c s s'"
proof -
  obtain n where "snd (ws_Close W c s) =
    (set_ws c close_conn s)\<lparr>ws_pool := AList.delete (wc_session (ws_conn_at s c)) (ws_pool s), ws_node := n\<rparr>"
    by (rule ws_Close_shape [OF assms(1,2)])
  then have ev: "ev = Quiet" and s': "s' = (set_ws c (\<lambda>k. f (close_conn k)) s)\<lparr>
      ws_pool := AList.delete (wc_session (ws_conn_at s c)) (ws_pool s), ws_node := n\<rparr>"
    using assms(1,3) by (auto simp: closing_def set_ws_def split: prod.splits)
  from assms(4,5) show ?thesis unfolding ev by (intro steppedI [OF assms(1) s']) auto
qed

lemma stepped_moved:
  assumes "c < length (ws_conns s)" and "moves W ev c (ws_conn_at s c) (f (ws_conn_at s c))"
    and "wc_isClosed (f (ws_conn_at s c)) = wc_isClosed (ws_conn_at s c)"
  shows "stepped W ev c s (set_ws c f s)" "stepped W ev c s ((set_ws c f s)\<lparr>ws_node := n\<rparr>)"
  using assms by (auto simp: stepped_def set_ws_def intro!: exI [of _ "f (ws_conn_at s c)"])

lemmas move_defs = moves_def conn_ok_def queued_def close_conn_def

lemma Write_stepped:
  assumes "c < length (ws_conns s)" "conn_ok W (ws_conn_at s c)" "(ev, r, s') \<in> set (ws_Write W m c s)"
  shows "(r = Inr () \<longrightarrow> ev = Sent c m \<and> s' = set_ws c (\<lambda>k. k\<lparr>wc_outChan := wc_outChan k @ [m]\<rparr>) s \<and>
      length (wc_outChan (ws_conn_at s c)) < we_chanBufferSize W) \<and>
    (r \<noteq> Inr () \<longrightarrow> ev = Quiet \<and> s' = s \<and> wc_isClosed (ws_conn_at s c))"
  using assms(2,3) by (auto simp: ws_Write_def conn_ok_def split: if_splits)

lemma loopWrite_stepped:
  assumes "c < length (ws_conns s)" "conn_ok W (ws_conn_at s c)" "(ev, r, s') \<in> set (loopWrite_next W ok c s)"
  shows "stepped W ev c s s'"
proof -
  note ok = assms(2) and c = assms(1)
  show ?thesis
  proof (cases "wc_writer (ws_conn_at s c)")
    case WCheck
    with assms(3) have "ev = Quiet" "s' = set_writer c (if wc_isClosed (ws_conn_at s c) then WEnd else WWait) s"
      by (auto simp: loopWrite_next_def)
    with WCheck ok show ?thesis
      by (auto simp: set_writer_def move_defs intro!: stepped_moved [OF c])
  next
    case WWait
    with assms(3) consider m ms where "wc_outChan (ws_conn_at s c) = m # ms" "ev = Quiet"
        "s' = set_ws c (\<lambda>k. k\<lparr>wc_outChan := ms, wc_writer := WSend m\<rparr>) s"
      | "closing W c (set_writer c WEnd) s = (ev, r, s')"
      using c by (cases "wc_outChan (ws_conn_at s c)")
        (auto simp: loopWrite_next_def set_writer_def split: if_splits)
    then show ?thesis
    proof cases
      case 1
      with WWait ok show ?thesis by (auto simp: move_defs intro!: stepped_moved [OF c])
    next
      case 2
      with WWait ok show ?thesis
        by (intro stepped_closing [OF c ok 2 [unfolded set_writer_def]]) (auto simp: move_defs inChan_ok_closed)
    qed
  next
    case (WSend m)
    with assms(3) consider "ev = Quiet" "s' = set_ws c (\<lambda>k. k\<lparr>wc_wire := wc_wire k @ [m], wc_writer := WCheck\<rparr>) s"
      | "closing W c (set_writer c WEnd) s = (ev, r, s')"
      using c by (auto simp: loopWrite_next_def set_writer_def split: if_splits)
    then show ?thesis
    proof cases
      case 1
      with WSend ok show ?thesis by (auto simp: move_defs intro!: stepped_moved [OF c])
    next
      case 2
      with WSend ok show ?thesis
        by (intro stepped_closing [OF c ok 2 [unfolded set_writer_def]]) (auto simp: move_defs inChan_ok_closed)
    qed
  qed (use assms(3) in \<open>simp add: loopWrite_next_def\<close>)
qed

lemma handle_message_shape:
  assumes "handle_message W c data s = (ev, Inr (), s')"
  obtains p n where "ev = Quiet \<or> ev = Handled c data" "s' = (set_reader c p s)\<lparr>ws_node := n\<rparr>"
    "p = RCheck \<or> (\<exists>answer. p = RAnswer answer)"
proof (cases "we_messageHandler W")
  case None
  with assms show ?thesis by (intro that [where p = RCheck and n = "ws_node s"]) (auto simp: handle_message_def set_reader_def set_ws_def)
next
  case (Some h)
  obtain x n where "h data [] [] (wc_session (ws_conn_at s c)) (we_RemoteAddr W c) (ws_node s) = (x, n)" by fastforce
  with Some assms show ?thesis
    by (auto simp: handle_message_def set_reader_def split: sum.splits go_error.splits if_splits intro: that)
qed

lemma loopRead_stepped:
  assumes "c < length (ws_conns s)" "conn_ok W (ws_conn_at s c)" "(ev, Inr (), s') \<in> set (loopRead_next W inp c s)"
  shows "stepped W ev c s s'"
proof -
  note ok = assms(2) and c = assms(1)
  let ?k = "ws_conn_at s c"
  have closes: "stepped W ev c s s'" if "closing W c (set_reader c p) s = (ev, Inr (), s')"
      and "p = REnd \<or> p = RCheck" and "length (wc_inChan ?k) \<le> 1" and "wc_reader ?k \<noteq> REnd" for p
    using that ok
    by (intro stepped_closing [OF c ok that(1) [unfolded set_reader_def]]) (auto simp: move_defs)
  show ?thesis
  proof (cases "wc_reader ?k")
    case RCheck
    with assms(3) have "ev = Quiet" "s' = set_reader c (if wc_isClosed ?k then REnd else RRead) s"
      by (auto simp: loopRead_next_def)
    with RCheck ok show ?thesis by (auto simp: set_reader_def move_defs intro!: stepped_moved [OF c])
  next
    case RRead
    with ok have "wc_inChan ?k = []" by (simp add: conn_ok_def)
    with RRead assms(3) ok show ?thesis
      by (cases inp) (auto simp: loopRead_next_def set_reader_def move_defs
          intro!: stepped_moved [OF c] closes [of REnd, unfolded set_reader_def])
  next
    case (RQueue m)
    with ok have "wc_inChan ?k = []" by (simp add: conn_ok_def)
    with RQueue assms(3) ok c show ?thesis
      by (auto simp: loopRead_next_def set_reader_def move_defs split: if_splits
          intro!: stepped_moved [OF c] closes [of REnd, unfolded set_reader_def])
  next
    case RTake
    with ok obtain m where m: "wc_inChan ?k = [m]" by (auto simp: conn_ok_def length_Suc_conv)
    with RTake assms(3) consider "handle_message W c (snd m) (set_ws c (\<lambda>k. k\<lparr>wc_inChan := []\<rparr>) s) = (ev, Inr (), s')"
      | "closing W c (set_reader c RCheck) s = (ev, Inr (), s')"
      by (auto simp: loopRead_next_def ws_read_def split: if_splits)
    then show ?thesis
    proof cases
      case 1
      then obtain p n where "ev = Quiet \<or> ev = Handled c (snd m)" and p: "p = RCheck \<or> (\<exists>answer. p = RAnswer answer)"
        and "s' = (set_reader c p (set_ws c (\<lambda>k. k\<lparr>wc_inChan := []\<rparr>) s))\<lparr>ws_node := n\<rparr>"
        by (rule handle_message_shape)
      then have "s' = (set_ws c (\<lambda>k. k\<lparr>wc_inChan := [], wc_reader := p\<rparr>) s)\<lparr>ws_node := n\<rparr>"
        using c by (simp add: set_reader_def)
      moreover have "moves W ev c ?k (?k\<lparr>wc_inChan := [], wc_reader := p\<rparr>)"
        using \<open>ev = Quiet \<or> ev = Handled c (snd m)\<close> p RTake ok by (auto simp: move_defs)
      ultimately show ?thesis by (auto intro: stepped_moved(2) [OF c])
    next
      case 2
      with RTake m show ?thesis by (auto intro: closes)
    qed
  next
    case (RAnswer data)
    with assms(3) obtain r s1 where "(ev, r, s1) \<in> set (ws_Write W (2, data) c s)" "s' = set_reader c RCheck s1"
      by (auto simp: loopRead_next_def)
    with Write_stepped [OF c ok this(1)] RAnswer ok c show ?thesis
      by (cases "r = Inr ()") (auto simp: set_reader_def move_defs intro!: stepped_moved [OF c])
  qed (use assms(3) in \<open>simp add: loopRead_next_def\<close>)
qed

lemma beat_stepped:
  assumes "c < length (ws_conns s)" "conn_ok W (ws_conn_at s c)" "(ev, Inr (), s') \<in> set (beat W failed c s)"
  shows "stepped W ev c s s'"
proof -
  note ok = assms(2) and c = assms(1)
  let ?m = "(2, ''heartbeat:'' @ wc_session (ws_conn_at s c)) :: ws_message"
  obtain ev1 r s1 where w: "(ev1, r, s1) \<in> set (ws_Write W ?m c s)"
    and next_: "(ev, Inr (), s') = (case r of Inr _ \<Rightarrow> (ev1, Inr (), set_heartbeat c HSleep s1)
      | Inl _ \<Rightarrow> closing W c (set_heartbeat c failed) s1)"
    using assms(3) by (fastforce simp: beat_def)
  note shape = Write_stepped [OF c ok w]
  show ?thesis
  proof (cases r)
    case (Inl e)
    with shape next_ have "closing W c (set_heartbeat c failed) s = (ev, Inr (), s')" by auto
    from stepped_closing [OF c ok this [unfolded set_heartbeat_def]] ok show ?thesis
      by (auto simp: move_defs inChan_ok_closed)
  next
    case (Inr u)
    with shape next_ ok c show ?thesis
      by (auto simp: set_heartbeat_def move_defs intro!: stepped_moved [OF c])
  qed
qed

lemma loopHeartbeat_stepped:
  assumes "c < length (ws_conns s)" "conn_ok W (ws_conn_at s c)" "(ev, Inr (), s') \<in> set (loopHeartbeat_next W c s)"
  shows "stepped W ev c s s'"
proof (cases "wc_heartbeat (ws_conn_at s c)")
  case HStart
  with assms show ?thesis
    by (auto simp: loopHeartbeat_next_def set_heartbeat_def move_defs intro!: stepped_moved [OF assms(1)])
qed (use assms in \<open>auto simp: loopHeartbeat_next_def intro: beat_stepped\<close>)

section \<open>The state of the server\<close>

definition server_ok :: "'s ws_env \<Rightarrow> 's websockets \<Rightarrow> bool" where
  "server_ok W s \<longleftrightarrow> list_all (conn_ok W) (ws_conns s) \<and> distinct (map fst (ws_pool s)) \<and>
     (\<forall>(sess, c)\<in>set (ws_pool s). c < length (ws_conns s) \<and> wc_session (ws_conn_at s c) = sess \<and>
        \<not> wc_isClosed (ws_conn_at s c))"

lemma server_ok_conn: "server_ok W s \<Longrightarrow> c < length (ws_conns s) \<Longrightarrow> conn_ok W (ws_conn_at s c)"
  by (simp add: server_ok_def list_all_length)

lemma server_ok_pool:
  "server_ok W s \<Longrightarrow> map_of (ws_pool s) sess = Some c \<Longrightarrow>
    c < length (ws_conns s) \<and> wc_session (ws_conn_at s c) = sess \<and> \<not> wc_isClosed (ws_conn_at s c)"
  by (fastforce simp: server_ok_def dest: map_of_SomeD)

lemma no_sockets_ok: "server_ok W (no_sockets n)"
  by (simp add: server_ok_def no_sockets_def)

lemma stepped_ok:
  assumes ok: "server_ok W s" and c: "c < length (ws_conns s)" and "stepped W ev c s s'"
  shows "server_ok W s'"
proof -
  from assms(3) obtain k' where k': "moves W ev c (ws_conn_at s c) k'" and conns: "ws_conns s' = (ws_conns s)[c := k']"
    and pool: "ws_pool s' = ws_pool s \<and> wc_isClosed k' = wc_isClosed (ws_conn_at s c) \<or>
      ws_pool s' = AList.delete (wc_session k') (ws_pool s) \<and> wc_isClosed k'"
    by (auto simp: stepped_def)
  have "list_all (conn_ok W) (ws_conns s')"
    using ok k' c by (auto simp: server_ok_def conns list_all_length nth_list_update moves_def)
  moreover have "distinct (map fst (ws_pool s'))"
    using ok pool by (auto simp: server_ok_def AList.distinct_delete)
  moreover have "d < length (ws_conns s') \<and> wc_session (ws_conn_at s' d) = sess \<and> \<not> wc_isClosed (ws_conn_at s' d)"
    if "(sess, d) \<in> set (ws_pool s')" for sess d
  proof -
    have old: "(sess, d) \<in> set (ws_pool s)"
      and new: "ws_pool s' = ws_pool s \<and> wc_isClosed k' = wc_isClosed (ws_conn_at s c) \<or> sess \<noteq> wc_session k'"
      using that pool delete_key [of "(sess, d)" "wc_session k'" "ws_pool s"] by auto
    then have "d < length (ws_conns s)" "wc_session (ws_conn_at s d) = sess" "\<not> wc_isClosed (ws_conn_at s d)"
      using ok by (auto simp: server_ok_def)
    moreover have "\<not> wc_isClosed k'" if "d = c"
      using new calculation k' that by (auto simp: moves_def)
    ultimately show ?thesis using k' c by (auto simp: conns nth_list_update moves_def)
  qed
  ultimately show ?thesis by (auto simp: server_ok_def)
qed

lemma SendRaw_stepped:
  assumes "server_ok W s" "(ev, r, s') \<in> set (SendRaw W sess data s)"
  shows "(\<exists>c < length (ws_conns s). stepped W ev c s s') \<or> ev = Quiet \<and> s' = s"
proof (cases "map_of (ws_pool s) sess")
  case None
  with assms(2) show ?thesis by (simp add: SendRaw_def)
next
  case (Some c)
  with assms(1) have c: "c < length (ws_conns s)" and ok: "conn_ok W (ws_conn_at s c)"
    by (auto dest: server_ok_pool intro: server_ok_conn)
  from Some assms(2) obtain r1 where "(ev, r1, s') \<in> set (ws_Write W (2, data) c s)" by (auto simp: SendRaw_def)
  with Write_stepped [OF c ok this] c ok show ?thesis
    by (cases "r1 = Inr ()") (auto simp: move_defs intro!: exI [of _ c] stepped_moved [OF c])
qed

text \<open>What a step of the server can be.\<close>

lemma ws_step_shape:
  assumes "ws_step W other ev s s'" and ok: "server_ok W s"
  obtains (opened) sess meth url where "ev = Opened sess" "s' = websocketHandler W meth url sess s"
    | (stepped) c where "c < length (ws_conns s)" "stepped W ev c s s'"
    | (same) "ev = Quiet" "ws_conns s' = ws_conns s" "ws_pool s' = ws_pool s"
  using assms(1)
proof cases
  case (reads c inp)
  from loopRead_stepped [OF this(1) server_ok_conn [OF ok this(1)] this(2)] show ?thesis by (rule stepped [OF reads(1)])
next
  case (writes c ok')
  from loopWrite_stepped [OF this(1) server_ok_conn [OF ok this(1)] this(2)] show ?thesis by (rule stepped [OF writes(1)])
next
  case (beats c)
  from loopHeartbeat_stepped [OF this(1) server_ok_conn [OF ok this(1)] this(2)] show ?thesis by (rule stepped [OF beats(1)])
next
  case (posts body sess addr answer)
  then show ?thesis
    by (auto simp: receiveHandler_def split: option.splits prod.splits sum.splits go_error.splits intro: same)
next
  case (sends r sess data)
  from SendRaw_stepped [OF ok this] show ?thesis using stepped same by auto
qed (use opened same in auto)

text \<open>
  What both websocket servers have in common: a step opens a connection, moves one, or leaves all of them as
  they are. What follows for their runs is proved once.
\<close>

definition server_moves :: "'s ws_env \<Rightarrow> ws_event \<Rightarrow> 's websockets \<Rightarrow> 's websockets \<Rightarrow> bool" where
  "server_moves W ev s s' \<longleftrightarrow>
     (\<exists>sess. ev = Opened sess \<and> ws_conns s' = ws_conns s @ [new_ws_conn sess] \<and>
       ws_pool s' = AList.update sess (length (ws_conns s)) (ws_pool s)) \<or>
     (\<exists>c < length (ws_conns s). stepped W ev c s s') \<or>
     ((\<exists>sess. ev = Opened sess) \<or> ev = Quiet) \<and> ws_conns s' = ws_conns s \<and> ws_pool s' = ws_pool s"

lemma server_moves_cases [consumes 1, case_names opened stepped same]:
  assumes "server_moves W ev s s'"
  obtains sess where "ev = Opened sess" "ws_conns s' = ws_conns s @ [new_ws_conn sess]"
      "ws_pool s' = AList.update sess (length (ws_conns s)) (ws_pool s)"
    | c where "c < length (ws_conns s)" "stepped W ev c s s'"
    | "(\<exists>sess. ev = Opened sess) \<or> ev = Quiet" "ws_conns s' = ws_conns s" "ws_pool s' = ws_pool s"
  using assms by (auto simp: server_moves_def)

lemma opened_moves: "server_moves W (Opened sess) s (websocketHandler W' meth url sess s)"
  by (simp add: server_moves_def websocketHandler_def)

lemma opened_ok:
  assumes "server_ok W s" and s': "ws_conns s' = ws_conns s @ [new_ws_conn sess]"
    "ws_pool s' = AList.update sess (length (ws_conns s)) (ws_pool s)"
  shows "server_ok W s'"
proof -
  have distinct: "distinct (map fst (ws_pool s))" using assms by (simp add: server_ok_def)
  have "d < length (ws_conns s') \<and> wc_session (ws_conn_at s' d) = k \<and> \<not> wc_isClosed (ws_conn_at s' d)"
    if "(k, d) \<in> set (ws_pool s')" for k d
  proof -
    from update_entry [OF distinct, of k d sess "length (ws_conns s)"] that
    consider "k = sess" "d = length (ws_conns s)" | "(k, d) \<in> set (ws_pool s)" by (auto simp: s')
    then show ?thesis
    proof cases
      case 1
      then show ?thesis by (simp add: s' new_ws_conn_def)
    next
      case 2
      with assms have "d < length (ws_conns s)" "wc_session (ws_conn_at s d) = k" "\<not> wc_isClosed (ws_conn_at s d)"
        by (auto simp: server_ok_def)
      then show ?thesis by (simp add: s' nth_append)
    qed
  qed
  with assms distinct show ?thesis by (auto simp: server_ok_def s' AList.distinct_update)
qed

lemma server_moves_ok:
  assumes "server_moves W ev s s'" and "server_ok W s"
  shows "server_ok W s'"
  using assms(1)
proof (cases rule: server_moves_cases)
  case same
  with assms(2) show ?thesis by (simp add: server_ok_def)
qed (use assms(2) opened_ok stepped_ok in blast)+

section \<open>The order of the messages\<close>

definition accepted :: "nat \<Rightarrow> ws_event list \<Rightarrow> ws_message list" where
  "accepted c evs = List.map_filter (\<lambda>ev. case ev of Sent d m \<Rightarrow> if d = c then Some m else None | _ \<Rightarrow> None) evs"

lemma accepted_snoc [simp]:
  "accepted c [] = []"
  "accepted c (evs @ [ev]) = accepted c evs @ (case ev of Sent d m \<Rightarrow> if d = c then [m] else [] | _ \<Rightarrow> [])"
  by (auto simp: accepted_def List.map_filter_def split: ws_event.split)

definition flows :: "ws_event list \<Rightarrow> nat \<Rightarrow> ws_conn \<Rightarrow> bool" where
  "flows evs c k \<longleftrightarrow> prefix (wc_wire k) (accepted c evs) \<and>
     (wc_writer k \<noteq> WEnd \<longrightarrow> accepted c evs = wc_wire k @ queued k)"

lemma flows_moves: "flows evs c k \<Longrightarrow> moves W ev c k k' \<Longrightarrow> flows (evs @ [ev]) c k'"
  by (cases ev; auto simp: flows_def moves_def prefix_def; metis)

lemma flows_other: "flows evs d k \<Longrightarrow> moves W ev c k1 k' \<Longrightarrow> c \<noteq> d \<Longrightarrow> flows (evs @ [ev]) d k"
  by (cases ev) (auto simp: flows_def moves_def)

lemma server_moves_flows:
  assumes "server_moves W ev s s'"
    and "(\<forall>c < length (ws_conns s). flows evs c (ws_conn_at s c)) \<and> (\<forall>c \<ge> length (ws_conns s). accepted c evs = [])"
  shows "(\<forall>c < length (ws_conns s'). flows (evs @ [ev]) c (ws_conn_at s' c)) \<and>
    (\<forall>c \<ge> length (ws_conns s'). accepted c (evs @ [ev]) = [])"
  using assms(1)
proof (cases rule: server_moves_cases)
  case (opened sess)
  with assms(2) show ?thesis
    by (auto simp: nth_append less_Suc_eq flows_def new_ws_conn_def queued_def)
next
  case (stepped c)
  then obtain k' where k': "moves W ev c (ws_conn_at s c) k'" "ws_conns s' = (ws_conns s)[c := k']"
    by (auto simp: stepped_def)
  have "flows (evs @ [ev]) d (ws_conn_at s' d)" if "d < length (ws_conns s)" for d
    using assms(2) k' that flows_moves [OF _ k'(1)] flows_other [OF _ k'(1)] by (cases "d = c") auto
  moreover have "accepted d (evs @ [ev]) = []" if "length (ws_conns s) \<le> d" for d
    using assms(2) k' that stepped(1) by (cases ev) (auto simp: moves_def)
  ultimately show ?thesis using k'(2) by simp
next
  case same
  with assms(2) show ?thesis by (auto simp: flows_def)
qed

locale socket_server =
  fixes W :: "'s ws_env" and steps :: "ws_event \<Rightarrow> 's websockets \<Rightarrow> 's websockets \<Rightarrow> bool"
    and runs :: "'s websockets \<Rightarrow> ws_event list \<Rightarrow> 's websockets \<Rightarrow> bool"
  assumes run_cases: "runs s0 evs s \<Longrightarrow>
      evs = [] \<and> s = s0 \<or> (\<exists>evs1 ev s1. evs = evs1 @ [ev] \<and> runs s0 evs1 s1 \<and> steps ev s1 s)"
    and step_moves: "steps ev s s' \<Longrightarrow> server_ok W s \<Longrightarrow> server_moves W ev s s'"
begin

lemma run_ok: "runs s0 evs s \<Longrightarrow> server_ok W s0 \<Longrightarrow> server_ok W s"
proof (induction evs arbitrary: s rule: rev_induct)
  case (snoc ev evs)
  then obtain s1 where "runs s0 evs s1" "steps ev s1 s" using run_cases [OF snoc.prems(1)] by auto
  with snoc show ?case by (blast intro: server_moves_ok step_moves)
qed (use run_cases in fastforce)

lemma run_flows:
  "runs (no_sockets n) evs s \<Longrightarrow> (\<forall>c < length (ws_conns s). flows evs c (ws_conn_at s c)) \<and>
     (\<forall>c \<ge> length (ws_conns s). accepted c evs = [])"
proof (induction evs arbitrary: s rule: rev_induct)
  case Nil
  with run_cases [OF Nil] show ?case by (simp add: no_sockets_def)
next
  case (snoc ev evs)
  then obtain s1 where s1: "runs (no_sockets n) evs s1" "steps ev s1 s" using run_cases [OF snoc.prems] by auto
  from step_moves [OF s1(2) run_ok [OF s1(1) no_sockets_ok]] snoc.IH [OF s1(1)]
  show ?case by (rule server_moves_flows)
qed

lemma run_reader_ended:
  assumes "runs s evs s'" and "server_ok W s" "c < length (ws_conns s)" "wc_reader (ws_conn_at s c) = REnd"
  shows "c < length (ws_conns s') \<and> wc_reader (ws_conn_at s' c) = REnd \<and> (\<forall>data. Handled c data \<notin> set evs)"
  using assms(1)
proof (induction evs arbitrary: s' rule: rev_induct)
  case Nil
  with run_cases [OF Nil] assms show ?case by simp
next
  case (snoc ev evs)
  then obtain s1 where s1: "runs s evs s1" "steps ev s1 s'" using run_cases [OF snoc.prems] by auto
  note IH = snoc.IH [OF s1(1)]
  from step_moves [OF s1(2) run_ok [OF s1(1) assms(2)]] show ?case
  proof (cases rule: server_moves_cases)
    case (opened sess)
    with IH show ?thesis by (auto simp: nth_append)
  next
    case (stepped d)
    then obtain k' where k': "moves W ev d (ws_conn_at s1 d) k'" "ws_conns s' = (ws_conns s1)[d := k']"
      by (auto simp: stepped_def)
    then show ?thesis
      using IH by (cases "d = c"; cases ev) (auto simp: moves_def)
  qed (use IH in auto)
qed

end

lemma ws_run_cases: "ws_run W other s0 evs s \<Longrightarrow>
    evs = [] \<and> s = s0 \<or> (\<exists>evs1 ev s1. evs = evs1 @ [ev] \<and> ws_run W other s0 evs1 s1 \<and> ws_step W other ev s1 s)"
  by (erule ws_run.cases) auto

lemma ws_step_moves: "ws_step W other ev s s' \<Longrightarrow> server_ok W s \<Longrightarrow> server_moves W ev s s'"
  by (erule (1) ws_step_shape) (simp add: opened_moves, auto simp: server_moves_def)

interpretation std_server: socket_server W "ws_step W other" "ws_run W other" for W other
  by unfold_locales (use ws_run_cases ws_step_moves in blast)+

section \<open>What happens to the node\<close>

text \<open>A step of the server calls at most one of the registered handlers.\<close>

definition node_moves :: "'s ws_env \<Rightarrow> 's \<Rightarrow> 's \<Rightarrow> bool" where
  "node_moves W n n' \<longleftrightarrow> n' = n \<or>
     (\<exists>h data sess addr r. we_messageHandler W = Some h \<and> h data [] [] sess addr n = (r, n')) \<or>
     (\<exists>h sess r. we_disconnectedHandler W = Some h \<and> h sess n = (r, n'))"

lemma node_moves_intros:
  "node_moves W n n"
  "we_messageHandler W = Some h \<Longrightarrow> h data [] [] sess addr n = (r, n') \<Longrightarrow> node_moves W n n'"
  "we_disconnectedHandler W = Some h' \<Longrightarrow> h' sess n = (r', n') \<Longrightarrow> node_moves W n n'"
  by (auto simp: node_moves_def)

lemma goroutine_fields [simp]:
  "ws_node (set_reader c p s) = ws_node s" "ws_node (set_writer c q s) = ws_node s"
  "ws_node (set_heartbeat c b s) = ws_node s"
  by (simp_all add: set_reader_def set_writer_def set_heartbeat_def)

lemma ws_Write_node: "(ev, r, s') \<in> set (ws_Write W m c s) \<Longrightarrow> ws_node s' = ws_node s"
  by (auto simp: ws_Write_def split: if_splits)

lemma notify_disconnected_node:
  "notify_disconnected W sess s = (r, s') \<Longrightarrow> node_moves W (ws_node s) (ws_node s')"
  unfolding notify_disconnected_def
  by (auto split: option.splits prod.splits sum.splits go_error.splits intro: node_moves_intros)

lemma ws_Close_node: "ws_Close W c s = (r, s') \<Longrightarrow> node_moves W (ws_node s) (ws_node s')"
  by (auto simp: ws_Close_def Let_def and_then_def close_chan_def split: if_splits
      dest!: notify_disconnected_node intro: node_moves_intros(1))

lemma closing_node:
  "closing W c go s = (ev, r, s') \<Longrightarrow> (\<And>s. ws_node (go s) = ws_node s) \<Longrightarrow> node_moves W (ws_node s) (ws_node s')"
  by (auto simp: closing_def split: prod.splits dest: ws_Close_node)

lemma handle_message_node:
  "handle_message W c data s = (ev, r, s') \<Longrightarrow> node_moves W (ws_node s) (ws_node s')"
  unfolding handle_message_def
  by (auto split: option.splits prod.splits sum.splits go_error.splits intro: node_moves_intros)

lemma ws_step_node:
  assumes "ws_step W other ev s s'"
  obtains (moves) "node_moves W (ws_node s) (ws_node s')" | (outside) "other (ws_node s) (ws_node s')"
  using assms
proof cases
  case (opened sess meth url)
  then have "ws_node s' = ws_node s" by (simp add: websocketHandler_def)
  then show ?thesis by (simp add: moves node_moves_intros(1))
next
  case (reads c inp)
  then show ?thesis
    by (auto simp: loopRead_next_def ws_read_def node_moves_intros(1) dest!: ws_Write_node handle_message_node [OF sym]
        dest: closing_node [OF sym] split: reader.splits sum.splits list.splits if_splits intro!: moves)
next
  case (writes c ok)
  then show ?thesis
    by (auto simp: loopWrite_next_def node_moves_intros(1) dest: closing_node [OF sym]
        split: writer.splits list.splits if_splits intro!: moves)
next
  case (beats c)
  then show ?thesis
    by (auto simp: loopHeartbeat_next_def beat_def node_moves_intros(1) split: heartbeat.splits sum.splits
        dest!: ws_Write_node closing_node [OF sym] intro!: moves)
next
  case (sends r sess data)
  then show ?thesis
    by (auto simp: SendRaw_def node_moves_intros(1) split: option.splits dest!: ws_Write_node intro!: moves)
next
  case (posts body sess addr answer)
  then show ?thesis
    by (auto simp: receiveHandler_def node_moves_intros split: option.splits prod.splits sum.splits go_error.splits
        intro!: moves)
qed (simp add: outside)

section \<open>Properties\<close>

text \<open>
  C7: whatever the clients do and in whichever order the goroutines run: the close channel of a connection
  is closed exactly when the connection is marked as closed, the queues hold no more than their size, a
  message that a reader has put into its queue is there when it takes it out, and each entry of the pool is
  an open connection under its own session.
\<close>

theorem sockets_invariant:
  assumes "ws_run W other (no_sockets n) evs s"
  shows "server_ok W s"
  using std_server.run_ok [OF assms no_sockets_ok] .

text \<open>
  C13: what is written to the socket of a client is a prefix of what \<open>Write\<close> has accepted for it, in the same
  order, without loss or repetition; as long as the writing goroutine runs, the rest is what is queued.
\<close>

theorem sent_in_order:
  assumes "ws_run W other (no_sockets n) evs s" and "c < length (ws_conns s)"
  shows "\<exists>rest. accepted c evs = wc_wire (ws_conn_at s c) @ rest \<and>
    (wc_writer (ws_conn_at s c) \<noteq> WEnd \<longrightarrow> rest = queued (ws_conn_at s c))"
  using std_server.run_flows [OF assms(1)] assms(2) by (auto simp: flows_def prefix_def)

text \<open>
  C30: closing takes the session out of the pool, so that nothing can be sent under it any more, also when
  the client has connected again with the same session: the new connection stays open and is lost to the
  node.
\<close>

theorem closing_loses_session:
  assumes "ws_run W other (no_sockets n) evs s" and "c < length (ws_conns s)" and "ws_Close W c s = (r, s')"
  shows "SendRaw W (wc_session (ws_conn_at s c)) data s' = [(Quiet, Inl (Err ''NoConnection''), s')] \<and>
    wc_isClosed (ws_conn_at s' c) \<and> (\<forall>d. d \<noteq> c \<longrightarrow> ws_conn_at s' d = ws_conn_at s d)"
proof -
  from std_server.run_ok [OF assms(1) no_sockets_ok] have "conn_ok W (ws_conn_at s c)" using assms(2) by (rule server_ok_conn)
  with assms(2) obtain n' where "snd (ws_Close W c s) = (set_ws c close_conn s)\<lparr>
      ws_pool := AList.delete (wc_session (ws_conn_at s c)) (ws_pool s), ws_node := n'\<rparr>"
    by (rule ws_Close_shape)
  with assms(2,3) show ?thesis
    by (auto simp: SendRaw_def AList.delete_conv' close_conn_def set_ws_def)
qed

text \<open>
  A connection is closed at most once: in a reachable state \<open>Close\<close> returns whenever the registered
  handler does, and never closes a closed channel, however many goroutines have called it before.
\<close>

theorem Close_returns:
  assumes "ws_run W other (no_sockets n) evs s" and "c < length (ws_conns s)"
    and "we_disconnectedHandler W = Some h" and "\<And>p m. fst (h (wc_session (ws_conn_at s c)) m) \<noteq> Inl (Panic p)"
  shows "fst (ws_Close W c s) = Inr ()"
proof -
  from std_server.run_ok [OF assms(1) no_sockets_ok] have ok: "conn_ok W (ws_conn_at s c)" using assms(2) by (rule server_ok_conn)
  have "fst (h (wc_session (ws_conn_at s c)) (ws_node s)) \<noteq> Inl (Panic p)" for p by (rule assms(4))
  then have "fst (notify_disconnected W (wc_session (ws_conn_at s c)) s1) = Inr ()" if "ws_node s1 = ws_node s" for s1
    using that assms(3) unfolding notify_disconnected_def
    by (cases "h (wc_session (ws_conn_at s c)) (ws_node s)") (auto split: sum.split go_error.split)
  then show ?thesis unfolding ws_Close_eq [OF assms(2) ok] by simp
qed

text \<open>
  A client that sends \<open>ping\<close> is never heard again: the connection stays open, and in no continuation
  of the run is a message of it handled. The comment says that a \<open>ping\<close> is ignored.
\<close>

theorem ping_ends_reading:
  assumes "ws_run W other (no_sockets n) evs s" and "c < length (ws_conns s)" and "wc_reader (ws_conn_at s c) = RRead"
    and "(ev, r, s1) \<in> set (loopRead_next W (Inr (t, ''ping'')) c s)" and "ws_run W other s1 evs' s'"
  shows "wc_isClosed (ws_conn_at s1 c) = wc_isClosed (ws_conn_at s c) \<and> (\<forall>data. Handled c data \<notin> set evs')"
proof -
  have s1: "s1 = set_reader c REnd s" "ev = Quiet" "r = Inr ()" using assms(3,4) by (auto simp: loopRead_next_def)
  have "stepped W ev c s s1"
    using loopRead_stepped [OF assms(2)] server_ok_conn [OF std_server.run_ok [OF assms(1) no_sockets_ok] assms(2)] assms(4)
    unfolding s1(3) by blast
  then have "server_ok W s1" by (rule stepped_ok [OF std_server.run_ok [OF assms(1) no_sockets_ok] assms(2)])
  with std_server.run_reader_ended [OF assms(5), of c] assms(2) show ?thesis by (simp add: s1(1) set_reader_def)
qed

section \<open>Witnesses\<close>

definition sample_server :: "unit ws_env" where
  "sample_server = \<lparr>we_Path = ''/ws'', we_chanBufferSize = 1, we_messageHandler = Some (\<lambda>_ _ _ _ _ n. (Inr [], n)),
     we_disconnectedHandler = Some (\<lambda>_ n. (Inr (), n)), we_RemoteAddr = \<lambda>_. []\<rparr>"

abbreviation nothing_else :: "unit \<Rightarrow> unit \<Rightarrow> bool" where "nothing_else \<equiv> \<lambda>_ _. False"

definition opened_sample :: "unit websockets" where
  "opened_sample = websocketHandler sample_server ''GET'' ''/ws'' ''a'' (no_sockets ())"

lemma opened_sample_eq: "opened_sample = \<lparr>ws_conns = [new_ws_conn ''a''], ws_pool = [(''a'', 0)], ws_node = ()\<rparr>"
  by (simp add: opened_sample_def websocketHandler_def CheckOrigin_def sample_server_def no_sockets_def)

lemma opened_sample_run: "ws_run sample_server nothing_else (no_sockets ()) ([] @ [Opened ''a'']) opened_sample"
  unfolding opened_sample_def by (rule ws_run.step [OF ws_run.start ws_step.opened])

definition sent_sample :: "unit websockets" where
  "sent_sample = set_ws 0 (\<lambda>k. k\<lparr>wc_outChan := [(2, ''x'')]\<rparr>) opened_sample"

lemma sent_sample_run:
  "ws_run sample_server nothing_else (no_sockets ()) (([] @ [Opened ''a'']) @ [Sent 0 (2, ''x'')]) sent_sample"
proof (rule ws_run.step [OF opened_sample_run ws_step.sends])
  show "(Sent 0 (2, ''x''), Inr (), sent_sample) \<in> set (SendRaw sample_server ''a'' ''x'' opened_sample)"
    by (simp add: SendRaw_def ws_Write_def opened_sample_eq sample_server_def new_ws_conn_def sent_sample_def set_ws_def)
qed

definition reading_sample :: "unit websockets" where "reading_sample = set_reader 0 RRead opened_sample"

lemma reading_sample_run:
  "ws_run sample_server nothing_else (no_sockets ()) (([] @ [Opened ''a'']) @ [Quiet]) reading_sample"
proof (rule ws_run.step [OF opened_sample_run ws_step.reads])
  show "(Quiet, Inr (), reading_sample) \<in> set (loopRead_next sample_server (Inl ()) 0 opened_sample)"
    by (simp add: loopRead_next_def opened_sample_eq new_ws_conn_def reading_sample_def)
qed (simp add: opened_sample_eq)

theorem sockets_invariant_witness: "server_ok sample_server sent_sample"
  by (rule sockets_invariant [OF sent_sample_run])

theorem sent_in_order_witness:
  "\<exists>rest. accepted 0 (([] @ [Opened ''a'']) @ [Sent 0 (2, ''x'')]) = wc_wire (ws_conn_at sent_sample 0) @ rest"
  using sent_in_order [OF sent_sample_run, of 0] by (auto simp: sent_sample_def opened_sample_eq)

theorem closing_loses_session_witness:
  "SendRaw sample_server ''a'' ''x'' (snd (ws_Close sample_server 0 opened_sample)) =
     [(Quiet, Inl (Err ''NoConnection''), snd (ws_Close sample_server 0 opened_sample))]"
  using closing_loses_session [OF opened_sample_run, of 0, OF _ prod.collapse [symmetric], of "''x''"]
  by (simp add: opened_sample_eq new_ws_conn_def)

theorem Close_returns_witness: "fst (ws_Close sample_server 0 opened_sample) = Inr ()"
  by (rule Close_returns [OF opened_sample_run, where h = "\<lambda>_ n. (Inr (), n)"]) (simp_all add: opened_sample_eq sample_server_def)

theorem ping_ends_reading_witness:
  "(Quiet, Inr (), set_reader 0 REnd reading_sample) \<in>
     set (loopRead_next sample_server (Inr (1, ''ping'')) 0 reading_sample) \<and>
   \<not> wc_isClosed (ws_conn_at (set_reader 0 REnd reading_sample) 0)"
proof
  show read: "(Quiet, Inr (), set_reader 0 REnd reading_sample) \<in>
     set (loopRead_next sample_server (Inr (1, ''ping'')) 0 reading_sample)"
    by (simp add: loopRead_next_def reading_sample_def set_reader_def opened_sample_eq)
  show "\<not> wc_isClosed (ws_conn_at (set_reader 0 REnd reading_sample) 0)"
    using ping_ends_reading [OF reading_sample_run _ _ read ws_run.start]
    by (simp add: reading_sample_def set_reader_def opened_sample_eq new_ws_conn_def)
qed

end
