(* ===== verification/Pipes.thy ===== *)
theory Pipes
  imports Relay
begin

text \<open>
  The pipes over the streams of libp2p, \<^verbatim>\<open>libp2p/pipe\<close>: the pools of connections and of pipes by session,
  the framing of the messages, and \<open>HandleRaw\<close>, which hands a message to the handler of its protocol,
  writes the answer and closes the stream. \<^verbatim>\<open>libp2p/connmgr.go\<close> calls \<open>Disconnect\<close> and \<open>Close\<close>.
\<close>

section \<open>State\<close>

text \<open>
  Connections, streams and pipes are shared by pointers: a pointer is an index into the list of all of them.
  \<open>st_open\<close> is false once this side has closed or reset the stream, \<open>st_wire\<close> is what has been written.
\<close>

record network_conn =
  nc_ID :: string
  nc_RemotePeer :: string
  nc_RemoteMultiaddr :: string
  nc_open :: bool

record stream =
  st_ID :: string
  st_Conn :: nat
  st_Protocol :: string
  st_open :: bool
  st_wire :: string

text \<open>
  A pipe reads one message: \<open>CreatePipe\<close> starts one goroutine, whose \<open>Read\<close> has no loop. \<open>Blocked\<close> is a
  \<open>Read\<close> that sends to \<open>inChan\<close>, which nothing ever assigns: a send to a nil channel blocks for good, and
  the goroutine keeps the lock of the pipe.
\<close>

datatype reading = Unread | Blocked | Done

record pipe =
  pi_stream :: nat
  pi_direct :: string
  pi_sync :: bool
  pi_reading :: reading

record pipes =
  pw_conns :: "network_conn list"
  pw_streams :: "stream list"
  pw_pipes :: "pipe list"
  pw_Peerstore :: "(string \<times> string list) list"
  NetworkConnectionPool :: "string \<rightharpoonup> nat"
  ResponsePipePool :: "string \<rightharpoonup> nat"

text \<open>
  What the host does: open a stream on a connection, dial a peer, which gives a stream on a connection that
  exists or on a new one, and write to a stream.
\<close>

record 'w host =
  ho_ConnNewStream :: "nat \<Rightarrow> 'w \<Rightarrow> string res"
  ho_NewStream :: "string \<Rightarrow> string \<Rightarrow> 'w \<Rightarrow> ((nat + network_conn) \<times> string) res"
  ho_Write :: "nat \<Rightarrow> string \<Rightarrow> 'w \<Rightarrow> go_error option"
  ho_ChainProtocolID :: string

abbreviation stream_at :: "'a pipes_scheme \<Rightarrow> nat \<Rightarrow> stream" where "stream_at w i \<equiv> pw_streams w ! i"
abbreviation pipe_at :: "'a pipes_scheme \<Rightarrow> nat \<Rightarrow> pipe" where "pipe_at w p \<equiv> pw_pipes w ! p"
abbreviation conn_at :: "'a pipes_scheme \<Rightarrow> nat \<Rightarrow> network_conn" where "conn_at w c \<equiv> pw_conns w ! c"

definition GetStream :: "nat \<Rightarrow> 'a pipes_scheme \<Rightarrow> stream" where
  "GetStream p w = stream_at w (pi_stream (pipe_at w p))"

definition pipe_conn :: "nat \<Rightarrow> 'a pipes_scheme \<Rightarrow> network_conn" where
  "pipe_conn p w = conn_at w (st_Conn (GetStream p w))"

definition set_stream :: "nat \<Rightarrow> (stream \<Rightarrow> stream) \<Rightarrow> 'a pipes_scheme \<Rightarrow> 'a pipes_scheme" where
  "set_stream i f w = w\<lparr>pw_streams := (pw_streams w)[i := f (stream_at w i)]\<rparr>"

definition set_pipe :: "nat \<Rightarrow> (pipe \<Rightarrow> pipe) \<Rightarrow> 'a pipes_scheme \<Rightarrow> 'a pipes_scheme" where
  "set_pipe p f w = w\<lparr>pw_pipes := (pw_pipes w)[p := f (pipe_at w p)]\<rparr>"

definition new_stream :: "stream \<Rightarrow> 'a pipes_scheme \<Rightarrow> nat \<times> 'a pipes_scheme" where
  "new_stream st w = (length (pw_streams w), w\<lparr>pw_streams := pw_streams w @ [st]\<rparr>)"

section \<open>Pipes\<close>

definition Pipe_CreatePipe :: "nat \<Rightarrow> string \<Rightarrow> 'a pipes_scheme \<Rightarrow> nat \<times> 'a pipes_scheme" where
  "Pipe_CreatePipe stream direct w =
     (length (pw_pipes w),
      w\<lparr>pw_pipes := pw_pipes w @ [\<lparr>pi_stream = stream, pi_direct = direct, pi_sync = False, pi_reading = Unread\<rparr>]\<rparr>)"

definition Pipe_Close :: "nat \<Rightarrow> 'a pipes_scheme \<Rightarrow> 'a pipes_scheme" where
  "Pipe_Close p w = set_stream (pi_stream (pipe_at w p)) (\<lambda>st. st\<lparr>st_open := False\<rparr>) w"

definition Pipe_Reset :: "nat \<Rightarrow> 'a pipes_scheme \<Rightarrow> 'a pipes_scheme" where
  "Pipe_Reset p w = set_stream (pi_stream (pipe_at w p)) (\<lambda>st. st\<lparr>st_open := False\<rparr>) (Pipe_Close p w)"

text \<open>
  \<open>None\<close> is a call that never returns: it waits for the lock of a pipe whose \<open>Read\<close> is blocked. The data go
  straight to the stream, so the buffer that is flushed is empty. The channel that is returned is always nil.
\<close>

definition Pipe_Write ::
  "('a pipes_scheme) host \<Rightarrow> nat \<Rightarrow> string \<Rightarrow> bool \<Rightarrow> 'a pipes_scheme \<Rightarrow> (go_error option \<times> 'a pipes_scheme) option" where
  "Pipe_Write H p data sync w =
     (let i = pi_stream (pipe_at w p);
          data = data @ [CHR 0x0A] in
      case ho_Write H i data w of
        Some err \<Rightarrow> Some (Some err, w)
      | None \<Rightarrow>
          let w1 = set_stream i (\<lambda>st. st\<lparr>st_wire := st_wire st @ data\<rparr>) w in
          if pi_reading (pipe_at w p) = Blocked then None
          else Some (None, set_pipe p (\<lambda>x. x\<lparr>pi_sync := sync\<rparr>) w1))"

text \<open>\<open>ReadBytes\<close>: up to and with the first newline; \<open>None\<close> is the error of a stream that ends before.\<close>

fun ReadBytes :: "string \<Rightarrow> string option" where
  "ReadBytes [] = None"
| "ReadBytes (b # bs) = (if b = CHR 0x0A then Some [b] else map_option ((#) b) (ReadBytes bs))"

section \<open>The pools\<close>

definition GetResponsePipe ::
  "('a pipes_scheme) host \<Rightarrow> string \<Rightarrow> 'a pipes_scheme \<Rightarrow> nat option \<times> 'a pipes_scheme" where
  "GetResponsePipe H connectSessionId w =
     (case ResponsePipePool w connectSessionId of
        Some p \<Rightarrow> (Some p, w)
      | None \<Rightarrow>
          (case NetworkConnectionPool w connectSessionId of
             None \<Rightarrow> (None, w)
           | Some conn \<Rightarrow>
               (case ho_ConnNewStream H conn w of
                  Inl _ \<Rightarrow> (None, w)
                | Inr streamId \<Rightarrow>
                    let (stream, w1) = new_stream \<lparr>st_ID = streamId, st_Conn = conn,
                          st_Protocol = ho_ChainProtocolID H, st_open = True, st_wire = []\<rparr> w;
                        (p, w2) = Pipe_CreatePipe stream MsgDirect_Request w1
                    in (Some p, w2\<lparr>ResponsePipePool := (ResponsePipePool w2)(connectSessionId \<mapsto> p)\<rparr>))))"

text \<open>A peer is named by its identity or by a multiaddress, which is kept for dialling it.\<close>

definition GetRequestPipe ::
  "'b library_scheme \<Rightarrow> ('a pipes_scheme) host \<Rightarrow> string \<Rightarrow> string \<Rightarrow> 'a pipes_scheme \<Rightarrow>
   nat option \<times> 'a pipes_scheme" where
  "GetRequestPipe E H peerId protocolId w =
     (case (if has_prefix peerId ''/'' then
              (case lib_P2pAddr E peerId of
                 Inl _ \<Rightarrow> (None, w)
               | Inr (ID, addrs) \<Rightarrow> (Some ID, w\<lparr>pw_Peerstore := pw_Peerstore w @ [(ID, addrs)]\<rparr>))
            else (case lib_PeerDecode E peerId of Inl _ \<Rightarrow> (None, w) | Inr ID \<Rightarrow> (Some ID, w))) of
        (None, w1) \<Rightarrow> (None, w1)
      | (Some ID, w1) \<Rightarrow>
          (case ho_NewStream H ID protocolId w1 of
             Inl _ \<Rightarrow> (None, w1)
           | Inr (over, streamId) \<Rightarrow>
               let (conn, w2) = (case over of
                      Inl c \<Rightarrow> (c, w1)
                    | Inr c \<Rightarrow> (length (pw_conns w1), w1\<lparr>pw_conns := pw_conns w1 @ [c]\<rparr>));
                   (stream, w3) = new_stream \<lparr>st_ID = streamId, st_Conn = conn, st_Protocol = protocolId,
                      st_open = True, st_wire = []\<rparr> w2;
                   (p, w4) = Pipe_CreatePipe stream MsgDirect_Request w3
               in (Some p, w4)))"

text \<open>An incoming stream. Another connection with the same session is closed and replaced.\<close>

definition CreatePipe :: "nat \<Rightarrow> string \<Rightarrow> 'a pipes_scheme \<Rightarrow> nat \<times> 'a pipes_scheme" where
  "CreatePipe stream direct w =
     (let (p, w1) = Pipe_CreatePipe stream direct w;
          conn = st_Conn (stream_at w stream);
          connectSessionId = nc_ID (conn_at w conn);
          w2 = (case NetworkConnectionPool w1 connectSessionId of
                  None \<Rightarrow> w1\<lparr>NetworkConnectionPool := (NetworkConnectionPool w1)(connectSessionId \<mapsto> conn)\<rparr>
                | Some oldConn \<Rightarrow>
                    if conn \<noteq> oldConn then
                      w1\<lparr>pw_conns := (pw_conns w1)[oldConn := (conn_at w1 oldConn)\<lparr>nc_open := False\<rparr>],
                         NetworkConnectionPool := (NetworkConnectionPool w1)(connectSessionId \<mapsto> conn)\<rparr>
                    else w1) in
      (p, case ResponsePipePool w2 connectSessionId of
            None \<Rightarrow> w2\<lparr>ResponsePipePool := (ResponsePipePool w2)(connectSessionId \<mapsto> p)\<rparr>
          | Some _ \<Rightarrow> w2))"

text \<open>\<open>ClosedStream\<close> passes the identities of the stream and of its connection.\<close>

definition Pool_Close :: "string \<Rightarrow> string \<Rightarrow> 'a pipes_scheme \<Rightarrow> 'a pipes_scheme" where
  "Pool_Close connectSessionId streamId w =
     (case ResponsePipePool w connectSessionId of
        None \<Rightarrow> w
      | Some p \<Rightarrow>
          if st_ID (GetStream p w) = streamId
          then w\<lparr>ResponsePipePool := (ResponsePipePool w)(connectSessionId := None)\<rparr> else w)"

section \<open>Messages\<close>

text \<open>
  \<open>HandleRaw\<close>; an error of the handler is dropped, no data is the empty string. \<open>Inl\<close> is a panic, \<open>None\<close>
  a call that does not return.
\<close>

definition HandleRaw ::
  "('a pipes_scheme) host \<Rightarrow> ('a pipes_scheme, 'c) node protocol_message_handlers \<Rightarrow> string \<Rightarrow> nat \<Rightarrow>
   ('a pipes_scheme, 'c) node \<Rightarrow> (string res \<times> ('a pipes_scheme, 'c) node) option" where
  "HandleRaw H hs data p s =
     (let w = nd_world s;
          conn = pipe_conn p w;
          sessId = nc_ID conn;
          s1 = s\<lparr>nd_world := w\<lparr>ResponsePipePool := (ResponsePipePool w)(sessId \<mapsto> p)\<rparr>\<rparr> in
      case GetProtocolMessageHandler (st_Protocol (GetStream p w)) hs of
        Inl _ \<Rightarrow> Some (Inl NilDereference, s1)
      | Inr handler \<Rightarrow>
          (case pmh_MessageHandler handler data (nc_RemotePeer conn) [] sessId (nc_RemoteMultiaddr conn) s1 of
             (Inl (Panic e), s2) \<Rightarrow> Some (Inl (Panic e), s2)
           | (r, s2) \<Rightarrow>
               let out = (case r of Inl _ \<Rightarrow> [] | Inr out \<Rightarrow> out) in
               map_option (\<lambda>w3. (Inr out, s2\<lparr>nd_world := Pipe_Reset p w3\<rparr>))
                 (if out = [] then Some (nd_world s2)
                  else map_option snd (Pipe_Write H p out False (nd_world s2)))))"

text \<open>
  The goroutine of a pipe, when the stream delivers the bytes \<open>received\<close> and then ends. If an answer is
  awaited, it blocks.
\<close>

definition Pipe_Read ::
  "('a pipes_scheme) host \<Rightarrow> ('a pipes_scheme, 'c) node protocol_message_handlers \<Rightarrow> string \<Rightarrow> nat \<Rightarrow>
   ('a pipes_scheme, 'c) node \<Rightarrow> (unit res \<times> ('a pipes_scheme, 'c) node) option" where
  "Pipe_Read H hs received p s =
     (let mark = (\<lambda>r. s\<lparr>nd_world := set_pipe p (\<lambda>x. x\<lparr>pi_reading := r\<rparr>) (nd_world s)\<rparr>) in
      case ReadBytes received of
        None \<Rightarrow> Some (Inr (), mark Done)
      | Some data \<Rightarrow>
          if pi_sync (pipe_at (nd_world s) p) then Some (Inr (), mark Blocked)
          else map_option (\<lambda>(r, s'). (map_sum id (\<lambda>_. ()) r, s')) (HandleRaw H hs data p (mark Done)))"

section \<open>Closed connections\<close>

fun disconnect_client :: "'w env \<Rightarrow> string \<Rightarrow> peer_client option list \<Rightarrow> 'w \<Rightarrow> unit res \<times> 'w" where
  "disconnect_client E sess [] w = (Inr (), w)"
| "disconnect_client E sess (None # pcs) w = (Inl NilDereference, w)"
| "disconnect_client E sess (Some pc # pcs) w =
     (if pc_ConnectSessionId pc = sess then
        (case env_now E w of (now, w1) \<Rightarrow>
           drop_error (PeerClient_PutValues E
             (pc\<lparr>pc_LastAccessTime := Some now, pc_ActiveStatus := ActiveStatus_Down\<rparr>) w1))
      else disconnect_client E sess pcs w)"

definition Disconnect ::
  "('a pipes_scheme) env \<Rightarrow> ('a pipes_scheme) datastores \<Rightarrow> string \<Rightarrow> string \<Rightarrow> string \<Rightarrow> 'a pipes_scheme \<Rightarrow>
   unit res \<times> 'a pipes_scheme" where
  "Disconnect E R peerId clientId connectSessionId w =
     (case NetworkConnectionPool w connectSessionId of
        None \<Rightarrow> (Inr (), w)
      | Some _ \<Rightarrow>
          let w1 = w\<lparr>NetworkConnectionPool := (NetworkConnectionPool w)(connectSessionId := None)\<rparr> in
          and_then (or_none (PeerClient_GetLocals E R (GetPeerClientKey peerId) clientId w1))
            (\<lambda>(peerClients, _). disconnect_client E connectSessionId peerClients))"

section \<open>The node over the pipes\<close>

text \<open>
  \<open>Relay\<close> takes the pipes as parameters: here they are. It never writes synchronously, and a write that
  does not return has no result, which \<open>pool_run_ok\<close> below excludes.
\<close>

definition write_async :: "('a pipes_scheme) host \<Rightarrow> nat \<Rightarrow> string \<Rightarrow> 'a pipes_scheme \<Rightarrow> go_error option \<times> 'a pipes_scheme" where
  "write_async H p data w =
     (case Pipe_Write H p data False w of Some r \<Rightarrow> r | None \<Rightarrow> (Some (Err ''blocked''), w))"

definition with_pipes :: "('a pipes_scheme) host \<Rightarrow> ('a pipes_scheme) env \<Rightarrow> ('a pipes_scheme) env" where
  "with_pipes H E = E\<lparr>net_RequestPipe := GetRequestPipe E H, net_ResponsePipe := GetResponsePipe H,
     net_PipeWrite := write_async H\<rparr>"

inductive pipe_step ::
  "('a pipes_scheme) host \<Rightarrow> ('a pipes_scheme) env \<Rightarrow> ('a pipes_scheme) datastores \<Rightarrow>
   ('a pipes_scheme, 'c) node protocol_message_handlers \<Rightarrow>
   (('a pipes_scheme, 'c) node \<Rightarrow> ('a pipes_scheme, 'c) node \<Rightarrow> bool) \<Rightarrow>
   ('a pipes_scheme, 'c) node \<Rightarrow> ('a pipes_scheme, 'c) node \<Rightarrow> bool" for H E R hs other where
  connected: "nd_world s = w \<Longrightarrow> pipe_step H E R hs other s (s\<lparr>nd_world := w\<lparr>pw_conns := pw_conns w @ [c]\<rparr>\<rparr>)"
| incoming: "nd_world s = w \<Longrightarrow> c < length (pw_conns w) \<Longrightarrow>
    new_stream \<lparr>st_ID = sid, st_Conn = c, st_Protocol = ho_ChainProtocolID H, st_open = True, st_wire = []\<rparr> w =
      (i, w1) \<Longrightarrow> CreatePipe i MsgDirect_Response w1 = (p, w2) \<Longrightarrow> pipe_step H E R hs other s (s\<lparr>nd_world := w2\<rparr>)"
| reads: "p < length (pw_pipes (nd_world s)) \<Longrightarrow> pi_reading (pipe_at (nd_world s) p) = Unread \<Longrightarrow>
    Pipe_Read H hs received p s = Some (Inr (), s') \<Longrightarrow> pipe_step H E R hs other s s'"
| disconnected: "c < length (pw_conns (nd_world s)) \<Longrightarrow> conn_at (nd_world s) c = k \<Longrightarrow>
    on_world (Disconnect E R (nc_RemotePeer k) [] (nc_ID k)) s = (Inr (), s') \<Longrightarrow> pipe_step H E R hs other s s'"
| closed: "nd_world s = w \<Longrightarrow> i < length (pw_streams w) \<Longrightarrow> stream_at w i = st \<Longrightarrow>
    pipe_step H E R hs other s (s\<lparr>nd_world := Pool_Close (nc_ID (conn_at w (st_Conn st))) (st_ID st) w\<rparr>)"
| others: "other s s' \<Longrightarrow> pipe_step H E R hs other s s'"

definition no_pipes :: "pipes" where
  "no_pipes = \<lparr>pw_conns = [], pw_streams = [], pw_pipes = [], pw_Peerstore = [],
     NetworkConnectionPool = Map.empty, ResponsePipePool = Map.empty\<rparr>"

end
