(* ===== verification/PipeRuns.thy ===== *)
theory PipeRuns
  imports Pipes Effects
begin

text \<open>
  What holds of the pools of the pipes in every order of the events of the host and of the node, and what
  becomes of a pipe after its message has been handled.
\<close>

section \<open>The invariant\<close>

definition pipes_ok :: "'a pipes_scheme \<Rightarrow> bool" where
  "pipes_ok w \<longleftrightarrow>
     (\<forall>st \<in> set (pw_streams w). st_Conn st < length (pw_conns w)) \<and>
     (\<forall>x \<in> set (pw_pipes w). pi_stream x < length (pw_streams w) \<and> \<not> pi_sync x \<and> pi_reading x \<noteq> Blocked) \<and>
     (\<forall>k c. NetworkConnectionPool w k = Some c \<longrightarrow> c < length (pw_conns w) \<and> nc_ID (conn_at w c) = k) \<and>
     (\<forall>k p. ResponsePipePool w k = Some p \<longrightarrow> p < length (pw_pipes w) \<and> nc_ID (pipe_conn p w) = k)"

lemma pipes_okD:
  assumes "pipes_ok w"
  shows "i < length (pw_streams w) \<Longrightarrow> st_Conn (stream_at w i) < length (pw_conns w)"
    "p < length (pw_pipes w) \<Longrightarrow> pi_stream (pipe_at w p) < length (pw_streams w)"
    "p < length (pw_pipes w) \<Longrightarrow> \<not> pi_sync (pipe_at w p)"
    "p < length (pw_pipes w) \<Longrightarrow> pi_reading (pipe_at w p) \<noteq> Blocked"
    "NetworkConnectionPool w k = Some c \<Longrightarrow> c < length (pw_conns w) \<and> nc_ID (conn_at w c) = k"
    "ResponsePipePool w k = Some p \<Longrightarrow> p < length (pw_pipes w) \<and> nc_ID (pipe_conn p w) = k"
  using assms nth_mem [of i "pw_streams w"] nth_mem [of p "pw_pipes w"] by (auto simp: pipes_ok_def)

text \<open>
  What the operations of the node may do to the pipes: add connections, streams and pipes, write, close, and
  fill entries of the pools that are empty.
\<close>

definition pipes_kept :: "'a pipes_scheme \<Rightarrow> 'a pipes_scheme \<Rightarrow> bool" where
  "pipes_kept w w' \<longleftrightarrow> (pipes_ok w \<longrightarrow> pipes_ok w') \<and>
     length (pw_conns w) \<le> length (pw_conns w') \<and> length (pw_streams w) \<le> length (pw_streams w') \<and>
     length (pw_pipes w) \<le> length (pw_pipes w') \<and>
     (\<forall>c < length (pw_conns w). nc_ID (conn_at w' c) = nc_ID (conn_at w c)) \<and>
     (\<forall>i < length (pw_streams w). st_Conn (stream_at w' i) = st_Conn (stream_at w i) \<and>
        st_ID (stream_at w' i) = st_ID (stream_at w i) \<and> (\<not> st_open (stream_at w i) \<longrightarrow> \<not> st_open (stream_at w' i))) \<and>
     (\<forall>p < length (pw_pipes w). pi_stream (pipe_at w' p) = pi_stream (pipe_at w p)) \<and>
     (\<forall>k p. ResponsePipePool w k = Some p \<longrightarrow> ResponsePipePool w' k = Some p)"

lemma pipes_keptD:
  assumes "pipes_kept w w'"
  shows "pipes_ok w \<Longrightarrow> pipes_ok w'"
    "length (pw_conns w) \<le> length (pw_conns w')" "length (pw_streams w) \<le> length (pw_streams w')"
    "length (pw_pipes w) \<le> length (pw_pipes w')"
    "c < length (pw_conns w) \<Longrightarrow> nc_ID (conn_at w' c) = nc_ID (conn_at w c)"
    "i < length (pw_streams w) \<Longrightarrow> st_Conn (stream_at w' i) = st_Conn (stream_at w i)"
    "i < length (pw_streams w) \<Longrightarrow> st_ID (stream_at w' i) = st_ID (stream_at w i)"
    "i < length (pw_streams w) \<Longrightarrow> \<not> st_open (stream_at w i) \<Longrightarrow> \<not> st_open (stream_at w' i)"
    "p < length (pw_pipes w) \<Longrightarrow> pi_stream (pipe_at w' p) = pi_stream (pipe_at w p)"
    "ResponsePipePool w k = Some q \<Longrightarrow> ResponsePipePool w' k = Some q"
  using assms unfolding pipes_kept_def by blast+

lemma pipes_kept_refl [simp]: "pipes_kept w w"
  by (simp add: pipes_kept_def)

lemma pipes_kept_trans:
  assumes "pipes_kept w1 w2" "pipes_kept w2 w3"
  shows "pipes_kept w1 w3"
proof -
  have len: "length (pw_conns w1) \<le> length (pw_conns w2)" "length (pw_streams w1) \<le> length (pw_streams w2)"
    "length (pw_pipes w1) \<le> length (pw_pipes w2)" using assms(1) by (auto dest: pipes_keptD)
  then show ?thesis
    unfolding pipes_kept_def
    using pipes_keptD [OF assms(1)] pipes_keptD [OF assms(2)] order_trans [OF len(1)] order_trans [OF len(2)]
      order_trans [OF len(3)] order_less_le_trans [OF _ len(1)] order_less_le_trans [OF _ len(2)]
      order_less_le_trans [OF _ len(3)]
    by (intro conjI impI allI) simp_all
qed

interpretation kept: effect pipes_kept
  by unfold_locales (auto intro: pipes_kept_trans)

lemma pipes_kept_conn:
  assumes "pipes_kept w w'" "pipes_ok w" "p < length (pw_pipes w)"
  shows "nc_ID (pipe_conn p w') = nc_ID (pipe_conn p w)" "st_ID (GetStream p w') = st_ID (GetStream p w)"
    "st_Conn (GetStream p w') = st_Conn (GetStream p w)" "\<not> st_open (GetStream p w) \<Longrightarrow> \<not> st_open (GetStream p w')"
  using pipes_okD(2) [OF assms(2,3)] pipes_okD(1) [OF assms(2)] assms(3)
  by (simp_all add: pipe_conn_def GetStream_def pipes_keptD [OF assms(1)])

section \<open>The operations\<close>

lemma set_fields [simp]:
  "pw_conns (set_stream i f w) = pw_conns w" "pw_pipes (set_stream i f w) = pw_pipes w"
  "length (pw_streams (set_stream i f w)) = length (pw_streams w)"
  "ResponsePipePool (set_stream i f w) = ResponsePipePool w"
  "NetworkConnectionPool (set_stream i f w) = NetworkConnectionPool w"
  "pw_conns (set_pipe p g w) = pw_conns w" "pw_streams (set_pipe p g w) = pw_streams w"
  "length (pw_pipes (set_pipe p g w)) = length (pw_pipes w)"
  "ResponsePipePool (set_pipe p g w) = ResponsePipePool w"
  "NetworkConnectionPool (set_pipe p g w) = NetworkConnectionPool w"
  by (simp_all add: set_stream_def set_pipe_def)

lemma set_at:
  "i < length (pw_streams w) \<Longrightarrow> stream_at (set_stream i f w) j = (if j = i then f (stream_at w i) else stream_at w j)"
  "p < length (pw_pipes w) \<Longrightarrow> pipe_at (set_pipe p g w) q = (if q = p then g (pipe_at w p) else pipe_at w q)"
  by (simp_all add: set_stream_def set_pipe_def nth_list_update)

lemma pipes_kept_set_stream:
  assumes "i < length (pw_streams w)" "st_Conn (f (stream_at w i)) = st_Conn (stream_at w i)"
    "st_ID (f (stream_at w i)) = st_ID (stream_at w i)" "st_open (f (stream_at w i)) \<Longrightarrow> st_open (stream_at w i)"
  shows "pipes_kept w (set_stream i f w)"
proof -
  have "pipes_ok (set_stream i f w)" if "pipes_ok w"
    using that assms(1,2) pipes_okD(1) [OF that assms(1)]
    by (auto simp: pipes_ok_def pipe_conn_def GetStream_def set_at set_stream_def nth_list_update dest!: set_update_subset_insert [THEN subsetD])
  with assms show ?thesis by (auto simp: pipes_kept_def set_at)
qed

lemma pipes_kept_set_pipe:
  assumes "p < length (pw_pipes w)" "pi_stream (f (pipe_at w p)) = pi_stream (pipe_at w p)"
    "\<not> pi_sync (f (pipe_at w p))" "pipes_ok w \<Longrightarrow> pi_reading (f (pipe_at w p)) \<noteq> Blocked"
  shows "pipes_kept w (set_pipe p f w)"
proof -
  have "pipes_ok (set_pipe p f w)" if "pipes_ok w"
    using that assms pipes_okD(2) [OF that assms(1)]
    by (auto simp: pipes_ok_def pipe_conn_def GetStream_def set_at set_pipe_def nth_list_update dest!: set_update_subset_insert [THEN subsetD])
  with assms show ?thesis by (auto simp: pipes_kept_def set_at)
qed

lemma pipes_kept_conns: "pipes_kept w (w\<lparr>pw_conns := pw_conns w @ [c]\<rparr>)"
  by (auto simp: pipes_kept_def pipes_ok_def pipe_conn_def GetStream_def nth_append intro: less_SucI)

lemma pipes_kept_store: "pipes_kept w (w\<lparr>pw_Peerstore := x\<rparr>)"
  by (simp add: pipes_kept_def pipes_ok_def pipe_conn_def GetStream_def)

lemma pipes_kept_stream:
  "st_Conn st < length (pw_conns w) \<Longrightarrow> pipes_kept w (w\<lparr>pw_streams := pw_streams w @ [st]\<rparr>)"
  by (auto simp: pipes_kept_def pipes_ok_def pipe_conn_def GetStream_def nth_append)

lemma pipes_kept_pipe:
  "i < length (pw_streams w) \<Longrightarrow> pipes_kept w (snd (Pipe_CreatePipe i direct w))"
  by (auto simp: pipes_kept_def pipes_ok_def pipe_conn_def GetStream_def nth_append Pipe_CreatePipe_def
      intro: less_SucI)

lemma pipes_kept_pool:
  assumes "ResponsePipePool w k = None" "p < length (pw_pipes w)" "nc_ID (pipe_conn p w) = k"
  shows "pipes_kept w (w\<lparr>ResponsePipePool := (ResponsePipePool w)(k \<mapsto> p)\<rparr>)"
  using assms by (auto simp: pipes_kept_def pipes_ok_def pipe_conn_def GetStream_def)

definition opened :: "stream \<Rightarrow> string \<Rightarrow> 'a pipes_scheme \<Rightarrow> 'a pipes_scheme" where
  "opened st direct w = snd (Pipe_CreatePipe (length (pw_streams w)) direct (w\<lparr>pw_streams := pw_streams w @ [st]\<rparr>))"

lemma opened_kept:
  assumes "st_Conn st < length (pw_conns w)"
  shows "pipes_kept w (opened st direct w)"
proof -
  have "pipes_kept (w\<lparr>pw_streams := pw_streams w @ [st]\<rparr>) (opened st direct w)"
    unfolding opened_def by (rule pipes_kept_pipe) simp
  from pipes_kept_trans [OF pipes_kept_stream [OF assms] this] show ?thesis .
qed

lemma opened_fields [simp]:
  "pw_conns (opened st direct w) = pw_conns w" "pw_streams (opened st direct w) = pw_streams w @ [st]"
  "length (pw_pipes (opened st direct w)) = Suc (length (pw_pipes w))"
  "pipe_at (opened st direct w) (length (pw_pipes w)) =
     \<lparr>pi_stream = length (pw_streams w), pi_direct = direct, pi_sync = False, pi_reading = Unread\<rparr>"
  "ResponsePipePool (opened st direct w) = ResponsePipePool w"
  "NetworkConnectionPool (opened st direct w) = NetworkConnectionPool w"
  by (simp_all add: opened_def Pipe_CreatePipe_def)

lemma Pipe_CreatePipe_opened:
  "Pipe_CreatePipe (length (pw_streams w)) direct (w\<lparr>pw_streams := pw_streams w @ [st]\<rparr>) =
     (length (pw_pipes w), opened st direct w)"
  by (simp add: opened_def Pipe_CreatePipe_def)

lemma GetResponsePipe_kept:
  assumes ok: "pipes_ok w"
  shows "pipes_kept w (snd (GetResponsePipe H sess w))"
proof (cases "ResponsePipePool w sess")
  case None
  show ?thesis
  proof (cases "NetworkConnectionPool w sess")
    case (Some c)
    show ?thesis
    proof (cases "ho_ConnNewStream H c w")
      case (Inr sid)
      let ?st = "\<lparr>st_ID = sid, st_Conn = c, st_Protocol = ho_ChainProtocolID H, st_open = True, st_wire = []\<rparr>"
      let ?w = "opened ?st MsgDirect_Request w"
      note c = pipes_okD(5) [OF ok Some]
      have "pipes_kept ?w (?w\<lparr>ResponsePipePool := (ResponsePipePool w)(sess \<mapsto> length (pw_pipes w))\<rparr>)"
        using pipes_kept_pool [of ?w sess "length (pw_pipes w)"] None c by (simp add: pipe_conn_def GetStream_def)
      from pipes_kept_trans [OF opened_kept this] show ?thesis
        using None Some Inr c by (simp add: GetResponsePipe_def new_stream_def Pipe_CreatePipe_opened)
    qed (simp add: GetResponsePipe_def None Some)
  qed (simp add: GetResponsePipe_def None)
qed (simp add: GetResponsePipe_def)

text \<open>What is documented of dialling: the stream is on a connection that exists, or on the new one.\<close>

definition host_ok :: "('a pipes_scheme) host \<Rightarrow> bool" where
  "host_ok H \<longleftrightarrow> (\<forall>peer protocol w c sid. ho_NewStream H peer protocol w = Inr (Inl c, sid) \<longrightarrow> c < length (pw_conns w))"

lemma GetRequestPipe_kept:
  assumes "host_ok H"
  shows "pipes_kept w (snd (GetRequestPipe E H peer protocol w))"
proof -
  have dial: "pipes_kept w (snd (case ho_NewStream H ID protocol w of
             Inl _ \<Rightarrow> (None, w)
           | Inr (over, streamId) \<Rightarrow>
               let (conn, w2) = (case over of
                      Inl c \<Rightarrow> (c, w)
                    | Inr c \<Rightarrow> (length (pw_conns w), w\<lparr>pw_conns := pw_conns w @ [c]\<rparr>));
                   (stream, w3) = new_stream \<lparr>st_ID = streamId, st_Conn = conn, st_Protocol = protocol,
                      st_open = True, st_wire = []\<rparr> w2;
                   (p, w4) = Pipe_CreatePipe stream MsgDirect_Request w3
               in (Some p, w4)))" for ID and w :: "'a pipes_scheme"
  proof (cases "ho_NewStream H ID protocol w")
    case (Inr r)
    obtain over sid where r: "r = (over, sid)" by (cases r)
    show ?thesis
    proof (cases over)
      case (Inl c)
      with Inr r assms have "c < length (pw_conns w)" unfolding host_ok_def by blast
      with Inr r Inl show ?thesis by (simp add: new_stream_def Pipe_CreatePipe_opened opened_kept)
    next
      case over: (Inr c)
      have "pipes_kept w (opened \<lparr>st_ID = sid, st_Conn = length (pw_conns w), st_Protocol = protocol, st_open = True,
          st_wire = []\<rparr> MsgDirect_Request (w\<lparr>pw_conns := pw_conns w @ [c]\<rparr>))"
        by (rule pipes_kept_trans [OF pipes_kept_conns opened_kept]) simp
      with Inr r over show ?thesis
        using Pipe_CreatePipe_opened [of "w\<lparr>pw_conns := pw_conns w @ [c]\<rparr>"] by (simp add: new_stream_def)
    qed
  qed simp
  show ?thesis
  proof (cases "has_prefix peer ''/''")
    case True
    show ?thesis
    proof (cases "lib_P2pAddr E peer")
      case (Inr info)
      then show ?thesis
        unfolding GetRequestPipe_def using True
        by (cases info) (simp only: if_True sum.case prod.case option.case pipes_kept_trans [OF pipes_kept_store dial])
    qed (simp add: GetRequestPipe_def True)
  next
    case False
    show ?thesis
    proof (cases "lib_PeerDecode E peer")
      case (Inr ID)
      then show ?thesis
        unfolding GetRequestPipe_def using False by (simp only: if_False sum.case prod.case option.case dial)
    qed (simp add: GetRequestPipe_def False)
  qed
qed

lemma Pipe_Reset_kept:
  assumes "pipes_ok w" "p < length (pw_pipes w)"
  shows "pipes_kept w (Pipe_Reset p w)" "\<not> st_open (GetStream p (Pipe_Reset p w))"
proof -
  note i = pipes_okD(2) [OF assms]
  have "pipes_kept w (Pipe_Close p w)"
    unfolding Pipe_Close_def using i by (intro pipes_kept_set_stream) simp_all
  moreover have "pipes_kept (Pipe_Close p w) (Pipe_Reset p w)"
    unfolding Pipe_Reset_def using i by (intro pipes_kept_set_stream) (simp_all add: Pipe_Close_def)
  ultimately show "pipes_kept w (Pipe_Reset p w)" by (rule pipes_kept_trans)
  show "\<not> st_open (GetStream p (Pipe_Reset p w))"
    using i by (simp add: Pipe_Reset_def Pipe_Close_def GetStream_def set_at)
qed

lemma Pipe_Write_kept:
  assumes "pipes_ok w" "p < length (pw_pipes w)"
  shows "\<exists>e w'. Pipe_Write H p data False w = Some (e, w') \<and> pipes_kept w w'"
proof (cases "ho_Write H (pi_stream (pipe_at w p)) (data @ [CHR 0x0A]) w")
  case None
  let ?i = "pi_stream (pipe_at w p)"
  let ?w1 = "set_stream ?i (\<lambda>st. st\<lparr>st_wire := st_wire st @ data @ [CHR 0x0A]\<rparr>) w"
  let ?w2 = "set_pipe p (\<lambda>x. x\<lparr>pi_sync := False\<rparr>) ?w1"
  note i = pipes_okD(2) [OF assms] and reading = pipes_okD(4) [OF assms]
  have "pipes_kept w ?w1" using i by (intro pipes_kept_set_stream) simp_all
  moreover have "pipes_kept ?w1 ?w2"
    using assms(2) reading by (intro pipes_kept_set_pipe) simp_all
  ultimately have "pipes_kept w ?w2" by (rule pipes_kept_trans)
  with None reading show ?thesis by (simp add: Pipe_Write_def Let_def)
qed (simp add: Pipe_Write_def)

lemma write_async_kept:
  "pipes_ok w \<Longrightarrow> p < length (pw_pipes w) \<Longrightarrow> pipes_kept w (snd (write_async H p data w))"
  using Pipe_Write_kept [of w p H data] by (auto simp: write_async_def)

lemma GetResponsePipe_valid:
  assumes "pipes_ok w" "GetResponsePipe H sess w = (Some p, w')"
  shows "p < length (pw_pipes w') \<and> ResponsePipePool w' sess = Some p"
proof -
  have "ResponsePipePool w' sess = Some p"
    using assms(2) by (auto simp: GetResponsePipe_def Let_def split: option.splits sum.splits prod.splits)
  moreover have "pipes_ok w'" using GetResponsePipe_kept [OF assms(1), of H sess] assms by (auto dest: pipes_keptD(1))
  ultimately show ?thesis using pipes_okD(6) by blast
qed

lemma GetRequestPipe_valid:
  "GetRequestPipe E H peer protocol w = (Some p, w') \<Longrightarrow> p < length (pw_pipes w')"
  by (auto simp: GetRequestPipe_def Let_def Pipe_CreatePipe_def new_stream_def split: option.splits sum.splits prod.splits if_splits)

lemma with_pipes_fields [simp]:
  "net_RequestPipe (with_pipes H E) = GetRequestPipe E H" "net_ResponsePipe (with_pipes H E) = GetResponsePipe H"
  "net_PipeWrite (with_pipes H E) = write_async H" "net_Websocket (with_pipes H E) = net_Websocket E"
  "net_WebsocketWrite (with_pipes H E) = net_WebsocketWrite E"
  "lib_MarshalMessage (with_pipes H E) = lib_MarshalMessage E"
  "orm_InsertChainMessage (with_pipes H E) = orm_InsertChainMessage E"
  "cfg_P2pProtocol (with_pipes H E) = cfg_P2pProtocol E" "cfg_ChainProtocolID (with_pipes H E) = cfg_ChainProtocolID E"
  "glb_PeerId (with_pipes H E) = glb_PeerId E"
  by (simp_all add: with_pipes_def)

section \<open>Handling a message\<close>

text \<open>The hypothesis on the registered handlers: they do to the pipes what the operations above do.\<close>

definition handlers_keep :: "('a pipes_scheme, 'c) node protocol_message_handlers \<Rightarrow> bool" where
  "handlers_keep hs \<longleftrightarrow> (\<forall>k h data peer client sess addr s. hs k = Some h \<longrightarrow> pipes_ok (nd_world s) \<longrightarrow>
     pipes_kept (nd_world s) (nd_world (snd (pmh_MessageHandler h data peer client sess addr s))))"

lemma pipes_ok_filed:
  "pipes_ok w \<Longrightarrow> p < length (pw_pipes w) \<Longrightarrow>
   pipes_ok (w\<lparr>ResponsePipePool := (ResponsePipePool w)(nc_ID (pipe_conn p w) \<mapsto> p)\<rparr>)"
  by (auto simp: pipes_ok_def pipe_conn_def GetStream_def)

lemma HandleRaw_spent:
  assumes ok: "pipes_ok (nd_world s)" and p: "p < length (pw_pipes (nd_world s))" and hs: "handlers_keep hs"
  shows "\<exists>r s'. HandleRaw H hs data p s = Some (r, s') \<and> pipes_ok (nd_world s') \<and>
    (\<forall>out. r = Inr out \<longrightarrow> p < length (pw_pipes (nd_world s')) \<and>
       ResponsePipePool (nd_world s') (nc_ID (pipe_conn p (nd_world s))) = Some p \<and>
       \<not> st_open (GetStream p (nd_world s')))"
proof (cases "hs (st_Protocol (GetStream p (nd_world s)))")
  case None
  with pipes_ok_filed [OF ok p] show ?thesis by (simp add: HandleRaw_def Let_def GetProtocolMessageHandler_def)
next
  case (Some h)
  let ?sess = "nc_ID (pipe_conn p (nd_world s))"
  define s1 where "s1 = s\<lparr>nd_world := (nd_world s)\<lparr>ResponsePipePool :=
    (ResponsePipePool (nd_world s))(?sess \<mapsto> p)\<rparr>\<rparr>"
  obtain r s2 where h: "pmh_MessageHandler h data (nc_RemotePeer (pipe_conn p (nd_world s))) [] ?sess
    (nc_RemoteMultiaddr (pipe_conn p (nd_world s))) s1 = (r, s2)" by fastforce
  have s1: "pipes_ok (nd_world s1)" "p < length (pw_pipes (nd_world s1))" "ResponsePipePool (nd_world s1) ?sess = Some p"
    using pipes_ok_filed [OF ok p] p by (simp_all add: s1_def)
  have s2: "pipes_kept (nd_world s1) (nd_world s2)"
    using hs Some s1(1) h unfolding handlers_keep_def by (metis snd_conv)
  have ok2: "pipes_ok (nd_world s2)" "p < length (pw_pipes (nd_world s2))" "ResponsePipePool (nd_world s2) ?sess = Some p"
    using s1 pipes_keptD [OF s2] by (simp, linarith, simp)
  define out where "out = (case r of Inl _ \<Rightarrow> [] | Inr out \<Rightarrow> out)"
  obtain w3 where w3: "(if out = [] then Some (nd_world s2)
      else map_option snd (Pipe_Write H p out False (nd_world s2))) = Some w3" "pipes_kept (nd_world s2) w3"
    using Pipe_Write_kept [OF ok2(1,2), of H out] by (cases "out = []") auto
  have ok3: "pipes_ok w3" "p < length (pw_pipes w3)" "ResponsePipePool w3 ?sess = Some p"
    using ok2 pipes_keptD [OF w3(2)] by (simp, linarith, simp)
  note reset = Pipe_Reset_kept [OF ok3(1,2)]
  have handled: "HandleRaw H hs data p s = (case r of Inl (Panic e) \<Rightarrow> Some (r, s2)
      | _ \<Rightarrow> Some (Inr out, s2\<lparr>nd_world := Pipe_Reset p w3\<rparr>))"
  proof (cases r)
    case (Inl e)
    then show ?thesis
      using w3(1) h Some
      by (cases e) (simp_all add: HandleRaw_def Let_def GetProtocolMessageHandler_def s1_def out_def)
  next
    case (Inr x)
    then have "out = x" by (simp add: out_def)
    with Inr w3(1) h Some show ?thesis
      by (cases "x = []") (auto simp: HandleRaw_def Let_def GetProtocolMessageHandler_def s1_def)
  qed
  have "p < length (pw_pipes (Pipe_Reset p w3))" using ok3(2) pipes_keptD(4) [OF reset(1)] by linarith
  with handled ok2(1) reset(2) pipes_keptD(1,10) [OF reset(1)] ok3 show ?thesis
    by (cases r rule: sum.exhaust [case_names Inl Inr]) (auto split: go_error.splits)
qed


section \<open>Events\<close>



text \<open>The hypothesis on the database: what is done to the records of the clients leaves the pipes alone.\<close>

definition clients_keep :: "('a pipes_scheme) env \<Rightarrow> ('a pipes_scheme) datastores \<Rightarrow> bool" where
  "clients_keep E R \<longleftrightarrow>
     (\<forall>w k c. pipes_kept w (snd (PeerClient_GetLocals E R k c w))) \<and>
     (\<forall>w pc. pipes_kept w (snd (PeerClient_PutValues E pc w))) \<and> (\<forall>w. pipes_kept w (snd (env_now E w)))"

lemma kept_drop_error: "pipes_kept w (snd m) \<Longrightarrow> pipes_kept w (snd (drop_error m))"
  by (cases m) (simp add: drop_error_def split: sum.split go_error.split)

lemma kept_or_none: "pipes_kept w (snd m) \<Longrightarrow> pipes_kept w (snd (or_none m))"
  by (cases m) (simp add: or_none_def split: sum.split go_error.split)

lemma disconnect_client_kept:
  assumes "clients_keep E R"
  shows "pipes_kept w (snd (disconnect_client E sess pcs w))"
proof (induction pcs)
  case (Cons pc pcs)
  have now: "pipes_kept w (snd (env_now E w))" and put: "pipes_kept w1 (snd (PeerClient_PutValues E x w1))" for w1 x
    using assms by (simp_all add: clients_keep_def)
  show ?case
  proof (cases pc)
    case (Some c)
    have "pipes_kept w (snd (case env_now E w of (now, w1) \<Rightarrow> drop_error (PeerClient_PutValues E
        (c\<lparr>pc_LastAccessTime := Some now, pc_ActiveStatus := ActiveStatus_Down\<rparr>) w1)))"
      by (intro kept.in_case [OF now] kept_drop_error) (rule pipes_kept_trans [OF _ put])
    with Some Cons.IH show ?thesis by simp
  qed simp
qed simp

lemma Disconnect_pools:
  assumes ok: "pipes_ok w" and E: "clients_keep E R"
  shows "pipes_ok (snd (Disconnect E R peer client sess w))"
    "ResponsePipePool w k = Some p \<Longrightarrow> ResponsePipePool (snd (Disconnect E R peer client sess w)) k = Some p"
proof -
  let ?w = "w\<lparr>NetworkConnectionPool := (NetworkConnectionPool w)(sess := None)\<rparr>"
  have okw: "pipes_ok ?w" using ok by (auto simp: pipes_ok_def pipe_conn_def GetStream_def)
  have locals: "pipes_kept ?w (snd (or_none (PeerClient_GetLocals E R (GetPeerClientKey peer) client ?w)))"
    using E by (intro kept_or_none) (simp add: clients_keep_def)
  have "pipes_kept ?w (snd (and_then (or_none (PeerClient_GetLocals E R (GetPeerClientKey peer) client ?w))
      (\<lambda>(peerClients, _). disconnect_client E sess peerClients)))"
    by (intro kept.in_and_then [OF locals])
      (auto intro: pipes_kept_trans [OF _ disconnect_client_kept [OF E]] split: prod.split)
  note kept = pipes_keptD [OF this]
  show "pipes_ok (snd (Disconnect E R peer client sess w))"
    using ok kept(1) [OF okw] by (simp add: Disconnect_def split: option.split)
  show "ResponsePipePool (snd (Disconnect E R peer client sess w)) k = Some p" if "ResponsePipePool w k = Some p"
    using that kept(10) [of k p] by (simp add: Disconnect_def split: option.split)
qed



lemma no_pipes_ok [simp]: "pipes_ok no_pipes"
  by (simp add: no_pipes_def pipes_ok_def)

section \<open>Forwarding over the pipes\<close>

lemma keep_chat_kept:
  "(\<And>msg w. pipes_kept w (snd (orm_InsertChainMessage E msg w))) \<Longrightarrow> pipes_kept w (snd (keep_chat E msg w))"
  by (simp add: keep_chat_def)

lemma ForwardPeerEndpoint_kept:
  assumes ok: "pipes_ok w" and H: "host_ok H" and E: "\<And>msg w. pipes_kept w (snd (orm_InsertChainMessage E msg w))"
  shows "pipes_kept w (snd (ForwardPeerEndpoint (with_pipes H E) msg peer w))"
proof -
  have keep: "pipes_kept w1 (snd (keep_chat (with_pipes H E) msg w1))" for w1 by (rule keep_chat_kept) (simp add: E)
  have pipe: "pipes_kept w (snd (GetRequestPipe E H peer (cfg_ChainProtocolID E) w))" by (rule GetRequestPipe_kept [OF H])
  show ?thesis
  proof (cases "GetRequestPipe E H peer (cfg_ChainProtocolID E) w")
    case (Pair q w1)
    then have w1: "pipes_kept w w1" using pipe by simp
    have written: "pipes_kept w w2" if "q = Some p" "write_async H p data w1 = (e, w2)" for p data e w2
      using pipes_kept_trans [OF w1 write_async_kept [OF pipes_keptD(1) [OF w1 ok] GetRequestPipe_valid, of E H peer _ w p H data]]
        that Pair by simp
    show ?thesis
      using Pair w1 keep pipes_kept_trans [OF w1 keep] pipes_kept_trans [OF written keep] written
      by (auto simp: ForwardPeerEndpoint_def IsMyself_def split: option.split sum.split prod.split)
  qed
qed

text \<open>A host that does not write to a stream that this side has closed or reset.\<close>

definition closed_fails :: "('a pipes_scheme) host \<Rightarrow> bool" where
  "closed_fails H \<longleftrightarrow> (\<forall>i data w. \<not> st_open (stream_at w i) \<longrightarrow> ho_Write H i data w \<noteq> None)"

lemma write_async_closed:
  assumes "closed_fails H" "\<not> st_open (GetStream p w)"
  shows "\<exists>err. write_async H p data w = (Some err, w)"
proof -
  from assms have "ho_Write H (pi_stream (pipe_at w p)) (data @ [CHR 0x0A]) w \<noteq> None"
    unfolding closed_fails_def GetStream_def by blast
  then obtain err where "ho_Write H (pi_stream (pipe_at w p)) (data @ [CHR 0x0A]) w = Some err" by blast
  then show ?thesis by (simp add: write_async_def Pipe_Write_def)
qed

lemma ReadBytes_line: "CHR 0x0A \<in> set bs \<Longrightarrow> ReadBytes bs = Some (takeWhile (\<lambda>b. b \<noteq> CHR 0x0A) bs @ [CHR 0x0A])"
  by (induction bs) auto

lemma takeWhile_line:
  "takeWhile (\<lambda>b. b \<noteq> CHR 0x0A) (data @ CHR 0x0A # rest) = takeWhile (\<lambda>b. b \<noteq> CHR 0x0A) data"
  by (induction data) auto

section \<open>Properties\<close>


text \<open>
  C29: once a message of a peer has been handled, the pipe of its session is spent but stays in the pool:
  as long as the session is not taken out of it, every message for a client of that session goes to the
  closed stream and is lost, unless it is a chat, which is stored.
\<close>

theorem response_pipe_spent:
  assumes "HandleRaw H hs data p s = Some (Inr out, s')" and "pipes_ok (nd_world s)" and "p < length (pw_pipes (nd_world s))"
    and "handlers_keep hs" and "closed_fails H" and "pipes_kept (nd_world s') w"
    and "lib_MarshalMessage E msg = Inr bytes" and "cfg_P2pProtocol E = ''libp2p''"
    and "\<not> has_prefix (pc_ConnectAddress client) ''ws''" and "pc_ConnectSessionId client = nc_ID (pipe_conn p (nd_world s))"
    and "pc_ConnectSessionId client \<noteq> []"
  shows "ForwardPeerClient (with_pipes H E) msg client w =
    (case keep_chat E msg w of (msg', w') \<Rightarrow> (Inr msg', w'))"
proof -
  obtain p_len: "p < length (pw_pipes (nd_world s'))" and ok: "pipes_ok (nd_world s')"
    and pool: "ResponsePipePool (nd_world s') (pc_ConnectSessionId client) = Some p"
    and spent: "\<not> st_open (GetStream p (nd_world s'))"
    using HandleRaw_spent [OF assms(2-4), of H data] assms(1,10) by auto
  have "\<not> st_open (GetStream p w)" using pipes_kept_conn(4) [OF assms(6) ok p_len spent] .
  from write_async_closed [OF assms(5) this, of bytes] pipes_keptD(10) [OF assms(6) pool] assms(7-9,11)
  show ?thesis
    by (auto simp: ForwardPeerClient_def GetResponsePipe_def keep_chat_def with_pipes_def split: option.split)
qed

text \<open>
  What one side writes as its first message is what the other side hands to its handler, with the
  newline that ends it; a message that contains a newline is cut there and the rest is never read.
\<close>

theorem framing:
  assumes "Pipe_Write H p data sync w = Some (None, w')" and "pipes_ok w" and "p < length (pw_pipes w)"
    and "st_wire (GetStream p w) = []" and "\<not> pi_sync (pipe_at (nd_world t) q)"
  shows "Pipe_Read H' hs (st_wire (GetStream p w')) q t =
    map_option (\<lambda>(r, t'). (map_sum id (\<lambda>_. ()) r, t'))
      (HandleRaw H' hs (takeWhile (\<lambda>b. b \<noteq> CHR 0x0A) data @ [CHR 0x0A]) q
        (t\<lparr>nd_world := set_pipe q (\<lambda>x. x\<lparr>pi_reading := Done\<rparr>) (nd_world t)\<rparr>))"
proof -
  have "st_wire (GetStream p w') = data @ [CHR 0x0A]"
    using assms(1,3,4) pipes_okD(2) [OF assms(2,3)]
    by (auto simp: Pipe_Write_def Let_def GetStream_def set_at split: option.splits if_splits)
  then show ?thesis using assms(5) by (simp add: Pipe_Read_def ReadBytes_line takeWhile_line Let_def)
qed

text \<open>A message over a protocol without a handler ends the program: the missing handler is called.\<close>

theorem HandleRaw_unregistered:
  assumes "hs (st_Protocol (GetStream p (nd_world s))) = None"
  shows "map_option fst (HandleRaw H hs data p s) = Some (Inl NilDereference)"
  using assms by (simp add: HandleRaw_def Let_def GetProtocolMessageHandler_def)

text \<open>
  A write that awaits an answer never gets one: the channel of the answer is nil, so that the goroutine
  that reads the answer blocks, and with it every later write that the stream accepts.
\<close>

theorem sync_write_blocks:
  assumes "Pipe_Write H p data True w = Some (None, w')" and "p < length (pw_pipes w)"
    and "nd_world t = w'" and "ReadBytes answer = Some line" and "Pipe_Read H hs answer p t = Some (r, t')"
    and "ho_Write H (pi_stream (pipe_at w p)) (later @ [CHR 0x0A]) (nd_world t') = None"
  shows "Pipe_Write H p later sync (nd_world t') = None"
proof -
  have "pi_sync (pipe_at w' p)" "length (pw_pipes w') = length (pw_pipes w)" "pi_stream (pipe_at w' p) = pi_stream (pipe_at w p)"
    using assms(1,2) by (auto simp: Pipe_Write_def Let_def set_at split: option.splits if_splits)
  then have "nd_world t' = set_pipe p (\<lambda>x. x\<lparr>pi_reading := Blocked\<rparr>) w'"
    "pi_reading (pipe_at (nd_world t') p) = Blocked" "pi_stream (pipe_at (nd_world t') p) = pi_stream (pipe_at w p)"
    using assms(2-5) by (auto simp: Pipe_Read_def Let_def set_at)
  then show ?thesis using assms(6) by (simp add: Pipe_Write_def Let_def)
qed

text \<open>
  The pipe outlives its connection: after the notification that it is closed, the pool still answers
  with the pipe of the session, and messages go to it.
\<close>

theorem Disconnect_keeps_pipe:
  assumes "pipes_ok w" and "clients_keep E R" and "ResponsePipePool w sess = Some p"
  shows "GetResponsePipe H sess (snd (Disconnect E R peer client sess w)) =
    (Some p, snd (Disconnect E R peer client sess w))"
  using Disconnect_pools(2) [OF assms] by (simp add: GetResponsePipe_def)

section \<open>Witnesses\<close>

definition pipe_host :: "pipes host" where
  "pipe_host = \<lparr>ho_ConnNewStream = \<lambda>_ _. Inr ''u'', ho_NewStream = \<lambda>_ _ _. Inl (Err ''offline''),
     ho_Write = \<lambda>i _ w. if st_open (stream_at w i) then None else Some (Err ''reset''),
     ho_ChainProtocolID = ''c''\<rparr>"

definition pipe_handlers :: "(pipes, unit) node protocol_message_handlers" where
  "pipe_handlers = [''c'' \<mapsto> \<lparr>pmh_ProtocolID = ''c'', pmh_MessageHandler = \<lambda>_ _ _ _ _ s. (Inr ''y'', s)\<rparr>]"

text \<open>One connection with a stream, over which the other side has opened a pipe.\<close>

definition pipe_world :: pipes where
  "pipe_world = \<lparr>pw_conns = [\<lparr>nc_ID = ''k'', nc_RemotePeer = ''p'', nc_RemoteMultiaddr = ''a'', nc_open = True\<rparr>],
     pw_streams = [\<lparr>st_ID = ''t'', st_Conn = 0, st_Protocol = ''c'', st_open = True, st_wire = []\<rparr>],
     pw_pipes = [\<lparr>pi_stream = 0, pi_direct = MsgDirect_Response, pi_sync = False, pi_reading = Unread\<rparr>],
     pw_Peerstore = [], NetworkConnectionPool = [''k'' \<mapsto> 0], ResponsePipePool = [''k'' \<mapsto> 0]\<rparr>"

definition pipe_node :: "pipes \<Rightarrow> (pipes, unit) node" where
  "pipe_node w = \<lparr>nd_world = w, nd_cache = (), nd_pool = Map.empty, nd_tasks = []\<rparr>"

lemma pipe_node_world [simp]: "nd_world (pipe_node w) = w"
  by (simp add: pipe_node_def)

lemma pipe_samples [simp]:
  "handlers_keep pipe_handlers" "closed_fails pipe_host" "host_ok pipe_host" "pipes_ok pipe_world"
  "length (pw_pipes pipe_world) = 1" "nc_ID (pipe_conn 0 pipe_world) = ''k''"
  by (auto simp: handlers_keep_def pipe_handlers_def closed_fails_def pipe_host_def host_ok_def pipes_ok_def
      pipe_world_def pipe_conn_def GetStream_def)

lemma pipe_clients [simp]: "clients_keep sample_env no_datastores"
proof -
  have none: "NewKeyRequest sample_env (no_datastores :: 'w datastores) key \<noteq> Inr (Some d)" for key and d :: "'w dispatch_request"
    by (auto simp: NewKeyRequest_def NewPrefixRequest_def GetDatastore_def no_datastores_def split: sum.splits list.splits prod.splits option.splits)
  have local: "snd (GetLocal sample_env no_datastores k w) = w" for k and w :: "'a pipes_scheme"
    using none by (auto simp: GetLocal_def Dispatch_Get_def split: sum.splits option.splits prod.splits)
  have "snd (PeerClient_GetLocals sample_env no_datastores k c w) = w" for k c and w :: "'a pipes_scheme"
    using local [of k w] by (cases "GetLocal sample_env no_datastores k w")
      (auto simp: PeerClient_GetLocals_def and_then_def split: sum.splits option.splits)
  moreover have "snd (PeerClient_PutValues sample_env pc w) = w" for pc and w :: "'a pipes_scheme"
    by (auto simp: PeerClient_PutValues_def PeerClient_PutValue_def PutValue_def and_then_def split: prod.splits sum.splits option.splits)
  ultimately show ?thesis by (simp add: clients_keep_def)
qed





definition libp2p_sample :: "pipes env" where
  "libp2p_sample = sample_env\<lparr>cfg_P2pProtocol := ''libp2p'', lib_MarshalMessage := \<lambda>_. Inr ''m''\<rparr>"

abbreviation pipe_client :: peer_client where "pipe_client \<equiv> peer_client0\<lparr>pc_ConnectSessionId := ''k''\<rparr>"

theorem response_pipe_spent_witness:
  "\<exists>out s'. HandleRaw pipe_host pipe_handlers ''x'' 0 (pipe_node pipe_world) = Some (Inr out, s') \<and>
    ForwardPeerClient (with_pipes pipe_host libp2p_sample) chain_message0 pipe_client (nd_world s') =
      (Inr chain_message0, nd_world s')"
proof -
  obtain s' where run: "HandleRaw pipe_host pipe_handlers ''x'' 0 (pipe_node pipe_world) = Some (Inr ''y'', s')"
    by (simp add: HandleRaw_def Let_def pipe_handlers_def pipe_host_def pipe_world_def
      pipe_node_def set_pipe_def pipe_conn_def GetStream_def GetProtocolMessageHandler_def Pipe_Write_def
      set_stream_def Pipe_Reset_def Pipe_Close_def)
  have "ForwardPeerClient (with_pipes pipe_host libp2p_sample) chain_message0 pipe_client (nd_world s') =
      (Inr chain_message0, nd_world s')"
    by (subst response_pipe_spent [OF run])
      (simp_all add: libp2p_sample_def peer_client0_def keep_chat_def chain_message0_def)
  with run show ?thesis by blast
qed

theorem framing_witness:
  "\<exists>w'. Pipe_Write pipe_host 0 ''m'' False pipe_world = Some (None, w') \<and>
    Pipe_Read pipe_host pipe_handlers (st_wire (GetStream 0 w')) 0 (pipe_node pipe_world) =
    map_option (\<lambda>(r, t'). (map_sum id (\<lambda>_. ()) r, t'))
      (HandleRaw pipe_host pipe_handlers [CHR ''m'', CHR 0x0A] 0
        (pipe_node (set_pipe 0 (\<lambda>x. x\<lparr>pi_reading := Done\<rparr>) pipe_world)))"
proof -
  obtain w' where run: "Pipe_Write pipe_host 0 ''m'' False pipe_world = Some (None, w')"
    by (simp add: Pipe_Write_def pipe_host_def pipe_world_def set_stream_def set_pipe_def)
  have "st_wire (GetStream 0 pipe_world) = []" "\<not> pi_sync (pipe_at pipe_world 0)" "0 < length (pw_pipes pipe_world)"
    by (simp_all add: pipe_world_def GetStream_def)
  with framing [OF run, of "pipe_node pipe_world" 0 pipe_host pipe_handlers] run show ?thesis
    by (simp add: pipe_node_def)
qed

theorem HandleRaw_unregistered_witness:
  "map_option fst (HandleRaw pipe_host Map.empty ''x'' 0 (pipe_node pipe_world)) = Some (Inl NilDereference)"
  by (rule HandleRaw_unregistered) simp

theorem sync_write_blocks_witness:
  "\<exists>w' s'. Pipe_Write pipe_host 0 ''m'' True pipe_world = Some (None, w') \<and>
    Pipe_Read pipe_host pipe_handlers [CHR ''x'', CHR 0x0A] 0 (pipe_node w') = Some (Inr (), s') \<and>
    Pipe_Write pipe_host 0 ''n'' False (nd_world s') = None"
proof -
  obtain w' where run: "Pipe_Write pipe_host 0 ''m'' True pipe_world = Some (None, w')"
    and w': "st_open (stream_at w' (pi_stream (pipe_at w' 0)))" "pi_sync (pipe_at w' 0)" "pi_stream (pipe_at w' 0) = 0"
      "length (pw_pipes w') = 1"
    by (simp add: Pipe_Write_def pipe_host_def pipe_world_def set_stream_def set_pipe_def)
  define s' where "s' = pipe_node (set_pipe 0 (\<lambda>x. x\<lparr>pi_reading := Blocked\<rparr>) w')"
  have read: "Pipe_Read pipe_host pipe_handlers [CHR ''x'', CHR 0x0A] 0 (pipe_node w') = Some (Inr (), s')"
    using w' by (simp add: Pipe_Read_def pipe_node_def s'_def)
  have "Pipe_Write pipe_host 0 ''n'' False (nd_world s') = None"
    using sync_write_blocks [OF run _ _ _ read, where later = "''n''" and sync = False] w'
    by (simp add: s'_def pipe_host_def pipe_world_def)
  with run read show ?thesis by blast
qed

theorem Disconnect_keeps_pipe_witness:
  "fst (GetResponsePipe pipe_host ''k'' (snd (Disconnect sample_env no_datastores ''p'' [] ''k'' pipe_world))) = Some 0"
proof -
  have "ResponsePipePool pipe_world ''k'' = Some 0" by (simp add: pipe_world_def)
  from Disconnect_keeps_pipe [OF pipe_samples(4) pipe_clients this] show ?thesis by simp
qed

end
