(* ===== verification/MailBackend.thy ===== *)
theory MailBackend
  imports Prelude
begin

text \<open>
  The mail accounts, mailboxes and messages that the IMAP server works on, \<^verbatim>\<open>mail/imap/backend\<close> and
  \<^verbatim>\<open>mail/entity\<close>. The tables are behind the ORM; the parsing of messages and the matching of a search belong
  to the IMAP library.
\<close>

section \<open>Entities\<close>

text \<open>\<open>MailAccount\<close>, \<open>MailBox\<close> and \<open>MailMessage\<close> embed \<open>StatusEntity\<close>.\<close>

type_synonym uint32 = "32 word"

record status_entity =
  se_Id :: uint64
  se_CreateDate :: "go_time option"
  se_UpdateDate :: "go_time option"
  se_EntityId :: string
  se_State :: string
  se_Status :: string
  se_StatusReason :: string
  se_StatusDate :: "go_time option"

record mail_account = status_entity +
  ac_Name :: string
  ac_Password :: string
  ac_PeerId :: string
  ac_StartDate :: "go_time option"
  ac_EndDate :: "go_time option"

record mail_box = status_entity +
  mb_BoxName :: string
  mb_AccountName :: string
  mb_Subscribed :: bool
  mb_StartDate :: "go_time option"
  mb_EndDate :: "go_time option"
  mb_Flag :: string
  mb_PermanentFlag :: string
  mb_ReadOnly :: bool
  mb_UnseenSeqNum :: uint32
  mb_MessageNum :: uint32
  mb_Recent :: uint32
  mb_Unseen :: uint32

record mail_message = status_entity +
  mm_BoxName :: string
  mm_Hash :: string
  mm_Size :: uint64
  mm_SeenFlag :: string
  mm_AnsweredFlag :: string
  mm_FlaggedFlag :: string
  mm_DeletedFlag :: string
  mm_DraftFlag :: string
  mm_RecentFlag :: string
  mm_Body :: string

definition mail_account0 :: mail_account where
  "mail_account0 = \<lparr>se_Id = 0, se_CreateDate = None, se_UpdateDate = None, se_EntityId = [], se_State = [],
     se_Status = [], se_StatusReason = [], se_StatusDate = None, ac_Name = [], ac_Password = [], ac_PeerId = [],
     ac_StartDate = None, ac_EndDate = None\<rparr>"

definition mail_box0 :: mail_box where
  "mail_box0 = \<lparr>se_Id = 0, se_CreateDate = None, se_UpdateDate = None, se_EntityId = [], se_State = [],
     se_Status = [], se_StatusReason = [], se_StatusDate = None, mb_BoxName = [], mb_AccountName = [],
     mb_Subscribed = False, mb_StartDate = None, mb_EndDate = None, mb_Flag = [], mb_PermanentFlag = [],
     mb_ReadOnly = False, mb_UnseenSeqNum = 0, mb_MessageNum = 0, mb_Recent = 0, mb_Unseen = 0\<rparr>"

definition mail_message0 :: mail_message where
  "mail_message0 = \<lparr>se_Id = 0, se_CreateDate = None, se_UpdateDate = None, se_EntityId = [], se_State = [],
     se_Status = [], se_StatusReason = [], se_StatusDate = None, mm_BoxName = [], mm_Hash = [], mm_Size = 0,
     mm_SeenFlag = [], mm_AnsweredFlag = [], mm_FlaggedFlag = [], mm_DeletedFlag = [], mm_DraftFlag = [],
     mm_RecentFlag = [], mm_Body = []\<rparr>"

text \<open>
  The tables. \<open>Find\<close> of messages takes the bounds of the ids, if any; what it finds is only of use to a
  caller that passes a pointer.
\<close>

record 'w mail_db =
  md_GetAccount :: "mail_account \<Rightarrow> 'w \<Rightarrow> mail_account option \<times> 'w"
  md_GetBox :: "mail_box \<Rightarrow> 'w \<Rightarrow> mail_box option \<times> 'w"
  md_FindBoxes :: "mail_box \<Rightarrow> 'w \<Rightarrow> (mail_box list \<times> go_error option) \<times> 'w"
  md_InsertBox :: "mail_box \<Rightarrow> 'w \<Rightarrow> 'w"
  md_DeleteBox :: "mail_box \<Rightarrow> 'w \<Rightarrow> 'w"
  md_FindMessages :: "mail_message \<Rightarrow> (uint32 \<times> uint32) option \<Rightarrow> 'w \<Rightarrow> go_error option \<times> 'w"
  md_InsertMessage :: "mail_message \<Rightarrow> 'w \<Rightarrow> 'w"
  md_UpdateMessage :: "mail_message \<Rightarrow> 'w \<Rightarrow> 'w"
  md_DeleteMessage :: "mail_message \<Rightarrow> 'w \<Rightarrow> 'w"
  md_GetSeq :: "'w \<Rightarrow> uint64 \<times> 'w"
  md_now :: "'w \<Rightarrow> go_time \<times> 'w"

record mail_flags =
  fl_Seen :: string
  fl_Answered :: string
  fl_Flagged :: string
  fl_Deleted :: string
  fl_Draft :: string
  fl_Recent :: string

section \<open>Messages\<close>

definition mergeFlag :: "mail_flags \<Rightarrow> 'a mail_message_scheme \<Rightarrow> string list" where
  "mergeFlag F m =
     (if mm_AnsweredFlag m \<noteq> [] then [fl_Answered F] else []) @
     (if mm_DeletedFlag m \<noteq> [] then [fl_Deleted F] else []) @
     (if mm_FlaggedFlag m \<noteq> [] then [fl_Flagged F] else []) @
     (if mm_RecentFlag m \<noteq> [] then [fl_Recent F] else []) @
     (if mm_SeenFlag m \<noteq> [] then [fl_Seen F] else []) @
     (if mm_DraftFlag m \<noteq> [] then [fl_Draft F] else [])"

definition split_flag :: "mail_flags \<Rightarrow> string \<Rightarrow> mail_message \<Rightarrow> mail_message" where
  "split_flag F flag m =
     (if flag = fl_Answered F then m\<lparr>mm_AnsweredFlag := fl_Answered F\<rparr>
      else if flag = fl_Deleted F then m\<lparr>mm_DeletedFlag := fl_Deleted F\<rparr>
      else if flag = fl_Flagged F then m\<lparr>mm_FlaggedFlag := fl_Flagged F\<rparr>
      else if flag = fl_Recent F then m\<lparr>mm_RecentFlag := fl_Recent F\<rparr>
      else if flag = fl_Seen F then m\<lparr>mm_SeenFlag := fl_Seen F\<rparr>
      else if flag = fl_Draft F then m\<lparr>mm_DraftFlag := fl_Draft F\<rparr>
      else m)"

fun splitFlag :: "mail_flags \<Rightarrow> string list \<Rightarrow> mail_message \<Rightarrow> mail_message" where
  "splitFlag F [] m = m"
| "splitFlag F (flag # flags) m = splitFlag F flags (split_flag F flag m)"

text \<open>What the library reads of the bytes of a message, and the answer to a fetch.\<close>

record 'c imap =
  im_ReadHeader :: "string \<Rightarrow> unit res"
  im_Envelope :: "string \<Rightarrow> string option"
  im_BodyStructure :: "string \<Rightarrow> bool \<Rightarrow> string option"
  im_ParseSection :: "string \<Rightarrow> string option"
  im_Section :: "string \<Rightarrow> string \<Rightarrow> string"
  im_Match :: "string \<Rightarrow> uint32 \<Rightarrow> uint32 \<Rightarrow> go_time \<Rightarrow> string list \<Rightarrow> 'c \<Rightarrow> bool res"
  im_UpdateFlags :: "string list \<Rightarrow> string \<Rightarrow> string list \<Rightarrow> string list"

datatype fetch_item =
  FetchEnvelope | FetchBody | FetchBodyStructure | FetchFlags | FetchInternalDate | FetchRFC822Size | FetchUid
| FetchOther string

record fetched =
  fd_SeqNum :: uint32
  fd_Envelope :: "string option"
  fd_BodyStructure :: "string option"
  fd_Flags :: "string list"
  fd_InternalDate :: "go_time option"
  fd_Size :: uint32
  fd_Uid :: uint32
  fd_Body :: "(string \<times> string) list"

fun fetch_items :: "'c imap \<Rightarrow> mail_flags \<Rightarrow> mail_message \<Rightarrow> fetch_item list \<Rightarrow> fetched \<Rightarrow> fetched res" where
  "fetch_items I F m [] r = Inr r"
| "fetch_items I F m (item # items) r =
     (case item of
        FetchEnvelope \<Rightarrow> fetch_items I F m items (r\<lparr>fd_Envelope := im_Envelope I (mm_Body m)\<rparr>)
      | FetchBody \<Rightarrow> fetch_items I F m items (r\<lparr>fd_BodyStructure := im_BodyStructure I (mm_Body m) False\<rparr>)
      | FetchBodyStructure \<Rightarrow> fetch_items I F m items (r\<lparr>fd_BodyStructure := im_BodyStructure I (mm_Body m) True\<rparr>)
      | FetchFlags \<Rightarrow> fetch_items I F m items (r\<lparr>fd_Flags := mergeFlag F m\<rparr>)
      | FetchInternalDate \<Rightarrow>
          (case se_CreateDate m of
             None \<Rightarrow> Inl NilDereference
           | Some date \<Rightarrow> fetch_items I F m items (r\<lparr>fd_InternalDate := Some date\<rparr>))
      | FetchRFC822Size \<Rightarrow> fetch_items I F m items (r\<lparr>fd_Size := ucast (mm_Size m)\<rparr>)
      | FetchUid \<Rightarrow> fetch_items I F m items (r\<lparr>fd_Uid := ucast (se_Id m)\<rparr>)
      | FetchOther name \<Rightarrow>
          (case im_ParseSection I name of
             None \<Rightarrow> fetch_items I F m items r
           | Some section' \<Rightarrow>
               (case im_ReadHeader I (mm_Body m) of
                  Inl err \<Rightarrow> Inl err
                | Inr _ \<Rightarrow> fetch_items I F m items
                    (r\<lparr>fd_Body := (section', im_Section I (mm_Body m) section') # fd_Body r\<rparr>))))"

definition Fetch :: "'c imap \<Rightarrow> mail_flags \<Rightarrow> uint32 \<Rightarrow> fetch_item list \<Rightarrow> mail_message \<Rightarrow> fetched res" where
  "Fetch I F seqNum items m = fetch_items I F m items
     \<lparr>fd_SeqNum = seqNum, fd_Envelope = None, fd_BodyStructure = None, fd_Flags = [], fd_InternalDate = None,
      fd_Size = 0, fd_Uid = 0, fd_Body = []\<rparr>"

definition Match :: "'c imap \<Rightarrow> mail_flags \<Rightarrow> uint32 \<Rightarrow> 'c \<Rightarrow> mail_message \<Rightarrow> bool res" where
  "Match I F seqNum criteria m =
     (case se_CreateDate m of
        None \<Rightarrow> Inl NilDereference
      | Some date \<Rightarrow> im_Match I (mm_Body m) seqNum (ucast (se_Id m)) date (mergeFlag F m) criteria)"

section \<open>Mailboxes\<close>

text \<open>\<open>uidNext\<close> of all mailboxes is one sequence. \<open>range\<close> visits the set of the flags in an order of its own.\<close>

definition uidNext :: "'w mail_db \<Rightarrow> 'w \<Rightarrow> uint64 \<times> 'w" where
  "uidNext = md_GetSeq"

definition box_flags :: "(string list \<Rightarrow> string list) \<Rightarrow> mail_box \<Rightarrow> string list" where
  "box_flags ordered mbox = ordered (remdups (split_on (CHR '','') (mb_Flag mbox)))"

datatype status_item = StatusMessages | StatusRecent | StatusUidNext | StatusUidValidity | StatusUnseen

record mailbox_status =
  ms_Name :: string
  ms_Flags :: "string list"
  ms_PermanentFlags :: "string list"
  ms_UnseenSeqNum :: uint32
  ms_Messages :: uint32
  ms_Recent :: uint32
  ms_UidNext :: uint32
  ms_UidValidity :: uint32
  ms_Unseen :: uint32

fun status_items :: "'w mail_db \<Rightarrow> mail_box \<Rightarrow> status_item list \<Rightarrow> mailbox_status \<Rightarrow> 'w \<Rightarrow> mailbox_status \<times> 'w" where
  "status_items D mbox [] r w = (r, w)"
| "status_items D mbox (item # items) r w =
     (case item of
        StatusMessages \<Rightarrow> status_items D mbox items (r\<lparr>ms_Messages := mb_MessageNum mbox\<rparr>) w
      | StatusUidNext \<Rightarrow>
          (case uidNext D w of (uid, w1) \<Rightarrow> status_items D mbox items (r\<lparr>ms_UidNext := ucast uid\<rparr>) w1)
      | StatusUidValidity \<Rightarrow> status_items D mbox items (r\<lparr>ms_UidValidity := 1\<rparr>) w
      | StatusRecent \<Rightarrow> status_items D mbox items (r\<lparr>ms_Recent := 0\<rparr>) w
      | StatusUnseen \<Rightarrow> status_items D mbox items (r\<lparr>ms_Unseen := 0\<rparr>) w)"

definition Box_Status ::
  "'w mail_db \<Rightarrow> (string list \<Rightarrow> string list) \<Rightarrow> status_item list \<Rightarrow> mail_box \<Rightarrow> 'w \<Rightarrow> mailbox_status \<times> 'w" where
  "Box_Status D ordered items mbox = status_items D mbox items
     \<lparr>ms_Name = mb_BoxName mbox, ms_Flags = box_flags ordered mbox, ms_PermanentFlags = [[CHR 0x5C, CHR ''*'']],
      ms_UnseenSeqNum = mb_UnseenSeqNum mbox, ms_Messages = 0, ms_Recent = 0, ms_UidNext = 0, ms_UidValidity = 0,
      ms_Unseen = 0\<rparr>"

definition SetSubscribed :: "bool \<Rightarrow> mail_box \<Rightarrow> mail_box" where
  "SetSubscribed subscribed mbox = mbox\<lparr>mb_Subscribed := subscribed\<rparr>"

text \<open>
  The messages that a caller of \<open>Find\<close> sees: the slice is passed by value, of length zero, so that whatever
  is found does not reach it.
\<close>

definition found_messages :: "mail_message list" where
  "found_messages = []"

fun each_message :: "(mail_message \<Rightarrow> 'w \<Rightarrow> 'w) \<Rightarrow> mail_message list \<Rightarrow> 'w \<Rightarrow> 'w" where
  "each_message f [] w = w"
| "each_message f (m # ms) w = each_message f ms (f m w)"

text \<open>\<open>ListMessages\<close>: the answers that are sent over the channel. A message that cannot be fetched is left out.\<close>

fun fetch_all :: "'c imap \<Rightarrow> mail_flags \<Rightarrow> fetch_item list \<Rightarrow> mail_message list \<Rightarrow> fetched list res" where
  "fetch_all I F items [] = Inr []"
| "fetch_all I F items (m # ms) =
     (case Fetch I F (ucast (se_Id m)) items m of
        Inl (Panic p) \<Rightarrow> Inl (Panic p)
      | Inl (Err _) \<Rightarrow> fetch_all I F items ms
      | Inr r \<Rightarrow> map_sum id ((#) r) (fetch_all I F items ms))"

fun ListMessages ::
  "'w mail_db \<Rightarrow> 'c imap \<Rightarrow> mail_flags \<Rightarrow> fetch_item list \<Rightarrow> mail_box \<Rightarrow> (uint32 \<times> uint32) list \<Rightarrow> 'w \<Rightarrow>
   fetched list res \<times> 'w" where
  "ListMessages D I F items mbox [] w = (Inr [], w)"
| "ListMessages D I F items mbox (seq # seqs) w =
     (case md_FindMessages D (mail_message0\<lparr>mm_BoxName := mb_BoxName mbox\<rparr>) (Some seq) w of
        (err, w1) \<Rightarrow>
          and_then (if err = None then fetch_all I F items found_messages else Inr [], w1) (\<lambda>xs w2.
            and_then (ListMessages D I F items mbox seqs w2) (\<lambda>ys w3. (Inr (xs @ ys), w3))))"

fun matching :: "'c imap \<Rightarrow> mail_flags \<Rightarrow> 'c \<Rightarrow> mail_message list \<Rightarrow> uint32 list res" where
  "matching I F criteria [] = Inr []"
| "matching I F criteria (m # ms) =
     (case Match I F (ucast (se_Id m)) criteria m of
        Inl (Panic p) \<Rightarrow> Inl (Panic p)
      | Inr True \<Rightarrow> map_sum id ((#) (ucast (se_Id m))) (matching I F criteria ms)
      | _ \<Rightarrow> matching I F criteria ms)"

definition SearchMessages ::
  "'w mail_db \<Rightarrow> 'c imap \<Rightarrow> mail_flags \<Rightarrow> 'c \<Rightarrow> mail_box \<Rightarrow> 'w \<Rightarrow> uint32 list res \<times> 'w" where
  "SearchMessages D I F criteria mbox w =
     (case md_FindMessages D (mail_message0\<lparr>mm_BoxName := mb_BoxName mbox\<rparr>) None w of
        (err, w1) \<Rightarrow> (if err = None then matching I F criteria found_messages else Inr [], w1))"

text \<open>The date is taken as it is, unless it is zero.\<close>

definition CreateMessage ::
  "'w mail_db \<Rightarrow> mail_flags \<Rightarrow> string list \<Rightarrow> go_time option \<Rightarrow> string res \<Rightarrow> mail_box \<Rightarrow> 'w \<Rightarrow> unit res \<times> 'w" where
  "CreateMessage D F flags date body mbox w =
     (case (case date of None \<Rightarrow> md_now D w | Some d \<Rightarrow> (d, w)) of
        (date, w1) \<Rightarrow>
          (case body of
             Inl err \<Rightarrow> (Inl err, w1)
           | Inr b \<Rightarrow>
               (case uidNext D w1 of
                  (uid, w2) \<Rightarrow>
                    (Inr (), md_InsertMessage D ((splitFlag F flags (mail_message0\<lparr>se_Id := uid,
                       se_CreateDate := Some date, mm_Size := word_of_int (int (length b))\<rparr>))\<lparr>mm_Body := b,
                       mm_BoxName := mb_BoxName mbox\<rparr>) w2))))"

text \<open>The flags go to a copy of the message, the message itself is updated.\<close>

fun UpdateMessagesFlags ::
  "'w mail_db \<Rightarrow> 'c imap \<Rightarrow> mail_flags \<Rightarrow> string \<Rightarrow> string list \<Rightarrow> mail_box \<Rightarrow> (uint32 \<times> uint32) list \<Rightarrow> 'w \<Rightarrow> 'w" where
  "UpdateMessagesFlags D I F op flags mbox [] w = w"
| "UpdateMessagesFlags D I F op flags mbox (seq # seqs) w =
     (case md_FindMessages D (mail_message0\<lparr>mm_BoxName := mb_BoxName mbox\<rparr>) (Some seq) w of
        (err, w1) \<Rightarrow> UpdateMessagesFlags D I F op flags mbox seqs
          (if err = None then
             each_message (\<lambda>mailMessage w.
               let msg = splitFlag F (im_UpdateFlags I (mergeFlag F mailMessage) op flags) mailMessage
               in md_UpdateMessage D mailMessage w) found_messages w1
           else w1))"

fun copy_messages :: "'w mail_db \<Rightarrow> string \<Rightarrow> mail_box \<Rightarrow> (uint32 \<times> uint32) list \<Rightarrow> 'w \<Rightarrow> 'w" where
  "copy_messages D destName mbox [] w = w"
| "copy_messages D destName mbox (seq # seqs) w =
     (case md_FindMessages D (mail_message0\<lparr>mm_BoxName := mb_BoxName mbox\<rparr>) (Some seq) w of
        (err, w1) \<Rightarrow> copy_messages D destName mbox seqs
          (if err = None then
             each_message (\<lambda>m w. case uidNext D w of (uid, w') \<Rightarrow>
               md_InsertMessage D (m\<lparr>se_Id := uid, mm_BoxName := destName\<rparr>) w') found_messages w1
           else w1))"

definition CopyMessages ::
  "'w mail_db \<Rightarrow> string \<Rightarrow> mail_box \<Rightarrow> (uint32 \<times> uint32) list \<Rightarrow> 'w \<Rightarrow> unit res \<times> 'w" where
  "CopyMessages D destName mbox seqs w =
     (case md_GetBox D (mail_box0\<lparr>mb_BoxName := destName\<rparr>) w of
        (None, w1) \<Rightarrow> (Inl (Err ''ErrNoSuchMailbox''), w1)
      | (Some _, w1) \<Rightarrow> (Inr (), copy_messages D destName mbox seqs w1))"

definition Expunge :: "'w mail_db \<Rightarrow> mail_flags \<Rightarrow> mail_box \<Rightarrow> 'w \<Rightarrow> 'w" where
  "Expunge D F mbox =
     md_DeleteMessage D (mail_message0\<lparr>mm_BoxName := mb_BoxName mbox, mm_DeletedFlag := fl_Deleted F\<rparr>)"

section \<open>Accounts\<close>

text \<open>The map of the mailboxes is nil until somebody makes one.\<close>

record mail_user =
  mu_Account :: mail_account
  mu_Mailboxes :: "(string \<rightharpoonup> mail_box) option"

abbreviation Mailbox_Inbox :: string where "Mailbox_Inbox \<equiv> ''INBOX''"

definition mailbox_of :: "mail_user \<Rightarrow> string \<Rightarrow> mail_box option" where
  "mailbox_of ma name = (case mu_Mailboxes ma of None \<Rightarrow> None | Some boxes \<Rightarrow> boxes name)"

definition put_mailbox :: "string \<Rightarrow> mail_box \<Rightarrow> mail_user \<Rightarrow> unit res \<times> mail_user" where
  "put_mailbox name mbox ma =
     (case mu_Mailboxes ma of
        None \<Rightarrow> (Inl (Panic ''assignment to entry in nil map''), ma)
      | Some boxes \<Rightarrow> (Inr (), ma\<lparr>mu_Mailboxes := Some (boxes(name \<mapsto> mbox))\<rparr>))"

definition named_box :: "mail_user \<Rightarrow> string \<Rightarrow> mail_box" where
  "named_box ma name = mail_box0\<lparr>mb_BoxName := name, mb_AccountName := ac_Name (mu_Account ma)\<rparr>"

definition Backend_Login :: "'w mail_db \<Rightarrow> string \<Rightarrow> string \<Rightarrow> 'w \<Rightarrow> mail_user res \<times> 'w" where
  "Backend_Login D username password w =
     (case md_GetAccount D (mail_account0\<lparr>ac_Name := username, ac_Password := password\<rparr>) w of
        (Some account, w1) \<Rightarrow> (Inr \<lparr>mu_Account = account, mu_Mailboxes = None\<rparr>, w1)
      | (None, w1) \<Rightarrow> (Inl (Err ''Bad name or password''), w1))"

text \<open>\<open>ListMailboxes\<close> returns no mailbox; those it has found are kept when there is an error.\<close>

fun keep_boxes :: "bool \<Rightarrow> mail_box list \<Rightarrow> mail_user \<Rightarrow> unit res \<times> mail_user" where
  "keep_boxes subscribed [] ma = (Inr (), ma)"
| "keep_boxes subscribed (mbox # boxes) ma =
     (if subscribed \<and> \<not> mb_Subscribed mbox then keep_boxes subscribed boxes ma
      else and_then (put_mailbox (mb_BoxName mbox) mbox ma) (\<lambda>_. keep_boxes subscribed boxes))"

definition ListMailboxes ::
  "'w mail_db \<Rightarrow> bool \<Rightarrow> mail_user \<Rightarrow> 'w \<Rightarrow> (mail_box list \<times> go_error option) res \<times> mail_user \<times> 'w" where
  "ListMailboxes D subscribed ma w =
     (case md_FindBoxes D (mail_box0\<lparr>mb_AccountName := ac_Name (mu_Account ma), mb_Subscribed := subscribed\<rparr>) w of
        ((_, None), w1) \<Rightarrow> (Inr ([], None), ma, w1)
      | ((boxes, Some err), w1) \<Rightarrow>
          (case keep_boxes subscribed boxes ma of
             (Inl e, ma1) \<Rightarrow> (Inl e, ma1, w1) | (Inr _, ma1) \<Rightarrow> (Inr ([], Some err), ma1, w1)))"

definition GetMailbox :: "'w mail_db \<Rightarrow> string \<Rightarrow> mail_user \<Rightarrow> 'w \<Rightarrow> mail_box res \<times> mail_user \<times> 'w" where
  "GetMailbox D name ma w =
     (case md_GetBox D (named_box ma name) w of
        (None, w1) \<Rightarrow> (Inl (Err ''No such mailbox''), ma, w1)
      | (Some mbox, w1) \<Rightarrow>
          (case put_mailbox (mb_BoxName mbox) mbox ma of
             (Inl e, ma1) \<Rightarrow> (Inl e, ma1, w1) | (Inr _, ma1) \<Rightarrow> (Inr mbox, ma1, w1)))"

definition CreateMailbox :: "'w mail_db \<Rightarrow> string \<Rightarrow> mail_user \<Rightarrow> 'w \<Rightarrow> unit res \<times> mail_user \<times> 'w" where
  "CreateMailbox D name ma w =
     (if mailbox_of ma name \<noteq> None then (Inl (Err ''Mailbox already exists''), ma, w)
      else
        (let w1 = md_InsertBox D (named_box ma name) w in
         case put_mailbox name (named_box ma name) ma of (r, ma1) \<Rightarrow> (r, ma1, w1)))"

definition DeleteMailbox :: "'w mail_db \<Rightarrow> string \<Rightarrow> mail_user \<Rightarrow> 'w \<Rightarrow> unit res \<times> mail_user \<times> 'w" where
  "DeleteMailbox D name ma w =
     (if name = Mailbox_Inbox then (Inl (Err ''Cannot delete INBOX''), ma, w)
      else
        (let w1 = md_DeleteBox D (named_box ma name) w in
         if mailbox_of ma name = None then (Inl (Err ''No such mailbox''), ma, w1)
         else (Inr (), ma\<lparr>mu_Mailboxes := map_option (\<lambda>boxes. boxes(name := None)) (mu_Mailboxes ma)\<rparr>, w1)))"

text \<open>The mailbox with the new name is only put into the map.\<close>

definition RenameMailbox :: "'w mail_db \<Rightarrow> string \<Rightarrow> string \<Rightarrow> mail_user \<Rightarrow> 'w \<Rightarrow> unit res \<times> mail_user \<times> 'w" where
  "RenameMailbox D existingName newName ma w =
     (if mailbox_of ma existingName = None then (Inl (Err ''No such mailbox''), ma, w)
      else
        (case put_mailbox newName (named_box ma newName) ma of
           (Inl e, ma1) \<Rightarrow> (Inl e, ma1, w)
         | (Inr _, ma1) \<Rightarrow>
             if existingName \<noteq> Mailbox_Inbox then
               (Inr (), ma1\<lparr>mu_Mailboxes := map_option (\<lambda>boxes. boxes(existingName := None)) (mu_Mailboxes ma1)\<rparr>,
                md_DeleteBox D (named_box ma existingName) w)
             else (Inr (), ma1, w)))"

text \<open>The SMTP server asks for the same account, \<^verbatim>\<open>mail/smtp/backend.go\<close>.\<close>

definition Smtp_Login :: "'w mail_db \<Rightarrow> string \<Rightarrow> string \<Rightarrow> 'w \<Rightarrow> unit res \<times> 'w" where
  "Smtp_Login D username password w =
     (case md_GetAccount D (mail_account0\<lparr>ac_Name := username, ac_Password := password\<rparr>) w of
        (None, w1) \<Rightarrow> (Inl (Err ''Bad name or password''), w1)
      | (Some _, w1) \<Rightarrow> (Inr (), w1))"

text \<open>The operations of a session, in any order; what else happens to the tables between them is any change.\<close>

inductive mail_session :: "'w mail_db \<Rightarrow> mail_user \<Rightarrow> 'w \<Rightarrow> bool" for D where
  login: "Backend_Login D username password w = (Inr ma, w') \<Longrightarrow> mail_session D ma w'"
| lists: "mail_session D ma w \<Longrightarrow> ListMailboxes D subscribed ma w = (r, ma', w') \<Longrightarrow> mail_session D ma' w'"
| gets: "mail_session D ma w \<Longrightarrow> GetMailbox D name ma w = (r', ma', w') \<Longrightarrow> mail_session D ma' w'"
| creates: "mail_session D ma w \<Longrightarrow> CreateMailbox D name ma w = (r'', ma', w') \<Longrightarrow> mail_session D ma' w'"
| deletes: "mail_session D ma w \<Longrightarrow> DeleteMailbox D name ma w = (r'', ma', w') \<Longrightarrow> mail_session D ma' w'"
| renames: "mail_session D ma w \<Longrightarrow> RenameMailbox D name name' ma w = (r'', ma', w') \<Longrightarrow> mail_session D ma' w'"
| others: "mail_session D ma w \<Longrightarrow> mail_session D ma w'"

section \<open>Properties\<close>

definition all_flags :: "mail_flags \<Rightarrow> string list" where
  "all_flags F = [fl_Answered F, fl_Deleted F, fl_Flagged F, fl_Recent F, fl_Seen F, fl_Draft F]"

definition flag_set :: "mail_flags \<Rightarrow> mail_message \<Rightarrow> string \<Rightarrow> bool" where
  "flag_set F m f = (if f = fl_Answered F then mm_AnsweredFlag m \<noteq> [] else if f = fl_Deleted F then mm_DeletedFlag m \<noteq> []
     else if f = fl_Flagged F then mm_FlaggedFlag m \<noteq> [] else if f = fl_Recent F then mm_RecentFlag m \<noteq> []
     else if f = fl_Seen F then mm_SeenFlag m \<noteq> [] else f = fl_Draft F \<and> mm_DraftFlag m \<noteq> [])"

lemma flags_neq:
  assumes "distinct (all_flags F)"
  shows
    "fl_Deleted F \<noteq> fl_Answered F" "fl_Flagged F \<noteq> fl_Answered F" "fl_Recent F \<noteq> fl_Answered F"
    "fl_Seen F \<noteq> fl_Answered F" "fl_Draft F \<noteq> fl_Answered F" "fl_Flagged F \<noteq> fl_Deleted F"
    "fl_Recent F \<noteq> fl_Deleted F" "fl_Seen F \<noteq> fl_Deleted F" "fl_Draft F \<noteq> fl_Deleted F"
    "fl_Recent F \<noteq> fl_Flagged F" "fl_Seen F \<noteq> fl_Flagged F" "fl_Draft F \<noteq> fl_Flagged F"
    "fl_Seen F \<noteq> fl_Recent F" "fl_Draft F \<noteq> fl_Recent F" "fl_Draft F \<noteq> fl_Seen F"
  using assms by (auto simp: all_flags_def)

lemma mergeFlag_filter:
  assumes "distinct (all_flags F)"
  shows "mergeFlag F m = filter (flag_set F m) (all_flags F)"
proof -
  have "flag_set F m (fl_Answered F) = (mm_AnsweredFlag m \<noteq> [])" "flag_set F m (fl_Deleted F) = (mm_DeletedFlag m \<noteq> [])"
    "flag_set F m (fl_Flagged F) = (mm_FlaggedFlag m \<noteq> [])" "flag_set F m (fl_Recent F) = (mm_RecentFlag m \<noteq> [])"
    "flag_set F m (fl_Seen F) = (mm_SeenFlag m \<noteq> [])" "flag_set F m (fl_Draft F) = (mm_DraftFlag m \<noteq> [])"
    by (simp_all add: flag_set_def flags_neq [OF assms])
  moreover have "all_flags F = [fl_Answered F] @ [fl_Deleted F] @ [fl_Flagged F] @ [fl_Recent F] @ [fl_Seen F] @ [fl_Draft F]"
    by (simp add: all_flags_def)
  ultimately show ?thesis by (simp only: mergeFlag_def filter_append filter.simps)
qed

lemma flag_set_split_flag:
  assumes "distinct (all_flags F)" "[] \<notin> set (all_flags F)" "f \<in> set (all_flags F)"
  shows "flag_set F (split_flag F g m) f \<longleftrightarrow> g = f \<or> flag_set F m f"
proof -
  have "f = fl_Answered F \<or> f = fl_Deleted F \<or> f = fl_Flagged F \<or> f = fl_Recent F \<or> f = fl_Seen F \<or> f = fl_Draft F"
    using assms(3) by (simp add: all_flags_def)
  moreover have "fl_Answered F \<noteq> []" "fl_Deleted F \<noteq> []" "fl_Flagged F \<noteq> []" "fl_Recent F \<noteq> []" "fl_Seen F \<noteq> []"
    "fl_Draft F \<noteq> []"
    using assms(2) by (auto simp: all_flags_def)
  ultimately show ?thesis
    using flags_neq [OF assms(1)] flags_neq [OF assms(1), symmetric]
    by (elim disjE) (simp_all add: flag_set_def split_flag_def all_flags_def)
qed

lemma flag_set_splitFlag:
  assumes "distinct (all_flags F)" "[] \<notin> set (all_flags F)" "f \<in> set (all_flags F)"
  shows "flag_set F (splitFlag F fs m) f \<longleftrightarrow> f \<in> set fs \<or> flag_set F m f"
  using flag_set_split_flag [OF assms] by (induction fs arbitrary: m) auto

text \<open>
  Storing the flags of a message and reading them gives the flags it had and the new ones, in a fixed
  order and without those that are not known: flags are only ever added, none is taken away.
\<close>

theorem flags_only_added:
  assumes "distinct (all_flags F)" and "[] \<notin> set (all_flags F)"
  shows "mergeFlag F (splitFlag F fs m) =
    filter (\<lambda>f. f \<in> set fs \<or> f \<in> set (mergeFlag F m)) (all_flags F)"
  unfolding mergeFlag_filter [OF assms(1)]
  by (rule filter_cong) (auto simp: flag_set_splitFlag [OF assms])

text \<open>The condition of a query, as the ORM documents it.\<close>

definition bean_matches :: "mail_account \<Rightarrow> mail_account \<Rightarrow> bool" where
  "bean_matches bean row \<longleftrightarrow> (ac_Name bean = [] \<or> ac_Name row = ac_Name bean) \<and>
     (ac_Password bean = [] \<or> ac_Password row = ac_Password bean)"

text \<open>
  The ORM compares only the fields of the bean that are not empty, as it documents: with an empty
  password anybody logs in to any account, over IMAP and over SMTP.
\<close>

theorem Login_without_password:
  assumes "\<And>bean w. md_GetAccount D bean w = (List.find (bean_matches bean) (rows w), w)"
    and "row \<in> set (rows w)" and "ac_Name row = username"
  shows "\<exists>ma. Backend_Login D username [] w = (Inr ma, w) \<and> Smtp_Login D username [] w = (Inr (), w) \<and>
    (username \<noteq> [] \<longrightarrow> ac_Name (mu_Account ma) = username)"
proof -
  let ?bean = "mail_account0\<lparr>ac_Name := username, ac_Password := []\<rparr>"
  have "bean_matches ?bean row" using assms(3) by (simp add: bean_matches_def)
  then have "List.find (bean_matches ?bean) (rows w) \<noteq> None" using assms(2) by (auto simp: find_None_iff)
  then obtain account where account: "List.find (bean_matches ?bean) (rows w) = Some account" by blast
  then have "bean_matches ?bean account" by (auto simp: find_Some_iff)
  with account assms(1) [of ?bean w] show ?thesis
    by (auto simp: Backend_Login_def Smtp_Login_def bean_matches_def)
qed

lemma mail_session_nil: "mail_session D ma w \<Longrightarrow> mu_Mailboxes ma = None"
proof (induction rule: mail_session.induct)
  case (lists ma w subscribed r ma' w')
  have "mu_Mailboxes (snd (keep_boxes s boxes ma)) = None" for s boxes
    using lists.IH by (induction boxes) (auto simp: put_mailbox_def)
  with lists show ?case by (auto simp: ListMailboxes_def split: prod.splits option.splits sum.splits) (metis snd_conv)+
qed (auto simp: Backend_Login_def GetMailbox_def CreateMailbox_def DeleteMailbox_def RenameMailbox_def put_mailbox_def
    mailbox_of_def Let_def split: prod.splits option.splits if_splits)

text \<open>
  The map of the mailboxes of a session is never made: after a login no mailbox can be opened, in
  whichever order the operations come. An existing one ends the session with a panic.
\<close>

theorem no_mailbox_opened:
  assumes "mail_session D ma w" and "GetMailbox D name ma w = (r, ma', w')"
  shows "r = Inl (Err ''No such mailbox'') \<or> r = Inl (Panic ''assignment to entry in nil map'')"
  using assms mail_session_nil [OF assms(1)] by (auto simp: GetMailbox_def put_mailbox_def split: prod.splits option.splits)

text \<open>
  A new mailbox is in the table before the session panics, so that it is there for the next attempt,
  which finds it and panics as well.
\<close>

theorem CreateMailbox_panics:
  assumes "mail_session D ma w"
  shows "CreateMailbox D name ma w =
    (Inl (Panic ''assignment to entry in nil map''), ma, md_InsertBox D (named_box ma name) w)"
  using mail_session_nil [OF assms] by (simp add: CreateMailbox_def mailbox_of_def put_mailbox_def Let_def)

section \<open>Instances\<close>

definition imap_flags :: mail_flags where
  "imap_flags = \<lparr>fl_Seen = ''Seen'', fl_Answered = ''Answered'', fl_Flagged = ''Flagged'', fl_Deleted = ''Deleted'',
     fl_Draft = ''Draft'', fl_Recent = ''Recent''\<rparr>"

definition mail_tables :: "(mail_account list \<times> mail_box list) mail_db" where
  "mail_tables = \<lparr>md_GetAccount = \<lambda>bean w. (List.find (bean_matches bean) (fst w), w),
     md_GetBox = \<lambda>bean w. (List.find (\<lambda>b. mb_BoxName b = mb_BoxName bean) (snd w), w),
     md_FindBoxes = \<lambda>_ w. ((snd w, None), w), md_InsertBox = \<lambda>b w. (fst w, b # snd w),
     md_DeleteBox = \<lambda>b w. (fst w, filter (\<lambda>c. mb_BoxName c \<noteq> mb_BoxName b) (snd w)),
     md_FindMessages = \<lambda>_ _ w. (None, w), md_InsertMessage = \<lambda>_ w. w, md_UpdateMessage = \<lambda>_ w. w,
     md_DeleteMessage = \<lambda>_ w. w, md_GetSeq = \<lambda>w. (1, w), md_now = \<lambda>w. (Instant 0, w)\<rparr>"

abbreviation alice :: mail_account where
  "alice \<equiv> mail_account0\<lparr>ac_Name := ''alice'', ac_Password := ''secret''\<rparr>"

definition inbox :: mail_box where
  "inbox = mail_box0\<lparr>mb_BoxName := Mailbox_Inbox\<rparr>"

lemma alice_session: "mail_session mail_tables \<lparr>mu_Account = alice, mu_Mailboxes = None\<rparr> ([alice], [inbox])"
  by (rule mail_session.login [of _ "''alice''" "''secret''" "([alice], [inbox])"])
    (simp add: Backend_Login_def mail_tables_def bean_matches_def mail_account0_def)

theorem flags_only_added_witness:
  "mergeFlag imap_flags (splitFlag imap_flags [''Seen'', ''Other'', ''Deleted''] mail_message0) = [''Deleted'', ''Seen'']"
  by (subst flags_only_added) (simp_all add: all_flags_def imap_flags_def mergeFlag_def mail_message0_def)

theorem Login_without_password_witness:
  "\<exists>ma. Backend_Login mail_tables ''alice'' [] ([alice], []) = (Inr ma, ([alice], []))"
  using Login_without_password [of mail_tables fst alice "([alice], [])" "''alice''"]
  by (auto simp: mail_tables_def mail_account0_def)

theorem no_mailbox_opened_witness:
  "fst (GetMailbox mail_tables ''other'' \<lparr>mu_Account = alice, mu_Mailboxes = None\<rparr> ([alice], [inbox])) =
     Inl (Err ''No such mailbox'')"
  using no_mailbox_opened [OF alice_session, of "''other''"]
  by (auto simp: GetMailbox_def mail_tables_def named_box_def inbox_def mail_box0_def)

theorem CreateMailbox_panics_witness:
  "fst (CreateMailbox mail_tables ''other'' \<lparr>mu_Account = alice, mu_Mailboxes = None\<rparr> ([alice], [inbox])) =
     Inl (Panic ''assignment to entry in nil map'')"
  by (simp add: CreateMailbox_panics [OF alice_session])

end
