(* ===== verification/HttpCodec.thy ===== *)
theory HttpCodec
  imports Prelude
begin

text \<open>
  The HTTP server on a raw TCP server, \<^verbatim>\<open>transport/http/server.go\<close>: the parser of requests, which works
  with indices into the bytes that have arrived, the loop over pipelined requests and the responses. All
  connections share one codec, whose \<open>req\<close> keeps the fields of the requests before.
\<close>

section \<open>Strings\<close>

text \<open>\<open>s[a:b]\<close>.\<close>

abbreviation OutOfBounds :: go_error where "OutOfBounds \<equiv> Panic ''slice bounds out of range''"

definition substring :: "string \<Rightarrow> nat \<Rightarrow> nat \<Rightarrow> string res" where
  "substring s a b = (if a \<le> b \<and> b \<le> length s then Inr (take (b - a) (drop a s)) else Inl OutOfBounds)"

text \<open>\<open>strings.TrimSpace\<close>: the white space of Unicode, in UTF-8.\<close>

definition spaces :: "string list" where
  "spaces =
    [[CHR 0x09], [CHR 0x0A], [CHR 0x0B], [CHR 0x0C], [CHR 0x0D], [CHR 0x20], [CHR 0xC2, CHR 0x85],
     [CHR 0xC2, CHR 0xA0], [CHR 0xE1, CHR 0x9A, CHR 0x80], [CHR 0xE2, CHR 0x80, CHR 0x80],
     [CHR 0xE2, CHR 0x80, CHR 0x81], [CHR 0xE2, CHR 0x80, CHR 0x82], [CHR 0xE2, CHR 0x80, CHR 0x83],
     [CHR 0xE2, CHR 0x80, CHR 0x84], [CHR 0xE2, CHR 0x80, CHR 0x85], [CHR 0xE2, CHR 0x80, CHR 0x86],
     [CHR 0xE2, CHR 0x80, CHR 0x87], [CHR 0xE2, CHR 0x80, CHR 0x88], [CHR 0xE2, CHR 0x80, CHR 0x89],
     [CHR 0xE2, CHR 0x80, CHR 0x8A], [CHR 0xE2, CHR 0x80, CHR 0xA8], [CHR 0xE2, CHR 0x80, CHR 0xA9],
     [CHR 0xE2, CHR 0x80, CHR 0xAF], [CHR 0xE2, CHR 0x81, CHR 0x9F], [CHR 0xE3, CHR 0x80, CHR 0x80]]"

function trim_left :: "string list \<Rightarrow> string \<Rightarrow> string" where
  "trim_left ws s =
     (case List.find (\<lambda>w. w \<noteq> [] \<and> has_prefix s w) ws of
        None \<Rightarrow> s
      | Some w \<Rightarrow> if length w = 0 \<or> length s = 0 then s else trim_left ws (drop (length w) s))"
  by pat_completeness auto
termination by (relation "measure (length \<circ> snd)") auto

definition TrimSpace :: "string \<Rightarrow> string" where
  "TrimSpace s = rev (trim_left (map rev spaces) (rev (trim_left spaces s)))"

text \<open>\<open>strconv.ParseInt(s, 10, 64)\<close>: a sign, at least one digit, and the range of \<open>int64\<close>.\<close>

definition ParseInt :: "string \<Rightarrow> int option" where
  "ParseInt s =
     (let digits = (case s of [] \<Rightarrow> [] | c # cs \<Rightarrow> if c \<in> {CHR ''+'', CHR ''-''} then cs else s);
          n = int (read_nat digits);
          k = (if has_prefix s ''-'' then - n else n) in
      if digits \<noteq> [] \<and> set digits \<subseteq> set ''0123456789'' \<and> - (2 ^ 63) \<le> k \<and> k < 2 ^ 63 then Some k else None)"

section \<open>Parsing a request\<close>

record request =
  rq_proto :: string
  rq_method :: string
  rq_path :: string
  rq_query :: string
  rq_head :: string
  rq_body :: string
  rq_remoteAddr :: string

text \<open>
  The nested loops over the index \<open>i\<close>, with the start \<open>s\<close> of the current part. The innermost one looks for
  the end of the line.
\<close>

abbreviation line_end :: "string \<Rightarrow> nat \<Rightarrow> bool" where
  "line_end d i \<equiv> d ! i = CHR 0x0A \<and> d ! (i - 1) = CHR 0x0D"

function parse_proto :: "string \<Rightarrow> nat \<Rightarrow> nat \<Rightarrow> request \<Rightarrow> (request \<times> nat \<times> nat) res" where
  "parse_proto d s i req =
     (if i < length d then
        if line_end d i then
          (case substring d s i of
             Inl e \<Rightarrow> Inl e
           | Inr proto \<Rightarrow> Inr (req\<lparr>rq_proto := proto\<rparr>, i + 1, i + 1))
        else parse_proto d s (i + 1) req
      else Inr (req, i, s))"
  by pat_completeness auto
termination by (relation "measure (\<lambda>(d, s, i, req). length d - i)") auto

text \<open>\<open>q\<close> is the place of the question mark within the path; \<open>None\<close> is -1.\<close>

definition set_path :: "string \<Rightarrow> nat \<Rightarrow> nat \<Rightarrow> nat option \<Rightarrow> request \<Rightarrow> request res" where
  "set_path d s i q req =
     (case q of
        None \<Rightarrow> (case substring d s i of Inl e \<Rightarrow> Inl e | Inr path \<Rightarrow> Inr (req\<lparr>rq_path := path\<rparr>))
      | Some q \<Rightarrow>
          (case substring d s q of
             Inl e \<Rightarrow> Inl e
           | Inr path \<Rightarrow>
               (case substring path (q + 1) i of
                  Inl e \<Rightarrow> Inl e
                | Inr query \<Rightarrow> Inr (req\<lparr>rq_path := path, rq_query := query\<rparr>))))"

function parse_path :: "string \<Rightarrow> nat \<Rightarrow> nat option \<Rightarrow> nat \<Rightarrow> request \<Rightarrow> (request \<times> nat \<times> nat) res" where
  "parse_path d s q i req =
     (if i < length d then
        if d ! i = CHR ''?'' \<and> q = None then parse_path d s (Some (i - s)) (i + 1) req
        else if d ! i = CHR '' '' then
          (case set_path d s i q req of
             Inl e \<Rightarrow> Inl e
           | Inr req1 \<Rightarrow> parse_proto d (i + 1) (i + 1) req1)
        else parse_path d s q (i + 1) req
      else Inr (req, i, s))"
  by pat_completeness auto
termination by (relation "measure (\<lambda>(d, s, q, i, req). length d - i)") auto

function parse_method :: "string \<Rightarrow> nat \<Rightarrow> request \<Rightarrow> (request \<times> nat \<times> nat) res" where
  "parse_method d i req =
     (if i < length d then
        if d ! i = CHR '' '' then
          (case substring d 0 i of
             Inl e \<Rightarrow> Inl e
           | Inr meth \<Rightarrow> parse_path d (i + 1) None (i + 1) (req\<lparr>rq_method := meth\<rparr>))
        else parse_method d (i + 1) req
      else Inr (req, i, 0))"
  by pat_completeness auto
termination by (relation "measure (\<lambda>(d, i, req). length d - i)") auto

text \<open>
  The lines of the header up to the empty one, then the body. The result is the index at which the rest
  begins; \<open>None\<close> is a request that is not complete.
\<close>

definition content_length :: "string \<Rightarrow> int \<Rightarrow> int" where
  "content_length line clen =
     (if has_prefix line ''Content-Length:'' then
        (case ParseInt (TrimSpace (drop (length ''Content-Length:'') line)) of None \<Rightarrow> clen | Some n \<Rightarrow> n)
      else clen)"

definition parse_body :: "string \<Rightarrow> nat \<Rightarrow> int \<Rightarrow> request \<Rightarrow> (request \<times> nat option) res" where
  "parse_body d i clen req =
     (if clen > 0 then
        if int (length (drop i d)) < clen then Inr (req, None)
        else
          (case substring d i (i + nat clen) of
             Inl e \<Rightarrow> Inl e
           | Inr body \<Rightarrow> Inr (req\<lparr>rq_body := body\<rparr>, Some (i + nat clen)))
      else Inr (req, Some i))"

function parse_headers :: "string \<Rightarrow> nat \<Rightarrow> nat \<Rightarrow> nat \<Rightarrow> int \<Rightarrow> request \<Rightarrow> (request \<times> nat option) res" where
  "parse_headers d head s i clen req =
     (if i < length d then
        if i > 1 \<and> line_end d i then
          (case substring d s (i - 1) of
             Inl e \<Rightarrow> Inl e
           | Inr line \<Rightarrow>
               if line = [] then
                 (case substring d (head + 2) (i + 1) of
                    Inl e \<Rightarrow> Inl e
                  | Inr h \<Rightarrow> parse_body d (i + 1) clen (req\<lparr>rq_head := h\<rparr>))
               else parse_headers d head (i + 1) (i + 1) (content_length line clen) req)
        else parse_headers d head s (i + 1) clen req
      else Inr (req, None))"
  by pat_completeness auto
termination by (relation "measure (\<lambda>(d, head, s, i, clen, req). length d - i)") auto

declare trim_left.simps [simp del] parse_proto.simps [simp del] parse_path.simps [simp del]
  parse_method.simps [simp del] parse_headers.simps [simp del]

text \<open>
  \<open>parseReq\<close>: the rest of the data and the request as it is left, also when the line is malformed. A panic
  ends the server.
\<close>

definition parseReq :: "string \<Rightarrow> request \<Rightarrow> string res \<times> request" where
  "parseReq data req =
     (case parse_method data 0 req of
        Inl e \<Rightarrow> (Inl e, req)
      | Inr (req1, i, s) \<Rightarrow>
          if rq_proto req1 = [] then (Inl (Err ''malformed request''), req1)
          else
            (case parse_headers data s s i 0 req1 of
               Inl e \<Rightarrow> (Inl e, req1)
             | Inr (req2, None) \<Rightarrow> (Inr data, req2)
             | Inr (req2, Some j) \<Rightarrow> (Inr (drop j data), req2)))"

section \<open>Responses\<close>

definition appendResp :: "string \<Rightarrow> string \<Rightarrow> string \<Rightarrow> string \<Rightarrow> string \<Rightarrow> string" where
  "appendResp date b status head body =
     b @ ''HTTP/1.1'' @ '' '' @ status @ [CHR 0x0D, CHR 0x0A] @ ''Server: gnet'' @ [CHR 0x0D, CHR 0x0A] @
     ''Date: '' @ date @ [CHR 0x0D, CHR 0x0A] @
     (if length body > 0 then ''Content-Length: '' @ show_nat (length body) @ [CHR 0x0D, CHR 0x0A] else []) @
     head @ [CHR 0x0D, CHR 0x0A] @ (if length body > 0 then body else [])"

definition appendHandle :: "string \<Rightarrow> string \<Rightarrow> string \<Rightarrow> string" where
  "appendHandle date b res = appendResp date b ''200 OK'' [] res"

text \<open>
  The server: the shared request, the clock as the list of the dates that it will show, and of a connection
  the bytes that have arrived and the error that is kept as its context.
\<close>

record http_state =
  hs_req :: request
  hs_now :: "nat \<Rightarrow> string"
  hs_clock :: nat
  hs_buffer :: string
  hs_Context :: "string option"

definition http_date :: "http_state \<Rightarrow> string \<times> http_state" where
  "http_date s = (hs_now s (hs_clock s), s\<lparr>hs_clock := Suc (hs_clock s)\<rparr>)"

definition Encode :: "string \<Rightarrow> http_state \<Rightarrow> string \<times> http_state" where
  "Encode buf s =
     (case hs_Context s of
        None \<Rightarrow> (buf, s)
      | Some _ \<Rightarrow>
          (case http_date s of
             (date, s1) \<Rightarrow> (appendResp date [] ''500 Error'' [] (''Internal Server Error'' @ [CHR 0x0A]), s1)))"

definition React :: "string \<Rightarrow> http_state \<Rightarrow> string \<times> bool" where
  "React frame s = (if hs_Context s \<noteq> None then (''Internal Server Error'', True) else (frame, False))"

lemma parse_body_bound:
  "parse_body d i clen req = Inr (req', Some j) \<Longrightarrow> i \<le> j"
  by (auto simp: parse_body_def split: if_splits sum.splits)

lemma parse_headers_bound:
  "parse_headers d head s i clen req = Inr (req', Some j) \<Longrightarrow> i < j"
  by (induction d head s i clen req rule: parse_headers.induct)
    (subst (asm) (3) parse_headers.simps, force split: if_splits sum.splits dest: parse_body_bound)

lemma parseReq_leftover: "parseReq data req = (Inr leftover, req') \<Longrightarrow> length leftover \<le> length data"
  by (auto simp: parseReq_def split: sum.splits prod.splits if_splits option.splits)

text \<open>The pipeline: a response for each request, until no complete one is left.\<close>

function pipeline :: "string \<Rightarrow> string \<Rightarrow> string \<Rightarrow> http_state \<Rightarrow> string res \<times> http_state" where
  "pipeline res buf out s =
     (case parseReq buf (hs_req s) of
        (Inl (Panic p), req) \<Rightarrow> (Inl (Panic p), s\<lparr>hs_req := req\<rparr>)
      | (Inl (Err e), req) \<Rightarrow> (Inl (Err e), s\<lparr>hs_req := req, hs_Context := Some e\<rparr>)
      | (Inr leftover, req) \<Rightarrow>
          if length leftover = length buf then (Inr out, s\<lparr>hs_req := req\<rparr>)
          else
            (case http_date (s\<lparr>hs_req := req\<rparr>) of
               (date, s1) \<Rightarrow> pipeline res leftover (appendHandle date out res) s1))"
  by pat_completeness auto
termination
  by (relation "measure (\<lambda>(res, buf, out, s). length buf)") (auto dest!: parseReq_leftover [OF sym] simp: le_neq_implies_less)

declare pipeline.simps [simp del]

definition Decode :: "string \<Rightarrow> http_state \<Rightarrow> string res \<times> http_state" where
  "Decode res s = pipeline res (hs_buffer s) [] (s\<lparr>hs_buffer := []\<rparr>)"

section \<open>Properties\<close>

text \<open>The bytes of a request without a body or with the length of its body in the header.\<close>

abbreviation CRLF :: string where "CRLF \<equiv> [CHR 0x0D, CHR 0x0A]"

definition request_line :: "string \<Rightarrow> string \<Rightarrow> string \<Rightarrow> string" where
  "request_line meth path proto = meth @ '' '' @ path @ '' '' @ proto @ CRLF"

definition header_lines :: "string list \<Rightarrow> string" where
  "header_lines lines = concat (map (\<lambda>l. l @ CRLF) lines)"

lemma substring_part [simp]: "substring (a @ b @ c) (length a) (length a + length b) = Inr b"
  by (simp add: substring_def)

lemma substring_end: "a \<le> length xs \<Longrightarrow> substring (xs @ ys) a (length xs) = Inr (drop a xs)"
  by (simp add: substring_def)

text \<open>The loops on data that are split at the index.\<close>

lemma parse_proto_line:
  assumes "CHR 0x0A \<notin> set xs"
  shows "parse_proto (pre @ ys @ xs @ CRLF @ rest) (length pre) (length pre + length ys) req =
    Inr (req\<lparr>rq_proto := ys @ xs @ [CHR 0x0D]\<rparr>, length pre + length ys + length xs + 2, length pre + length ys + length xs + 2)"
  using assms
proof (induction xs arbitrary: ys)
  case Nil
  have sub: "substring (pre @ ys @ CRLF @ rest) (length pre) (length pre + length ys + 1) = Inr (ys @ [CHR 0x0D])"
    using substring_part [of pre "ys @ [CHR 0x0D]" "CHR 0x0A # rest"] by simp
  have "parse_proto (pre @ ys @ CRLF @ rest) (length pre) (length pre + length ys + 1) req =
      Inr (req\<lparr>rq_proto := ys @ [CHR 0x0D]\<rparr>, length pre + length ys + 2, length pre + length ys + 2)"
    using sub by (subst parse_proto.simps) (simp add: nth_append)
  then show ?case by (subst parse_proto.simps) (simp add: nth_append)
next
  case (Cons x xs)
  from Cons.IH [of "ys @ [x]"] Cons.prems show ?case
    by (subst parse_proto.simps) (auto simp: nth_append)
qed

lemma parse_path_plain:
  assumes "CHR '' '' \<notin> set xs" and "CHR ''?'' \<notin> set xs"
  shows "parse_path (pre @ ys @ xs @ '' '' @ rest) (length pre) None (length pre + length ys) req =
    parse_proto (pre @ ys @ xs @ '' '' @ rest) (length pre + length ys + length xs + 1)
      (length pre + length ys + length xs + 1) (req\<lparr>rq_path := ys @ xs\<rparr>)"
  using assms
proof (induction xs arbitrary: ys)
  case Nil
  then show ?case
    using substring_part [of pre ys "'' '' @ rest"]
    by (subst parse_path.simps) (simp add: nth_append set_path_def)
next
  case (Cons x xs)
  from Cons.IH [of "ys @ [x]"] Cons.prems show ?case
    by (subst parse_path.simps) (auto simp: nth_append)
qed

lemma parse_method_word:
  assumes "CHR '' '' \<notin> set xs"
  shows "parse_method (ys @ xs @ '' '' @ rest) (length ys) req =
    parse_path (ys @ xs @ '' '' @ rest) (length ys + length xs + 1) None (length ys + length xs + 1)
      (req\<lparr>rq_method := ys @ xs\<rparr>)"
  using assms
proof (induction xs arbitrary: ys)
  case Nil
  then show ?case
    using substring_part [of "[]" ys "'' '' @ rest"]
    by (subst parse_method.simps) (simp add: nth_append)
next
  case (Cons x xs)
  from Cons.IH [of "ys @ [x]"] Cons.prems show ?case
    by (subst parse_method.simps) (auto simp: nth_append)
qed

lemma parse_method_line:
  assumes "CHR '' '' \<notin> set meth" and "CHR '' '' \<notin> set path" "CHR ''?'' \<notin> set path" and "CHR 0x0A \<notin> set proto"
  shows "parse_method (request_line meth path proto @ rest) 0 req =
    Inr (req\<lparr>rq_method := meth, rq_path := path, rq_proto := proto @ [CHR 0x0D]\<rparr>,
      length (request_line meth path proto), length (request_line meth path proto))"
proof -
  have "parse_method (request_line meth path proto @ rest) 0 req =
      parse_path (request_line meth path proto @ rest) (length meth + 1) None (length meth + 1) (req\<lparr>rq_method := meth\<rparr>)"
    using parse_method_word [OF assms(1), of "[]"] by (simp add: request_line_def)
  also have "\<dots> = parse_proto (request_line meth path proto @ rest) (length meth + length path + 2)
      (length meth + length path + 2) (req\<lparr>rq_method := meth, rq_path := path\<rparr>)"
    using parse_path_plain [OF assms(2,3), of "meth @ '' ''" "[]"] by (simp add: request_line_def)
  also have "\<dots> = Inr (req\<lparr>rq_method := meth, rq_path := path, rq_proto := proto @ [CHR 0x0D]\<rparr>,
      length (request_line meth path proto), length (request_line meth path proto))"
    using parse_proto_line [OF assms(4), of "meth @ '' '' @ path @ '' ''" "[]"] by (simp add: request_line_def)
  finally show ?thesis .
qed

text \<open>One line of the header.\<close>

lemma parse_headers_line:
  assumes "CHR 0x0A \<notin> set xs" and "1 < length pre"
  shows "parse_headers (pre @ ys @ xs @ CRLF @ rest) head (length pre) (length pre + length ys) clen req =
    parse_headers (pre @ ys @ xs @ CRLF @ rest) head (length pre) (length pre + length ys + length xs + 1) clen req"
  using assms(1)
proof (induction xs arbitrary: ys)
  case Nil
  then show ?case using assms(2)
    by (subst parse_headers.simps) (simp add: nth_append)
next
  case (Cons x xs)
  from Cons.IH [of "ys @ [x]"] Cons.prems assms(2) show ?case
    by (subst parse_headers.simps) (auto simp: nth_append)
qed

lemma parse_headers_step:
  assumes "CHR 0x0A \<notin> set line" and "1 < length pre"
  shows "parse_headers (pre @ line @ CRLF @ rest) head (length pre) (length pre) clen req =
    (if line = [] then
       (case substring (pre @ CRLF @ rest) (head + 2) (length pre + 2) of
          Inl e \<Rightarrow> Inl e
        | Inr h \<Rightarrow> parse_body (pre @ CRLF @ rest) (length pre + 2) clen (req\<lparr>rq_head := h\<rparr>))
     else parse_headers (pre @ line @ CRLF @ rest) head (length pre + length line + 2) (length pre + length line + 2)
       (content_length line clen) req)"
proof -
  let ?d = "pre @ line @ CRLF @ rest"
  have i: "length pre + length line + 1 < length ?d" "1 < length pre + length line + 1"
    "?d ! (length pre + length line + 1) = CHR 0x0A" "?d ! (length pre + length line) = CHR 0x0D"
    "length pre + length line + 1 - 1 = length pre + length line"
    using assms(2) by (auto simp: nth_append)
  have "parse_headers ?d head (length pre) (length pre) clen req =
      parse_headers ?d head (length pre) (length pre + length line + 1) clen req"
    using parse_headers_line [OF assms, of "[]"] by simp
  also have "\<dots> = (if line = [] then
       (case substring ?d (head + 2) (length pre + length line + 1 + 1) of
          Inl e \<Rightarrow> Inl e
        | Inr h \<Rightarrow> parse_body ?d (length pre + length line + 1 + 1) clen (req\<lparr>rq_head := h\<rparr>))
     else parse_headers ?d head (length pre + length line + 1 + 1) (length pre + length line + 1 + 1)
       (content_length line clen) req)"
    by (subst parse_headers.simps) (simp only: i substring_part sum.case simp_thms if_True)
  finally show ?thesis by (simp split: sum.split)
qed

lemma parse_headers_lines:
  assumes "\<And>l. l \<in> set lines \<Longrightarrow> l \<noteq> [] \<and> CHR 0x0A \<notin> set l" and "1 < length pre" and "head \<le> length pre"
  shows "parse_headers (pre @ header_lines lines @ CRLF @ rest) head (length pre) (length pre) clen req =
    parse_body (pre @ header_lines lines @ CRLF @ rest) (length pre + length (header_lines lines) + 2)
      (fold content_length lines clen)
      (req\<lparr>rq_head := drop (head + 2) (pre @ header_lines lines @ CRLF)\<rparr>)"
  using assms
proof (induction lines arbitrary: pre clen)
  case Nil
  then show ?case
    using parse_headers_step [of "[]" pre rest head clen req] substring_end [of "head + 2" "pre @ CRLF" rest]
    by (simp add: header_lines_def)
next
  case (Cons l ls)
  have l: "l \<noteq> []" "CHR 0x0A \<notin> set l" using Cons.prems(1) by auto
  have ls: "l' \<noteq> [] \<and> CHR 0x0A \<notin> set l'" if "l' \<in> set ls" for l' using Cons.prems(1) that by simp
  have "parse_headers (pre @ header_lines (l # ls) @ CRLF @ rest) head (length pre) (length pre) clen req =
      parse_headers ((pre @ l @ CRLF) @ header_lines ls @ CRLF @ rest) head (length (pre @ l @ CRLF))
        (length (pre @ l @ CRLF)) (content_length l clen) req"
    using parse_headers_step [OF l(2) Cons.prems(2), of "header_lines ls @ CRLF @ rest" head clen req] l(1)
    by (simp add: header_lines_def)
  also have "\<dots> = parse_body ((pre @ l @ CRLF) @ header_lines ls @ CRLF @ rest)
      (length (pre @ l @ CRLF) + length (header_lines ls) + 2) (fold content_length ls (content_length l clen))
      (req\<lparr>rq_head := drop (head + 2) ((pre @ l @ CRLF) @ header_lines ls @ CRLF)\<rparr>)"
    by (rule Cons.IH [OF ls]) (use Cons.prems(2,3) in auto)
  finally show ?case by (simp add: header_lines_def add.assoc del: drop_append)
qed

definition request_bytes :: "string \<Rightarrow> string \<Rightarrow> string \<Rightarrow> string list \<Rightarrow> string \<Rightarrow> string" where
  "request_bytes meth path proto lines body = request_line meth path proto @ header_lines lines @ CRLF @ body"

text \<open>The target has no query, and the header gives the length of the body, if there is one.\<close>

definition well_formed :: "string \<Rightarrow> string \<Rightarrow> string \<Rightarrow> string list \<Rightarrow> string \<Rightarrow> bool" where
  "well_formed meth path proto lines body \<longleftrightarrow>
     CHR '' '' \<notin> set meth \<and> CHR '' '' \<notin> set path \<and> CHR ''?'' \<notin> set path \<and> CHR 0x0A \<notin> set proto \<and>
     list_all (\<lambda>l. l \<noteq> [] \<and> CHR 0x0A \<notin> set l) lines \<and> fold content_length lines 0 = int (length body)"

definition parsed :: "string \<Rightarrow> string \<Rightarrow> string \<Rightarrow> string list \<Rightarrow> string \<Rightarrow> request \<Rightarrow> request" where
  "parsed meth path proto lines body req =
     req\<lparr>rq_method := meth, rq_path := path, rq_proto := proto @ [CHR 0x0D], rq_head := drop 2 (header_lines lines @ CRLF),
       rq_body := (if body = [] then rq_body req else body)\<rparr>"

lemma parseReq_bytes:
  assumes "well_formed meth path proto lines body"
  shows "parseReq (request_bytes meth path proto lines body @ rest) req = (Inr rest, parsed meth path proto lines body req)"
proof -
  let ?l = "request_line meth path proto" and ?d = "request_bytes meth path proto lines body @ rest"
  let ?r = "req\<lparr>rq_method := meth, rq_path := path, rq_proto := proto @ [CHR 0x0D]\<rparr>"
  have line: "parse_method ?d 0 req = Inr (?r, length ?l, length ?l)"
    using assms by (simp only: request_bytes_def append_assoc) (rule parse_method_line; simp add: well_formed_def)
  have "parse_headers ?d (length ?l) (length ?l) (length ?l) 0 ?r =
      parse_body ?d (length ?l + length (header_lines lines) + 2) (int (length body))
        (?r\<lparr>rq_head := drop 2 (header_lines lines @ CRLF)\<rparr>)"
  proof -
    have "drop (length ?l + 2) (?l @ header_lines lines @ CRLF) = drop 2 (header_lines lines @ CRLF)" by simp
    moreover have "1 < length ?l" by (simp add: request_line_def)
    ultimately show ?thesis
      using assms parse_headers_lines [of lines ?l "length ?l" "body @ rest" 0 ?r]
      by (simp only: request_bytes_def well_formed_def list_all_iff append_assoc) simp
  qed
  also have "\<dots> = Inr (parsed meth path proto lines body req, Some (length (request_bytes meth path proto lines body)))"
    by (auto simp: parse_body_def parsed_def substring_def request_bytes_def)
  finally show ?thesis using line by (simp add: parseReq_def parsed_def)
qed


lemma parse_path_query:
  assumes "CHR '' '' \<notin> set xs" and "q = None \<Longrightarrow> CHR ''?'' \<in> set xs"
  shows "parse_path (pre @ ys @ xs @ '' '' @ rest) (length pre) q (length pre + length ys) req = Inl OutOfBounds"
  using assms
proof (induction xs arbitrary: ys q)
  case Nil
  then obtain q' where "q = Some q'" by (cases q) auto
  then show ?case
    by (subst parse_path.simps) (auto simp: nth_append set_path_def substring_def split: sum.split)
next
  case (Cons x xs)
  from Cons.IH [where ys = "ys @ [x]" and q = q] Cons.IH [where ys = "ys @ [x]" and q = "Some (length ys)"]
    Cons.prems show ?case
    by (subst parse_path.simps) (auto simp: nth_append)
qed

text \<open>
  C38: a request whose target has a query ends the server: the end of the path is taken relative to its
  start, and the query is cut out of the path.
\<close>

theorem query_panics:
  assumes "CHR '' '' \<notin> set meth" and "CHR '' '' \<notin> set target" and "CHR ''?'' \<in> set target"
    and "hs_buffer s = meth @ '' '' @ target @ '' '' @ rest"
  shows "fst (Decode res s) = Inl (Panic ''slice bounds out of range'')"
proof -
  have "parse_method (meth @ '' '' @ target @ '' '' @ rest) 0 req = Inl OutOfBounds" for req
    using parse_method_word [OF assms(1), of "[]" "target @ '' '' @ rest"]
      parse_path_query [OF assms(2), of None "meth @ '' ''" "[]"] assms(3) by simp
  then show ?thesis using assms(4) by (simp add: Decode_def pipeline.simps parseReq_def)
qed

lemma appendHandle_out: "appendHandle date out res = out @ appendHandle date [] res"
  by (simp add: appendHandle_def appendResp_def)

text \<open>The responses to \<open>n\<close> requests.\<close>

definition responses :: "string \<Rightarrow> nat \<Rightarrow> http_state \<Rightarrow> string" where
  "responses res n s = concat (map (\<lambda>k. appendHandle (hs_now s (hs_clock s + k)) [] res) [0..<n])"

lemma responses_Suc:
  "responses res (Suc n) s =
    appendHandle (hs_now s (hs_clock s)) [] res @ responses res n (s\<lparr>hs_req := req, hs_clock := Suc (hs_clock s)\<rparr>)"
  unfolding responses_def by (simp add: upt_conv_Cons map_Suc_upt [symmetric] del: upt_Suc map_map) (simp add: comp_def)

lemma pipeline_bytes:
  assumes "list_all (\<lambda>(meth, path, proto, lines, body). well_formed meth path proto lines body) rs"
    and "rs \<noteq> [] \<or> rq_proto (hs_req s) \<noteq> []"
  shows "fst (pipeline res (concat (map (\<lambda>(meth, path, proto, lines, body). request_bytes meth path proto lines body) rs)) out s)
    = Inr (out @ responses res (length rs) s)"
  using assms
proof (induction rs arbitrary: out s)
  case Nil
  then show ?case
    by (simp add: pipeline.simps parseReq_def parse_method.simps parse_headers.simps responses_def)
next
  case (Cons r rs)
  obtain meth path proto lines body where r: "r = (meth, path, proto, lines, body)" by (cases r) auto
  let ?rest = "concat (map (\<lambda>(meth, path, proto, lines, body). request_bytes meth path proto lines body) rs)"
  let ?req = "parsed meth path proto lines body (hs_req s)"
  have parse: "parseReq (request_bytes meth path proto lines body @ ?rest) (hs_req s) = (Inr ?rest, ?req)"
    using Cons.prems(1) by (simp add: r parseReq_bytes)
  have "length ?rest \<noteq> length (request_bytes meth path proto lines body @ ?rest)"
    by (simp add: request_bytes_def request_line_def)
  with parse have "fst (pipeline res (request_bytes meth path proto lines body @ ?rest) out s) =
      fst (pipeline res ?rest (appendHandle (hs_now s (hs_clock s)) out res) (s\<lparr>hs_req := ?req, hs_clock := Suc (hs_clock s)\<rparr>))"
    by (simp add: pipeline.simps [of res "request_bytes meth path proto lines body @ ?rest"] http_date_def)
  also have "\<dots> = Inr (appendHandle (hs_now s (hs_clock s)) out res @
      responses res (length rs) (s\<lparr>hs_req := ?req, hs_clock := Suc (hs_clock s)\<rparr>))"
    by (rule Cons.IH) (use Cons.prems(1) in \<open>simp_all add: parsed_def\<close>)
  finally show ?case
    by (simp add: r appendHandle_out [of _ out] responses_Suc [of res "length rs" s ?req])
qed

text \<open>
  C27: the pipeline answers requests without a query that arrive together once each, in their order, and
  returns.
\<close>

theorem Decode_answers:
  assumes "list_all (\<lambda>(meth, path, proto, lines, body). well_formed meth path proto lines body) rs" and "rs \<noteq> []"
    and "hs_buffer s = concat (map (\<lambda>(meth, path, proto, lines, body). request_bytes meth path proto lines body) rs)"
  shows "fst (Decode res s) = Inr (concat (map (\<lambda>k. appendHandle (hs_now s (hs_clock s + k)) [] res) [0..<length rs]))"
  using pipeline_bytes [OF assms(1) disjI1 [OF assms(2)], of res "[]" "s\<lparr>hs_buffer := []\<rparr>"]
  by (simp add: Decode_def assms(3) responses_def)

text \<open>Where the loops over the request line end.\<close>

definition line_read :: "string \<Rightarrow> nat \<Rightarrow> nat \<Rightarrow> bool" where
  "line_read d i s \<longleftrightarrow> length d \<le> i \<or> i = s \<and> 1 < s \<and> line_end d (s - 1)"

lemma parse_proto_read:
  "parse_proto d s i req = Inr (req', i', s') \<Longrightarrow> 0 < s \<Longrightarrow> s \<le> i \<Longrightarrow> d ! (s - 1) = CHR '' '' \<Longrightarrow>
    line_read d i' s' \<and> (rq_proto req' = rq_proto req \<or> rq_proto req' \<noteq> [])"
proof (induction d s i req rule: parse_proto.induct)
  case (1 d s i req)
  show ?case
  proof (cases "i < length d \<and> line_end d i")
    case True
    with 1 have "s < i" by (cases "s = i") auto
    with True 1 show ?thesis
      by (subst (asm) (2) parse_proto.simps) (auto simp: line_read_def substring_def split: if_splits)
  next
    case False
    with 1 show ?thesis
      by (cases "i < length d"; subst (asm) (3) parse_proto.simps) (auto simp: line_read_def split: if_splits)
  qed
qed

lemma set_path_proto [simp]: "set_path d s i q req = Inr req' \<Longrightarrow> rq_proto req' = rq_proto req"
  by (auto simp: set_path_def split: option.splits sum.splits)

lemma parse_path_read:
  "parse_path d s q i req = Inr (req', i', s') \<Longrightarrow>
    line_read d i' s' \<and> (rq_proto req' = rq_proto req \<or> rq_proto req' \<noteq> [])"
  by (induction d s q i req rule: parse_path.induct)
    (subst (asm) (3) parse_path.simps, auto simp: line_read_def split: if_splits sum.splits dest!: parse_proto_read)

lemma parse_method_read:
  "parse_method d i req = Inr (req', i', s') \<Longrightarrow>
    line_read d i' s' \<and> (rq_proto req' = rq_proto req \<or> rq_proto req' \<noteq> [])"
  by (induction d i req rule: parse_method.induct)
    (subst (asm) (2) parse_method.simps, auto simp: line_read_def split: if_splits sum.splits dest!: parse_path_read)

text \<open>The header ends with an empty line.\<close>

lemma empty_line_contained:
  assumes "line_end d (s - 1)" and "line_end d i" and "1 < s" and "i = s + 1" and "i < length d"
  shows "contains d (CRLF @ CRLF)"
proof -
  obtain k where k: "s = k + 2" using assms(3) by (metis Suc_1 add.commute le_Suc_ex less_eq_Suc_le)
  have "drop k d = CRLF @ CRLF @ drop (k + 4) d"
    using assms by (simp add: k Cons_nth_drop_Suc [symmetric] eval_nat_numeral)
  then have "d = take k d @ (CRLF @ CRLF) @ drop (k + 4) d" by (metis append_take_drop_id append_assoc)
  then show ?thesis unfolding contains_iff by blast
qed

lemma parse_headers_complete:
  "parse_headers d head s i clen req = Inr (req', Some j) \<Longrightarrow> 1 < s \<Longrightarrow> s \<le> i \<Longrightarrow> line_end d (s - 1) \<Longrightarrow>
    contains d (CRLF @ CRLF)"
proof (induction d head s i clen req rule: parse_headers.induct)
  case (1 d head s i clen req)
  consider "length d \<le> i" | "i < length d" "\<not> (i > 1 \<and> line_end d i)" | "i < length d" "i > 1" "line_end d i" by linarith
  then show ?case
  proof cases
    case 1
    with "1.prems" show ?thesis by (subst (asm) parse_headers.simps) simp
  next
    case 2
    with "1.prems" have "parse_headers d head s (i + 1) clen req = Inr (req', Some j)"
      by (subst (asm) parse_headers.simps) (simp split: if_splits)
    with "1.IH"(2) 2 "1.prems" show ?thesis by simp
  next
    case 3
    with "1.prems" obtain line where line: "substring d s (i - 1) = Inr line"
      by (subst (asm) parse_headers.simps) (auto split: sum.splits if_splits)
    show ?thesis
    proof (cases "line = []")
      case True
      with line 3 "1.prems" have "i = s + 1"
        by (cases "i = s") (auto simp: substring_def split: if_splits)
      with 3 "1.prems"(2,4) show ?thesis by (intro empty_line_contained [of d s i]) auto
    next
      case False
      with line 3 "1.prems"(1)
      have "parse_headers d head (i + 1) (i + 1) (content_length line clen) req = Inr (req', Some j)"
        by (subst (asm) parse_headers.simps) simp
      with "1.IH"(1) [OF 3(1) _ line False] 3 show ?thesis by simp
    qed
  qed
qed

lemma parseReq_incomplete:
  assumes "\<not> contains d (CRLF @ CRLF)" and "parseReq d req = (Inr leftover, req')"
  shows "leftover = d"
proof -
  obtain req1 i s where line: "parse_method d 0 req = Inr (req1, i, s)"
    using assms(2) by (auto simp: parseReq_def split: sum.splits)
  then have "line_read d i s" using parse_method_read by blast
  then have "\<forall>req'' j. parse_headers d s s i 0 req1 \<noteq> Inr (req'', Some j)"
    using parse_headers_complete [of d s s i 0 req1] assms(1)
    by (auto simp: line_read_def) (subst (asm) parse_headers.simps, simp)+
  then show ?thesis using assms(2) line
    by (auto simp: parseReq_def split: sum.splits if_splits option.splits)
qed

text \<open>
  Bytes without an empty line are thrown away, whatever they are the beginning of: the buffer of the
  connection is reset before it is known whether a request is complete, so that a request that arrives in
  two reads is not answered unless one of them holds the end of a header.
\<close>

theorem incomplete_dropped:
  assumes "\<not> contains (hs_buffer s) (CRLF @ CRLF)" and "Decode res s = (r, s')"
  shows "(r = Inr [] \<or> (\<exists>e. r = Inl e)) \<and> hs_buffer s' = []"
  using assms parseReq_incomplete [OF assms(1)]
  by (auto simp: Decode_def pipeline.simps [of res "hs_buffer s"] split: prod.splits sum.splits go_error.splits if_splits)

lemma parse_body_proto: "parse_body d i clen req = Inr (req', j) \<Longrightarrow> rq_proto req' = rq_proto req"
  by (auto simp: parse_body_def split: if_splits sum.splits)

lemma parse_headers_proto: "parse_headers d head s i clen req = Inr (req', j) \<Longrightarrow> rq_proto req' = rq_proto req"
  by (induction d head s i clen req rule: parse_headers.induct)
    (subst (asm) (3) parse_headers.simps, auto split: if_splits sum.splits dest: parse_body_proto)

text \<open>The loops fail only by a panic.\<close>

lemma substring_error: "substring s a b = Inl e \<Longrightarrow> e = OutOfBounds"
  by (auto simp: substring_def split: if_splits)

lemma parse_proto_error: "parse_proto d s i req = Inl e \<Longrightarrow> e = OutOfBounds"
  by (induction d s i req rule: parse_proto.induct)
    (subst (asm) (2) parse_proto.simps, auto split: if_splits sum.splits dest: substring_error)

lemma set_path_error: "set_path d s i q req = Inl e \<Longrightarrow> e = OutOfBounds"
  by (auto simp: set_path_def split: option.splits sum.splits dest: substring_error)

lemma parse_path_error: "parse_path d s q i req = Inl e \<Longrightarrow> e = OutOfBounds"
  by (induction d s q i req rule: parse_path.induct)
    (subst (asm) (3) parse_path.simps, auto split: if_splits sum.splits dest: set_path_error parse_proto_error)

lemma parse_method_error: "parse_method d i req = Inl e \<Longrightarrow> e = OutOfBounds"
  by (induction d i req rule: parse_method.induct)
    (subst (asm) (2) parse_method.simps, auto split: if_splits sum.splits dest: substring_error parse_path_error)

lemma parse_headers_error: "parse_headers d head s i clen req = Inl e \<Longrightarrow> e = OutOfBounds"
  by (induction d head s i clen req rule: parse_headers.induct)
    (subst (asm) (3) parse_headers.simps,
     auto simp: parse_body_def split: if_splits sum.splits dest: substring_error)

lemma parseReq_proto:
  assumes "rq_proto req \<noteq> []"
  shows "fst (parseReq d req) \<noteq> Inl (Err e)" and "parseReq d req = (Inr l, req') \<Longrightarrow> rq_proto req' \<noteq> []"
  using assms
  by (auto simp: parseReq_def split: sum.splits prod.splits if_splits option.splits
      dest: parse_method_error parse_headers_error dest!: parse_method_read parse_headers_proto)

lemma pipeline_proto: "rq_proto (hs_req s) \<noteq> [] \<Longrightarrow> fst (pipeline res buf out s) \<noteq> Inl (Err e)"
proof (induction res buf out s rule: pipeline.induct)
  case (1 res buf out s)
  show ?case
  proof (cases "parseReq buf (hs_req s)")
    case (Pair r req)
    show ?thesis
    proof (cases r)
      case (Inl e')
      with Pair parseReq_proto(1) [OF 1(2), of buf] show ?thesis
        by (cases e') (auto simp: pipeline.simps [of res buf])
    next
      case (Inr leftover)
      note parsed = Pair [unfolded Inr]
      have "fst (pipeline res leftover (appendHandle date out res) s1) \<noteq> Inl (Err e)"
        if "length leftover \<noteq> length buf" "http_date (s\<lparr>hs_req := req\<rparr>) = (date, s1)" for date s1
        using 1(1) [OF parsed [symmetric] refl that(1) that(2) [symmetric]] that(2) parseReq_proto(2) [OF 1(2) parsed]
        by (auto simp: http_date_def)
      with parsed show ?thesis by (auto simp: pipeline.simps [of res buf] split: prod.split)
    qed
  qed
qed

text \<open>
  Once a request has been parsed on any connection, no bytes are malformed any more: the version of
  the request before counts as that of the next one. Bytes that are no request are then dropped in silence.
\<close>

theorem malformed_once:
  assumes "rq_proto (hs_req s) \<noteq> []"
  shows "fst (Decode res s) \<noteq> Inl (Err e)"
  unfolding Decode_def by (rule pipeline_proto) (use assms in simp)

section \<open>Witnesses\<close>

definition fresh_codec :: http_state where
  "fresh_codec = \<lparr>hs_req = \<lparr>rq_proto = [], rq_method = [], rq_path = [], rq_query = [], rq_head = [], rq_body = [],
     rq_remoteAddr = []\<rparr>, hs_now = show_nat, hs_clock = 0, hs_buffer = [], hs_Context = None\<rparr>"

definition post_lines :: "string list" where
  "post_lines = [''Host: node'', ''Content-Length: 5'']"

lemma post_well_formed: "well_formed ''POST'' ''/a'' ''HTTP/1.1'' post_lines ''hello''"
  by code_simp

lemma get_well_formed: "well_formed ''GET'' ''/'' ''HTTP/1.0'' [] []"
  by code_simp


theorem query_panics_witness:
  "fst (Decode [] (fresh_codec\<lparr>hs_buffer := ''GET /a?b=1 HTTP/1.1''\<rparr>)) = Inl (Panic ''slice bounds out of range'')"
  using query_panics [where meth = "''GET''" and target = "''/a?b=1''" and rest = "''HTTP/1.1''" and res = "[]"
    and s = "fresh_codec\<lparr>hs_buffer := ''GET /a?b=1 HTTP/1.1''\<rparr>"] by simp

theorem Decode_answers_witness:
  "fst (Decode ''ok'' (fresh_codec\<lparr>hs_buffer := request_bytes ''GET'' ''/'' ''HTTP/1.0'' [] [] @
      request_bytes ''POST'' ''/a'' ''HTTP/1.1'' post_lines ''hello''\<rparr>)) =
    Inr (appendHandle ''0'' [] ''ok'' @ appendHandle ''1'' [] ''ok'')"
proof -
  have dates: "show_nat 0 = ''0''" "show_nat (Suc 0) = ''1''" by (code_simp, code_simp)
  show ?thesis
    using Decode_answers [where rs = "[(''GET'', ''/'', ''HTTP/1.0'', [], []), (''POST'', ''/a'', ''HTTP/1.1'', post_lines, ''hello'')]"
        and res = "''ok''" and s = "fresh_codec\<lparr>hs_buffer := request_bytes ''GET'' ''/'' ''HTTP/1.0'' [] [] @
          request_bytes ''POST'' ''/a'' ''HTTP/1.1'' post_lines ''hello''\<rparr>"]
    by (simp add: get_well_formed post_well_formed fresh_codec_def dates)
qed

theorem incomplete_dropped_witness:
  "(fst (Decode [] (fresh_codec\<lparr>hs_buffer := ''GET / HTT''\<rparr>)) = Inr [] \<or>
    (\<exists>e. fst (Decode [] (fresh_codec\<lparr>hs_buffer := ''GET / HTT''\<rparr>)) = Inl e)) \<and>
    hs_buffer (snd (Decode [] (fresh_codec\<lparr>hs_buffer := ''GET / HTT''\<rparr>))) = []"
  by (rule incomplete_dropped [OF _ prod.collapse [symmetric]]) simp

theorem malformed_once_witness:
  "fst (Decode [] (fresh_codec\<lparr>hs_req := (hs_req fresh_codec)\<lparr>rq_proto := ''HTTP/1.1''\<rparr>, hs_buffer := ''garbage''\<rparr>))
    \<noteq> Inl (Err ''malformed request'')"
  by (rule malformed_once) simp

end
