(* ===== verification/PeerAddresses.thy ===== *)
theory PeerAddresses
  imports Handler
begin

text \<open>
  Addresses of peers, \<^verbatim>\<open>libp2p/util/util.go\<close>, and the peers that a node connects to when it starts,
  \<^verbatim>\<open>libp2p/bootstrap.go\<close>. A multiaddress and the identity of a peer are their texts.
\<close>

section \<open>Conversions\<close>

record addr_info =
  ai_ID :: string
  ai_Addrs :: "string list"

text \<open>Parsing addresses, the routing table, connecting, and the entry of the configuration.\<close>

record 'w addresses =
  ad_NewMultiaddr :: "string \<Rightarrow> string res"
  ad_AddrInfoFromP2pAddr :: "string \<Rightarrow> addr_info res"
  ad_TextUnmarshal :: "string \<Rightarrow> string list res"
  ad_FindPeer :: "string \<Rightarrow> 'w \<Rightarrow> addr_info res \<times> 'w"
  ad_Connect :: "addr_info \<Rightarrow> 'w \<Rightarrow> unit res \<times> 'w"
  ad_Bootstrap :: "'w \<Rightarrow> unit res \<times> 'w"
  ad_bootstraps :: string

abbreviation IndexOutOfRange :: go_error where "IndexOutOfRange \<equiv> Panic ''index out of range''"

text \<open>\<open>fmt.Sprintf("%v/p2p/%v", addr, peerId)\<close>, which is also \<open>GeneralP2pAddrFormat\<close>.\<close>

definition GetStringAddr :: "string \<Rightarrow> string \<Rightarrow> string" where
  "GetStringAddr addr peerId = addr @ ''/p2p/'' @ peerId"

fun ToMultiaddr :: "'w addresses \<Rightarrow> string list \<Rightarrow> string list" where
  "ToMultiaddr A [] = []"
| "ToMultiaddr A (saddr # saddrs) =
     (case ad_NewMultiaddr A saddr of
        Inl _ \<Rightarrow> ToMultiaddr A saddrs
      | Inr addr \<Rightarrow> addr # ToMultiaddr A saddrs)"

fun MultiaddrToAddInfo :: "'w addresses \<Rightarrow> string list \<Rightarrow> addr_info list" where
  "MultiaddrToAddInfo A [] = []"
| "MultiaddrToAddInfo A (addr # addrs) =
     (case ad_AddrInfoFromP2pAddr A addr of
        Inl _ \<Rightarrow> MultiaddrToAddInfo A addrs
      | Inr info \<Rightarrow> info # MultiaddrToAddInfo A addrs)"

definition ToAddInfo :: "'w addresses \<Rightarrow> string \<Rightarrow> string \<Rightarrow> addr_info res" where
  "ToAddInfo A peerId saddr =
     (case ad_NewMultiaddr A (GetStringAddr saddr peerId) of
        Inl e \<Rightarrow> Inl e
      | Inr addr \<Rightarrow> ad_AddrInfoFromP2pAddr A addr)"

fun add_infos :: "'w addresses \<Rightarrow> string \<Rightarrow> string list \<Rightarrow> addr_info list" where
  "add_infos A peerId [] = []"
| "add_infos A peerId (saddr # saddrs) =
     (case ToAddInfo A peerId saddr of
        Inl _ \<Rightarrow> add_infos A peerId saddrs
      | Inr info \<Rightarrow> info # add_infos A peerId saddrs)"

definition ToAddInfos :: "'w addresses \<Rightarrow> string \<Rightarrow> string \<Rightarrow> addr_info list res" where
  "ToAddInfos A peerId address =
     (case ad_TextUnmarshal A address of Inl e \<Rightarrow> Inl e | Inr saddrs \<Rightarrow> Inr (add_infos A peerId saddrs))"

text \<open>\<open>Merge\<close> keeps the first identity that is not empty and skips the infos of others.\<close>

fun merge_infos :: "string \<Rightarrow> string list \<Rightarrow> addr_info list \<Rightarrow> addr_info" where
  "merge_infos ID addrs [] = \<lparr>ai_ID = ID, ai_Addrs = addrs\<rparr>"
| "merge_infos ID addrs (info # infos) =
     (if ID = [] then merge_infos (ai_ID info) (addrs @ ai_Addrs info) infos
      else if ID \<noteq> ai_ID info then merge_infos ID addrs infos
      else merge_infos ID (addrs @ ai_Addrs info) infos)"

definition Merge :: "addr_info list \<Rightarrow> addr_info" where
  "Merge infos = merge_infos [] [] infos"

text \<open>An identity without an address is completed with the first address that the routing table knows.\<close>

definition GetAddrInfo :: "'a library_scheme \<Rightarrow> 'w addresses \<Rightarrow> string \<Rightarrow> 'w \<Rightarrow> string \<times> 'w" where
  "GetAddrInfo E A peerId w =
     (if length (split_on (CHR ''/'') peerId) = 1 then
        (case lib_PeerDecode E peerId of
           Inl _ \<Rightarrow> (peerId, w)
         | Inr ID \<Rightarrow>
             (case ad_FindPeer A ID w of
                (Inl _, w1) \<Rightarrow> (peerId, w1)
              | (Inr info, w1) \<Rightarrow>
                  (case ai_Addrs info of [] \<Rightarrow> (peerId, w1) | a # _ \<Rightarrow> (GetStringAddr a (ai_ID info), w1))))
      else (peerId, w))"

section \<open>Bootstrap\<close>

definition is_local :: "string \<Rightarrow> bool" where
  "is_local addr = (contains addr ''localhost'' \<or> contains addr ''127.0.0.1'')"

definition getPeerInfosFromConf :: "'w addresses \<Rightarrow> addr_info list" where
  "getPeerInfosFromConf A = MultiaddrToAddInfo A (ToMultiaddr A (split_on (CHR '','') (ad_bootstraps A)))"

text \<open>An endpoint whose address cannot be decoded is left out; an error of the query leaves the list empty.\<close>

fun endpoint_infos :: "'w addresses \<Rightarrow> peer_endpoint list \<Rightarrow> addr_info list" where
  "endpoint_infos A [] = []"
| "endpoint_infos A (pe # pes) =
     (case ToAddInfos A (pe_PeerId pe) (pe_Address pe) of
        Inl _ \<Rightarrow> endpoint_infos A pes
      | Inr infos \<Rightarrow> infos @ endpoint_infos A pes)"

definition getPeerInfosFromStore :: "'w env \<Rightarrow> 'w addresses \<Rightarrow> 'w \<Rightarrow> addr_info list \<times> 'w" where
  "getPeerInfosFromStore E A w =
     (case orm_FindPeerEndpoint E (peer_endpoint0\<lparr>pe_Status := cst_Effective E\<rparr>) 0 0 w of
        (Inl _, w1) \<Rightarrow> ([], w1)
      | (Inr pes, w1) \<Rightarrow> (endpoint_infos A pes, w1))"

definition GetPeerInfos :: "'w env \<Rightarrow> 'w addresses \<Rightarrow> 'w \<Rightarrow> addr_info list \<times> 'w" where
  "GetPeerInfos E A w =
     (case getPeerInfosFromStore E A w of
        (stored, w1) \<Rightarrow>
          (filter (\<lambda>info. \<not> list_ex is_local (ai_Addrs info)) (getPeerInfosFromConf A) @ stored, w1))"

text \<open>
  \<open>Bootstrap\<close> starts a goroutine for each peer but this node, and refreshes the table of the DHT. The body
  of such a goroutine is \<open>bootstrap_connect\<close>; an error of the connection is logged.
\<close>

definition bootstrap_connect :: "'w addresses \<Rightarrow> addr_info \<Rightarrow> 'w \<Rightarrow> unit res \<times> 'w" where
  "bootstrap_connect A info w =
     (case ai_Addrs info of
        [] \<Rightarrow> (Inl IndexOutOfRange, w)
      | a # _ \<Rightarrow>
          if is_local (GetStringAddr a (ai_ID info)) then (Inr (), w)
          else (case ad_Connect A info w of (_, w1) \<Rightarrow> (Inr (), w1)))"

definition Bootstrap :: "'w env \<Rightarrow> 'w addresses \<Rightarrow> string \<Rightarrow> 'w \<Rightarrow> (unit res \<times> addr_info list) \<times> 'w" where
  "Bootstrap E A hostID w =
     (case GetPeerInfos E A w of
        (infos, w1) \<Rightarrow>
          (case ad_Bootstrap A w1 of
             (r, w2) \<Rightarrow> ((r, filter (\<lambda>info. ai_ID info \<noteq> hostID) infos), w2)))"

section \<open>Properties\<close>

lemma split_on_last: "c \<notin> set ID \<Longrightarrow> last (split_on c (w @ c # ID)) = ID \<and> 1 < length (split_on c (w @ c # ID))"
proof (induction w)
  case Nil
  then show ?case by (simp add: split_on_no_sep)
next
  case (Cons x w)
  then show ?case by (cases "split_on c (w @ c # ID)") auto
qed

text \<open>The identity is read back from an address that has been made of it.\<close>

theorem GetPeerId_GetStringAddr:
  assumes "CHR ''/'' \<notin> set peerId"
  shows "GetPeerId (GetStringAddr addr peerId) = peerId"
proof -
  have "GetStringAddr addr peerId = (addr @ ''/p2p'') @ CHR ''/'' # peerId" by (simp add: GetStringAddr_def)
  with split_on_last [OF assms, of "addr @ ''/p2p''"] show ?thesis
    by (simp add: GetPeerId_def Let_def)
qed

lemma merge_infos_eq:
  "ID \<noteq> [] \<Longrightarrow> merge_infos ID addrs infos =
    \<lparr>ai_ID = ID, ai_Addrs = addrs @ concat (map ai_Addrs (filter (\<lambda>info. ai_ID info = ID) infos))\<rparr>"
  by (induction infos arbitrary: addrs) auto

text \<open>Merging keeps all addresses of the first peer, in their order, and nothing of the others.\<close>

theorem Merge_first_peer:
  assumes "ai_ID info \<noteq> []"
  shows "Merge (info # infos) =
    \<lparr>ai_ID = ai_ID info, ai_Addrs = concat (map ai_Addrs (filter (\<lambda>i. ai_ID i = ai_ID info) (info # infos)))\<rparr>"
  using merge_infos_eq [OF assms] by (simp add: Merge_def)

lemma is_local_append: "is_local a \<Longrightarrow> is_local (GetStringAddr a ID)"
  unfolding is_local_def GetStringAddr_def contains_iff by (metis append_assoc)

text \<open>
  A goroutine of the bootstrap connects only to another peer, and never to one whose first address is
  that of this machine; a configured peer is left out when any of its addresses is.
\<close>

theorem bootstrap_targets:
  assumes "Bootstrap E A hostID w = ((r, infos), w')" and "info \<in> set infos"
    and "bootstrap_connect A info w1 = (r', w2)" and "w2 \<noteq> w1"
  shows "ai_ID info \<noteq> hostID \<and> ai_Addrs info \<noteq> [] \<and> \<not> is_local (hd (ai_Addrs info)) \<and> w2 = snd (ad_Connect A info w1)"
proof -
  from assms(3,4) obtain a as where "ai_Addrs info = a # as" "\<not> is_local (GetStringAddr a (ai_ID info))"
    "w2 = snd (ad_Connect A info w1)"
    by (auto simp: bootstrap_connect_def split: list.splits if_splits prod.splits)
  with assms(1,2) is_local_append show ?thesis by (auto simp: Bootstrap_def split: prod.splits)
qed

text \<open>
  A configured peer without a transport address, as \<open>/p2p/<id>\<close>, ends the node: its goroutine takes
  the first of no addresses.
\<close>

theorem bootstrap_panics:
  assumes "saddr \<in> set (split_on (CHR '','') (ad_bootstraps A))" and "ad_NewMultiaddr A saddr = Inr addr"
    and "ad_AddrInfoFromP2pAddr A addr = Inr info" and "ai_Addrs info = []" and "ai_ID info \<noteq> hostID"
  shows "info \<in> set (snd (fst (Bootstrap E A hostID w))) \<and> fst (bootstrap_connect A info w') = Inl IndexOutOfRange"
proof -
  have "addr \<in> set (ToMultiaddr A saddrs)" if "saddr \<in> set saddrs" for saddrs
    using that assms(2) by (induction saddrs) (auto split: sum.split)
  moreover have "info \<in> set (MultiaddrToAddInfo A addrs)" if "addr \<in> set addrs" for addrs
    using that assms(3) by (induction addrs) (auto split: sum.split)
  ultimately have "info \<in> set (getPeerInfosFromConf A)" using assms(1) by (simp add: getPeerInfosFromConf_def)
  with assms(4,5) show ?thesis
    by (auto simp: Bootstrap_def GetPeerInfos_def bootstrap_connect_def split: prod.split)
qed

section \<open>Witnesses\<close>

text \<open>Every text is a multiaddress; those that begin with \<open>/p2p/\<close> have no transport.\<close>

definition plain_addresses :: "addr_info list addresses" where
  "plain_addresses = \<lparr>ad_NewMultiaddr = Inr,
     ad_AddrInfoFromP2pAddr = (\<lambda>addr. Inr \<lparr>ai_ID = GetPeerId addr, ai_Addrs = (if has_prefix addr ''/p2p/'' then [] else [addr])\<rparr>),
     ad_TextUnmarshal = (\<lambda>s. Inr [s]), ad_FindPeer = (\<lambda>_ w. (Inl (Err ''not found''), w)),
     ad_Connect = (\<lambda>info w. (Inr (), w @ [info])), ad_Bootstrap = (\<lambda>w. (Inr (), w)),
     ad_bootstraps = ''/dns4/a/p2p/Q,/p2p/R''\<rparr>"

theorem GetPeerId_GetStringAddr_witness: "GetPeerId (GetStringAddr ''/dns4/a'' ''Q'') = ''Q''"
  by (rule GetPeerId_GetStringAddr) simp

theorem Merge_first_peer_witness:
  "Merge [\<lparr>ai_ID = ''Q'', ai_Addrs = [''/a'']\<rparr>, \<lparr>ai_ID = ''R'', ai_Addrs = [''/b'']\<rparr>] = \<lparr>ai_ID = ''Q'', ai_Addrs = [''/a'']\<rparr>"
  using Merge_first_peer [of "\<lparr>ai_ID = ''Q'', ai_Addrs = [''/a'']\<rparr>" "[\<lparr>ai_ID = ''R'', ai_Addrs = [''/b'']\<rparr>]"] by simp

lemma plain_bootstrap:
  "Bootstrap sample_env plain_addresses ''S'' [] =
    ((Inr (), [\<lparr>ai_ID = ''Q'', ai_Addrs = [''/dns4/a/p2p/Q'']\<rparr>, \<lparr>ai_ID = ''R'', ai_Addrs = []\<rparr>]), [])"
  by code_simp

theorem bootstrap_targets_witness:
  "ai_ID \<lparr>ai_ID = ''Q'', ai_Addrs = [''/dns4/a/p2p/Q'']\<rparr> \<noteq> ''S'' \<and> \<not> is_local ''/dns4/a/p2p/Q''"
proof -
  let ?info = "\<lparr>ai_ID = ''Q'', ai_Addrs = [''/dns4/a/p2p/Q'']\<rparr>"
  have "bootstrap_connect plain_addresses ?info [] = (Inr (), [?info])" by code_simp
  from bootstrap_targets [OF plain_bootstrap _ this] show ?thesis by simp
qed

theorem bootstrap_panics_witness:
  "fst (bootstrap_connect plain_addresses \<lparr>ai_ID = ''R'', ai_Addrs = []\<rparr> []) = Inl (Panic ''index out of range'')"
  using bootstrap_panics [where A = plain_addresses and saddr = "''/p2p/R''" and addr = "''/p2p/R''" and hostID = "''S''"
    and info = "\<lparr>ai_ID = ''R'', ai_Addrs = []\<rparr>" and E = sample_env and w = "[]" and w' = "[]"]
  by (simp add: plain_addresses_def GetPeerId_def)

end
