(* ===== verification/NodeStart.thy ===== *)
theory NodeStart
  imports PeerAddresses
begin

text \<open>
  How a node starts, \<^verbatim>\<open>libp2p/default.go\<close>: its addresses and options, its own record with the keys, which
  is created or brought up to date, and the order of the steps. The libp2p host, the OpenPGP keys and the
  DHT are parameters; keys are handles. Another error than the ones named is a panic, which ends the start.
\<close>

section \<open>Configuration and library\<close>

record node_config =
  nf_Password :: string
  nf_Name :: string
  nf_Email :: string
  nf_ChainProtocolID :: string
  nf_Addrs :: "string list"
  nf_Addr :: string
  nf_Port :: string
  nf_WsPort :: string
  nf_WssPort :: string
  nf_ExternalAddr :: string
  nf_ExternalPort :: string
  nf_ExternalWsPort :: string
  nf_ExternalWssPort :: string
  nf_EnableTls :: bool
  nf_EnableNoise :: bool
  nf_EnableQuic :: bool
  nf_defaultPing :: bool
  nf_EnableNatPortMap :: bool
  nf_EnableNATService :: bool
  nf_ConnectionGater :: bool
  nf_ForceReachabilityPublic :: bool
  nf_ForceReachabilityPrivate :: bool
  nf_EnableRouting :: bool
  nf_EnableRelay :: bool
  nf_EnableAutoRelay :: bool
  nf_EnableAddressFactory :: bool
  nf_EnableWebsocket :: bool
  nf_EnableWss :: bool
  nf_TlsMode :: string

text \<open>The options of the host; \<open>AddrsFactory\<close> carries the addresses that it adds to the host's own.\<close>

datatype p2p_option =
  SecurityTls | SecurityNoise | TransportQuic | ConnectionManager | NATPortMap | NATService | ConnectionGater
| ReachabilityPublic | ReachabilityPrivate | Routing | Relay | AutoRelay | AddrsFactory "string list"
| TransportWs | TransportTcp | TransportWss string | Muxer | ListenAddrStrings "string list" | Identity string

text \<open>\<open>su_New\<close> gives the identity of the host and its addresses; \<open>su_InsertMyself\<close> fills in the id of the row.\<close>

record 'w startup =
  su_UnmarshalEd25519 :: "string \<Rightarrow> string res"
  su_UnmarshalPrivateKey :: "string \<Rightarrow> string res"
  su_LoadPrivateKey :: "string \<Rightarrow> string \<Rightarrow> pgp_key res"
  su_LoadPublicKey :: "string \<Rightarrow> pgp_key res"
  su_GenerateKeyPair :: "'w \<Rightarrow> string res \<times> 'w"
  su_GetPublic :: "string \<Rightarrow> string"
  su_Raw :: "string \<Rightarrow> string res"
  su_GenerateKey :: "string \<Rightarrow> string \<Rightarrow> string \<Rightarrow> 'w \<Rightarrow> pgp_key \<times> 'w"
  su_BytePrivateKey :: "pgp_key \<Rightarrow> string \<Rightarrow> string"
  su_GetPublicKey :: "pgp_key \<Rightarrow> pgp_key"
  su_BytePublicKey :: "pgp_key \<Rightarrow> string"
  su_SecurityContext :: string
  su_TextMarshal :: "string list \<Rightarrow> string res"
  su_InsertMyself :: "myself_peer \<Rightarrow> 'w \<Rightarrow> (int \<times> myself_peer) \<times> 'w"
  su_UpdateMyself :: "myself_peer \<Rightarrow> 'w \<Rightarrow> int \<times> 'w"
  su_NewConnManager :: "unit res"
  su_New :: "p2p_option list \<Rightarrow> 'w \<Rightarrow> (string \<times> string list) res \<times> 'w"
  su_SetStreamHandler :: "string \<Rightarrow> 'w \<Rightarrow> 'w"
  su_NewDHT :: "'w \<Rightarrow> unit res \<times> 'w"
  su_NewRegisterClient :: "'w \<Rightarrow> unit res \<times> 'w"

text \<open>The global variables that the start sets.\<close>

record 'w booting =
  gl_PeerId :: string
  gl_PeerPrivateKey :: string
  gl_PeerPublicKey :: string
  gl_PrivateKey :: pgp_key
  gl_PublicKey :: pgp_key
  gl_ChainProtocolID :: string
  gl_MyselfPeer :: "myself_peer option"
  gl_world :: 'w

text \<open>\<open>if err != nil { panic(err) }\<close>, and a step on the world outside.\<close>

fun must :: "'a res \<Rightarrow> 'a res" where
  "must (Inl (Err e)) = Inl (Panic e)"
| "must r = r"

definition outside :: "('w \<Rightarrow> 'a \<times> 'w) \<Rightarrow> 'w booting \<Rightarrow> 'a \<times> 'w booting" where
  "outside f s = (case f (gl_world s) of (x, w) \<Rightarrow> (x, s\<lparr>gl_world := w\<rparr>))"

definition required :: "('w \<Rightarrow> 'a res \<times> 'w) \<Rightarrow> 'w booting \<Rightarrow> 'a res \<times> 'w booting" where
  "required f s = (case outside f s of (r, s1) \<Rightarrow> (must r, s1))"

section \<open>Addresses and options\<close>

definition tcp_format :: "string \<Rightarrow> string \<Rightarrow> string" where
  "tcp_format addr port = ''/ip4/'' @ addr @ ''/tcp/'' @ port"

definition dns_format :: "string \<Rightarrow> string \<Rightarrow> string" where
  "dns_format addr port = ''/dns4/'' @ addr @ ''/tcp/'' @ port"

definition listenAddr :: "node_config \<Rightarrow> string list" where
  "listenAddr C =
     (if nf_Addrs C = [] then
        (if nf_EnableWebsocket C then [] else [tcp_format (nf_Addr C) (nf_Port C)]) @
        [tcp_format (nf_Addr C) (nf_WsPort C) @ ''/ws''] @
        (if nf_EnableWss C then [tcp_format (nf_Addr C) (nf_WssPort C) @ ''/wss''] else [])
      else nf_Addrs C)"

definition address_factory :: "'w addresses \<Rightarrow> node_config \<Rightarrow> p2p_option list" where
  "address_factory A C =
     (if nf_ExternalAddr C = [] then []
      else
        let httpMultiAddr = ad_NewMultiaddr A (dns_format (nf_ExternalAddr C) (nf_ExternalPort C));
            wsMultiAddr = ad_NewMultiaddr A (dns_format (nf_ExternalAddr C) (nf_ExternalWsPort C) @ ''/ws'') in
        (case (httpMultiAddr, wsMultiAddr) of
           (Inl _, Inl _) \<Rightarrow> []
         | _ \<Rightarrow> [AddrsFactory ((case httpMultiAddr of Inl _ \<Rightarrow> [] | Inr a \<Rightarrow> [a]) @
                   (case wsMultiAddr of Inl _ \<Rightarrow> [] | Inr a \<Rightarrow> [a]))]))"

text \<open>Without the default ping the handler of pings is set on the host, which does not exist yet.\<close>

definition p2pOptions :: "'w startup \<Rightarrow> 'w addresses \<Rightarrow> node_config \<Rightarrow> p2p_option list res" where
  "p2pOptions S A C =
     (let opt = (\<lambda>b x. if b then [x] else []) in
      if \<not> nf_defaultPing C then Inl NilDereference
      else Inr
        (opt (nf_EnableTls C) SecurityTls @ opt (nf_EnableNoise C) SecurityNoise @ opt (nf_EnableQuic C) TransportQuic @
         (case su_NewConnManager S of Inl _ \<Rightarrow> [] | Inr _ \<Rightarrow> [ConnectionManager]) @
         opt (nf_EnableNatPortMap C) NATPortMap @ opt (nf_EnableNATService C) NATService @
         opt (nf_ConnectionGater C) ConnectionGater @ opt (nf_ForceReachabilityPublic C) ReachabilityPublic @
         opt (nf_ForceReachabilityPrivate C) ReachabilityPrivate @ opt (nf_EnableRouting C) Routing @
         opt (nf_EnableRelay C) Relay @ opt (nf_EnableAutoRelay C) AutoRelay @
         (if nf_EnableAddressFactory C then address_factory A C else []) @
         opt (nf_EnableWebsocket C) TransportWs @
         (if nf_EnableWss C then [TransportTcp, TransportWss (nf_TlsMode C)] else []) @ [Muxer]))"

section \<open>The record of this node\<close>

text \<open>The keys of a record that exists; the private key and the record are returned.\<close>

definition load_keys ::
  "'w env \<Rightarrow> 'w startup \<Rightarrow> node_config \<Rightarrow> myself_peer \<Rightarrow> 'w booting \<Rightarrow> (string \<times> myself_peer) res \<times> 'w booting" where
  "load_keys E S C m s =
     (let privateKey = lib_DecodeBase64 E (my_PeerPrivateKey m) in
      case must (case su_UnmarshalEd25519 S privateKey of
             Inl (Err _) \<Rightarrow> su_UnmarshalPrivateKey S privateKey
           | r \<Rightarrow> r) of
        Inl e \<Rightarrow> (Inl e, s)
      | Inr priv \<Rightarrow>
          let s1 = s\<lparr>gl_PeerPrivateKey := priv, gl_PeerPublicKey := su_GetPublic S priv\<rparr> in
          (case must (su_LoadPrivateKey S (lib_DecodeBase64 E (my_PrivateKey m)) (nf_Password C)) of
             Inl e \<Rightarrow> (Inl e, s1)
           | Inr openpgpPriv \<Rightarrow>
               let s2 = s1\<lparr>gl_PrivateKey := openpgpPriv\<rparr> in
               (case must (su_LoadPublicKey S (lib_DecodeBase64 E (my_PublicKey m))) of
                  Inl e \<Rightarrow> (Inl e, s2)
                | Inr openpgpPub \<Rightarrow> (Inr (priv, m), s2\<lparr>gl_PublicKey := openpgpPub\<rparr>))))"

text \<open>A new record; a failed generation of the key pair leaves a nil key.\<close>

definition create_keys ::
  "'w env \<Rightarrow> 'w startup \<Rightarrow> node_config \<Rightarrow> 'w booting \<Rightarrow> (string \<times> myself_peer) res \<times> 'w booting" where
  "create_keys E S C s =
     (if nf_Name C = [] then (Inl (Panic ''NoServerName''), s)
      else if nf_Email C = [] then (Inl (Panic ''NoEmail''), s)
      else
        (case outside (su_GenerateKeyPair S) s of
           (Inl _, s1) \<Rightarrow> (Inl NilDereference, s1)
         | (Inr priv, s1) \<Rightarrow>
             let s2 = s1\<lparr>gl_PeerPrivateKey := priv, gl_PeerPublicKey := su_GetPublic S priv\<rparr> in
             (case must (su_Raw S priv) of
                Inl e \<Rightarrow> (Inl e, s2)
              | Inr bs \<Rightarrow>
                  (case must (su_Raw S (su_GetPublic S priv)) of
                     Inl e \<Rightarrow> (Inl e, s2)
                   | Inr bs' \<Rightarrow>
                       (case outside (su_GenerateKey S (nf_Password C) (nf_Name C) (nf_Email C)) s2 of
                          (privateKey, s3) \<Rightarrow>
                            let publicKey = su_GetPublicKey S privateKey in
                            (case outside (env_now E) s3 of
                               (now, s4) \<Rightarrow>
                                 (Inr (priv, myself_peer0\<lparr>my_Name := nf_Name C, my_Email := nf_Email C,
                                    my_PeerPrivateKey := lib_EncodeBase64 E bs, my_PeerPublicKey := lib_EncodeBase64 E bs',
                                    my_PrivateKey := lib_EncodeBase64 E (su_BytePrivateKey S privateKey (nf_Password C)),
                                    my_PublicKey := lib_EncodeBase64 E (su_BytePublicKey S publicKey),
                                    my_SecurityContext := su_SecurityContext S, my_LastUpdateTime := Some now\<rparr>),
                                  s4\<lparr>gl_PrivateKey := privateKey, gl_PublicKey := publicKey\<rparr>)))))))"

definition getMyselfPeer ::
  "'w env \<Rightarrow> 'w startup \<Rightarrow> node_config \<Rightarrow> 'w booting \<Rightarrow> (string \<times> myself_peer) res \<times> 'w booting" where
  "getMyselfPeer E S C s =
     (if nf_Password C = [] then (Inl (Panic ''NoPassword''), s)
      else
        (case outside (orm_GetMyselfPeer E (myself_peer0\<lparr>my_Status := cst_Effective E\<rparr>)) s of
           (Some m, s1) \<Rightarrow> load_keys E S C m s1
         | (None, s1) \<Rightarrow> create_keys E S C s1))"

text \<open>
  The address under which this node is found. It is made with the identity in the record, which an empty
  one is filled in for; \<open>sync\<close> replaces a field that has another value and notes it.
\<close>

definition discovery_address ::
  "'w addresses \<Rightarrow> node_config \<Rightarrow> string \<Rightarrow> myself_peer \<Rightarrow> string \<times> myself_peer" where
  "discovery_address A C hostID m =
     (if nf_ExternalAddr C = [] then ([], m)
      else
        (case ad_NewMultiaddr A (dns_format (nf_ExternalAddr C) (nf_ExternalWssPort C) @ ''/wss'') of
           Inl _ \<Rightarrow> ([], m)
         | Inr wss \<Rightarrow>
             let m1 = (if my_PeerId m = [] then m\<lparr>my_PeerId := hostID\<rparr> else m) in
             (GetStringAddr wss (my_PeerId m1), m1)))"

definition sync ::
  "(myself_peer \<Rightarrow> string) \<Rightarrow> ((string \<Rightarrow> string) \<Rightarrow> myself_peer \<Rightarrow> myself_peer) \<Rightarrow> string \<Rightarrow>
   bool \<times> myself_peer \<Rightarrow> bool \<times> myself_peer" where
  "sync field update v um = (if field (snd um) \<noteq> v then (True, update (\<lambda>_. v) (snd um)) else um)"

definition insert_myself ::
  "'w env \<Rightarrow> 'w startup \<Rightarrow> string \<Rightarrow> string list \<Rightarrow> string \<Rightarrow> myself_peer \<Rightarrow> 'w booting \<Rightarrow> myself_peer res \<times> 'w booting" where
  "insert_myself E S hostID hostAddrs discoveryAddress m s =
     (case must (su_TextMarshal S hostAddrs) of
        Inl e \<Rightarrow> (Inl e, s)
      | Inr addrs \<Rightarrow>
          (case outside (su_InsertMyself S (m\<lparr>my_Status := cst_Effective E, my_PeerId := hostID, my_Address := addrs,
                  my_DiscoveryAddress := discoveryAddress\<rparr>)) s of
             ((affected, m1), s1) \<Rightarrow> if affected = 0 then (Inl (Panic ''NoInsert''), s1) else (Inr m1, s1)))"

definition synced ::
  "'w env \<Rightarrow> 'w startup \<Rightarrow> node_config \<Rightarrow> string \<Rightarrow> string list \<Rightarrow> string \<Rightarrow> string \<Rightarrow> myself_peer \<Rightarrow> (bool \<times> myself_peer) res" where
  "synced E S C hostID hostAddrs priv discoveryAddress m =
     (let um1 = sync my_PeerId my_PeerId_update hostID (False, m) in
      case must (su_TextMarshal S hostAddrs) of
        Inl e \<Rightarrow> Inl e
      | Inr addrs \<Rightarrow>
          let um2 = sync my_DiscoveryAddress my_DiscoveryAddress_update discoveryAddress
                      (sync my_Address my_Address_update addrs um1) in
          (case must (su_Raw S (su_GetPublic S priv)) of
             Inl e \<Rightarrow> Inl e
           | Inr bs \<Rightarrow>
               let um3 = sync my_PeerPublicKey my_PeerPublicKey_update (lib_EncodeBase64 E bs) um2 in
               if nf_Name C = [] then Inl (Panic ''NoServerName'')
               else if nf_Email C = [] then Inl (Panic ''NoEmail'')
               else Inr (sync my_Email my_Email_update (nf_Email C) (sync my_Name my_Name_update (nf_Name C) um3))))"

text \<open>\<open>upsertMyselfPeer\<close>: whether the record is new or has been updated, and the state with the record.\<close>

definition upsertMyselfPeer ::
  "'w env \<Rightarrow> 'w startup \<Rightarrow> 'w addresses \<Rightarrow> node_config \<Rightarrow> string \<Rightarrow> string list \<Rightarrow> string \<Rightarrow> myself_peer \<Rightarrow> 'w booting \<Rightarrow>
   bool res \<times> 'w booting" where
  "upsertMyselfPeer E S A C hostID hostAddrs priv m s =
     (let (discoveryAddress, m1) = discovery_address A C hostID m;
          done = (\<lambda>needUpdate m s. (Inr needUpdate, s\<lparr>gl_PeerId := my_PeerId m, gl_MyselfPeer := Some m\<rparr>)) in
      if my_Id m = 0 then
        and_then (insert_myself E S hostID hostAddrs discoveryAddress m1 s) (done True)
      else
        (case synced E S C hostID hostAddrs priv discoveryAddress m1 of
           Inl e \<Rightarrow> (Inl e, s)
         | Inr (False, m2) \<Rightarrow> done False m2 s
         | Inr (True, m2) \<Rightarrow>
             (case outside (su_UpdateMyself S m2) s of
                (affected, s1) \<Rightarrow> if affected = 0 then (Inl (Panic ''NoUpdate''), s1) else done True m2 s1)))"

section \<open>The start\<close>

definition chainProtocolStream :: "'w startup \<Rightarrow> node_config \<Rightarrow> 'w booting \<Rightarrow> unit res \<times> 'w booting" where
  "chainProtocolStream S C s =
     (if nf_ChainProtocolID C = [] then (Inl (Panic ''NoChainProtocolID''), s)
      else (Inr (), s\<lparr>gl_ChainProtocolID := nf_ChainProtocolID C,
          gl_world := su_SetStreamHandler S (nf_ChainProtocolID C) (gl_world s)\<rparr>))"

text \<open>\<open>Start\<close>: the peers for which the bootstrap has started a goroutine. Its error is dropped.\<close>

definition Start ::
  "'w env \<Rightarrow> 'w startup \<Rightarrow> 'w addresses \<Rightarrow> node_config \<Rightarrow> 'w booting \<Rightarrow> addr_info list res \<times> 'w booting" where
  "Start E S A C s =
     and_then (getMyselfPeer E S C s) (\<lambda>(priv, m) s1.
     and_then (p2pOptions S A C, s1) (\<lambda>options s1.
     and_then (required (su_New S (options @ [ListenAddrStrings (listenAddr C), Identity priv])) s1) (\<lambda>(hostID, hostAddrs) s2.
     and_then (upsertMyselfPeer E S A C hostID hostAddrs priv m s2) (\<lambda>_ s3.
     and_then (chainProtocolStream S C s3) (\<lambda>_ s4.
     and_then (required (su_NewDHT S) s4) (\<lambda>_ s5.
       (case outside (Bootstrap E A hostID) s5 of
          ((_, infos), s6) \<Rightarrow> and_then (required (su_NewRegisterClient S) s6) (\<lambda>_ s7. (Inr infos, s7)))))))))"

section \<open>Properties\<close>

lemma must_Inr [simp]: "must r = Inr x \<longleftrightarrow> r = Inr x"
  by (cases r rule: must.cases) auto

lemma sync_simps [simp]:
  "snd (sync my_PeerId my_PeerId_update v um) = (snd um)\<lparr>my_PeerId := v\<rparr>"
  "snd (sync my_Address my_Address_update v um) = (snd um)\<lparr>my_Address := v\<rparr>"
  "snd (sync my_DiscoveryAddress my_DiscoveryAddress_update v um) = (snd um)\<lparr>my_DiscoveryAddress := v\<rparr>"
  "snd (sync my_PeerPublicKey my_PeerPublicKey_update v um) = (snd um)\<lparr>my_PeerPublicKey := v\<rparr>"
  "snd (sync my_Name my_Name_update v um) = (snd um)\<lparr>my_Name := v\<rparr>"
  "snd (sync my_Email my_Email_update v um) = (snd um)\<lparr>my_Email := v\<rparr>"
  by (simp_all add: sync_def)

lemma sync_changed: "fst (sync field update v um) \<longleftrightarrow> fst um \<or> field (snd um) \<noteq> v"
  by (simp add: sync_def)

text \<open>What a record is brought to, and when it is written.\<close>

definition current ::
  "'w env \<Rightarrow> 'w startup \<Rightarrow> node_config \<Rightarrow> string \<Rightarrow> string list \<Rightarrow> string \<Rightarrow> string \<Rightarrow> myself_peer \<Rightarrow> bool" where
  "current E S C hostID hostAddrs priv discoveryAddress m \<longleftrightarrow>
     my_PeerId m = hostID \<and> su_TextMarshal S hostAddrs = Inr (my_Address m) \<and>
     my_DiscoveryAddress m = discoveryAddress \<and> my_Name m = nf_Name C \<and> my_Email m = nf_Email C \<and>
     (\<exists>bs. su_Raw S (su_GetPublic S priv) = Inr bs \<and> my_PeerPublicKey m = lib_EncodeBase64 E bs)"

lemma synced_current:
  assumes "synced E S C hostID hostAddrs priv d m = Inr (needUpdate, m')"
  shows "current E S C hostID hostAddrs priv d m' \<and> my_Id m' = my_Id m \<and>
    (needUpdate \<longleftrightarrow> \<not> current E S C hostID hostAddrs priv d m) \<and> (\<not> needUpdate \<longrightarrow> m' = m)"
proof -
  obtain addrs bs where lib: "su_TextMarshal S hostAddrs = Inr addrs" "su_Raw S (su_GetPublic S priv) = Inr bs"
    and result: "sync my_Email my_Email_update (nf_Email C) (sync my_Name my_Name_update (nf_Name C)
      (sync my_PeerPublicKey my_PeerPublicKey_update (lib_EncodeBase64 E bs)
        (sync my_DiscoveryAddress my_DiscoveryAddress_update d
          (sync my_Address my_Address_update addrs (sync my_PeerId my_PeerId_update hostID (False, m)))))) = (needUpdate, m')"
    using assms by (auto simp: synced_def Let_def split: sum.splits if_splits)
  from arg_cong [OF result, of snd]
  have m': "m' = m\<lparr>my_PeerId := hostID, my_Address := addrs, my_DiscoveryAddress := d,
      my_PeerPublicKey := lib_EncodeBase64 E bs, my_Name := nf_Name C, my_Email := nf_Email C\<rparr>" by simp
  from arg_cong [OF result, of fst] lib
  have update: "needUpdate \<longleftrightarrow> \<not> current E S C hostID hostAddrs priv d m"
    by (auto simp: sync_changed current_def)
  then show ?thesis using lib unfolding m' by (auto simp: current_def)
qed

lemma discovery_address_Id [simp]: "my_Id (snd (discovery_address A C hostID m)) = my_Id m"
  by (simp add: discovery_address_def Let_def split: sum.split)

lemma discovery_address_again:
  "my_PeerId m \<noteq> [] \<Longrightarrow> snd (discovery_address A C hostID m) = m"
  by (simp add: discovery_address_def Let_def split: sum.split)

lemma discovery_address_cong:
  "my_PeerId m = my_PeerId m' \<Longrightarrow> fst (discovery_address A C hostID m) = fst (discovery_address A C hostID m')"
  by (simp add: discovery_address_def Let_def split: sum.split)


text \<open>
  A second start of the same host with the same configuration does not write: a record that names the
  host and has been brought up to date stays as it is.
\<close>

theorem second_start_silent:
  assumes "upsertMyselfPeer E S A C hostID hostAddrs priv m s = (Inr needUpdate, s')" and "my_Id m \<noteq> 0"
    and "my_PeerId m = hostID" and "hostID \<noteq> []" and "gl_MyselfPeer s' = Some m'"
  shows "upsertMyselfPeer E S A C hostID hostAddrs priv m' s' = (Inr False, s')"
proof -
  let ?d = "discovery_address A C hostID"
  from assms(3,4) have "snd (?d m) = m" by (simp add: discovery_address_again)
  with assms obtain u where first: "synced E S C hostID hostAddrs priv (fst (?d m)) m = Inr (u, m')"
    and "gl_PeerId s' = my_PeerId m'"
    by (auto simp: upsertMyselfPeer_def outside_def Let_def split: prod.splits sum.splits bool.splits if_splits)
  note m' = synced_current [OF first]
  then have "my_PeerId m' = hostID" by (simp add: current_def)
  with assms(3,4) have d: "snd (?d m') = m'" "fst (?d m') = fst (?d m)"
    by (auto simp: discovery_address_again intro: discovery_address_cong)
  have "\<exists>u' m2. synced E S C hostID hostAddrs priv (fst (?d m)) m' = Inr (u', m2)"
    using first by (auto simp: synced_def Let_def split: sum.splits if_splits)
  then obtain u' m2 where again: "synced E S C hostID hostAddrs priv (fst (?d m)) m' = Inr (u', m2)" by blast
  from synced_current [OF this] m' have "u' = False" "m2 = m'" by auto
  with again d m' assms(2,5) \<open>gl_PeerId s' = my_PeerId m'\<close> show ?thesis
    by (auto simp: upsertMyselfPeer_def Let_def split: prod.split)
qed

text \<open>
  When the record names another peer than the host, as after a change of the key, the address under
  which the node is announced still names the old peer, although the record names the new one.
\<close>

theorem stale_discovery:
  assumes "upsertMyselfPeer E S A C hostID hostAddrs priv m s = (Inr needUpdate, s')" and "my_Id m \<noteq> 0"
    and "my_PeerId m \<noteq> []" and "CHR ''/'' \<notin> set (my_PeerId m)" and "nf_ExternalAddr C \<noteq> []"
    and "ad_NewMultiaddr A (dns_format (nf_ExternalAddr C) (nf_ExternalWssPort C) @ ''/wss'') = Inr wss"
  shows "\<exists>m'. gl_MyselfPeer s' = Some m' \<and> my_PeerId m' = hostID \<and>
    GetPeerId (my_DiscoveryAddress m') = my_PeerId m"
proof -
  let ?d = "discovery_address A C hostID m"
  obtain u m' where sync: "synced E S C hostID hostAddrs priv (fst ?d) (snd ?d) = Inr (u, m')"
    and "gl_MyselfPeer s' = Some m'"
    using assms(1,2) by (auto simp: upsertMyselfPeer_def outside_def Let_def split: prod.splits sum.splits bool.splits if_splits)
  moreover have "fst ?d = GetStringAddr wss (my_PeerId m)" using assms(3,5,6) by (simp add: discovery_address_def)
  moreover have "GetPeerId (GetStringAddr wss (my_PeerId m)) = my_PeerId m"
    using split_on_last [OF assms(4), of "wss @ ''/p2p''"] by (simp add: GetPeerId_def GetStringAddr_def Let_def)
  ultimately show ?thesis using synced_current [OF sync] by (auto simp: current_def)
qed

text \<open>
  With the default ping switched off a node cannot start: the handler of pings is set on the host
  before there is one.
\<close>

theorem no_ping_panics:
  assumes "\<not> nf_defaultPing C" and "getMyselfPeer E S C s = (Inr pm, s1)"
  shows "Start E S A C s = (Inl (Panic ''nil pointer dereference''), s1)"
  using assms by (cases pm) (simp add: Start_def p2pOptions_def)

lemma insert_myself_PeerId:
  assumes "insert_myself E S hostID hostAddrs d m s = (Inr m', s')"
    and "\<And>m w. my_PeerId (snd (fst (su_InsertMyself S m w))) = my_PeerId m"
  shows "my_PeerId m' = hostID"
proof -
  obtain addrs affected where "outside (su_InsertMyself S (m\<lparr>my_Status := cst_Effective E, my_PeerId := hostID,
      my_Address := addrs, my_DiscoveryAddress := d\<rparr>)) s = ((affected, m'), s')"
    using assms(1) by (auto simp: insert_myself_def split: sum.splits prod.splits if_splits)
  with assms(2) [of "m\<lparr>my_Status := cst_Effective E, my_PeerId := hostID, my_Address := addrs, my_DiscoveryAddress := d\<rparr>"
      "gl_world s"]
  show ?thesis by (auto simp: outside_def split: prod.splits)
qed

lemma upsert_globals:
  assumes "upsertMyselfPeer E S A C hostID hostAddrs priv m s = (Inr u, s')"
    and "\<And>m w. my_PeerId (snd (fst (su_InsertMyself S m w))) = my_PeerId m"
  shows "gl_PeerId s' = hostID \<and> (\<exists>m'. gl_MyselfPeer s' = Some m' \<and> my_PeerId m' = hostID)"
proof (cases "my_Id m = 0")
  case True
  with assms(1) show ?thesis
    by (auto simp: upsertMyselfPeer_def and_then_Inr Let_def dest: insert_myself_PeerId [OF _ assms(2)] split: prod.splits)
next
  case False
  with assms(1) show ?thesis
    by (auto simp: upsertMyselfPeer_def outside_def Let_def current_def dest!: synced_current
        split: prod.splits sum.splits bool.splits if_splits)
qed

lemma outside_globals:
  "gl_PeerId (snd (outside f s)) = gl_PeerId s \<and> gl_MyselfPeer (snd (outside f s)) = gl_MyselfPeer s \<and>
    gl_ChainProtocolID (snd (outside f s)) = gl_ChainProtocolID s"
  by (simp add: outside_def split: prod.split)

lemma required_globals:
  "required f s = (r, s') \<Longrightarrow> gl_PeerId s' = gl_PeerId s \<and> gl_MyselfPeer s' = gl_MyselfPeer s \<and>
    gl_ChainProtocolID s' = gl_ChainProtocolID s"
  by (auto simp: required_def outside_def split: prod.splits)

text \<open>
  C23: a start that returns leaves a node that knows itself: the global identity is that of the host and of
  the record, the protocol is set, and none of the goroutines that the bootstrap has started is for this node.
\<close>

theorem Start_knows_itself:
  assumes "Start E S A C s = (Inr infos, s')"
    and "\<And>m w. my_PeerId (snd (fst (su_InsertMyself S m w))) = my_PeerId m"
  shows "\<exists>m. gl_MyselfPeer s' = Some m \<and> my_PeerId m = gl_PeerId s' \<and>
    gl_ChainProtocolID s' = nf_ChainProtocolID C \<and> nf_ChainProtocolID C \<noteq> [] \<and>
    list_all (\<lambda>info. ai_ID info \<noteq> gl_PeerId s') infos \<and>
    IsMyself (E\<lparr>glb_PeerId := gl_PeerId s', glb_MyselfPeer := Some m\<rparr>) (my_PeerId m)"
proof -
  obtain pm h u s2 s3 s4 s5 s6 boot where
    upsert: "upsertMyselfPeer E S A C (fst h) (snd h) (fst pm) (snd pm) s2 = (Inr u, s3)" and
    chain: "chainProtocolStream S C s3 = (Inr (), s4)" and
    dht: "required (su_NewDHT S) s4 = (Inr (), s5)" and
    boot: "outside (Bootstrap E A (fst h)) s5 = (boot, s6)" "infos = snd boot" and
    push: "required (su_NewRegisterClient S) s6 = (Inr (), s')"
    using assms(1) by (auto simp: Start_def and_then_Inr split_beta) (metis prod.collapse)
  have "ai_ID info \<noteq> fst h" if "info \<in> set infos" for info
    using boot that by (auto simp: outside_def Bootstrap_def split: prod.splits)
  with upsert_globals [OF upsert assms(2)] outside_globals [of "Bootstrap E A (fst h)" s5] required_globals [OF dht]
    required_globals [OF push] chain
  show ?thesis
    by (auto simp: boot chainProtocolStream_def list_all_iff IsMyself_def split: if_splits)
qed

text \<open>
  The keys that the first start creates are those that the next one loads from the record, when
  decoding undoes encoding.
\<close>

theorem keys_kept:
  assumes "create_keys E S C s = (Inr (priv, m), s1)" and "nf_Password C \<noteq> []"
    and "outside (orm_GetMyselfPeer E (myself_peer0\<lparr>my_Status := cst_Effective E\<rparr>)) s2 = (Some row, s3)"
    and "my_PeerPrivateKey row = my_PeerPrivateKey m" "my_PrivateKey row = my_PrivateKey m" "my_PublicKey row = my_PublicKey m"
    and "\<And>x. lib_DecodeBase64 E (lib_EncodeBase64 E x) = x"
    and "\<And>k bs. su_Raw S k = Inr bs \<Longrightarrow> su_UnmarshalEd25519 S bs = Inr k"
    and "\<And>k. su_LoadPrivateKey S (su_BytePrivateKey S k (nf_Password C)) (nf_Password C) = Inr k"
    and "\<And>k. su_LoadPublicKey S (su_BytePublicKey S k) = Inr k"
  shows "\<exists>s4. getMyselfPeer E S C s2 = (Inr (priv, row), s4) \<and> gl_PeerPrivateKey s4 = gl_PeerPrivateKey s1 \<and>
    gl_PeerPublicKey s4 = gl_PeerPublicKey s1 \<and> gl_PrivateKey s4 = gl_PrivateKey s1 \<and> gl_PublicKey s4 = gl_PublicKey s1"
proof -
  obtain bs pgp where "my_PeerPrivateKey m = lib_EncodeBase64 E bs" "su_UnmarshalEd25519 S bs = Inr priv"
    "my_PrivateKey m = lib_EncodeBase64 E (su_BytePrivateKey S pgp (nf_Password C))"
    "my_PublicKey m = lib_EncodeBase64 E (su_BytePublicKey S (su_GetPublicKey S pgp))"
    "gl_PeerPrivateKey s1 = priv" "gl_PeerPublicKey s1 = su_GetPublic S priv"
    "gl_PrivateKey s1 = pgp" "gl_PublicKey s1 = su_GetPublicKey S pgp"
    using assms(1)
    by (auto simp: create_keys_def outside_def Let_def dest!: assms(8) split: prod.splits sum.splits if_splits)
  then show ?thesis by (simp add: getMyselfPeer_def load_keys_def assms(2-7,9,10) Let_def)
qed

section \<open>Witnesses\<close>

text \<open>A host \<open>Q\<close> whose keys are their own encodings, and a database that holds one record.\<close>

definition plain_startup :: "myself_peer option startup" where
  "plain_startup = \<lparr>su_UnmarshalEd25519 = Inr, su_UnmarshalPrivateKey = Inr, su_LoadPrivateKey = (\<lambda>k _. Inr k),
     su_LoadPublicKey = Inr, su_GenerateKeyPair = (\<lambda>w. (Inr ''key'', w)), su_GetPublic = (\<lambda>k. k), su_Raw = Inr,
     su_GenerateKey = (\<lambda>_ _ _ w. (''pgp'', w)), su_BytePrivateKey = (\<lambda>k _. k), su_GetPublicKey = (\<lambda>k. k),
     su_BytePublicKey = (\<lambda>k. k), su_SecurityContext = [], su_TextMarshal = (\<lambda>as. Inr (concat as)),
     su_InsertMyself = (\<lambda>m _. ((1, m\<lparr>my_Id := 1\<rparr>), Some (m\<lparr>my_Id := 1\<rparr>))), su_UpdateMyself = (\<lambda>m _. (1, Some m)),
     su_NewConnManager = Inr (), su_New = (\<lambda>_ w. (Inr (''Q'', [''/a'']), w)), su_SetStreamHandler = (\<lambda>_ w. w),
     su_NewDHT = (\<lambda>w. (Inr (), w)), su_NewRegisterClient = (\<lambda>w. (Inr (), w))\<rparr>"

definition plain_config :: node_config where
  "plain_config = \<lparr>nf_Password = ''p'', nf_Name = ''n'', nf_Email = ''e'', nf_ChainProtocolID = ''/chain'', nf_Addrs = [],
     nf_Addr = ''0.0.0.0'', nf_Port = ''1'', nf_WsPort = ''2'', nf_WssPort = ''3'', nf_ExternalAddr = ''h'', nf_ExternalPort = ''4'',
     nf_ExternalWsPort = ''5'', nf_ExternalWssPort = ''6'', nf_EnableTls = False, nf_EnableNoise = True, nf_EnableQuic = False,
     nf_defaultPing = True, nf_EnableNatPortMap = False, nf_EnableNATService = False, nf_ConnectionGater = False,
     nf_ForceReachabilityPublic = False, nf_ForceReachabilityPrivate = False, nf_EnableRouting = True, nf_EnableRelay = False,
     nf_EnableAutoRelay = False, nf_EnableAddressFactory = False, nf_EnableWebsocket = True, nf_EnableWss = False,
     nf_TlsMode = []\<rparr>"

definition start_env :: "myself_peer option env" where
  "start_env = sample_env\<lparr>orm_GetMyselfPeer := (\<lambda>_ w. (w, w))\<rparr>"

definition start_addresses :: "myself_peer option addresses" where
  "start_addresses = \<lparr>ad_NewMultiaddr = Inr, ad_AddrInfoFromP2pAddr = (\<lambda>addr. Inr \<lparr>ai_ID = GetPeerId addr, ai_Addrs = [addr]\<rparr>),
     ad_TextUnmarshal = (\<lambda>s. Inr [s]), ad_FindPeer = (\<lambda>_ w. (Inl (Err ''not found''), w)),
     ad_Connect = (\<lambda>_ w. (Inr (), w)), ad_Bootstrap = (\<lambda>w. (Inr (), w)), ad_bootstraps = ''/dns4/a/p2p/R,/dns4/h/p2p/Q''\<rparr>"

definition booted :: "myself_peer option booting" where
  "booted = \<lparr>gl_PeerId = [], gl_PeerPrivateKey = [], gl_PeerPublicKey = [], gl_PrivateKey = [], gl_PublicKey = [],
     gl_ChainProtocolID = [], gl_MyselfPeer = None, gl_world = None\<rparr>"

text \<open>A record of the host, one that names another peer, and what bringing them up to date gives.\<close>

definition own_record :: "string \<Rightarrow> myself_peer" where
  "own_record ID = myself_peer0\<lparr>my_Id := 1, my_PeerId := ID\<rparr>"

definition upserted_sample :: "string \<Rightarrow> bool res \<times> myself_peer option booting" where
  "upserted_sample ID = upsertMyselfPeer start_env plain_startup start_addresses plain_config ''Q'' [''/a''] ''key'' (own_record ID) booted"

lemma upserted_sample_eq:
  "upsertMyselfPeer start_env plain_startup start_addresses plain_config ''Q'' [''/a''] ''key'' (own_record ID) booted =
    (Inr True, snd (upserted_sample ID))"
  by (auto simp: upserted_sample_def upsertMyselfPeer_def discovery_address_def synced_def sync_def own_record_def
      outside_def Let_def plain_startup_def plain_config_def start_addresses_def start_env_def myself_peer0_def)

lemma own_record_simps [simp]: "my_Id (own_record ID) = 1" "my_PeerId (own_record ID) = ID"
  by (simp_all add: own_record_def)


theorem second_start_silent_witness:
  "\<exists>m'. upsertMyselfPeer start_env plain_startup start_addresses plain_config ''Q'' [''/a''] ''key'' m'
    (snd (upserted_sample ''Q'')) = (Inr False, snd (upserted_sample ''Q''))"
proof -
  obtain m' where "gl_MyselfPeer (snd (upserted_sample ''Q'')) = Some m'"
    using upsert_globals [OF upserted_sample_eq [of "''Q''"]] by (auto simp: plain_startup_def)
  from second_start_silent [OF upserted_sample_eq [of "''Q''"] _ _ _ this] show ?thesis by auto
qed

theorem stale_discovery_witness:
  "\<exists>m'. gl_MyselfPeer (snd (upserted_sample ''R'')) = Some m' \<and> my_PeerId m' = ''Q'' \<and> GetPeerId (my_DiscoveryAddress m') = ''R''"
  using stale_discovery [OF upserted_sample_eq [of "''R''"]] by (simp add: plain_config_def start_addresses_def)

theorem no_ping_panics_witness:
  "fst (Start start_env plain_startup start_addresses (plain_config\<lparr>nf_defaultPing := False\<rparr>) booted) =
    Inl (Panic ''nil pointer dereference'')"
proof -
  have "\<exists>pm s1. getMyselfPeer start_env plain_startup (plain_config\<lparr>nf_defaultPing := False\<rparr>) booted = (Inr pm, s1)"
    by (simp add: getMyselfPeer_def create_keys_def outside_def plain_startup_def plain_config_def booted_def start_env_def
        sample_env_def)
  then obtain pm s1 where "getMyselfPeer start_env plain_startup (plain_config\<lparr>nf_defaultPing := False\<rparr>) booted = (Inr pm, s1)"
    by blast
  from no_ping_panics [OF _ this, of start_addresses] show ?thesis by simp
qed

theorem Start_knows_itself_witness:
  "\<exists>m s'. Start start_env plain_startup start_addresses plain_config booted =
      (Inr [\<lparr>ai_ID = ''R'', ai_Addrs = [''/dns4/a/p2p/R'']\<rparr>], s') \<and> gl_MyselfPeer s' = Some m \<and> my_PeerId m = gl_PeerId s'"
proof -
  have "fst (Start start_env plain_startup start_addresses plain_config booted) =
      Inr [\<lparr>ai_ID = ''R'', ai_Addrs = [''/dns4/a/p2p/R'']\<rparr>]" by code_simp
  then have start: "Start start_env plain_startup start_addresses plain_config booted =
      (Inr [\<lparr>ai_ID = ''R'', ai_Addrs = [''/dns4/a/p2p/R'']\<rparr>],
       snd (Start start_env plain_startup start_addresses plain_config booted))" by (metis prod.collapse)
  have "my_PeerId (snd (fst (su_InsertMyself plain_startup m w))) = my_PeerId m" for m w by (simp add: plain_startup_def)
  from Start_knows_itself [OF start this] start show ?thesis by blast
qed

theorem keys_kept_witness:
  "\<exists>priv row s4. getMyselfPeer start_env plain_startup plain_config
      (snd (upserted_sample ''Q'')\<lparr>gl_world := Some row\<rparr>) = (Inr (priv, row), s4) \<and> priv = ''key''"
proof -
  obtain m s1 where created: "create_keys start_env plain_startup plain_config booted = (Inr (''key'', m), s1)"
    by (simp add: create_keys_def outside_def plain_startup_def plain_config_def booted_def start_env_def sample_env_def)
  from keys_kept [OF created, where row = m and ?s2.0 = "snd (upserted_sample ''Q'')\<lparr>gl_world := Some m\<rparr>"
      and ?s3.0 = "snd (upserted_sample ''Q'')\<lparr>gl_world := Some m\<rparr>"]
  show ?thesis by (auto simp: outside_def plain_startup_def plain_config_def start_env_def sample_env_def)
qed

end
