(* ===== verification/Topics.thy ===== *)
theory Topics
  imports Relay
begin

text \<open>
  Topics of the network, \<^verbatim>\<open>libp2p/pubsub/default.go\<close>: the pool of the topics that this node has joined,
  joining, subscribing and sending. Instances of the publish-subscribe service, topics and subscriptions of
  the library are numbers, its state lies in the world.
\<close>

section \<open>The pool\<close>

record pubsub_topic =
  pt_Topic :: "nat option"
  pt_Sub :: "nat option"

record topics =
  tp_Pubsub :: "nat option"
  tp_PubsubTopicPool :: "(string \<times> pubsub_topic) list"

text \<open>The library, for any state that it keeps in the world; \<open>gs_Next\<close> is what \<open>sub.Next\<close> delivers.\<close>

record 'w gossip =
  gs_NewGossipSub :: "'w \<Rightarrow> nat res \<times> 'w"
  gs_Join :: "nat \<Rightarrow> string \<Rightarrow> 'w \<Rightarrow> nat res \<times> 'w"
  gs_CloseTopic :: "nat \<Rightarrow> 'w \<Rightarrow> 'w"
  gs_Subscribe :: "nat \<Rightarrow> 'w \<Rightarrow> nat res \<times> 'w"
  gs_Publish :: "nat \<Rightarrow> string \<Rightarrow> 'w \<Rightarrow> 'w"
  gs_ListPeers :: "nat \<Rightarrow> string \<Rightarrow> 'w \<Rightarrow> string list"
  gs_GetTopics :: "nat \<Rightarrow> 'w \<Rightarrow> string list"

definition set_topic :: "string \<Rightarrow> (pubsub_topic \<Rightarrow> pubsub_topic) \<Rightarrow> 'a topics_scheme \<Rightarrow> 'a topics_scheme" where
  "set_topic topicname f w = w\<lparr>tp_PubsubTopicPool := map (\<lambda>(k, t). (k, if k = topicname then f t else t)) (tp_PubsubTopicPool w)\<rparr>"

definition topic_of :: "string \<Rightarrow> 'a topics_scheme \<Rightarrow> pubsub_topic option" where
  "topic_of topicname w = map_of (tp_PubsubTopicPool w) topicname"

section \<open>Joining and subscribing\<close>

text \<open>
  A topic that is not in the pool makes a new service, which replaces the one of all topics, also when it
  could not be made; its entry is in the pool before the topic has been joined.
\<close>

definition new_topic :: "('a topics_scheme) gossip \<Rightarrow> string \<Rightarrow> 'a topics_scheme \<Rightarrow> unit res \<times> 'a topics_scheme" where
  "new_topic G topicname w =
     (case topic_of topicname w of
        Some _ \<Rightarrow> (Inr (), w)
      | None \<Rightarrow>
          (case gs_NewGossipSub G w of
             (Inl e, w1) \<Rightarrow> (Inl e, w1\<lparr>tp_Pubsub := None\<rparr>)
           | (Inr p, w1) \<Rightarrow>
               (Inr (), w1\<lparr>tp_Pubsub := Some p,
                  tp_PubsubTopicPool := (topicname, \<lparr>pt_Topic = None, pt_Sub = None\<rparr>) # tp_PubsubTopicPool w1\<rparr>)))"

definition close_topic :: "('a topics_scheme) gossip \<Rightarrow> string \<Rightarrow> 'a topics_scheme \<Rightarrow> 'a topics_scheme" where
  "close_topic G topicname w =
     (case Option.bind (topic_of topicname w) pt_Topic of
        None \<Rightarrow> w
      | Some t \<Rightarrow> set_topic topicname (\<lambda>x. x\<lparr>pt_Topic := None\<rparr>) (gs_CloseTopic G t w))"

definition joinTopic :: "('a topics_scheme) gossip \<Rightarrow> string \<Rightarrow> 'a topics_scheme \<Rightarrow> unit res \<times> 'a topics_scheme" where
  "joinTopic G topicname w =
     and_then (new_topic G topicname w) (\<lambda>_ w1.
       let w2 = close_topic G topicname w1 in
       case tp_Pubsub w2 of
         None \<Rightarrow> (Inl NilDereference, w2)
       | Some p \<Rightarrow>
           and_then (gs_Join G p topicname w2)
             (\<lambda>t w3. (Inr (), set_topic topicname (\<lambda>x. x\<lparr>pt_Topic := Some t\<rparr>) w3)))"

text \<open>The result is the subscription for which the goroutine of \<open>subLoop\<close> has been started.\<close>

definition Subscribe :: "('a topics_scheme) gossip \<Rightarrow> string \<Rightarrow> 'a topics_scheme \<Rightarrow> nat res \<times> 'a topics_scheme" where
  "Subscribe G topicname w =
     and_then (if topic_of topicname w = None then joinTopic G topicname w else (Inr (), w)) (\<lambda>_ w1.
       case Option.bind (topic_of topicname w1) pt_Topic of
         None \<Rightarrow> (Inl NilDereference, w1)
       | Some t \<Rightarrow>
           (case gs_Subscribe G t w1 of
              (Inl e, w2) \<Rightarrow> (Inl e, set_topic topicname (\<lambda>x. x\<lparr>pt_Sub := None\<rparr>) w2)
            | (Inr sub, w2) \<Rightarrow> (Inr sub, set_topic topicname (\<lambda>x. x\<lparr>pt_Sub := Some sub\<rparr>) w2)))"

section \<open>Messages\<close>

text \<open>\<open>SendRaw\<close>, the body of the goroutine \<open>GoSendRaw\<close>; an error of \<open>Publish\<close> is dropped.\<close>

definition Topic_SendRaw :: "('a topics_scheme) gossip \<Rightarrow> string \<Rightarrow> string \<Rightarrow> 'a topics_scheme \<Rightarrow> unit res \<times> 'a topics_scheme" where
  "Topic_SendRaw G topicname data w =
     (case topic_of topicname w of
        None \<Rightarrow> (Inr (), w)
      | Some x \<Rightarrow> (case pt_Topic x of None \<Rightarrow> (Inl NilDereference, w) | Some t \<Rightarrow> (Inr (), gs_Publish G t data w)))"

text \<open>
  One round of \<open>subLoop\<close>, for what the subscription delivers: an error is logged and the loop goes on, a
  message is handed to the handler, whose result is dropped. The loop never ends.
\<close>

definition subLoop_round ::
  "(string \<Rightarrow> string \<Rightarrow> string \<Rightarrow> string \<Rightarrow> string \<Rightarrow> 's \<Rightarrow> string res \<times> 's) option \<Rightarrow> string res \<Rightarrow> 's \<Rightarrow> unit res \<times> 's" where
  "subLoop_round messageHandler inp s =
     (case inp of
        Inl _ \<Rightarrow> (Inr (), s)
      | Inr data \<Rightarrow>
          (case messageHandler of
             None \<Rightarrow> (Inl NilDereference, s)
           | Some h \<Rightarrow>
               (case h data [] [] [] [] s of
                  (Inl (Panic p), s1) \<Rightarrow> (Inl (Panic p), s1)
                | (_, s1) \<Rightarrow> (Inr (), s1))))"

definition ListPeers :: "('a topics_scheme) gossip \<Rightarrow> string \<Rightarrow> 'a topics_scheme \<Rightarrow> string list res" where
  "ListPeers G topicname w =
     (case tp_Pubsub w of None \<Rightarrow> Inl NilDereference | Some p \<Rightarrow> Inr (gs_ListPeers G p topicname w))"

definition GetTopics :: "('a topics_scheme) gossip \<Rightarrow> 'a topics_scheme \<Rightarrow> string list res" where
  "GetTopics G w = (case tp_Pubsub w of None \<Rightarrow> Inl NilDereference | Some p \<Rightarrow> Inr (gs_GetTopics G p w))"

section \<open>Properties\<close>

text \<open>The library keeps to its own part of the world.\<close>

definition topics_kept :: "'a topics_scheme \<Rightarrow> 'a topics_scheme \<Rightarrow> bool" where
  "topics_kept w w' \<longleftrightarrow> tp_Pubsub w' = tp_Pubsub w \<and> tp_PubsubTopicPool w' = tp_PubsubTopicPool w"

definition gossip_apart :: "('a topics_scheme) gossip \<Rightarrow> bool" where
  "gossip_apart G \<longleftrightarrow> (\<forall>w. topics_kept w (snd (gs_NewGossipSub G w))) \<and>
     (\<forall>p name w. topics_kept w (snd (gs_Join G p name w))) \<and> (\<forall>t w. topics_kept w (gs_CloseTopic G t w)) \<and>
     (\<forall>t w. topics_kept w (snd (gs_Subscribe G t w))) \<and> (\<forall>t data w. topics_kept w (gs_Publish G t data w))"

lemma topics_keptD: "topics_kept w w' \<Longrightarrow> topic_of name w' = topic_of name w" "topics_kept w w' \<Longrightarrow> tp_Pubsub w' = tp_Pubsub w"
  by (simp_all add: topics_kept_def topic_of_def)

lemma gossip_apartD:
  assumes "gossip_apart G"
  shows "gs_NewGossipSub G w = (r1, w') \<Longrightarrow> topics_kept w w'" "gs_Join G p name w = (r2, w') \<Longrightarrow> topics_kept w w'"
    "topics_kept w (gs_CloseTopic G t w)" "gs_Subscribe G t w = (r3, w') \<Longrightarrow> topics_kept w w'" "topics_kept w (gs_Publish G t data w)"
  using assms unfolding gossip_apart_def by (metis snd_conv)+

lemma map_of_set_topic:
  "map_of (map (\<lambda>(k, t). (k, if k = name then f t else t)) xs) k =
    (if k = name then map_option f (map_of xs k) else map_of xs k)"
  by (induction xs) auto

lemma topic_of_set_topic [simp]:
  "topic_of k (set_topic name f w) = (if k = name then map_option f (topic_of k w) else topic_of k w)"
  by (simp add: topic_of_def set_topic_def map_of_set_topic)

lemma set_topic_Pubsub [simp]: "tp_Pubsub (set_topic name f w) = tp_Pubsub w"
  by (simp add: set_topic_def)

text \<open>
  After a subscription has succeeded, the topic is joined and messages to it are published.
\<close>

theorem subscribed_publishes:
  assumes "gossip_apart G" and "Subscribe G name w = (Inr sub, w')"
  shows "\<exists>t. topic_of name w' = Some \<lparr>pt_Topic = Some t, pt_Sub = Some sub\<rparr> \<and>
    Topic_SendRaw G name data w' = (Inr (), gs_Publish G t data w')"
proof -
  from assms(2) obtain w1 where "(case Option.bind (topic_of name w1) pt_Topic of
         None \<Rightarrow> (Inl NilDereference, w1)
       | Some t \<Rightarrow>
           (case gs_Subscribe G t w1 of
              (Inl e, w2) \<Rightarrow> (Inl e, set_topic name (\<lambda>x. x\<lparr>pt_Sub := None\<rparr>) w2)
            | (Inr sub, w2) \<Rightarrow> (Inr sub, set_topic name (\<lambda>x. x\<lparr>pt_Sub := Some sub\<rparr>) w2))) = (Inr sub, w')"
    unfolding Subscribe_def and_then_Inr by blast
  then obtain x t w2 where "topic_of name w1 = Some x" "pt_Topic x = Some t"
    "gs_Subscribe G t w1 = (Inr sub, w2)" "w' = set_topic name (\<lambda>x. x\<lparr>pt_Sub := Some sub\<rparr>) w2"
    by (auto simp: bind_eq_Some_conv split: option.splits prod.splits sum.splits)
  moreover from gossip_apartD(4) [OF assms(1) this(3)] have "topic_of name w2 = topic_of name w1" by (rule topics_keptD(1))
  ultimately show ?thesis by (cases x) (simp add: Topic_SendRaw_def)
qed

text \<open>
  A topic that could not be joined stays in the pool without its topic: the next subscription ends
  the node, and so does every message to it.
\<close>

theorem failed_join_panics:
  assumes "gossip_apart G" and "topic_of name w = None" and "gs_NewGossipSub G w = (Inr p, w1)"
    and "\<And>v. fst (gs_Join G p name v) = Inl (Err e)" and "Subscribe G name w = (r, w')"
  shows "r = Inl (Err e) \<and> Subscribe G name w' = (Inl NilDereference, w') \<and>
    Topic_SendRaw G name data w' = (Inl NilDereference, w')"
proof -
  let ?w2 = "w1\<lparr>tp_Pubsub := Some p, tp_PubsubTopicPool := (name, \<lparr>pt_Topic = None, pt_Sub = None\<rparr>) # tp_PubsubTopicPool w1\<rparr>"
  have entry: "topic_of name ?w2 = Some \<lparr>pt_Topic = None, pt_Sub = None\<rparr>" by (simp add: topic_of_def)
  obtain w3 where join: "gs_Join G p name ?w2 = (Inl (Err e), w3)" using assms(4) by (metis prod.collapse)
  have "topic_of name w3 = topic_of name ?w2" by (rule topics_keptD(1) [OF gossip_apartD(2) [OF assms(1) join]])
  moreover from assms(2,3,5) entry join have "r = Inl (Err e)" "w' = w3"
    by (auto simp: Subscribe_def joinTopic_def new_topic_def close_topic_def Let_def)
  ultimately show ?thesis by (simp add: entry Subscribe_def Topic_SendRaw_def)
qed

text \<open>
  Nothing in the program subscribes to a topic, and a message with a topic needs one in the pool: its
  sender is told that it has been sent, and the goroutine that sends it does nothing.
\<close>

theorem topic_message_lost:
  assumes "cm_Topic msg \<noteq> []" and "lib_MarshalMessage E msg = Inr data" and "topic_of (cm_Topic msg) (nd_world s) = None"
  shows "\<exists>s'. RelaySend E R msg s = (Inr (Some msg), s') \<and> nd_world s' = nd_world s \<and>
    nd_tasks s' = nd_tasks s @ [GoSendRaw (cm_Topic msg) data] \<and>
    on_world (Topic_SendRaw G (cm_Topic msg) data) s' = (Inr (), s')"
  using assms by (simp add: RelaySend_def go_start_def on_world_def Topic_SendRaw_def)

text \<open>Whatever is subscribed and sent.\<close>

inductive topic_reach :: "('a topics_scheme) gossip \<Rightarrow> 'a topics_scheme \<Rightarrow> bool" for G where
  start: "tp_PubsubTopicPool w = [] \<Longrightarrow> topic_reach G w"
| subscribe: "topic_reach G w \<Longrightarrow> Subscribe G name w = (r, w') \<Longrightarrow> topic_reach G w'"
| send: "topic_reach G w \<Longrightarrow> Topic_SendRaw G name data w = (r', w') \<Longrightarrow> topic_reach G w'"

definition topic_sound :: "pubsub_topic \<Rightarrow> bool" where
  "topic_sound x \<longleftrightarrow> (pt_Sub x \<noteq> None \<longrightarrow> pt_Topic x \<noteq> None)"

definition pool_sound :: "(string \<times> pubsub_topic) list \<Rightarrow> bool" where
  "pool_sound xs \<longleftrightarrow> distinct (map fst xs) \<and> (\<forall>x \<in> snd ` set xs. topic_sound x)"

lemma pool_sound_set_topic:
  assumes "pool_sound (tp_PubsubTopicPool w)" and "\<And>x. topic_of name w = Some x \<Longrightarrow> topic_sound (f x)"
  shows "pool_sound (tp_PubsubTopicPool (set_topic name f w))"
proof -
  have keys: "map fst (tp_PubsubTopicPool (set_topic name f w)) = map fst (tp_PubsubTopicPool w)"
    by (simp add: set_topic_def comp_def case_prod_beta)
  have sound: "topic_sound (if k = name then f x else x)" if mem: "(k, x) \<in> set (tp_PubsubTopicPool w)" for k x
  proof (cases "k = name")
    case True
    have "map_of (tp_PubsubTopicPool w) k = Some x"
      using assms(1) mem unfolding pool_sound_def by (intro map_of_is_SomeI) blast+
    with True assms(2) show ?thesis by (simp add: topic_of_def)
  next
    case False
    have "x \<in> snd ` set (tp_PubsubTopicPool w)" using mem by (rule rev_image_eqI) simp
    with False assms(1) show ?thesis unfolding pool_sound_def by (simp del: ball_simps)
  qed
  show ?thesis unfolding pool_sound_def keys
  proof
    show "distinct (map fst (tp_PubsubTopicPool w))" using assms(1) unfolding pool_sound_def by (rule conjunct1)
    show "\<forall>x \<in> snd ` set (tp_PubsubTopicPool (set_topic name f w)). topic_sound x"
    proof
      fix y
      assume "y \<in> snd ` set (tp_PubsubTopicPool (set_topic name f w))"
      then obtain k x where "(k, x) \<in> set (tp_PubsubTopicPool w)" "y = (if k = name then f x else x)"
        unfolding set_topic_def by force
      with sound show "topic_sound y" by blast
    qed
  qed
qed

lemma topics_kept_sound:
  "topics_kept w w' \<Longrightarrow> pool_sound (tp_PubsubTopicPool w) \<Longrightarrow> pool_sound (tp_PubsubTopicPool w')"
  by (simp add: topics_kept_def)

lemma Subscribe_sound:
  assumes "gossip_apart G" and "pool_sound (tp_PubsubTopicPool w)" and "Subscribe G name w = (r, w')"
  shows "pool_sound (tp_PubsubTopicPool w')"
proof -
  define j where "j = (if topic_of name w = None then joinTopic G name w else (Inr (), w))"
  have j: "pool_sound (tp_PubsubTopicPool (snd j))"
  proof (cases "topic_of name w")
    case None
    then have fresh: "name \<notin> fst ` set (tp_PubsubTopicPool w)" by (simp add: topic_of_def map_of_eq_None_iff)
    obtain r1 w1 where new: "gs_NewGossipSub G w = (r1, w1)" by (cases "gs_NewGossipSub G w")
    note w1 = gossip_apartD(1) [OF assms(1) new]
    show ?thesis
    proof (cases r1)
      case (Inl e)
      with new None topics_kept_sound [OF w1 assms(2)] show ?thesis by (simp add: j_def joinTopic_def new_topic_def)
    next
      case (Inr p)
      let ?w2 = "w1\<lparr>tp_Pubsub := Some p, tp_PubsubTopicPool := (name, \<lparr>pt_Topic = None, pt_Sub = None\<rparr>) # tp_PubsubTopicPool w1\<rparr>"
      have w2: "pool_sound (tp_PubsubTopicPool ?w2)" "close_topic G name ?w2 = ?w2"
        using topics_kept_sound [OF w1 assms(2)] w1 fresh
        by (simp_all add: pool_sound_def topic_sound_def topics_kept_def close_topic_def topic_of_def)
      obtain r2 w3 where join: "gs_Join G p name ?w2 = (r2, w3)" by (cases "gs_Join G p name ?w2")
      note w3 = topics_kept_sound [OF gossip_apartD(2) [OF assms(1) join] w2(1)]
      moreover have "pool_sound (tp_PubsubTopicPool (set_topic name (\<lambda>x. x\<lparr>pt_Topic := Some t\<rparr>) w3))" for t
        by (rule pool_sound_set_topic [OF w3]) (simp add: topic_sound_def)
      ultimately show ?thesis using None new Inr w2(2) join
        by (cases r2) (simp_all add: j_def joinTopic_def new_topic_def Let_def)
    qed
  qed (use assms(2) in \<open>simp add: j_def\<close>)
  show ?thesis
  proof (cases "Option.bind (topic_of name (snd j)) pt_Topic")
    case None
    with j assms(3) show ?thesis
      by (cases j; cases "fst j") (auto simp: Subscribe_def j_def [symmetric])
  next
    case (Some t)
    obtain r2 w2 where sub: "gs_Subscribe G t (snd j) = (r2, w2)" by (cases "gs_Subscribe G t (snd j)")
    note kept = gossip_apartD(4) [OF assms(1) sub]
    have topic: "pt_Topic x = Some t" if "topic_of name w2 = Some x" for x
      using Some that topics_keptD(1) [OF kept] by (auto simp: bind_eq_Some_conv)
    have "pool_sound (tp_PubsubTopicPool (set_topic name (\<lambda>x. x\<lparr>pt_Sub := v\<rparr>) w2))" for v
      by (rule pool_sound_set_topic [OF topics_kept_sound [OF kept j]]) (simp add: topic_sound_def topic)
    with j assms(3) Some sub show ?thesis
      by (cases j; cases "fst j"; cases r2) (auto simp: Subscribe_def j_def [symmetric])
  qed
qed

text \<open>
  C32: in every reachable state the pool has one entry for each topic, and each one that has a subscription
  is joined: only a topic that could not be joined makes sending panic.
\<close>

theorem topics_invariant:
  assumes "topic_reach G w" and "gossip_apart G"
  shows "pool_sound (tp_PubsubTopicPool w)"
  using assms(1)
proof induction
  case (start w)
  then show ?case by (simp add: pool_sound_def)
next
  case (subscribe w name r w')
  from Subscribe_sound [OF assms(2) subscribe.IH subscribe.hyps(2)] show ?case .
next
  case (send w name data r w')
  then show ?case using gossip_apartD(5) [OF assms(2)]
    by (auto simp: Topic_SendRaw_def split: option.splits intro: topics_kept_sound)
qed

section \<open>Witnesses\<close>

text \<open>A library that numbers what it makes and keeps what is published.\<close>

record gossip_world = topics +
  gw_published :: "(nat \<times> string) list"

definition plain_gossip :: "gossip_world gossip" where
  "plain_gossip = \<lparr>gs_NewGossipSub = (\<lambda>w. (Inr 0, w)), gs_Join = (\<lambda>p name w. (Inr (length name), w)), gs_CloseTopic = (\<lambda>_ w. w),
     gs_Subscribe = (\<lambda>t w. (Inr t, w)), gs_Publish = (\<lambda>t data w. w\<lparr>gw_published := gw_published w @ [(t, data)]\<rparr>),
     gs_ListPeers = (\<lambda>_ _ _. []), gs_GetTopics = (\<lambda>_ _. [])\<rparr>"

definition failing_gossip :: "gossip_world gossip" where
  "failing_gossip = plain_gossip\<lparr>gs_Join := (\<lambda>p name w. (Inl (Err ''topic already exists''), w))\<rparr>"

definition quiet_world :: gossip_world where
  "quiet_world = \<lparr>tp_Pubsub = None, tp_PubsubTopicPool = [], gw_published = []\<rparr>"

lemma plain_gossip_apart: "gossip_apart plain_gossip" "gossip_apart failing_gossip"
  by (simp_all add: gossip_apart_def plain_gossip_def failing_gossip_def topics_kept_def)

lemma plain_subscribe:
  "Subscribe plain_gossip ''news'' quiet_world =
    (Inr 4, quiet_world\<lparr>tp_Pubsub := Some 0, tp_PubsubTopicPool := [(''news'', \<lparr>pt_Topic = Some 4, pt_Sub = Some 4\<rparr>)]\<rparr>)"
  by (simp add: Subscribe_def joinTopic_def new_topic_def close_topic_def topic_of_def set_topic_def plain_gossip_def quiet_world_def)

theorem subscribed_publishes_witness:
  "fst (Topic_SendRaw plain_gossip ''news'' ''x'' (snd (Subscribe plain_gossip ''news'' quiet_world))) = Inr ()"
  using subscribed_publishes [OF plain_gossip_apart(1) plain_subscribe, of "''x''"] by (auto simp: plain_subscribe)

theorem failed_join_panics_witness:
  "fst (Topic_SendRaw failing_gossip ''news'' ''x'' (snd (Subscribe failing_gossip ''news'' quiet_world))) = Inl NilDereference"
  using failed_join_panics [OF plain_gossip_apart(2) _ _ _ prod.collapse [symmetric], where name = "''news''" and w = quiet_world
      and p = 0 and ?w1.0 = quiet_world and e = "''topic already exists''" and data = "''x''"]
  by (simp add: topic_of_def quiet_world_def failing_gossip_def plain_gossip_def)

definition topic_node :: "(gossip_world, unit) node" where
  "topic_node = \<lparr>nd_world = quiet_world, nd_cache = (), nd_pool = (\<lambda>_. None), nd_tasks = []\<rparr>"

theorem topic_message_lost_witness:
  "fst (RelaySend (sample_env\<lparr>lib_MarshalMessage := (\<lambda>_. Inr ''x'')\<rparr>) no_datastores (chain_message0\<lparr>cm_Topic := ''news''\<rparr>)
    topic_node) = Inr (Some (chain_message0\<lparr>cm_Topic := ''news''\<rparr>))"
  using topic_message_lost [where E = "sample_env\<lparr>lib_MarshalMessage := (\<lambda>_. Inr ''x'')\<rparr>" and R = no_datastores
      and msg = "chain_message0\<lparr>cm_Topic := ''news''\<rparr>" and data = "''x''" and s = topic_node and G = plain_gossip]
  by (auto simp: topic_node_def quiet_world_def topic_of_def)

theorem topics_invariant_witness: "pool_sound (tp_PubsubTopicPool (snd (Subscribe plain_gossip ''news'' quiet_world)))"
  by (rule topics_invariant [OF topic_reach.subscribe [OF topic_reach.start prod.collapse [symmetric]] plain_gossip_apart(1)])
    (simp add: quiet_world_def)

end
