(* ===== verification/Gateways.thy ===== *)
theory Gateways
  imports Dht "HOL-Library.AList"
begin

text \<open>
  What stands before the node: the reverse proxy over HTTP and websockets, \<^verbatim>\<open>transport/httpproxy/reverse.go\<close>,
  the proxy over TCP, \<^verbatim>\<open>transport/tcpproxy/default.go\<close>, and the users of the TURN server,
  \<^verbatim>\<open>turn/server/server.go\<close>.
\<close>

section \<open>The mapping of the reverse proxy\<close>

text \<open>A value of the configuration; \<open>COther\<close> is one of no type that the code asks for.\<close>

datatype conf_value =
  CString string | CBool bool | CInt int | CList "conf_value list" | CMap "(string \<times> conf_value) list" | COther

definition conf_string :: "conf_value option \<Rightarrow> string option" where
  "conf_string v = (case v of Some (CString s) \<Rightarrow> Some s | _ \<Rightarrow> None)"

definition conf_list :: "conf_value option \<Rightarrow> conf_value list option" where
  "conf_list v = (case v of Some (CList vs) \<Rightarrow> Some vs | _ \<Rightarrow> None)"

text \<open>The proxies of the library are numbers.\<close>

record proxy_server =
  ps_mode :: string
  ps_from :: string
  ps_weights :: "(string \<times> uint64) list"
  ps_redirect :: bool
  ps_ReverseProxy :: "nat option"
  ps_WSReverseProxy :: "nat option"

text \<open>
  The library: making a proxy, the order in which \<open>range\<close> visits a map, and serving an address, which
  returns only with an error (\<open>None\<close> does not return).
\<close>

record 'w gateway =
  gt_NewReverseProxy :: "'w \<Rightarrow> nat res \<times> 'w"
  gt_NewWSReverseProxy :: "'w \<Rightarrow> nat res \<times> 'w"
  gt_Range :: "string list \<Rightarrow> 'w \<Rightarrow> string list \<times> 'w"
  gt_Serve :: "string \<Rightarrow> 'w \<Rightarrow> (unit res \<times> 'w) option"
  gt_Domain :: string
  gt_Mode :: string

text \<open>One backend: an address and a weight, which is converted to \<open>uint\<close>.\<close>

fun add_weights :: "conf_value list \<Rightarrow> (string \<times> uint64) list \<Rightarrow> (string \<times> uint64) list" where
  "add_weights [] ws = ws"
| "add_weights (CMap to # tos) ws =
     (case conf_string (map_of to ''address'') of
        None \<Rightarrow> add_weights tos ws
      | Some addr \<Rightarrow>
          let weight = (case map_of to ''weight'' of Some (CInt n) \<Rightarrow> n | _ \<Rightarrow> 100) in
          add_weights tos (AList.update addr (word_of_int weight) ws))"
| "add_weights (_ # tos) ws = add_weights tos ws"

text \<open>
  The proxy of a mapping. The options for the backends and the address are made and dropped, so that the
  proxy is made without any; an error counts only for websockets, and ends the loop over all mappings.
\<close>

fun ws_proxy :: "'w gateway \<Rightarrow> string list \<Rightarrow> 'w \<Rightarrow> nat option res \<times> 'w" where
  "ws_proxy G [] w = (Inr None, w)"
| "ws_proxy G (key # keys) w =
     (if length (split_on (CHR ''/'') key) = 2 then
        (case gt_NewWSReverseProxy G w of (Inl e, w1) \<Rightarrow> (Inl e, w1) | (Inr p, w1) \<Rightarrow> (Inr (Some p), w1))
      else ws_proxy G keys w)"

definition make_proxy :: "'w gateway \<Rightarrow> proxy_server \<Rightarrow> 'w \<Rightarrow> proxy_server res \<times> 'w" where
  "make_proxy G ps w =
     (if ps_mode ps = ''stdhttp'' then
        (case gt_NewReverseProxy G w of
           (Inl (Panic p), w1) \<Rightarrow> (Inl (Panic p), w1)
         | (Inl (Err _), w1) \<Rightarrow> (Inr ps, w1)
         | (Inr p, w1) \<Rightarrow> (Inr (ps\<lparr>ps_ReverseProxy := Some p\<rparr>), w1))
      else if ps_mode ps = ''ws'' \<or> ps_mode ps = ''wss'' then
        (case gt_Range G (map fst (ps_weights ps)) w of
           (keys, w1) \<Rightarrow> and_then (ws_proxy G keys w1) (\<lambda>p w2. (Inr (ps\<lparr>ps_WSReverseProxy := p\<rparr>), w2)))
      else (Inr ps, w))"

fun parse_mappings ::
  "'w gateway \<Rightarrow> conf_value list \<Rightarrow> (string \<times> proxy_server) list \<Rightarrow> 'w \<Rightarrow>
   go_error option \<times> (string \<times> proxy_server) list \<times> 'w" where
  "parse_mappings G [] pool w = (None, pool, w)"
| "parse_mappings G (CMap maps # mappings) pool w =
     (case (conf_string (map_of maps ''from''), conf_list (map_of maps ''to'')) of
        (Some from, Some tos) \<Rightarrow>
          let mode = (case conf_string (map_of maps ''mode'') of None \<Rightarrow> ''stdhttp'' | Some m \<Rightarrow> m);
              redirect = (map_of maps ''redirect'' = Some (CBool True)) in
          (case make_proxy G \<lparr>ps_mode = mode, ps_from = from, ps_weights = add_weights tos [], ps_redirect = redirect,
                  ps_ReverseProxy = None, ps_WSReverseProxy = None\<rparr> w of
             (Inl e, w1) \<Rightarrow> (Some e, pool, w1)
           | (Inr ps, w1) \<Rightarrow> parse_mappings G mappings (AList.update from ps pool) w1)
      | _ \<Rightarrow> parse_mappings G mappings pool w)"
| "parse_mappings G (_ # mappings) pool w = parse_mappings G mappings pool w"

definition parseMapping ::
  "'w gateway \<Rightarrow> conf_value option \<Rightarrow> 'w \<Rightarrow> go_error option \<times> (string \<times> proxy_server) list \<times> 'w" where
  "parseMapping G mapping w =
     (case conf_list mapping of
        None \<Rightarrow> (Some (Err ''NotExist''), [], w)
      | Some mappings \<Rightarrow> parse_mappings G mappings [] w)"

section \<open>Requests\<close>

text \<open>
  What \<open>ProxyHandler\<close> does with a request: it starts a goroutine that listens on port 80 for each request
  of a mapping that redirects, then hands the request to a proxy or answers with an error.
\<close>

datatype proxy_action = ListenRedirect string | ServeHTTP nat | ServeWS nat | NotFound

fun ws_path :: "string list \<Rightarrow> nat \<Rightarrow> string \<Rightarrow> proxy_action list" where
  "ws_path [] p path = []"
| "ws_path (key # keys) p path =
     (case split_on (CHR ''/'') key of
        [_, k] \<Rightarrow> [if CHR ''/'' # k = path then ServeWS p else NotFound]
      | _ \<Rightarrow> ws_path keys p path)"

definition ProxyHandler :: "'w gateway \<Rightarrow> proxy_server \<Rightarrow> string \<Rightarrow> 'w \<Rightarrow> proxy_action list \<times> 'w" where
  "ProxyHandler G ps path w =
     (let redirect = (if ps_redirect ps
            then [ListenRedirect (if gt_Domain G \<noteq> [] then gt_Domain G else ps_from ps)] else []) in
      case ps_ReverseProxy ps of
        Some p \<Rightarrow> (redirect @ [ServeHTTP p], w)
      | None \<Rightarrow>
          (case ps_WSReverseProxy ps of
             None \<Rightarrow> (redirect, w)
           | Some p \<Rightarrow>
               (case gt_Range G (map fst (ps_weights ps)) w of (keys, w1) \<Rightarrow> (redirect @ ws_path keys p path, w1))))"

text \<open>
  \<open>Start\<close>: the addresses on which a server has been started, and the result, if it returns. A server keeps
  the loop until it fails, and its failure over plain HTTP ends the loop.
\<close>

fun serve_addresses ::
  "'w gateway \<Rightarrow> (string \<times> proxy_server) list \<Rightarrow> string list \<Rightarrow> 'w \<Rightarrow> string list \<times> (go_error option \<times> 'w) option" where
  "serve_addresses G pool [] w = ([], Some (None, w))"
| "serve_addresses G pool (addr # addrs) w =
     (case map_of pool addr of
        None \<Rightarrow> serve_addresses G pool addrs w
      | Some ps \<Rightarrow>
          if ps_mode ps = ''stdhttp'' \<or> ps_mode ps = ''ws'' then
            (case gt_Serve G addr w of
               None \<Rightarrow> ([addr], None)
             | Some (Inl e, w1) \<Rightarrow> ([addr], Some (Some e, w1))
             | Some (Inr _, w1) \<Rightarrow> map_prod ((#) addr) id (serve_addresses G pool addrs w1))
          else if ps_mode ps = ''wss'' \<and> (gt_Domain G \<noteq> [] \<or> gt_Mode G = ''tls'') then
            (case gt_Serve G addr w of
               None \<Rightarrow> ([addr], None)
             | Some (_, w1) \<Rightarrow> map_prod ((#) addr) id (serve_addresses G pool addrs w1))
          else serve_addresses G pool addrs w)"

definition Proxy_Start ::
  "'w gateway \<Rightarrow> (string \<times> proxy_server) list \<Rightarrow> 'w \<Rightarrow> string list \<times> (go_error option \<times> 'w) option" where
  "Proxy_Start G pool w =
     (if gt_Mode G = ''none'' then ([], Some (None, w))
      else (case gt_Range G (map fst pool) w of (addrs, w1) \<Rightarrow> serve_addresses G pool addrs w1))"

section \<open>The backends of the TCP proxy\<close>

text \<open>\<open>getIP\<close> under its lock: the first backend, which goes to the end.\<close>

definition getIP :: "string list \<Rightarrow> string option \<times> string list" where
  "getIP trueList = (case trueList of [] \<Rightarrow> (None, []) | ip # rest \<Rightarrow> (Some ip, rest @ [ip]))"

fun getIPs :: "nat \<Rightarrow> string list \<Rightarrow> string option list \<times> string list" where
  "getIPs 0 ips = ([], ips)"
| "getIPs (Suc n) ips = (case getIP ips of (ip, ips1) \<Rightarrow> map_prod ((#) ip) id (getIPs n ips1))"

section \<open>Users of the TURN server\<close>

text \<open>The expression \<open>(\w+)=(\w+)\<close>, all matches from the left: the longest words around an equals sign.\<close>

definition word_char :: "char \<Rightarrow> bool" where
  "word_char c \<longleftrightarrow> c \<in> set ''abcdefghijklmnopqrstuvwxyzABCDEFGHIJKLMNOPQRSTUVWXYZ0123456789_''"

function users_of :: "string \<Rightarrow> (string \<times> string) list" where
  "users_of s =
     (if s = [] then []
      else
        let name = takeWhile word_char s; rest = dropWhile word_char s; password = takeWhile word_char (tl rest) in
        if name \<noteq> [] \<and> has_prefix rest ''='' \<and> password \<noteq> []
        then (name, password) # users_of (drop (length name + 1 + length password) s)
        else users_of (tl s))"
  by pat_completeness auto
termination by (relation "measure length") (auto simp: Let_def length_greater_0_conv [symmetric] simp del: length_greater_0_conv)

declare users_of.simps [simp del]

definition usersMap :: "(string \<Rightarrow> string \<Rightarrow> string \<Rightarrow> string) \<Rightarrow> string \<Rightarrow> string \<Rightarrow> string \<rightharpoonup> string" where
  "usersMap GenerateAuthKey realm users =
     foldl (\<lambda>m (name, password). m(name \<mapsto> GenerateAuthKey name realm password)) (\<lambda>_. None) (users_of users)"

text \<open>The first client of the first record that decodes to one; a nil client ends the node.\<close>

fun first_client :: "'a library_scheme \<Rightarrow> string list \<Rightarrow> peer_client option res" where
  "first_client E [] = Inr None"
| "first_client E (recvdVal # recvdVals) =
     (case lib_TextUnmarshalPeerClients E recvdVal of
        Inl (Panic p) \<Rightarrow> Inl (Panic p)
      | Inl (Err _) \<Rightarrow> first_client E recvdVals
      | Inr [] \<Rightarrow> first_client E recvdVals
      | Inr (None # _) \<Rightarrow> Inl NilDereference
      | Inr (Some pc # _) \<Rightarrow> Inr (Some pc))"

definition authHandler ::
  "'w env \<Rightarrow> (string \<Rightarrow> string \<Rightarrow> string \<Rightarrow> string) \<Rightarrow> (string \<rightharpoonup> string) \<Rightarrow> bool \<Rightarrow> string \<Rightarrow> string \<Rightarrow> 'w \<Rightarrow>
   string option res \<times> 'w" where
  "authHandler E GenerateAuthKey users hasDHT username realm w =
     and_then
       (if hasDHT then
          (case GetValues E (GetPeerClientKey username) w of
             (Inl (Panic p), w1) \<Rightarrow> (Inl (Panic p), w1)
           | (Inl (Err _), w1) \<Rightarrow> (Inr None, w1)
           | (Inr recvdVals, w1) \<Rightarrow> (first_client E recvdVals, w1))
        else (Inr None, w))
       (\<lambda>client w1.
          (Inr (case client of
             Some pc \<Rightarrow> Some (GenerateAuthKey (pc_PeerId pc) realm (pc_PeerPublicKey pc))
           | None \<Rightarrow> users username), w1))"

section \<open>Properties\<close>

lemma getIPs_rotate: "getIPs (length ips) (ips @ jps) = (map Some ips, jps @ ips)"
proof (induction ips arbitrary: jps)
  case (Cons ip ips)
  from Cons.IH [of "jps @ [ip]"] show ?case by (simp add: getIP_def)
qed simp

text \<open>
  One round of the TCP proxy uses each backend once, in their order, and leaves the list as it was.
\<close>

theorem getIPs_round: "getIPs (length ips) ips = (map Some ips, ips)"
  using getIPs_rotate [of ips "[]"] by simp

lemma users_of_skip: "\<not> word_char c \<Longrightarrow> users_of (c # s) = users_of s"
  by (subst users_of.simps) simp

lemma users_of_entry:
  assumes "name \<noteq> []" "list_all word_char name" and "password \<noteq> []" "list_all word_char password"
    and "rest = [] \<or> \<not> word_char (hd rest)"
  shows "users_of (name @ ''='' @ password @ rest) = (name, password) # users_of rest"
proof -
  have word: "takeWhile word_char (xs @ ys) = xs \<and> dropWhile word_char (xs @ ys) = ys"
    if "list_all word_char xs" "ys = [] \<or> \<not> word_char (hd ys)" for xs ys
    using that by (cases ys) (auto simp: list_all_iff takeWhile_append1 dropWhile_append1 takeWhile_eq_all_conv dropWhile_eq_Nil_conv takeWhile_tail dropWhile_append2)
  have "\<not> word_char (CHR ''='')" by (simp add: word_char_def)
  with word [OF assms(2), of "''='' @ password @ rest"] word [OF assms(4,5)] assms(1,3)
  show ?thesis by (subst users_of.simps) simp
qed

text \<open>
  The users of the TURN server are read back from a list \<open>name=password,...\<close> of words.
\<close>

theorem users_of_list:
  assumes "list_all (\<lambda>(name, password). name \<noteq> [] \<and> list_all word_char name \<and> password \<noteq> [] \<and> list_all word_char password) us"
  shows "users_of (join_with '','' (map (\<lambda>(name, password). name @ ''='' @ password) us)) = us"
  using assms
proof (induction us)
  case Nil
  show ?case by (simp add: users_of.simps)
next
  case (Cons u us)
  obtain name password where u: "u = (name, password)" by (cases u)
  let ?rest = "join_with '','' (map (\<lambda>(name, password). name @ ''='' @ password) us)"
  have "\<not> word_char (CHR '','')" by (simp add: word_char_def)
  with Cons u users_of_entry [of name password "[]"] users_of_entry [of name password "'','' @ ?rest"]
  show ?case by (cases us) (simp_all add: users_of_skip users_of.simps [of "[]"])
qed

text \<open>
  Where the DHT has a client under the name, its credential is made of the public key in the DHT,
  which everybody can read, and a password that is configured for the name does not count.
\<close>

theorem turn_public_key:
  assumes "GetValues E (GetPeerClientKey username) w = (Inr (recvdVal # recvdVals), w1)"
    and "lib_TextUnmarshalPeerClients E recvdVal = Inr (Some pc # pcs)"
  shows "authHandler E GenerateAuthKey users True username realm w =
    (Inr (Some (GenerateAuthKey (pc_PeerId pc) realm (pc_PeerPublicKey pc))), w1)"
  using assms by (simp add: authHandler_def)

text \<open>
  The loop over the mapped addresses waits for the server of the first: as long as that one runs, no
  other address is served.
\<close>

theorem first_address_only:
  assumes "gt_Mode G \<noteq> ''none''" and "gt_Range G (map fst pool) w = (addr # addrs, w1)" and "map_of pool addr = Some ps"
    and "ps_mode ps = ''stdhttp'' \<or> ps_mode ps = ''ws''" and "gt_Serve G addr w1 = None"
  shows "Proxy_Start G pool w = ([addr], None)"
  using assms by (auto simp: Proxy_Start_def)

text \<open>
  A mapping with the mode \<open>http\<close>, which the comment names as the default, gets no proxy: its requests
  are not forwarded.
\<close>

theorem http_not_forwarded:
  assumes "map_of maps ''mode'' = Some (CString ''http'')" and "map_of maps ''from'' = Some (CString src)"
    and "map_of maps ''to'' = Some (CList tos)"
  shows "\<exists>ps. parseMapping G (Some (CList [CMap maps])) w = (None, [(src, ps)], w) \<and>
    list_all (\<lambda>a. \<exists>url. a = ListenRedirect url) (fst (ProxyHandler G ps path w))"
  using assms by (auto simp: parseMapping_def conf_list_def conf_string_def make_proxy_def ProxyHandler_def Let_def)

section \<open>Witnesses\<close>

definition blocking_gateway :: "unit gateway" where
  "blocking_gateway = \<lparr>gt_NewReverseProxy = (\<lambda>w. (Inr 0, w)), gt_NewWSReverseProxy = (\<lambda>w. (Inr 1, w)), gt_Range = Pair,
     gt_Serve = (\<lambda>_ _. None), gt_Domain = [], gt_Mode = ''tls''\<rparr>"

definition two_mappings :: "conf_value list" where
  "two_mappings = [CMap [(''from'', CString '':80''), (''to'', CList [CMap [(''address'', CString ''a:1'')]])],
     CMap [(''from'', CString '':81''), (''to'', CList [CMap [(''address'', CString ''b:1''), (''weight'', CInt 1)]])]]"

theorem users_of_list_witness: "users_of ''al=p1,bo=q2'' = [(''al'', ''p1''), (''bo'', ''q2'')]"
  using users_of_list [of "[(''al'', ''p1''), (''bo'', ''q2'')]"] by (simp add: word_char_def)

theorem first_address_only_witness:
  "Proxy_Start blocking_gateway (fst (snd (parseMapping blocking_gateway (Some (CList two_mappings)) ()))) () = ([('':80'')], None)"
proof -
  have "parseMapping blocking_gateway (Some (CList two_mappings)) () =
    (None, [('':80'', \<lparr>ps_mode = ''stdhttp'', ps_from = '':80'', ps_weights = [(''a:1'', 100)], ps_redirect = False,
       ps_ReverseProxy = Some 0, ps_WSReverseProxy = None\<rparr>),
      ('':81'', \<lparr>ps_mode = ''stdhttp'', ps_from = '':81'', ps_weights = [(''b:1'', 1)], ps_redirect = False,
       ps_ReverseProxy = Some 0, ps_WSReverseProxy = None\<rparr>)], ())"
    by (simp add: two_mappings_def parseMapping_def conf_list_def conf_string_def make_proxy_def blocking_gateway_def Let_def)
  then show ?thesis
    using first_address_only [where G = blocking_gateway and w = "()" and ?w1.0 = "()" and addr = "'':80''" and addrs = "['':81'']"
        and pool = "fst (snd (parseMapping blocking_gateway (Some (CList two_mappings)) ()))"]
    by (simp add: blocking_gateway_def)
qed

theorem http_not_forwarded_witness:
  "\<exists>ps. fst (snd (parseMapping blocking_gateway (Some (CList [CMap [(''mode'', CString ''http''), (''from'', CString '':80''),
      (''to'', CList [])]])) ())) = [('':80'', ps)] \<and> fst (ProxyHandler blocking_gateway ps ''/'' ()) = []"
proof -
  let ?maps = "[(''mode'', CString ''http''), (''from'', CString '':80''), (''to'', CList [])]"
  obtain ps where "parseMapping blocking_gateway (Some (CList [CMap ?maps])) () = (None, [('':80'', ps)], ())"
    using http_not_forwarded [where maps = ?maps and src = "'':80''" and tos = "[]" and path = "''/''"
        and G = blocking_gateway and w = "()"] by auto
  then show ?thesis
    by (auto simp: parseMapping_def conf_list_def conf_string_def make_proxy_def ProxyHandler_def Let_def)
qed

definition turn_sample :: "unit env" where
  "turn_sample = sample_env\<lparr>kad_SearchValue := (\<lambda>_ w. (([''v''], None), w)),
     lib_TextUnmarshalPeerClients := (\<lambda>_. Inr [Some (peer_client0\<lparr>pc_PeerId := ''Q'', pc_PeerPublicKey := ''public''\<rparr>)])\<rparr>"

theorem turn_public_key_witness:
  "fst (authHandler turn_sample (\<lambda>u r p. u @ r @ p) [''Q'' \<mapsto> ''secret''] True ''Q'' ''@'' ()) = Inr (Some ''Q@public'')"
  using turn_public_key [where E = turn_sample and username = "''Q''" and w = "()" and ?w1.0 = "()" and recvdVal = "''v''"
      and recvdVals = "[]" and pc = "peer_client0\<lparr>pc_PeerId := ''Q'', pc_PeerPublicKey := ''public''\<rparr>" and pcs = "[]"
      and users = "[''Q'' \<mapsto> ''secret'']" and realm = "''@''" and GenerateAuthKey = "\<lambda>u r p. u @ r @ p"]
  by (simp add: turn_sample_def GetValues_def)

end
