(* ===== verification/TurnServer.thy ===== *)
theory TurnServer
  imports Gateways
begin

text \<open>
  The TURN server, \<^verbatim>\<open>turn/server/server.go\<close>, beside its users (theory \<open>Gateways\<close>): starting and closing it, and
  the wrappers of its socket that look at the STUN messages. Sockets, the server and the STUN messages are
  of the library.
\<close>

record turn_params =
  tp_Enable :: bool
  tp_Host :: string
  tp_UdpPort :: string
  tp_TcpPort :: string
  tp_Realm :: string
  tp_Ip :: string
  tp_Credentials :: string

text \<open>A socket or a server is a number; \<open>tu_NewServer\<close> gets the realm, the two sockets and the public address.\<close>

record 'w turn_env =
  tu_params :: turn_params
  tu_ListenPacket :: "string \<Rightarrow> 'w \<Rightarrow> nat res \<times> 'w"
  tu_Listen :: "string \<Rightarrow> 'w \<Rightarrow> nat res \<times> 'w"
  tu_GenerateAuthKey :: "string \<Rightarrow> string \<Rightarrow> string \<Rightarrow> string"
  tu_NewServer :: "string \<Rightarrow> nat \<Rightarrow> nat \<Rightarrow> string \<Rightarrow> 'w \<Rightarrow> nat option \<times> 'w"
  tu_CloseServer :: "nat \<Rightarrow> 'w \<Rightarrow> go_error option \<times> 'w"
  tu_ReadFrom :: "'w \<Rightarrow> (string \<times> string \<times> go_error option) \<times> 'w"
  tu_WriteTo :: "string \<Rightarrow> string \<Rightarrow> 'w \<Rightarrow> (nat \<times> go_error option) \<times> 'w"
  stun_IsMessage :: "string \<Rightarrow> bool"
  stun_Decode :: "string \<Rightarrow> go_error option"
  stun_AddSoftware :: "string \<Rightarrow> string \<Rightarrow> string res"

record turn_server =
  ts_Host :: string
  ts_UdpPort :: string
  ts_TcpPort :: string
  ts_Realm :: string
  ts_PublicIp :: string
  ts_server :: "nat option"
  ts_users :: "string \<rightharpoonup> string"

text \<open>What has been set before a return stays set.\<close>

definition turn_Start :: "'w turn_env \<Rightarrow> turn_server \<Rightarrow> 'w \<Rightarrow> turn_server \<times> 'w" where
  "turn_Start T s w =
     (let P = tu_params T; s1 = s\<lparr>ts_Host := tp_Host P\<rparr> in
      if ts_Host s1 = [] then (s1, w)
      else
        let s2 = s1\<lparr>ts_UdpPort := tp_UdpPort P\<rparr> in
        (case tu_ListenPacket T (ts_Host s2 @ '':'' @ ts_UdpPort s2) w of
           (Inl _, w1) \<Rightarrow> (s2, w1)
         | (Inr packetConn, w1) \<Rightarrow>
             let s3 = s2\<lparr>ts_TcpPort := tp_TcpPort P\<rparr> in
             (case tu_Listen T (ts_Host s3 @ '':'' @ ts_TcpPort s3) w1 of
                (Inl _, w2) \<Rightarrow> (s3, w2)
              | (Inr tcpListener, w2) \<Rightarrow>
                  let s4 = s3\<lparr>ts_Realm := tp_Realm P, ts_PublicIp := tp_Ip P\<rparr> in
                  if ts_PublicIp s4 = [] then (s4, w2)
                  else
                    (case tu_NewServer T (ts_Realm s4) packetConn tcpListener (ts_PublicIp s4) w2 of
                       (server, w3) \<Rightarrow>
                         (s4\<lparr>ts_users := usersMap (tu_GenerateAuthKey T) (ts_Realm s4) (tp_Credentials P),
                             ts_server := server\<rparr>, w3)))))"

definition turn_Close :: "'w turn_env \<Rightarrow> turn_server \<Rightarrow> 'w \<Rightarrow> unit res \<times> 'w" where
  "turn_Close T s w =
     (case ts_server s of
        None \<Rightarrow> (Inl NilDereference, w)
      | Some server \<Rightarrow> (case tu_CloseServer T server w of (_, w1) \<Rightarrow> (Inr (), w1)))"

definition turn_init :: "'w turn_env \<Rightarrow> turn_server \<Rightarrow> 'w \<Rightarrow> turn_server \<times> 'w" where
  "turn_init T s w = (if tp_Enable (tu_params T) then turn_Start T s w else (s, w))"

section \<open>The socket\<close>

text \<open>What is read and written is logged; a message that cannot be decoded for the log is an error of the socket.\<close>

definition stun_log :: "'w turn_env \<Rightarrow> string \<Rightarrow> go_error option" where
  "stun_log T p = (if stun_IsMessage T p then stun_Decode T p else None)"

definition stunLogger_WriteTo :: "'w turn_env \<Rightarrow> string \<Rightarrow> string \<Rightarrow> 'w \<Rightarrow> (nat \<times> go_error option) \<times> 'w" where
  "stunLogger_WriteTo T p addr w =
     (case tu_WriteTo T p addr w of
        ((n, None), w1) \<Rightarrow> ((n, stun_log T p), w1)
      | ((n, Some e), w1) \<Rightarrow> ((n, Some e), w1))"

text \<open>The whole buffer is looked at: \<open>rest\<close> is what it holds behind the packet.\<close>

definition stunLogger_ReadFrom ::
  "'w turn_env \<Rightarrow> string \<Rightarrow> 'w \<Rightarrow> (string \<times> string \<times> go_error option) \<times> 'w" where
  "stunLogger_ReadFrom T rest w =
     (case tu_ReadFrom T w of
        ((p, addr, None), w1) \<Rightarrow> ((p, addr, stun_log T (p @ rest)), w1)
      | ((p, addr, Some e), w1) \<Rightarrow> ((p, addr, Some e), w1))"

definition attributeAdder_WriteTo :: "'w turn_env \<Rightarrow> string \<Rightarrow> string \<Rightarrow> 'w \<Rightarrow> (nat \<times> go_error option) \<times> 'w" where
  "attributeAdder_WriteTo T p addr w =
     (if stun_IsMessage T p then
        (case stun_Decode T p of
           Some e \<Rightarrow> ((0, Some e), w)
         | None \<Rightarrow>
             (case stun_AddSoftware T ''CustomTURNServer'' p of
                Inl e \<Rightarrow> ((0, Some e), w)
              | Inr p1 \<Rightarrow> tu_WriteTo T p1 addr w))
      else tu_WriteTo T p addr w)"

section \<open>Properties\<close>

lemma usersMap_foldl:
  "foldl (\<lambda>m (name, password). m(name \<mapsto> key name password)) m us username =
     (case map_of (rev us) username of None \<Rightarrow> m username | Some password \<Rightarrow> Some (key username password))"
  by (induction us arbitrary: m) (auto simp: map_add_def split: option.split)

text \<open>
  When the server has started with a list of users, it knows exactly these, each with the key of its last
  password, and everybody else is refused when there is no DHT.
\<close>

theorem turn_users:
  assumes "turn_Start T s w = (s', w')" and "ts_server s' = Some server" and "ts_server s = None"
    and "tp_Credentials (tu_params T) = join_with '','' (map (\<lambda>(name, password). name @ ''='' @ password) us)"
    and "list_all (\<lambda>(name, password). name \<noteq> [] \<and> list_all word_char name \<and> password \<noteq> [] \<and> list_all word_char password) us"
  shows "authHandler E (tu_GenerateAuthKey T) (ts_users s') False username realm v =
    (Inr (map_option (tu_GenerateAuthKey T username (tp_Realm (tu_params T))) (map_of (rev us) username)), v)"
proof -
  have "ts_users s' = usersMap (tu_GenerateAuthKey T) (tp_Realm (tu_params T)) (tp_Credentials (tu_params T))"
    using assms(1-3)
    by (auto simp: turn_Start_def Let_def split: if_split_asm prod.split_asm sum.split_asm)
  moreover have "users_of (tp_Credentials (tu_params T)) = us"
    unfolding assms(4) using assms(5) by (rule users_of_list)
  ultimately show ?thesis
    by (simp add: authHandler_def usersMap_def usersMap_foldl map_option_case split: option.split)
qed

text \<open>
  Without a public address the server is not started, but both sockets have been opened and stay open; to
  close the server then is a panic.
\<close>

theorem turn_without_ip:
  assumes "tp_Host (tu_params T) \<noteq> []" and "tp_Ip (tu_params T) = []" and "ts_server s = None"
    and "tu_ListenPacket T (tp_Host (tu_params T) @ '':'' @ tp_UdpPort (tu_params T)) w = (Inr a, w1)"
    and "tu_Listen T (tp_Host (tu_params T) @ '':'' @ tp_TcpPort (tu_params T)) w1 = (Inr b, w2)"
  shows "\<exists>s'. turn_Start T s w = (s', w2) \<and> ts_server s' = None \<and> turn_Close T s' w2 = (Inl NilDereference, w2)"
  using assms by (simp add: turn_Start_def turn_Close_def Let_def)

text \<open>
  A packet of anybody that looks like a STUN message and is none is an error of reading the socket, although
  it has been read; to the reader of the socket it is as if the socket were broken.
\<close>

theorem malformed_packet_breaks:
  assumes "tu_ReadFrom T w = ((p, addr, None), w1)" and "stun_IsMessage T (p @ rest)"
    and "stun_Decode T (p @ rest) = Some e"
  shows "stunLogger_ReadFrom T rest w = ((p, addr, Some e), w1)"
  using assms by (simp add: stunLogger_ReadFrom_def stun_log_def)

section \<open>Witnesses\<close>

definition turn_env_sample :: "string \<Rightarrow> unit turn_env" where
  "turn_env_sample ip = \<lparr>tu_params = \<lparr>tp_Enable = True, tp_Host = ''h'', tp_UdpPort = ''1'', tp_TcpPort = ''2'',
       tp_Realm = ''r'', tp_Ip = ip, tp_Credentials = ''bob=pw''\<rparr>,
     tu_ListenPacket = (\<lambda>_ w. (Inr 0, w)), tu_Listen = (\<lambda>_ w. (Inr 1, w)),
     tu_GenerateAuthKey = (\<lambda>name realm password. name @ realm @ password),
     tu_NewServer = (\<lambda>_ _ _ _ w. (Some 0, w)), tu_CloseServer = (\<lambda>_ w. (None, w)),
     tu_ReadFrom = (\<lambda>w. ((''bad'', ''a'', None), w)), tu_WriteTo = (\<lambda>p _ w. ((length p, None), w)),
     stun_IsMessage = (\<lambda>_. True), stun_Decode = (\<lambda>_. Some (Err ''decode'')), stun_AddSoftware = (\<lambda>_. Inr)\<rparr>"

definition turn_server0 :: turn_server where
  "turn_server0 = \<lparr>ts_Host = [], ts_UdpPort = [], ts_TcpPort = [], ts_Realm = [], ts_PublicIp = [], ts_server = None,
     ts_users = (\<lambda>_. None)\<rparr>"

theorem turn_users_witness:
  "\<exists>s'. turn_Start (turn_env_sample ''i'') turn_server0 () = (s', ()) \<and>
     authHandler sample_env (\<lambda>name realm password. name @ realm @ password) (ts_users s') False ''bob'' ''r'' () =
       (Inr (Some ''bobrpw''), ())"
proof -
  obtain s' where start: "turn_Start (turn_env_sample ''i'') turn_server0 () = (s', ())" "ts_server s' = Some 0"
    by (simp add: turn_Start_def turn_env_sample_def turn_server0_def)
  have "list_all word_char ''bob''" "list_all word_char ''pw''" by (simp_all add: word_char_def)
  with turn_users [OF start, of "[(''bob'', ''pw'')]" "sample_env :: unit env" "''bob''" "''r''" "()"] start show ?thesis
    by (simp add: turn_env_sample_def turn_server0_def)
qed

theorem turn_without_ip_witness:
  "\<exists>s'. turn_Start (turn_env_sample []) turn_server0 () = (s', ()) \<and> turn_Close (turn_env_sample []) s' () = (Inl NilDereference, ())"
  using turn_without_ip [of "turn_env_sample []" turn_server0 "()" 0 "()" 1 "()"]
  by (auto simp: turn_env_sample_def turn_server0_def)

theorem malformed_packet_breaks_witness:
  "stunLogger_ReadFrom (turn_env_sample []) [] () = ((''bad'', ''a'', Some (Err ''decode'')), ())"
  by (rule malformed_packet_breaks) (simp_all add: turn_env_sample_def)

end
