(* ===== verification/SipMessages.thy ===== *)
theory SipMessages
  imports Prelude AssocLists
begin

text \<open>
  Messages of the SIP protocol, \<^verbatim>\<open>webrtc/sip/softphone\<close>: \<^verbatim>\<open>sipmessage.go\<close>, \<^verbatim>\<open>constants.go\<close> and
  \<^verbatim>\<open>utils.go\<close>. The headers are a map; the order in which \<open>range\<close> visits it is an argument.
\<close>

section \<open>Data\<close>

record sip_message =
  sm_method :: string
  sm_address :: string
  sm_subject :: string
  sm_headers :: "(string \<times> string) list"
  sm_Body :: string

definition sip_message0 :: sip_message where
  "sip_message0 = \<lparr>sm_method = [], sm_address = [], sm_subject = [], sm_headers = [], sm_Body = []\<rparr>"

record sip_info =
  si_Username :: string
  si_Password :: string
  si_AuthorizationID :: string
  si_Domain :: string
  si_OutboundProxy :: string
  si_Transport :: string

abbreviation CRLF :: string where "CRLF \<equiv> [CHR 0x0D, CHR 0x0A]"

text \<open>\<open>sm.headers[key]\<close>, which is empty for a missing key, and its assignment.\<close>

definition header :: "string \<Rightarrow> sip_message \<Rightarrow> string" where
  "header key m = (case map_of (sm_headers m) key of None \<Rightarrow> [] | Some v \<Rightarrow> v)"

definition set_header :: "string \<Rightarrow> string \<Rightarrow> sip_message \<Rightarrow> sip_message" where
  "set_header key v m = m\<lparr>sm_headers := AList.update key v (sm_headers m)\<rparr>"

definition responseCodes :: "(nat \<times> string) list" where
  "responseCodes =
    [(100, ''Trying''), (180, ''Ringing''), (181, ''Call is Being Forwarded''), (182, ''Queued''),
     (183, ''Session Progress''), (199, ''Early Dialog Terminated''), (200, ''OK''), (202, ''Accepted''),
     (204, ''No Notification''), (300, ''Multiple Choices''), (301, ''Moved Permanently''),
     (302, ''Moved Temporarily''), (305, ''Use Proxy''), (380, ''Alternative Service''), (400, ''Bad Request''),
     (401, ''Unauthorized''), (402, ''Payment Required''), (403, ''Forbidden''), (404, ''Not Found''),
     (405, ''Method Not Allowed''), (406, ''Not Acceptable''), (407, ''Proxy Authentication Required''),
     (408, ''Request Timeout''), (409, ''Conflict''), (410, ''Gone''), (411, ''Length Required''),
     (412, ''Conditional Request Failed''), (413, ''Request Entity Too Large''), (414, ''Request-URI Too Long''),
     (415, ''Unsupported Media Type''), (416, ''Unsupported URI Scheme''), (417, ''Unknown Resource-Priority''),
     (420, ''Bad Extension''), (421, ''Extension Required''), (422, ''Session Interval Too Small''),
     (423, ''Interval Too Brief''), (424, ''Bad Location Information''), (428, ''Use Identity Header''),
     (429, ''Provide Referrer Identity''), (433, ''Anonymity Disallowed''), (436, ''Bad Identity-Info''),
     (437, ''Unsupported Certificate''), (438, ''Invalid Identity Header''),
     (439, ''First Hop Lacks Outbound Support''), (440, ''Max-Breadth Exceeded''), (469, ''Bad Info Package''),
     (470, ''Consent Needed''), (480, ''Temporarily Unavailable''), (481, ''Call/Transaction Does Not Exist''),
     (482, ''Loop Detected''), (483, ''Too Many Hops''), (484, ''Address Incomplete''), (485, ''Ambiguous''),
     (486, ''Busy Here''), (487, ''Request Terminated''), (488, ''Not Acceptable Here''), (489, ''Bad Event''),
     (491, ''Request Pending''), (493, ''Undecipherable''), (494, ''Security Agreement Required''),
     (500, ''Server Internal Error''), (501, ''Not Implemented''), (502, ''Bad Gateway''),
     (503, ''Service Unavailable''), (504, ''Server Time-out''), (505, ''Version Not Supported''),
     (513, ''Message Too Large''), (580, ''Precondition Failure''), (600, ''Busy Everywhere''), (603, ''Decline''),
     (604, ''Does Not Exist Anywhere''), (606, ''Not Acceptable''), (607, ''Unwanted'')]"

section \<open>Writing and reading\<close>

text \<open>A header line, \<open>key: value\<close>, and the text of a message whose headers are visited in the order \<open>keys\<close>.\<close>

definition header_line :: "string \<Rightarrow> string \<Rightarrow> string" where
  "header_line key v = key @ '': '' @ v"

definition ToString :: "string list \<Rightarrow> sip_message \<Rightarrow> string" where
  "ToString keys m =
     join_with CRLF
       ([sm_method m @ '' sip:'' @ sm_address m @ '' SIP/2.0''] @
        map (\<lambda>k. header_line k (header k m)) keys @
        [header_line ''Content-Length'' (show_nat (length (sm_Body m))), header_line ''Max-Forwards'' ''70'',
         [], sm_Body m])"

text \<open>A line without a colon and a space has no second token; what follows another one is left out.\<close>

fun read_headers :: "string list \<Rightarrow> (string \<times> string) list \<Rightarrow> (string \<times> string) list res" where
  "read_headers [] hs = Inr hs"
| "read_headers (line # lines) hs =
     (case split_str '': '' line of
        k # v # _ \<Rightarrow> read_headers lines (AList.update k v hs)
      | _ \<Rightarrow> Inl (Panic ''index out of range''))"

definition FromString :: "string \<Rightarrow> sip_message \<Rightarrow> sip_message res" where
  "FromString s m =
     (let parts = split_str (CRLF @ CRLF) s;
          lines = split_str CRLF (hd parts) in
      case read_headers (tl lines) [] of
        Inl e \<Rightarrow> Inl e
      | Inr hs \<Rightarrow> Inr (m\<lparr>sm_Body := join_with (CRLF @ CRLF) (tl parts), sm_subject := hd lines, sm_headers := hs\<rparr>))"

text \<open>The text of a response to a message; \<open>keys\<close> is the order of the headers that are given.\<close>

definition Response :: "string \<Rightarrow> string list \<Rightarrow> nat \<Rightarrow> (string \<times> string) list \<Rightarrow> string \<Rightarrow> sip_message \<Rightarrow> string" where
  "Response toTag keys statusCode headers body m =
     join_with CRLF
       ([''SIP/2.0 '' @ show_nat statusCode @ '' '' @
           (case map_of responseCodes statusCode of None \<Rightarrow> [] | Some t \<Rightarrow> t)] @
        map (\<lambda>k. header_line k (header k m)) [''Via'', ''From'', ''Call-ID'', ''CSeq''] @
        map (\<lambda>k. header_line k (the (map_of headers k))) keys @
        [header_line ''Supported'' ''outbound'', header_line ''To'' (header ''To'' m @ '';tag='' @ toTag),
         header_line ''Content-Length'' (show_nat (length body)), [], body])"

section \<open>Expressions\<close>

text \<open>
  The group of \<open>, nonce="(.+?)"\<close>: at least one byte, then up to the next quotation mark, all on one line,
  at the first place where this is found.
\<close>

fun until_quote :: "string \<Rightarrow> string option" where
  "until_quote [] = None"
| "until_quote (c # cs) =
     (if c = CHR 0x22 then Some [] else if c = CHR 0x0A then None else map_option ((#) c) (until_quote cs))"

abbreviation nonce_mark :: string where "nonce_mark \<equiv> '', nonce='' @ [CHR 0x22]"

definition quoted :: "string \<Rightarrow> string option" where
  "quoted s = (case s of [] \<Rightarrow> None | c # cs \<Rightarrow> if c = CHR 0x0A then None else map_option ((#) c) (until_quote cs))"

fun find_nonce :: "string \<Rightarrow> string option" where
  "find_nonce [] = None"
| "find_nonce (c # cs) =
     (if has_prefix (c # cs) nonce_mark then
        (case quoted (drop (length nonce_mark) (c # cs)) of None \<Rightarrow> find_nonce cs | Some n \<Rightarrow> Some n)
      else find_nonce cs)"

text \<open>The replacement of \<open>;branch=z9hG4bK.+?$\<close>: the rest of the text has at least one byte and no line break.\<close>

abbreviation branch_mark :: string where "branch_mark \<equiv> '';branch=z9hG4bK''"

fun replace_branch :: "string \<Rightarrow> string \<Rightarrow> string" where
  "replace_branch new [] = []"
| "replace_branch new (c # cs) =
     (if has_prefix (c # cs) branch_mark \<and> drop (length branch_mark) (c # cs) \<noteq> [] \<and>
         CHR 0x0A \<notin> set (drop (length branch_mark) (c # cs)) then '';branch='' @ new
      else c # replace_branch new cs)"

definition newViaBranch :: "string \<Rightarrow> sip_message \<Rightarrow> sip_message" where
  "newViaBranch branch m =
     (case map_of (sm_headers m) ''Via'' of
        None \<Rightarrow> m
      | Some v \<Rightarrow> set_header ''Via'' (replace_branch branch v) m)"

section \<open>Authorization\<close>

text \<open>\<open>md5 x\<close> is the hexadecimal text of the digest of \<open>x\<close>.\<close>

abbreviation cnonce :: string where "cnonce \<equiv> ''0e6758e1adfccffbd0ad9ffdde3ef655''"

definition generateResponse ::
  "(string \<Rightarrow> string) \<Rightarrow> string \<Rightarrow> string \<Rightarrow> string \<Rightarrow> string \<Rightarrow> string \<Rightarrow> string \<Rightarrow> string" where
  "generateResponse md5 username password realm meth uri nonce =
     (let ha1 = md5 (username @ '':'' @ realm @ '':'' @ password);
          ha2 = md5 (meth @ '':'' @ uri) in
      md5 (ha1 @ '':'' @ nonce @ '':00000001:'' @ cnonce @ '':auth:'' @ ha2))"

abbreviation quote :: "string \<Rightarrow> string" where "quote s \<equiv> [CHR 0x22] @ s @ [CHR 0x22]"

definition generateAuthorization :: "(string \<Rightarrow> string) \<Rightarrow> sip_info \<Rightarrow> string \<Rightarrow> string \<Rightarrow> string" where
  "generateAuthorization md5 info meth nonce =
     ''Digest username='' @ quote (si_Username info) @ '',realm='' @ quote (si_Domain info) @ '',nonce='' @ quote nonce @
     '',uri='' @ quote (''sip:'' @ si_Domain info) @ '',response='' @
     quote (generateResponse md5 (si_Username info) (si_Password info) (si_Domain info) meth (''sip:'' @ si_Domain info) nonce) @
     '',algorithm=MD5,cnonce='' @ quote cnonce @ '',qop=auth,nc=00000001''"

definition generateProxyAuthorization :: "(string \<Rightarrow> string) \<Rightarrow> sip_info \<Rightarrow> string \<Rightarrow> string \<Rightarrow> string \<Rightarrow> string" where
  "generateProxyAuthorization md5 info meth targetUser nonce =
     ''Digest username='' @ quote (si_AuthorizationID info) @ '', realm='' @ quote (si_Domain info) @ '', nonce='' @ quote nonce @
     '', uri='' @ quote (''sip:'' @ targetUser @ ''@'' @ si_Domain info) @ '', response='' @
     quote (generateResponse md5 (si_AuthorizationID info) (si_Password info) (si_Domain info) meth
       (''sip:'' @ targetUser @ ''@'' @ si_Domain info) nonce) @
     '',algorithm=MD5,cnonce='' @ quote cnonce @ '',qop=auth,nc=00000001''"

section \<open>Properties\<close>

lemma split_skip_nonempty [simp]: "split_skip k sep s \<noteq> []"
  by (induction k sep s rule: split_skip.induct) (auto split: list.splits)

lemma split_str_append: "c \<notin> set w \<Longrightarrow> split_str (c # cs) (w @ (c # cs) @ s) = w # split_str (c # cs) s"
proof (induction w)
  case Nil
  have "has_prefix (c # cs @ s) (c # cs)" using has_prefix_append [of "c # cs" s] by simp
  then show ?case by (simp add: split_str_def split_skip_drop)
qed (auto simp: split_str_def)

lemma split_str_none: "\<not> contains s sep \<Longrightarrow> split_str sep s = [s]"
  by (simp add: split_str_def split_skip_none)

lemma contains_set: "c \<notin> set s \<Longrightarrow> \<not> contains s (c # cs)"
  by (auto simp: contains_iff)

lemma join_with_Cons: "ws \<noteq> [] \<Longrightarrow> join_with sep (w # ws) = w @ sep @ join_with sep ws"
  by (cases ws) auto

lemma join_split_skip: "sep \<noteq> [] \<Longrightarrow> join_with sep (split_skip k sep s) = drop k s"
proof (induction k sep s rule: split_skip.induct)
  case (3 sep c cs)
  show ?case
  proof (cases "has_prefix (c # cs) sep")
    case True
    then obtain t where t: "c # cs = sep @ t" by (auto simp: has_prefix_iff)
    from arg_cong [OF t, of "drop (length sep)"] 3(3) have "drop (length sep - 1) cs = t"
      by (cases sep) auto
    with 3(1,3) True have "join_with sep (split_skip (length sep - 1) sep cs) = t" by simp
    moreover have "split_skip 0 sep (c # cs) = [] # split_skip (length sep - 1) sep cs" using True by simp
    ultimately show ?thesis by (simp only: join_with_Cons split_skip_nonempty drop_0 append_Nil t not_False_eq_True)
  next
    case False
    obtain w ws where "split_skip 0 sep cs = w # ws" by (cases "split_skip 0 sep cs") auto
    with 3 False show ?thesis by (cases ws) auto
  qed
qed auto

lemma join_split_str: "sep \<noteq> [] \<Longrightarrow> join_with sep (split_str sep s) = s"
  by (simp add: split_str_def join_split_skip)

text \<open>A text of lines without carriage returns, then an empty line and a body.\<close>

lemma split_lines: "ls \<noteq> [] \<Longrightarrow> list_all (\<lambda>l. CHR 0x0D \<notin> set l) ls \<Longrightarrow> split_str CRLF (join_with CRLF ls) = ls"
proof (induction ls)
  case (Cons l ls)
  then show ?case
    by (cases ls) (simp_all add: split_str_none contains_set split_str_append [of _ _ "[CHR 0x0A]", simplified])
qed simp

lemma split_block_step:
  assumes "CHR 0x0D \<notin> set l" and "t \<noteq> []" and "hd t \<noteq> CHR 0x0D" and "split_str (CRLF @ CRLF) t = w # ws"
  shows "split_str (CRLF @ CRLF) (l @ CRLF @ t) = (l @ CRLF @ w) # ws"
  using assms(1)
proof (induction l)
  case Nil
  from assms(2,3) obtain c cs where "t = c # cs" "c \<noteq> CHR 0x0D" by (cases t) auto
  with assms(4) show ?case by (simp add: split_str_def)
next
  case (Cons a l)
  then have "a \<noteq> CHR 0x0D" by auto
  then have "\<not> has_prefix ((a # l) @ CRLF @ t) (CRLF @ CRLF)" by simp
  with Cons show ?case by (simp add: split_str_def)
qed

lemma split_block:
  assumes "ls \<noteq> []" and "list_all (\<lambda>l. l \<noteq> [] \<and> CHR 0x0D \<notin> set l) ls"
  shows "split_str (CRLF @ CRLF) (join_with CRLF (ls @ [[], body])) = join_with CRLF ls # split_str (CRLF @ CRLF) body"
  using assms
proof (induction ls)
  case (Cons l ls)
  show ?case
  proof (cases ls)
    case Nil
    with Cons.prems show ?thesis
      using split_str_append [of "CHR 0x0D" l "CHR 0x0A # CRLF" body] by simp
  next
    case (Cons l' ls')
    let ?t = "join_with CRLF (ls @ [[], body])"
    from Cons have "?t = l' @ CRLF @ join_with CRLF (ls' @ [[], body])" by (simp add: join_with_Cons)
    moreover from Cons Cons.prems obtain c cs where "l' = c # cs" "c \<noteq> CHR 0x0D" by (cases l') auto
    ultimately have "?t \<noteq> []" "hd ?t \<noteq> CHR 0x0D" by simp_all
    from split_block_step [OF _ this Cons.IH, of l] Cons Cons.prems show ?thesis
      by (simp add: join_with_Cons)
  qed
qed simp

text \<open>What can be written as a header line and read back.\<close>

definition header_ok :: "string \<times> string \<Rightarrow> bool" where
  "header_ok kv \<longleftrightarrow>
     CHR 0x0D \<notin> set (fst kv) \<and> CHR '':'' \<notin> set (fst kv) \<and> CHR 0x0D \<notin> set (snd kv) \<and> \<not> contains (snd kv) '': ''"

lemma split_header_line: "CHR '':'' \<notin> set k \<Longrightarrow> \<not> contains v '': '' \<Longrightarrow> split_str '': '' (header_line k v) = [k, v]"
  using split_str_append [of "CHR '':''" k "'' ''" v] by (simp add: header_line_def split_str_none)

lemma read_headers_lines:
  "list_all header_ok kvs \<Longrightarrow>
   read_headers (map (\<lambda>(k, v). header_line k v) kvs) hs = Inr (fold (\<lambda>(k, v). AList.update k v) kvs hs)"
  by (induction kvs arbitrary: hs) (auto simp: header_ok_def split_header_line)

lemma map_of_fold_update:
  "distinct (map fst kvs) \<Longrightarrow>
   map_of (fold (\<lambda>(k, v). AList.update k v) kvs hs) j = (case map_of kvs j of None \<Rightarrow> map_of hs j | Some v \<Rightarrow> Some v)"
proof (induction kvs arbitrary: hs)
  case (Cons kv kvs)
  then have "map_of kvs (fst kv) = None" by (auto simp: map_of_eq_None_iff)
  with Cons show ?case by (cases kv) (auto simp: update_conv' split: option.splits)
qed simp

text \<open>A text that consists of a subject, header lines and a body.\<close>

lemma FromString_lines:
  assumes "CHR 0x0D \<notin> set subject" and "subject \<noteq> []" and "list_all header_ok kvs" and "distinct (map fst kvs)"
  shows "\<exists>m'. FromString (join_with CRLF ([subject] @ map (\<lambda>(k, v). header_line k v) kvs @ [[], body])) m = Inr m' \<and>
    sm_Body m' = body \<and> sm_subject m' = subject \<and> (\<forall>k. header k m' = (case map_of kvs k of None \<Rightarrow> [] | Some v \<Rightarrow> v))"
proof -
  let ?ls = "subject # map (\<lambda>(k, v). header_line k v) kvs"
  have ls: "list_all (\<lambda>l. l \<noteq> [] \<and> CHR 0x0D \<notin> set l) ?ls"
    using assms by (auto simp: list_all_iff header_ok_def header_line_def)
  then have "list_all (\<lambda>l. CHR 0x0D \<notin> set l) ?ls" by (simp add: list_all_iff)
  with split_lines [of ?ls] have lines: "split_str CRLF (join_with CRLF ?ls) = ?ls" by blast
  have "FromString (join_with CRLF ([subject] @ map (\<lambda>(k, v). header_line k v) kvs @ [[], body])) m =
      Inr (m\<lparr>sm_Body := body, sm_subject := subject, sm_headers := fold (\<lambda>(k, v). AList.update k v) kvs []\<rparr>)"
    using split_block [of ?ls body, OF _ ls] lines read_headers_lines [OF assms(3), of "[]"]
      join_split_str [of "CRLF @ CRLF" body]
    by (simp add: FromString_def)
  then show ?thesis using map_of_fold_update [OF assms(4), of "[]"] by (auto simp: header_def split: option.splits)
qed

text \<open>A message that can be written: its headers are not the two that \<open>ToString\<close> adds.\<close>

definition message_ok :: "sip_message \<Rightarrow> bool" where
  "message_ok m \<longleftrightarrow>
     CHR 0x0D \<notin> set (sm_method m) \<and> CHR 0x0D \<notin> set (sm_address m) \<and> distinct (map fst (sm_headers m)) \<and>
     list_all header_ok (sm_headers m) \<and>
     ''Content-Length'' \<notin> set (map fst (sm_headers m)) \<and> ''Max-Forwards'' \<notin> set (map fst (sm_headers m))"

lemma show_nat_ok [simp]: "CHR 0x0D \<notin> set (show_nat n)" "\<not> contains (show_nat n) '': ''"
  using set_show_nat [of n] by (auto simp: digit_chars_def contains_iff)

text \<open>
  C17: a message that has been written is read back with its body, its request line and its headers, in
  whichever order these were visited, and with the two headers that are added.
\<close>

theorem message_roundtrip:
  assumes "message_ok m" and "distinct keys" and "set keys = set (map fst (sm_headers m))"
  shows "\<exists>m'. FromString (ToString keys m) sip_message0 = Inr m' \<and> sm_Body m' = sm_Body m \<and>
    sm_subject m' = sm_method m @ '' sip:'' @ sm_address m @ '' SIP/2.0'' \<and>
    (\<forall>k. header k m' = (if k = ''Content-Length'' then show_nat (length (sm_Body m))
       else if k = ''Max-Forwards'' then ''70'' else header k m))"
proof -
  let ?f = "map (\<lambda>k. (k, header k m)) keys"
  let ?kvs = "?f @ [(''Content-Length'', show_nat (length (sm_Body m))), (''Max-Forwards'', ''70'')]"
  let ?subject = "sm_method m @ '' sip:'' @ sm_address m @ '' SIP/2.0''"
  have "header_ok (k, header k m)" if "k \<in> set keys" for k
  proof -
    from that assms(3) obtain v where "(k, v) \<in> set (sm_headers m)" by force
    with assms(1) show ?thesis by (auto simp: message_ok_def list_all_iff header_def)
  qed
  then have "list_all header_ok ?kvs" by (auto simp: list_all_iff header_ok_def)
  moreover have "distinct (map fst ?kvs)" using assms by (simp add: message_ok_def comp_def)
  moreover have "CHR 0x0D \<notin> set ?subject" using assms(1) by (simp add: message_ok_def)
  ultimately obtain m' where m': "FromString (join_with CRLF ([?subject] @ map (\<lambda>(k, v). header_line k v) ?kvs @ [[], sm_Body m]))
      sip_message0 = Inr m'" "sm_Body m' = sm_Body m" "sm_subject m' = ?subject"
      "\<And>k. header k m' = (case map_of ?kvs k of None \<Rightarrow> [] | Some v \<Rightarrow> v)"
    using FromString_lines [of ?subject ?kvs "sm_Body m" sip_message0] by auto
  moreover have "ToString keys m = join_with CRLF ([?subject] @ map (\<lambda>(k, v). header_line k v) ?kvs @ [[], sm_Body m])"
    by (simp add: ToString_def comp_def)
  moreover have "map_of ?f k = (if k \<in> set keys then Some (header k m) else None)" for k
    by (induction keys) auto
  moreover have "header k m = []" if "k \<notin> set keys" for k
  proof -
    from that assms(3) have "map_of (sm_headers m) k = None" by (simp add: map_of_eq_None_iff)
    then show ?thesis by (simp add: header_def)
  qed
  ultimately show ?thesis using assms by (auto simp: message_ok_def map_add_def split: option.splits)
qed

end
