(* ===== verification/Softphone.thy ===== *)
theory Softphone
  imports SipMessages
begin

text \<open>
  The softphone that speaks SIP over a websocket, \<^verbatim>\<open>webrtc/sip/softphone\<close>: \<^verbatim>\<open>softphone.go\<close>,
  \<^verbatim>\<open>register.go\<close>, \<^verbatim>\<open>invite.go\<close>, \<^verbatim>\<open>inboundcall.go\<close>, and its use in \<^verbatim>\<open>webrtc/sip/default.go\<close>. Each message
  that arrives starts a goroutine for each listener; they run in any order. A listener is the closure that
  the code registers, with the variables that it captures; messages that closures change are numbers in a
  table. The iteration over the map of listeners while goroutines change it is not modelled.
\<close>

section \<open>State\<close>

text \<open>The message in the header \<open>P-rc\<close>, as XML.\<close>

record rc_msg =
  rm_SID :: string
  rm_Req :: string
  rm_From :: string
  rm_To :: string

text \<open>The library; the identifiers and the orders of maps are taken in turn.\<close>

record sip_library =
  sl_uuid :: "nat \<Rightarrow> string"
  sl_Range :: "nat \<Rightarrow> string list \<Rightarrow> string list"
  sl_md5 :: "string \<Rightarrow> string"
  sl_Msg :: "string \<Rightarrow> rc_msg res"
  sl_Dial :: "string \<Rightarrow> string \<Rightarrow> unit res"

datatype listener =
  RegisterChallenge nat
| RegisterAnswer
| InviteChallenge nat string
| InviteAnswer
| InviteReceiver
| OkReceiver nat

text \<open>
  \<open>sp_sent\<close> is what has been written to the socket, a request with its message; \<open>sp_invites\<close> and \<open>sp_oks\<close> are
  what has been handed to the handlers of the application, \<open>sp_goroutines\<close> those that have not run yet.
\<close>

record softphone =
  sp_sipInfo :: sip_info
  sp_fakeDomain :: string
  sp_FakeEmail :: string
  sp_fromTag :: string
  sp_toTag :: string
  sp_callID :: string
  sp_cseq :: int
  sp_messageListeners :: "(string \<times> listener) list"
  sp_inviteKey :: string
  sp_messages :: "sip_message list"
  sp_registered :: bool
  sp_connected :: bool
  sp_sent :: "(sip_message option \<times> string) list"
  sp_invites :: "sip_message list"
  sp_oks :: "(nat \<times> string) list"
  sp_goroutines :: "(string \<times> listener \<times> string) list"
  sp_ticks :: nat

abbreviation FatalExit :: go_error where "FatalExit \<equiv> Panic ''log.Fatal''"

definition uuid_New :: "sip_library \<Rightarrow> softphone \<Rightarrow> string \<times> softphone" where
  "uuid_New L s = (sl_uuid L (sp_ticks s), s\<lparr>sp_ticks := Suc (sp_ticks s)\<rparr>)"

definition branch :: "sip_library \<Rightarrow> softphone \<Rightarrow> string \<times> softphone" where
  "branch L s = (case uuid_New L s of (u, s1) \<Rightarrow> (''z9hG4bK'' @ u, s1))"

definition addMessageListener :: "sip_library \<Rightarrow> listener \<Rightarrow> softphone \<Rightarrow> string \<times> softphone" where
  "addMessageListener L l s =
     (case uuid_New L s of
        (key, s1) \<Rightarrow> (key, s1\<lparr>sp_messageListeners := AList.update key l (sp_messageListeners s1)\<rparr>))"

definition removeMessageListener :: "string \<Rightarrow> softphone \<Rightarrow> softphone" where
  "removeMessageListener key s = s\<lparr>sp_messageListeners := AList.delete key (sp_messageListeners s)\<rparr>"

section \<open>Requests\<close>

definition addCseq :: "sip_message \<Rightarrow> softphone \<Rightarrow> sip_message \<times> softphone" where
  "addCseq m s =
     (set_header ''CSeq'' (show_int (sp_cseq s) @ '' '' @ sm_method m) m, s\<lparr>sp_cseq := sp_cseq s + 1\<rparr>)"

definition addCallID :: "softphone \<Rightarrow> sip_message \<Rightarrow> sip_message" where
  "addCallID s m = set_header ''Call-ID'' (sp_callID s) m"

definition addUserAgent :: "sip_message \<Rightarrow> sip_message" where
  "addUserAgent m = set_header ''User-Agent'' ''Pion WebRTC SIP Client'' m"

text \<open>\<open>addCseq(softphone).addCallID(*softphone).addUserAgent()\<close>.\<close>

definition complete :: "sip_message \<Rightarrow> softphone \<Rightarrow> sip_message \<times> softphone" where
  "complete m s = (case addCseq m s of (m1, s1) \<Rightarrow> (addUserAgent (addCallID s1 m1), s1))"

text \<open>Writing to the socket; an error ends the process.\<close>

definition sip_response :: "sip_message option \<Rightarrow> string \<Rightarrow> softphone \<Rightarrow> unit res \<times> softphone" where
  "sip_response m text s =
     (if sp_connected s then (Inr (), s\<lparr>sp_sent := sp_sent s @ [(m, text)]\<rparr>) else (Inl FatalExit, s))"

definition sip_request :: "sip_library \<Rightarrow> sip_message \<Rightarrow> listener option \<Rightarrow> softphone \<Rightarrow> unit res \<times> softphone" where
  "sip_request L m responseHandler s =
     (let s1 = (case responseHandler of None \<Rightarrow> s | Some l \<Rightarrow> snd (addMessageListener L l s));
          keys = sl_Range L (sp_ticks s1) (map fst (sm_headers m)) in
      sip_response (Some m) (ToString keys m) (s1\<lparr>sp_ticks := Suc (sp_ticks s1)\<rparr>))"

text \<open>A request whose message is shared with its listener: the number of the message in the table.\<close>

definition shared_request :: "sip_library \<Rightarrow> sip_message \<Rightarrow> (nat \<Rightarrow> listener) \<Rightarrow> softphone \<Rightarrow> unit res \<times> softphone" where
  "shared_request L m l s =
     sip_request L m (Some (l (length (sp_messages s)))) (s\<lparr>sp_messages := sp_messages s @ [m]\<rparr>)"

definition from_header :: "softphone \<Rightarrow> string" where
  "from_header s = ''<sip:'' @ si_Username (sp_sipInfo s) @ ''@'' @ si_Domain (sp_sipInfo s) @ ''>;tag='' @ sp_fromTag s"

definition register_message :: "sip_library \<Rightarrow> softphone \<Rightarrow> sip_message \<times> softphone" where
  "register_message L s =
     (case branch L s of
        (b, s1) \<Rightarrow>
          complete \<lparr>sm_method = ''REGISTER'', sm_address = si_Domain (sp_sipInfo s), sm_subject = [],
            sm_headers =
              [(''Contact'', ''<sip:'' @ sp_FakeEmail s @ '';transport=ws>;expires=200''),
               (''Via'', ''SIP/2.0/WS '' @ sp_fakeDomain s @ '';branch='' @ b),
               (''From'', from_header s),
               (''To'', ''<sip:'' @ si_Username (sp_sipInfo s) @ ''@'' @ si_Domain (sp_sipInfo s) @ ''>''),
               (''Organization'', ''ACE MEDIAS TOOLS''), (''Supported'', ''path,ice'')],
            sm_Body = []\<rparr> s1)"

definition register :: "sip_library \<Rightarrow> softphone \<Rightarrow> unit res \<times> softphone" where
  "register L s =
     (case sl_Dial L (si_Transport (sp_sipInfo s)) (si_OutboundProxy (sp_sipInfo s)) of
        Inl _ \<Rightarrow> (Inl FatalExit, s)
      | Inr _ \<Rightarrow>
          (case register_message L (s\<lparr>sp_connected := True\<rparr>) of
             (m, s1) \<Rightarrow> shared_request L m RegisterChallenge s1))"

text \<open>
  \<open>NewSoftPhone\<close> up to the point where it waits for the registration; \<open>r\<close> is the random first number.
\<close>

definition NewSoftPhone :: "sip_library \<Rightarrow> sip_info \<Rightarrow> int \<Rightarrow> unit res \<times> softphone" where
  "NewSoftPhone L info r =
     (let fakeDomain = sl_uuid L 0 @ ''.invalid'' in
      register L \<lparr>sp_sipInfo = info, sp_fakeDomain = fakeDomain, sp_FakeEmail = sl_uuid L 1 @ ''@'' @ fakeDomain,
        sp_fromTag = sl_uuid L 2, sp_toTag = sl_uuid L 3, sp_callID = sl_uuid L 4, sp_cseq = r + 1,
        sp_messageListeners = [], sp_inviteKey = [], sp_messages = [], sp_registered = False, sp_connected = False,
        sp_sent = [], sp_invites = [], sp_oks = [], sp_goroutines = [], sp_ticks = 5\<rparr>)"

definition Invite :: "sip_library \<Rightarrow> string \<Rightarrow> string \<Rightarrow> softphone \<Rightarrow> unit res \<times> softphone" where
  "Invite L extension offer s =
     (case branch L s of
        (b, s1) \<Rightarrow>
          (case complete \<lparr>sm_method = ''INVITE'', sm_address = si_Domain (sp_sipInfo s), sm_subject = [],
              sm_headers =
                [(''Contact'', ''<sip:'' @ sp_FakeEmail s @ '';transport=ws>;expires=200''),
                 (''To'', ''<sip:'' @ extension @ ''@'' @ si_Domain (sp_sipInfo s) @ ''>''),
                 (''Via'', ''SIP/2.0/WS '' @ sp_fakeDomain s @ '';branch='' @ b), (''From'', from_header s),
                 (''Supported'', ''replaces, outbound,ice'')],
              sm_Body = []\<rparr> s1 of
             (m, s2) \<Rightarrow>
               shared_request L ((set_header ''Content-Type'' ''application/sdp'' m)\<lparr>sm_Body := offer\<rparr>)
                 (\<lambda>i. InviteChallenge i extension) s2))"

section \<open>Listeners\<close>

text \<open>
  The answer to a challenge: the nonce is taken from the header \<open>field\<close>, the shared message is changed and
  sent again, with another listener, and this one is removed.
\<close>

definition newViaBranch_of :: "sip_library \<Rightarrow> sip_message \<Rightarrow> softphone \<Rightarrow> sip_message \<times> softphone" where
  "newViaBranch_of L m s =
     (case map_of (sm_headers m) ''Via'' of
        None \<Rightarrow> (m, s)
      | Some _ \<Rightarrow> (case branch L s of (b, s1) \<Rightarrow> (newViaBranch b m, s1)))"

definition answer_challenge ::
  "sip_library \<Rightarrow> string \<Rightarrow> (string \<Rightarrow> sip_message \<Rightarrow> sip_message) \<Rightarrow> nat \<Rightarrow> listener \<Rightarrow> string \<Rightarrow> string \<Rightarrow> softphone \<Rightarrow>
   unit res \<times> softphone" where
  "answer_challenge L field authorize i l key message s =
     (case FromString message sip_message0 of
        Inl e \<Rightarrow> (Inl e, s)
      | Inr p \<Rightarrow>
          (case find_nonce (header field p) of
             None \<Rightarrow> (Inl (Panic ''index out of range''), s)
           | Some nonce \<Rightarrow>
               (case addCseq (authorize nonce (sp_messages s ! i)) s of
                  (m1, s1) \<Rightarrow>
                    (case newViaBranch_of L m1 s1 of
                       (m2, s2) \<Rightarrow>
                         and_then (sip_request L m2 (Some l) (s2\<lparr>sp_messages := (sp_messages s2)[i := m2]\<rparr>))
                           (\<lambda>_ s3. (Inr (), removeMessageListener key s3))))))"

definition agent_message :: "sip_library \<Rightarrow> rc_msg \<Rightarrow> softphone \<Rightarrow> sip_message \<times> softphone" where
  "agent_message L msg s =
     (case branch L s of
        (b, s1) \<Rightarrow>
          (case complete \<lparr>sm_method = ''MESSAGE'', sm_address = rm_From msg, sm_subject = [],
              sm_headers =
                [(''Via'', ''SIP/2.0/WSS '' @ sp_fakeDomain s @ '';branch='' @ b), (''From'', from_header s),
                 (''To'', ''<sip:'' @ rm_From msg @ ''>''), (''Content-Type'', ''x-rc/agent'')],
              sm_Body = []\<rparr> s1 of
             (m, s2) \<Rightarrow>
               (m\<lparr>sm_Body := ''<Msg><Hdr SID='' @ quote (rm_SID msg) @ '' Req='' @ quote (rm_Req msg) @ '' From='' @ quote (rm_To msg) @
                   '' To='' @ quote (rm_From msg) @ '' Cmd='' @ quote ''17'' @ ''/><Bdy Cln='' @
                   quote (si_AuthorizationID (sp_sipInfo s)) @ ''/></Msg>''\<rparr>, s2)))"

definition receive_invite :: "sip_library \<Rightarrow> string \<Rightarrow> softphone \<Rightarrow> unit res \<times> softphone" where
  "receive_invite L message s =
     (if has_prefix message ''INVITE sip:'' then
        (case FromString message sip_message0 of
           Inl e \<Rightarrow> (Inl e, s)
         | Inr inviteMessage \<Rightarrow>
             and_then (sip_response None
                 (Response (sp_toTag s) [''Contact''] 180 [(''Contact'', ''<sip:'' @ sp_fakeDomain s @ '';transport=ws>'')] []
                   inviteMessage) s)
               (\<lambda>_ s1.
                  case sl_Msg L (header ''P-rc'' inviteMessage) of
                    Inl _ \<Rightarrow> (Inl (Panic ''log.Panic''), s1)
                  | Inr msg \<Rightarrow>
                      (case agent_message L msg s1 of
                         (m, s2) \<Rightarrow>
                           and_then (sip_request L m None s2)
                             (\<lambda>_ s3. (Inr (), s3\<lparr>sp_invites := sp_invites s3 @ [inviteMessage]\<rparr>)))))
      else (Inr (), s))"

fun run_listener :: "sip_library \<Rightarrow> string \<Rightarrow> listener \<Rightarrow> string \<Rightarrow> softphone \<Rightarrow> unit res \<times> softphone" where
  "run_listener L key (RegisterChallenge i) message s =
     answer_challenge L ''WWW-Authenticate''
       (\<lambda>nonce. set_header ''Authorization'' (generateAuthorization (sl_md5 L) (sp_sipInfo s) ''REGISTER'' nonce))
       i RegisterAnswer key message s"
| "run_listener L key RegisterAnswer message s = (Inr (), s\<lparr>sp_registered := True\<rparr>)"
| "run_listener L key (InviteChallenge i extension) message s =
     answer_challenge L ''Proxy-Authenticate''
       (\<lambda>nonce. set_header ''Proxy-Authorization''
          (generateProxyAuthorization (sl_md5 L) (sp_sipInfo s) ''INVITE'' extension nonce))
       i InviteAnswer key message s"
| "run_listener L key InviteAnswer message s = (Inr (), s)"
| "run_listener L key InviteReceiver message s = receive_invite L message s"
| "run_listener L key (OkReceiver k) message s =
     (if has_prefix message ''SIP/2.0 200 OK'' then
        (case FromString message sip_message0 of
           Inl e \<Rightarrow> (Inl e, s)
         | Inr parsed \<Rightarrow> (Inr (), s\<lparr>sp_oks := sp_oks s @ [(k, sm_Body parsed)]\<rparr>))
      else (Inr (), s))"

definition OpenToInvite :: "sip_library \<Rightarrow> softphone \<Rightarrow> softphone" where
  "OpenToInvite L s = (case addMessageListener L InviteReceiver s of (key, s1) \<Rightarrow> s1\<lparr>sp_inviteKey := key\<rparr>)"

definition CloseToInvite :: "softphone \<Rightarrow> softphone" where
  "CloseToInvite s = removeMessageListener (sp_inviteKey s) s"

definition OnOK :: "sip_library \<Rightarrow> nat \<Rightarrow> softphone \<Rightarrow> softphone" where
  "OnOK L k s = snd (addMessageListener L (OkReceiver k) s)"

section \<open>Runs\<close>

datatype phone_event = Received string | Ran string | Lost | Called

inductive phone_step :: "sip_library \<Rightarrow> phone_event \<Rightarrow> softphone \<Rightarrow> softphone \<Rightarrow> bool" for L where
  received: "sp_connected s \<Longrightarrow>
     phone_step L (Received message) s
       (s\<lparr>sp_goroutines := sp_goroutines s @ map (\<lambda>(key, l). (key, l, message)) (sp_messageListeners s)\<rparr>)"
| ran: "k < length (sp_goroutines s) \<Longrightarrow> sp_goroutines s ! k = (key, l, message) \<Longrightarrow>
     run_listener L key l message (s\<lparr>sp_goroutines := take k (sp_goroutines s) @ drop (Suc k) (sp_goroutines s)\<rparr>) = (Inr (), s') \<Longrightarrow>
     phone_step L (Ran message) s s'"
| lost: "phone_step L Lost s (s\<lparr>sp_connected := False\<rparr>)"
| invited: "sp_registered s \<Longrightarrow> Invite L extension offer s = (Inr (), s') \<Longrightarrow> phone_step L Called s s'"
| opened: "sp_registered s \<Longrightarrow> phone_step L Called s (OpenToInvite L s)"
| closed: "sp_registered s \<Longrightarrow> phone_step L Called s (CloseToInvite s)"
| on_ok: "sp_registered s \<Longrightarrow> phone_step L Called s (OnOK L k s)"

inductive phone_run :: "sip_library \<Rightarrow> softphone \<Rightarrow> phone_event list \<Rightarrow> softphone \<Rightarrow> bool" for L where
  none: "phone_run L s [] s"
| more: "phone_run L s evs s' \<Longrightarrow> phone_step L ev s' s'' \<Longrightarrow> phone_run L s (evs @ [ev]) s''"

inductive_cases phone_step_cases: "phone_step L ev s s'"

section \<open>Sequence numbers and branches\<close>

text \<open>Identifiers as the library makes them.\<close>

definition uuid_ok :: "sip_library \<Rightarrow> bool" where
  "uuid_ok L \<longleftrightarrow> inj (sl_uuid L) \<and>
     (\<forall>k. sl_uuid L k \<noteq> [] \<and> CHR '';'' \<notin> set (sl_uuid L k) \<and> CHR 0x0A \<notin> set (sl_uuid L k))"

text \<open>The requests that have been written; a header \<open>Via\<close> with the branch of the identifier \<open>k\<close>.\<close>

definition phone_requests :: "softphone \<Rightarrow> sip_message list" where
  "phone_requests s = concat (map (\<lambda>(m, _). case m of None \<Rightarrow> [] | Some m \<Rightarrow> [m]) (sp_sent s))"

definition via_of :: "sip_library \<Rightarrow> sip_message \<Rightarrow> nat \<Rightarrow> bool" where
  "via_of L m k \<longleftrightarrow>
     (\<exists>v. map_of (sm_headers m) ''Via'' = Some (v @ branch_mark @ sl_uuid L k) \<and> CHR '';'' \<notin> set v)"

definition stamped :: "sip_library \<Rightarrow> softphone \<Rightarrow> sip_message \<Rightarrow> int \<Rightarrow> nat \<Rightarrow> bool" where
  "stamped L s m n k \<longleftrightarrow>
     header ''CSeq'' m = show_int n @ '' '' @ sm_method m \<and> header ''Call-ID'' m = sp_callID s \<and> via_of L m k"

text \<open>
  Each request has a number below \<open>N\<close> and an identifier below \<open>K\<close> of its own, in growing order; each message
  of the table can be sent again; and the listeners find their messages.
\<close>

definition stamps_below :: "sip_library \<Rightarrow> softphone \<Rightarrow> int \<Rightarrow> nat \<Rightarrow> bool" where
  "stamps_below L s N K \<longleftrightarrow>
     (\<exists>ids. list_all2 (\<lambda>m (n, k). stamped L s m n k) (phone_requests s) ids \<and>
        sorted_wrt (\<lambda>(n, k) (n', k'). n < n' \<and> k < k') ids \<and> list_all (\<lambda>(n, k). n < N \<and> k < K) ids)"

definition resendable :: "sip_library \<Rightarrow> softphone \<Rightarrow> sip_message \<Rightarrow> bool" where
  "resendable L s m \<longleftrightarrow> header ''Call-ID'' m = sp_callID s \<and> (\<exists>k. via_of L m k)"

definition live :: "softphone \<Rightarrow> listener set" where
  "live s = snd ` set (sp_messageListeners s) \<union> fst ` snd ` set (sp_goroutines s)"

definition answered :: "softphone \<Rightarrow> bool" where
  "answered s \<longleftrightarrow> (\<exists>m \<in> set (phone_requests s). header ''Authorization'' m \<noteq> [])"

definition listener_ok :: "softphone \<Rightarrow> listener \<Rightarrow> bool" where
  "listener_ok s l \<longleftrightarrow>
     (case l of
        RegisterChallenge i \<Rightarrow> i < length (sp_messages s)
      | InviteChallenge i _ \<Rightarrow> i < length (sp_messages s)
      | RegisterAnswer \<Rightarrow> answered s
      | _ \<Rightarrow> True)"

definition duties :: "softphone \<Rightarrow> bool" where
  "duties s \<longleftrightarrow> (\<forall>l \<in> live s. listener_ok s l) \<and> (sp_registered s \<longrightarrow> answered s)"

definition phone_ok :: "sip_library \<Rightarrow> softphone \<Rightarrow> bool" where
  "phone_ok L s \<longleftrightarrow>
     stamps_below L s (sp_cseq s) (sp_ticks s) \<and> list_all (resendable L s) (sp_messages s) \<and>
     CHR '';'' \<notin> set (sp_fakeDomain s) \<and> duties s"

lemma header_set_header [simp]: "header k (set_header k' v m) = (if k = k' then v else header k m)"
  by (simp add: header_def set_header_def update_conv')

lemma map_of_set_header [simp]:
  "map_of (sm_headers (set_header k v m)) = (map_of (sm_headers m))(k \<mapsto> v)"
  by (simp add: set_header_def update_conv')

lemma set_header_fields [simp]:
  "sm_method (set_header k v m) = sm_method m" "sm_address (set_header k v m) = sm_address m"
  "sm_Body (set_header k v m) = sm_Body m"
  by (simp_all add: set_header_def)

lemma header_body [simp]: "header k (m\<lparr>sm_Body := b\<rparr>) = header k m"
  by (simp add: header_def)

lemma via_of_simps [simp]:
  "k' \<noteq> ''Via'' \<Longrightarrow> via_of L (set_header k' v m) k = via_of L m k" "via_of L (m\<lparr>sm_Body := b\<rparr>) k = via_of L m k"
  by (simp_all add: via_of_def)

lemma replace_branch_via:
  assumes "CHR '';'' \<notin> set v" and "u \<noteq> []" and "CHR 0x0A \<notin> set u"
  shows "replace_branch new (v @ branch_mark @ u) = v @ '';branch='' @ new"
  using assms(1)
proof (induction v)
  case Nil
  with assms(2,3) show ?case by simp
next
  case (Cons c v)
  then have "c \<noteq> CHR '';''" by auto
  with Cons show ?case by simp
qed

text \<open>What every operation keeps.\<close>

definition grows :: "softphone \<Rightarrow> softphone \<Rightarrow> bool" where
  "grows s s' \<longleftrightarrow> sp_callID s' = sp_callID s \<and> sp_fakeDomain s' = sp_fakeDomain s \<and>
     length (sp_messages s) \<le> length (sp_messages s') \<and> set (phone_requests s) \<subseteq> set (phone_requests s')"

lemma listener_ok_grows: "listener_ok s l \<Longrightarrow> grows s s' \<Longrightarrow> listener_ok s' l"
  by (auto simp: listener_ok_def grows_def answered_def split: listener.splits)

lemma duties_grow:
  assumes "duties s" and "grows s s'" and "live s' \<subseteq> live s \<union> {l. listener_ok s' l}"
    and "sp_registered s' \<Longrightarrow> sp_registered s \<or> answered s'"
  shows "duties s'"
  using assms listener_ok_grows [OF _ assms(2)]
  by (auto simp: duties_def grows_def answered_def)

lemma stamps_append:
  assumes "stamps_below L s N K" and "stamped L s' m N K" and "phone_requests s' = phone_requests s @ [m]"
    and "sp_callID s' = sp_callID s" and "N < N'" and "K < K'"
  shows "stamps_below L s' N' K'"
proof -
  obtain ids where ids: "list_all2 (\<lambda>m (n, k). stamped L s m n k) (phone_requests s) ids"
      "sorted_wrt (\<lambda>(n, k) (n', k'). n < n' \<and> k < k') ids" "list_all (\<lambda>(n, k). n < N \<and> k < K) ids"
    using assms(1) by (auto simp: stamps_below_def)
  moreover have "stamped L s' = stamped L s" using assms(4) by (simp add: stamped_def fun_eq_iff)
  ultimately show ?thesis unfolding stamps_below_def assms(3) using assms(2,5,6)
    by (intro exI [of _ "ids @ [(N, K)]"])
      (auto simp: sorted_wrt_append list_all2_appendI list_all_iff)
qed

lemma stamps_mono: "stamps_below L s N K \<Longrightarrow> N \<le> N' \<Longrightarrow> K \<le> K' \<Longrightarrow> phone_requests s' = phone_requests s \<Longrightarrow>
    sp_callID s' = sp_callID s \<Longrightarrow> stamps_below L s' N' K'"
  by (force simp: stamps_below_def stamped_def list_all_iff)

text \<open>The result of a request that is written.\<close>

definition after_request :: "sip_library \<Rightarrow> sip_message \<Rightarrow> listener option \<Rightarrow> softphone \<Rightarrow> softphone \<Rightarrow> bool" where
  "after_request L m h s s' \<longleftrightarrow>
     phone_requests s' = phone_requests s @ [m] \<and> sp_callID s' = sp_callID s \<and> sp_fakeDomain s' = sp_fakeDomain s \<and>
     sp_messages s' = sp_messages s \<and> sp_cseq s' = sp_cseq s \<and> sp_ticks s < sp_ticks s' \<and>
     sp_registered s' = sp_registered s \<and> live s' \<subseteq> live s \<union> set_option h"

lemma update_values: "snd ` set (AList.update k v xs) \<subseteq> insert v (snd ` set xs)"
  by (induction xs) auto

lemma live_cong: "sp_messageListeners s' = sp_messageListeners s \<Longrightarrow> sp_goroutines s' = sp_goroutines s \<Longrightarrow> live s' = live s"
  by (simp add: live_def)

lemma live_add: "live (snd (addMessageListener L l s)) \<subseteq> insert l (live s)"
  using update_values [of "sl_uuid L (sp_ticks s)" l "sp_messageListeners s"]
  by (auto simp: live_def addMessageListener_def uuid_New_def)

lemma live_remove: "live (removeMessageListener key s) \<subseteq> live s"
  using set_delete [of key "sp_messageListeners s"] by (auto simp: live_def removeMessageListener_def)

lemma addMessageListener_fields [simp]:
  "sp_callID (snd (addMessageListener L l s)) = sp_callID s" "sp_fakeDomain (snd (addMessageListener L l s)) = sp_fakeDomain s"
  "sp_messages (snd (addMessageListener L l s)) = sp_messages s" "sp_cseq (snd (addMessageListener L l s)) = sp_cseq s"
  "sp_ticks (snd (addMessageListener L l s)) = Suc (sp_ticks s)" "sp_sent (snd (addMessageListener L l s)) = sp_sent s"
  "sp_registered (snd (addMessageListener L l s)) = sp_registered s"
  "phone_requests (snd (addMessageListener L l s)) = phone_requests s" "sp_sipInfo (snd (addMessageListener L l s)) = sp_sipInfo s"
  "sp_connected (snd (addMessageListener L l s)) = sp_connected s"
  by (simp_all add: addMessageListener_def uuid_New_def phone_requests_def)

lemma sip_request_sent:
  assumes "sip_request L m h s = (Inr (), s')"
  shows "after_request L m h s s'"
proof -
  define s1 where "s1 = (case h of None \<Rightarrow> s | Some l \<Rightarrow> snd (addMessageListener L l s))"
  have s1: "sp_callID s1 = sp_callID s" "sp_fakeDomain s1 = sp_fakeDomain s" "sp_messages s1 = sp_messages s"
      "sp_cseq s1 = sp_cseq s" "sp_ticks s \<le> sp_ticks s1" "sp_sent s1 = sp_sent s" "sp_registered s1 = sp_registered s"
    by (auto simp: s1_def split: option.splits)
  have "live s1 \<subseteq> live s \<union> set_option h" using live_add by (force simp: s1_def split: option.splits)
  moreover from assms obtain bytes where
      "s' = s1\<lparr>sp_ticks := Suc (sp_ticks s1), sp_sent := sp_sent s1 @ [(Some m, bytes)]\<rparr>"
    by (auto simp: sip_request_def sip_response_def s1_def [symmetric] Let_def split: if_splits)
  ultimately show ?thesis using s1 by (simp add: after_request_def phone_requests_def live_def)
qed

lemma phone_ok_request:
  assumes "phone_ok L s0" and "sp_messages s = ms" and "list_all (resendable L s) ms" and "length (sp_messages s0) \<le> length ms"
    and "phone_requests s = phone_requests s0" "sp_callID s = sp_callID s0" "sp_fakeDomain s = sp_fakeDomain s0"
      "sp_registered s = sp_registered s0" "live s \<subseteq> live s0"
    and "sp_cseq s = sp_cseq s0 + 1" and "sp_ticks s0 < sp_ticks s" and "stamped L s m (sp_cseq s0) (sp_ticks s0)"
    and "after_request L m h s s'" and "\<And>l. h = Some l \<Longrightarrow> listener_ok s' l"
  shows "phone_ok L s'"
proof -
  have "grows s0 s'" using assms by (auto simp: grows_def after_request_def)
  moreover have "live s' \<subseteq> live s0 \<union> {l. listener_ok s' l}"
    using assms by (auto simp: after_request_def)
  moreover have "sp_registered s' \<Longrightarrow> sp_registered s0" using assms by (simp add: after_request_def)
  ultimately have "duties s'" using duties_grow [of s0 s'] assms(1) by (auto simp: phone_ok_def)
  moreover have "stamps_below L s' (sp_cseq s') (sp_ticks s')"
    using assms by (intro stamps_append [of L s0 "sp_cseq s0" "sp_ticks s0" s' m])
      (auto simp: phone_ok_def after_request_def stamped_def)
  moreover have "list_all (resendable L s') (sp_messages s')"
    using assms(2,3,13) by (simp add: after_request_def resendable_def [abs_def])
  ultimately show ?thesis using assms by (simp add: phone_ok_def after_request_def)
qed

lemma phone_ok_cong:
  assumes "phone_ok L s" and "phone_requests s' = phone_requests s" "sp_callID s' = sp_callID s" "sp_fakeDomain s' = sp_fakeDomain s"
    "sp_messages s' = sp_messages s" "sp_cseq s' = sp_cseq s" "sp_ticks s \<le> sp_ticks s'" "live s' \<subseteq> live s \<union> {l. listener_ok s l}"
    "sp_registered s' \<Longrightarrow> sp_registered s \<or> answered s"
  shows "phone_ok L s'"
proof -
  have "grows s s'" "grows s' s" using assms by (simp_all add: grows_def)
  then have "duties s'" using duties_grow [of s s'] listener_ok_grows [of s _ s'] assms
    by (auto simp: phone_ok_def answered_def)
  moreover have "stamps_below L s' (sp_cseq s') (sp_ticks s')"
    using assms by (auto simp: phone_ok_def intro: stamps_mono)
  moreover have "resendable L s' = resendable L s" using assms by (simp add: resendable_def fun_eq_iff)
  ultimately show ?thesis using assms by (simp add: phone_ok_def)
qed

text \<open>A new message that gets its branch, its number and the identifier of the call.\<close>

lemma complete_stamped:
  assumes "branch L s = (b, s1)" and "complete m s1 = (m', s2)"
    and "map_of (sm_headers m) ''Via'' = Some (v @ '';branch='' @ b)" and "CHR '';'' \<notin> set v"
  shows "stamped L s m' (sp_cseq s) (sp_ticks s) \<and> s2 = s\<lparr>sp_ticks := Suc (sp_ticks s), sp_cseq := sp_cseq s + 1\<rparr>"
  using assms by (auto simp: branch_def uuid_New_def complete_def addCseq_def addCallID_def addUserAgent_def stamped_def via_of_def)

lemma shared_request_ok:
  assumes "phone_ok L s0" and "stamped L s0 m (sp_cseq s0) (sp_ticks s0)" and "l = RegisterChallenge \<or> l = (\<lambda>i. InviteChallenge i x)"
    and "shared_request L m l (s0\<lparr>sp_ticks := Suc (sp_ticks s0), sp_cseq := sp_cseq s0 + 1\<rparr>) = (Inr (), s')"
  shows "phone_ok L s'"
proof -
  let ?s = "s0\<lparr>sp_ticks := Suc (sp_ticks s0), sp_cseq := sp_cseq s0 + 1, sp_messages := sp_messages s0 @ [m]\<rparr>"
  have sent: "after_request L m (Some (l (length (sp_messages s0)))) ?s s'"
    using assms(4) by (intro sip_request_sent) (simp add: shared_request_def)
  then have "listener_ok s' (l (length (sp_messages s0)))"
    using assms(3) by (auto simp: listener_ok_def after_request_def)
  moreover have "list_all (resendable L ?s) (sp_messages s0 @ [m])"
    using assms(1,2) by (auto simp: phone_ok_def resendable_def [abs_def] stamped_def)
  ultimately show ?thesis
    using phone_ok_request [OF assms(1), of ?s "sp_messages s0 @ [m]" m "Some (l (length (sp_messages s0)))" s'] sent assms(2)
    by (simp add: live_def phone_requests_def stamped_def)
qed

lemma register_ok:
  assumes "phone_ok L s" and "register L s = (Inr (), s')"
  shows "phone_ok L s'"
proof -
  let ?s = "s\<lparr>sp_connected := True\<rparr>"
  have s: "phone_ok L ?s" by (rule phone_ok_cong [OF assms(1)]) (auto simp: live_def phone_requests_def)
  obtain b s1 where b: "branch L ?s = (b, s1)" by (cases "branch L ?s")
  from assms(2) obtain m s2 where m: "register_message L ?s = (m, s2)" "shared_request L m RegisterChallenge s2 = (Inr (), s')"
    by (auto simp: register_def split: sum.splits prod.splits)
  have "stamped L ?s m (sp_cseq ?s) (sp_ticks ?s) \<and> s2 = ?s\<lparr>sp_ticks := Suc (sp_ticks ?s), sp_cseq := sp_cseq ?s + 1\<rparr>"
    using m(1) s b by (intro complete_stamped [OF b, where v = "''SIP/2.0/WS '' @ sp_fakeDomain s"])
      (auto simp: register_message_def phone_ok_def)
  with m(2) s shared_request_ok [of L ?s m RegisterChallenge undefined s'] show ?thesis by simp
qed

lemma Invite_ok:
  assumes "phone_ok L s" and "Invite L extension offer s = (Inr (), s')"
  shows "phone_ok L s'"
proof -
  obtain b s1 where b: "branch L s = (b, s1)" by (cases "branch L s")
  let ?hs = "[(''Contact'', ''<sip:'' @ sp_FakeEmail s @ '';transport=ws>;expires=200''),
      (''To'', ''<sip:'' @ extension @ ''@'' @ si_Domain (sp_sipInfo s) @ ''>''),
      (''Via'', ''SIP/2.0/WS '' @ sp_fakeDomain s @ '';branch='' @ b), (''From'', from_header s),
      (''Supported'', ''replaces, outbound,ice'')]"
  let ?m = "\<lparr>sm_method = ''INVITE'', sm_address = si_Domain (sp_sipInfo s), sm_subject = [], sm_headers = ?hs, sm_Body = []\<rparr>"
  obtain m s2 where m: "complete ?m s1 = (m, s2)" by (cases "complete ?m s1")
  have *: "stamped L s m (sp_cseq s) (sp_ticks s) \<and> s2 = s\<lparr>sp_ticks := Suc (sp_ticks s), sp_cseq := sp_cseq s + 1\<rparr>"
    using assms(1) by (intro complete_stamped [OF b m, where v = "''SIP/2.0/WS '' @ sp_fakeDomain s"]) (auto simp: phone_ok_def)
  then have "stamped L s ((set_header ''Content-Type'' ''application/sdp'' m)\<lparr>sm_Body := offer\<rparr>) (sp_cseq s) (sp_ticks s)"
    by (simp add: stamped_def)
  with shared_request_ok [OF assms(1) this, of "\<lambda>i. InviteChallenge i extension" extension s'] assms(2) b m *
  show ?thesis by (simp add: Invite_def)
qed

text \<open>The answer to a challenge sends the message again with a new number and a new branch.\<close>

lemma answer_challenge_ok:
  assumes "phone_ok L s" and "uuid_ok L" and "i < length (sp_messages s)"
    and "\<And>n m. \<exists>k v. authorize n m = set_header k v m \<and> k \<noteq> ''CSeq'' \<and> k \<noteq> ''Call-ID'' \<and> k \<noteq> ''Via'' \<and>
      (l = RegisterAnswer \<longrightarrow> k = ''Authorization'' \<and> v \<noteq> [])"
    and "l = RegisterAnswer \<or> l = InviteAnswer"
    and "answer_challenge L field authorize i l key message s = (Inr (), s')"
  shows "phone_ok L s'"
proof -
  let ?m = "sp_messages s ! i"
  from assms(6) obtain nonce m1 t1 m2 t2 t3 where
    m1: "addCseq (authorize nonce ?m) s = (m1, t1)" and m2: "newViaBranch_of L m1 t1 = (m2, t2)"
    and t3: "sip_request L m2 (Some l) (t2\<lparr>sp_messages := (sp_messages t2)[i := m2]\<rparr>) = (Inr (), t3)"
    and s': "s' = removeMessageListener key t3"
    by (auto simp: answer_challenge_def and_then_Inr split: sum.splits option.splits prod.splits)
  obtain k v where auth: "authorize nonce ?m = set_header k v ?m" "k \<noteq> ''CSeq''" "k \<noteq> ''Call-ID''" "k \<noteq> ''Via''"
      "l = RegisterAnswer \<longrightarrow> k = ''Authorization'' \<and> v \<noteq> []"
    using assms(4) [of nonce ?m] by (elim exE conjE) (rule that)
  from assms(1,3) have "resendable L s ?m" by (simp add: phone_ok_def list_all_length)
  then obtain w j where via: "map_of (sm_headers ?m) ''Via'' = Some (w @ branch_mark @ sl_uuid L j)" "CHR '';'' \<notin> set w"
      and callID: "header ''Call-ID'' ?m = sp_callID s"
    by (auto simp: resendable_def via_of_def)
  have m1': "m1 = set_header ''CSeq'' (show_int (sp_cseq s) @ '' '' @ sm_method ?m) (set_header k v ?m)"
    and t1: "t1 = s\<lparr>sp_cseq := sp_cseq s + 1\<rparr>"
    using m1 auth by (auto simp: addCseq_def)
  have "replace_branch (''z9hG4bK'' @ sl_uuid L (sp_ticks s)) (w @ branch_mark @ sl_uuid L j) =
      w @ branch_mark @ sl_uuid L (sp_ticks s)"
    using replace_branch_via [OF via(2), of "sl_uuid L j"] assms(2) by (simp add: uuid_ok_def)
  then have m2': "m2 = set_header ''Via'' (w @ branch_mark @ sl_uuid L (sp_ticks s)) m1"
    and t2: "t2 = s\<lparr>sp_cseq := sp_cseq s + 1, sp_ticks := Suc (sp_ticks s)\<rparr>"
    using m2 via(1) auth(4) by (auto simp: newViaBranch_of_def newViaBranch_def m1' t1 branch_def uuid_New_def)
  let ?t = "t2\<lparr>sp_messages := (sp_messages t2)[i := m2]\<rparr>"
  have stamped: "stamped L s m2 (sp_cseq s) (sp_ticks s)"
    using auth via callID by (auto simp: stamped_def via_of_def m2' m1')
  then have "resendable L s m2" by (auto simp: stamped_def resendable_def)
  moreover have "list_all (resendable L s) (sp_messages s)" using assms(1) by (simp add: phone_ok_def)
  ultimately have "list_all (resendable L s) ((sp_messages s)[i := m2])"
    using set_update_subset_insert [of "sp_messages s" i m2] by (auto simp: list_all_iff)
  moreover have "resendable L ?t = resendable L s" by (simp add: t2 resendable_def fun_eq_iff)
  moreover have sent: "after_request L m2 (Some l) ?t t3" by (rule sip_request_sent [OF t3])
  moreover have "listener_ok t3 l"
  proof -
    have "m2 \<in> set (phone_requests t3)" using sent by (simp add: after_request_def)
    moreover have "l = RegisterAnswer \<Longrightarrow> header ''Authorization'' m2 \<noteq> []" using auth by (simp add: m2' m1')
    ultimately show ?thesis using assms(5) by (auto simp: listener_ok_def answered_def)
  qed
  ultimately have "phone_ok L t3"
    using phone_ok_request [OF assms(1), of ?t "(sp_messages s)[i := m2]" m2 "Some l" t3] stamped
    by (simp add: t2 live_def phone_requests_def stamped_def)
  then show ?thesis unfolding s'
    by (rule phone_ok_cong) (use live_remove [of key t3] in \<open>auto simp: removeMessageListener_def phone_requests_def\<close>)
qed

lemma receive_invite_ok:
  assumes "phone_ok L s" and "receive_invite L message s = (Inr (), s')"
  shows "phone_ok L s'"
proof (cases "has_prefix message ''INVITE sip:''")
  case True
  with assms(2) obtain im bytes t1 where t1: "t1 = s\<lparr>sp_sent := sp_sent s @ [(None, bytes)]\<rparr>"
    and rest: "(case sl_Msg L (header ''P-rc'' im) of
        Inl _ \<Rightarrow> (Inl (Panic ''log.Panic''), t1)
      | Inr msg \<Rightarrow>
          (case agent_message L msg t1 of
             (m, s2) \<Rightarrow> and_then (sip_request L m None s2) (\<lambda>_ s3. (Inr (), s3\<lparr>sp_invites := sp_invites s3 @ [im]\<rparr>)))) =
      (Inr (), s')"
    by (auto simp: receive_invite_def sip_response_def split: sum.split_asm if_split_asm)
  from rest obtain msg m t2 t3 where m: "agent_message L msg t1 = (m, t2)"
    and t3: "sip_request L m None t2 = (Inr (), t3)" and s': "s' = t3\<lparr>sp_invites := sp_invites t3 @ [im]\<rparr>"
    by (auto simp: and_then_Inr split: sum.split_asm prod.split_asm)
  have ok: "phone_ok L t1" by (rule phone_ok_cong [OF assms(1)]) (auto simp: t1 phone_requests_def live_def)
  obtain b u where b: "branch L t1 = (b, u)" by (cases "branch L t1")
  let ?hs = "[(''Via'', ''SIP/2.0/WSS '' @ sp_fakeDomain t1 @ '';branch='' @ b), (''From'', from_header t1),
      (''To'', ''<sip:'' @ rm_From msg @ ''>''), (''Content-Type'', ''x-rc/agent'')]"
  let ?m = "\<lparr>sm_method = ''MESSAGE'', sm_address = rm_From msg, sm_subject = [], sm_headers = ?hs, sm_Body = []\<rparr>"
  obtain m' u' where m': "complete ?m u = (m', u')" by (cases "complete ?m u")
  have "stamped L t1 m' (sp_cseq t1) (sp_ticks t1) \<and> u' = t1\<lparr>sp_ticks := Suc (sp_ticks t1), sp_cseq := sp_cseq t1 + 1\<rparr>"
    using ok by (intro complete_stamped [OF b m', where v = "''SIP/2.0/WSS '' @ sp_fakeDomain t1"]) (auto simp: phone_ok_def)
  moreover have "t2 = u'" "\<exists>x. m = m'\<lparr>sm_Body := x\<rparr>" using m b m' by (auto simp: agent_message_def)
  ultimately have *: "stamped L t1 m (sp_cseq t1) (sp_ticks t1)" "t2 = t1\<lparr>sp_ticks := Suc (sp_ticks t1), sp_cseq := sp_cseq t1 + 1\<rparr>"
    by (auto simp: stamped_def)
  from sip_request_sent [OF t3] have "phone_ok L t3"
    using phone_ok_request [OF ok, of t2 "sp_messages t1" m None t3] * ok
    by (simp add: live_def phone_requests_def stamped_def phone_ok_def resendable_def [abs_def])
  then show ?thesis by (rule phone_ok_cong) (auto simp: s' phone_requests_def live_def)
qed (use assms in \<open>simp add: receive_invite_def\<close>)

lemma run_listener_ok:
  assumes "phone_ok L s" and "uuid_ok L" and "listener_ok s l" and "run_listener L key l message s = (Inr (), s')"
  shows "phone_ok L s'"
proof (cases l)
  case (RegisterChallenge i)
  with assms show ?thesis
    by (intro answer_challenge_ok [of L s i _ RegisterAnswer "''WWW-Authenticate''" key message s'])
      (auto simp: listener_ok_def generateAuthorization_def)
next
  case RegisterAnswer
  with assms have "s' = s\<lparr>sp_registered := True\<rparr>" "answered s" by (simp_all add: listener_ok_def)
  then show ?thesis by (intro phone_ok_cong [OF assms(1)]) (auto simp: phone_requests_def live_def)
next
  case (InviteChallenge i extension)
  with assms show ?thesis
    by (intro answer_challenge_ok [of L s i _ InviteAnswer "''Proxy-Authenticate''" key message s']) (auto simp: listener_ok_def)
next
  case InviteReceiver
  with assms receive_invite_ok show ?thesis by simp
next
  case (OkReceiver k)
  with assms(4) obtain oks where "s' = s\<lparr>sp_oks := oks\<rparr>"
    by (cases "has_prefix message ''SIP/2.0 200 OK''") (auto split: sum.split_asm intro: that [of "sp_oks s"])
  then have "live s' = live s" by (intro live_cong) simp_all
  with \<open>s' = _\<close> show ?thesis by (intro phone_ok_cong [OF assms(1)]) (simp_all add: phone_requests_def)
qed (use assms in simp)

lemma live_goroutine: "(key, l, message) \<in> set (sp_goroutines s) \<Longrightarrow> l \<in> live s"
  by (force simp: live_def)

lemma phone_step_ok:
  assumes "phone_step L ev s s'" and "phone_ok L s" and "uuid_ok L"
  shows "phone_ok L s'"
  using assms(1)
proof cases
  case (received message)
  have "live s' \<subseteq> live s" by (auto simp: received live_def image_Un image_image case_prod_beta)
  with received show ?thesis by (intro phone_ok_cong [OF assms(2)]) (auto simp: phone_requests_def)
next
  case (ran k key l message)
  let ?s = "s\<lparr>sp_goroutines := take k (sp_goroutines s) @ drop (Suc k) (sp_goroutines s)\<rparr>"
  have "fst ` snd ` set (sp_goroutines ?s) \<subseteq> fst ` snd ` set (sp_goroutines s)"
    by (intro image_mono) (auto dest: in_set_takeD in_set_dropD)
  then have "live ?s \<subseteq> live s \<union> {l. listener_ok s l}" by (auto simp: live_def)
  then have ok: "phone_ok L ?s" by (intro phone_ok_cong [OF assms(2)]) (simp_all add: phone_requests_def)
  have "l \<in> live s" using nth_mem [OF ran(2)] ran(3) by (intro live_goroutine) simp
  with assms(2) have "listener_ok s l" by (simp add: phone_ok_def duties_def)
  then have "listener_ok ?s l" by (rule listener_ok_grows) (simp add: grows_def phone_requests_def)
  from run_listener_ok [OF ok assms(3) this ran(4)] show ?thesis .
next
  case lost
  then show ?thesis by (intro phone_ok_cong [OF assms(2)]) (auto simp: phone_requests_def live_def)
next
  case (invited extension offer)
  with assms(2) Invite_ok show ?thesis by blast
next
  case opened
  have "live s' = live (snd (addMessageListener L InviteReceiver s))"
    by (rule live_cong) (simp_all add: opened OpenToInvite_def split: prod.split)
  with live_add [of L InviteReceiver s] show ?thesis
    by (intro phone_ok_cong [OF assms(2)])
      (auto simp: opened OpenToInvite_def addMessageListener_def uuid_New_def phone_requests_def listener_ok_def)
next
  case closed
  then show ?thesis using live_remove [of "sp_inviteKey s" s]
    by (intro phone_ok_cong [OF assms(2)]) (auto simp: CloseToInvite_def removeMessageListener_def phone_requests_def)
next
  case (on_ok k)
  then show ?thesis using live_add [of L "OkReceiver k" s]
    by (intro phone_ok_cong [OF assms(2)]) (auto simp: OnOK_def listener_ok_def)
qed

lemma phone_run_ok: "phone_run L s evs s' \<Longrightarrow> phone_ok L s \<Longrightarrow> uuid_ok L \<Longrightarrow> phone_ok L s'"
  by (induction rule: phone_run.induct) (auto intro: phone_step_ok)

lemma NewSoftPhone_ok:
  assumes "uuid_ok L" and "NewSoftPhone L info r = (Inr (), s)"
  shows "phone_ok L s"
proof -
  obtain s0 where s0: "register L s0 = (Inr (), s)" "sp_sent s0 = []" "sp_messages s0 = []" "sp_messageListeners s0 = []"
      "sp_goroutines s0 = []" "\<not> sp_registered s0" "sp_fakeDomain s0 = sl_uuid L 0 @ ''.invalid''"
    using assms(2) by (force simp: NewSoftPhone_def Let_def)
  then have "phone_ok L s0"
    using assms(1) by (auto simp: phone_ok_def stamps_below_def phone_requests_def duties_def live_def uuid_ok_def)
  then show ?thesis using s0(1) by (rule register_ok)
qed

section \<open>Properties\<close>


lemma show_int_inject [simp]: "show_int m = show_int n \<longleftrightarrow> m = n"
proof -
  have "CHR ''-'' \<notin> set (show_nat k)" for k using set_show_nat [of k] by (auto simp: digit_chars_def)
  then have "show_nat k \<noteq> CHR ''-'' # s" for k s by (metis list.set_intros(1))
  then have "show_nat k \<noteq> CHR ''-'' # s" "CHR ''-'' # s \<noteq> show_nat k" for k s by metis+
  then show ?thesis by (auto simp: show_int_def)
qed




text \<open>
  C35: a softphone counts as registered only after it has sent a request with an answer to a challenge.
\<close>

theorem registered_answered:
  assumes "uuid_ok L" and "NewSoftPhone L info r = (Inr (), s0)" and "phone_run L s0 evs s" and "sp_registered s"
  shows "\<exists>m \<in> set (phone_requests s). header ''Authorization'' m \<noteq> []"
  using phone_run_ok [OF assms(3) NewSoftPhone_ok [OF assms(1,2)] assms(1)] assms(4)
  by (simp add: phone_ok_def duties_def answered_def)

text \<open>
  But then the next message counts as a success, whatever it says: a softphone whose answer is
  rejected is registered all the same, and the listener stays for ever.
\<close>

theorem registration_unchecked:
  assumes "(key, RegisterAnswer) \<in> set (sp_messageListeners s)" and "sp_connected s" and "sp_goroutines s = []"
  shows "\<exists>s'. phone_run L s [Received rejection, Ran rejection] s' \<and> sp_registered s' \<and>
    sp_messageListeners s' = sp_messageListeners s \<and> sp_sent s' = sp_sent s"
proof -
  obtain k where k: "k < length (sp_messageListeners s)" "sp_messageListeners s ! k = (key, RegisterAnswer)"
    using assms(1) by (auto simp: in_set_conv_nth)
  let ?gs = "map (\<lambda>(key, l). (key, l, rejection)) (sp_messageListeners s)"
  let ?s1 = "s\<lparr>sp_goroutines := sp_goroutines s @ ?gs\<rparr>"
  let ?s2 = "?s1\<lparr>sp_goroutines := take k ?gs @ drop (Suc k) ?gs, sp_registered := True\<rparr>"
  have "phone_step L (Received rejection) s ?s1" by (rule phone_step.received [OF assms(2)])
  note first = phone_run.more [OF phone_run.none this]
  have "phone_step L (Ran rejection) ?s1 ?s2"
    by (rule phone_step.ran [of k _ key RegisterAnswer rejection]) (use k assms(3) in simp_all)
  from phone_run.more [OF first this] show ?thesis by (intro exI [of _ ?s2]) simp
qed

text \<open>
  Any first reply without a nonce in its challenge ends the process: a provisional response, or
  success without a challenge.
\<close>

theorem first_reply_panics:
  assumes "NewSoftPhone L info r = (Inr (), s)"
    and "FromString message sip_message0 = Inr p" and "find_nonce (header ''WWW-Authenticate'' p) = None"
  shows "\<exists>key i. sp_messageListeners s = [(key, RegisterChallenge i)] \<and>
    fst (run_listener L key (RegisterChallenge i) message s') = Inl (Panic ''index out of range'')"
proof -
  from assms(1) have "\<exists>key. sp_messageListeners s = [(key, RegisterChallenge 0)]"
    by (auto simp: NewSoftPhone_def register_def register_message_def shared_request_def sip_request_def sip_response_def
        addMessageListener_def uuid_New_def branch_def complete_def addCseq_def Let_def split: sum.split_asm if_split_asm)
  with assms(2,3) show ?thesis by (auto simp: answer_challenge_def)
qed

text \<open>
  An incoming call without the header \<open>P-rc\<close>, which other clients do not send, rings once and then ends
  the process.
\<close>

theorem plain_invite_panics:
  assumes "has_prefix message ''INVITE sip:''" and "FromString message sip_message0 = Inr m"
    and "header ''P-rc'' m = []" and "sl_Msg L [] = Inl e" and "sp_connected s"
  shows "\<exists>ringing. run_listener L key InviteReceiver message s =
      (Inl (Panic ''log.Panic''), s\<lparr>sp_sent := sp_sent s @ [(None, ringing)]\<rparr>) \<and>
    has_prefix ringing ''SIP/2.0 180 ''"
  using assms
  by (intro exI [of _ "Response (sp_toTag s) [''Contact''] 180 [(''Contact'', ''<sip:'' @ sp_fakeDomain s @ '';transport=ws>'')] [] m"])
    (simp add: receive_invite_def sip_response_def Response_def join_with_Cons show_nat.simps)

text \<open>A softphone that waits for the challenge: its only listener has the identifier \<open>j\<close>.\<close>

lemma NewSoftPhone_waits:
  assumes "NewSoftPhone L info r = (Inr (), s)"
  shows "sp_messageListeners s = [(sl_uuid L 6, RegisterChallenge 0)] \<and> sp_ticks s = 8 \<and> sp_connected s \<and>
    sp_goroutines s = [] \<and> sp_sipInfo s = info \<and> length (phone_requests s) = 1 \<and>
    sm_method (sp_messages s ! 0) = ''REGISTER''"
  using assms
  by (auto simp: NewSoftPhone_def register_def register_message_def shared_request_def sip_request_def sip_response_def
      addMessageListener_def uuid_New_def branch_def complete_def addCseq_def addCallID_def addUserAgent_def Let_def phone_requests_def
      split: sum.split_asm if_split_asm)

lemma sip_request_writes:
  assumes "sp_connected s"
  shows "\<exists>bytes. sip_request L m (Some l) s =
    (Inr (), s\<lparr>sp_messageListeners := AList.update (sl_uuid L (sp_ticks s)) l (sp_messageListeners s),
       sp_ticks := sp_ticks s + 2, sp_sent := sp_sent s @ [(Some m, bytes)]\<rparr>)"
  using assms by (auto simp: sip_request_def sip_response_def addMessageListener_def uuid_New_def Let_def)

lemma challenge_run:
  assumes "uuid_ok L" and "sp_messageListeners s = [(sl_uuid L j, RegisterChallenge i)]" and "j < sp_ticks s"
    and "sp_goroutines s = []" and "sp_connected s" and "FromString c sip_message0 = Inr p"
    and "find_nonce (header ''WWW-Authenticate'' p) = Some nonce"
  shows "\<exists>s' m key. phone_run L s [Received c, Ran c] s' \<and> phone_requests s' = phone_requests s @ [m] \<and>
    header ''Authorization'' m = generateAuthorization (sl_md5 L) (sp_sipInfo s) ''REGISTER'' nonce \<and>
    sm_method m = sm_method (sp_messages s ! i) \<and> sp_messageListeners s' = [(key, RegisterAnswer)] \<and>
    sp_goroutines s' = [] \<and> sp_connected s'"
proof -
  let ?m = "set_header ''Authorization'' (generateAuthorization (sl_md5 L) (sp_sipInfo s) ''REGISTER'' nonce) (sp_messages s ! i)"
  obtain m1 t1 where m1: "addCseq ?m s = (m1, t1)" by (cases "addCseq ?m s")
  then have t1: "t1 = s\<lparr>sp_cseq := sp_cseq s + 1\<rparr>" "sm_method m1 = sm_method (sp_messages s ! i)"
      "header ''Authorization'' m1 = generateAuthorization (sl_md5 L) (sp_sipInfo s) ''REGISTER'' nonce"
    by (auto simp: addCseq_def)
  obtain m2 t2 where m2: "newViaBranch_of L m1 t1 = (m2, t2)" by (cases "newViaBranch_of L m1 t1")
  then have t2: "sp_ticks s \<le> sp_ticks t2" "t2 = s\<lparr>sp_cseq := sp_cseq s + 1, sp_ticks := sp_ticks t2\<rparr>"
      "sm_method m2 = sm_method m1" "header ''Authorization'' m2 = header ''Authorization'' m1"
    by (auto simp: newViaBranch_of_def newViaBranch_def branch_def uuid_New_def t1(1) split: option.splits)
  then obtain k where k: "sp_ticks s \<le> k" "t2 = s\<lparr>sp_cseq := sp_cseq s + 1, sp_ticks := k\<rparr>" by blast
  let ?t = "t2\<lparr>sp_messages := (sp_messages t2)[i := m2]\<rparr>"
  obtain bytes where request: "sip_request L m2 (Some RegisterAnswer) ?t =
      (Inr (), ?t\<lparr>sp_messageListeners := AList.update (sl_uuid L k) RegisterAnswer (sp_messageListeners ?t),
         sp_ticks := sp_ticks ?t + 2, sp_sent := sp_sent ?t @ [(Some m2, bytes)]\<rparr>)"
    using sip_request_writes [of ?t L m2 RegisterAnswer] k(2) assms(5) by auto
  have new: "sl_uuid L k \<noteq> sl_uuid L j" using assms(1,3) k(1) by (auto simp: uuid_ok_def inj_eq)
  let ?s1 = "s\<lparr>sp_goroutines := sp_goroutines s @ map (\<lambda>(key, l). (key, l, c)) (sp_messageListeners s)\<rparr>"
  have "phone_step L (Received c) s ?s1" by (rule phone_step.received [OF assms(5)])
  note first = phone_run.more [OF phone_run.none this]
  let ?s2 = "s\<lparr>sp_cseq := sp_cseq s + 1, sp_ticks := k + 2, sp_messages := (sp_messages s)[i := m2],
      sp_messageListeners := [(sl_uuid L k, RegisterAnswer)], sp_sent := sp_sent s @ [(Some m2, bytes)]\<rparr>"
  have same: "s\<lparr>sp_goroutines := []\<rparr> = s" using assms(4) by simp
  have "run_listener L (sl_uuid L j) (RegisterChallenge i) c s = (Inr (), ?s2)"
    using m1 m2 request new by (simp add: answer_challenge_def assms k(2) removeMessageListener_def)
  then have "phone_step L (Ran c) ?s1 ?s2"
    by (intro phone_step.ran [of 0 _ "sl_uuid L j" "RegisterChallenge i" c]) (simp_all add: assms same)
  from phone_run.more [OF first this] have "phone_run L s [Received c, Ran c] ?s2" by simp
  with t1 t2 assms show ?thesis by (intro exI [of _ ?s2] exI [of _ m2]) (simp add: phone_requests_def)
qed

text \<open>
  A challenge with a nonce is answered by the same request with the authorization for this nonce, and
  the softphone then waits for the result.
\<close>

theorem challenge_answered:
  assumes "uuid_ok L" and "NewSoftPhone L info r = (Inr (), s)" and "FromString c sip_message0 = Inr p"
    and "find_nonce (header ''WWW-Authenticate'' p) = Some nonce"
  shows "\<exists>s' m key. phone_run L s [Received c, Ran c] s' \<and> phone_requests s' = phone_requests s @ [m] \<and> sm_method m = ''REGISTER'' \<and>
    header ''Authorization'' m = generateAuthorization (sl_md5 L) info ''REGISTER'' nonce \<and>
    sp_messageListeners s' = [(key, RegisterAnswer)]"
  using challenge_run [of L s 6 0 c p nonce] NewSoftPhone_waits [OF assms(2)] assms(1,3,4) by auto

section \<open>The caller\<close>

text \<open>
  \<open>rewriteSDP\<close>: the attributes are reversed by swapping from both ends, where the last index of no
  attributes is -1; the first medium, which has to exist, gets a candidate.
\<close>

function swap_ends :: "int \<Rightarrow> int \<Rightarrow> 'a list \<Rightarrow> 'a list" where
  "swap_ends i j xs =
     (if i < j then swap_ends (i + 1) (j - 1) (xs[nat i := xs ! nat j, nat j := xs ! nat i]) else xs)"
  by pat_completeness auto
termination by (relation "measure (\<lambda>(i, j, xs). nat (j - i))") auto

declare swap_ends.simps [simp del]

record sdp =
  sd_Attributes :: "(string \<times> string) list"
  sd_MediaDescriptions :: "(string \<times> string) list list"

definition rewriteSDP :: "(string \<Rightarrow> sdp res) \<Rightarrow> (sdp \<Rightarrow> string res) \<Rightarrow> string \<Rightarrow> string res" where
  "rewriteSDP Unmarshal Marshal inp =
     (case Unmarshal inp of
        Inl _ \<Rightarrow> Inl (Panic ''Unmarshal'')
      | Inr parsed \<Rightarrow>
          let attributes = swap_ends 0 (int (length (sd_Attributes parsed)) - 1) (sd_Attributes parsed) in
          (case sd_MediaDescriptions parsed of
             [] \<Rightarrow> Inl (Panic ''index out of range'')
           | m # ms \<Rightarrow>
               (case Marshal (parsed\<lparr>sd_Attributes := attributes,
                   sd_MediaDescriptions :=
                     (m @ [(''candidate'', ''79019993 1 udp 1686052607 1.1.1.1 9 typ srflx'')]) # ms\<rparr>) of
                  Inl _ \<Rightarrow> Inl (Panic ''Marshal'')
                | Inr out \<Rightarrow> Inr out)))"

text \<open>
  \<open>start\<close> behind \<open>NewSoftPhone\<close>: the handler of the answer is registered and the call is made, with the
  rewriting of an empty offer.
\<close>

definition sip_start ::
  "sip_library \<Rightarrow> (string \<Rightarrow> sdp res) \<Rightarrow> (sdp \<Rightarrow> string res) \<Rightarrow> string \<Rightarrow> softphone \<Rightarrow> unit res \<times> softphone" where
  "sip_start L Unmarshal Marshal extension s =
     (let s1 = OnOK L 0 s in
      case rewriteSDP Unmarshal Marshal [] of
        Inl e \<Rightarrow> (Inl e, s1)
      | Inr offer \<Rightarrow> Invite L extension offer s1)"

lemma swap_ends_rev:
  "swap_ends (int (length as)) (int (length as + length xs) - 1) (as @ xs @ bs) = as @ rev xs @ bs"
proof (induction "length xs" arbitrary: as xs bs rule: less_induct)
  case less
  show ?case
  proof (cases "length xs < 2")
    case True
    then have "rev xs = xs" by (cases xs) (auto simp: length_Suc_conv less_Suc_eq)
    with True show ?thesis by (simp add: swap_ends.simps)
  next
    case False
    then obtain x ys y where xs: "xs = x # ys @ [y]"
      by (metis One_nat_def append_butlast_last_id length_Cons less_Suc_eq list.exhaust list.size(3) numeral_2_eq_2 zero_less_Suc)
    let ?zs = "as @ xs @ bs" and ?i = "length as" and ?j = "length as + Suc (length ys)"
    have "?zs[?i := ?zs ! ?j, ?j := ?zs ! ?i] = (as @ [y]) @ ys @ ([x] @ bs)"
      by (simp add: xs nth_append list_update_append)
    moreover have "swap_ends (int ?i) (int (length as + length xs) - 1) ?zs =
        swap_ends (int ?i + 1) (int ?j - 1) (?zs[?i := ?zs ! ?j, ?j := ?zs ! ?i])"
      by (subst swap_ends.simps) (simp add: xs nat_add_distrib)
    moreover have "int ?i + 1 = int (length (as @ [y]))" "int ?j - 1 = int (length (as @ [y]) + length ys) - 1"
      by simp_all
    moreover have "swap_ends (int (length (as @ [y]))) (int (length (as @ [y]) + length ys) - 1) ((as @ [y]) @ ys @ ([x] @ bs)) =
        (as @ [y]) @ rev ys @ ([x] @ bs)"
      by (rule less) (simp add: xs)
    ultimately show ?thesis by (simp add: xs)
  qed
qed

text \<open>The loop that swaps the attributes reverses them, for every number of attributes.\<close>

theorem swap_ends_reverses: "swap_ends 0 (int (length xs) - 1) xs = rev xs"
  using swap_ends_rev [of "[]" xs "[]"] by simp

text \<open>
  The program never makes a call. The offer that it rewrites is empty, and a description without
  media makes the rewriting panic, whatever the library says about it.
\<close>

theorem start_panics:
  assumes "\<And>parsed. Unmarshal [] = Inr parsed \<Longrightarrow> sd_MediaDescriptions parsed = []"
  shows "\<exists>p. sip_start L Unmarshal Marshal extension s = (Inl (Panic p), OnOK L 0 s)"
  using assms by (cases "Unmarshal []") (auto simp: sip_start_def rewriteSDP_def Let_def)

section \<open>Witnesses\<close>

definition sample_sip :: sip_library where
  "sample_sip = \<lparr>sl_uuid = show_nat, sl_Range = (\<lambda>_ keys. keys), sl_md5 = id,
     sl_Msg = (\<lambda>s. if s = [] then Inl (Err ''EOF'') else Inr \<lparr>rm_SID = s, rm_Req = [], rm_From = [], rm_To = []\<rparr>),
     sl_Dial = (\<lambda>_ _. Inr ())\<rparr>"

definition sample_info :: sip_info where
  "sample_info = \<lparr>si_Username = ''u'', si_Password = ''p'', si_AuthorizationID = ''u'', si_Domain = ''d'',
     si_OutboundProxy = ''d:80'', si_Transport = ''ws''\<rparr>"

abbreviation sample_phone :: softphone where "sample_phone \<equiv> snd (NewSoftPhone sample_sip sample_info 0)"

lemma sample_uuids: "uuid_ok sample_sip"
proof -
  have "show_nat k \<noteq> []" for k by (subst show_nat.simps) simp
  moreover have "CHR '';'' \<notin> set (show_nat k)" "CHR 0x0A \<notin> set (show_nat k)" for k
    using set_show_nat [of k] by (auto simp: digit_chars_def)
  ultimately show ?thesis by (simp add: uuid_ok_def sample_sip_def inj_def)
qed

lemma sample_new: "NewSoftPhone sample_sip sample_info 0 = (Inr (), sample_phone)"
  by (simp add: NewSoftPhone_def register_def register_message_def shared_request_def sip_request_def sip_response_def
      addMessageListener_def uuid_New_def branch_def complete_def addCseq_def Let_def sample_sip_def)

abbreviation sample_challenge :: string where
  "sample_challenge \<equiv> ''Digest realm=d'' @ nonce_mark @ ''n'' @ [CHR 0x22]"

definition challenge :: string where
  "challenge = join_with CRLF ([''SIP/2.0 401 Unauthorized''] @
     map (\<lambda>(k, v). header_line k v) [(''WWW-Authenticate'', sample_challenge)] @ [[], []])"

lemma challenge_parsed:
  "\<exists>p. FromString challenge sip_message0 = Inr p \<and> find_nonce (header ''WWW-Authenticate'' p) = Some ''n''"
proof -
  have "list_all header_ok [(''WWW-Authenticate'', sample_challenge)]"
    by (simp add: header_ok_def)
  then obtain p where "FromString challenge sip_message0 = Inr p" "header ''WWW-Authenticate'' p = sample_challenge"
    using FromString_lines [of "''SIP/2.0 401 Unauthorized''" "[(''WWW-Authenticate'', sample_challenge)]" "[]" sip_message0]
    by (auto simp: challenge_def)
  moreover have "find_nonce sample_challenge = Some ''n''" by (simp add: quoted_def)
  ultimately show ?thesis by auto
qed

text \<open>A run in which the challenge is answered.\<close>

lemma phone_sample_run:
  "\<exists>s. phone_run sample_sip sample_phone [Received challenge, Ran challenge] s \<and> length (phone_requests s) = 2 \<and>
    (\<exists>key. sp_messageListeners s = [(key, RegisterAnswer)]) \<and> sp_goroutines s = [] \<and> sp_connected s"
proof -
  obtain p where p: "FromString challenge sip_message0 = Inr p" "find_nonce (header ''WWW-Authenticate'' p) = Some ''n''"
    using challenge_parsed by blast
  show ?thesis
    using challenge_run [OF sample_uuids, of sample_phone 6 0 challenge p "''n''"] p NewSoftPhone_waits [OF sample_new]
    by fastforce
qed

theorem message_roundtrip_witness:
  "\<exists>m'. FromString (ToString [''Via'', ''To''] (sip_message0\<lparr>sm_method := ''REGISTER'', sm_address := ''d'',
      sm_headers := [(''To'', ''<sip:u@d>''), (''Via'', ''SIP/2.0/WS x'')], sm_Body := CRLF @ CRLF\<rparr>)) sip_message0 = Inr m' \<and>
    sm_Body m' = CRLF @ CRLF \<and> header ''Via'' m' = ''SIP/2.0/WS x''"
  using message_roundtrip [of "sip_message0\<lparr>sm_method := ''REGISTER'', sm_address := ''d'',
      sm_headers := [(''To'', ''<sip:u@d>''), (''Via'', ''SIP/2.0/WS x'')], sm_Body := CRLF @ CRLF\<rparr>" "[''Via'', ''To'']"]
  by (fastforce simp: message_ok_def header_ok_def header_def [of "''Via''" "_\<lparr>sm_headers := _\<rparr>"])


text \<open>The rest of the sample: an answer that is rejected.\<close>

abbreviation rejection :: string where "rejection \<equiv> ''SIP/2.0 403 Forbidden''"

lemma phone_run_append: "phone_run L s' evs' s'' \<Longrightarrow> phone_run L s evs s' \<Longrightarrow> phone_run L s (evs @ evs') s''"
  by (induction rule: phone_run.induct) (auto intro: phone_run.intros simp flip: append_assoc)

theorem registration_unchecked_witness:
  "\<exists>s. phone_run sample_sip sample_phone [Received challenge, Ran challenge, Received rejection, Ran rejection] s \<and> sp_registered s"
proof -
  obtain s key where s: "phone_run sample_sip sample_phone [Received challenge, Ran challenge] s"
      "sp_messageListeners s = [(key, RegisterAnswer)]" "sp_goroutines s = []" "sp_connected s"
    using phone_sample_run by blast
  with registration_unchecked [of key s sample_sip rejection] obtain s' where
    "phone_run sample_sip s [Received rejection, Ran rejection] s'" "sp_registered s'"
    by auto
  with phone_run_append [OF this(1) s(1)] show ?thesis by auto
qed

text \<open>The same run without the theorem.\<close>

lemma sample_registered:
  "\<exists>s. phone_run sample_sip sample_phone [Received challenge, Ran challenge, Received rejection, Ran rejection] s \<and> sp_registered s"
proof -
  obtain s key where s: "phone_run sample_sip sample_phone [Received challenge, Ran challenge] s"
      "sp_messageListeners s = [(key, RegisterAnswer)]" "sp_goroutines s = []" "sp_connected s"
    using phone_sample_run by blast
  note more = phone_run.more [OF phone_run.more [OF s(1) phone_step.received [OF s(4), of _ rejection]]]
  let ?s = "s\<lparr>sp_goroutines := [], sp_registered := True\<rparr>"
  have "phone_step sample_sip (Ran rejection)
      (s\<lparr>sp_goroutines := sp_goroutines s @ map (\<lambda>(key, l). (key, l, rejection)) (sp_messageListeners s)\<rparr>) ?s"
    by (rule phone_step.ran [of 0 _ key RegisterAnswer]) (simp_all add: s)
  from more [OF this] show ?thesis by (intro exI [of _ ?s]) simp
qed

theorem registered_answered_witness:
  "\<exists>s. sp_registered s \<and> (\<exists>m \<in> set (phone_requests s). header ''Authorization'' m \<noteq> [])"
proof -
  obtain s where s: "phone_run sample_sip sample_phone [Received challenge, Ran challenge, Received rejection, Ran rejection] s"
      "sp_registered s"
    using sample_registered by blast
  with registered_answered [OF sample_uuids sample_new s] show ?thesis by blast
qed

theorem challenge_answered_witness:
  "\<exists>s m. phone_run sample_sip sample_phone [Received challenge, Ran challenge] s \<and>
    header ''Authorization'' m = generateAuthorization id sample_info ''REGISTER'' ''n'' \<and> m \<in> set (phone_requests s)"
proof -
  obtain p where p: "FromString challenge sip_message0 = Inr p" "find_nonce (header ''WWW-Authenticate'' p) = Some ''n''"
    using challenge_parsed by blast
  from challenge_answered [OF sample_uuids sample_new p] show ?thesis by (fastforce simp: sample_sip_def)
qed

lemma subject_only: "CHR 0x0D \<notin> set subject \<Longrightarrow> subject \<noteq> [] \<Longrightarrow>
    \<exists>p. FromString (subject @ CRLF @ CRLF) sip_message0 = Inr p \<and> (\<forall>k. header k p = [])"
  using FromString_lines [of subject "[]" "[]" sip_message0] by auto

theorem first_reply_panics_witness:
  "\<exists>key i. sp_messageListeners sample_phone = [(key, RegisterChallenge i)] \<and>
    fst (run_listener sample_sip key (RegisterChallenge i) (''SIP/2.0 100 Trying'' @ CRLF @ CRLF) sample_phone) =
      Inl (Panic ''index out of range'')"
proof -
  obtain p where "FromString (''SIP/2.0 100 Trying'' @ CRLF @ CRLF) sip_message0 = Inr p" "\<forall>k. header k p = []"
    using subject_only [of "''SIP/2.0 100 Trying''"] by auto
  with first_reply_panics [OF sample_new, of "''SIP/2.0 100 Trying'' @ CRLF @ CRLF" p] show ?thesis by simp
qed

theorem plain_invite_panics_witness:
  "fst (run_listener sample_sip ''7'' InviteReceiver (''INVITE sip:u@d SIP/2.0'' @ CRLF @ CRLF) sample_phone) = Inl (Panic ''log.Panic'')"
proof -
  obtain p where "FromString (''INVITE sip:u@d SIP/2.0'' @ CRLF @ CRLF) sip_message0 = Inr p" "\<forall>k. header k p = []"
    using subject_only [of "''INVITE sip:u@d SIP/2.0''"] by auto
  with plain_invite_panics [of "''INVITE sip:u@d SIP/2.0'' @ CRLF @ CRLF" p sample_sip "Err ''EOF''" sample_phone "''7''"]
    NewSoftPhone_waits [OF sample_new]
  show ?thesis by (auto simp: sample_sip_def)
qed

theorem start_panics_witness:
  "\<exists>p. fst (sip_start sample_sip (\<lambda>_. Inr \<lparr>sd_Attributes = [], sd_MediaDescriptions = []\<rparr>) (\<lambda>_. Inr []) ''9198'' sample_phone) =
    Inl (Panic p)"
  using start_panics [of "\<lambda>_. Inr \<lparr>sd_Attributes = [], sd_MediaDescriptions = []\<rparr>" sample_sip "\<lambda>_. Inr []" "''9198''" sample_phone]
  by auto

end
