(* ===== verification/Uploads.thy ===== *)
theory Uploads
  imports Prelude
begin

text \<open>
  The upload of files over HTTP, \<open>uploadFileHandler\<close> of \<^verbatim>\<open>transport/websocket/stdhttp/server.go\<close>. Parsing the
  request, detecting the type of a file and the file system are parameters.
\<close>

text \<open>A part of the form: its key and, of its first file, whether it opens and what reading it gives.\<close>

record form_part =
  fp_key :: string
  fp_Open :: "unit res"
  fp_ReadAll :: "string res"

record 'w upload_env =
  up_ParseForm :: "form_part list res"
  up_DetectContentType :: "string \<Rightarrow> string"
  up_ExtensionsByType :: "string \<Rightarrow> string list res"
  up_Join :: "string \<Rightarrow> string \<Rightarrow> string"
  up_UUID :: "'w \<Rightarrow> string \<times> 'w"
  up_Create :: "string \<Rightarrow> 'w \<Rightarrow> unit res \<times> 'w"
  up_Write :: "string \<Rightarrow> string \<Rightarrow> 'w \<Rightarrow> unit res \<times> 'w"
  up_uploadPath :: string

definition upload_types :: "string list" where
  "upload_types = [''image/jpeg'', ''image/jpg'', ''image/gif'', ''image/png'', ''application/pdf'']"

text \<open>\<open>errorf\<close> writes its message to the answer; the status that it is given is not used.\<close>

definition errorf :: "string \<Rightarrow> int \<Rightarrow> string list \<Rightarrow> string list" where
  "errorf msg code out = out @ [msg]"

text \<open>
  One part, with the function that reports an error in the answer: the answer so far, the files that have been created, with the bytes that have been written,
  and the world. \<open>Inl\<close> is a panic: a type without a file extension.
\<close>

definition upload_part ::
  "(string \<Rightarrow> int \<Rightarrow> 'o \<Rightarrow> 'o) \<Rightarrow> 'w upload_env \<Rightarrow> form_part \<Rightarrow> 'o \<times> (string \<times> string) list \<times> 'w \<Rightarrow>
   ('o \<times> (string \<times> string) list \<times> 'w) res" where
  "upload_part report U part s =
     (case s of
        (out, files, w) \<Rightarrow>
          (case fp_Open part of
             Inl _ \<Rightarrow> Inr (report (''INVALID_FILE:'' @ fp_key part) 400 out, files, w)
           | Inr _ \<Rightarrow>
               (case fp_ReadAll part of
                  Inl _ \<Rightarrow> Inr (report ''INVALID_FILE'' 400 out, files, w)
                | Inr fileBytes \<Rightarrow>
                    let filetype = up_DetectContentType U fileBytes in
                    if filetype \<notin> set upload_types then Inr (report ''INVALID_FILE_TYPE'' 400 out, files, w)
                    else
                      (case up_UUID U w of
                         (fileName, w1) \<Rightarrow>
                           (case up_ExtensionsByType U filetype of
                              Inl _ \<Rightarrow> Inr (report ''CANT_READ_FILE_TYPE'' 500 out, files, w1)
                            | Inr [] \<Rightarrow> Inl (Panic ''index out of range'')
                            | Inr (ending # _) \<Rightarrow>
                                let newPath = up_Join U (up_uploadPath U) (fileName @ ending) in
                                (case up_Create U newPath w1 of
                                   (Inl _, w2) \<Rightarrow> Inr (report ''CANT_WRITE_FILE'' 500 out, files, w2)
                                 | (Inr _, w2) \<Rightarrow>
                                     (case up_Write U newPath fileBytes w2 of
                                        (Inl _, w3) \<Rightarrow> Inr (report ''CANT_WRITE_FILE'' 500 out, files, w3)
                                      | (Inr _, w3) \<Rightarrow> Inr (out, files @ [(newPath, fileBytes)], w3))))))))"

text \<open>The parts in the order in which \<open>range\<close> visits the form.\<close>

fun upload_parts ::
  "(string \<Rightarrow> int \<Rightarrow> 'o \<Rightarrow> 'o) \<Rightarrow> 'w upload_env \<Rightarrow> form_part list \<Rightarrow> 'o \<times> (string \<times> string) list \<times> 'w \<Rightarrow>
   ('o \<times> (string \<times> string) list \<times> 'w) res" where
  "upload_parts report U [] s = Inr s"
| "upload_parts report U (part # parts) s =
     (case upload_part report U part s of Inl e \<Rightarrow> Inl e | Inr s1 \<Rightarrow> upload_parts report U parts s1)"

definition uploadFileHandler ::
  "'w upload_env \<Rightarrow> 'w \<Rightarrow> (string list \<times> (string \<times> string) list \<times> 'w) res" where
  "uploadFileHandler U w =
     (case up_ParseForm U of
        Inl _ \<Rightarrow> Inr (errorf ''FILE_TOO_BIG'' 400 [], [], w)
      | Inr parts \<Rightarrow>
          map_sum id (\<lambda>(out, files, w1). (out @ [''SUCCESS''], files, w1)) (upload_parts errorf U parts ([], [], w)))"

section \<open>Properties\<close>

text \<open>
  What an upload has done: the files are of an accepted type, and each part is stored or reported;
  \<open>reported out k\<close> says that the answer \<open>out\<close> shows \<open>k\<close> errors.
\<close>

definition upload_ok ::
  "('o \<Rightarrow> nat \<Rightarrow> bool) \<Rightarrow> 'w upload_env \<Rightarrow> nat \<Rightarrow> 'o \<times> (string \<times> string) list \<times> 'w \<Rightarrow> bool" where
  "upload_ok reported U n s \<longleftrightarrow> (case s of (out, files, w) \<Rightarrow>
     list_all (\<lambda>(path, bytes). up_DetectContentType U bytes \<in> set upload_types) files \<and>
     (\<exists>k. reported out k \<and> k + length files = n))"

lemma upload_part_ok:
  assumes "upload_part report U part s = Inr s1" and "upload_ok reported U n s"
    and "\<And>msg code out k. code \<in> {400, 500} \<Longrightarrow> reported out k \<Longrightarrow> reported (report msg code out) (Suc k)"
  shows "upload_ok reported U (Suc n) s1"
  using assms(1,2)
  by (auto simp: upload_part_def upload_ok_def Let_def intro!: assms(3)
      split: prod.splits sum.splits list.splits if_splits)

lemma upload_parts_ok:
  assumes "upload_parts report U parts s = Inr s1" and "upload_ok reported U n s"
    and "\<And>msg code out k. code \<in> {400, 500} \<Longrightarrow> reported out k \<Longrightarrow> reported (report msg code out) (Suc k)"
  shows "upload_ok reported U (n + length parts) s1"
  using assms(1,2)
proof (induction parts arbitrary: s n)
  case (Cons part parts)
  then obtain s2 where part: "upload_part report U part s = Inr s2" and rest: "upload_parts report U parts s2 = Inr s1"
    by (auto split: sum.splits)
  from Cons.IH [OF rest upload_part_ok [OF part Cons.prems(2) assms(3)]] show ?case by simp
qed simp

text \<open>
  An upload stores only files of the accepted types, and each file of the form is stored or reported;
  but the answer ends with \<open>SUCCESS\<close> also when no file at all has been stored.
\<close>

theorem upload_stores_accepted:
  assumes "uploadFileHandler U w = Inr (out, files, w')" and "up_ParseForm U = Inr parts"
  shows "list_all (\<lambda>(path, bytes). up_DetectContentType U bytes \<in> set upload_types) files \<and>
    length out + length files = Suc (length parts) \<and> last out = ''SUCCESS''"
proof -
  obtain out1 where run: "upload_parts errorf U parts ([], [], w) = Inr (out1, files, w')" and out: "out = out1 @ [''SUCCESS'']"
    using assms by (cases "upload_parts errorf U parts ([], [], w)") (auto simp: uploadFileHandler_def)
  have "upload_ok (\<lambda>out k. length out = k) U 0 ([], [], w)" by (simp add: upload_ok_def)
  from upload_parts_ok [OF run this] show ?thesis by (simp add: upload_ok_def out errorf_def)
qed

section \<open>Instances\<close>

text \<open>One file, which is text.\<close>

definition text_upload :: "unit upload_env" where
  "text_upload = \<lparr>up_ParseForm = Inr [\<lparr>fp_key = ''f'', fp_Open = Inr (), fp_ReadAll = Inr ''hello''\<rparr>],
     up_DetectContentType = \<lambda>_. ''text/plain'', up_ExtensionsByType = \<lambda>_. Inr [''.txt''], up_Join = \<lambda>a b. a @ b,
     up_UUID = \<lambda>w. (''id'', w), up_Create = \<lambda>_ w. (Inr (), w), up_Write = \<lambda>_ _ w. (Inr (), w), up_uploadPath = []\<rparr>"

theorem upload_stores_accepted_witness:
  "uploadFileHandler text_upload () = Inr ([''INVALID_FILE_TYPE'', ''SUCCESS''], [], ()) \<and>
   last [''INVALID_FILE_TYPE'', ''SUCCESS''] = ''SUCCESS''"
proof
  show run: "uploadFileHandler text_upload () = Inr ([''INVALID_FILE_TYPE'', ''SUCCESS''], [], ())"
    by (simp add: uploadFileHandler_def text_upload_def upload_part_def upload_types_def errorf_def)
  show "last [''INVALID_FILE_TYPE'', ''SUCCESS''] = ''SUCCESS''"
    using upload_stores_accepted [OF run] by (simp add: text_upload_def)
qed

end
