(* ===== verification/FasthttpSockets.thy ===== *)
theory FasthttpSockets
  imports WebsocketRuns Uploads
begin

text \<open>
  The other websocket server, \<^verbatim>\<open>transport/websocket/fasthttp/server.go\<close>. Its connections have the fields of
  those of the first one (theory \<open>Websockets\<close>), the goroutines differ: there is no handler for a closed
  connection, a message \<open>ping\<close> is one as any other, and a failing heartbeat ends. Sessions come from a
  library, which is a parameter. What both servers have in common is the locale \<open>socket_server\<close>.
\<close>

section \<open>Handlers\<close>

type_synonym 's fast_handler = "string \<Rightarrow> nat \<Rightarrow> 's \<Rightarrow> string option res \<times> 's"

record 's fast_env =
  fe_Path :: string
  fe_chanBufferSize :: nat
  fe_messageHandler :: "'s fast_handler option"

definition defaultMessageHandle :: "'s fast_handler" where
  "defaultMessageHandle data conn n = (Inr None, n)"

definition fast_Regist :: "'s fast_handler option \<Rightarrow> 's fast_env \<Rightarrow> 's fast_env" where
  "fast_Regist h F = F\<lparr>fe_messageHandler := h\<rparr>"

section \<open>Requests\<close>

datatype fast_route = ToWebsocket | ToUpload | ToError int

definition requestHandler :: "'s fast_env \<Rightarrow> string \<Rightarrow> fast_route" where
  "requestHandler F path =
     (if path = fe_Path F then ToWebsocket else if path = ''/upload'' then ToUpload else ToError 404)"

text \<open>The answer of an upload, a status and a body; an error replaces what the answer has been.\<close>

definition fast_errorf :: "string \<Rightarrow> int \<Rightarrow> int \<times> string \<Rightarrow> int \<times> string" where
  "fast_errorf msg code answer = (code, msg)"

definition fast_uploadFileHandler ::
  "'w upload_env \<Rightarrow> 'w \<Rightarrow> ((int \<times> string) \<times> (string \<times> string) list \<times> 'w) res" where
  "fast_uploadFileHandler U w =
     (case up_ParseForm U of
        Inl _ \<Rightarrow> Inr (fast_errorf ''FILE_TOO_BIG'' 400 (200, []), [], w)
      | Inr parts \<Rightarrow>
          map_sum id (\<lambda>((status, body), files, w1). ((status, body @ ''SUCCESS''), files, w1))
            (upload_parts fast_errorf U parts ((200, []), [], w)))"

section \<open>Connections\<close>

text \<open>The session of a new connection is what the library gives.\<close>

definition fast_websocketHandler :: "string res \<Rightarrow> 's websockets \<Rightarrow> 's websockets" where
  "fast_websocketHandler session s =
     (case session of
        Inl _ \<Rightarrow> s
      | Inr sessionId \<Rightarrow>
          s\<lparr>ws_conns := ws_conns s @ [new_ws_conn sessionId],
            ws_pool := AList.update sessionId (length (ws_conns s)) (ws_pool s)\<rparr>)"

definition fast_Write :: "'s fast_env \<Rightarrow> ws_message \<Rightarrow> nat \<Rightarrow> 's websockets \<Rightarrow> 's outcome list" where
  "fast_Write F m c s =
     (if length (wc_outChan (ws_conn_at s c)) < fe_chanBufferSize F
      then [(Sent c m, Inr (), set_ws c (\<lambda>k. k\<lparr>wc_outChan := wc_outChan k @ [m]\<rparr>) s)] else []) @
     (if wc_closeChan (ws_conn_at s c) then [(Quiet, Inl (Err ''connection is closeed''), s)] else [])"

definition fast_SendRaw :: "'s fast_env \<Rightarrow> string \<Rightarrow> string \<Rightarrow> 's websockets \<Rightarrow> 's outcome list" where
  "fast_SendRaw F sessionId data s =
     (case map_of (ws_pool s) sessionId of
        None \<Rightarrow> [(Quiet, Inl (Err ''NoConnection''), s)]
      | Some c \<Rightarrow>
          map (\<lambda>(ev, r, s1). (ev, map_sum (\<lambda>_. Err ''WriteFail'') (\<lambda>_. ()) r, s1)) (fast_Write F (2, data) c s))"

definition fast_Close :: "nat \<Rightarrow> 's websockets \<Rightarrow> unit res \<times> 's websockets" where
  "fast_Close c s =
     (let s1 = set_ws c (\<lambda>k. k\<lparr>wc_open := False\<rparr>) s;
          sessionId = wc_session (ws_conn_at s c) in
      and_then
        (if wc_isClosed (ws_conn_at s1 c) then (Inr (), s1)
         else and_then (close_chan c s1) (\<lambda>_ s2. (Inr (), set_ws c (\<lambda>k. k\<lparr>wc_isClosed := True\<rparr>) s2)))
        (\<lambda>_ s3. (Inr (), s3\<lparr>ws_pool := AList.delete sessionId (ws_pool s3)\<rparr>)))"

definition fast_closing :: "nat \<Rightarrow> ('s websockets \<Rightarrow> 's websockets) \<Rightarrow> 's websockets \<Rightarrow> 's outcome" where
  "fast_closing c go s = (case fast_Close c s of (r, s1) \<Rightarrow> (Quiet, r, go s1))"

text \<open>\<open>read\<close>: an error of the handler is dropped; an empty response that is not nil is written.\<close>

definition fast_handle :: "'s fast_env \<Rightarrow> nat \<Rightarrow> string \<Rightarrow> 's websockets \<Rightarrow> 's outcome" where
  "fast_handle F c data s =
     (case fe_messageHandler F of
        None \<Rightarrow> (Quiet, Inr (), set_reader c RCheck s)
      | Some h \<Rightarrow>
          (case h data c (ws_node s) of
             (Inl (Panic p), n) \<Rightarrow> (Handled c data, Inl (Panic p), s\<lparr>ws_node := n\<rparr>)
           | (Inl (Err e), n) \<Rightarrow> (Handled c data, Inr (), set_reader c RCheck (s\<lparr>ws_node := n\<rparr>))
           | (Inr None, n) \<Rightarrow> (Handled c data, Inr (), set_reader c RCheck (s\<lparr>ws_node := n\<rparr>))
           | (Inr (Some response), n) \<Rightarrow> (Handled c data, Inr (), set_reader c (RAnswer response) (s\<lparr>ws_node := n\<rparr>))))"

definition fast_read :: "'s fast_env \<Rightarrow> nat \<Rightarrow> 's websockets \<Rightarrow> 's outcome list" where
  "fast_read F c s =
     (case wc_inChan (ws_conn_at s c) of
        [] \<Rightarrow> []
      | m # ms \<Rightarrow> [fast_handle F c (snd m) (set_ws c (\<lambda>k. k\<lparr>wc_inChan := ms\<rparr>) s)]) @
     (if wc_closeChan (ws_conn_at s c) then [(Quiet, Inr (), set_reader c RCheck s)] else [])"

definition fast_loopRead_next :: "'s fast_env \<Rightarrow> unit + ws_message \<Rightarrow> nat \<Rightarrow> 's websockets \<Rightarrow> 's outcome list" where
  "fast_loopRead_next F inp c s =
     (case wc_reader (ws_conn_at s c) of
        RCheck \<Rightarrow> [(Quiet, Inr (), set_reader c (if wc_isClosed (ws_conn_at s c) then REnd else RRead) s)]
      | RRead \<Rightarrow>
          (case inp of
             Inl _ \<Rightarrow> [fast_closing c (set_reader c REnd) s]
           | Inr m \<Rightarrow> [(Quiet, Inr (), set_reader c (RQueue m) s)])
      | RQueue m \<Rightarrow>
          (if length (wc_inChan (ws_conn_at s c)) < fe_chanBufferSize F
           then [(Quiet, Inr (), set_reader c RTake (set_ws c (\<lambda>k. k\<lparr>wc_inChan := wc_inChan k @ [m]\<rparr>) s))] else []) @
          (if wc_closeChan (ws_conn_at s c) then [fast_closing c (set_reader c REnd) s] else [])
      | RTake \<Rightarrow> fast_read F c s
      | RAnswer data \<Rightarrow> map (\<lambda>(ev, _, s1). (ev, Inr (), set_reader c RCheck s1)) (fast_Write F (2, data) c s)
      | REnd \<Rightarrow> [])"

definition fast_loopWrite_next :: "bool \<Rightarrow> nat \<Rightarrow> 's websockets \<Rightarrow> 's outcome list" where
  "fast_loopWrite_next ok c s =
     (case wc_writer (ws_conn_at s c) of
        WCheck \<Rightarrow> [(Quiet, Inr (), set_writer c (if wc_isClosed (ws_conn_at s c) then WEnd else WWait) s)]
      | WWait \<Rightarrow>
          (case wc_outChan (ws_conn_at s c) of
             [] \<Rightarrow> []
           | m # ms \<Rightarrow> [(Quiet, Inr (), set_writer c (WSend m) (set_ws c (\<lambda>k. k\<lparr>wc_outChan := ms\<rparr>) s))]) @
          (if wc_closeChan (ws_conn_at s c) then [fast_closing c (set_writer c WEnd) s] else [])
      | WSend m \<Rightarrow>
          [if ok then (Quiet, Inr (), set_writer c WCheck (set_ws c (\<lambda>k. k\<lparr>wc_wire := wc_wire k @ [m]\<rparr>) s))
           else fast_closing c (set_writer c WEnd) s]
      | WEnd \<Rightarrow> [])"

definition fast_beat :: "'s fast_env \<Rightarrow> nat \<Rightarrow> 's websockets \<Rightarrow> 's outcome list" where
  "fast_beat F c s =
     map (\<lambda>(ev, r, s1). case r of
            Inr _ \<Rightarrow> (ev, Inr (), set_heartbeat c HSleep s1)
          | Inl _ \<Rightarrow> fast_closing c (set_heartbeat c HEnd) s1)
       (fast_Write F (2, ''heartbeat:'' @ wc_session (ws_conn_at s c)) c s)"

definition fast_loopHeartbeat_next :: "'s fast_env \<Rightarrow> nat \<Rightarrow> 's websockets \<Rightarrow> 's outcome list" where
  "fast_loopHeartbeat_next F c s =
     (case wc_heartbeat (ws_conn_at s c) of
        HStart \<Rightarrow> [(Quiet, Inr (), set_heartbeat c (if wc_isClosed (ws_conn_at s c) then HEnd else HSleep) s)]
      | HSleep \<Rightarrow> fast_beat F c s
      | _ \<Rightarrow> [])"

section \<open>The server\<close>

inductive fast_step :: "'s fast_env \<Rightarrow> ('s \<Rightarrow> 's \<Rightarrow> bool) \<Rightarrow> ws_event \<Rightarrow> 's websockets \<Rightarrow> 's websockets \<Rightarrow> bool"
  for F other where
  fast_opened: "requestHandler F path = ToWebsocket \<Longrightarrow>
    fast_step F other (Opened sess) s (fast_websocketHandler (Inr sess) s)"
| fast_reads: "c < length (ws_conns s) \<Longrightarrow> (ev, Inr (), s') \<in> set (fast_loopRead_next F inp c s) \<Longrightarrow>
    fast_step F other ev s s'"
| fast_writes: "c < length (ws_conns s) \<Longrightarrow> (ev, Inr (), s') \<in> set (fast_loopWrite_next ok c s) \<Longrightarrow>
    fast_step F other ev s s'"
| fast_beats: "c < length (ws_conns s) \<Longrightarrow> (ev, Inr (), s') \<in> set (fast_loopHeartbeat_next F c s) \<Longrightarrow>
    fast_step F other ev s s'"
| fast_sends: "(ev, r, s') \<in> set (fast_SendRaw F sess data s) \<Longrightarrow> fast_step F other ev s s'"
| fast_others: "other (ws_node s) n \<Longrightarrow> fast_step F other Quiet s (s\<lparr>ws_node := n\<rparr>)"

inductive fast_run :: "'s fast_env \<Rightarrow> ('s \<Rightarrow> 's \<Rightarrow> bool) \<Rightarrow> 's websockets \<Rightarrow> ws_event list \<Rightarrow> 's websockets \<Rightarrow> bool"
  for F other s0 where
  fast_start: "fast_run F other s0 [] s0"
| fast_next: "fast_run F other s0 evs s \<Longrightarrow> fast_step F other ev s s' \<Longrightarrow> fast_run F other s0 (evs @ [ev]) s'"

section \<open>The server as a websocket server\<close>

text \<open>The first server with channels of the same size, and with a handler of closed connections that does nothing.\<close>

definition fast_ws :: "'s fast_env \<Rightarrow> 's ws_env" where
  "fast_ws F = \<lparr>we_Path = fe_Path F, we_chanBufferSize = fe_chanBufferSize F, we_messageHandler = None,
     we_disconnectedHandler = Some (\<lambda>_ n. (Inr (), n)), we_RemoteAddr = (\<lambda>_. [])\<rparr>"

lemma fast_ws_fields [simp]:
  "we_chanBufferSize (fast_ws F) = fe_chanBufferSize F" "we_disconnectedHandler (fast_ws F) = Some (\<lambda>_ n. (Inr (), n))"
  by (simp_all add: fast_ws_def)

lemma fast_Write_eq: "fast_Write F = ws_Write (fast_ws F)"
  by (simp add: fun_eq_iff fast_Write_def ws_Write_def)

lemma fast_SendRaw_eq: "fast_SendRaw F = SendRaw (fast_ws F)"
  by (intro ext) (unfold fast_SendRaw_def SendRaw_def fast_Write_eq, rule refl)

lemma fast_Close_eq: "fast_Close = ws_Close (fast_ws F)"
  by (simp add: fun_eq_iff fast_Close_def ws_Close_def notify_disconnected_def)

lemma fast_closing_eq: "fast_closing = closing (fast_ws F)"
  by (intro ext) (unfold fast_closing_def closing_def fast_Close_eq [of F], rule refl)

lemma fast_loopWrite_eq: "fast_loopWrite_next = loopWrite_next (fast_ws F)"
  by (intro ext) (unfold fast_loopWrite_next_def loopWrite_next_def fast_closing_eq [of F], rule refl)

lemma fast_beat_eq: "fast_beat F = beat (fast_ws F) HEnd"
  by (intro ext) (unfold fast_beat_def beat_def fast_closing_eq [of F] fast_Write_eq, rule refl)

lemma fast_loopHeartbeat_stepped:
  assumes "c < length (ws_conns s)" "conn_ok (fast_ws F) (ws_conn_at s c)"
    "(ev, Inr (), s') \<in> set (fast_loopHeartbeat_next F c s)"
  shows "stepped (fast_ws F) ev c s s'"
proof (cases "wc_heartbeat (ws_conn_at s c)")
  case HStart
  with assms show ?thesis
    by (auto simp: fast_loopHeartbeat_next_def set_heartbeat_def move_defs intro!: stepped_moved [OF assms(1)])
qed (use assms in \<open>auto simp: fast_loopHeartbeat_next_def fast_beat_eq intro: beat_stepped\<close>)

lemma fast_handle_shape:
  assumes "fast_handle F c data s = (ev, Inr (), s')"
  obtains p n where "ev = Quiet \<or> ev = Handled c data" "s' = (set_reader c p s)\<lparr>ws_node := n\<rparr>"
    "p = RCheck \<or> (\<exists>answer. p = RAnswer answer)"
proof (cases "fe_messageHandler F")
  case None
  with assms show ?thesis
    by (intro that [where p = RCheck and n = "ws_node s"]) (auto simp: fast_handle_def set_reader_def set_ws_def)
next
  case (Some h)
  obtain x n where "h data c (ws_node s) = (x, n)" by fastforce
  with Some assms show ?thesis
    by (auto simp: fast_handle_def set_reader_def split: sum.splits go_error.splits option.splits intro: that)
qed

text \<open>
  The reader is the one of the first server except after a message \<open>ping\<close>, when it takes a message, and
  when it finds the connection closed while it takes one.
\<close>

lemma fast_loopRead_eq:
  assumes "wc_reader (ws_conn_at s c) \<noteq> RTake" and "\<And>t. inp \<noteq> Inr (t, ''ping'')"
  shows "fast_loopRead_next F inp c s = loopRead_next (fast_ws F) inp c s"
  using assms unfolding fast_loopRead_next_def loopRead_next_def fast_closing_eq [of F] fast_Write_eq fast_ws_fields
  by (cases inp) (auto split: reader.split)

lemma fast_loopRead_stepped:
  assumes "c < length (ws_conns s)" "conn_ok (fast_ws F) (ws_conn_at s c)"
    "(ev, Inr (), s') \<in> set (fast_loopRead_next F inp c s)"
  shows "stepped (fast_ws F) ev c s s'"
proof -
  note ok = assms(2) and c = assms(1)
  let ?k = "ws_conn_at s c"
  consider "wc_reader ?k = RTake" | t where "inp = Inr (t, ''ping'')" "wc_reader ?k = RRead"
    | "fast_loopRead_next F inp c s = loopRead_next (fast_ws F) inp c s"
    using fast_loopRead_eq [of s c inp F]
    unfolding fast_loopRead_next_def loopRead_next_def fast_closing_eq [of F] fast_Write_eq fast_ws_fields
    by (cases "wc_reader ?k"; cases inp) auto
  then show ?thesis
  proof cases
    case 1
    with ok obtain m where m: "wc_inChan ?k = [m]" by (auto simp: conn_ok_def length_Suc_conv)
    with 1 assms(3) consider "fast_handle F c (snd m) (set_ws c (\<lambda>k. k\<lparr>wc_inChan := []\<rparr>) s) = (ev, Inr (), s')"
      | "ev = Quiet" "s' = set_reader c RCheck s" "wc_isClosed ?k"
      using ok by (auto simp: fast_loopRead_next_def fast_read_def conn_ok_def split: if_splits)
    then show ?thesis
    proof cases
      case 1
      then obtain p n where "ev = Quiet \<or> ev = Handled c (snd m)" and p: "p = RCheck \<or> (\<exists>answer. p = RAnswer answer)"
        and "s' = (set_reader c p (set_ws c (\<lambda>k. k\<lparr>wc_inChan := []\<rparr>) s))\<lparr>ws_node := n\<rparr>"
        by (rule fast_handle_shape)
      then have "s' = (set_ws c (\<lambda>k. k\<lparr>wc_inChan := [], wc_reader := p\<rparr>) s)\<lparr>ws_node := n\<rparr>"
        using c by (simp add: set_reader_def)
      moreover have "moves (fast_ws F) ev c ?k (?k\<lparr>wc_inChan := [], wc_reader := p\<rparr>)"
        using \<open>ev = Quiet \<or> ev = Handled c (snd m)\<close> p \<open>wc_reader ?k = RTake\<close> ok by (auto simp: move_defs)
      ultimately show ?thesis by (auto intro: stepped_moved(2) [OF c])
    next
      case 2
      with \<open>wc_reader ?k = RTake\<close> m ok show ?thesis
        by (auto simp: set_reader_def move_defs intro!: stepped_moved [OF c])
    qed
  next
    case 2
    with ok assms(3) show ?thesis
      by (auto simp: fast_loopRead_next_def set_reader_def move_defs intro!: stepped_moved [OF c])
  next
    case 3
    with assms show ?thesis by (auto intro: loopRead_stepped)
  qed
qed

lemma fast_step_moves:
  assumes "fast_step F other ev s s'" and ok: "server_ok (fast_ws F) s"
  shows "server_moves (fast_ws F) ev s s'"
  using assms(1)
proof cases
  case (fast_opened path sess)
  then show ?thesis by (simp add: server_moves_def fast_websocketHandler_def)
next
  case (fast_reads c inp)
  from fast_loopRead_stepped [OF this(1) server_ok_conn [OF ok this(1)] this(2)] fast_reads(1) show ?thesis
    by (auto simp: server_moves_def)
next
  case (fast_writes c ok')
  from loopWrite_stepped [OF this(1) server_ok_conn [OF ok this(1)] this(2) [unfolded fast_loopWrite_eq [of F]]]
    fast_writes(1) show ?thesis by (auto simp: server_moves_def)
next
  case (fast_beats c)
  from fast_loopHeartbeat_stepped [OF this(1) server_ok_conn [OF ok this(1)] this(2)] fast_beats(1) show ?thesis
    by (auto simp: server_moves_def)
next
  case (fast_sends r sess data)
  from SendRaw_stepped [OF ok this [unfolded fast_SendRaw_eq]] show ?thesis by (auto simp: server_moves_def)
qed (simp add: server_moves_def)

lemma fast_run_cases: "fast_run F other s0 evs s \<Longrightarrow>
    evs = [] \<and> s = s0 \<or> (\<exists>evs1 ev s1. evs = evs1 @ [ev] \<and> fast_run F other s0 evs1 s1 \<and> fast_step F other ev s1 s)"
  by (erule fast_run.cases) auto

interpretation fast_server: socket_server "fast_ws F" "fast_step F other" "fast_run F other" for F other
  by unfold_locales (use fast_run_cases fast_step_moves in blast)+

section \<open>Properties\<close>

text \<open>
  What holds of the first server holds of this one: the close channel of a connection is closed exactly
  when it is marked as closed, the queues hold no more than their size, and each entry of the pool is an open
  connection under its own session.
\<close>

theorem fast_invariant:
  assumes "fast_run F other (no_sockets n) evs s"
  shows "server_ok (fast_ws F) s"
  using fast_server.run_ok [OF assms no_sockets_ok] .

text \<open>What is written to a client is a prefix of what was accepted for it, in order and once each.\<close>

theorem fast_sent_in_order:
  assumes "fast_run F other (no_sockets n) evs s" and "c < length (ws_conns s)"
  shows "\<exists>rest. accepted c evs = wc_wire (ws_conn_at s c) @ rest \<and>
    (wc_writer (ws_conn_at s c) \<noteq> WEnd \<longrightarrow> rest = queued (ws_conn_at s c))"
  using fast_server.run_flows [OF assms(1)] assms(2) by (auto simp: flows_def prefix_def)

text \<open>In a reachable state a connection can be closed, also by several goroutines, without a panic.\<close>

theorem fast_Close_returns:
  assumes "fast_run F other (no_sockets n) evs s" and "c < length (ws_conns s)"
  shows "\<exists>s'. fast_Close c s = (Inr (), s') \<and> wc_isClosed (ws_conn_at s' c) \<and>
    map_of (ws_pool s') (wc_session (ws_conn_at s c)) = None"
proof -
  have ok: "conn_ok (fast_ws F) (ws_conn_at s c)"
    using fast_server.run_ok [OF assms(1) no_sockets_ok] assms(2) by (rule server_ok_conn)
  from ws_Close_eq [OF assms(2) ok] assms(2) show ?thesis
    unfolding fast_Close_eq [of F] by (simp add: notify_disconnected_def close_conn_def AList.delete_conv')
qed

text \<open>
  An upload stores only files of the accepted types. The answer ends with \<open>SUCCESS\<close> in any case; when
  a file has not been stored, the status is the one of the last such file.
\<close>

theorem fast_upload_answer:
  assumes "fast_uploadFileHandler U w = Inr ((status, body), files, w')" and "up_ParseForm U = Inr parts"
  shows "list_all (\<lambda>(path, bytes). up_DetectContentType U bytes \<in> set upload_types) files \<and>
    length files \<le> length parts \<and> (status = 200 \<longleftrightarrow> length files = length parts) \<and> (\<exists>msg. body = msg @ ''SUCCESS'')"
proof -
  obtain body1 where run: "upload_parts fast_errorf U parts ((200, []), [], w) = Inr ((status, body1), files, w')"
    and body: "body = body1 @ ''SUCCESS''"
    using assms by (cases "upload_parts fast_errorf U parts ((200, []), [], w)") (auto simp: fast_uploadFileHandler_def)
  have "upload_ok (\<lambda>out k. (fst out = 200) = (k = 0)) U 0 ((200, []), [], w)" by (simp add: upload_ok_def)
  then have "upload_ok (\<lambda>out k. (fst out = 200) = (k = 0)) U (0 + length parts) ((status, body1), files, w')"
    by (rule upload_parts_ok [OF run]) (auto simp: fast_errorf_def)
  then show ?thesis by (auto simp: upload_ok_def body)
qed

section \<open>Witnesses\<close>

definition fast_sample :: "unit fast_env" where
  "fast_sample = \<lparr>fe_Path = ''/ws'', fe_chanBufferSize = 1, fe_messageHandler = Some defaultMessageHandle\<rparr>"

definition fast_opened_sample :: "unit websockets" where
  "fast_opened_sample = fast_websocketHandler (Inr ''a'') (no_sockets ())"

lemma fast_opened_run: "fast_run fast_sample (\<lambda>_ _. False) (no_sockets ()) ([] @ [Opened ''a'']) fast_opened_sample"
  unfolding fast_opened_sample_def
  by (rule fast_next [OF fast_start fast_opened [where path = "''/ws''"]]) (simp add: requestHandler_def fast_sample_def)

lemma fast_opened_fields [simp]:
  "length (ws_conns fast_opened_sample) = 1" "ws_conn_at fast_opened_sample 0 = new_ws_conn ''a''"
  by (simp_all add: fast_opened_sample_def fast_websocketHandler_def no_sockets_def)

theorem fast_invariant_witness: "server_ok (fast_ws fast_sample) fast_opened_sample"
  by (rule fast_invariant [OF fast_opened_run])

theorem fast_sent_in_order_witness: "queued (ws_conn_at fast_opened_sample 0) = []"
  using fast_sent_in_order [OF fast_opened_run, of 0] by (simp add: new_ws_conn_def accepted_def List.map_filter_def)

theorem fast_Close_returns_witness: "fst (fast_Close 0 fast_opened_sample) = Inr ()"
  using fast_Close_returns [OF fast_opened_run, of 0] by auto

theorem fast_upload_answer_witness:
  "fast_uploadFileHandler text_upload () = Inr ((400, ''INVALID_FILE_TYPESUCCESS''), [], ()) \<and> (400 :: int) \<noteq> 200"
proof
  show run: "fast_uploadFileHandler text_upload () = Inr ((400, ''INVALID_FILE_TYPESUCCESS''), [], ())"
    by (simp add: fast_uploadFileHandler_def text_upload_def upload_part_def upload_types_def fast_errorf_def)
  show "(400 :: int) \<noteq> 200"
    using fast_upload_answer [OF run] by (simp add: text_upload_def)
qed

end
