(* ===== verification/Channels.thy ===== *)
theory Channels
  imports Prelude "HOL-Library.AList"
begin

text \<open>
  The message channels of \<^verbatim>\<open>p2p/channel/default.go\<close>: one over a stream for each peer, with a reading and a
  writing goroutine. The positions of the goroutines and the meaning of \<^verbatim>\<open>select\<close> are those of the theory
  \<open>Websockets\<close>; what a stream reads and whether it writes are parameters of the steps.
\<close>

section \<open>State\<close>

datatype chan_reader = CCheck | CRead | CQueue string | CEnd
datatype chan_writer = KSelect | KHave "int \<times> string" | KEnd

text \<open>\<open>ch_handler\<close> tells whether there is a handler; \<open>ch_wire\<close> is what has been written to the stream.\<close>

record channel =
  ch_stream :: string
  ch_open :: bool
  ch_wire :: string
  ch_inChan :: "(int \<times> string) list"
  ch_outChan :: "(int \<times> string) list"
  ch_closeChan :: bool
  ch_isClosed :: bool
  ch_handler :: bool
  ch_reader :: chan_reader
  ch_writer :: chan_writer

text \<open>A pointer to a channel is an index; the pool has the channels by the identity of the peer.\<close>

record channels =
  cs_channels :: "channel list"
  cs_pool :: "(string \<times> nat) list"

abbreviation channel_at :: "channels \<Rightarrow> nat \<Rightarrow> channel" where "channel_at s c \<equiv> cs_channels s ! c"

definition set_channel :: "nat \<Rightarrow> (channel \<Rightarrow> channel) \<Rightarrow> channels \<Rightarrow> channels" where
  "set_channel c f s = s\<lparr>cs_channels := (cs_channels s)[c := f (channel_at s c)]\<rparr>"

definition new_channel :: "string \<Rightarrow> bool \<Rightarrow> channel" where
  "new_channel stream handler = \<lparr>ch_stream = stream, ch_open = True, ch_wire = [], ch_inChan = [], ch_outChan = [],
     ch_closeChan = False, ch_isClosed = False, ch_handler = handler, ch_reader = CCheck, ch_writer = KSelect\<rparr>"

text \<open>What a step shows: a message that is accepted for writing, read from the stream, given to the handler.\<close>

datatype chan_event = CQuiet | Accepted nat "int \<times> string" | ReadData nat string | Delivered nat string

type_synonym chan_outcome = "chan_event \<times> unit res \<times> channels"

section \<open>Operations\<close>

text \<open>The stream of an existing channel is not looked at.\<close>

definition GetChannel :: "string \<Rightarrow> string \<Rightarrow> bool \<Rightarrow> channels \<Rightarrow> nat \<times> channels" where
  "GetChannel stream peerId handler s =
     (case map_of (cs_pool s) peerId of
        Some c \<Rightarrow> (c, s)
      | None \<Rightarrow>
          (length (cs_channels s),
           s\<lparr>cs_channels := cs_channels s @ [new_channel stream handler],
             cs_pool := AList.update peerId (length (cs_channels s)) (cs_pool s)\<rparr>))"

definition Channel_Read :: "nat \<Rightarrow> channels \<Rightarrow> chan_outcome list" where
  "Channel_Read c s =
     (case ch_inChan (channel_at s c) of
        [] \<Rightarrow> []
      | m # ms \<Rightarrow>
          [(if ch_handler (channel_at s c) then Delivered c (snd m) else CQuiet, Inr (),
            set_channel c (\<lambda>k. k\<lparr>ch_inChan := ms\<rparr>) s)]) @
     (if ch_closeChan (channel_at s c) then
        [(CQuiet, if ch_handler (channel_at s c) then Inl NilDereference else Inl (Err ''channel is closeed''), s)]
      else [])"

definition Channel_Write :: "nat \<Rightarrow> int \<times> string \<Rightarrow> nat \<Rightarrow> channels \<Rightarrow> chan_outcome list" where
  "Channel_Write chanBufferSize m c s =
     (if length (ch_outChan (channel_at s c)) < chanBufferSize
      then [(Accepted c m, Inr (), set_channel c (\<lambda>k. k\<lparr>ch_outChan := ch_outChan k @ [m]\<rparr>) s)] else []) @
     (if ch_closeChan (channel_at s c) then [(CQuiet, Inl (Err ''channel is closeed''), s)] else [])"

text \<open>Closing takes the identity of the stream out of the pool, which is filed by peers.\<close>

definition Channel_Close :: "nat \<Rightarrow> channels \<Rightarrow> unit res \<times> channels" where
  "Channel_Close c s =
     (let s1 = set_channel c (\<lambda>k. k\<lparr>ch_open := False\<rparr>) s in
      and_then
        (if ch_isClosed (channel_at s1 c) then (Inr (), s1)
         else if ch_closeChan (channel_at s1 c) then (Inl (Panic ''close of closed channel''), s1)
         else (Inr (), set_channel c (\<lambda>k. k\<lparr>ch_closeChan := True, ch_isClosed := True\<rparr>) s1))
        (\<lambda>_ s2. (Inr (), s2\<lparr>cs_pool := AList.delete (ch_stream (channel_at s c)) (cs_pool s2)\<rparr>)))"

definition chan_closing :: "nat \<Rightarrow> (channels \<Rightarrow> channels) \<Rightarrow> channels \<Rightarrow> chan_outcome" where
  "chan_closing c go s = (case Channel_Close c s of (r, s1) \<Rightarrow> (CQuiet, r, go s1))"

section \<open>Goroutines\<close>

definition set_chan_reader :: "nat \<Rightarrow> chan_reader \<Rightarrow> channels \<Rightarrow> channels" where
  "set_chan_reader c p = set_channel c (\<lambda>k. k\<lparr>ch_reader := p\<rparr>)"

definition set_chan_writer :: "nat \<Rightarrow> chan_writer \<Rightarrow> channels \<Rightarrow> channels" where
  "set_chan_writer c p = set_channel c (\<lambda>k. k\<lparr>ch_writer := p\<rparr>)"

text \<open>\<open>inp\<close> is what \<open>ReadString\<close> returns: an error or a line. After an error the loop goes on and ends at its head.\<close>

definition Channel_loopRead :: "nat \<Rightarrow> unit + string \<Rightarrow> nat \<Rightarrow> channels \<Rightarrow> chan_outcome list" where
  "Channel_loopRead chanBufferSize inp c s =
     (case ch_reader (channel_at s c) of
        CCheck \<Rightarrow> [(CQuiet, Inr (), set_chan_reader c (if ch_isClosed (channel_at s c) then CEnd else CRead) s)]
      | CRead \<Rightarrow>
          (case inp of
             Inl _ \<Rightarrow> [chan_closing c (set_chan_reader c CCheck) s]
           | Inr data \<Rightarrow> [(ReadData c data, Inr (), set_chan_reader c (CQueue data) s)])
      | CQueue data \<Rightarrow>
          (if length (ch_inChan (channel_at s c)) < chanBufferSize
           then [(CQuiet, Inr (), set_chan_reader c CCheck (set_channel c (\<lambda>k. k\<lparr>ch_inChan := ch_inChan k @ [(1, data)]\<rparr>) s))]
           else []) @
          (if ch_closeChan (channel_at s c) then [chan_closing c (set_chan_reader c CCheck) s] else [])
      | CEnd \<Rightarrow> [])"

text \<open>
  \<open>write\<close> and \<open>flush\<close> tell whether the two calls succeed; each failure closes the channel. The message that
  is taken when the channel has been closed meanwhile is not written.
\<close>

definition write_line :: "bool \<Rightarrow> bool \<Rightarrow> int \<times> string \<Rightarrow> nat \<Rightarrow> channels \<Rightarrow> unit res \<times> channels" where
  "write_line write flush m c s =
     and_then (if write then (Inr (), s) else Channel_Close c s) (\<lambda>_ s1.
     and_then (if flush then (Inr (), s1) else Channel_Close c s1) (\<lambda>_ s2.
       (Inr (), if write \<and> flush then set_channel c (\<lambda>k. k\<lparr>ch_wire := ch_wire k @ snd m @ [CHR 0x0A]\<rparr>) s2 else s2)))"

definition Channel_loopWrite :: "bool \<Rightarrow> bool \<Rightarrow> nat \<Rightarrow> channels \<Rightarrow> chan_outcome list" where
  "Channel_loopWrite write flush c s =
     (case ch_writer (channel_at s c) of
        KSelect \<Rightarrow>
          (case ch_outChan (channel_at s c) of
             [] \<Rightarrow> []
           | m # ms \<Rightarrow> [(CQuiet, Inr (), set_chan_writer c (KHave m) (set_channel c (\<lambda>k. k\<lparr>ch_outChan := ms\<rparr>) s))]) @
          (if ch_closeChan (channel_at s c) then [chan_closing c (set_chan_writer c KEnd) s] else [])
      | KHave m \<Rightarrow>
          if ch_isClosed (channel_at s c) then [(CQuiet, Inr (), set_chan_writer c KEnd s)]
          else
            (case write_line write flush m c s of
               (r, s1) \<Rightarrow> [(CQuiet, r, set_chan_writer c KSelect s1)])
      | KEnd \<Rightarrow> [])"

text \<open>\<open>takes\<close> tells whether the application calls \<open>Read\<close>.\<close>

inductive chan_step :: "nat \<Rightarrow> bool \<Rightarrow> chan_event \<Rightarrow> channels \<Rightarrow> channels \<Rightarrow> bool" for cap takes where
  chan_opens: "chan_step cap takes CQuiet s (snd (GetChannel stream peerId handler s))"
| chan_reads: "c < length (cs_channels s) \<Longrightarrow> (ev, Inr (), s') \<in> set (Channel_loopRead cap inp c s) \<Longrightarrow>
    chan_step cap takes ev s s'"
| chan_writes: "c < length (cs_channels s) \<Longrightarrow> (ev, Inr (), s') \<in> set (Channel_loopWrite write flush c s) \<Longrightarrow>
    chan_step cap takes ev s s'"
| chan_accepts: "c < length (cs_channels s) \<Longrightarrow> (ev, r, s') \<in> set (Channel_Write cap m c s) \<Longrightarrow>
    chan_step cap takes ev s s'"
| chan_takes: "takes \<Longrightarrow> c < length (cs_channels s) \<Longrightarrow> (ev, r, s') \<in> set (Channel_Read c s) \<Longrightarrow>
    chan_step cap takes ev s s'"

inductive chan_run :: "nat \<Rightarrow> bool \<Rightarrow> channels \<Rightarrow> chan_event list \<Rightarrow> channels \<Rightarrow> bool" for cap takes s0 where
  chan_start: "chan_run cap takes s0 [] s0"
| chan_next: "chan_run cap takes s0 evs s \<Longrightarrow> chan_step cap takes ev s s' \<Longrightarrow>
    chan_run cap takes s0 (evs @ [ev]) s'"

definition no_channels :: channels where
  "no_channels = \<lparr>cs_channels = [], cs_pool = []\<rparr>"


section \<open>What a step changes\<close>

lemma set_channel_fields [simp]:
  "length (cs_channels (set_channel c f s)) = length (cs_channels s)" "cs_pool (set_channel c f s) = cs_pool s"
  "c < length (cs_channels s) \<Longrightarrow> channel_at (set_channel c f s) c = f (channel_at s c)"
  "c < length (cs_channels s) \<Longrightarrow> set_channel c f (set_channel c g s) = set_channel c (\<lambda>k. f (g k)) s"
  by (simp_all add: set_channel_def)

text \<open>
  A channel after \<open>n\<close> lines that have been read: if nothing takes them, they are in the channel of the
  received ones, but for one that the reader holds or has dropped when it found the channel closed.
\<close>

fun slack :: "chan_reader \<Rightarrow> bool \<Rightarrow> nat" where
  "slack (CQueue data) closed = 1"
| "slack CRead closed = 0"
| "slack CCheck closed = (if closed then 1 else 0)"
| "slack CEnd closed = (if closed then 1 else 0)"

lemma slack_closed: "slack p closed \<le> slack p True" "slack p closed \<le> 1"
  by (cases p; simp)+

definition chan_ok :: "nat \<Rightarrow> bool \<Rightarrow> nat \<Rightarrow> channel \<Rightarrow> bool" where
  "chan_ok cap takes n k \<longleftrightarrow> ch_closeChan k = ch_isClosed k \<and> ch_open k = (\<not> ch_isClosed k) \<and>
     length (ch_inChan k) \<le> cap \<and> length (ch_outChan k) \<le> cap \<and>
     (takes \<or> n \<le> length (ch_inChan k) + slack (ch_reader k) (ch_isClosed k))"

definition shut_channel :: "channel \<Rightarrow> channel" where
  "shut_channel k = k\<lparr>ch_open := False, ch_closeChan := True, ch_isClosed := True\<rparr>"

lemma shut_channel_simps [simp]:
  "shut_channel (shut_channel k) = shut_channel k" "ch_stream (shut_channel k) = ch_stream k"
  by (simp_all add: shut_channel_def)

definition chan_read_at :: "nat \<Rightarrow> chan_event \<Rightarrow> nat" where
  "chan_read_at c ev = (case ev of ReadData d _ \<Rightarrow> if d = c then 1 else 0 | _ \<Rightarrow> 0)"

lemma chan_ok_simps [simp]:
  "chan_ok cap takes n (k\<lparr>ch_writer := p\<rparr>) = chan_ok cap takes n k"
  "chan_ok cap takes n (k\<lparr>ch_wire := w\<rparr>) = chan_ok cap takes n k"
  by (simp_all add: chan_ok_def)

lemma chan_ok_out: "chan_ok cap takes n k \<Longrightarrow> length ms \<le> cap \<Longrightarrow> chan_ok cap takes n (k\<lparr>ch_outChan := ms\<rparr>)"
  by (simp add: chan_ok_def)

lemma chan_ok_close: "chan_ok cap takes n k \<Longrightarrow> chan_ok cap takes n (shut_channel k)"
  using slack_closed [of "ch_reader k" "ch_isClosed k"] by (auto simp: chan_ok_def shut_channel_def)

lemma chan_read_at_simps [simp]:
  "chan_read_at c CQuiet = 0" "chan_read_at c (Accepted d m) = 0" "chan_read_at c (Delivered d data) = 0"
  "chan_read_at c (ReadData c data) = 1" "d \<noteq> c \<Longrightarrow> chan_read_at d (ReadData c data) = 0"
  by (simp_all add: chan_read_at_def)

definition chan_moved :: "nat \<Rightarrow> bool \<Rightarrow> chan_event \<Rightarrow> nat \<Rightarrow> channels \<Rightarrow> channels \<Rightarrow> bool" where
  "chan_moved cap takes ev c s s' \<longleftrightarrow> (\<exists>k' out. cs_channels s' = (cs_channels s)[c := k'] \<and>
     (cs_pool s' = cs_pool s \<or> cs_pool s' = AList.delete out (cs_pool s)) \<and>
     (\<forall>d. d \<noteq> c \<longrightarrow> chan_read_at d ev = 0) \<and>
     (\<forall>n. chan_ok cap takes n (channel_at s c) \<longrightarrow> chan_ok cap takes (n + chan_read_at c ev) k'))"

lemma chan_movedI:
  assumes "c < length (cs_channels s)" and "s' = (set_channel c f s)\<lparr>cs_pool := P\<rparr>"
    and "P = cs_pool s \<or> P = AList.delete out (cs_pool s)" and "\<And>d. d \<noteq> c \<Longrightarrow> chan_read_at d ev = 0"
    and "\<And>n. chan_ok cap takes n (channel_at s c) \<Longrightarrow> chan_ok cap takes (n + chan_read_at c ev) (f (channel_at s c))"
  shows "chan_moved cap takes ev c s s'"
  using assms unfolding chan_moved_def
  by (intro exI [of _ "f (channel_at s c)"] exI [of _ out]) (auto simp: set_channel_def)

lemma chan_moved_same_pool:
  assumes "c < length (cs_channels s)" and "\<And>d. d \<noteq> c \<Longrightarrow> chan_read_at d ev = 0"
    and "\<And>n. chan_ok cap takes n (channel_at s c) \<Longrightarrow> chan_ok cap takes (n + chan_read_at c ev) (f (channel_at s c))"
  shows "chan_moved cap takes ev c s (set_channel c f s)"
  by (rule chan_movedI [OF assms(1), where P = "cs_pool s" and f = f]) (use assms(2,3) in \<open>simp_all add: set_channel_def\<close>)

lemma Channel_Close_eq:
  assumes "c < length (cs_channels s)" and "chan_ok cap takes n (channel_at s c)"
  shows "Channel_Close c s =
    (Inr (), (set_channel c shut_channel s)\<lparr>cs_pool := AList.delete (ch_stream (channel_at s c)) (cs_pool s)\<rparr>)"
proof -
  let ?k = "channel_at s c"
  have "shut_channel ?k = ?k\<lparr>ch_open := False\<rparr>" if "ch_isClosed ?k"
    using that assms(2) by (simp add: shut_channel_def chan_ok_def)
  then have "set_channel c (\<lambda>k. k\<lparr>ch_open := False\<rparr>) s = set_channel c shut_channel s" if "ch_isClosed ?k"
    using that by (simp add: set_channel_def)
  moreover have "(\<lambda>k. k\<lparr>ch_open := False, ch_closeChan := True, ch_isClosed := True\<rparr>) = shut_channel"
    by (simp add: fun_eq_iff shut_channel_def)
  ultimately show ?thesis
    using assms by (simp add: Channel_Close_def Let_def chan_ok_def)
qed

lemma set_channel_pool [simp]:
  "set_channel c f (s\<lparr>cs_pool := P\<rparr>) = (set_channel c f s)\<lparr>cs_pool := P\<rparr>"
  by (simp add: set_channel_def)

lemma chan_closing_eq:
  assumes "c < length (cs_channels s)" and "chan_ok cap takes n (channel_at s c)"
  shows "chan_closing c (set_channel c f) s = (CQuiet, Inr (),
    (set_channel c (\<lambda>k. f (shut_channel k)) s)\<lparr>cs_pool := AList.delete (ch_stream (channel_at s c)) (cs_pool s)\<rparr>)"
  using assms by (simp add: chan_closing_def Channel_Close_eq)

lemmas chan_defs = chan_ok_def chan_read_at_def shut_channel_def

lemma loopRead_moved:
  assumes "c < length (cs_channels s)" and "chan_ok cap takes n (channel_at s c)"
    and "(ev, Inr (), s') \<in> set (Channel_loopRead cap inp c s)"
  shows "chan_moved cap takes ev c s s'"
proof -
  note c = assms(1) and closing = chan_closing_eq [OF assms(1,2)]
  show ?thesis
  proof (cases "ch_reader (channel_at s c)")
    case CCheck
    with assms(3) have s': "ev = CQuiet" "s' = set_channel c (\<lambda>k. k\<lparr>ch_reader := if ch_isClosed (channel_at s c) then CEnd else CRead\<rparr>) s"
      by (auto simp: Channel_loopRead_def set_chan_reader_def)
    show ?thesis unfolding s'
      by (rule chan_moved_same_pool [OF c]) (use CCheck in \<open>auto simp: chan_defs set_channel_def\<close>)
  next
    case CRead
    show ?thesis
    proof (cases inp)
      case (Inl e)
      with CRead assms(3) have s': "ev = CQuiet" "s' = (set_channel c (\<lambda>k. (shut_channel k)\<lparr>ch_reader := CCheck\<rparr>) s)\<lparr>
          cs_pool := AList.delete (ch_stream (channel_at s c)) (cs_pool s)\<rparr>"
        by (auto simp: Channel_loopRead_def set_chan_reader_def closing)
      show ?thesis unfolding s' by (rule chan_movedI [OF c refl disjI2 [OF refl]]) (use CRead in \<open>auto simp: chan_defs\<close>)
    next
      case (Inr data)
      with CRead assms(3) have s': "ev = ReadData c data" "s' = set_channel c (\<lambda>k. k\<lparr>ch_reader := CQueue data\<rparr>) s"
        by (auto simp: Channel_loopRead_def set_chan_reader_def)
      show ?thesis unfolding s'
        by (rule chan_moved_same_pool [OF c]) (use CRead in \<open>auto simp: chan_defs set_channel_def\<close>)
    qed
  next
    case (CQueue data)
    with assms(3) c consider "ev = CQuiet" "length (ch_inChan (channel_at s c)) < cap"
        "s' = set_channel c (\<lambda>k. k\<lparr>ch_inChan := ch_inChan k @ [(1, data)], ch_reader := CCheck\<rparr>) s"
      | "ev = CQuiet" "s' = (set_channel c (\<lambda>k. (shut_channel k)\<lparr>ch_reader := CCheck\<rparr>) s)\<lparr>
          cs_pool := AList.delete (ch_stream (channel_at s c)) (cs_pool s)\<rparr>"
      by (auto simp: Channel_loopRead_def set_chan_reader_def closing split: if_splits)
    then show ?thesis
    proof cases
      case 1
      show ?thesis unfolding 1(1,3)
        by (rule chan_moved_same_pool [OF c]) (use CQueue 1(2) in \<open>auto simp: chan_defs set_channel_def\<close>)
    next
      case 2
      show ?thesis unfolding 2 by (rule chan_movedI [OF c refl disjI2 [OF refl]]) (use CQueue in \<open>auto simp: chan_defs\<close>)
    qed
  qed (use assms(3) in \<open>simp add: Channel_loopRead_def\<close>)
qed

lemma write_line_eq:
  assumes "c < length (cs_channels s)" and "chan_ok cap takes n (channel_at s c)"
  shows "\<exists>f P. write_line write flush m c s = (Inr (), (set_channel c f s)\<lparr>cs_pool := P\<rparr>) \<and>
    (P = cs_pool s \<or> P = AList.delete (ch_stream (channel_at s c)) (cs_pool s)) \<and>
    (\<forall>n. chan_ok cap takes n (channel_at s c) \<longrightarrow> chan_ok cap takes n (f (channel_at s c)))"
proof -
  let ?k = "channel_at s c" and ?P = "AList.delete (ch_stream (channel_at s c)) (cs_pool s)"
  have closed: "chan_ok cap takes n (shut_channel k)" if "chan_ok cap takes n k" for n k
    using that by (rule chan_ok_close)
  let ?s1 = "(set_channel c shut_channel s)\<lparr>cs_pool := ?P\<rparr>"
  have close: "Channel_Close c s = (Inr (), ?s1)" by (rule Channel_Close_eq [OF assms])
  have again: "Channel_Close c ?s1 = (Inr (), ?s1)"
    using Channel_Close_eq [of c ?s1 cap takes n] assms closed [OF assms(2)]
    by (simp add: AList.delete_idem)
  consider "write" "flush" | "\<not> write" "flush" | "write" "\<not> flush" | "\<not> write" "\<not> flush" by blast
  then show ?thesis
  proof cases
    case 1
    then show ?thesis
      by (intro exI [of _ "\<lambda>k. k\<lparr>ch_wire := ch_wire k @ snd m @ [CHR 0x0A]\<rparr>"] exI [of _ "cs_pool s"])
        (simp add: write_line_def chan_ok_def set_channel_def)
  next
    case 4
    then show ?thesis using closed
      by (intro exI [of _ shut_channel] exI [of _ ?P]) (simp add: write_line_def close again)
  qed (use closed in \<open>intro exI [of _ shut_channel] exI [of _ ?P], simp add: write_line_def close\<close>)+
qed

lemma loopWrite_moved:
  assumes "c < length (cs_channels s)" and "chan_ok cap takes n (channel_at s c)"
    and "(ev, Inr (), s') \<in> set (Channel_loopWrite write flush c s)"
  shows "chan_moved cap takes ev c s s'"
proof -
  note c = assms(1)
  show ?thesis
  proof (cases "ch_writer (channel_at s c)")
    case KSelect
    with assms(3) c consider m ms where "ev = CQuiet" "ch_outChan (channel_at s c) = m # ms"
        "s' = set_channel c (\<lambda>k. k\<lparr>ch_outChan := ms, ch_writer := KHave m\<rparr>) s"
      | "ev = CQuiet" "s' = (set_channel c (\<lambda>k. (shut_channel k)\<lparr>ch_writer := KEnd\<rparr>) s)\<lparr>
          cs_pool := AList.delete (ch_stream (channel_at s c)) (cs_pool s)\<rparr>"
      by (cases "ch_outChan (channel_at s c)")
        (auto simp: Channel_loopWrite_def set_chan_writer_def chan_closing_eq [OF assms(1,2)] split: if_splits)
    then show ?thesis
    proof cases
      case 1
      show ?thesis unfolding 1(1,3)
        by (rule chan_moved_same_pool [OF c]) (use 1(2) in \<open>auto simp: chan_ok_def\<close>)
    next
      case 2
      show ?thesis unfolding 2
        by (rule chan_movedI [OF c refl disjI2 [OF refl]]) (auto intro: chan_ok_close)
    qed
  next
    case (KHave m)
    show ?thesis
    proof (cases "ch_isClosed (channel_at s c)")
      case True
      with KHave assms(3) have s': "ev = CQuiet" "s' = set_channel c (\<lambda>k. k\<lparr>ch_writer := KEnd\<rparr>) s"
        by (auto simp: Channel_loopWrite_def set_chan_writer_def)
      show ?thesis unfolding s' by (rule chan_moved_same_pool [OF c]) (auto simp: set_channel_def)
    next
      case False
      obtain f P where line: "write_line write flush m c s = (Inr (), (set_channel c f s)\<lparr>cs_pool := P\<rparr>)"
        and P: "P = cs_pool s \<or> P = AList.delete (ch_stream (channel_at s c)) (cs_pool s)"
        and f: "\<forall>n. chan_ok cap takes n (channel_at s c) \<longrightarrow> chan_ok cap takes n (f (channel_at s c))"
        using write_line_eq [OF assms(1,2), of "write" flush m] by blast
      with False KHave assms(3) c have s': "ev = CQuiet" "s' = (set_channel c (\<lambda>k. (f k)\<lparr>ch_writer := KSelect\<rparr>) s)\<lparr>cs_pool := P\<rparr>"
        by (auto simp: Channel_loopWrite_def set_chan_writer_def)
      show ?thesis unfolding s' by (rule chan_movedI [OF c refl P]) (use f in \<open>auto simp: set_channel_def\<close>)
    qed
  qed (use assms(3) in \<open>simp add: Channel_loopWrite_def\<close>)
qed


lemma Channel_Write_moved:
  assumes "c < length (cs_channels s)" and "(ev, r, s') \<in> set (Channel_Write cap m c s)"
  shows "chan_moved cap takes ev c s s'"
proof -
  from assms(2) consider "ev = Accepted c m" "length (ch_outChan (channel_at s c)) < cap"
      "s' = set_channel c (\<lambda>k. k\<lparr>ch_outChan := ch_outChan k @ [m]\<rparr>) s"
    | "ev = CQuiet" "s' = set_channel c (\<lambda>k. k) s"
    by (auto simp: Channel_Write_def set_channel_def split: if_splits)
  then show ?thesis
  proof cases
    case 1
    show ?thesis unfolding 1(1,3)
      by (rule chan_moved_same_pool [OF assms(1)])
        (use 1(2) in \<open>auto simp: set_channel_def intro: chan_ok_out\<close>)
  next
    case 2
    show ?thesis unfolding 2
      by (rule chan_moved_same_pool [OF assms(1)]) (auto simp: chan_read_at_def set_channel_def)
  qed
qed

lemma Channel_Read_moved:
  assumes "c < length (cs_channels s)" and "(ev, r, s') \<in> set (Channel_Read c s)"
  shows "chan_moved cap True ev c s s'"
proof -
  from assms(2) consider m ms where "\<forall>d. chan_read_at d ev = 0" "ch_inChan (channel_at s c) = m # ms"
      "s' = set_channel c (\<lambda>k. k\<lparr>ch_inChan := ms\<rparr>) s"
    | "\<forall>d. chan_read_at d ev = 0" "s' = set_channel c (\<lambda>k. k) s"
    by (cases "ch_inChan (channel_at s c)") (auto simp: Channel_Read_def chan_read_at_def set_channel_def split: if_splits)
  then show ?thesis
  proof cases
    case 1
    show ?thesis unfolding 1(3)
      by (rule chan_moved_same_pool [OF assms(1)]) (use 1(1,2) in \<open>auto simp: chan_ok_def set_channel_def\<close>)
  next
    case 2
    show ?thesis unfolding 2(2)
      by (rule chan_moved_same_pool [OF assms(1)]) (use 2(1) in \<open>auto simp: set_channel_def\<close>)
  qed
qed

definition lines_read :: "nat \<Rightarrow> chan_event list \<Rightarrow> nat" where
  "lines_read c evs = sum_list (map (chan_read_at c) evs)"

lemma lines_read_simps [simp]:
  "lines_read c [] = 0" "lines_read c (evs @ [ev]) = lines_read c evs + chan_read_at c ev"
  by (simp_all add: lines_read_def)

definition channels_ok :: "nat \<Rightarrow> bool \<Rightarrow> chan_event list \<Rightarrow> channels \<Rightarrow> bool" where
  "channels_ok cap takes evs s \<longleftrightarrow>
     (\<forall>c < length (cs_channels s). chan_ok cap takes (lines_read c evs) (channel_at s c)) \<and>
     (\<forall>c \<ge> length (cs_channels s). lines_read c evs = 0) \<and>
     (\<forall>(peerId, c) \<in> set (cs_pool s). c < length (cs_channels s))"

lemma moved_ok:
  assumes ok: "channels_ok cap takes evs s" and c: "c < length (cs_channels s)" and "chan_moved cap takes ev c s s'"
  shows "channels_ok cap takes (evs @ [ev]) s'"
proof -
  from assms(3) obtain k' out where k': "cs_channels s' = (cs_channels s)[c := k']"
    and pool: "cs_pool s' = cs_pool s \<or> cs_pool s' = AList.delete out (cs_pool s)"
    and other: "\<And>d. d \<noteq> c \<Longrightarrow> chan_read_at d ev = 0"
    and step: "\<And>n. chan_ok cap takes n (channel_at s c) \<Longrightarrow> chan_ok cap takes (n + chan_read_at c ev) k'"
    unfolding chan_moved_def by blast
  have "set (cs_pool s') \<subseteq> set (cs_pool s)" using pool by (auto simp: AList.delete_eq)
  with ok c k' other step show ?thesis
    by (auto simp: channels_ok_def nth_list_update)
qed

lemma new_channel_ok [simp]: "chan_ok cap takes 0 (new_channel stream handler)"
  by (simp add: chan_ok_def new_channel_def)

lemma set_update_subset: "set (AList.update k v ps) \<subseteq> insert (k, v) (set ps)"
  by (induction ps) auto

lemma opened_channel_ok:
  assumes "channels_ok cap takes evs s"
  shows "channels_ok cap takes (evs @ [CQuiet]) (snd (GetChannel stream peerId handler s))"
proof (cases "map_of (cs_pool s) peerId")
  case None
  let ?s = "snd (GetChannel stream peerId handler s)"
  have s': "cs_channels ?s = cs_channels s @ [new_channel stream handler]"
    "cs_pool ?s = AList.update peerId (length (cs_channels s)) (cs_pool s)"
    using None by (simp_all add: GetChannel_def)
  have "d < length (cs_channels ?s)" if "(k, d) \<in> set (cs_pool ?s)" for k d
    using that set_update_subset [of peerId "length (cs_channels s)" "cs_pool s"] assms
    unfolding s' channels_ok_def by fastforce
  then have pool: "\<forall>(k, d) \<in> set (cs_pool ?s). d < length (cs_channels ?s)" by blast
  have "chan_ok cap takes (lines_read d (evs @ [CQuiet])) (channel_at ?s d)" if "d < length (cs_channels ?s)" for d
    using that assms by (cases "d < length (cs_channels s)") (auto simp: s' channels_ok_def nth_append less_Suc_eq)
  with pool assms show ?thesis
    by (auto simp: s' channels_ok_def nth_append less_Suc_eq)
qed (use assms in \<open>simp add: GetChannel_def channels_ok_def\<close>)

lemma chan_step_ok:
  assumes "chan_step cap takes ev s s'" and "channels_ok cap takes evs s"
  shows "channels_ok cap takes (evs @ [ev]) s'"
  using assms(1)
proof cases
  case (chan_opens stream peerId handler)
  then show ?thesis using opened_channel_ok [OF assms(2)] by simp
next
  case (chan_reads c inp)
  with assms(2) show ?thesis by (blast intro: moved_ok [OF assms(2)] loopRead_moved dest: channels_ok_def [THEN iffD1])
next
  case (chan_writes c "write" flush)
  with assms(2) show ?thesis by (blast intro: moved_ok [OF assms(2)] loopWrite_moved dest: channels_ok_def [THEN iffD1])
next
  case (chan_accepts c r m)
  then show ?thesis by (blast intro: moved_ok [OF assms(2)] Channel_Write_moved)
next
  case (chan_takes c r)
  with assms(2) show ?thesis using moved_ok [OF assms(2) chan_takes(2)] Channel_Read_moved [OF chan_takes(2,3)] by simp
qed

lemma chan_run_ok: "chan_run cap takes no_channels evs s \<Longrightarrow> channels_ok cap takes evs s"
proof (induction rule: chan_run.induct)
  case chan_start
  show ?case by (simp add: channels_ok_def no_channels_def lines_read_def)
qed (rule chan_step_ok)


section \<open>Properties\<close>

text \<open>
  In every reachable state the close channel of a channel is closed exactly when it is marked as closed, so
  that closing it again does not panic, the queues fit, and the pool has existing channels.
\<close>

theorem channels_invariant:
  assumes "chan_run cap takes no_channels evs s" and "c < length (cs_channels s)"
  shows "ch_closeChan (channel_at s c) = ch_isClosed (channel_at s c) \<and>
    length (ch_inChan (channel_at s c)) \<le> cap \<and> length (ch_outChan (channel_at s c)) \<le> cap \<and>
    fst (Channel_Close c s) = Inr () \<and> list_all (\<lambda>(peerId, d). d < length (cs_channels s)) (cs_pool s)"
proof -
  have ok: "channels_ok cap takes evs s" using assms(1) by (rule chan_run_ok)
  with assms(2) have c: "chan_ok cap takes (lines_read c evs) (channel_at s c)" by (simp add: channels_ok_def)
  from ok have "list_all (\<lambda>(peerId, d). d < length (cs_channels s)) (cs_pool s)"
    by (simp add: channels_ok_def list_all_iff)
  with c Channel_Close_eq [OF assms(2) c] show ?thesis by (simp add: chan_ok_def)
qed

text \<open>
  C36: nothing in the program calls \<open>Read\<close>. Then a channel reads at most one line more than its buffer holds, and
  its handler is never called.
\<close>

theorem unread_channel_blocks:
  assumes "chan_run cap False no_channels evs s"
  shows "lines_read c evs \<le> cap + 1 \<and> (\<forall>data. Delivered c data \<notin> set evs)"
proof
  have ok: "channels_ok cap False evs s" using assms by (rule chan_run_ok)
  show "lines_read c evs \<le> cap + 1"
  proof (cases "c < length (cs_channels s)")
    case True
    with ok show ?thesis
      using slack_closed(2) [of "ch_reader (channel_at s c)" "ch_isClosed (channel_at s c)"]
      by (force simp: channels_ok_def chan_ok_def)
  qed (use ok in \<open>simp add: channels_ok_def\<close>)
  have quiet: "ev \<noteq> Delivered c data" if "chan_step cap False ev s s'" for ev s s' data
    using that
  proof cases
    case (chan_reads d inp)
    then show ?thesis
      by (auto simp: Channel_loopRead_def chan_closing_def split: chan_reader.splits sum.splits prod.splits if_splits)
  next
    case (chan_writes d "write" flush)
    then show ?thesis
      by (auto simp: Channel_loopWrite_def chan_closing_def split: chan_writer.splits list.splits prod.splits if_splits)
  next
    case (chan_accepts d r m)
    then show ?thesis by (auto simp: Channel_Write_def split: if_splits)
  qed simp_all
  from assms show "\<forall>data. Delivered c data \<notin> set evs"
    by (induction rule: chan_run.induct) (auto dest: quiet)
qed

text \<open>
  A channel that has been closed stays in the pool, when its stream has another identity than the peer:
  the next call for that peer gives the closed channel, whatever the new stream.
\<close>

theorem closed_channel_returned:
  assumes "chan_run cap takes no_channels evs s" and "c < length (cs_channels s)"
    and "map_of (cs_pool s) peerId = Some c" and "ch_stream (channel_at s c) \<noteq> peerId"
  shows "\<exists>s'. Channel_Close c s = (Inr (), s') \<and> GetChannel stream peerId handler s' = (c, s') \<and>
    ch_isClosed (channel_at s' c) \<and> \<not> ch_open (channel_at s' c)"
proof -
  have "chan_ok cap takes (lines_read c evs) (channel_at s c)"
    using chan_run_ok [OF assms(1)] assms(2) by (simp add: channels_ok_def)
  from Channel_Close_eq [OF assms(2) this] assms(2-4) show ?thesis
    by (simp add: GetChannel_def AList.delete_conv' shut_channel_def)
qed

section \<open>Witnesses\<close>

definition channels_sample :: channels where
  "channels_sample = snd (GetChannel ''stream'' ''peer'' True no_channels)"

lemma channels_sample_run: "chan_run 1 False no_channels ([] @ [CQuiet]) channels_sample"
  unfolding channels_sample_def by (rule chan_next [OF chan_start chan_opens])

lemma channels_sample_fields [simp]:
  "length (cs_channels channels_sample) = 1" "channel_at channels_sample 0 = new_channel ''stream'' True"
  "map_of (cs_pool channels_sample) ''peer'' = Some 0"
  by (simp_all add: channels_sample_def GetChannel_def no_channels_def)

theorem channels_invariant_witness: "fst (Channel_Close 0 channels_sample) = Inr ()"
  using channels_invariant [OF channels_sample_run, of 0] by simp

theorem unread_channel_blocks_witness: "lines_read 0 ([] @ [CQuiet]) \<le> 2"
  using unread_channel_blocks [OF channels_sample_run, of 0] by simp

theorem closed_channel_returned_witness:
  "\<exists>s'. fst (GetChannel ''other'' ''peer'' True s') = 0 \<and> ch_isClosed (channel_at s' 0)"
proof -
  obtain s' where "GetChannel ''other'' ''peer'' True s' = (0, s')" "ch_isClosed (channel_at s' 0)"
    using closed_channel_returned [OF channels_sample_run, of 0 "''peer''" "''other''" True]
    by (auto simp: new_channel_def)
  then show ?thesis by (intro exI [of _ s']) simp
qed

end
