(* ===== verification/MediaFiles.thy ===== *)
theory MediaFiles
  imports Prelude "HOL-Library.Signed_Division"
begin

text \<open>
  Media files: \<^verbatim>\<open>webrtc/stream/file.go\<close>, which plays video and audio files on a local track, saves the
  packets of remote tracks, and takes a picture of a video. The readers and writers of the file formats and
  the builder that puts packets together to samples are libraries and parameters; what a reader gives is a
  list of what it reads with the error with which reading ends, \<open>None\<close> for \<^verbatim>\<open>io.EOF\<close>. A loop that may not
  end is a partial function, whose value \<open>None\<close> is a loop that does not return.
\<close>

section \<open>Playing files\<close>

type_synonym duration = "64 word"

definition second :: duration where
  "second = 1000000000"

definition millisecond :: duration where
  "millisecond = 1000000"

record ivf_header =
  ih_TimebaseNumerator :: "32 word"
  ih_TimebaseDenominator :: "32 word"

record ogg_page =
  op_Data :: string
  op_GranulePosition :: "64 word"

record nal_unit =
  nu_UnitType :: nat
  nu_Data :: string

definition NalUnitTypeSPS :: nat where "NalUnitTypeSPS = 7"
definition NalUnitTypePPS :: nat where "NalUnitTypePPS = 8"

text \<open>
  The files and the track. The two functions of the floating point numbers give the milliseconds of a frame,
  \<^verbatim>\<open>time.Duration((float32(n)/float32(d))*1000)\<close>, and of some samples,
  \<^verbatim>\<open>time.Duration((sampleCount/48000)*1000)\<close>.
\<close>

record 'w player =
  pl_Exists :: "string \<Rightarrow> 'w \<Rightarrow> bool"
  pl_OpenIvf :: "string \<Rightarrow> 'w \<Rightarrow> (ivf_header \<times> string list \<times> go_error option) res"
  pl_OpenOgg :: "string \<Rightarrow> 'w \<Rightarrow> (ogg_page list \<times> go_error option) res"
  pl_Stdin :: "'w \<Rightarrow> (nal_unit list \<times> go_error option) res"
  pl_WriteSample :: "nat \<Rightarrow> string \<Rightarrow> duration \<Rightarrow> 'w \<Rightarrow> go_error option \<times> 'w"
  pl_Sleep :: "duration \<Rightarrow> 'w \<Rightarrow> 'w"
  pl_FrameMillis :: "32 word \<Rightarrow> 32 word \<Rightarrow> duration"
  pl_SampleMillis :: "64 word \<Rightarrow> duration"

text \<open>The simulated encryption, in place.\<close>

definition encrypt :: "string \<Rightarrow> string" where
  "encrypt frame = map (\<lambda>c. char_of (xor (of_char c :: nat) 0)) frame"

fun play_frames :: "'w player \<Rightarrow> nat \<Rightarrow> duration \<Rightarrow> string list \<Rightarrow> 'w \<Rightarrow> 'w" where
  "play_frames F track sleepTime [] w = w"
| "play_frames F track sleepTime (frame # frames) w =
     (case pl_WriteSample F track (encrypt frame) second (pl_Sleep F sleepTime w) of
        (Some _, w1) \<Rightarrow> w1
      | (None, w1) \<Rightarrow> play_frames F track sleepTime frames w1)"

text \<open>What the goroutine of \<open>readVideo\<close> does; when there is no such file, it is not started.\<close>

definition readVideo :: "'w player \<Rightarrow> string \<Rightarrow> nat \<Rightarrow> 'w \<Rightarrow> 'w" where
  "readVideo F name track w =
     (if \<not> pl_Exists F name w then w
      else
        (case pl_OpenIvf F name w of
           Inl _ \<Rightarrow> w
         | Inr (header, frames, _) \<Rightarrow>
             play_frames F track
               (millisecond * pl_FrameMillis F (ih_TimebaseNumerator header) (ih_TimebaseDenominator header)) frames w))"

text \<open>The frames come from the standard input, whatever the name of the file.\<close>

fun play_nals :: "'w player \<Rightarrow> nat \<Rightarrow> nal_unit list \<Rightarrow> 'w \<Rightarrow> 'w" where
  "play_nals F track [] w = w"
| "play_nals F track (nal # nals) w =
     (let w1 = (if nu_UnitType nal \<noteq> NalUnitTypeSPS \<and> nu_UnitType nal \<noteq> NalUnitTypePPS
                then pl_Sleep F (millisecond * 16) w else w) in
      case pl_WriteSample F track (nu_Data nal) second w1 of
        (Some _, w2) \<Rightarrow> w2
      | (None, w2) \<Rightarrow> play_nals F track nals w2)"

definition readH264Video :: "'w player \<Rightarrow> string \<Rightarrow> nat \<Rightarrow> 'w \<Rightarrow> 'w" where
  "readH264Video F name track w =
     (if \<not> pl_Exists F name w then w
      else (case pl_Stdin F w of Inl _ \<Rightarrow> w | Inr (nals, _) \<Rightarrow> play_nals F track nals w))"

text \<open>The audio ends with a panic of its goroutine when a sample cannot be written.\<close>

fun play_pages :: "'w player \<Rightarrow> nat \<Rightarrow> 64 word \<Rightarrow> ogg_page list \<Rightarrow> 'w \<Rightarrow> unit res \<times> 'w" where
  "play_pages F track lastGranule [] w = (Inr (), w)"
| "play_pages F track lastGranule (page # pages) w =
     (let sampleDuration = pl_SampleMillis F (op_GranulePosition page - lastGranule) * millisecond in
      case pl_WriteSample F track (op_Data page) sampleDuration w of
        (Some (Err e), w1) \<Rightarrow> (Inl (Panic e), w1)
      | (Some (Panic e), w1) \<Rightarrow> (Inl (Panic e), w1)
      | (None, w1) \<Rightarrow> play_pages F track (op_GranulePosition page) pages (pl_Sleep F sampleDuration w1))"

definition readAudio :: "'w player \<Rightarrow> string \<Rightarrow> nat \<Rightarrow> 'w \<Rightarrow> unit res \<times> 'w" where
  "readAudio F name track w =
     (if \<not> pl_Exists F name w then (Inr (), w)
      else (case pl_OpenOgg F name w of Inl _ \<Rightarrow> (Inr (), w) | Inr (pages, _) \<Rightarrow> play_pages F track 0 pages w))"

section \<open>Saving tracks\<close>

text \<open>
  The remote tracks, the files they are saved to, and the builder of samples, whose state is of type \<open>'b\<close>.
  A handle is a number.
\<close>

record media_sample =
  sa_Data :: string
  sa_Duration :: duration

record ('w, 'b) saving =
  sv_ReadRTP :: "nat \<Rightarrow> 'w \<Rightarrow> string res \<times> 'w"
  sv_Audio :: "nat \<Rightarrow> bool"
  sv_Video :: "nat \<Rightarrow> bool"
  sv_Codec :: "nat \<Rightarrow> string"
  sv_OpenFile :: "string \<Rightarrow> 'w \<Rightarrow> nat res \<times> 'w"
  sv_OggWriter :: "string \<Rightarrow> 'w \<Rightarrow> nat res \<times> 'w"
  sv_IvfWriter :: "string \<Rightarrow> 'w \<Rightarrow> nat res \<times> 'w"
  sv_WriteRTP :: "nat \<Rightarrow> string \<Rightarrow> 'w \<Rightarrow> go_error option \<times> 'w"
  sv_CloseFile :: "nat \<Rightarrow> 'w \<Rightarrow> go_error option \<times> 'w"
  sv_BlockWriters :: "nat \<Rightarrow> 64 word \<Rightarrow> 64 word \<Rightarrow> 'w \<Rightarrow> (nat \<times> nat) res \<times> 'w"
  sv_WriteBlock :: "nat \<Rightarrow> bool \<Rightarrow> int \<Rightarrow> string \<Rightarrow> 'w \<Rightarrow> go_error option \<times> 'w"
  sv_CloseBlocks :: "nat \<Rightarrow> 'w \<Rightarrow> go_error option \<times> 'w"
  sv_Opus :: 'b
  sv_VP8 :: 'b
  sv_Push :: "string \<Rightarrow> 'b \<Rightarrow> 'b"
  sv_Pop :: "'b \<Rightarrow> media_sample option \<times> 'b"

text \<open>A file is closed when its loop is left, also by a panic; an error of closing is logged.\<close>

partial_function (option) save_packets ::
  "('w, 'b) saving \<Rightarrow> nat \<Rightarrow> nat \<Rightarrow> 'w \<Rightarrow> (unit res \<times> 'w) option" where
  "save_packets S file track w =
     (case sv_ReadRTP S track w of
        (Inl (Err e), w1) \<Rightarrow> Some (Inl (Panic e), w1)
      | (Inl (Panic e), w1) \<Rightarrow> Some (Inl (Panic e), w1)
      | (Inr packet, w1) \<Rightarrow>
          (case sv_WriteRTP S file packet w1 of
             (Some _, w2) \<Rightarrow> Some (Inr (), w2)
           | (None, w2) \<Rightarrow> save_packets S file track w2))"

definition saveToDisk :: "('w, 'b) saving \<Rightarrow> nat \<Rightarrow> nat \<Rightarrow> 'w \<Rightarrow> (unit res \<times> 'w) option" where
  "saveToDisk S file track w =
     map_option (\<lambda>(r, w1). (r, snd (sv_CloseFile S file w1))) (save_packets S file track w)"

definition writeAudio :: "('w, 'b) saving \<Rightarrow> string \<Rightarrow> nat \<Rightarrow> 'w \<Rightarrow> (unit res \<times> 'w) option" where
  "writeAudio S name track w =
     (case sv_OggWriter S name w of
        (Inl _, w1) \<Rightarrow> Some (Inr (), w1)
      | (Inr file, w1) \<Rightarrow> if sv_Codec S track = ''audio/opus'' then saveToDisk S file track w1 else Some (Inr (), w1))"

definition writeVideo :: "('w, 'b) saving \<Rightarrow> string \<Rightarrow> nat \<Rightarrow> 'w \<Rightarrow> (unit res \<times> 'w) option" where
  "writeVideo S name track w =
     (case sv_IvfWriter S name w of
        (Inl _, w1) \<Rightarrow> Some (Inr (), w1)
      | (Inr file, w1) \<Rightarrow> if sv_Codec S track = ''video/VP8'' then saveToDisk S file track w1 else Some (Inr (), w1))"

section \<open>Saving audio and video together\<close>

record 'b webm_saver =
  wm_audioWriter :: "nat option"
  wm_videoWriter :: "nat option"
  wm_audioBuilder :: 'b
  wm_videoBuilder :: 'b
  wm_audioTimestamp :: duration
  wm_videoTimestamp :: duration
  wm_filename :: string

definition newWebmSaver :: "('w, 'b) saving \<Rightarrow> string \<Rightarrow> 'b webm_saver" where
  "newWebmSaver S filename =
     \<lparr>wm_audioWriter = None, wm_videoWriter = None, wm_audioBuilder = sv_Opus S, wm_videoBuilder = sv_VP8 S,
      wm_audioTimestamp = 0, wm_videoTimestamp = 0, wm_filename = filename\<rparr>"

definition close_blocks :: "('w, 'b) saving \<Rightarrow> nat option \<Rightarrow> 'w \<Rightarrow> unit res \<times> 'w" where
  "close_blocks S writer w =
     (case writer of
        None \<Rightarrow> (Inr (), w)
      | Some b \<Rightarrow> (case sv_CloseBlocks S b w of (None, w1) \<Rightarrow> (Inr (), w1) | (Some e, w1) \<Rightarrow> (Inl e, w1)))"

definition saver_Close :: "('w, 'b) saving \<Rightarrow> 'b webm_saver \<Rightarrow> 'w \<Rightarrow> unit res \<times> 'w" where
  "saver_Close S s w =
     and_then (close_blocks S (wm_audioWriter s) w) (\<lambda>_ w1. close_blocks S (wm_videoWriter s) w1)"

definition millis :: "duration \<Rightarrow> int" where
  "millis t = sint t sdiv sint millisecond"

text \<open>
  The loop over what a builder gives: \<^verbatim>\<open>for { sample := builder.Pop(); if sample == nil { return nil }; ... }\<close>
\<close>

partial_function (option) drain ::
  "('s \<Rightarrow> media_sample option \<times> 's) \<Rightarrow> (media_sample \<Rightarrow> 's \<Rightarrow> 'w \<Rightarrow> unit res \<times> 's \<times> 'w) \<Rightarrow> 's \<Rightarrow> 'w \<Rightarrow>
   (unit res \<times> 's \<times> 'w) option" where
  "drain pop body s w =
     (case pop s of
        (None, s1) \<Rightarrow> Some (Inr (), s1, w)
      | (Some sample, s1) \<Rightarrow>
          (case body sample s1 w of
             (Inl e, s2, w2) \<Rightarrow> Some (Inl e, s2, w2)
           | (Inr _, s2, w2) \<Rightarrow> drain pop body s2 w2))"

definition pop_audio :: "('w, 'b) saving \<Rightarrow> 'b webm_saver \<Rightarrow> media_sample option \<times> 'b webm_saver" where
  "pop_audio S s = (case sv_Pop S (wm_audioBuilder s) of (x, b) \<Rightarrow> (x, s\<lparr>wm_audioBuilder := b\<rparr>))"

definition pop_video :: "('w, 'b) saving \<Rightarrow> 'b webm_saver \<Rightarrow> media_sample option \<times> 'b webm_saver" where
  "pop_video S s = (case sv_Pop S (wm_videoBuilder s) of (x, b) \<Rightarrow> (x, s\<lparr>wm_videoBuilder := b\<rparr>))"

definition write_webm ::
  "('w, 'b) saving \<Rightarrow> nat \<Rightarrow> bool \<Rightarrow> string \<Rightarrow> 'b webm_saver \<Rightarrow> 'w \<Rightarrow> unit res \<times> 'b webm_saver \<times> 'w" where
  "write_webm S writer key d s w =
     (case sv_WriteBlock S writer key (millis (wm_audioTimestamp s)) d w of
        (Some e, w1) \<Rightarrow> (Inl e, s, w1)
      | (None, w1) \<Rightarrow> (Inr (), s, w1))"

text \<open>Before the writers are there, audio is dropped.\<close>

definition write_audio ::
  "('w, 'b) saving \<Rightarrow> media_sample \<Rightarrow> 'b webm_saver \<Rightarrow> 'w \<Rightarrow> unit res \<times> 'b webm_saver \<times> 'w" where
  "write_audio S sample s w =
     (case wm_audioWriter s of
        None \<Rightarrow> (Inr (), s, w)
      | Some writer \<Rightarrow>
          write_webm S writer True (sa_Data sample)
            (s\<lparr>wm_audioTimestamp := wm_audioTimestamp s + sa_Duration sample\<rparr>) w)"

definition PushOpus ::
  "('w, 'b) saving \<Rightarrow> string \<Rightarrow> 'b webm_saver \<Rightarrow> 'w \<Rightarrow> (unit res \<times> 'b webm_saver \<times> 'w) option" where
  "PushOpus S packet s w =
     drain (pop_audio S) (write_audio S) (s\<lparr>wm_audioBuilder := sv_Push S packet (wm_audioBuilder s)\<rparr>) w"

text \<open>The header of a frame of VP8; a byte that is not there is a panic.\<close>

definition byte :: "string \<Rightarrow> nat \<Rightarrow> 64 word res" where
  "byte d i = (if i < length d then Inr (of_char (d ! i)) else Inl (Panic ''index out of range''))"

definition keyframe :: "string \<Rightarrow> bool res" where
  "keyframe d = map_sum id (\<lambda>b. and b 1 = 0) (byte d 0)"

definition frame_size :: "string \<Rightarrow> (64 word \<times> 64 word) res" where
  "frame_size d =
     (case byte d 6 of Inl e \<Rightarrow> Inl e | Inr b6 \<Rightarrow>
      case byte d 7 of Inl e \<Rightarrow> Inl e | Inr b7 \<Rightarrow>
      case byte d 8 of Inl e \<Rightarrow> Inl e | Inr b8 \<Rightarrow>
      case byte d 9 of Inl e \<Rightarrow> Inl e | Inr b9 \<Rightarrow>
        let raw = or (or (or b6 (push_bit 8 b7)) (push_bit 16 b8)) (push_bit 24 b9) in
        Inr (and raw 0x3FFF, and (drop_bit 16 raw) 0x3FFF))"

definition InitWriter ::
  "('w, 'b) saving \<Rightarrow> 64 word \<Rightarrow> 64 word \<Rightarrow> 'b webm_saver \<Rightarrow> 'w \<Rightarrow> unit res \<times> 'b webm_saver \<times> 'w" where
  "InitWriter S width height s w =
     (case sv_OpenFile S (wm_filename s) w of
        (Inl e, w1) \<Rightarrow> (Inl e, s, w1)
      | (Inr file, w1) \<Rightarrow>
          (case sv_BlockWriters S file width height w1 of
             (Inl e, w2) \<Rightarrow> (Inl e, s, w2)
           | (Inr (audio, video), w2) \<Rightarrow> (Inr (), s\<lparr>wm_audioWriter := Some audio, wm_videoWriter := Some video\<rparr>, w2)))"

definition start_video ::
  "('w, 'b) saving \<Rightarrow> string \<Rightarrow> 'b webm_saver \<Rightarrow> 'w \<Rightarrow> unit res \<times> 'b webm_saver \<times> 'w" where
  "start_video S d s w =
     (case frame_size d of
        Inl e \<Rightarrow> (Inl e, s, w)
      | Inr (width, height) \<Rightarrow>
          if wm_videoWriter s = None \<or> wm_audioWriter s = None then InitWriter S width height s w else (Inr (), s, w))"

text \<open>A block of the video carries the time of the audio.\<close>

definition write_video ::
  "('w, 'b) saving \<Rightarrow> media_sample \<Rightarrow> 'b webm_saver \<Rightarrow> 'w \<Rightarrow> unit res \<times> 'b webm_saver \<times> 'w" where
  "write_video S sample s w =
     (case keyframe (sa_Data sample) of
        Inl e \<Rightarrow> (Inl e, s, w)
      | Inr videoKeyframe \<Rightarrow>
          (case (if videoKeyframe then start_video S (sa_Data sample) s w else (Inr (), s, w)) of
             (Inl e, s1, w1) \<Rightarrow> (Inl e, s1, w1)
           | (Inr _, s1, w1) \<Rightarrow>
               (case wm_videoWriter s1 of
                  None \<Rightarrow> (Inr (), s1, w1)
                | Some writer \<Rightarrow>
                    write_webm S writer videoKeyframe (sa_Data sample)
                      (s1\<lparr>wm_videoTimestamp := wm_videoTimestamp s1 + sa_Duration sample\<rparr>) w1)))"

definition PushVP8 ::
  "('w, 'b) saving \<Rightarrow> string \<Rightarrow> 'b webm_saver \<Rightarrow> 'w \<Rightarrow> (unit res \<times> 'b webm_saver \<times> 'w) option" where
  "PushVP8 S packet s w =
     drain (pop_video S) (write_video S) (s\<lparr>wm_videoBuilder := sv_Push S packet (wm_videoBuilder s)\<rparr>) w"

text \<open>An error of writing is dropped, a panic is not.\<close>

definition dropped :: "unit res \<times> 'x \<Rightarrow> unit res \<times> 'x" where
  "dropped r = (case r of (Inl (Err _), x) \<Rightarrow> (Inr (), x) | _ \<Rightarrow> r)"

definition push_track ::
  "('w, 'b) saving \<Rightarrow> nat \<Rightarrow> 'b webm_saver \<Rightarrow> 'w \<Rightarrow> (unit res \<times> 'b webm_saver \<times> 'w) option" where
  "push_track S track s w =
     (case sv_ReadRTP S track w of
        (Inl e, w1) \<Rightarrow> Some (Inl e, s, w1)
      | (Inr packet, w1) \<Rightarrow>
          if sv_Audio S track then map_option dropped (PushOpus S packet s w1)
          else if sv_Video S track then map_option dropped (PushVP8 S packet s w1)
          else Some (Inr (), s, w1))"

partial_function (option) save_tracks ::
  "('w, 'b) saving \<Rightarrow> nat \<Rightarrow> nat \<Rightarrow> 'b webm_saver \<Rightarrow> 'w \<Rightarrow> (unit res \<times> 'b webm_saver \<times> 'w) option" where
  "save_tracks S audioTrack videoTrack s w =
     Option.bind (push_track S audioTrack s w) (\<lambda>(r, s1, w1).
       case r of
         Inl e \<Rightarrow> Some (Inl e, s1, w1)
       | Inr _ \<Rightarrow>
           Option.bind (push_track S videoTrack s1 w1) (\<lambda>(r, s2, w2).
             case r of
               Inl e \<Rightarrow> Some (Inl e, s2, w2)
             | Inr _ \<Rightarrow> save_tracks S audioTrack videoTrack s2 w2))"

text \<open>The saver is closed when the loop is left.\<close>

definition Save :: "('w, 'b) saving \<Rightarrow> string \<Rightarrow> nat \<Rightarrow> nat \<Rightarrow> 'w \<Rightarrow> (unit res \<times> 'w) option" where
  "Save S filename audioTrack videoTrack w =
     map_option (\<lambda>(r, s1, w1). (r, snd (saver_Close S s1 w1)))
       (save_tracks S audioTrack videoTrack (newWebmSaver S filename) w)"

section \<open>Pictures\<close>

text \<open>The decoder and the encoder of JPEG are one parameter: the picture of a complete key frame.\<close>

partial_function (option) snapshot_loop ::
  "('w, 'b) saving \<Rightarrow> (string \<Rightarrow> string res) \<Rightarrow> string \<Rightarrow> 'b \<Rightarrow> string res option" where
  "snapshot_loop S picture packet b =
     (case sv_Pop S (sv_Push S packet b) of
        (None, b1) \<Rightarrow> snapshot_loop S picture packet b1
      | (Some sample, b1) \<Rightarrow>
          (case keyframe (sa_Data sample) of
             Inl e \<Rightarrow> Some (Inl e)
           | Inr videoKeyframe \<Rightarrow>
               if videoKeyframe then Some (picture (sa_Data sample)) else snapshot_loop S picture packet b1))"

definition Snapshot :: "('w, 'b) saving \<Rightarrow> (string \<Rightarrow> string res) \<Rightarrow> string \<Rightarrow> string res option" where
  "Snapshot S picture packet = snapshot_loop S picture packet (sv_VP8 S)"

section \<open>Properties\<close>

text \<open>The encryption of the video changes nothing: it is XOR with 0.\<close>

theorem encrypt_nothing: "encrypt frame = frame"
  by (simp add: encrypt_def)

text \<open>A stream of H.264 is read from the standard input; the file whose name is given is not opened.\<close>

theorem h264_from_stdin:
  assumes "pl_Exists F name w" and "pl_Exists F other w"
  shows "readH264Video F name track w = readH264Video F other track w"
  using assms by (simp add: readH264Video_def)

text \<open>Two bytes hold one dimension of a frame, of which the upper two bits are a scale.\<close>

definition dimension_bytes :: "nat \<Rightarrow> nat \<Rightarrow> string" where
  "dimension_bytes scale n = [char_of (n mod 256), char_of (n div 256 + scale * 64)]"

lemma disjoint_or:
  fixes a b :: nat
  assumes "a < 2 ^ n"
  shows "or a (push_bit n b) = a + b * 2 ^ n"
proof -
  have "and (take_bit n a) (push_bit n b) = 0" by (rule bit_eqI) (auto simp: bit_simps)
  with assms have "a + push_bit n b = or a (push_bit n b)"
    by (intro disjunctive_add_eq_or) (simp add: take_bit_nat_eq_self)
  then show ?thesis by (simp add: push_bit_eq_mult)
qed

lemma raw_number:
  fixes a b c d :: nat
  assumes "a < 256" and "b < 256" and "c < 256" and "d < 256"
  shows "or (or (or a (push_bit 8 b)) (push_bit 16 c)) (push_bit 24 d) = a + b * 256 + c * 65536 + d * 16777216"
  using assms disjoint_or [of a 8 b] disjoint_or [of "a + b * 256" 16 c] disjoint_or [of "a + b * 256 + c * 65536" 24 d]
  by simp

lemma unat_raw:
  fixes a b c d :: nat
  assumes "a < 256" and "b < 256" and "c < 256" and "d < 256"
  shows "unat (or (or (or (of_nat a) (push_bit 8 (of_nat b))) (push_bit 16 (of_nat c))) (push_bit 24 (of_nat d)) :: 64 word) =
    (a + b * 256) + (c + d * 256) * 65536"
proof -
  have "or (or (or (of_nat a) (push_bit 8 (of_nat b))) (push_bit 16 (of_nat c))) (push_bit 24 (of_nat d)) =
      (of_nat (or (or (or a (push_bit 8 b)) (push_bit 16 c)) (push_bit 24 d)) :: 64 word)"
    by (simp only: of_nat_or_eq push_bit_of_nat)
  also have "\<dots> = of_nat (a + b * 256 + c * 65536 + d * 16777216)" by (simp only: raw_number [OF assms])
  finally show ?thesis using assms by (simp only: unat_of_nat) (simp add: take_bit_nat_eq_self)
qed

lemma unat_low: "unat (and r 0x3FFF :: 64 word) = unat r mod 16384"
proof -
  have "and r 0x3FFF = take_bit 14 r" by (simp add: take_bit_eq_mask mask_eq_exp_minus_1)
  then show ?thesis by (simp only: unsigned_take_bit_eq) (simp add: take_bit_eq_mod)
qed

lemma unat_high: "unat (drop_bit 16 r :: 64 word) = unat r div 65536"
  by (simp only: unat_drop_bit_eq) (simp add: drop_bit_eq_div)


lemma word_of_unat: "unat x = n \<Longrightarrow> x = of_nat n" for x :: "64 word"
  by auto

lemma byte_word: "of_char (char_of n) = (of_nat (n mod 256) :: 64 word)" for n :: nat
  by (subst of_nat_of_char [symmetric]) simp

text \<open>The size of a frame is read back from its header, and no dimension exceeds 16383.\<close>

theorem frame_size_bytes:
  assumes "length start = 6" and "width < 16384" and "height < 16384" and "sx < 4" and "sy < 4"
  shows "frame_size (start @ dimension_bytes sx width @ dimension_bytes sy height @ rest) =
    Inr (of_nat width, of_nat height)"
proof -
  let ?d = "start @ dimension_bytes sx width @ dimension_bytes sy height @ rest"
  let ?b = "width div 256 + sx * 64" and ?c = "height mod 256" and ?e = "height div 256 + sy * 64"
  have small: "width mod 256 < 256" "?b < 256" "?c < 256" "?e < 256" using assms by simp_all
  have bytes: "byte ?d 6 = Inr (of_nat (width mod 256))" "byte ?d 7 = Inr (of_nat ?b)"
      "byte ?d 8 = Inr (of_nat ?c)" "byte ?d 9 = Inr (of_nat ?e)"
    using assms(1) small by (simp_all add: byte_def dimension_bytes_def nth_append byte_word)
  have eq: "width mod 256 + ?b * 256 = width + 16384 * sx" "?c + ?e * 256 = height + 16384 * sy" by simp_all
  have raw: "unat (or (or (or (of_nat (width mod 256)) (push_bit 8 (of_nat ?b))) (push_bit 16 (of_nat ?c)))
      (push_bit 24 (of_nat ?e)) :: 64 word) = (width mod 256 + ?b * 256) + (?c + ?e * 256) * 65536" (is "unat ?raw = _")
    by (rule unat_raw [OF small])
  have "(width + 16384 * sx + (height + 16384 * sy) * 65536) mod 16384 =
      (width + 16384 * (sx + (height + 16384 * sy) * 4)) mod 16384"
    by (simp add: algebra_simps)
  also have "\<dots> = width" using assms(2) by (simp only: mod_mult_self2 mod_less)
  finally have low: "unat (and ?raw 0x3FFF) = width" by (simp only: unat_low raw eq)
  have "(width + 16384 * sx + (height + 16384 * sy) * 65536) div 65536 = height + 16384 * sy"
    using assms by simp
  then have high: "unat (and (drop_bit 16 ?raw) 0x3FFF) = height" using assms(3) by (simp only: unat_low unat_high raw eq) simp
  show ?thesis by (simp only: frame_size_def bytes Let_def sum.case word_of_unat [OF low] word_of_unat [OF high])
qed


text \<open>A key frame without the bytes of its size is a panic, which nothing catches.\<close>

theorem short_keyframe_panics:
  assumes "sv_Pop S (sv_Push S packet (wm_videoBuilder s)) = (Some sample, b)"
    and "sa_Data sample = c # rest" and "even (of_char c :: nat)" and "length (sa_Data sample) < 10"
  shows "\<exists>s'. PushVP8 S packet s w = Some (Inl (Panic ''index out of range''), s', w)"
proof -
  obtain k :: nat where "of_char c = 2 * k" using assms(3) by blast
  then have "of_char c = (of_nat (2 * k) :: 64 word)" by (metis of_nat_of_char)
  then have "even (of_char c :: 64 word)" by simp
  then have "and (of_char c) 1 = (0 :: 64 word)" by (simp only: and_one_eq even_iff_mod_2_eq_zero)
  then have "keyframe (sa_Data sample) = Inr True" using assms(2) by (simp add: keyframe_def byte_def)
  moreover have "frame_size (sa_Data sample) = Inl (Panic ''index out of range'')"
    using assms(4) by (auto simp: frame_size_def byte_def Let_def)
  ultimately show ?thesis
    unfolding PushVP8_def using assms(1) by (subst drain.simps) (simp add: pop_video_def write_video_def start_video_def)
qed

text \<open>A picture of a packet that does not make a sample by itself is never taken: the loop pushes it again.\<close>

lemma snapshot_loop_never:
  assumes "snapshot_loop S picture packet b = Some r" and "\<And>b. fst (sv_Pop S (sv_Push S packet b)) = None"
  shows False
  using assms
proof -
  have "(\<forall>b. fst (sv_Pop S (sv_Push S packet b)) = None) \<longrightarrow> False"
    using assms(1)
  proof (rule snapshot_loop.raw_induct
      [where P = "\<lambda>S picture packet b r. (\<forall>b. fst (sv_Pop S (sv_Push S packet b)) = None) \<longrightarrow> False", rotated])
    fix loop S picture packet b r
    assume again: "\<And>S picture packet b r. loop S picture packet b = Some r \<Longrightarrow>
          (\<forall>b. fst (sv_Pop S (sv_Push S packet b)) = None) \<longrightarrow> False"
      and step: "(case sv_Pop S (sv_Push S packet b) of
          (None, b1) \<Rightarrow> loop S picture packet b1
        | (Some sample, b1) \<Rightarrow>
            (case keyframe (sa_Data sample) of
               Inl e \<Rightarrow> Some (Inl e)
             | Inr videoKeyframe \<Rightarrow>
                 if videoKeyframe then Some (picture (sa_Data sample)) else loop S picture packet b1)) = Some r"
    show "(\<forall>b. fst (sv_Pop S (sv_Push S packet b)) = None) \<longrightarrow> False"
    proof
      assume none: "\<forall>b. fst (sv_Pop S (sv_Push S packet b)) = None"
      then obtain b1 where "sv_Pop S (sv_Push S packet b) = (None, b1)" by (metis prod.collapse)
      with step have "loop S picture packet b1 = Some r" by simp
      from again [OF this] none show False by blast
    qed
  qed
  with assms(2) show False by blast
qed

theorem Snapshot_never_returns:
  assumes "\<And>b. fst (sv_Pop S (sv_Push S packet b)) = None"
  shows "Snapshot S picture packet = None"
  using snapshot_loop_never [OF _ assms] by (cases "Snapshot S picture packet") (auto simp: Snapshot_def)


lemma write_webm_fields:
  "write_webm S writer key d s w = (r, s', w') \<Longrightarrow> s' = s"
  by (auto simp: write_webm_def split: option.split_asm prod.split_asm)

lemma start_video_fields:
  "start_video S d s w = (r, s', w') \<Longrightarrow> s' = s \<or>
     (\<exists>a v. s' = s\<lparr>wm_audioWriter := Some a, wm_videoWriter := Some v\<rparr>)"
  by (auto simp: start_video_def InitWriter_def split: sum.split_asm prod.split_asm if_split_asm)

lemma write_audio_fields:
  "write_audio S sample s w = (r, s', w') \<Longrightarrow> (s' = s \<and> w' = w \<and> wm_audioWriter s = None) \<or>
     (\<exists>t. s' = s\<lparr>wm_audioTimestamp := t\<rparr> \<and> wm_audioWriter s \<noteq> None)"
  by (auto simp: write_audio_def dest!: write_webm_fields split: option.split_asm)

lemma write_video_fields:
  assumes "write_video S sample s w = (r, s', w')"
  shows "\<exists>s1 t. (s1 = s \<or> (\<exists>a v. s1 = s\<lparr>wm_audioWriter := Some a, wm_videoWriter := Some v\<rparr>)) \<and>
    (s' = s1 \<or> s' = s1\<lparr>wm_videoTimestamp := t\<rparr> \<and> wm_videoWriter s1 \<noteq> None)"
proof -
  obtain key where key: "keyframe (sa_Data sample) = Inr key \<or> s' = s"
    using assms by (auto simp: write_video_def split: sum.split_asm)
  obtain r1 s1 w1 where started: "(if key then start_video S (sa_Data sample) s w else (Inr (), s, w)) = (r1, s1, w1)"
    by (cases "if key then start_video S (sa_Data sample) s w else (Inr (), s, w)")
  then have "s1 = s \<or> (\<exists>a v. s1 = s\<lparr>wm_audioWriter := Some a, wm_videoWriter := Some v\<rparr>)"
    by (cases key) (auto dest: start_video_fields)
  moreover have "s' = s \<or> s' = s1 \<or> (\<exists>t. s' = s1\<lparr>wm_videoTimestamp := t\<rparr> \<and> wm_videoWriter s1 \<noteq> None)"
    using assms key started by (auto simp: write_video_def dest!: write_webm_fields split: sum.split_asm option.split_asm)
  ultimately show ?thesis by blast
qed

lemma drain_invariant:
  assumes "drain pop body s w = Some (r, s', w')" and "I s w"
    and "\<And>s w. I s w \<Longrightarrow> I (snd (pop s)) w"
    and "\<And>x s w r s' w'. body x s w = (r, s', w') \<Longrightarrow> I s w \<Longrightarrow> I s' w'"
  shows "I s' w'"
proof -
  let ?P = "\<lambda>pop body s w y. I s w \<longrightarrow> (\<forall>s w. I s w \<longrightarrow> I (snd (pop s)) w) \<longrightarrow>
    (\<forall>x s w r s' w'. body x s w = (r, s', w') \<longrightarrow> I s w \<longrightarrow> I s' w') \<longrightarrow> I (fst (snd y)) (snd (snd y))"
  have "?P pop body s w (r, s', w')"
    using assms(1)
  proof (rule drain.raw_induct [where P = ?P, rotated])
    fix loop pop body s w y
    assume again: "\<And>pop body s w y. loop pop body s w = Some y \<Longrightarrow> ?P pop body s w y"
      and step: "(case pop s of
          (None, s1) \<Rightarrow> Some (Inr (), s1, w)
        | (Some sample, s1) \<Rightarrow>
            (case body sample s1 w of
               (Inl e, s2, w2) \<Rightarrow> Some (Inl e, s2, w2)
             | (Inr _, s2, w2) \<Rightarrow> loop pop body s2 w2)) = Some y"
    show "?P pop body s w y"
    proof (intro impI)
      assume I: "I s w" "\<forall>s w. I s w \<longrightarrow> I (snd (pop s)) w"
        "\<forall>x s w r s' w'. body x s w = (r, s', w') \<longrightarrow> I s w \<longrightarrow> I s' w'"
      obtain x s1 where pop: "pop s = (x, s1)" by (cases "pop s")
      with I have "I s1 w" by (metis snd_conv)
      show "I (fst (snd y)) (snd (snd y))"
      proof (cases x)
        case None
        with step pop \<open>I s1 w\<close> show ?thesis by auto
      next
        case (Some sample)
        obtain r2 s2 w2 where body: "body sample s1 w = (r2, s2, w2)" by (cases "body sample s1 w")
        with I(3) \<open>I s1 w\<close> have "I s2 w2" by blast
        with step pop Some body again [of pop body s2 w2 y] I(2,3) show ?thesis by (cases r2) auto
      qed
    qed
  qed
  with assms(2-4) show ?thesis by simp
qed


text \<open>
  The runs of a saver: what is pushed comes from the tracks, and the world may change between two packets.
\<close>

inductive saver_run :: "('w, 'b) saving \<Rightarrow> string \<Rightarrow> 'b webm_saver \<Rightarrow> 'w \<Rightarrow> bool" for S filename where
  saver_new: "saver_run S filename (newWebmSaver S filename) w"
| saver_opus: "saver_run S filename s' w'"
    if "saver_run S filename s w" and "PushOpus S packet s w = Some (r, s', w')"
| saver_vp8: "saver_run S filename s' w'"
    if "saver_run S filename s w" and "PushVP8 S packet s w = Some (r, s', w')"
| saver_world: "saver_run S filename s w'" if "saver_run S filename s w"

definition writers_ok :: "string \<Rightarrow> 'b webm_saver \<Rightarrow> bool" where
  "writers_ok filename s \<longleftrightarrow> (wm_audioWriter s = None \<longleftrightarrow> wm_videoWriter s = None) \<and> wm_filename s = filename \<and>
     (wm_audioWriter s = None \<longrightarrow> wm_audioTimestamp s = 0 \<and> wm_videoTimestamp s = 0)"

lemma writers_ok_push:
  "writers_ok filename (s\<lparr>wm_audioBuilder := b\<rparr>) = writers_ok filename s"
  "writers_ok filename (s\<lparr>wm_videoBuilder := b\<rparr>) = writers_ok filename s"
  by (simp_all add: writers_ok_def)

lemma writers_ok_pop:
  "writers_ok filename s \<Longrightarrow> writers_ok filename (snd (pop_audio S s))"
  "writers_ok filename s \<Longrightarrow> writers_ok filename (snd (pop_video S s))"
  by (simp_all add: writers_ok_def pop_audio_def pop_video_def split: prod.split)

lemma writers_ok_audio: "write_audio S x s w = (r, s', w') \<Longrightarrow> writers_ok filename s \<Longrightarrow> writers_ok filename s'"
  by (drule write_audio_fields) (auto simp: writers_ok_def)

lemma writers_ok_video: "write_video S x s w = (r, s', w') \<Longrightarrow> writers_ok filename s \<Longrightarrow> writers_ok filename s'"
  by (drule write_video_fields) (auto simp: writers_ok_def)

text \<open>
  In every reachable state the saver has both writers or none, and has counted no time before it has them:
  the audio before the first key frame is lost.
\<close>

theorem writers_paired:
  assumes "saver_run S filename s w"
  shows "(wm_audioWriter s = None \<longleftrightarrow> wm_videoWriter s = None) \<and> wm_filename s = filename \<and>
    (wm_audioWriter s = None \<longrightarrow> wm_audioTimestamp s = 0 \<and> wm_videoTimestamp s = 0)"
proof -
  from assms have "writers_ok filename s"
  proof induction
    case (saver_opus s w packet r s' w')
    from saver_opus(2) [unfolded PushOpus_def] show ?case
      by (rule drain_invariant [where I = "\<lambda>s _. writers_ok filename s"])
        (simp add: writers_ok_push saver_opus(3), erule writers_ok_pop, erule (1) writers_ok_audio)
  next
    case (saver_vp8 s w packet r s' w')
    from saver_vp8(2) [unfolded PushVP8_def] show ?case
      by (rule drain_invariant [where I = "\<lambda>s _. writers_ok filename s"])
        (simp add: writers_ok_push saver_vp8(3), erule writers_ok_pop, erule (1) writers_ok_video)
  qed (simp_all add: writers_ok_def newWebmSaver_def)
  then show ?thesis by (simp add: writers_ok_def)
qed


text \<open>
  With a log of the blocks that are written: all blocks of one packet of video carry the time of the audio,
  whatever the durations of the samples, so that without audio every picture of the video is at the time 0.
\<close>

theorem video_at_audio_time:
  fixes s :: "'b webm_saver"
  assumes "PushVP8 S packet s w = Some (r, s', w')"
    and "\<And>writer key t d w. log (snd (sv_WriteBlock S writer key t d w)) = log w @ [(writer, key, t)]"
    and "\<And>name w. log (snd (sv_OpenFile S name w)) = log w"
    and "\<And>file x y w. log (snd (sv_BlockWriters S file x y w)) = log w"
  shows "wm_audioTimestamp s' = wm_audioTimestamp s \<and>
    (\<exists>blocks. log w' = log w @ blocks \<and> (\<forall>(_, _, t) \<in> set blocks. t = millis (wm_audioTimestamp s)))"
proof -
  define I where "I s1 w1 \<longleftrightarrow> wm_audioTimestamp s1 = wm_audioTimestamp s \<and>
    (\<exists>blocks. log w1 = log w @ blocks \<and> (\<forall>(_, _, t) \<in> set blocks. t = millis (wm_audioTimestamp s)))"
    for s1 :: "'b webm_saver" and w1
  have block: "I s3 w3" if run: "write_webm S writer key d s1 w1 = (r', s3, w3)" and I: "I s1 w1" for writer key d s1 w1 r' s3 w3
  proof -
    have s3: "s3 = s1" "w3 = snd (sv_WriteBlock S writer key (millis (wm_audioTimestamp s1)) d w1)"
      using run by (auto simp: write_webm_def split: option.split_asm prod.split_asm)
    from I obtain blocks where "log w1 = log w @ blocks" "\<forall>(_, _, t) \<in> set blocks. t = millis (wm_audioTimestamp s)"
      by (auto simp: I_def)
    with I show ?thesis unfolding s3
      by (auto simp: I_def assms(2) intro!: exI [of _ "blocks @ [(writer, key, millis (wm_audioTimestamp s))]"])
  qed
  have start: "I s2 w2" if "start_video S d s1 w1 = (r', s2, w2)" and "I s1 w1" for d s1 w1 r' s2 w2
  proof -
    have "sv_OpenFile S name u = (x, u') \<Longrightarrow> log u' = log u" "sv_BlockWriters S f1 a b u = (y, u') \<Longrightarrow> log u' = log u"
      for name f1 a b u u' x y
      using assms(3,4) by (metis snd_conv)+
    then have "log w2 = log w1 \<and> wm_audioTimestamp s2 = wm_audioTimestamp s1"
      using that(1) by (auto simp: start_video_def InitWriter_def split: sum.split_asm prod.split_asm if_split_asm)
    with that(2) show ?thesis by (simp add: I_def)
  qed
  have video: "I s2 w2" if run: "write_video S x s1 w1 = (r', s2, w2)" and I: "I s1 w1" for x s1 w1 r' s2 w2
  proof (cases "keyframe (sa_Data x)")
    case (Inr key)
    obtain r1 s3 w3 where started: "(if key then start_video S (sa_Data x) s1 w1 else (Inr (), s1, w1)) = (r1, s3, w3)"
      by (cases "if key then start_video S (sa_Data x) s1 w1 else (Inr (), s1, w1)")
    with I have "I s3 w3" by (cases key) (auto intro: start)
    moreover have "I (s3\<lparr>wm_videoTimestamp := t\<rparr>) w3" for t using \<open>I s3 w3\<close> by (simp add: I_def)
    ultimately show ?thesis
      using run Inr started by (auto simp: write_video_def intro: block split: sum.split_asm option.split_asm)
  qed (use run I in \<open>simp add: write_video_def\<close>)
  from assms(1) have "I s' w'" unfolding PushVP8_def
    by (rule drain_invariant [where I = I]) (simp add: I_def, simp add: I_def pop_video_def split: prod.split, erule (1) video)
  then show ?thesis by (simp add: I_def)
qed

lemma not_Inr_unit: "x \<noteq> Inr () \<Longrightarrow> \<exists>e. x = Inl e"
  by (cases x) simp_all

text \<open>Saving two tracks ends with an error, of reading them, or with a panic.\<close>

theorem Save_fails:
  assumes "Save S filename audioTrack videoTrack w = Some (r, w')"
  shows "\<exists>e. r = Inl e"
proof -
  have "\<exists>e. r = Inl e" if "save_tracks S audioTrack videoTrack s w = Some (r, s', w')" for s w s' w'
  proof -
    let ?P = "\<lambda>S audioTrack videoTrack s w y. \<exists>e. fst y = Inl e"
    have "?P S audioTrack videoTrack s w (r, s', w')"
      using that
      by (rule save_tracks.raw_induct [where P = ?P, rotated])
        (auto simp: Option.bind_eq_Some_conv dest!: not_Inr_unit split: sum.split_asm prod.split_asm)
    then show ?thesis by simp
  qed
  with assms show ?thesis by (auto simp: Save_def)
qed


section \<open>Witnesses\<close>

text \<open>A builder that gives each packet as a sample, and a world that logs what is written.\<close>

definition saving_sample :: "(string list \<times> (nat \<times> bool \<times> int) list, string list) saving" where
  "saving_sample =
     \<lparr>sv_ReadRTP = (\<lambda>_ (packets, blocks). case packets of
          [] \<Rightarrow> (Inl (Err ''EOF''), [], blocks) | p # ps \<Rightarrow> (Inr p, ps, blocks)),
      sv_Audio = (\<lambda>t. t = 0), sv_Video = (\<lambda>t. t = 1), sv_Codec = (\<lambda>_. ''video/VP8''),
      sv_OpenFile = (\<lambda>_ w. (Inr 0, w)), sv_OggWriter = (\<lambda>_ w. (Inr 0, w)), sv_IvfWriter = (\<lambda>_ w. (Inr 0, w)),
      sv_WriteRTP = (\<lambda>_ _ w. (None, w)), sv_CloseFile = (\<lambda>_ w. (None, w)),
      sv_BlockWriters = (\<lambda>_ _ _ w. (Inr (0, 1), w)),
      sv_WriteBlock = (\<lambda>writer key t _ (packets, blocks). (None, packets, blocks @ [(writer, key, t)])),
      sv_CloseBlocks = (\<lambda>_ w. (None, w)), sv_Opus = [], sv_VP8 = [],
      sv_Push = (\<lambda>p b. b @ [p]),
      sv_Pop = (\<lambda>b. case b of [] \<Rightarrow> (None, []) | p # ps \<Rightarrow> (Some \<lparr>sa_Data = p, sa_Duration = 40000000\<rparr>, ps))\<rparr>"

definition frame_sample :: string where
  "frame_sample = replicate 10 (CHR 0x00)"

definition saver_sample :: "string list webm_saver" where
  "saver_sample = (newWebmSaver saving_sample ''a.webm'')\<lparr>wm_audioWriter := Some 0, wm_videoWriter := Some 1\<rparr>"

lemma keyframe_sample: "keyframe frame_sample = Inr True" "frame_size frame_sample = Inr (0, 0)"
  by (simp_all add: keyframe_def frame_size_def byte_def frame_sample_def)

theorem h264_from_stdin_witness:
  "readH264Video \<lparr>pl_Exists = (\<lambda>_ _. True), pl_OpenIvf = (\<lambda>_ _. Inl (Err [])), pl_OpenOgg = (\<lambda>_ _. Inl (Err [])),
     pl_Stdin = (\<lambda>_. Inr ([\<lparr>nu_UnitType = 7, nu_Data = ''x''\<rparr>], None)),
     pl_WriteSample = (\<lambda>_ d _ w. (None, w @ [d])), pl_Sleep = (\<lambda>_ w. w), pl_FrameMillis = (\<lambda>_ _. 0),
     pl_SampleMillis = (\<lambda>_. 0)\<rparr> ''a'' 0 [] =
   readH264Video \<lparr>pl_Exists = (\<lambda>_ _. True), pl_OpenIvf = (\<lambda>_ _. Inl (Err [])), pl_OpenOgg = (\<lambda>_ _. Inl (Err [])),
     pl_Stdin = (\<lambda>_. Inr ([\<lparr>nu_UnitType = 7, nu_Data = ''x''\<rparr>], None)),
     pl_WriteSample = (\<lambda>_ d _ w. (None, w @ [d])), pl_Sleep = (\<lambda>_ w. w), pl_FrameMillis = (\<lambda>_ _. 0),
     pl_SampleMillis = (\<lambda>_. 0)\<rparr> ''b'' 0 []"
  by (rule h264_from_stdin) simp_all

theorem frame_size_bytes_witness:
  "frame_size (''......'' @ dimension_bytes 0 640 @ dimension_bytes 0 480 @ ''...'') = Inr (640, 480)"
  using frame_size_bytes [of "''......''" 640 480 0 0 "''...''"] by simp

theorem short_keyframe_panics_witness:
  "\<exists>s'. PushVP8 saving_sample [CHR 0x00] saver_sample ([], []) = Some (Inl (Panic ''index out of range''), s', ([], []))"
  by (rule short_keyframe_panics [where sample = "\<lparr>sa_Data = [CHR 0x00], sa_Duration = 40000000\<rparr>" and b = "[]" and c = "CHR 0x00" and rest = "[]"])
    (simp_all add: saving_sample_def saver_sample_def newWebmSaver_def)

theorem Snapshot_never_returns_witness:
  "Snapshot (saving_sample\<lparr>sv_Pop := (\<lambda>b. (None, b))\<rparr>) Inr ''x'' = None"
  by (rule Snapshot_never_returns) simp


lemma PushVP8_sample:
  "\<exists>s'. PushVP8 saving_sample frame_sample saver_sample ([], []) = Some (Inr (), s', ([], [(1, True, 0)]))"
  unfolding PushVP8_def
  by (simp add: drain.simps pop_video_def write_video_def start_video_def write_webm_def keyframe_sample saving_sample_def
      saver_sample_def newWebmSaver_def millis_def)

theorem video_at_audio_time_witness:
  "\<exists>s'. PushVP8 saving_sample frame_sample saver_sample ([], []) = Some (Inr (), s', ([], [(1, True, 0)])) \<and>
     wm_audioTimestamp s' = 0"
proof -
  obtain s' where run: "PushVP8 saving_sample frame_sample saver_sample ([], []) = Some (Inr (), s', ([], [(1, True, 0)]))"
    using PushVP8_sample by blast
  from video_at_audio_time [OF run, of snd] show ?thesis
    using run by (simp add: saving_sample_def saver_sample_def newWebmSaver_def split_beta)
qed

lemma PushVP8_first:
  "\<exists>s'. PushVP8 saving_sample frame_sample (newWebmSaver saving_sample f) ([], []) =
     Some (Inr (), s', ([], [(1, True, 0)])) \<and> wm_videoWriter s' = Some 1"
  unfolding PushVP8_def
  by (simp add: drain.simps pop_video_def write_video_def start_video_def InitWriter_def write_webm_def keyframe_sample
      saving_sample_def newWebmSaver_def millis_def)

theorem writers_paired_witness:
  "\<exists>s. saver_run saving_sample ''a.webm'' s ([], [(1, True, 0)]) \<and> wm_videoWriter s = Some 1 \<and>
     wm_audioWriter s \<noteq> None \<and> wm_filename s = ''a.webm''"
proof -
  obtain s where run: "PushVP8 saving_sample frame_sample (newWebmSaver saving_sample ''a.webm'') ([], []) =
      Some (Inr (), s, ([], [(1, True, 0)]))" "wm_videoWriter s = Some 1"
    using PushVP8_first by blast
  then have reached: "saver_run saving_sample ''a.webm'' s ([], [(1, True, 0)])"
    by (intro saver_vp8 [OF saver_new])
  from writers_paired [OF reached] reached run(2) show ?thesis by auto
qed

theorem Save_fails_witness: "\<exists>e. fst (the (Save saving_sample ''a.webm'' 0 1 ([], []))) = Inl e"
proof -
  have "save_tracks saving_sample 0 1 (newWebmSaver saving_sample ''a.webm'') ([], []) =
      Some (Inl (Err ''EOF''), newWebmSaver saving_sample ''a.webm'', ([], []))"
    by (subst save_tracks.simps) (simp add: push_track_def saving_sample_def)
  then obtain r w' where run: "Save saving_sample ''a.webm'' 0 1 ([], []) = Some (r, w')" by (simp add: Save_def)
  from Save_fails [OF run] run show ?thesis by simp
qed

end
