(* ===== verification/HttpTunnels.thy ===== *)
theory HttpTunnels
  imports Prelude "HOL-Library.AList"
begin

text \<open>
  HTTP over the streams of libp2p: the proxy of \<^verbatim>\<open>libp2p/proxy/default.go\<close>, which sends requests through a
  stream to a peer that makes them, and the transport of \<^verbatim>\<open>libp2p/http/client.go\<close>. Streams, and reading and
  writing requests on them, are of the library.
\<close>

section \<open>Requests and responses\<close>

record tunnel_request =
  tr_Method :: string
  tr_Scheme :: string
  tr_Host :: string
  tr_UrlHost :: string
  tr_Path :: string
  tr_Body :: "string option"

record tunnel_response =
  tp_StatusCode :: int
  tp_Header :: "(string \<times> string list) list"
  tp_Body :: string

text \<open>
  The answer that is written: its headers, its status once it has been written, and its body. A status
  outside of 100 to 999 is a panic of \<^verbatim>\<open>net/http\<close>.
\<close>

record answer_writer =
  aw_Header :: "(string \<times> string list) list"
  aw_status :: "int option"
  aw_body :: string

definition no_answer :: answer_writer where
  "no_answer = \<lparr>aw_Header = [], aw_status = None, aw_body = []\<rparr>"

definition header_Add :: "string \<Rightarrow> string \<Rightarrow> (string \<times> string list) list \<Rightarrow> (string \<times> string list) list" where
  "header_Add k v h = AList.update k (case map_of h k of None \<Rightarrow> [v] | Some vs \<Rightarrow> vs @ [v]) h"

definition WriteHeader :: "int \<Rightarrow> answer_writer \<Rightarrow> answer_writer res" where
  "WriteHeader code a =
     (if code < 100 \<or> 999 < code then Inl (Panic ''invalid WriteHeader code'') else Inr (a\<lparr>aw_status := Some code\<rparr>))"

definition http_Error :: "string \<Rightarrow> int \<Rightarrow> answer_writer \<Rightarrow> answer_writer" where
  "http_Error msg code a = a\<lparr>aw_status := Some code, aw_body := aw_body a @ msg @ [CHR 0x0A]\<rparr>"

text \<open>
  The streams of the host, as numbers. \<open>tn_Dial\<close> is what a request over the network gives, for one of the
  schemes that the transport of \<^verbatim>\<open>net/http\<close> has.
\<close>

record 'w tunnel_env =
  tn_NewStream :: "string \<Rightarrow> string \<Rightarrow> 'w \<Rightarrow> nat res \<times> 'w"
  tn_WriteRequest :: "nat \<Rightarrow> tunnel_request \<Rightarrow> 'w \<Rightarrow> go_error option \<times> 'w"
  tn_ReadRequest :: "nat \<Rightarrow> 'w \<Rightarrow> tunnel_request res \<times> 'w"
  tn_WriteResponse :: "nat \<Rightarrow> tunnel_response \<Rightarrow> 'w \<Rightarrow> 'w"
  tn_ReadResponse :: "nat \<Rightarrow> 'w \<Rightarrow> tunnel_response res \<times> 'w"
  tn_Close :: "nat \<Rightarrow> 'w \<Rightarrow> 'w"
  tn_Reset :: "nat \<Rightarrow> 'w \<Rightarrow> 'w"
  tn_Dial :: "tunnel_request \<Rightarrow> 'w \<Rightarrow> tunnel_response res \<times> 'w"
  tn_Decode :: "string \<Rightarrow> string res"
  tn_SetStreamHandler :: "string \<Rightarrow> 'w \<Rightarrow> 'w"
  tn_ListenAndServe :: "string \<Rightarrow> 'w \<Rightarrow> 'w"
  tn_DialArgs :: "string \<Rightarrow> string"
  tn_NewMultiaddr :: "string \<Rightarrow> string res"
  tn_IpfsValue :: "string \<Rightarrow> string res"
  tn_Decapsulate :: "string \<Rightarrow> string \<Rightarrow> string"
  tn_AddAddr :: "string \<Rightarrow> string \<Rightarrow> 'w \<Rightarrow> 'w"
  tn_NewHost :: "nat \<Rightarrow> 'w \<Rightarrow> unit res \<times> 'w"

definition proxy_Protocol :: string where "proxy_Protocol = ''/proxy-example/0.0.1''"

text \<open>The transport of \<^verbatim>\<open>net/http\<close> knows the schemes \<open>http\<close> and \<open>https\<close>.\<close>

definition default_RoundTrip :: "'w tunnel_env \<Rightarrow> tunnel_request \<Rightarrow> 'w \<Rightarrow> tunnel_response res \<times> 'w" where
  "default_RoundTrip N req w =
     (if tr_Scheme req \<in> {''http'', ''https''} then tn_Dial N req w
      else (Inl (Err ''unsupported protocol scheme''), w))"

section \<open>The proxy\<close>

text \<open>The end that makes the request.\<close>

definition proxied :: "tunnel_request \<Rightarrow> tunnel_request" where
  "proxied req =
     (let req1 = req\<lparr>tr_Scheme := ''stdhttp''\<rparr>; hp = split_on (CHR '':'') (tr_Host req1) in
      (if length hp > 1 \<and> hp ! 1 = ''443'' then req1\<lparr>tr_Scheme := ''stdhttp''\<rparr> else req1\<lparr>tr_Scheme := ''stdhttp''\<rparr>)
        \<lparr>tr_UrlHost := tr_Host req1\<rparr>)"

definition streamHandler :: "'w tunnel_env \<Rightarrow> nat \<Rightarrow> 'w \<Rightarrow> 'w" where
  "streamHandler N stream w =
     tn_Close N stream
       (case tn_ReadRequest N stream w of
          (Inl _, w1) \<Rightarrow> tn_Reset N stream w1
        | (Inr req, w1) \<Rightarrow>
            (case default_RoundTrip N (proxied req) w1 of
               (Inl _, w2) \<Rightarrow> tn_Reset N stream w2
             | (Inr resp, w2) \<Rightarrow> tn_WriteResponse N stream resp w2))"

text \<open>The end that takes the requests; the headers of the response are added to those of the answer.\<close>

definition copy_headers :: "(string \<times> string list) list \<Rightarrow> (string \<times> string list) list \<Rightarrow> (string \<times> string list) list" where
  "copy_headers headers h = foldl (\<lambda>h (k, vs). foldl (\<lambda>h v. header_Add k v h) h vs) h headers"

definition ServeHTTP :: "'w tunnel_env \<Rightarrow> string \<Rightarrow> tunnel_request \<Rightarrow> answer_writer \<Rightarrow> 'w \<Rightarrow> answer_writer res \<times> 'w" where
  "ServeHTTP N dest r a w =
     (case tn_NewStream N dest proxy_Protocol w of
        (Inl (Panic p), w1) \<Rightarrow> (Inl (Panic p), w1)
      | (Inl (Err e), w1) \<Rightarrow> (Inr (http_Error e 500 a), w1)
      | (Inr stream, w1) \<Rightarrow>
          (case tn_WriteRequest N stream r w1 of
             (Some e, w2) \<Rightarrow>
               (Inr (http_Error (case e of Err t \<Rightarrow> t | Panic t \<Rightarrow> t) 503 a), tn_Close N stream (tn_Reset N stream w2))
           | (None, w2) \<Rightarrow>
               (case tn_ReadResponse N stream w2 of
                  (Inl e, w3) \<Rightarrow>
                    (Inr (http_Error (case e of Err t \<Rightarrow> t | Panic t \<Rightarrow> t) 503 a), tn_Close N stream (tn_Reset N stream w3))
                | (Inr resp, w3) \<Rightarrow>
                    (map_sum id (\<lambda>a1. a1\<lparr>aw_body := aw_body a1 @ tp_Body resp\<rparr>)
                       (WriteHeader (tp_StatusCode resp) (a\<lparr>aw_Header := copy_headers (tp_Header resp) (aw_Header a)\<rparr>)),
                     tn_Close N stream w3))))"

record proxy_service =
  px_dest :: string
  px_proxyAddr :: "string option"

definition NewProxyService :: "'w tunnel_env \<Rightarrow> string option \<Rightarrow> string \<Rightarrow> 'w \<Rightarrow> proxy_service \<times> 'w" where
  "NewProxyService N proxyAddr dest w =
     (\<lparr>px_dest = dest, px_proxyAddr = proxyAddr\<rparr>, tn_SetStreamHandler N proxy_Protocol w)"

text \<open>\<open>DialArgs\<close> of a nil address is not asked for: without a destination \<open>Serve\<close> is not called.\<close>

definition proxy_Serve :: "'w tunnel_env \<Rightarrow> proxy_service \<Rightarrow> 'w \<Rightarrow> unit res \<times> 'w" where
  "proxy_Serve N p w =
     (case px_proxyAddr p of
        None \<Rightarrow> (Inl NilDereference, w)
      | Some addr \<Rightarrow> (Inr (), if px_dest p \<noteq> [] then tn_ListenAndServe N (tn_DialArgs N addr) w else w))"

abbreviation Exit :: go_error where "Exit \<equiv> Panic ''exit''"

text \<open>\<open>log.Fatalln\<close> ends the process.\<close>

definition fatal :: "'a res \<Rightarrow> 'a res" where
  "fatal r = (case r of Inl _ \<Rightarrow> Inl Exit | Inr x \<Rightarrow> Inr x)"

definition addAddrToPeerstore :: "'w tunnel_env \<Rightarrow> string \<Rightarrow> 'w \<Rightarrow> string res \<times> 'w" where
  "addAddrToPeerstore N addr w =
     and_then (lift_res (fatal (tn_NewMultiaddr N addr)) w) (\<lambda>ipfsaddr w.
     and_then (lift_res (fatal (tn_IpfsValue N ipfsaddr)) w) (\<lambda>pid w.
     and_then (lift_res (fatal (tn_Decode N pid)) w) (\<lambda>peerid w.
       (Inr peerid, tn_AddAddr N peerid (tn_Decapsulate N ipfsaddr (''/ipfs/'' @ peerid)) w))))"

text \<open>\<open>Start\<close> with its flags; it returns only when serving fails, otherwise it waits for ever.\<close>

definition proxy_Start :: "'w tunnel_env \<Rightarrow> string \<Rightarrow> nat \<Rightarrow> nat \<Rightarrow> 'w \<Rightarrow> unit res \<times> 'w" where
  "proxy_Start N destPeer port p2pport w =
     (if destPeer \<noteq> [] then
        and_then (case tn_NewHost N (p2pport + 1) w of (r, w1) \<Rightarrow> (fatal r, w1)) (\<lambda>_ w1.
        and_then (addAddrToPeerstore N destPeer w1) (\<lambda>destPeerID w2.
        and_then (lift_res (fatal (tn_NewMultiaddr N (''/ip4/127.0.0.1/tcp/'' @ show_nat port))) w2) (\<lambda>proxyAddr w3.
          case NewProxyService N (Some proxyAddr) destPeerID w3 of (p, w4) \<Rightarrow> proxy_Serve N p w4)))
      else
        and_then (case tn_NewHost N p2pport w of (r, w1) \<Rightarrow> (fatal r, w1)) (\<lambda>_ w1.
          case NewProxyService N None [] w1 of (p, w2) \<Rightarrow> (Inl NoReturn, w2)))"

section \<open>The transport\<close>

text \<open>
  The request is written by a goroutine while the response is read: \<open>early\<close> tells whether it comes first. The
  result has the body of the response with its connection, which is closed with it.
\<close>

definition DefaultP2PProtocol :: string where "DefaultP2PProtocol = ''/libp2p-stdhttp''"

definition NewTransport :: "(string \<Rightarrow> string) list \<Rightarrow> string" where
  "NewTransport opts = foldl (\<lambda>protocol option. option protocol) DefaultP2PProtocol opts"

definition ProtocolOption :: "string \<Rightarrow> string \<Rightarrow> string" where
  "ProtocolOption p protocol = p"

definition send_request :: "'w tunnel_env \<Rightarrow> nat \<Rightarrow> tunnel_request \<Rightarrow> 'w \<Rightarrow> 'w" where
  "send_request N conn r w =
     (case tn_WriteRequest N conn r w of (None, w1) \<Rightarrow> w1 | (Some _, w1) \<Rightarrow> tn_Close N conn w1)"

definition RoundTrip ::
  "'w tunnel_env \<Rightarrow> string \<Rightarrow> bool \<Rightarrow> tunnel_request \<Rightarrow> 'w \<Rightarrow> (tunnel_response \<times> nat) res \<times> 'w" where
  "RoundTrip N protocol early r w =
     (let addr = (if tr_Host r = [] then tr_UrlHost r else tr_Host r) in
      and_then (lift_res (tn_Decode N addr) w) (\<lambda>pid w.
      and_then (tn_NewStream N pid protocol w) (\<lambda>conn w1.
        let w2 = (if early then send_request N conn r w1 else w1) in
        case tn_ReadResponse N conn w2 of
          (result, w3) \<Rightarrow>
            (map_sum id (\<lambda>resp. (resp, conn)) result, if early then w3 else send_request N conn r w3))))"

definition respBody_Close :: "'w tunnel_env \<Rightarrow> nat \<Rightarrow> 'w \<Rightarrow> 'w" where
  "respBody_Close N conn w = tn_Close N conn w"

section \<open>Properties\<close>

text \<open>
  The peer behind the proxy never makes a request: whatever it reads from the stream, it resets the stream,
  since the scheme that it sets is unknown to the transport.
\<close>

theorem proxy_never_requests:
  "streamHandler N stream w = tn_Close N stream (tn_Reset N stream (snd (tn_ReadRequest N stream w)))"
  by (simp add: streamHandler_def default_RoundTrip_def proxied_def Let_def split: prod.split sum.split)

lemma header_Add_values:
  "map_of (foldl (\<lambda>h v. header_Add k v h) h vs) =
   (if vs = [] then map_of h else (map_of h)(k \<mapsto> (case map_of h k of None \<Rightarrow> [] | Some us \<Rightarrow> us) @ vs))"
proof (induction vs arbitrary: h)
  case (Cons v vs)
  have "map_of (header_Add k v h) = (map_of h)(k \<mapsto> (case map_of h k of None \<Rightarrow> [] | Some us \<Rightarrow> us) @ [v])"
    by (simp add: header_Add_def update_conv' split: option.split)
  with Cons show ?case by (auto simp: fun_eq_iff split: option.split)
qed simp

lemma copy_headers_map:
  assumes "distinct (map fst headers)" and "fst ` set headers \<inter> dom (map_of h) = {}"
  shows "map_of (copy_headers headers h) k =
    (case map_of headers k of Some (v # vs) \<Rightarrow> Some (v # vs) | _ \<Rightarrow> map_of h k)"
  using assms
proof (induction headers arbitrary: h)
  case (Cons kv headers)
  obtain j vs where kv: "kv = (j, vs)" by (cases kv)
  let ?h = "foldl (\<lambda>h v. header_Add j v h) h vs"
  have new: "map_of h j = None" using Cons.prems(2) kv by (auto simp: domIff)
  then have h: "map_of ?h k = (if k = j \<and> vs \<noteq> [] then Some vs else map_of h k)" for k
    by (simp add: header_Add_values)
  then have "map_of ?h = (if vs = [] then map_of h else (map_of h)(j \<mapsto> vs))" by (auto simp: fun_eq_iff)
  then have "fst ` set headers \<inter> dom (map_of ?h) = {}"
    using Cons.prems kv by (auto simp: dom_def split: if_splits)
  then have "map_of (copy_headers headers ?h) k =
      (case map_of headers k of Some (v # vs) \<Rightarrow> Some (v # vs) | _ \<Rightarrow> map_of ?h k)"
    using Cons.prems(1) kv by (intro Cons.IH) simp_all
  moreover have "map_of headers j = None" using Cons.prems(1) kv by (simp add: map_of_eq_None_iff)
  moreover have "copy_headers (kv # headers) h = copy_headers headers ?h" by (simp add: copy_headers_def kv)
  ultimately show ?case
    using new unfolding h by (cases vs) (auto simp: kv simp del: foldl_Cons split: option.split list.split)
qed (simp add: copy_headers_def)

text \<open>
  A response that arrives through the stream is passed on with its status, its body and all values of each of
  its headers in order, and the stream is closed.
\<close>

theorem response_passed_on:
  assumes "tn_NewStream N dest proxy_Protocol w = (Inr stream, w1)" and "tn_WriteRequest N stream r w1 = (None, w2)"
    and "tn_ReadResponse N stream w2 = (Inr resp, w3)" and "100 \<le> tp_StatusCode resp" "tp_StatusCode resp \<le> 999"
    and "distinct (map fst (tp_Header resp))"
  shows "\<exists>a. ServeHTTP N dest r no_answer w = (Inr a, tn_Close N stream w3) \<and>
    aw_status a = Some (tp_StatusCode resp) \<and> aw_body a = tp_Body resp \<and>
    (\<forall>k v vs. map_of (aw_Header a) k = Some (v # vs) \<longleftrightarrow> map_of (tp_Header resp) k = Some (v # vs))"
proof -
  let ?h = "copy_headers (tp_Header resp) []"
  have "map_of ?h k = (case map_of (tp_Header resp) k of Some (v # vs) \<Rightarrow> Some (v # vs) | _ \<Rightarrow> None)" for k
    using copy_headers_map [OF assms(6), of "[]" k] by (simp split: option.split list.split)
  then have "\<forall>k v vs. map_of ?h k = Some (v # vs) \<longleftrightarrow> map_of (tp_Header resp) k = Some (v # vs)"
    by (auto split: option.split list.split)
  with assms(1-5) show ?thesis by (simp add: ServeHTTP_def WriteHeader_def no_answer_def)
qed

text \<open>
  A status below 100, which can be read from a stream, is a panic; the stream is closed.
\<close>

theorem bad_status_panics:
  assumes "tn_NewStream N dest proxy_Protocol w = (Inr stream, w1)" and "tn_WriteRequest N stream r w1 = (None, w2)"
    and "tn_ReadResponse N stream w2 = (Inr resp, w3)" and "tp_StatusCode resp < 100"
  shows "ServeHTTP N dest r a w = (Inl (Panic ''invalid WriteHeader code''), tn_Close N stream w3)"
  using assms by (simp add: ServeHTTP_def WriteHeader_def)

text \<open>
  When no response can be read, the connection of the request is not closed.
\<close>

theorem failed_response_leaks:
  assumes "tn_Decode N (tr_Host r) = Inr pid" and "tr_Host r \<noteq> []" and "tn_NewStream N pid protocol w = (Inr conn, w1)"
    and "tn_WriteRequest N conn r w1 = (None, w2)" and "tn_ReadResponse N conn w2 = (Inl e, w3)"
  shows "RoundTrip N protocol True r w = (Inl e, w3)"
  using assms by (simp add: RoundTrip_def send_request_def)

section \<open>Witnesses\<close>

definition tunnel_sample :: "int \<Rightarrow> unit tunnel_env" where
  "tunnel_sample code = \<lparr>tn_NewStream = (\<lambda>_ _ w. (Inr 0, w)), tn_WriteRequest = (\<lambda>_ _ w. (None, w)),
     tn_ReadRequest = (\<lambda>_ w. (Inl (Err ''EOF''), w)), tn_WriteResponse = (\<lambda>_ _ w. w),
     tn_ReadResponse = (\<lambda>_ w. (if code < 0 then Inl (Err ''EOF'')
       else Inr \<lparr>tp_StatusCode = code, tp_Header = [(''A'', [''1'', ''2''])], tp_Body = ''hi''\<rparr>, w)),
     tn_Close = (\<lambda>_ w. w), tn_Reset = (\<lambda>_ w. w), tn_Dial = (\<lambda>_ w. (Inl (Err ''EOF''), w)), tn_Decode = Inr,
     tn_SetStreamHandler = (\<lambda>_ w. w), tn_ListenAndServe = (\<lambda>_ w. w), tn_DialArgs = (\<lambda>a. a), tn_NewMultiaddr = Inr,
     tn_IpfsValue = Inr, tn_Decapsulate = (\<lambda>a _. a), tn_AddAddr = (\<lambda>_ _ w. w), tn_NewHost = (\<lambda>_ w. (Inr (), w))\<rparr>"

definition tunnel_request_sample :: tunnel_request where
  "tunnel_request_sample = \<lparr>tr_Method = ''GET'', tr_Scheme = ''http'', tr_Host = ''peer'', tr_UrlHost = [], tr_Path = ''/'',
     tr_Body = None\<rparr>"

theorem response_passed_on_witness:
  "\<exists>a. ServeHTTP (tunnel_sample 200) ''p'' tunnel_request_sample no_answer () = (Inr a, ()) \<and> aw_status a = Some 200 \<and>
     map_of (aw_Header a) ''A'' = Some [''1'', ''2'']"
  using response_passed_on [of "tunnel_sample 200" "''p''" "()" 0 "()" tunnel_request_sample "()"
      "\<lparr>tp_StatusCode = 200, tp_Header = [(''A'', [''1'', ''2''])], tp_Body = ''hi''\<rparr>" "()"]
  by (auto simp: tunnel_sample_def)

theorem bad_status_panics_witness:
  "ServeHTTP (tunnel_sample 42) ''p'' tunnel_request_sample no_answer () = (Inl (Panic ''invalid WriteHeader code''), ())"
  using bad_status_panics [of "tunnel_sample 42" "''p''" "()" 0 "()" tunnel_request_sample "()"
      "\<lparr>tp_StatusCode = 42, tp_Header = [(''A'', [''1'', ''2''])], tp_Body = ''hi''\<rparr>" "()"]
  by (simp add: tunnel_sample_def)

theorem failed_response_leaks_witness:
  "RoundTrip (tunnel_sample (- 1)) DefaultP2PProtocol True tunnel_request_sample () = (Inl (Err ''EOF''), ())"
  by (rule failed_response_leaks [where conn = 0 and pid = "''peer''"])
    (simp_all add: tunnel_sample_def tunnel_request_sample_def)

end
