(* ===== verification/MailServer.thy ===== *)
theory MailServer
  imports Prelude
begin

text \<open>
  The start of the mail server, \<^verbatim>\<open>mail/maddy/default.go\<close>: its directories, the modules of its configuration
  and their initialisation. The framework of maddy is a parameter: the factories of the modules, the table of
  their instances, the hooks; and so are the file system and the parser of the configuration.
\<close>

section \<open>State\<close>

record conf_node =
  cn_Name :: string
  cn_Args :: "string list"
  cn_File :: string
  cn_Line :: nat

record mail_dirs =
  md_State :: string
  md_Runtime :: string
  md_Libexec :: string

text \<open>A module is a number; the shutdown hook of a module closes it.\<close>

record 'w maddy =
  ma_MkdirAll :: "string \<Rightarrow> 'w \<Rightarrow> go_error option \<times> 'w"
  ma_Create :: "string \<Rightarrow> 'w \<Rightarrow> go_error option \<times> 'w"
  ma_Remove :: "string \<Rightarrow> 'w \<Rightarrow> go_error option \<times> 'w"
  ma_IsAbs :: "string \<Rightarrow> bool"
  ma_Chdir :: "string \<Rightarrow> 'w \<Rightarrow> 'w"
  ma_ReadGlobals :: "conf_node list \<Rightarrow> mail_dirs \<Rightarrow> (conf_node list \<times> mail_dirs) res"
  ma_GetEndpoint :: "string \<Rightarrow> (string \<Rightarrow> string list \<Rightarrow> 'w \<Rightarrow> nat res \<times> 'w) option"
  ma_Get :: "string \<Rightarrow> (string \<Rightarrow> string \<Rightarrow> string list \<Rightarrow> 'w \<Rightarrow> nat res \<times> 'w) option"
  ma_HasInstance :: "string \<Rightarrow> 'w \<Rightarrow> bool"
  ma_RegisterInstance :: "nat \<Rightarrow> conf_node \<Rightarrow> 'w \<Rightarrow> 'w"
  ma_RegisterAlias :: "string \<Rightarrow> string \<Rightarrow> 'w \<Rightarrow> 'w"
  ma_Init :: "nat \<Rightarrow> conf_node \<Rightarrow> 'w \<Rightarrow> go_error option \<times> 'w"
  ma_Closer :: "nat \<Rightarrow> bool"
  ma_AddShutdownHook :: "nat \<Rightarrow> 'w \<Rightarrow> 'w"
  ma_RunShutdownHooks :: "'w \<Rightarrow> 'w"
  ma_InstanceName :: "nat \<Rightarrow> string"
  ma_Initialized :: "string \<Rightarrow> 'w \<Rightarrow> bool"
  ma_CloseLog :: "'w \<Rightarrow> 'w"
  ma_ReadConfig :: "string \<Rightarrow> 'w \<Rightarrow> conf_node list res"
  ma_PrependPath :: "string \<Rightarrow> 'w \<Rightarrow> 'w"

definition DefaultStateDirectory :: string where "DefaultStateDirectory = ''/var/lib/maddy''"
definition DefaultRuntimeDirectory :: string where "DefaultRuntimeDirectory = ''/run/maddy''"
definition DefaultLibexecDirectory :: string where "DefaultLibexecDirectory = ''/usr/lib/maddy''"

text \<open>A call that returns an error or nil, as a step.\<close>

definition checked :: "go_error option \<times> 'w \<Rightarrow> unit res \<times> 'w" where
  "checked r = (case r of (None, w) \<Rightarrow> (Inr (), w) | (Some e, w) \<Rightarrow> (Inl e, w))"

lemma checked_simps [simp]: "checked (None, w) = (Inr (), w)" "checked (Some e, w) = (Inl e, w)"
  by (simp_all add: checked_def)

section \<open>Directories\<close>

definition ensureDirectoryWritable :: "'w maddy \<Rightarrow> string \<Rightarrow> 'w \<Rightarrow> unit res \<times> 'w" where
  "ensureDirectoryWritable D path w =
     and_then (checked (ma_MkdirAll D path w)) (\<lambda>_ w.
     and_then (checked (ma_Create D (path @ ''/writeable-test'') w)) (\<lambda>_ w.
       checked (ma_Remove D (path @ ''/writeable-test'') w)))"

definition default_dirs :: "mail_dirs \<Rightarrow> mail_dirs" where
  "default_dirs c =
     \<lparr>md_State = if md_State c = [] then DefaultStateDirectory else md_State c,
      md_Runtime = if md_Runtime c = [] then DefaultRuntimeDirectory else md_Runtime c,
      md_Libexec = if md_Libexec c = [] then DefaultLibexecDirectory else md_Libexec c\<rparr>"

definition InitDirs :: "'w maddy \<Rightarrow> mail_dirs \<Rightarrow> 'w \<Rightarrow> mail_dirs res \<times> 'w" where
  "InitDirs D c0 w =
     (let c = default_dirs c0 in
      and_then (ensureDirectoryWritable D (md_State c) w) (\<lambda>_ w.
      and_then (ensureDirectoryWritable D (md_Runtime c) w) (\<lambda>_ w.
        if \<not> ma_IsAbs D (md_State c) then (Inl (Err ''statedir should be absolute''), w)
        else if \<not> ma_IsAbs D (md_Runtime c) then (Inl (Err ''runtimedir should be absolute''), w)
        else if \<not> ma_IsAbs D (md_Libexec c) then (Inl (Err ''-libexec should be absolute''), w)
        else (Inr c, ma_Chdir D (md_State c) w))))"

section \<open>Modules\<close>

type_synonym mod_info = "nat \<times> conf_node"

text \<open>The name of the instance and its aliases.\<close>

definition instance_names :: "conf_node \<Rightarrow> string \<times> string list" where
  "instance_names block = (case cn_Args block of [] \<Rightarrow> (cn_Name block, []) | a # aliases \<Rightarrow> (a, aliases))"

definition node_err :: "conf_node \<Rightarrow> string \<Rightarrow> string \<Rightarrow> go_error" where
  "node_err block msg name = Err (cn_File block @ msg @ name)"

fun register_aliases :: "'w maddy \<Rightarrow> conf_node \<Rightarrow> string \<Rightarrow> string list \<Rightarrow> 'w \<Rightarrow> unit res \<times> 'w" where
  "register_aliases D block instName [] w = (Inr (), w)"
| "register_aliases D block instName (nick # aliases) w =
     (if ma_HasInstance D nick w then (Inl (node_err block '': config block exists: '' nick), w)
      else register_aliases D block instName aliases (ma_RegisterAlias D nick instName w))"

definition register_module :: "'w maddy \<Rightarrow> conf_node \<Rightarrow> 'w \<Rightarrow> nat res \<times> 'w" where
  "register_module D block w =
     (case instance_names block of
        (instName, modAliases) \<Rightarrow>
          (case ma_Get D (cn_Name block) of
             None \<Rightarrow> (Inl (node_err block '': unknown module or global directive: '' (cn_Name block)), w)
           | Some factory \<Rightarrow>
               if ma_HasInstance D instName w then (Inl (node_err block '': config block exists: '' instName), w)
               else
                 and_then (factory (cn_Name block) instName modAliases w) (\<lambda>inst w.
                 and_then (register_aliases D block instName modAliases (ma_RegisterInstance D inst block w))
                   (\<lambda>_ w. (Inr inst, w)))))"

fun register_blocks ::
  "'w maddy \<Rightarrow> conf_node list \<Rightarrow> mod_info list \<Rightarrow> mod_info list \<Rightarrow> 'w \<Rightarrow> (mod_info list \<times> mod_info list) res \<times> 'w" where
  "register_blocks D [] endpoints mods w = (Inr (endpoints, mods), w)"
| "register_blocks D (block # blocks) endpoints mods w =
     (case ma_GetEndpoint D (cn_Name block) of
        Some endpFactory \<Rightarrow>
          and_then (endpFactory (cn_Name block) (cn_Args block) w) (\<lambda>inst w.
            register_blocks D blocks (endpoints @ [(inst, block)]) mods w)
      | None \<Rightarrow>
          and_then (register_module D block w) (\<lambda>inst w.
            register_blocks D blocks endpoints (mods @ [(inst, block)]) w))"

definition RegisterModules :: "'w maddy \<Rightarrow> conf_node list \<Rightarrow> 'w \<Rightarrow> (mod_info list \<times> mod_info list) res \<times> 'w" where
  "RegisterModules D blocks w =
     and_then (register_blocks D blocks [] [] w) (\<lambda>(endpoints, mods) w.
       if endpoints = [] then (Inl (Err ''at least one endpoint should be configured''), w)
       else (Inr (endpoints, mods), w))"

fun init_endpoints :: "'w maddy \<Rightarrow> mod_info list \<Rightarrow> 'w \<Rightarrow> unit res \<times> 'w" where
  "init_endpoints D [] w = (Inr (), w)"
| "init_endpoints D ((inst, cfg) # endpoints) w =
     and_then (checked (ma_Init D inst cfg w)) (\<lambda>_ w.
       init_endpoints D endpoints (if ma_Closer D inst then ma_AddShutdownHook D inst w else w))"

fun unused_block :: "'w maddy \<Rightarrow> mod_info list \<Rightarrow> 'w \<Rightarrow> unit res" where
  "unused_block D [] w = Inr ()"
| "unused_block D ((inst, cfg) # mods) w =
     (if ma_Initialized D (ma_InstanceName D inst) w then unused_block D mods w
      else Inl (Err (''Unused configuration block at '' @ cn_File cfg)))"

definition initModules :: "'w maddy \<Rightarrow> mod_info list \<Rightarrow> mod_info list \<Rightarrow> 'w \<Rightarrow> unit res \<times> 'w" where
  "initModules D endpoints mods w = and_then (init_endpoints D endpoints w) (\<lambda>_ w. (unused_block D mods w, w))"

section \<open>Running\<close>

text \<open>
  The waiting for signals is commented out: the hooks of the shutdown run when the modules are initialised.
  The log is closed on every return after the directories.
\<close>

definition run_modules :: "'w maddy \<Rightarrow> conf_node list \<Rightarrow> 'w \<Rightarrow> unit res \<times> 'w" where
  "run_modules D blocks w =
     and_then (RegisterModules D blocks w) (\<lambda>(endpoints, mods) w.
     and_then (initModules D endpoints mods w) (\<lambda>_ w. (Inr (), ma_RunShutdownHooks D w)))"

definition moduleMain :: "'w maddy \<Rightarrow> mail_dirs \<Rightarrow> conf_node list \<Rightarrow> 'w \<Rightarrow> unit res \<times> 'w" where
  "moduleMain D c cfg w =
     and_then (lift_res (ma_ReadGlobals D cfg c) w) (\<lambda>(modBlocks, c1) w.
     and_then (InitDirs D c1 w) (\<lambda>_ w.
       case run_modules D modBlocks w of (r, w1) \<Rightarrow> (r, ma_CloseLog D w1)))"

text \<open>The exit status; the flags are the path of the configuration, the version, and the rest of the arguments.\<close>

definition maddy_Run :: "'w maddy \<Rightarrow> mail_dirs \<Rightarrow> string \<Rightarrow> bool \<Rightarrow> string list \<Rightarrow> 'w \<Rightarrow> int res \<times> 'w" where
  "maddy_Run D c configPath printVersion args w =
     (if args \<noteq> [] then (Inr 2, w)
      else if printVersion then (Inr 0, w)
      else
        let w1 = ma_PrependPath D (md_Libexec c) w in
        case ma_ReadConfig D configPath w1 of
          Inl _ \<Rightarrow> (Inr 2, w1)
        | Inr cfg \<Rightarrow>
            (case moduleMain D c cfg w1 of
               (Inl (Panic p), w2) \<Rightarrow> (Inl (Panic p), w2)
             | (Inl (Err _), w2) \<Rightarrow> (Inr 2, w2)
             | (Inr _, w2) \<Rightarrow> (Inr 0, w2)))"

section \<open>Properties\<close>

text \<open>
  A mail server that starts is stopped at once: when \<open>Run\<close> reports success, everything that has been
  initialised has been shut down before it returns.
\<close>

theorem mail_server_stops:
  assumes "maddy_Run D c configPath False [] w = (Inr 0, w')"
  shows "\<exists>w1 endpoints mods w2. initModules D endpoints mods w1 = (Inr (), w2) \<and> endpoints \<noteq> [] \<and>
    w' = ma_CloseLog D (ma_RunShutdownHooks D w2)"
proof -
  from assms obtain cfg where "moduleMain D c cfg (ma_PrependPath D (md_Libexec c) w) = (Inr (), w')"
    by (auto simp: maddy_Run_def Let_def split: sum.split_asm prod.split_asm go_error.split_asm)
  then obtain modBlocks w1 w2 where "run_modules D modBlocks w1 = (Inr (), w2)" "w' = ma_CloseLog D w2"
    by (auto simp: moduleMain_def and_then_Inr split: prod.split_asm) (metis surj_pair)
  then show ?thesis
    by (auto simp: run_modules_def RegisterModules_def and_then_Inr split: prod.split_asm if_split_asm)
qed

text \<open>A relative directory is refused only after it has been created and written to.\<close>

theorem relative_directory_created:
  assumes "md_State c \<noteq> []" and "\<not> ma_IsAbs D (md_State c)"
    and "ensureDirectoryWritable D (md_State c) w = (Inr (), w1)"
    and "ensureDirectoryWritable D (md_Runtime (default_dirs c)) w1 = (Inr (), w2)"
  shows "InitDirs D c w = (Inl (Err ''statedir should be absolute''), w2)"
  using assms by (simp add: InitDirs_def default_dirs_def)

text \<open>A block that no endpoint has used is reported when the endpoints are already running; they are not closed.\<close>

theorem unused_block_keeps_endpoints:
  assumes "init_endpoints D endpoints w = (Inr (), w1)" and "(inst, cfg) \<in> set mods"
    and "\<not> ma_Initialized D (ma_InstanceName D inst) w1"
  shows "\<exists>e. initModules D endpoints mods w = (Inl e, w1)"
proof -
  have "\<exists>e. unused_block D mods w1 = Inl e" using assms(2,3) by (induction mods) auto
  with assms(1) show ?thesis by (auto simp: initModules_def)
qed








section \<open>Witnesses\<close>

text \<open>A framework whose world is the list of the names, with a module \<open>m\<close> and an endpoint \<open>e\<close>.\<close>

definition maddy_sample :: "string list maddy" where
  "maddy_sample = \<lparr>ma_MkdirAll = (\<lambda>_ w. (None, w)), ma_Create = (\<lambda>_ w. (None, w)), ma_Remove = (\<lambda>_ w. (None, w)),
     ma_IsAbs = (\<lambda>p. has_prefix p ''/''), ma_Chdir = (\<lambda>_ w. w), ma_ReadGlobals = (\<lambda>cfg c. Inr (cfg, c)),
     ma_GetEndpoint = (\<lambda>m. if m = ''e'' then Some (\<lambda>_ _ w. (Inr 1, w)) else None),
     ma_Get = (\<lambda>m. if m = ''m'' then Some (\<lambda>_ name _ w. if name = ''m'' then (Inr 0, w) else (Inl (Err ''name''), w)) else None),
     ma_HasInstance = (\<lambda>n w. n \<in> set w), ma_RegisterInstance = (\<lambda>i _ w. (if i = 0 then ''m'' else ''e'') # w),
     ma_RegisterAlias = (\<lambda>a _ w. a # w), ma_Init = (\<lambda>_ _ w. (None, w)), ma_Closer = (\<lambda>_. True),
     ma_AddShutdownHook = (\<lambda>_ w. w), ma_RunShutdownHooks = (\<lambda>w. []), ma_InstanceName = (\<lambda>i. if i = 0 then ''m'' else ''e''),
     ma_Initialized = (\<lambda>n w. n \<in> set w), ma_CloseLog = (\<lambda>w. w),
     ma_ReadConfig = (\<lambda>_ _. Inr [\<lparr>cn_Name = ''e'', cn_Args = [], cn_File = [], cn_Line = 1\<rparr>]),
     ma_PrependPath = (\<lambda>_ w. w)\<rparr>"

definition conf_sample :: "conf_node list" where
  "conf_sample = [\<lparr>cn_Name = ''m'', cn_Args = [], cn_File = [], cn_Line = 1\<rparr>,
     \<lparr>cn_Name = ''e'', cn_Args = [], cn_File = [], cn_Line = 2\<rparr>]"

definition dirs_sample :: "string \<Rightarrow> mail_dirs" where
  "dirs_sample d = \<lparr>md_State = d, md_Runtime = [], md_Libexec = []\<rparr>"

theorem mail_server_stops_witness:
  "\<exists>w2. maddy_Run maddy_sample (dirs_sample []) ''conf'' False [] [] = (Inr 0, ma_RunShutdownHooks maddy_sample w2)"
proof -
  have run: "maddy_Run maddy_sample (dirs_sample []) ''conf'' False [] [] = (Inr 0, [])"
    by (simp add: maddy_Run_def moduleMain_def run_modules_def InitDirs_def default_dirs_def ensureDirectoryWritable_def
        RegisterModules_def initModules_def maddy_sample_def dirs_sample_def DefaultStateDirectory_def
        DefaultRuntimeDirectory_def DefaultLibexecDirectory_def)
  from mail_server_stops [OF run] run show ?thesis by (auto simp: maddy_sample_def)
qed

theorem relative_directory_created_witness:
  "InitDirs maddy_sample (dirs_sample ''data'') [] = (Inl (Err ''statedir should be absolute''), [])"
  by (rule relative_directory_created)
    (simp_all add: dirs_sample_def maddy_sample_def ensureDirectoryWritable_def)

theorem unused_block_keeps_endpoints_witness:
  "\<exists>e. initModules maddy_sample [(1, hd conf_sample)] [(0, hd conf_sample)] [] = (Inl e, [])"
  by (rule unused_block_keeps_endpoints [where inst = 0 and cfg = "hd conf_sample"]) (simp_all add: maddy_sample_def)



end
