(* ===== verification/IonSignals.thy ===== *)
theory IonSignals
  imports WebrtcSignals
begin

text \<open>
  The signals of the Ion SFU, \<^verbatim>\<open>webrtc/ion/sfu/signal.go\<close>: the map that is sent as JSON and its reading. The
  files \<^verbatim>\<open>pool.go\<close> and \<^verbatim>\<open>peer.go\<close> beside it are comments from their first line to their last.
\<close>

abbreviation SfuSignalType_Join :: string where "SfuSignalType_Join \<equiv> ''join''"
abbreviation SfuSignalType_Offer :: string where "SfuSignalType_Offer \<equiv> ''offer''"
abbreviation SfuSignalType_Answer :: string where "SfuSignalType_Answer \<equiv> ''answer''"
abbreviation SfuSignalType_Trickle :: string where "SfuSignalType_Trickle \<equiv> ''trickle''"

text \<open>A candidate is the object that JSON has for it.\<close>

record sfu_signal =
  fs_SignalType :: string
  fs_Sid :: string
  fs_PrimaryPeerId :: string
  fs_Sdp :: "session_description option"
  fs_Target :: int
  fs_Candidate :: "json option"

definition sfu_signal0 :: sfu_signal where
  "sfu_signal0 = \<lparr>fs_SignalType = [], fs_Sid = [], fs_PrimaryPeerId = [], fs_Sdp = None, fs_Target = 0, fs_Candidate = None\<rparr>"

text \<open>The map that \<open>Signal\<close> hands to the action. A nil candidate is \<open>null\<close>.\<close>

definition sfu_payload :: "sfu_signal \<Rightarrow> (string \<times> json) list" where
  "sfu_payload sig =
     (''type'', JStr (fs_SignalType sig)) #
     (if fs_SignalType sig = SfuSignalType_Offer \<or> fs_SignalType sig = SfuSignalType_Answer then
        (case fs_Sdp sig of None \<Rightarrow> [] | Some sdp \<Rightarrow> [(''sdp'', JStr (sd_SDP sdp))])
      else if fs_SignalType sig = SfuSignalType_Trickle then
        [(''candidate'', case fs_Candidate sig of None \<Rightarrow> JNull | Some c \<Rightarrow> c)]
      else [])"

text \<open>A number that was decoded from JSON is a \<^verbatim>\<open>float64\<close>: the assertion to \<^verbatim>\<open>int\<close> never holds of it.\<close>

definition as_int :: "json \<Rightarrow> int option" where
  "as_int j = None"

definition json_string :: "json option \<Rightarrow> string" where
  "json_string j = (case j of Some (JStr s) \<Rightarrow> s | _ \<Rightarrow> [])"

text \<open>The parameter \<open>candidate\<close> marshals a map and unmarshals it to a candidate; \<open>None\<close> is the nil signal.\<close>

definition sfu_Transform :: "(json \<Rightarrow> json option) \<Rightarrow> (string \<times> json) list \<Rightarrow> sfu_signal option" where
  "sfu_Transform candidate payload =
     (let field = map_of payload; signalType = json_string (field ''type'') in
      if field ''type'' = Some (JStr []) then None
      else
        let sfuSignal = sfu_signal0\<lparr>fs_SignalType := signalType\<rparr> in
        Some
          (if signalType = SfuSignalType_Offer \<or> signalType = SfuSignalType_Answer \<or> signalType = SfuSignalType_Join then
             sfuSignal\<lparr>
               fs_Sdp := transform_sdp
                 (if signalType = SfuSignalType_Answer then SfuSignalType_Answer else SfuSignalType_Offer) (field ''sdp''),
               fs_Sid := json_string (field ''sid''),
               fs_PrimaryPeerId := json_string (field ''primaryPeerId'')\<rparr>
           else if signalType = SfuSignalType_Trickle then
             sfuSignal\<lparr>
               fs_Candidate := (case field ''candidate'' of Some (JObj m) \<Rightarrow> candidate (JObj m) | _ \<Rightarrow> None),
               fs_Target := (case Option.bind (field ''target'') as_int of None \<Rightarrow> 0 | Some t \<Rightarrow> t)\<rparr>
           else sfuSignal))"

text \<open>
  Of a signal the receiver gets its type, the text of an offer or an answer, and the candidate of a
  trickle; the room and its node are never sent, so that nobody can be asked to join one, and the
  target of a candidate is lost.
\<close>

theorem sfu_signal_arrives:
  assumes "fs_SignalType sig \<noteq> []"
    and "\<And>j. candidate j = Some j" and "\<And>c. fs_Candidate sig = Some c \<Longrightarrow> \<exists>m. c = JObj m"
  shows "sfu_Transform candidate (sfu_payload sig) = Some (sfu_signal0\<lparr>
    fs_SignalType := fs_SignalType sig,
    fs_Sdp := (if fs_SignalType sig \<in> {SfuSignalType_Offer, SfuSignalType_Answer}
      then (case fs_Sdp sig of
              Some sdp \<Rightarrow> if sd_SDP sdp \<noteq> [] then Some (sdp\<lparr>sd_Type := fs_SignalType sig\<rparr>) else None | None \<Rightarrow> None) else None),
    fs_Candidate := (if fs_SignalType sig = SfuSignalType_Trickle then fs_Candidate sig else None)\<rparr>)"
proof (cases "fs_Candidate sig")
  case None
  with assms(1) show ?thesis
    by (cases "fs_Sdp sig")
      (auto simp: sfu_Transform_def sfu_payload_def json_string_def transform_sdp_def sfu_signal0_def Let_def)
next
  case (Some c)
  with assms(3) obtain m where "c = JObj m" by blast
  with Some assms(1,2) show ?thesis
    by (cases "fs_Sdp sig")
      (auto simp: sfu_Transform_def sfu_payload_def json_string_def transform_sdp_def sfu_signal0_def Let_def)
qed

theorem sfu_signal_arrives_witness:
  "fs_Sid (the (sfu_Transform Some (sfu_payload (sfu_signal0\<lparr>fs_SignalType := ''join'', fs_Sid := ''room''\<rparr>)))) = []"
  using sfu_signal_arrives [of "sfu_signal0\<lparr>fs_SignalType := ''join'', fs_Sid := ''room''\<rparr>" Some]
  by (simp add: sfu_signal0_def)

end
