(* ===== verification/TcpTunnels.thy ===== *)
theory TcpTunnels
  imports Gateways "HOL-Library.Sublist"
begin

text \<open>
  The connections of the TCP proxy, \<^verbatim>\<open>transport/tcpproxy/default.go\<close>: \<open>handle\<close> with the two goroutines
  that copy, step by step, and the channel over which they end it. The choice of the backend is \<open>getIP\<close> of
  \<open>Gateways\<close>.
\<close>

section \<open>State\<close>

text \<open>\<open>Up\<close> is from the client to the backend, \<open>Down\<close> the way back.\<close>

datatype side = Up | Down

text \<open>
  A goroutine is in \<open>io.Copy\<close> before a read or before a write, is about to send to the channel, or has ended.
  \<open>handle\<close> waits for the channel, closes the connection to the backend, then, as deferred, the one to the
  client.
\<close>

datatype copier = Copying | Writing string | Exiting | Ended

datatype handling = Waiting | ClosingBackend | ClosingClient | Returned

record tunnel =
  tu_backend :: string
  tu_sconn :: bool
  tu_dconn :: bool
  tu_exit :: nat
  tu_handler :: handling
  tu_copier :: "side \<Rightarrow> copier"
  tu_read :: "side \<Rightarrow> string"
  tu_written :: "side \<Rightarrow> string"

record tcp_proxy =
  tx_trueList :: "string list"
  tx_accepted :: nat
  tx_tunnels :: "tunnel list"

definition new_tunnel :: "string \<Rightarrow> tunnel" where
  "new_tunnel ip = \<lparr>tu_backend = ip, tu_sconn = True, tu_dconn = True, tu_exit = 0, tu_handler = Waiting,
     tu_copier = \<lambda>_. Copying, tu_read = \<lambda>_. [], tu_written = \<lambda>_. []\<rparr>"

definition source_open :: "side \<Rightarrow> tunnel \<Rightarrow> bool" where
  "source_open d t = (case d of Up \<Rightarrow> tu_sconn t | Down \<Rightarrow> tu_dconn t)"

definition target_open :: "side \<Rightarrow> tunnel \<Rightarrow> bool" where
  "target_open d t = (case d of Up \<Rightarrow> tu_dconn t | Down \<Rightarrow> tu_sconn t)"

definition set_copier :: "side \<Rightarrow> copier \<Rightarrow> tunnel \<Rightarrow> tunnel" where
  "set_copier d k t = t\<lparr>tu_copier := (tu_copier t)(d := k)\<rparr>"

section \<open>Operations\<close>

text \<open>\<open>None\<close> ends the process; without a backend \<open>handle\<close> closes the connection.\<close>

definition tcp_Start :: "string \<Rightarrow> tcp_proxy option" where
  "tcp_Start servers =
     (let trueList = split_on (CHR '','') servers in
      if length trueList \<le> 0 then None
      else Some \<lparr>tx_trueList = trueList, tx_accepted = 0, tx_tunnels = []\<rparr>)"

text \<open>An accepted connection, up to the start of the goroutines; \<open>dials\<close> tells whether the backend answers.\<close>

definition tcp_handle :: "(string \<Rightarrow> bool) \<Rightarrow> tcp_proxy \<Rightarrow> tcp_proxy" where
  "tcp_handle dials s =
     (case getIP (tx_trueList s) of
        (ip, ips) \<Rightarrow>
          let s1 = s\<lparr>tx_trueList := ips, tx_accepted := tx_accepted s + 1\<rparr> in
          (case ip of
             None \<Rightarrow> s1
           | Some ip \<Rightarrow> if dials ip then s1\<lparr>tx_tunnels := tx_tunnels s1 @ [new_tunnel ip]\<rparr> else s1))"

text \<open>
  What a call of the network gives: data that were read, or that were written in full, or a failure, for a
  write after so many bytes. The end of the data that are read is a failure, too. On a connection that is
  closed each call fails. The channel has room for one value; \<open>None\<close> is blocked or has ended.
\<close>

datatype tcp_result = Data string | Fails nat

definition copy_next :: "tcp_result \<Rightarrow> side \<Rightarrow> tunnel \<Rightarrow> tunnel option" where
  "copy_next inp d t =
     (case tu_copier t d of
        Copying \<Rightarrow>
          (case inp of
             Data c \<Rightarrow>
               if source_open d t
               then Some (set_copier d (Writing c) (t\<lparr>tu_read := (tu_read t)(d := tu_read t d @ c)\<rparr>))
               else Some (set_copier d Exiting t)
           | Fails _ \<Rightarrow> Some (set_copier d Exiting t))
      | Writing c \<Rightarrow>
          if target_open d t
          then
            (case inp of
               Data _ \<Rightarrow> Some (set_copier d Copying (t\<lparr>tu_written := (tu_written t)(d := tu_written t d @ c)\<rparr>))
             | Fails n \<Rightarrow> Some (set_copier d Exiting (t\<lparr>tu_written := (tu_written t)(d := tu_written t d @ take n c)\<rparr>)))
          else Some (set_copier d Exiting t)
      | Exiting \<Rightarrow> if tu_exit t < 1 then Some (set_copier d Ended (t\<lparr>tu_exit := tu_exit t + 1\<rparr>)) else None
      | Ended \<Rightarrow> None)"

definition handle_next :: "tunnel \<Rightarrow> tunnel option" where
  "handle_next t =
     (case tu_handler t of
        Waiting \<Rightarrow> if 0 < tu_exit t then Some (t\<lparr>tu_exit := tu_exit t - 1, tu_handler := ClosingBackend\<rparr>) else None
      | ClosingBackend \<Rightarrow> Some (t\<lparr>tu_dconn := False, tu_handler := ClosingClient\<rparr>)
      | ClosingClient \<Rightarrow> Some (t\<lparr>tu_sconn := False, tu_handler := Returned\<rparr>)
      | Returned \<Rightarrow> None)"

inductive tunnel_step :: "tunnel \<Rightarrow> tunnel \<Rightarrow> bool" where
  copies: "copy_next inp d t = Some t' \<Longrightarrow> tunnel_step t t'"
| handles: "handle_next t = Some t' \<Longrightarrow> tunnel_step t t'"

inductive tcp_reach :: "tcp_proxy \<Rightarrow> tcp_proxy \<Rightarrow> bool" for s0 where
  tcp_start: "tcp_reach s0 s0"
| tcp_accepts: "tcp_reach s0 s \<Longrightarrow> tcp_reach s0 (tcp_handle dials s)"
| tcp_moves: "tcp_reach s0 s \<Longrightarrow> i < length (tx_tunnels s) \<Longrightarrow> tunnel_step (tx_tunnels s ! i) t \<Longrightarrow>
    tcp_reach s0 (s\<lparr>tx_tunnels := (tx_tunnels s)[i := t]\<rparr>)"

section \<open>What holds of a tunnel\<close>

text \<open>
  What has been read is what has been written and the piece at hand. The values in the channel and the one
  that has been received are the goroutines that have ended, and \<open>handle\<close> closes in its order.
\<close>

definition ended :: "side \<Rightarrow> tunnel \<Rightarrow> nat" where
  "ended d t = (if tu_copier t d = Ended then 1 else 0)"

fun copied :: "copier \<Rightarrow> string \<Rightarrow> string \<Rightarrow> bool" where
  "copied Copying r w = (r = w)"
| "copied (Writing c) r w = (r = w @ c)"
| "copied Exiting r w = prefix w r"
| "copied Ended r w = prefix w r"

lemma copied_prefix: "copied k r w \<Longrightarrow> prefix w r"
  by (cases k) auto

definition tunnel_ok :: "tunnel \<Rightarrow> bool" where
  "tunnel_ok t \<longleftrightarrow> (\<forall>d. copied (tu_copier t d) (tu_read t d) (tu_written t d)) \<and>
     tu_exit t + (if tu_handler t = Waiting then 0 else 1) = ended Up t + ended Down t \<and> tu_exit t \<le> 1 \<and>
     (tu_dconn t \<longleftrightarrow> tu_handler t \<in> {Waiting, ClosingBackend}) \<and> (tu_sconn t \<longleftrightarrow> tu_handler t \<noteq> Returned)"

lemma set_copier_fields [simp]:
  "tu_copier (set_copier d k t) = (tu_copier t)(d := k)" "tu_read (set_copier d k t) = tu_read t"
  "tu_written (set_copier d k t) = tu_written t" "tu_exit (set_copier d k t) = tu_exit t"
  "tu_handler (set_copier d k t) = tu_handler t" "tu_dconn (set_copier d k t) = tu_dconn t"
  "tu_sconn (set_copier d k t) = tu_sconn t" "tu_backend (set_copier d k t) = tu_backend t"
  by (simp_all add: set_copier_def)

lemma new_tunnel_ok: "tunnel_ok (new_tunnel ip)"
  by (simp add: tunnel_ok_def new_tunnel_def ended_def)

lemma all_sides: "(\<forall>d. P d) \<longleftrightarrow> P Up \<and> P Down"
  by (metis side.exhaust)

lemma copy_next_cases:
  assumes "copy_next inp d t = Some t'"
  obtains (reads) c where "tu_copier t d = Copying" "source_open d t"
      "t' = set_copier d (Writing c) (t\<lparr>tu_read := (tu_read t)(d := tu_read t d @ c)\<rparr>)"
  | (fails) "tu_copier t d \<notin> {Exiting, Ended}" "t' = set_copier d Exiting t"
  | (writes) c where "tu_copier t d = Writing c" "target_open d t"
      "t' = set_copier d Copying (t\<lparr>tu_written := (tu_written t)(d := tu_written t d @ c)\<rparr>)"
  | (breaks) c n where "tu_copier t d = Writing c" "target_open d t"
      "t' = set_copier d Exiting (t\<lparr>tu_written := (tu_written t)(d := tu_written t d @ take n c)\<rparr>)"
  | (sends) "tu_copier t d = Exiting" "tu_exit t = 0" "t' = set_copier d Ended (t\<lparr>tu_exit := 1\<rparr>)"
  using assms unfolding copy_next_def
  by (auto split: copier.split_asm tcp_result.split_asm if_split_asm)

lemma copy_next_ok:
  assumes "copy_next inp d t = Some t'" and "tunnel_ok t"
  shows "tunnel_ok t'"
proof -
  have "copied (tu_copier t' e) (tu_read t' e) (tu_written t' e)" for e
    using assms(1)
  proof (cases rule: copy_next_cases)
    case (breaks c n)
    with assms(2) show ?thesis by (auto simp: tunnel_ok_def take_is_prefix dest!: spec [of _ e])
  next
    case fails
    with assms(2) show ?thesis by (auto simp: tunnel_ok_def dest!: spec [of _ e] copied_prefix)
  qed (use assms(2) in \<open>auto simp: tunnel_ok_def dest!: spec [of _ e]\<close>)
  moreover have "tu_handler t' = tu_handler t \<and> tu_dconn t' = tu_dconn t \<and> tu_sconn t' = tu_sconn t \<and>
      tu_exit t' + ended Up t + ended Down t = tu_exit t + ended Up t' + ended Down t' \<and> (tu_exit t \<le> 1 \<longrightarrow> tu_exit t' \<le> 1)"
    using assms(1) by (cases rule: copy_next_cases) (cases d; auto simp: ended_def)+
  ultimately show ?thesis using assms(2) by (auto simp: tunnel_ok_def)
qed

lemma handle_next_ok:
  assumes "handle_next t = Some t'" and "tunnel_ok t"
  shows "tunnel_ok t'"
  using assms by (auto simp: handle_next_def tunnel_ok_def ended_def split: handling.split_asm if_split_asm)

lemma tunnel_step_ok: "tunnel_step t t' \<Longrightarrow> tunnel_ok t \<Longrightarrow> tunnel_ok t'"
  by (auto elim!: tunnel_step.cases intro: copy_next_ok handle_next_ok)

lemma tunnel_step_backend: "tunnel_step t t' \<Longrightarrow> tu_backend t' = tu_backend t"
  by (auto elim!: tunnel_step.cases copy_next_cases simp: handle_next_def split: handling.split_asm if_split_asm)


section \<open>Runs of the proxy\<close>

text \<open>A proxy that has accepted connections: its list of backends has been rotated once for each.\<close>

definition tcp_ok :: "string list \<Rightarrow> tcp_proxy \<Rightarrow> bool" where
  "tcp_ok ips s \<longleftrightarrow> tx_trueList s = rotate (tx_accepted s) ips \<and>
     (\<forall>t \<in> set (tx_tunnels s). tunnel_ok t \<and> tu_backend t \<in> set ips)"

lemma getIP_rotate1: "ips \<noteq> [] \<Longrightarrow> getIP ips = (Some (hd ips), rotate1 ips)"
  by (cases ips) (simp_all add: getIP_def)

lemma tcp_handle_ok:
  assumes "tcp_ok ips s" and "ips \<noteq> []"
  shows "tcp_ok ips (tcp_handle dials s)"
proof -
  from assms have "tx_trueList s \<noteq> []" "set (tx_trueList s) = set ips" by (simp_all add: tcp_ok_def)
  then have "getIP (tx_trueList s) = (Some (hd (tx_trueList s)), rotate1 (tx_trueList s))" "hd (tx_trueList s) \<in> set ips"
    by (simp_all add: getIP_rotate1) (metis hd_in_set)
  with assms show ?thesis
    by (auto simp: tcp_ok_def tcp_handle_def Let_def new_tunnel_ok new_tunnel_def [of "hd (rotate (tx_accepted s) ips)"]
        intro: new_tunnel_ok [unfolded new_tunnel_def])
qed

lemma tcp_reach_ok:
  assumes "tcp_reach s0 s" and "tcp_ok ips s0" and "ips \<noteq> []"
  shows "tcp_ok ips s"
  using assms(1)
proof induction
  case (tcp_moves s i t)
  then have "tunnel_ok t \<and> tu_backend t \<in> set ips"
    by (metis nth_mem tcp_ok_def tunnel_step_ok tunnel_step_backend)
  with tcp_moves.IH show ?case by (auto simp: tcp_ok_def dest!: subsetD [OF set_update_subset_insert])
qed (use assms tcp_handle_ok in blast)+

lemma tcp_Start_ok: "tcp_Start servers = Some s0 \<Longrightarrow> tcp_ok (split_on (CHR '','') servers) s0"
  by (auto simp: tcp_Start_def tcp_ok_def Let_def split: if_split_asm)

section \<open>Properties\<close>


text \<open>The list of backends is never empty, so that the test for it does not end the process.\<close>

theorem tcp_Start_never_exits: "\<exists>s. tcp_Start servers = Some s \<and> tx_trueList s \<noteq> []"
  by (simp add: tcp_Start_def Let_def)

text \<open>What a tunnel whose \<open>handle\<close> has returned has left to do.\<close>

fun copy_work :: "copier \<Rightarrow> nat" where
  "copy_work Copying = 2"
| "copy_work (Writing _) = 2"
| "copy_work Exiting = 1"
| "copy_work Ended = 0"

definition work :: "tunnel \<Rightarrow> nat" where
  "work t = copy_work (tu_copier t Up) + copy_work (tu_copier t Down)"

text \<open>
  C33: a tunnel always ends once one of its goroutines has ended. No step is blocked for ever: as long as
  something is left to do, a step is possible, whatever the network does, and when \<open>handle\<close> has returned,
  each step leaves less, at most four in all. So no goroutine is left behind.
\<close>

theorem tunnel_drains:
  assumes "tcp_Start servers = Some s0" and "tcp_reach s0 s" and "t \<in> set (tx_tunnels s)" and "tu_handler t = Returned"
  shows "work t \<le> 4 \<and> (0 < work t \<longrightarrow> (\<exists>d. \<forall>inp. copy_next inp d t \<noteq> None)) \<and>
    (\<forall>t'. tunnel_step t t' \<longrightarrow> work t' < work t \<and> tu_handler t' = Returned \<and> tu_written t' = tu_written t)"
proof -
  from tcp_reach_ok [OF assms(2) tcp_Start_ok [OF assms(1)]] assms(3) have ok: "tunnel_ok t"
    by (simp add: tcp_ok_def)
  have le: "copy_work k \<le> 2" for k by (cases k) auto
  have shut: "\<not> source_open d t" "\<not> target_open d t" for d
    using ok assms(4) by (cases d; simp add: tunnel_ok_def source_open_def target_open_def)+
  have less: "work t' < work t \<and> tu_handler t' = Returned \<and> tu_written t' = tu_written t" if "tunnel_step t t'" for t'
    using that
  proof cases
    case (copies inp d)
    from copies shut show ?thesis
      by (cases rule: copy_next_cases) (cases d; cases "tu_copier t d"; auto simp: work_def assms(4))+
  next
    case handles
    with assms(4) show ?thesis by (simp add: handle_next_def)
  qed
  have "\<exists>d. \<forall>inp. copy_next inp d t \<noteq> None" if "0 < work t"
  proof -
    from that have "tu_copier t Up \<noteq> Ended \<or> tu_copier t Down \<noteq> Ended" by (auto simp: work_def)
    then obtain d where d: "tu_copier t d \<noteq> Ended" by blast
    then have "tu_exit t = 0" using ok assms(4) by (cases d) (auto simp: tunnel_ok_def ended_def split: if_split_asm)
    with d have "copy_next inp d t \<noteq> None" for inp
      by (auto simp: copy_next_def split: copier.split tcp_result.split)
    then show ?thesis by blast
  qed
  with less le [of "tu_copier t Up"] le [of "tu_copier t Down"] show ?thesis by (simp add: work_def)
qed

lemma half_close_run:
  assumes "tunnel_ok t" and "tu_handler t = Waiting" and "tu_copier t Up = Copying" and "tu_copier t Down = Writing c"
  shows "\<exists>t'. tunnel_step\<^sup>*\<^sup>* t t' \<and> work t' = 0 \<and> tu_handler t' = Returned \<and> tu_read t' Down = tu_written t' Down @ c"
proof -
  from assms have e: "tu_exit t = 0" by (auto simp: tunnel_ok_def ended_def)
  define t1 where "t1 = set_copier Up Exiting t"
  define t2 where "t2 = set_copier Up Ended (t1\<lparr>tu_exit := 1\<rparr>)"
  define t3 where "t3 = t2\<lparr>tu_exit := 0, tu_handler := ClosingBackend\<rparr>"
  define t4 where "t4 = t3\<lparr>tu_dconn := False, tu_handler := ClosingClient\<rparr>"
  define t5 where "t5 = t4\<lparr>tu_sconn := False, tu_handler := Returned\<rparr>"
  define t6 where "t6 = set_copier Down Exiting t5"
  define t7 where "t7 = set_copier Down Ended (t6\<lparr>tu_exit := 1\<rparr>)"
  note defs = t1_def t2_def t3_def t4_def t5_def t6_def t7_def
  have "tunnel_step t t1" by (rule copies [of "Fails 0" Up]) (simp add: copy_next_def assms t1_def)
  moreover have "tunnel_step t1 t2" by (rule copies [of "Fails 0" Up]) (simp add: copy_next_def e defs)
  moreover have "tunnel_step t2 t3" by (rule handles) (simp add: handle_next_def assms defs)
  moreover have "tunnel_step t3 t4" by (rule handles) (simp add: handle_next_def defs)
  moreover have "tunnel_step t4 t5" by (rule handles) (simp add: handle_next_def defs)
  moreover have "tunnel_step t5 t6"
    by (rule copies [of "Fails 0" Down]) (simp add: copy_next_def target_open_def assms defs)
  moreover have "tunnel_step t6 t7" by (rule copies [of "Fails 0" Down]) (simp add: copy_next_def defs)
  ultimately have "tunnel_step\<^sup>*\<^sup>* t t7" by (meson converse_rtranclp_into_rtranclp rtranclp.rtrancl_refl)
  moreover have "tu_read t Down = tu_written t Down @ c"
    using assms(1,4) by (metis copied.simps(2) tunnel_ok_def)
  then have "work t7 = 0 \<and> tu_handler t7 = Returned \<and> tu_read t7 Down = tu_written t7 Down @ c"
    by (simp add: work_def defs)
  ultimately show ?thesis by blast
qed

lemma tcp_reach_tunnel:
  assumes "tunnel_step\<^sup>*\<^sup>* (tx_tunnels s ! i) t" and "tcp_reach s0 s" and "i < length (tx_tunnels s)"
  shows "tcp_reach s0 (s\<lparr>tx_tunnels := (tx_tunnels s)[i := t]\<rparr>)"
  using assms(1)
proof induction
  case (step t t')
  from tcp_moves [OF step.IH, of i t'] step.hyps(2) assms(3) show ?case by simp
qed (use assms in simp)

text \<open>
  The two directions do not end apart. When the client has sent everything and closes its half, the
  connections are closed, and what the backend has answered but is not yet written is lost.
\<close>

theorem half_close_loses_answer:
  assumes "tcp_Start servers = Some s0" and "tcp_reach s0 s" and "i < length (tx_tunnels s)" and "t = tx_tunnels s ! i"
    and "tu_handler t = Waiting" and "tu_copier t Up = Copying" and "tu_copier t Down = Writing c"
  shows "\<exists>s' t'. tcp_reach s0 s' \<and> tx_tunnels s' = (tx_tunnels s)[i := t'] \<and> work t' = 0 \<and> tu_handler t' = Returned \<and>
    tu_read t' Down = tu_written t' Down @ c"
proof -
  have "tunnel_ok t"
    using tcp_reach_ok [OF assms(2) tcp_Start_ok [OF assms(1)]] assms(3,4) by (simp add: tcp_ok_def)
  from half_close_run [OF this assms(5-7)] obtain t' where t': "tunnel_step\<^sup>*\<^sup>* t t'" "work t' = 0" "tu_handler t' = Returned"
      "tu_read t' Down = tu_written t' Down @ c" by blast
  from tcp_reach_tunnel [OF t'(1) [unfolded assms(4)] assms(2,3)] t'(2-4) show ?thesis by fastforce
qed

section \<open>Witnesses\<close>

definition tcp_sample :: tcp_proxy where
  "tcp_sample = \<lparr>tx_trueList = [''a'', ''b''], tx_accepted = 0, tx_tunnels = []\<rparr>"

lemma tcp_sample_start: "tcp_Start ''a,b'' = Some tcp_sample"
  by (simp add: tcp_Start_def tcp_sample_def)

text \<open>The backend has answered; then the client closes.\<close>

definition answered_tunnel :: tunnel where
  "answered_tunnel = set_copier Down (Writing ''x'') ((new_tunnel ''a'')\<lparr>tu_read := (\<lambda>_. [])(Down := ''x'')\<rparr>)"

lemma answered_tunnel_ok: "tunnel_ok answered_tunnel"
  by (simp add: tunnel_ok_def all_sides answered_tunnel_def new_tunnel_def ended_def)

definition answered_proxy :: tcp_proxy where
  "answered_proxy = tcp_sample\<lparr>tx_trueList := [''b'', ''a''], tx_accepted := 1, tx_tunnels := [answered_tunnel]\<rparr>"

lemma answered_tunnel_fields [simp]:
  "tu_handler answered_tunnel = Waiting" "tu_copier answered_tunnel Up = Copying" "tu_copier answered_tunnel Down = Writing ''x''"
  "tx_tunnels answered_proxy = [answered_tunnel]"
  by (simp_all add: answered_tunnel_def new_tunnel_def answered_proxy_def)

lemma tcp_sample_run: "tcp_reach tcp_sample answered_proxy"
proof -
  have "tcp_reach tcp_sample (tcp_sample\<lparr>tx_trueList := [''b'', ''a''], tx_accepted := 1, tx_tunnels := [new_tunnel ''a'']\<rparr>)"
    using tcp_accepts [OF tcp_start, of tcp_sample "\<lambda>_. True"] by (simp add: tcp_handle_def tcp_sample_def getIP_def Let_def)
  moreover have "tunnel_step (new_tunnel ''a'') answered_tunnel"
    by (rule copies [of "Data ''x''" Down])
      (simp add: copy_next_def answered_tunnel_def new_tunnel_def source_open_def set_copier_def fun_eq_iff)
  ultimately show ?thesis by (drule_tac tcp_moves [where i = 0]) (simp_all add: answered_proxy_def)
qed


theorem tunnel_drains_witness: "\<exists>t. tunnel_step\<^sup>*\<^sup>* answered_tunnel t \<and> tu_handler t = Returned \<and> work t \<le> 4"
proof -
  obtain t where t: "tunnel_step\<^sup>*\<^sup>* answered_tunnel t" "tu_handler t = Returned"
    using half_close_run [OF answered_tunnel_ok, of "''x''"] by auto
  have "tcp_reach tcp_sample (answered_proxy\<lparr>tx_tunnels := [t]\<rparr>)"
    using tcp_reach_tunnel [of answered_proxy 0 t, OF _ tcp_sample_run] t(1) by simp
  from tunnel_drains [OF tcp_sample_start this _ t(2)] t show ?thesis by auto
qed

theorem half_close_loses_answer_witness:
  "\<exists>s t. tcp_reach tcp_sample s \<and> tx_tunnels s = [t] \<and> work t = 0 \<and> tu_read t Down = tu_written t Down @ ''x''"
  using half_close_loses_answer [OF tcp_sample_start tcp_sample_run, of 0 answered_tunnel "''x''"] by auto

end
