(* ===== verification/Spec2Isabelle.thy ===== *)
theory Spec2Isabelle
  imports PushNotifications RoutingEvents MediaPackets XormDatastore WebsocketRuns PipeRuns MailBackend
    HttpCodec NodeStart Topics TurnServer Softphone FasthttpSockets Channels MediaFiles HttpTunnels MailServer
    IonSignals TcpTunnels
begin

text \<open>
  A model of \<^verbatim>\<open>go-colla-node\<close>, a peer of a network in which clients exchange messages and store blocks of
  data. The node sits on a Kademlia DHT (libp2p) and a database (an ORM). A request arrives as bytes, is
  decoded into a \<open>ChainMessage\<close>, decrypted and verified, dispatched by its type to a handler and
  answered; a message for somebody else is relayed to the endpoint at which the receiver is connected. The
  records of peers, blocks and index entries lie in the DHT under keys \<open>/namespace/id\<close>; each namespace has
  a validator and a database table. Blocks of data are stored by one of three consensus protocols, whose
  messages travel the same way. Clients and nodes also talk directly: WebRTC connections are negotiated by
  signals that travel as messages, and rooms forward the tracks of their members. Clients reach a node over
  websockets, other nodes over streams of libp2p; mail, push notifications, rooms of a LiveKit server, a
  softphone and a few proxies stand beside it.

  \<^bold>\<open>Theories\<close>, in the order in which they build on each other:

  \<^item> \<open>Prelude\<close>: results (\<open>Err\<close> is a returned error, \<open>Panic\<close> a run-time panic), \<open>uint64\<close> as 64-bit
    words and the counting loop over them, time, and the string functions of the Go library.
  \<^item> \<open>Entity\<close>: the structs of \<^verbatim>\<open>p2p/chain/entity\<close>, \<^verbatim>\<open>p2p/dht/entity\<close> and \<^verbatim>\<open>p2p/msg/entity\<close> as
    records with all their fields, the message types of \<^verbatim>\<open>p2p/msgtype\<close>, the payloads of a message.
  \<^item> \<open>External\<close>: what is not under \<^verbatim>\<open>src/\<close> as the records \<open>library\<close> (functions without effects:
    hashes, codecs, signatures) and \<open>env\<close> (operations on the world \<open>'w\<close>: DHT, database, file store, pipes,
    memory caches, clock); the state of a node with its started goroutines as a list of tasks.
  \<^item> \<open>Namespace\<close>: \<^verbatim>\<open>libp2p/ns/default.go\<close> and the table of validators in \<^verbatim>\<open>libp2p/dht.go\<close>: keys,
    \<open>Validate\<close> and \<open>Select\<close> of the six validators.
  \<^item> \<open>Registry\<close>: the handler registries of \<^verbatim>\<open>p2p/chain/handler/default.go\<close> and
    \<^verbatim>\<open>p2p/handler/default.go\<close> and the dispatching datastore of \<^verbatim>\<open>libp2p/datastore\<close>.
  \<^item> \<open>Dht\<close>: \<^verbatim>\<open>libp2p/dht/default.go\<close>, records in the local store and in the DHT.
  \<^item> \<open>PeerServices\<close>: \<^verbatim>\<open>p2p/dht/service\<close>, the peer clients, endpoints, chain apps and this node.
  \<^item> \<open>Handler\<close>: \<^verbatim>\<open>p2p/chain/handler/base.go\<close>, \<open>Encrypt\<close> and \<open>Decrypt\<close>, keys of peers, responses.
  \<^item> \<open>Relay\<close>: \<^verbatim>\<open>p2p/chain/handler/sender\<close> and \<^verbatim>\<open>receiver\<close>: sending, relaying, dispatching, connections.
  \<^item> \<open>PeerTransactions\<close>, \<open>DataBlocks\<close>: \<^verbatim>\<open>p2p/chain/service/peertransaction.go\<close> and
    \<^verbatim>\<open>datablock.go\<close>: the index of the blocks, and storing, querying, deleting and expiring them.
  \<^item> \<open>Consensus\<close>: \<^verbatim>\<open>consensus/default.go\<close> and the actions that send its messages.
  \<^item> \<open>StdConsensus\<close>: \<^verbatim>\<open>consensus/std/default.go\<close>, handlers, final commit, and runs of a node.
  \<^item> \<open>PhaseLogs\<close>, \<open>PbftConsensus\<close>, \<open>RaftConsensus\<close>: \<^verbatim>\<open>consensus/pbft/default.go\<close> and
    \<^verbatim>\<open>consensus/raft/default.go\<close>, first what the two have in common.
  \<^item> \<open>DhtActions\<close>: the actions of \<^verbatim>\<open>p2p/chain/action/dht\<close> that read, write and query values, connect
    clients and receive signals, and the kept messages of \<^verbatim>\<open>p2p/msg/service/biz\<close>.
  \<^item> \<open>LivekitRooms\<close>: \<^verbatim>\<open>p2p/chain/action/dht/manageroom.go\<close> and what it uses of \<^verbatim>\<open>livekit/default.go\<close>.
  \<^item> \<open>NodeHandlers\<close>: \<^verbatim>\<open>p2pChat.go\<close> and the table of all handlers that the \<open>init\<close> functions register.
  \<^item> \<open>MessageSlices\<close>, \<open>WebrtcSignals\<close>: \<^verbatim>\<open>webrtc/message_slice.go\<close>, \<^verbatim>\<open>signal.go\<close> and the structs of
    \<^verbatim>\<open>default.go\<close>.
  \<^item> \<open>PeerConnections\<close>, \<open>ConnectionPool\<close>: \<^verbatim>\<open>webrtc/base_peer_connection.go\<close>, \<^verbatim>\<open>datachannel.go\<close>,
    \<^verbatim>\<open>advanced_peer_connection.go\<close> and \<^verbatim>\<open>peer_connection_pool.go\<close>; \<open>PoolInvariant\<close> and \<open>PoolBehaviour\<close>
    hold their proofs.
  \<^item> \<open>MediaTracks\<close>, \<open>Sfu\<close>: \<^verbatim>\<open>webrtc/mediastream.go\<close>, \<^verbatim>\<open>track.go\<close> and \<^verbatim>\<open>sfu.go\<close>; \<open>SfuRooms\<close> refines the
    rooms.
  \<^item> \<open>XormDatastore\<close>: \<^verbatim>\<open>libp2p/datastore/xorm/default.go\<close>, the datastore on the database.
  \<^item> \<open>AssocLists\<close>, \<open>Effects\<close>: pools as lists with distinct keys, and operations that keep a relation
    between states; lemmas for the theories that follow.
  \<^item> \<open>Websockets\<close>, \<open>WebsocketRuns\<close>: \<^verbatim>\<open>transport/websocket/stdhttp/server.go\<close>, the operations and the
    interleaved runs of its goroutines; \<open>Uploads\<close>: the upload of files in the same file;
    \<open>FasthttpSockets\<close>: the second server, \<^verbatim>\<open>transport/websocket/fasthttp/server.go\<close>.
  \<^item> \<open>Channels\<close>: \<^verbatim>\<open>p2p/channel/default.go\<close>, message channels over streams.
  \<^item> \<open>Pipes\<close>, \<open>PipeRuns\<close>: \<^verbatim>\<open>libp2p/pipe\<close> and \<^verbatim>\<open>p2p/handler\<close>, streams, pipes and their two pools.
  \<^item> \<open>MediaPackets\<close>: the packet loops of \<^verbatim>\<open>webrtc/track.go\<close>, \<^verbatim>\<open>webrtc/mediastream.go\<close> and \<^verbatim>\<open>webrtc/sfu.go\<close>.
  \<^item> \<open>PushNotifications\<close>: the six push services in \<^verbatim>\<open>p2pChat.go\<close>.
  \<^item> \<open>RoutingEvents\<close>: \<open>PeerAdded\<close> and \<open>PeerRemoved\<close> of \<^verbatim>\<open>libp2p/dht.go\<close>, and the list of peers in
    \<^verbatim>\<open>connect.go\<close>.
  \<^item> \<open>MailBackend\<close>: \<^verbatim>\<open>mail/imap/backend\<close> and \<^verbatim>\<open>mail/smtp/backend.go\<close>, accounts, mailboxes and messages.
  \<^item> \<open>HttpCodec\<close>: \<^verbatim>\<open>transport/http/server.go\<close>, an HTTP server on a raw TCP server.
  \<^item> \<open>PeerAddresses\<close>: \<^verbatim>\<open>libp2p/util/util.go\<close> and \<^verbatim>\<open>libp2p/bootstrap.go\<close>; \<open>NodeStart\<close>:
    \<^verbatim>\<open>libp2p/default.go\<close>, the start of a node with its keys and its record.
  \<^item> \<open>Topics\<close>: \<^verbatim>\<open>libp2p/pubsub/default.go\<close>; \<open>Gateways\<close>: \<^verbatim>\<open>transport/httpproxy\<close>, \<^verbatim>\<open>transport/tcpproxy\<close> and
    the users of \<^verbatim>\<open>turn/server\<close>; \<open>TurnServer\<close>: the rest of that file; \<open>TcpTunnels\<close>: the connections
    of the TCP proxy.
  \<^item> \<open>SipMessages\<close>, \<open>Softphone\<close>: \<^verbatim>\<open>webrtc/sip\<close>, writing and reading SIP messages, and the softphone with
    the listeners that wait for its replies.
  \<^item> \<open>MediaFiles\<close>: \<^verbatim>\<open>webrtc/stream/file.go\<close>; \<open>IonSignals\<close>: \<^verbatim>\<open>webrtc/ion/sfu/signal.go\<close>.
  \<^item> \<open>HttpTunnels\<close>: \<^verbatim>\<open>libp2p/proxy/default.go\<close> and \<^verbatim>\<open>libp2p/http/client.go\<close>; \<open>MailServer\<close>:
    \<^verbatim>\<open>mail/maddy/default.go\<close>.
  \<^item> This theory: runs of a whole node, alone and behind the websockets, pipes and topics that
    \<^verbatim>\<open>p2p/chain/handler/receiver/default.go\<close> connects it to.

  \<^bold>\<open>How the code is read.\<close> A function that may fail returns \<open>go_error + 'a\<close>; \<open>and_then\<close> is the test of
  \<open>err != nil\<close> that returns it. A pointer that may be nil is an option, a nil dereference or a failed type
  assertion is a \<open>Panic\<close>, which, unlike an \<open>Err\<close>, no caller turns into an answer. A function that changes
  a struct through a pointer returns the struct as it leaves it. A goroutine is a \<open>task\<close> that is appended
  to the tasks of the node; \<open>run_task\<close> runs its body at any later time. Logging is left out. Each operation
  runs without interruption; the properties of runs (\<open>connections\<close>, \<open>std_run\<close>, \<open>node_run\<close>, \<open>pool_reach\<close>,
  \<open>sfu_reach\<close>) hold for every order of the operations. Where goroutines share channels, the websockets, the
  pipes, the TCP proxy and the packet loops, the steps are smaller: each receive, send, read and write is one, and a run is
  any interleaving of them. The goroutines of the softphone are runs of the listeners in any order. The order in which \<open>range\<close> visits a map is a
  parameter. WebRTC connections are objects behind pointers: a pointer is an index into the list of all
  connections, so that the pool and the rooms share them.

  \<^bold>\<open>Loops.\<close> Most loops are recursions on lists. Loops over an index and those that eat a text
  (\<open>HttpCodec\<close>, \<open>Gateways\<close>) are functions with a measure. The loop over \<open>uint64\<close> is \<open>for_upto\<close>, a partial
  function whose \<open>None\<close> is a loop that does not return; \<open>for_upto_each\<close> shows that it is the loop over
  the list of its indices, except when the limit is the largest number. The negotiation of a connection
  calls itself as long as its counter allows: \<open>negotiate_rounds\<close> has this counter as its bound, and
  \<open>negotiate_ends\<close> shows that more rounds change nothing. The loops of \<open>MediaFiles\<close> that read a track are
  partial functions; \<open>pushing_ends\<close> shows when those over the samples of a packet return, and
  \<open>Snapshot_never_returns\<close> when one does not. Loops that are meant to run for ever, of a connection, a
  subscription or a track, are modelled by their rounds. No other fuel is used.

  \<^bold>\<open>Interfaces.\<close> The locale \<open>registry\<close> is the contract of the registries (what a lookup finds after a
  registration), \<open>kv_store\<close> that of a store (what a lookup finds after a write or a removal). They are
  interpreted on the handler and datastore registries and on the pool of connected clients; the caches of
  the consensus protocols are parameters that satisfy \<open>kv_store\<close> (\<open>cache_laws\<close>), and \<open>map_cache\<close> is one.
  The locale \<open>effect\<close> is a reflexive and transitive relation between states that all operations of a
  connection keep; it is interpreted for what the operations may do to the pool (\<open>tame\<close>), for those
  that leave the connections alone (\<open>same_conns\<close>) and for what the operations on pipes keep (\<open>kept\<close>).
  \<open>socket_server\<close> is what the two websocket servers share: a step opens a connection or moves one. Its lemmas,
  the state of the connections and the order of the messages, are proved once and interpreted for both.

  \<^bold>\<open>What is shown.\<close> \<open>StdConsensus\<close>: a block is committed only with enough replies of its peers, then
  always, and once per request. \<open>DataBlocks\<close>: who may replace or delete a block, the bound on the payload,
  and when the erasing loop ends. \<open>PbftConsensus\<close>, \<open>RaftConsensus\<close>: which phases can never complete, and
  how a single peer reaches the quorum. \<open>Handler\<close>: decryption undoes encryption where it does, the key used
  is the latest. \<open>Relay\<close>: chats are never dropped silently, answers, connections. \<open>Dht\<close>, \<open>Namespace\<close>,
  \<open>Registry\<close>: records are valid and never rolled back, validators and datastores match the keys.
  \<open>PeerServices\<close>, \<open>PeerTransactions\<close>: caching, and where reads and writes use different keys. This theory: a
  node with all its handlers refines the standard protocol, so that its commits need the quorum and happen
  once. \<open>DhtActions\<close>: what queries select, and what connecting stores and relays. \<open>MessageSlices\<close>,
  \<open>WebrtcSignals\<close>: slicing and merging, and what arrives of a signal. \<open>PoolInvariant\<close>, \<open>PoolBehaviour\<close>: the
  pool files connections under their own keys, clearing spares the connected ones, negotiation ends, and
  where the connections cannot work. \<open>SfuRooms\<close>: the rooms refine a forum of publishers and audiences.
  \<open>XormDatastore\<close>: its \<open>Put\<close> agrees with \<open>StoreValue\<close> where that accepts a block. \<open>WebsocketRuns\<close>: what holds
  of the connections and their channels in every run, that messages are written in order, that closing
  returns; this theory: the server, the pipes and the topics together refine the node. \<open>PipeRuns\<close>: what the pools hold, that a message is
  read as it was written, where pipes are spent or block. \<open>MediaPackets\<close>: packets are copied once.
  \<open>PushNotifications\<close>: a push is repeated at most once. \<open>RoutingEvents\<close>: which peers are recorded, and that
  the list of peers is never sent. \<open>MailBackend\<close>, \<open>Uploads\<close>: who logs in, which flags and files are kept.
  \<open>HttpCodec\<close>: parsing undoes writing, requests are answered in order, and what ends or confuses the server.
  \<open>PeerAddresses\<close>, \<open>NodeStart\<close>: to whom a node connects, that its record is brought up to date and its keys
  are found again. \<open>Topics\<close>, \<open>Gateways\<close>: the pool of topics, the turns of the backends, the credentials.
  \<open>LivekitRooms\<close>: who gets a token, and the requests that end the node. \<open>SipMessages\<close>, \<open>Softphone\<close>: messages
  are read as they were written, requests can be told apart, and when a registration counts. \<open>FasthttpSockets\<close>,
  \<open>Channels\<close>: the invariants of the connections, and that a channel nobody reads blocks. \<open>MediaFiles\<close>: the sizes of
  frames, the times of the blocks, which loops end. \<open>HttpTunnels\<close>, \<open>TurnServer\<close>, \<open>IonSignals\<close>: what arrives at the
  other end. \<open>MailServer\<close>: the names of the modules differ, and the server stops when it has started.
  \<open>TcpTunnels\<close>: bytes are copied in order, no goroutine of a closed connection is left, and what gets lost.

  \<^bold>\<open>Hypotheses.\<close> Where a property needs something of the code outside, it is a premise of the theorem: the
  laws of a cache, that the insertion of a row changes only its \<open>Id\<close>, that decoding undoes encoding. Each
  such theorem is followed by a witness on a concrete environment (\<open>sample_env\<close> and variants).

  \<^bold>\<open>What is not modelled.\<close> The options of the third-party DHT, the wrappers of its routing table and of its
  keys, which are one call of the library each; the plain TCP and UDP servers, TLS settings, test clients and
  example programs; GStreamer; \<^verbatim>\<open>pool.go\<close> and \<^verbatim>\<open>peer.go\<close> of the Ion SFU, which are comments. Nil elements in the
  list of transaction keys of a block are left out. The amounts are rational numbers, not floats, and the two
  floating point expressions of \<open>MediaFiles\<close> are parameters. Handlers get the message by value. Rows of the
  database are typed by their table.
\<close>

section \<open>Runs of a node\<close>

text \<open>
  A node works off the messages it receives, the connections that close, the tasks that its handlers have
  started and the expiry of the entries of its cache. What else changes its stores is \<open>Outside\<close>: other
  nodes, and the tasks whose bodies are not modelled.
\<close>

definition run_task ::
  "'w env \<Rightarrow> 'w datastores \<Rightarrow> task \<Rightarrow> ('w, 'c) node \<Rightarrow> ('w, 'c) node" where
  "run_task E R t s =
     (case t of
        GoRelaySend msg \<Rightarrow> snd (RelaySend E R msg s)
      | GoConsensusDataBlock i msgType db target \<Rightarrow> snd (ConsensusDataBlock E R i msgType db target s)
      | GoConsensusLog i msgType lg target \<Rightarrow> snd (ConsensusLog E R i msgType lg target s)
      | GoFinalCommit db lg \<Rightarrow> snd (finalCommit E R db lg s)
      | GoPutLocal key val \<Rightarrow> snd (on_world (PutLocal E R key val) s)
      | GoBizRelaySend pc \<Rightarrow> snd (Biz_RelaySend E pc s)
      | _ \<Rightarrow> s)"

datatype node_event =
  Received string
| Disconnected string
| Ran task
| Expired string
| Outside

inductive node_step ::
  "'w env \<Rightarrow> 'w datastores \<Rightarrow> 'c cache_ops \<Rightarrow> (string \<times> 'f) list \<Rightarrow>
   (push_channel \<Rightarrow> peer_client \<Rightarrow> string \<Rightarrow> 'w \<Rightarrow> unit res \<times> 'w) \<Rightarrow> node_event \<Rightarrow>
   ('w, 'c caches) node \<Rightarrow> ('w, 'c caches) node \<Rightarrow> bool"
  for E R C receivers push where
  received: "ReceiveRaw E R (node_handlers E R C receivers push) data src client sess addr s = (r, s') \<Longrightarrow>
     node_step E R C receivers push (Received data) s s'"
| disconnected: "HandleDisconnected E R sess s = (r, s') \<Longrightarrow> node_step E R C receivers push (Disconnected sess) s s'"
| ran: "t \<in> set (nd_tasks s) \<Longrightarrow> node_step E R C receivers push (Ran t) s (run_task E R t s)"
| expired: "node_step E R C receivers push (Expired key) s (cache_delete (std_cache C) key s)"
| outside: "node_step E R C receivers push Outside s (s\<lparr>nd_world := w\<rparr>)"

inductive_cases node_step_cases: "node_step E R C receivers push ev s s'"

inductive node_run ::
  "'w env \<Rightarrow> 'w datastores \<Rightarrow> 'c cache_ops \<Rightarrow> (string \<times> 'f) list \<Rightarrow>
   (push_channel \<Rightarrow> peer_client \<Rightarrow> string \<Rightarrow> 'w \<Rightarrow> unit res \<times> 'w) \<Rightarrow>
   ('w, 'c caches) node \<Rightarrow> node_event list \<Rightarrow> ('w, 'c caches) node \<Rightarrow> bool"
  for E R C receivers push s where
  start: "node_run E R C receivers push s [] s"
| step: "node_run E R C receivers push s evs s1 \<Longrightarrow> node_step E R C receivers push ev s1 s2 \<Longrightarrow>
     node_run E R C receivers push s (evs @ [ev]) s2"

text \<open>A received message that is a request of the standard protocol, or a chat.\<close>

fun asks :: "'a library_scheme \<Rightarrow> node_event \<Rightarrow> bool" where
  "asks E (Received data) = std_request (cm_MessageType (fst (lib_UnmarshalMessage E data)))"
| "asks E _ = False"

lemma aside_Send: "aside C s (snd (Send E R msg s))" "aside C s (snd (DirectSend E R msg s))"
  unfolding Send_def DirectSend_def
  by (auto intro!: aside_intros aside_trans [OF _ aside_RelaySend] split: option.split go_error.split)

lemma aside_sends:
  "aside C s (snd (ConsensusDataBlock E R i t db target s))"
  "aside C s (snd (ConsensusLog E R i t lg target s))"
  "aside C s (snd (Biz_RelaySend E pc s))"
proof -
  show "aside C s (snd (ConsensusDataBlock E R i t db target s))"
    unfolding ConsensusDataBlock_def by (rule aside_and_then [OF aside_Send(2)]) (simp add: aside_refl)
  show "aside C s (snd (ConsensusLog E R i t lg target s))"
    unfolding ConsensusLog_def Let_def
    by (rule aside_and_then) (simp_all add: aside_Send aside_refl)
  show "aside C s (snd (Biz_RelaySend E pc s))"
    unfolding Biz_RelaySend_def
    by (rule aside_and_then [OF aside_on_world], rule aside_step(4), rule aside_fold_start) (simp_all add: aside_refl)
qed

lemma aside_run_task: "\<not> is_commit t \<Longrightarrow> aside C s (run_task E R t s)"
  unfolding run_task_def
  by (cases t; simp only: task.case is_commit.simps)
    (rule aside_sends aside_RelaySend aside_on_world aside_refl | simp)+

lemma node_step_runs:
  assumes "node_step E R C receivers push ev s s'"
  shows "std_runs E R (std_cache C) (if asks E ev then 1 else 0) s s'"
  using assms
proof cases
  case (received data src client sess addr r)
  from received(2) show ?thesis
  proof (cases rule: ReceiveRaw_node)
    case same
    then show ?thesis by (intro std_runs_aside same_work_aside)
  next
    case (relayed msg)
    have "aside (std_cache C) s (go_start (GoRelaySend msg) s)" by (simp add: aside_def)
    from aside_trans [OF this same_work_aside [OF relayed]] show ?thesis by (rule std_runs_aside)
  next
    case (handled msg receive s1)
    have "std_runs E R (std_cache C) (if asks E ev then 1 else 0) s1 (snd (receive msg s1))"
      using handler_runs [OF handled(4), of s1 msg] received(1) handled(2) by simp
    from std_runs_aside_left [OF same_work_aside [OF handled(1)] this]
    show ?thesis by (rule std_runs_aside_right) (rule same_work_aside [OF handled(5)])
  qed
next
  case (disconnected sess r)
  then show ?thesis
    using same_work_HandleDisconnected [of s E R sess] by (auto intro!: std_runs_aside same_work_aside)
next
  case (ran t)
  show ?thesis
  proof (cases "is_commit t")
    case True
    with ran std_runs_std(4) show ?thesis by (cases t) (auto simp: run_task_def)
  next
    case False
    from std_runs_aside [OF aside_run_task [OF this]] ran show ?thesis by simp
  qed
next
  case (expired key)
  then show ?thesis by (auto intro: std_runs_step std_step.expire)
next
  case (outside w)
  then show ?thesis by (auto intro!: std_runs_aside aside_world)
qed

lemma node_run_runs:
  assumes "node_run E R C receivers push s evs s'"
  shows "std_runs E R (std_cache C) (length (filter (asks E) evs)) s s'"
  using assms
proof induction
  case start
  then show ?case by (simp add: std_runs_refl)
next
  case (step evs s1 ev s2)
  from std_runs_trans [OF step.IH node_step_runs [OF step.hyps(2)]] show ?case by (auto split: if_splits)
qed

section \<open>The node behind the websocket server\<close>

text \<open>
  \<open>receiver/default.go\<close> registers \<open>ReceiveRaw\<close> and \<open>HandleDisconnected\<close> with the server when the program
  starts. What else reaches the node is left to its own steps.
\<close>

definition serving ::
  "'w env \<Rightarrow> 'w datastores \<Rightarrow> 'c cache_ops \<Rightarrow> (string \<times> 'f) list \<Rightarrow>
   (push_channel \<Rightarrow> peer_client \<Rightarrow> string \<Rightarrow> 'w \<Rightarrow> unit res \<times> 'w) \<Rightarrow> ('w, 'c caches) node ws_env \<Rightarrow> ('w, 'c caches) node ws_env"
  where
  "serving E R C receivers push W =
     RegistDisconnectedHandler (HandleDisconnected E R)
       (RegistMessageHandler (ReceiveRaw E R (node_handlers E R C receivers push)) W)"

abbreviation stepping ::
  "'w env \<Rightarrow> 'w datastores \<Rightarrow> 'c cache_ops \<Rightarrow> (string \<times> 'f) list \<Rightarrow>
   (push_channel \<Rightarrow> peer_client \<Rightarrow> string \<Rightarrow> 'w \<Rightarrow> unit res \<times> 'w) \<Rightarrow> ('w, 'c caches) node \<Rightarrow> ('w, 'c caches) node \<Rightarrow> bool"
  where
  "stepping E R C receivers push s s' \<equiv> \<exists>ev. node_step E R C receivers push ev s s'"

lemma serving_step:
  assumes "ws_step (serving E R C receivers push W) other ev s s'"
  shows "ws_node s' = ws_node s \<or> (\<exists>ev'. node_step E R C receivers push ev' (ws_node s) (ws_node s')) \<or>
    other (ws_node s) (ws_node s')"
  using assms
proof (cases rule: ws_step_node)
  case moves
  then show ?thesis
    by (auto simp: node_moves_def serving_def RegistDisconnectedHandler_def RegistMessageHandler_def
        intro: node_step.received node_step.disconnected)
qed auto

lemma serving_run:
  assumes "ws_run (serving E R C receivers push W) other (no_sockets n) evs s"
    and "\<And>s1 s2 evs. other s1 s2 \<Longrightarrow> node_run E R C receivers push n evs s1 \<Longrightarrow>
      \<exists>evs'. node_run E R C receivers push n evs' s2"
  shows "\<exists>evs'. node_run E R C receivers push n evs' (ws_node s)"
  using assms(1)
proof induction
  case start
  have "node_run E R C receivers push n [] (ws_node (no_sockets n))"
    by (simp add: no_sockets_def node_run.start)
  then show ?case ..
next
  case (step evs s ev s')
  then obtain evs' where run: "node_run E R C receivers push n evs' (ws_node s)" by blast
  from serving_step [OF step.hyps(2)] consider "ws_node s' = ws_node s"
    | ev' where "node_step E R C receivers push ev' (ws_node s) (ws_node s')"
    | "other (ws_node s) (ws_node s')" by blast
  then show ?case using run by cases (auto intro: node_run.step assms(2))
qed

section \<open>The node behind its transports\<close>









section \<open>Properties of a node\<close>


text \<open>The same for the websocket server alone, over any world.\<close>

theorem sockets_refine_node:
  assumes "ws_run (serving E R C receivers push W) (stepping E R C receivers push) (no_sockets n) evs s"
  shows "\<exists>evs'. node_run E R C receivers push n evs' (ws_node s)"
  by (rule serving_run [OF assms]) (blast intro: node_run.step)

text \<open>
  C4: a whole node refines the standard protocol. Whatever it receives for whichever of its handlers, and
  in whichever order its tasks run, what happens to the cache and the commits of the standard protocol is
  a run of that protocol, with at most one request for each request or chat that the node has received.
\<close>

theorem node_refines_std:
  assumes "node_run E R C receivers push s evs s'"
  shows "\<exists>evs'. std_run E R (std_cache C) s evs' s' \<and>
    (\<forall>k. length (filter (requests k) evs') \<le> length (filter (asks E) evs))"
  using node_run_runs [OF assms] by (simp add: std_runs_def)


text \<open>
  C1: a received message makes a node commit a block only when it is a reply of the standard protocol from
  another peer, the block is in the cache of the protocol, and the replies of at least \<open>StdMinPeerNum\<close>
  of its peers are at hand; the block is then out of the cache.
\<close>

theorem node_commit_quorum:
  fixes s s' :: "('w, 'c caches) node"
  assumes "cache_laws C"
    and "ReceiveRaw E R (node_handlers E R C receivers push) data src client sess addr s = (r, s')"
    and "GoFinalCommit db l \<in> set (drop (length (nd_tasks s)) (nd_tasks s'))"
  shows "cm_MessageType (fst (lib_UnmarshalMessage E data)) = MT_CONSENSUS_REPLY \<and>
    (\<exists>m db0. cl_PeerId m \<noteq> cl_PrimaryPeerId m \<and> db = db0\<lparr>db_Status := cst_Effective E\<rparr> \<and>
      mc_Get C (GetDataBlockCacheKey (cl_BlockId m) (cl_SliceNumber m)) (cc_std (nd_cache s)) = Some (CBlock db0) \<and>
      mc_Get C (GetDataBlockCacheKey (cl_BlockId m) (cl_SliceNumber m)) (cc_std (nd_cache s')) = None \<and>
      cfg_StdMinPeerNum E \<le> int (length (filter
        (\<lambda>i. has_reply C m (cc_std (nd_cache s)) i \<or> GetLogCacheKey (reply_log m i) = GetLogCacheKey m)
        (split_on (CHR '','') (db_PeerIds db0)))))"
  using assms(2)
proof (cases rule: ReceiveRaw_node)
  case (handled msg receive s1)
  let ?s2 = "snd (receive msg s1)"
  have new: "GoFinalCommit db l \<in> set (drop (length (nd_tasks s1)) (nd_tasks ?s2))"
    using assms(3) handled(1,5) by (simp add: same_work_def)
  have "cm_MessageType msg = MT_CONSENSUS_REPLY"
  proof (rule ccontr)
    assume "cm_MessageType msg \<noteq> MT_CONSENSUS_REPLY"
    from handler_commits [OF handled(4) this, of s1 msg] new show False
      by (fastforce simp: aside_no_cache)
  qed
  moreover from this have receive: "receive = Std_ReceiveReply E (std_cache C)"
    using handled(4) by (simp add: handler_table_def)
  moreover obtain r2 s2 where run: "Std_ReceiveReply E (std_cache C) msg s1 = (r2, s2)" by fastforce
  moreover have "nd_tasks s2 \<noteq> nd_tasks s1" using new receive run by auto
  from std_commit_effect [OF own_cache_laws(1) [OF assms(1)] run this] obtain m db0 where eff:
    "cl_PeerId m \<noteq> cl_PrimaryPeerId m"
    "mc_Get C (GetDataBlockCacheKey (cl_BlockId m) (cl_SliceNumber m)) (cc_std (nd_cache s1)) = Some (CBlock db0)"
    "mc_Get C (GetDataBlockCacheKey (cl_BlockId m) (cl_SliceNumber m)) (cc_std (nd_cache s2)) = None"
    "nd_tasks s2 = nd_tasks s1 @ [GoFinalCommit (db0\<lparr>db_Status := cst_Effective E\<rparr>) (reply_log m (cl_PrimaryPeerId m))]"
    "cfg_StdMinPeerNum E \<le> int (length (filter
        (\<lambda>i. has_reply C m (cc_std (nd_cache s1)) i \<or> GetLogCacheKey (reply_log m i) = GetLogCacheKey m)
        (split_on (CHR '','') (db_PeerIds db0))))"
    by (auto simp: std_cache_def has_reply_def)
  ultimately show ?thesis
    using new handled by (auto simp: same_work_def)
qed (use assms(3) in \<open>auto simp: same_work_def\<close>)

lemma run_handler_node_eq:
  assumes "cm_MessageDirect msg = MsgDirect_Request" and "cm_MessageType msg = t"
  shows "run_handler (node_handlers E R C receivers push) msg s =
    (case map_of (handler_table E R C receivers push) t of
       None \<Rightarrow> (Inr (Some (ErrorMessage t (Err ''NotExist'')), Some (Err ''NotExist''), msg), s)
     | Some receive \<Rightarrow>
         (case receive msg s of
            (Inl (Panic p), s2) \<Rightarrow> (Inl (Panic p), s2)
          | (Inl (Err e), s2) \<Rightarrow> (Inr (Some (ErrorMessage t (Err e)), Some (Err e), msg), s2)
          | (Inr response, s2) \<Rightarrow>
              (Inr (Some (case response of None \<Rightarrow> OkMessage t | Some r \<Rightarrow> r), None, msg), s2)))"
proof -
  note found = node_handlers_find [of E R C receivers push t]
  show ?thesis
  proof (cases "map_of (handler_table E R C receivers push) t")
    case None
    with found assms show ?thesis by (simp add: run_handler_def GetChainMessageHandler_def)
  next
    case (Some receive)
    with found obtain h where "node_handlers E R C receivers push t = Some h"
      and "cmh_ReceiveHandler h = receive" by (auto simp: handler_functions_def)
    with Some assms show ?thesis
      by (auto simp: run_handler_def GetChainMessageHandler_def Let_def
          split: prod.split sum.split go_error.split option.split)
  qed
qed

text \<open>
  C5: a request of a registered type for this node runs the handler of this type, once, on the message as
  decryption leaves it, also when it fails; its result is answered. A request of another type is answered
  with an error.
\<close>

theorem dispatch_runs_handler:
  assumes "cm_TargetPeerId msg = [] \<or> IsMyself E (cm_TargetPeerId msg)"
    and "on_world (Decrypt E R msg) s = ((msg', err), s1)" and "\<forall>p. err \<noteq> Some (Panic p)"
    and "cm_MessageDirect msg' = MsgDirect_Request"
  shows "Dispatch E R (node_handlers E R C receivers push) msg s =
    (let t = cm_MessageType msg in
     case map_of (handler_table E R C receivers push) t of
       None \<Rightarrow> (Inr (Some (ErrorMessage t (Err ''NotExist'')), Some (Err ''NotExist''), msg'), s1)
     | Some receive \<Rightarrow>
         (case receive msg' s1 of
            (Inl (Panic p), s2) \<Rightarrow> (Inl (Panic p), s2)
          | (Inl (Err e), s2) \<Rightarrow> (Inr (Some (ErrorMessage t (Err e)), Some (Err e), msg'), s2)
          | (Inr response, s2) \<Rightarrow>
              (Inr (Some (case response of None \<Rightarrow> OkMessage t | Some r \<Rightarrow> r), None, msg'), s2)))"
proof -
  have t: "cm_MessageType msg' = cm_MessageType msg"
    using decrypt_keeps_header on_world_Pair [OF assms(2)] by metis
  have "Dispatch E R (node_handlers E R C receivers push) msg s =
      run_handler (node_handlers E R C receivers push) msg' s1"
    using assms(1-3) by (cases err; cases "the err") (auto simp: Dispatch_def)
  then show ?thesis using run_handler_node_eq [OF assms(4) t] by (simp add: Let_def)
qed

section \<open>The properties on a concrete node\<close>

text \<open>The primary of \<^verbatim>\<open>StdConsensus\<close> as a whole node that gets the reply of its peer as bytes.\<close>

definition whole_sample :: "unit env" where
  "whole_sample = primary_sample\<lparr>lib_UnmarshalMessage := (\<lambda>data.
     (if data = ''q''
      then request_sample\<lparr>cm_MessageType := MT_CONSENSUS, cm_MessageDirect := MsgDirect_Request\<rparr>
      else reply_sample\<lparr>cm_MessageType := MT_CONSENSUS_REPLY, cm_MessageDirect := MsgDirect_Request\<rparr>, None))\<rparr>"

definition whole_node :: "(string \<rightharpoonup> cache_val) \<Rightarrow> (unit, (string \<rightharpoonup> cache_val) caches) node" where
  "whole_node c = \<lparr>nd_world = (), nd_cache = \<lparr>cc_std = c, cc_pbft = Map.empty, cc_raft = Map.empty\<rparr>,
     nd_pool = Map.empty, nd_tasks = []\<rparr>"

abbreviation no_push :: "push_channel \<Rightarrow> peer_client \<Rightarrow> string \<Rightarrow> unit \<Rightarrow> unit res \<times> unit" where
  "no_push \<equiv> \<lambda>_ _ _ w. (Inr (), w)"

abbreviation receive_sample ::
  "string \<Rightarrow> (unit, (string \<rightharpoonup> cache_val) caches) node \<Rightarrow> string res \<times> (unit, (string \<rightharpoonup> cache_val) caches) node"
  where
  "receive_sample data \<equiv> ReceiveRaw whole_sample no_datastores
     (node_handlers whole_sample no_datastores map_cache ([] :: (string \<times> unit) list) no_push) data [] [] [] []"

lemma whole_sample_type [simp]:
  "cm_MessageType (fst (lib_UnmarshalMessage whole_sample ''q'')) = MT_CONSENSUS"
  "cm_MessageType (fst (lib_UnmarshalMessage whole_sample ''x'')) = MT_CONSENSUS_REPLY"
  by (simp_all add: whole_sample_def)

text \<open>A request, and the reply of the peer twice.\<close>

definition sample_end :: "(string \<rightharpoonup> cache_val) \<Rightarrow> (unit, (string \<rightharpoonup> cache_val) caches) node" where
  "sample_end c = snd (receive_sample ''x'' (snd (receive_sample ''x'' (snd (receive_sample ''q'' (whole_node c))))))"

lemma sample_run:
  "node_run whole_sample no_datastores map_cache ([] :: (string \<times> unit) list) no_push (whole_node c)
     ((([] @ [Received ''q'']) @ [Received ''x'']) @ [Received ''x'']) (sample_end c)"
  unfolding sample_end_def
  by (rule node_run.step [OF node_run.step [OF node_run.step [OF node_run.start node_step.received]
        node_step.received] node_step.received])
    (rule prod.collapse [symmetric])+

theorem node_refines_std_witness:
  "\<exists>evs. std_run whole_sample no_datastores (std_cache map_cache) (whole_node Map.empty) evs (sample_end Map.empty) \<and>
     (\<forall>k. length (filter (requests k) evs) \<le> 1)"
  using node_refines_std [OF sample_run [of Map.empty]] by (simp add: std_request_def)


definition whole_server :: "(unit, (string \<rightharpoonup> cache_val) caches) node ws_env" where
  "whole_server = serving whole_sample no_datastores map_cache ([] :: (string \<times> unit) list) no_push
     \<lparr>we_Path = ''/ws'', we_chanBufferSize = 1, we_messageHandler = None, we_disconnectedHandler = None,
      we_RemoteAddr = \<lambda>_. []\<rparr>"

text \<open>A client connects, and the node receives a request from elsewhere.\<close>

definition served_sample :: "(unit, (string \<rightharpoonup> cache_val) caches) node websockets" where
  "served_sample = (websocketHandler whole_server ''GET'' ''/ws'' ''a'' (no_sockets (whole_node Map.empty)))\<lparr>
     ws_node := snd (receive_sample ''q'' (whole_node Map.empty))\<rparr>"

lemma served_sample_run:
  "ws_run whole_server (stepping whole_sample no_datastores map_cache ([] :: (string \<times> unit) list) no_push)
    (no_sockets (whole_node Map.empty)) (([] @ [Opened ''a'']) @ [Quiet]) served_sample"
  unfolding served_sample_def
proof (rule ws_run.step [OF ws_run.step [OF ws_run.start ws_step.opened] ws_step.others])
  have "ws_node (websocketHandler whole_server ''GET'' ''/ws'' ''a'' (no_sockets (whole_node Map.empty))) =
      whole_node Map.empty"
    by (simp add: websocketHandler_def no_sockets_def)
  then show "stepping whole_sample no_datastores map_cache ([] :: (string \<times> unit) list) no_push
     (ws_node (websocketHandler whole_server ''GET'' ''/ws'' ''a'' (no_sockets (whole_node Map.empty))))
     (snd (receive_sample ''q'' (whole_node Map.empty)))"
    using node_step.received [OF prod.collapse [symmetric]] by (metis (no_types))
qed

theorem sockets_refine_node_witness:
  "\<exists>evs. node_run whole_sample no_datastores map_cache ([] :: (string \<times> unit) list) no_push (whole_node Map.empty) evs
     (snd (receive_sample ''q'' (whole_node Map.empty)))"
  using sockets_refine_node [OF served_sample_run [unfolded whole_server_def]] by (simp add: served_sample_def)







text \<open>The reply alone, to a node that has sent the block.\<close>

definition whole_reply :: chain_message where
  "whole_reply = reply_sample\<lparr>cm_MessageType := MT_CONSENSUS_REPLY, cm_MessageDirect := MsgDirect_Request,
     cm_SrcConnectPeerId := glb_PeerId whole_sample, cm_ConnectPeerId := glb_PeerId whole_sample\<rparr>"

lemma unit_world [simp]: "s\<lparr>nd_world := ()\<rparr> = (s :: (unit, 'c) node)"
  by (cases s) simp

lemma whole_reply_fields [simp]:
  "cm_TargetPeerId whole_reply = []" "cm_TransportPayload whole_reply = []"
  "cm_MessageType whole_reply = MT_CONSENSUS_REPLY" "cm_MessageDirect whole_reply = MsgDirect_Request"
  "GetConsensusLog whole_reply = GetConsensusLog reply_sample"
  by (simp_all add: whole_reply_def reply_sample_def chain_message0_def GetConsensusLog_def)

lemma whole_sample_fields [simp]:
  "known_myself whole_sample w = (Inr (myself_peer0\<lparr>my_Id := 1, my_PeerId := ''me''\<rparr>), w)"
  "cfg_StdMinPeerNum whole_sample = 1"
  by (simp_all add: known_myself_def MyselfPeer_GetFromCache_def cached_row_def whole_sample_def primary_sample_def)

lemma whole_reply_dispatched:
  "Dispatch whole_sample no_datastores hs whole_reply s = run_handler hs whole_reply s"
  by (simp add: Dispatch_def Decrypt_def on_world_def)

lemma whole_reply_handled:
  "run_handler (node_handlers whole_sample no_datastores map_cache ([] :: (string \<times> unit) list) no_push) whole_reply s =
    (case Std_ReceiveReply whole_sample (std_cache map_cache) whole_reply s of
       (Inl (Panic p), s2) \<Rightarrow> (Inl (Panic p), s2)
     | (Inl (Err e), s2) \<Rightarrow> (Inr (Some (ErrorMessage MT_CONSENSUS_REPLY (Err e)), Some (Err e), whole_reply), s2)
     | (Inr response, s2) \<Rightarrow>
         (Inr (Some (case response of None \<Rightarrow> OkMessage MT_CONSENSUS_REPLY | Some r \<Rightarrow> r), None, whole_reply), s2))"
  by (subst run_handler_node_eq [of _ MT_CONSENSUS_REPLY]) (simp_all add: whole_reply_def handler_table_def)

lemma whole_reply_received:
  "receive_sample ''x'' (whole_node c) =
    and_then (run_handler (node_handlers whole_sample no_datastores map_cache ([] :: (string \<times> unit) list) no_push)
       whole_reply (whole_node c))
      (\<lambda>(response, err, msg') s2. response_process whole_sample no_datastores msg' response err s2)"
proof -
  let ?m = "reply_sample\<lparr>cm_MessageType := MT_CONSENSUS_REPLY, cm_MessageDirect := MsgDirect_Request\<rparr>"
  have "lib_UnmarshalMessage whole_sample ''x'' = (?m, None)" "cm_SrcPeerId ?m = []"
    "address_message whole_sample [] [] ?m = whole_reply"
    by (simp_all add: whole_sample_def address_message_def Let_def whole_reply_def reply_sample_def chain_message0_def)
  then show ?thesis
    by (simp add: ReceiveRaw_def Let_def UpdatePeerClient_def peer_client0_def whole_reply_dispatched del: split_paired_All)
qed

lemma whole_reply_commits:
  "nd_tasks (snd (receive_sample ''x'' (whole_node (nd_cache waiting_node)))) =
     [GoFinalCommit (waiting_block\<lparr>db_Status := cst_Effective whole_sample\<rparr>) (reply_log (consensus_log0\<lparr>
     cl_PrimaryPeerId := ''me'', cl_PeerId := ''p'', cl_BlockId := ''b'', cl_Status := MT_CONSENSUS_REPLY\<rparr>) ''me'')]"
proof -
  let ?s = "whole_node (nd_cache waiting_node)"
  obtain r s' where run: "Std_ReceiveReply whole_sample (std_cache map_cache) whole_reply ?s = (r, s')" by fastforce
  have "r = Inr None \<and> nd_tasks s' = [GoFinalCommit (waiting_block\<lparr>db_Status := cst_Effective whole_sample\<rparr>)
     (reply_log (consensus_log0\<lparr>cl_PrimaryPeerId := ''me'', cl_PeerId := ''p'', cl_BlockId := ''b'',
        cl_Status := MT_CONSENSUS_REPLY\<rparr>) ''me'')]"
    using run
    by (auto simp: Std_ReceiveReply_def on_world_def Let_def cached_block_def cached_log_def record_reply_def
        std_quorum_def std_cache_def whole_node_def)
  then show ?thesis
    unfolding whole_reply_received whole_reply_handled run
    by (simp add: same_work_response_process [unfolded same_work_def])
qed

theorem node_commit_quorum_witness:
  "\<exists>(m :: consensus_log) db. mc_Get map_cache (GetDataBlockCacheKey (cl_BlockId m) (cl_SliceNumber m)) (nd_cache waiting_node) =
     Some (CBlock db) \<and> 1 \<le> int (length (split_on (CHR '','') (db_PeerIds db)))"
proof -
  obtain r s' where run: "receive_sample ''x'' (whole_node (nd_cache waiting_node)) = (r, s')" by fastforce
  have "GoFinalCommit (waiting_block\<lparr>db_Status := cst_Effective whole_sample\<rparr>) (reply_log (consensus_log0\<lparr>
     cl_PrimaryPeerId := ''me'', cl_PeerId := ''p'', cl_BlockId := ''b'', cl_Status := MT_CONSENSUS_REPLY\<rparr>) ''me'')
     \<in> set (drop (length (nd_tasks (whole_node (nd_cache waiting_node)))) (nd_tasks s'))"
    using whole_reply_commits run by (simp add: whole_node_def)
  from node_commit_quorum [OF map_cache_laws run this] obtain m db0 where
    block: "mc_Get map_cache (GetDataBlockCacheKey (cl_BlockId m) (cl_SliceNumber m))
      (cc_std (nd_cache (whole_node (nd_cache waiting_node)))) = Some (CBlock db0)"
    and n: "cfg_StdMinPeerNum whole_sample \<le> int (length (filter
      (\<lambda>i. has_reply map_cache m (cc_std (nd_cache (whole_node (nd_cache waiting_node)))) i \<or>
        GetLogCacheKey (reply_log m i) = GetLogCacheKey m) (split_on (CHR '','') (db_PeerIds db0))))"
    by blast
  have "1 \<le> int (length (split_on (CHR '','') (db_PeerIds db0)))"
    using n length_filter_le by (auto intro: le_trans)
  with block show ?thesis by (simp add: whole_node_def del: sample_keys) blast
qed

theorem dispatch_runs_handler_witness:
  "fst (Dispatch whole_sample no_datastores (node_handlers whole_sample no_datastores map_cache
     ([] :: (string \<times> unit) list) no_push) (whole_reply\<lparr>cm_MessageType := ''NONE''\<rparr>) (whole_node Map.empty)) =
   Inr (Some (ErrorMessage ''NONE'' (Err ''NotExist'')), Some (Err ''NotExist''), whole_reply\<lparr>cm_MessageType := ''NONE''\<rparr>)"
proof -
  have "on_world (Decrypt whole_sample no_datastores (whole_reply\<lparr>cm_MessageType := ''NONE''\<rparr>)) (whole_node Map.empty) =
      ((whole_reply\<lparr>cm_MessageType := ''NONE''\<rparr>, Some (Err ''NoTransportPayload'')), whole_node Map.empty)"
    by (simp add: on_world_def Decrypt_def)
  from dispatch_runs_handler [OF _ this, where C = map_cache and push = no_push and
      receivers = "[] :: (string \<times> unit) list"]
  show ?thesis by (simp add: handler_table_def Let_def)
qed

end
